(* ===== verification/Matter_Prelude.thy ===== *)
theory Matter_Prelude
  imports Main "HOL-Library.Word"
begin

text \<open>
  Shared vocabulary of the development: the C++ integer types as words, the error codes of
  \<open>MatterError.h\<close>, the control-flow macros of \<open>CodeUtils.h\<close> as combinators over results, and the
  generic lemmas the component theories share.

  A function of the source that may fail returns a result \<open>(MATTER_ERROR \<times> 's) option\<close>: \<open>Some (err, s)\<close>
  is a return with code \<open>err\<close> in state \<open>s\<close> (the state also of an error return, since the C++ objects
  keep what was written before the error), and \<open>None\<close> means that the call has no defined return: it
  reads or writes outside an object, dereferences a null pointer, or loops forever.
\<close>

unbundle bit_operations_syntax

section \<open>Machine integers\<close>

type_synonym byte = "8 word"
type_synonym u16 = "16 word"
type_synonym u32 = "32 word"
type_synonym u64 = "64 word"

section \<open>Error codes\<close>

named_theorems err_codes \<open>the error codes of MatterError.h\<close>

type_synonym MATTER_ERROR = int

definition MATTER_NO_ERROR :: MATTER_ERROR where [err_codes]: "MATTER_NO_ERROR = 0"
definition MATTER_ERROR_MIN :: MATTER_ERROR where [err_codes]: "MATTER_ERROR_MIN = 4000"
definition MATTER_ERROR_of :: "int \<Rightarrow> MATTER_ERROR" where
  [err_codes]: "MATTER_ERROR_of e = MATTER_ERROR_MIN + e"
definition MATTER_ERROR_INCORRECT_STATE :: MATTER_ERROR where
  [err_codes]: "MATTER_ERROR_INCORRECT_STATE = MATTER_ERROR_of 3"
definition MATTER_ERROR_NO_MEMORY :: MATTER_ERROR where
  [err_codes]: "MATTER_ERROR_NO_MEMORY = MATTER_ERROR_of 11"
definition MATTER_ERROR_BUFFER_TOO_SMALL :: MATTER_ERROR where
  [err_codes]: "MATTER_ERROR_BUFFER_TOO_SMALL = MATTER_ERROR_of 25"
definition MATTER_END_OF_TLV :: MATTER_ERROR where
  [err_codes]: "MATTER_END_OF_TLV = MATTER_ERROR_of 33"
definition MATTER_ERROR_TLV_UNDERRUN :: MATTER_ERROR where
  [err_codes]: "MATTER_ERROR_TLV_UNDERRUN = MATTER_ERROR_of 34"
definition MATTER_ERROR_INVALID_TLV_ELEMENT :: MATTER_ERROR where
  [err_codes]: "MATTER_ERROR_INVALID_TLV_ELEMENT = MATTER_ERROR_of 35"
definition MATTER_ERROR_INVALID_TLV_TAG :: MATTER_ERROR where
  [err_codes]: "MATTER_ERROR_INVALID_TLV_TAG = MATTER_ERROR_of 36"
definition MATTER_ERROR_UNKNOWN_IMPLICIT_TLV_TAG :: MATTER_ERROR where
  [err_codes]: "MATTER_ERROR_UNKNOWN_IMPLICIT_TLV_TAG = MATTER_ERROR_of 37"
definition MATTER_ERROR_WRONG_TLV_TYPE :: MATTER_ERROR where
  [err_codes]: "MATTER_ERROR_WRONG_TLV_TYPE = MATTER_ERROR_of 38"
definition MATTER_ERROR_UNEXPECTED_TLV_ELEMENT :: MATTER_ERROR where
  [err_codes]: "MATTER_ERROR_UNEXPECTED_TLV_ELEMENT = MATTER_ERROR_of 43"
definition MATTER_ERROR_INVALID_ARGUMENT :: MATTER_ERROR where
  [err_codes]: "MATTER_ERROR_INVALID_ARGUMENT = MATTER_ERROR_of 47"
definition MATTER_ERROR_INTERNAL :: MATTER_ERROR where
  [err_codes]: "MATTER_ERROR_INTERNAL = MATTER_ERROR_of 172"

declare err_codes [simp]

section \<open>The control-flow macros of CodeUtils.h\<close>

type_synonym 's result = "(MATTER_ERROR \<times> 's) option"

text \<open>
  \<open>SuccessOrExit m k\<close> is the idiom \<open>err = m; SuccessOrExit(err); k\<close>, and also
  \<open>if (err != MATTER_NO_ERROR) return err;\<close>. \<open>VerifyOrExit c err s k\<close> is \<open>VerifyOrExit(c, err = \<dots>); k\<close>
  in state \<open>s\<close>.
\<close>

definition SuccessOrExit :: "'s result \<Rightarrow> ('s \<Rightarrow> 's result) \<Rightarrow> 's result" where
  "SuccessOrExit m k =
     (case m of None \<Rightarrow> None
      | Some (err, s) \<Rightarrow> if err \<noteq> MATTER_NO_ERROR then Some (err, s) else k s)"

definition VerifyOrExit :: "bool \<Rightarrow> MATTER_ERROR \<Rightarrow> 's \<Rightarrow> 's result \<Rightarrow> 's result" where
  "VerifyOrExit c err s k = (if \<not> c then Some (err, s) else k)"

lemma SuccessOrExit_simps [simp]:
  "SuccessOrExit None k = None"
  "SuccessOrExit (Some (0, s)) k = k s"
  "err \<noteq> 0 \<Longrightarrow> SuccessOrExit (Some (err, s)) k = Some (err, s)"
  by (simp_all add: SuccessOrExit_def)

lemma VerifyOrExit_simps [simp]:
  "VerifyOrExit True err s k = k"
  "VerifyOrExit False err s k = Some (err, s)"
  by (simp_all add: VerifyOrExit_def)

text \<open>The continuation is looked at only once the first call has returned.\<close>

lemma SuccessOrExit_weak_cong [cong]:
  "m = m' \<Longrightarrow> SuccessOrExit m k = SuccessOrExit m' k"
  by simp

lemma VerifyOrExit_weak_cong [cong]:
  "c = c' \<Longrightarrow> VerifyOrExit c err s k = VerifyOrExit c' err s k"
  by simp

lemma SuccessOrExit_eq_Some:
  "SuccessOrExit m k = Some (err, s) \<longleftrightarrow>
     (m = Some (err, s) \<and> err \<noteq> 0) \<or> (\<exists>s'. m = Some (0, s') \<and> k s' = Some (err, s))"
  by (auto simp: SuccessOrExit_def split: option.splits if_splits)

lemma SuccessOrExit_mono [partial_function_mono]:
  fixes m :: "('a \<Rightarrow> 'b option) \<Rightarrow> 'c result"
  assumes m: "mono_option (\<lambda>f. m f)" and k: "\<And>s. mono_option (\<lambda>f. k s f)"
  shows "mono_option (\<lambda>f. SuccessOrExit (m f) (\<lambda>s. k s f))"
proof (rule monotoneI)
  fix f g :: "'a \<Rightarrow> 'b option"
  assume le: "fun_ord option_ord f g"
  have "option_ord (m f) (m g)" by (rule monotoneD [of _ _ _ f g, OF m le])
  moreover have ks: "option_ord (k s f) (k s g)" for s by (rule monotoneD [of _ _ _ f g, OF k le])
  ultimately show "option_ord (SuccessOrExit (m f) (\<lambda>s. k s f)) (SuccessOrExit (m g) (\<lambda>s. k s g))"
    unfolding flat_ord_def SuccessOrExit_def using ks
    by (fastforce simp: flat_ord_def split: option.splits)
qed

lemma VerifyOrExit_mono [partial_function_mono]:
  fixes k :: "('a \<Rightarrow> 'b option) \<Rightarrow> 'c result"
  assumes k: "mono_option (\<lambda>f. k f)"
  shows "mono_option (\<lambda>f. VerifyOrExit c err s (k f))"
proof (rule monotoneI)
  fix f g :: "'a \<Rightarrow> 'b option"
  assume le: "fun_ord option_ord f g"
  have "option_ord (k f) (k g)" by (rule monotoneD [of _ _ _ f g, OF k le])
  then show "option_ord (VerifyOrExit c err s (k f)) (VerifyOrExit c err s (k g))"
    by (auto simp: flat_ord_def VerifyOrExit_def)
qed

text \<open>
  \<open>returns m Q\<close>: the call \<open>m\<close> returns, and its final state satisfies \<open>Q\<close> of the code and the state.
  Totality and invariants of the components are stated with it.
\<close>

definition returns :: "'s result \<Rightarrow> (MATTER_ERROR \<Rightarrow> 's \<Rightarrow> bool) \<Rightarrow> bool" where
  "returns m Q \<longleftrightarrow> (\<exists>err s. m = Some (err, s) \<and> Q err s)"

named_theorems returns_intros \<open>introduction rules for returns\<close>

lemma returns_Some [simp]: "returns (Some (err, s)) Q \<longleftrightarrow> Q err s"
  by (simp add: returns_def)

lemma returns_None [simp]: "\<not> returns None Q"
  by (simp add: returns_def)

lemma returnsE:
  assumes "returns m Q"
  obtains err s where "m = Some (err, s)" "Q err s"
  using assms by (auto simp: returns_def)

lemma returns_mono: "returns m Q \<Longrightarrow> (\<And>err s. Q err s \<Longrightarrow> Q' err s) \<Longrightarrow> returns m Q'"
  by (auto simp: returns_def)

lemma returns_SuccessOrExit [returns_intros]:
  assumes "returns m Q'"
    and "\<And>err s. Q' err s \<Longrightarrow> err \<noteq> 0 \<Longrightarrow> Q err s"
    and "\<And>s. Q' 0 s \<Longrightarrow> returns (k s) Q"
  shows "returns (SuccessOrExit m k) Q"
  using assms by (auto simp: returns_def SuccessOrExit_def)

lemma returns_VerifyOrExit [returns_intros]:
  assumes "\<not> c \<Longrightarrow> Q err s" and "c \<Longrightarrow> returns k Q"
  shows "returns (VerifyOrExit c err s k) Q"
  using assms by (auto simp: VerifyOrExit_def)

section \<open>Memory\<close>

text \<open>
  A pointer into a byte object is the pair of the object's bytes and an offset. A load outside the
  object has no defined result.
\<close>

definition load_bytes :: "byte list \<Rightarrow> nat \<Rightarrow> nat \<Rightarrow> byte list option" where
  "load_bytes m p n = (if p + n \<le> length m then Some (take n (drop p m)) else None)"

lemma load_bytes_Some: "p + n \<le> length m \<Longrightarrow> load_bytes m p n = Some (take n (drop p m))"
  by (simp add: load_bytes_def)

lemma length_load_bytes: "load_bytes m p n = Some bs \<Longrightarrow> length bs = n"
  by (auto simp: load_bytes_def split: if_splits)

lemma take_drop_append:
  "i \<le> j \<Longrightarrow> j \<le> k \<Longrightarrow>
     take (j - i) (drop i xs) @ take (k - j) (drop j xs) = take (k - i) (drop i xs)"
proof -
  assume ij: "i \<le> j" and jk: "j \<le> k"
  have "take (k - i) (drop i xs) = take ((j - i) + (k - j)) (drop i xs)"
    using ij jk by simp
  also have "\<dots> = take (j - i) (drop i xs) @ take (k - j) (drop (j - i) (drop i xs))"
    by (simp only: take_add)
  finally show ?thesis using ij by simp
qed

section \<open>Words\<close>

lemma unat_sub_le: "(b::'a::len word) \<le> a \<Longrightarrow> unat (a - b) = unat a - unat b"
  by (rule unat_sub)

lemma unat_add_no_wrap:
  "unat (a::'a::len word) + unat b < 2 ^ LENGTH('a) \<Longrightarrow> unat (a + b) = unat a + unat b"
  by (simp add: unat_word_ariths)

lemma unat_le_32: "unat (x :: u32) < 4294967296"
proof -
  have "unat x < 2 ^ LENGTH(32)" by (rule unsigned_less)
  then show ?thesis by simp
qed

lemma unat_of_nat_32: "n < 4294967296 \<Longrightarrow> unat (of_nat n :: u32) = n"
  by (simp add: unat_of_nat)

lemma unat_word_of_int_32:
  "0 \<le> i \<Longrightarrow> i < 4294967296 \<Longrightarrow> unat (word_of_int i :: u32) = nat i"
  by (simp add: unat_eq_nat_uint uint_word_of_int)

text \<open>A zero extension keeps the value.\<close>

lemma unat_ucast_8_32: "unat (ucast (b :: byte) :: u32) = unat b"
  by transfer (simp add: take_bit_eq_mod mod_mod_cancel)

lemma unat_ucast_16_32: "unat (ucast (b :: u16) :: u32) = unat b"
  by transfer (simp add: take_bit_eq_mod)

lemma unat_ucast_32_64: "unat (ucast (b :: u32) :: u64) = unat b"
  by transfer (simp add: take_bit_eq_mod)

lemma take_bit_32_small:
  assumes "take_bit 64 (v :: int) < 4294967296"
  shows "take_bit 32 v = take_bit 64 v"
proof -
  have "take_bit 32 (take_bit 64 v) = take_bit 64 v"
    using assms by (intro take_bit_int_eq_self) simp_all
  moreover have "take_bit 32 (take_bit 64 v) = take_bit 32 v" by simp
  ultimately show ?thesis by simp
qed

lemma unat_ucast_64_32: "unat (v :: u64) < 4294967296 \<Longrightarrow> unat (ucast v :: u32) = unat v"
  by transfer (simp add: take_bit_32_small)

end
