(* ===== verification/Matter_Encoding.thy ===== *)
theory Matter_Encoding
  imports Matter_Prelude
begin

text \<open>
  The byte-order helpers of \<open>MatterEncoding.h\<close>. A pointer \<open>p\<close> that a helper advances is the list of
  bytes from \<open>p\<close> to the end of the object it points into: reading past the end is \<open>None\<close>. A write
  helper is the list of bytes it stores, in address order. The laws that make the helpers a codec
  are the locale \<open>codec\<close>, and every width and byte order is an interpretation of it.
\<close>

section \<open>Single bytes\<close>

definition Read8 :: "byte list \<Rightarrow> (byte \<times> byte list) option" where
  "Read8 p = (case p of b # p' \<Rightarrow> Some (b, p') | _ \<Rightarrow> None)"

definition Write8 :: "byte \<Rightarrow> byte list" where
  "Write8 v = [v]"

section \<open>Little endian\<close>

definition LE_Read16 :: "byte list \<Rightarrow> (u16 \<times> byte list) option" where
  "LE_Read16 p = (case p of b0 # b1 # p' \<Rightarrow>
       Some (push_bit (8 * 0) (ucast b0) OR push_bit (8 * 1) (ucast b1), p')
     | _ \<Rightarrow> None)"

definition LE_Read32 :: "byte list \<Rightarrow> (u32 \<times> byte list) option" where
  "LE_Read32 p = (case p of b0 # b1 # b2 # b3 # p' \<Rightarrow>
       Some (push_bit (8 * 0) (ucast b0) OR push_bit (8 * 1) (ucast b1) OR
             push_bit (8 * 2) (ucast b2) OR push_bit (8 * 3) (ucast b3), p')
     | _ \<Rightarrow> None)"

definition LE_Read64 :: "byte list \<Rightarrow> (u64 \<times> byte list) option" where
  "LE_Read64 p = (case p of b0 # b1 # b2 # b3 # b4 # b5 # b6 # b7 # p' \<Rightarrow>
       Some (push_bit (8 * 0) (ucast b0) OR push_bit (8 * 1) (ucast b1) OR
             push_bit (8 * 2) (ucast b2) OR push_bit (8 * 3) (ucast b3) OR
             push_bit (8 * 4) (ucast b4) OR push_bit (8 * 5) (ucast b5) OR
             push_bit (8 * 6) (ucast b6) OR push_bit (8 * 7) (ucast b7), p')
     | _ \<Rightarrow> None)"

definition LE_Write16 :: "u16 \<Rightarrow> byte list" where
  "LE_Write16 v = [ucast (drop_bit (8 * 0) v), ucast (drop_bit (8 * 1) v)]"

definition LE_Write32 :: "u32 \<Rightarrow> byte list" where
  "LE_Write32 v = [ucast (drop_bit (8 * 0) v), ucast (drop_bit (8 * 1) v),
                   ucast (drop_bit (8 * 2) v), ucast (drop_bit (8 * 3) v)]"

definition LE_Write64 :: "u64 \<Rightarrow> byte list" where
  "LE_Write64 v = [ucast (drop_bit (8 * 0) v), ucast (drop_bit (8 * 1) v),
                   ucast (drop_bit (8 * 2) v), ucast (drop_bit (8 * 3) v),
                   ucast (drop_bit (8 * 4) v), ucast (drop_bit (8 * 5) v),
                   ucast (drop_bit (8 * 6) v), ucast (drop_bit (8 * 7) v)]"

text \<open>The \<open>Get\<close> helpers read without advancing the caller's pointer.\<close>

definition LE_Get16 :: "byte list \<Rightarrow> u16 option" where "LE_Get16 p = map_option fst (LE_Read16 p)"
definition LE_Get32 :: "byte list \<Rightarrow> u32 option" where "LE_Get32 p = map_option fst (LE_Read32 p)"
definition LE_Get64 :: "byte list \<Rightarrow> u64 option" where "LE_Get64 p = map_option fst (LE_Read64 p)"

section \<open>Big endian\<close>

definition BE_Read16 :: "byte list \<Rightarrow> (u16 \<times> byte list) option" where
  "BE_Read16 p = (case p of b0 # b1 # p' \<Rightarrow>
       Some (push_bit (8 * 1) (ucast b0) OR push_bit (8 * 0) (ucast b1), p')
     | _ \<Rightarrow> None)"

definition BE_Read32 :: "byte list \<Rightarrow> (u32 \<times> byte list) option" where
  "BE_Read32 p = (case p of b0 # b1 # b2 # b3 # p' \<Rightarrow>
       Some (push_bit (8 * 3) (ucast b0) OR push_bit (8 * 2) (ucast b1) OR
             push_bit (8 * 1) (ucast b2) OR push_bit (8 * 0) (ucast b3), p')
     | _ \<Rightarrow> None)"

definition BE_Read64 :: "byte list \<Rightarrow> (u64 \<times> byte list) option" where
  "BE_Read64 p = (case p of b0 # b1 # b2 # b3 # b4 # b5 # b6 # b7 # p' \<Rightarrow>
       Some (push_bit (8 * 7) (ucast b0) OR push_bit (8 * 6) (ucast b1) OR
             push_bit (8 * 5) (ucast b2) OR push_bit (8 * 4) (ucast b3) OR
             push_bit (8 * 3) (ucast b4) OR push_bit (8 * 2) (ucast b5) OR
             push_bit (8 * 1) (ucast b6) OR push_bit (8 * 0) (ucast b7), p')
     | _ \<Rightarrow> None)"

definition BE_Write16 :: "u16 \<Rightarrow> byte list" where
  "BE_Write16 v = [ucast (drop_bit (8 * 1) v), ucast (drop_bit (8 * 0) v)]"

definition BE_Write32 :: "u32 \<Rightarrow> byte list" where
  "BE_Write32 v = [ucast (drop_bit (8 * 3) v), ucast (drop_bit (8 * 2) v),
                   ucast (drop_bit (8 * 1) v), ucast (drop_bit (8 * 0) v)]"

definition BE_Write64 :: "u64 \<Rightarrow> byte list" where
  "BE_Write64 v = [ucast (drop_bit (8 * 7) v), ucast (drop_bit (8 * 6) v),
                   ucast (drop_bit (8 * 5) v), ucast (drop_bit (8 * 4) v),
                   ucast (drop_bit (8 * 3) v), ucast (drop_bit (8 * 2) v),
                   ucast (drop_bit (8 * 1) v), ucast (drop_bit (8 * 0) v)]"

definition BE_Get16 :: "byte list \<Rightarrow> u16 option" where "BE_Get16 p = map_option fst (BE_Read16 p)"
definition BE_Get32 :: "byte list \<Rightarrow> u32 option" where "BE_Get32 p = map_option fst (BE_Read32 p)"
definition BE_Get64 :: "byte list \<Rightarrow> u64 option" where "BE_Get64 p = map_option fst (BE_Read64 p)"

lemmas encoding_defs = Read8_def Write8_def
  LE_Read16_def LE_Read32_def LE_Read64_def LE_Write16_def LE_Write32_def LE_Write64_def
  BE_Read16_def BE_Read32_def BE_Read64_def BE_Write16_def BE_Write32_def BE_Write64_def

section \<open>The codec interface\<close>

text \<open>
  \<open>rd\<close> undoes \<open>wr\<close> and leaves the rest of the input; what was read is what \<open>wr\<close> would
  store; every value takes \<open>width\<close> bytes.
\<close>

locale codec =
  fixes rd :: "byte list \<Rightarrow> ('v \<times> byte list) option"
    and wr :: "'v \<Rightarrow> byte list"
    and width :: nat
  assumes read_write: "rd (wr v @ p) = Some (v, p)"
    and write_read: "rd p = Some (v, p') \<Longrightarrow> p = wr v @ p'"
    and length_write: "length (wr v) = width"
    and read_enough: "width \<le> length p \<Longrightarrow> rd p \<noteq> None"
begin

lemma write_inj: "wr v = wr v' \<Longrightarrow> v = v'"
  using read_write [of v "[]"] read_write [of v' "[]"] by simp

lemma read_consumes: "rd p = Some (v, p') \<Longrightarrow> length p = width + length p'"
  by (drule write_read) (simp add: length_write)

lemma read_rest: "rd p = Some (v, p') \<Longrightarrow> p' = drop width p"
  by (drule write_read) (simp add: length_write)

lemma read_None_iff: "rd p = None \<longleftrightarrow> length p < width"
  using read_enough [of p] read_consumes [of p]
  by (cases "rd p") (auto simp flip: not_le)

lemma read_total: "width \<le> length p \<Longrightarrow> \<exists>v. rd p = Some (v, drop width p)"
  using read_enough [of p] read_rest [of p] by (cases "rd p") auto

lemma read_append: "rd p = Some (v, p') \<Longrightarrow> rd (p @ q) = Some (v, p' @ q)"
  by (drule write_read) (simp add: read_write)

end

lemma bytes_cases_1: "1 \<le> length p \<Longrightarrow> \<exists>a p'. p = a # p'"
  by (cases p) auto

lemma bytes_cases_2: "2 \<le> length p \<Longrightarrow> \<exists>a b p'. p = a # b # p'"
  by (auto simp: numeral_2_eq_2 Suc_le_length_iff)

lemma bytes_cases_4: "4 \<le> length p \<Longrightarrow> \<exists>a b c d p'. p = a # b # c # d # p'"
  by (auto simp: numeral_eq_Suc Suc_le_length_iff)

lemma bytes_cases_8:
  "8 \<le> length p \<Longrightarrow> \<exists>a b c d e f g h p'. p = a # b # c # d # e # f # g # h # p'"
  by (auto simp: numeral_eq_Suc Suc_le_length_iff)

interpretation u8: codec Read8 Write8 1
  by unfold_locales (auto simp: encoding_defs split: list.splits)

lemma not_bit_byte [simp]: "8 \<le> n \<Longrightarrow> \<not> bit (b :: byte) n"
  using bit_imp_le_length [of b n] by auto

text \<open>The low \<open>k + 8\<close> bits are the low \<open>k\<close> bits and the byte at \<open>k\<close>.\<close>

lemma take_bit_byte_step:
  fixes v :: "'a::len word"
  shows "take_bit (k + 8) v = take_bit k v OR push_bit k (ucast (ucast (drop_bit k v) :: byte))"
  by (rule bit_eqI) (auto simp: bit_simps)

lemma take_bit_word_self:
  "take_bit 16 (v::u16) = v" "take_bit 32 (w::u32) = w" "take_bit 64 (x::u64) = x"
  by (rule bit_eqI; auto simp: bit_simps dest: bit_imp_le_length)+

text \<open>The bytes of a value, put back together, are the value.\<close>

lemma join16:
  "ucast (ucast v :: byte) OR
   push_bit 8 (ucast (ucast (drop_bit 8 v) :: byte)) = (v :: u16)"
  using take_bit_byte_step [of 0 v] take_bit_byte_step [of 8 v]
  by (simp add: or.assoc take_bit_word_self)

lemma join16_be:
  "push_bit 8 (ucast (ucast (drop_bit 8 v) :: byte)) OR
   ucast (ucast v :: byte) = (v :: u16)"
  using join16 [of v] by (simp add: or.commute or.left_commute)

lemma join32:
  "ucast (ucast v :: byte) OR
   push_bit 8 (ucast (ucast (drop_bit 8 v) :: byte)) OR
   push_bit 16 (ucast (ucast (drop_bit 16 v) :: byte)) OR
   push_bit 24 (ucast (ucast (drop_bit 24 v) :: byte)) = (v :: u32)"
  using take_bit_byte_step [of 0 v] take_bit_byte_step [of 8 v] take_bit_byte_step [of 16 v] take_bit_byte_step [of 24 v]
  by (simp add: or.assoc take_bit_word_self)

lemma join32_be:
  "push_bit 24 (ucast (ucast (drop_bit 24 v) :: byte)) OR
   push_bit 16 (ucast (ucast (drop_bit 16 v) :: byte)) OR
   push_bit 8 (ucast (ucast (drop_bit 8 v) :: byte)) OR
   ucast (ucast v :: byte) = (v :: u32)"
  using join32 [of v] by (simp add: or.commute or.left_commute)

lemma join64:
  "ucast (ucast v :: byte) OR
   push_bit 8 (ucast (ucast (drop_bit 8 v) :: byte)) OR
   push_bit 16 (ucast (ucast (drop_bit 16 v) :: byte)) OR
   push_bit 24 (ucast (ucast (drop_bit 24 v) :: byte)) OR
   push_bit 32 (ucast (ucast (drop_bit 32 v) :: byte)) OR
   push_bit 40 (ucast (ucast (drop_bit 40 v) :: byte)) OR
   push_bit 48 (ucast (ucast (drop_bit 48 v) :: byte)) OR
   push_bit 56 (ucast (ucast (drop_bit 56 v) :: byte)) = (v :: u64)"
  using take_bit_byte_step [of 0 v] take_bit_byte_step [of 8 v] take_bit_byte_step [of 16 v] take_bit_byte_step [of 24 v] take_bit_byte_step [of 32 v] take_bit_byte_step [of 40 v] take_bit_byte_step [of 48 v] take_bit_byte_step [of 56 v]
  by (simp add: or.assoc take_bit_word_self)

lemma join64_be:
  "push_bit 56 (ucast (ucast (drop_bit 56 v) :: byte)) OR
   push_bit 48 (ucast (ucast (drop_bit 48 v) :: byte)) OR
   push_bit 40 (ucast (ucast (drop_bit 40 v) :: byte)) OR
   push_bit 32 (ucast (ucast (drop_bit 32 v) :: byte)) OR
   push_bit 24 (ucast (ucast (drop_bit 24 v) :: byte)) OR
   push_bit 16 (ucast (ucast (drop_bit 16 v) :: byte)) OR
   push_bit 8 (ucast (ucast (drop_bit 8 v) :: byte)) OR
   ucast (ucast v :: byte) = (v :: u64)"
  using join64 [of v] by (simp add: or.commute or.left_commute)

text \<open>The bytes of a value that was put together from bytes are those bytes.\<close>

lemma split16:
  fixes a b :: byte
  defines "v \<equiv> ucast a OR push_bit 8 (ucast b) :: u16"
  shows "ucast v = a"
    and "ucast (drop_bit 8 v) = b"
  unfolding v_def by (rule bit_eqI; simp add: bit_simps)+

lemma split16_be:
  fixes a b :: byte
  shows "push_bit 8 (ucast b) OR ucast a = (ucast a OR push_bit 8 (ucast b) :: u16)"
  by (simp add: or.commute or.left_commute)

lemma split32:
  fixes a b c d :: byte
  defines "v \<equiv> ucast a OR push_bit 8 (ucast b) OR push_bit 16 (ucast c) OR push_bit 24 (ucast d) :: u32"
  shows "ucast v = a"
    and "ucast (drop_bit 8 v) = b"
    and "ucast (drop_bit 16 v) = c"
    and "ucast (drop_bit 24 v) = d"
  unfolding v_def by (rule bit_eqI; simp add: bit_simps)+

lemma split32_be:
  fixes a b c d :: byte
  shows "push_bit 24 (ucast d) OR push_bit 16 (ucast c) OR push_bit 8 (ucast b) OR ucast a = (ucast a OR push_bit 8 (ucast b) OR push_bit 16 (ucast c) OR push_bit 24 (ucast d) :: u32)"
  by (simp add: or.commute or.left_commute)

lemma split64:
  fixes a b c d e f g h :: byte
  defines "v \<equiv> ucast a OR push_bit 8 (ucast b) OR push_bit 16 (ucast c) OR push_bit 24 (ucast d) OR push_bit 32 (ucast e) OR push_bit 40 (ucast f) OR push_bit 48 (ucast g) OR push_bit 56 (ucast h) :: u64"
  shows "ucast v = a"
    and "ucast (drop_bit 8 v) = b"
    and "ucast (drop_bit 16 v) = c"
    and "ucast (drop_bit 24 v) = d"
    and "ucast (drop_bit 32 v) = e"
    and "ucast (drop_bit 40 v) = f"
    and "ucast (drop_bit 48 v) = g"
    and "ucast (drop_bit 56 v) = h"
  unfolding v_def by (rule bit_eqI; simp add: bit_simps)+

lemma split64_be:
  fixes a b c d e f g h :: byte
  shows "push_bit 56 (ucast h) OR push_bit 48 (ucast g) OR push_bit 40 (ucast f) OR push_bit 32 (ucast e) OR push_bit 24 (ucast d) OR push_bit 16 (ucast c) OR push_bit 8 (ucast b) OR ucast a = (ucast a OR push_bit 8 (ucast b) OR push_bit 16 (ucast c) OR push_bit 24 (ucast d) OR push_bit 32 (ucast e) OR push_bit 40 (ucast f) OR push_bit 48 (ucast g) OR push_bit 56 (ucast h) :: u64)"
  by (simp add: or.commute or.left_commute)

interpretation le16: codec LE_Read16 LE_Write16 2
  by unfold_locales
    (simp add: encoding_defs join16,
     auto simp: encoding_defs split16 simp del: drop_bit_or split: list.splits dest!: bytes_cases_2)

interpretation be16: codec BE_Read16 BE_Write16 2
  by unfold_locales
    (simp add: encoding_defs join16_be,
     auto simp: encoding_defs split16_be split16 simp del: drop_bit_or
       split: list.splits dest!: bytes_cases_2)

interpretation le32: codec LE_Read32 LE_Write32 4
  by unfold_locales
    (simp add: encoding_defs join32,
     auto simp: encoding_defs split32 simp del: drop_bit_or split: list.splits dest!: bytes_cases_4)

interpretation be32: codec BE_Read32 BE_Write32 4
  by unfold_locales
    (simp add: encoding_defs join32_be,
     auto simp: encoding_defs split32_be split32 simp del: drop_bit_or
       split: list.splits dest!: bytes_cases_4)

interpretation le64: codec LE_Read64 LE_Write64 8
  by unfold_locales
    (simp add: encoding_defs join64,
     auto simp: encoding_defs split64 simp del: drop_bit_or split: list.splits dest!: bytes_cases_8)

interpretation be64: codec BE_Read64 BE_Write64 8
  by unfold_locales
    (simp add: encoding_defs join64_be,
     auto simp: encoding_defs split64_be split64 simp del: drop_bit_or
       split: list.splits dest!: bytes_cases_8)

end
