(* ===== verification/TLV_Types.thy ===== *)
theory TLV_Types
  imports Matter_Encoding
begin

text \<open>
  The vocabulary of the TLV encoding: \<open>MatterTLVTypes.h\<close> (element types, field sizes and the
  predicates on them) and \<open>MatterTLVTags.h\<close> (tags and tag controls). An enumeration whose values
  the code also produces by casts of arbitrary bits is the integer the cast gives, with the
  enumerators as named constants, so that the values that are no enumerator are in the model.
\<close>

section \<open>Types of elements\<close>

type_synonym TLVType = int
type_synonym TLVElementType = int
type_synonym TLVFieldSize = int
type_synonym TLVTagControl = int

definition kTLVType_NotSpecified :: TLVType where [simp]: "kTLVType_NotSpecified = -1"
definition kTLVType_UnknownContainer :: TLVType where [simp]: "kTLVType_UnknownContainer = -2"
definition kTLVType_SignedInteger :: TLVType where [simp]: "kTLVType_SignedInteger = 0x00"
definition kTLVType_UnsignedInteger :: TLVType where [simp]: "kTLVType_UnsignedInteger = 0x04"
definition kTLVType_Boolean :: TLVType where [simp]: "kTLVType_Boolean = 0x08"
definition kTLVType_FloatingPointNumber :: TLVType where [simp]: "kTLVType_FloatingPointNumber = 0x0A"
definition kTLVType_UTF8String :: TLVType where [simp]: "kTLVType_UTF8String = 0x0C"
definition kTLVType_ByteString :: TLVType where [simp]: "kTLVType_ByteString = 0x10"
definition kTLVType_Null :: TLVType where [simp]: "kTLVType_Null = 0x14"
definition kTLVType_Structure :: TLVType where [simp]: "kTLVType_Structure = 0x15"
definition kTLVType_Array :: TLVType where [simp]: "kTLVType_Array = 0x16"
definition kTLVType_Path :: TLVType where [simp]: "kTLVType_Path = 0x17"

definition kTLVElementType_NotSpecified :: TLVElementType where [simp]: "kTLVElementType_NotSpecified = -1"
definition kTLVElementType_Int8 :: TLVElementType where [simp]: "kTLVElementType_Int8 = 0x00"
definition kTLVElementType_Int16 :: TLVElementType where [simp]: "kTLVElementType_Int16 = 0x01"
definition kTLVElementType_Int32 :: TLVElementType where [simp]: "kTLVElementType_Int32 = 0x02"
definition kTLVElementType_Int64 :: TLVElementType where [simp]: "kTLVElementType_Int64 = 0x03"
definition kTLVElementType_UInt8 :: TLVElementType where [simp]: "kTLVElementType_UInt8 = 0x04"
definition kTLVElementType_UInt16 :: TLVElementType where [simp]: "kTLVElementType_UInt16 = 0x05"
definition kTLVElementType_UInt32 :: TLVElementType where [simp]: "kTLVElementType_UInt32 = 0x06"
definition kTLVElementType_UInt64 :: TLVElementType where [simp]: "kTLVElementType_UInt64 = 0x07"
definition kTLVElementType_BooleanFalse :: TLVElementType where [simp]: "kTLVElementType_BooleanFalse = 0x08"
definition kTLVElementType_BooleanTrue :: TLVElementType where [simp]: "kTLVElementType_BooleanTrue = 0x09"
definition kTLVElementType_FloatingPointNumber32 :: TLVElementType where [simp]: "kTLVElementType_FloatingPointNumber32 = 0x0A"
definition kTLVElementType_FloatingPointNumber64 :: TLVElementType where [simp]: "kTLVElementType_FloatingPointNumber64 = 0x0B"
definition kTLVElementType_UTF8String_1ByteLength :: TLVElementType where [simp]: "kTLVElementType_UTF8String_1ByteLength = 0x0C"
definition kTLVElementType_UTF8String_2ByteLength :: TLVElementType where [simp]: "kTLVElementType_UTF8String_2ByteLength = 0x0D"
definition kTLVElementType_UTF8String_4ByteLength :: TLVElementType where [simp]: "kTLVElementType_UTF8String_4ByteLength = 0x0E"
definition kTLVElementType_UTF8String_8ByteLength :: TLVElementType where [simp]: "kTLVElementType_UTF8String_8ByteLength = 0x0F"
definition kTLVElementType_ByteString_1ByteLength :: TLVElementType where [simp]: "kTLVElementType_ByteString_1ByteLength = 0x10"
definition kTLVElementType_ByteString_2ByteLength :: TLVElementType where [simp]: "kTLVElementType_ByteString_2ByteLength = 0x11"
definition kTLVElementType_ByteString_4ByteLength :: TLVElementType where [simp]: "kTLVElementType_ByteString_4ByteLength = 0x12"
definition kTLVElementType_ByteString_8ByteLength :: TLVElementType where [simp]: "kTLVElementType_ByteString_8ByteLength = 0x13"
definition kTLVElementType_Null :: TLVElementType where [simp]: "kTLVElementType_Null = 0x14"
definition kTLVElementType_Structure :: TLVElementType where [simp]: "kTLVElementType_Structure = 0x15"
definition kTLVElementType_Array :: TLVElementType where [simp]: "kTLVElementType_Array = 0x16"
definition kTLVElementType_Path :: TLVElementType where [simp]: "kTLVElementType_Path = 0x17"
definition kTLVElementType_EndOfContainer :: TLVElementType where [simp]: "kTLVElementType_EndOfContainer = 0x18"

definition kTLVFieldSize_0Byte :: TLVFieldSize where [simp]: "kTLVFieldSize_0Byte = -1"
definition kTLVFieldSize_1Byte :: TLVFieldSize where [simp]: "kTLVFieldSize_1Byte = 0"
definition kTLVFieldSize_2Byte :: TLVFieldSize where [simp]: "kTLVFieldSize_2Byte = 1"
definition kTLVFieldSize_4Byte :: TLVFieldSize where [simp]: "kTLVFieldSize_4Byte = 2"
definition kTLVFieldSize_8Byte :: TLVFieldSize where [simp]: "kTLVFieldSize_8Byte = 3"

definition kTLVTypeMask :: u16 where [simp]: "kTLVTypeMask = 0x1F"
definition kTLVTypeSizeMask :: int where [simp]: "kTLVTypeSizeMask = 0x03"

text \<open>The predicates take a \<open>uint8_t\<close>; a caller passes an element type, converted.\<close>

definition IsValidTLVType :: "byte \<Rightarrow> bool" where
  "IsValidTLVType type \<longleftrightarrow> uint type \<le> kTLVElementType_EndOfContainer"

definition TLVTypeHasValue :: "byte \<Rightarrow> bool" where
  "TLVTypeHasValue type \<longleftrightarrow>
     uint type \<le> kTLVElementType_UInt64 \<or>
     (uint type \<ge> kTLVElementType_FloatingPointNumber32 \<and>
      uint type \<le> kTLVElementType_ByteString_8ByteLength)"

definition TLVTypeHasLength :: "byte \<Rightarrow> bool" where
  "TLVTypeHasLength type \<longleftrightarrow>
     uint type \<ge> kTLVElementType_UTF8String_1ByteLength \<and>
     uint type \<le> kTLVElementType_ByteString_8ByteLength"

definition TLVTypeIsContainer :: "byte \<Rightarrow> bool" where
  "TLVTypeIsContainer type \<longleftrightarrow>
     uint type \<ge> kTLVElementType_Structure \<and> uint type \<le> kTLVElementType_Path"

definition TLVTypeIsString :: "byte \<Rightarrow> bool" where
  "TLVTypeIsString type \<longleftrightarrow>
     uint type \<ge> kTLVElementType_UTF8String_1ByteLength \<and>
     uint type \<le> kTLVElementType_ByteString_8ByteLength"

definition GetTLVFieldSize :: "byte \<Rightarrow> TLVFieldSize" where
  "GetTLVFieldSize type =
     (if TLVTypeHasValue type then uint type AND kTLVTypeSizeMask else kTLVFieldSize_0Byte)"

definition TLVFieldSizeToBytes :: "TLVFieldSize \<Rightarrow> byte" where
  "TLVFieldSizeToBytes fieldSize =
     (if fieldSize \<noteq> kTLVFieldSize_0Byte then push_bit (nat fieldSize) 1 else 0)"

lemmas type_defs = IsValidTLVType_def TLVTypeHasValue_def TLVTypeHasLength_def
  TLVTypeIsContainer_def TLVTypeIsString_def GetTLVFieldSize_def TLVFieldSizeToBytes_def

section \<open>Tags\<close>

definition kProfileIdNotSpecified :: u32 where [simp]: "kProfileIdNotSpecified = 0xFFFFFFFF"
definition kCommonProfileId :: u32 where [simp]: "kCommonProfileId = 0"
definition kProfileIdMask :: u64 where [simp]: "kProfileIdMask = 0xFFFFFFFF00000000"
definition kProfileIdShift :: nat where [simp]: "kProfileIdShift = 32"
definition kVendorIdShift :: nat where [simp]: "kVendorIdShift = 48"
definition kProfileNumShift :: nat where [simp]: "kProfileNumShift = 32"
definition kTagNumMask :: u64 where [simp]: "kTagNumMask = 0x00000000FFFFFFFF"
definition kSpecialTagMarker :: u64 where [simp]: "kSpecialTagMarker = 0xFFFFFFFF00000000"
definition kContextTagMaxNum :: u32 where [simp]: "kContextTagMaxNum = 256"

definition kTLVTagControl_Anonymous :: TLVTagControl where [simp]: "kTLVTagControl_Anonymous = 0x00"
definition kTLVTagControl_ContextSpecific :: TLVTagControl where
  [simp]: "kTLVTagControl_ContextSpecific = 0x20"
definition kTLVTagControl_CommonProfile_2Bytes :: TLVTagControl where
  [simp]: "kTLVTagControl_CommonProfile_2Bytes = 0x40"
definition kTLVTagControl_CommonProfile_4Bytes :: TLVTagControl where
  [simp]: "kTLVTagControl_CommonProfile_4Bytes = 0x60"
definition kTLVTagControl_ImplicitProfile_2Bytes :: TLVTagControl where
  [simp]: "kTLVTagControl_ImplicitProfile_2Bytes = 0x80"
definition kTLVTagControl_ImplicitProfile_4Bytes :: TLVTagControl where
  [simp]: "kTLVTagControl_ImplicitProfile_4Bytes = 0xA0"
definition kTLVTagControl_FullyQualified_6Bytes :: TLVTagControl where
  [simp]: "kTLVTagControl_FullyQualified_6Bytes = 0xC0"
definition kTLVTagControl_FullyQualified_8Bytes :: TLVTagControl where
  [simp]: "kTLVTagControl_FullyQualified_8Bytes = 0xE0"
definition kTLVTagControlMask :: u16 where [simp]: "kTLVTagControlMask = 0xE0"
definition kTLVTagControlShift :: nat where [simp]: "kTLVTagControlShift = 5"

text \<open>The two overloads of \<open>ProfileTag\<close> are \<open>ProfileTag\<close> and \<open>ProfileTag3\<close>.\<close>

definition ProfileTag :: "u32 \<Rightarrow> u32 \<Rightarrow> u64" where
  "ProfileTag profileId tagNum = push_bit kProfileIdShift (ucast profileId) OR ucast tagNum"

definition ProfileTag3 :: "u16 \<Rightarrow> u16 \<Rightarrow> u32 \<Rightarrow> u64" where
  "ProfileTag3 vendorId profileNum tagNum =
     push_bit kVendorIdShift (ucast vendorId) OR push_bit kProfileNumShift (ucast profileNum) OR
     ucast tagNum"

definition ContextTag :: "byte \<Rightarrow> u64" where
  "ContextTag tagNum = kSpecialTagMarker OR ucast tagNum"

definition CommonTag :: "u32 \<Rightarrow> u64" where
  "CommonTag tagNum = ProfileTag kCommonProfileId tagNum"

definition AnonymousTag :: u64 where
  "AnonymousTag = kSpecialTagMarker OR 0x00000000FFFFFFFF"

definition UnknownImplicitTag :: u64 where
  "UnknownImplicitTag = kSpecialTagMarker OR 0x00000000FFFFFFFE"

definition ProfileIdFromTag :: "u64 \<Rightarrow> u32" where
  "ProfileIdFromTag tag = ucast (drop_bit kProfileIdShift (tag AND kProfileIdMask))"

definition ProfileNumFromTag :: "u64 \<Rightarrow> u16" where
  "ProfileNumFromTag tag = ucast (drop_bit kProfileIdShift (tag AND kProfileIdMask))"

definition TagNumFromTag :: "u64 \<Rightarrow> u32" where
  "TagNumFromTag tag = ucast (tag AND kTagNumMask)"

definition VendorIdFromTag :: "u64 \<Rightarrow> u16" where
  "VendorIdFromTag tag = ucast (drop_bit kVendorIdShift (tag AND kProfileIdMask))"

definition IsProfileTag :: "u64 \<Rightarrow> bool" where
  "IsProfileTag tag \<longleftrightarrow> tag AND kProfileIdMask \<noteq> kSpecialTagMarker"

definition IsContextTag :: "u64 \<Rightarrow> bool" where
  "IsContextTag tag \<longleftrightarrow>
     tag AND kProfileIdMask = kSpecialTagMarker \<and> TagNumFromTag tag < kContextTagMaxNum"

definition IsSpecialTag :: "u64 \<Rightarrow> bool" where
  "IsSpecialTag tag \<longleftrightarrow> tag AND kProfileIdMask = kSpecialTagMarker"

lemmas tag_defs = ProfileTag_def ProfileTag3_def ContextTag_def CommonTag_def
  ProfileIdFromTag_def ProfileNumFromTag_def TagNumFromTag_def VendorIdFromTag_def
  IsProfileTag_def IsContextTag_def IsSpecialTag_def

lemma AnonymousTag_eq [simp]: "AnonymousTag = 0xFFFFFFFFFFFFFFFF"
  by (simp add: AnonymousTag_def)

lemma UnknownImplicitTag_eq [simp]: "UnknownImplicitTag = 0xFFFFFFFFFFFFFFFE"
  by (simp add: UnknownImplicitTag_def)

section \<open>Facts on types\<close>

lemma field_size_cases:
  "GetTLVFieldSize t \<in> {kTLVFieldSize_0Byte, kTLVFieldSize_1Byte, kTLVFieldSize_2Byte,
     kTLVFieldSize_4Byte, kTLVFieldSize_8Byte}"
proof -
  have "uint t AND 3 = take_bit 2 (uint t)"
    by (simp add: take_bit_eq_mask mask_eq_exp_minus_1)
  then have and3: "uint t AND 3 = uint t mod 4"
    by (simp only: take_bit_eq_mod) simp
  have "x mod 4 = 0 \<or> x mod 4 = 1 \<or> x mod 4 = 2 \<or> x mod 4 = 3" for x :: int
    by presburger
  from this [of "uint t"] have "uint t mod 4 = 0 \<or> uint t mod 4 = 1 \<or> uint t mod 4 = 2 \<or> uint t mod 4 = 3" .
  then show ?thesis
    unfolding GetTLVFieldSize_def kTLVTypeSizeMask_def and3
    by (cases "TLVTypeHasValue t") (simp_all only: if_True if_False kTLVFieldSize_0Byte_def
      kTLVFieldSize_1Byte_def kTLVFieldSize_2Byte_def kTLVFieldSize_4Byte_def
      kTLVFieldSize_8Byte_def insert_iff, auto)
qed

lemma field_bytes_le: "unat (TLVFieldSizeToBytes (GetTLVFieldSize t)) \<le> 8"
  using field_size_cases [of t] by (auto simp: TLVFieldSizeToBytes_def)

lemma string_iff_length: "TLVTypeIsString t \<longleftrightarrow> TLVTypeHasLength t"
  by (simp add: TLVTypeIsString_def TLVTypeHasLength_def)

lemma length_not_container: "TLVTypeHasLength t \<Longrightarrow> \<not> TLVTypeIsContainer t"
  by (simp add: TLVTypeHasLength_def TLVTypeIsContainer_def)

section \<open>Facts on tags\<close>

lemma IsProfileTag_iff: "IsProfileTag tag \<longleftrightarrow> \<not> IsSpecialTag tag"
  by (simp add: IsProfileTag_def IsSpecialTag_def)

lemma tag_masks:
  "kTagNumMask = mask 32" "kProfileIdMask = push_bit 32 (mask 32)"
  "kSpecialTagMarker = push_bit 32 (mask 32)"
  by (simp_all add: mask_eq_exp_minus_1)

lemma bit_ucast_32 [simp]: "32 \<le> n \<Longrightarrow> \<not> bit (t :: u32) n"
  using bit_imp_le_length [of t n] by auto

lemma TagNumFromTag_ProfileTag: "TagNumFromTag (ProfileTag p n) = n"
  unfolding TagNumFromTag_def ProfileTag_def tag_masks kProfileIdShift_def
  by (rule bit_eqI) (auto simp: bit_simps)

lemma ProfileIdFromTag_ProfileTag: "ProfileIdFromTag (ProfileTag p n) = p"
  unfolding ProfileIdFromTag_def ProfileTag_def tag_masks kProfileIdShift_def
  by (rule bit_eqI) (auto simp: bit_simps)

lemma ProfileTag_of_parts: "ProfileTag (ProfileIdFromTag tag) (TagNumFromTag tag) = tag"
  unfolding ProfileIdFromTag_def TagNumFromTag_def ProfileTag_def tag_masks kProfileIdShift_def
  by (rule bit_eqI) (auto simp: bit_simps)

lemma ProfileTag_inj: "ProfileTag p n = ProfileTag p' n' \<longleftrightarrow> p = p' \<and> n = n'"
  using ProfileIdFromTag_ProfileTag [of p n] ProfileIdFromTag_ProfileTag [of p' n']
    TagNumFromTag_ProfileTag [of p n] TagNumFromTag_ProfileTag [of p' n'] by auto

lemma ContextTag_is_ProfileTag: "ContextTag n = ProfileTag 0xFFFFFFFF (ucast n)"
proof -
  have "kSpecialTagMarker = push_bit 32 (ucast (0xFFFFFFFF :: u32))" by simp
  moreover have "ucast (ucast n :: u32) = (ucast n :: u64)"
    by (rule bit_eqI) (auto simp: bit_simps dest: bit_imp_le_length)
  ultimately show ?thesis by (simp add: ContextTag_def ProfileTag_def)
qed

lemma ProfileTag3_is_ProfileTag:
  "ProfileTag3 v p n = ProfileTag (push_bit 16 (ucast v) OR ucast p) n"
  unfolding ProfileTag3_def ProfileTag_def kVendorIdShift_def kProfileNumShift_def kProfileIdShift_def
  by (rule bit_eqI) (auto simp: bit_simps)

lemma IsSpecialTag_iff: "IsSpecialTag tag \<longleftrightarrow> ProfileIdFromTag tag = 0xFFFFFFFF"
proof
  assume "IsSpecialTag tag"
  then have "tag AND kProfileIdMask = kSpecialTagMarker" by (simp only: IsSpecialTag_def)
  then show "ProfileIdFromTag tag = 0xFFFFFFFF"
    by (simp add: ProfileIdFromTag_def)
next
  assume p: "ProfileIdFromTag tag = 0xFFFFFFFF"
  have "tag AND kProfileIdMask = push_bit 32 (ucast (ProfileIdFromTag tag))"
    unfolding ProfileIdFromTag_def tag_masks kProfileIdShift_def
    by (rule bit_eqI) (auto simp: bit_simps)
  with p show "IsSpecialTag tag" by (simp add: IsSpecialTag_def)
qed

lemma IsContextTag_iff:
  "IsContextTag tag \<longleftrightarrow> ProfileIdFromTag tag = 0xFFFFFFFF \<and> TagNumFromTag tag < 256"
  using IsSpecialTag_iff [of tag] by (simp add: IsContextTag_def IsSpecialTag_def)

lemma ucast_byte_less: "(ucast (n :: byte) :: u32) < 256"
  by transfer (simp add: take_bit_eq_mod)

lemma IsContextTag_ContextTag [simp]: "IsContextTag (ContextTag n)"
  by (simp add: IsContextTag_iff ContextTag_is_ProfileTag ProfileIdFromTag_ProfileTag
      TagNumFromTag_ProfileTag ucast_byte_less)

lemma TagNumFromTag_ContextTag [simp]: "TagNumFromTag (ContextTag n) = ucast n"
  by (simp add: ContextTag_is_ProfileTag TagNumFromTag_ProfileTag)

lemma AnonymousTag_parts: "AnonymousTag = ProfileTag 0xFFFFFFFF 0xFFFFFFFF"
  by (simp add: ProfileTag_def)

lemma UnknownImplicitTag_parts: "UnknownImplicitTag = ProfileTag 0xFFFFFFFF 0xFFFFFFFE"
  by (simp add: ProfileTag_def)

lemma ContextTag_not_Anonymous [simp]:
  "ContextTag n \<noteq> AnonymousTag" "ContextTag n \<noteq> UnknownImplicitTag"
  unfolding ContextTag_is_ProfileTag AnonymousTag_parts UnknownImplicitTag_parts ProfileTag_inj
  using ucast_byte_less [of n] by (auto simp del: ucast_eq)

lemma AnonymousTag_not_context [simp]: "\<not> IsContextTag AnonymousTag"
  unfolding AnonymousTag_parts
  by (simp add: IsContextTag_iff TagNumFromTag_ProfileTag)

end
