(* ===== verification/TLV_Reader.thy ===== *)
theory TLV_Reader
  imports TLV_Types
begin

text \<open>
  The pull parser \<open>TLVReader\<close> of \<open>MatterTLV.h\<close> and \<open>MatterTLVReader.cpp\<close>: its state as a record
  that other components extend, and one definition per method, in the order of the source's call
  graph. The pointers \<open>mReadPoint\<close> and \<open>mBufEnd\<close> are offsets into \<open>mBuf\<close>, the bytes of the object
  they point into; \<open>GetNextBuffer\<close> is the application's callback, \<open>None\<close> for a null pointer, from
  the buffer handle to an error code, the new handle and the bytes of the new buffer (a callback
  that fails or has no more data leaves the read pointer as it was).

  The loops of \<open>ReadData\<close> and \<open>SkipToEndOfContainer\<close> are \<^theory_text>\<open>partial_function\<close>s: \<open>None\<close> is a
  run that does not return. The theory \<open>TLV_Reader_Inv\<close> proves that this never happens.
\<close>

section \<open>State\<close>

record tlv_reader =
  mElemTag :: u64
  mElemLenOrVal :: u64
  mBufHandle :: u64
  mBuf :: "byte list"
  mReadPoint :: nat
  mBufEnd :: nat
  mLenRead :: u32
  mMaxLen :: u32
  mContainerType :: TLVType
  mControlByte :: u16
  mContainerOpen :: bool
  ImplicitProfileId :: u32
  AppData :: u64
  GetNextBuffer :: "(u64 \<Rightarrow> MATTER_ERROR \<times> u64 \<times> byte list) option"

definition kTLVControlByte_NotSpecified :: u16 where
  [simp]: "kTLVControlByte_NotSpecified = 0xFFFF"

definition IsContainerOpen :: "'a tlv_reader_scheme \<Rightarrow> bool" where
  "IsContainerOpen r = mContainerOpen r"

definition SetContainerOpen :: "bool \<Rightarrow> 'a tlv_reader_scheme \<Rightarrow> 'a tlv_reader_scheme" where
  "SetContainerOpen aContainerOpen r = r\<lparr>mContainerOpen := aContainerOpen\<rparr>"

definition ClearElementState :: "'a tlv_reader_scheme \<Rightarrow> 'a tlv_reader_scheme" where
  "ClearElementState r =
     r\<lparr>mElemTag := AnonymousTag, mControlByte := kTLVControlByte_NotSpecified, mElemLenOrVal := 0\<rparr>"

text \<open>\<open>Init(data, dataLen)\<close> overwrites whatever the object held.\<close>

definition Init_buf :: "byte list \<Rightarrow> u32 \<Rightarrow> 'a tlv_reader_scheme \<Rightarrow> 'a tlv_reader_scheme" where
  "Init_buf data dataLen r =
     (let r = r\<lparr>mBufHandle := 0, mBuf := data, mReadPoint := 0, mBufEnd := unat dataLen,
                mLenRead := 0, mMaxLen := dataLen\<rparr>;
          r = ClearElementState r;
          r = r\<lparr>mContainerType := kTLVType_NotSpecified\<rparr>;
          r = SetContainerOpen False r
      in r\<lparr>ImplicitProfileId := kProfileIdNotSpecified, AppData := 0, GetNextBuffer := None\<rparr>)"

definition Init_copy :: "'b tlv_reader_scheme \<Rightarrow> 'a tlv_reader_scheme \<Rightarrow> 'a tlv_reader_scheme" where
  "Init_copy aReader r =
     (let r = r\<lparr>mElemTag := mElemTag aReader, mElemLenOrVal := mElemLenOrVal aReader,
                mBufHandle := mBufHandle aReader, mBuf := mBuf aReader,
                mReadPoint := mReadPoint aReader, mBufEnd := mBufEnd aReader,
                mLenRead := mLenRead aReader, mMaxLen := mMaxLen aReader,
                mControlByte := mControlByte aReader, mContainerType := mContainerType aReader\<rparr>;
          r = SetContainerOpen (IsContainerOpen aReader) r
      in r\<lparr>ImplicitProfileId := ImplicitProfileId aReader, AppData := AppData aReader,
           GetNextBuffer := GetNextBuffer aReader\<rparr>)"

section \<open>The current element\<close>

definition ElementType :: "'a tlv_reader_scheme \<Rightarrow> TLVElementType" where
  "ElementType r =
     (if mControlByte r = kTLVControlByte_NotSpecified then kTLVElementType_NotSpecified
      else uint (mControlByte r AND kTLVTypeMask))"

text \<open>The element type as the \<open>uint8_t\<close> that the predicates of \<open>MatterTLVTypes.h\<close> take.\<close>

definition elem8 :: "'a tlv_reader_scheme \<Rightarrow> byte" where
  "elem8 r = word_of_int (ElementType r)"

definition GetType :: "'a tlv_reader_scheme \<Rightarrow> TLVType" where
  "GetType r =
     (let elemType = ElementType r in
      if elemType = kTLVElementType_EndOfContainer then kTLVType_NotSpecified
      else if elemType = kTLVElementType_FloatingPointNumber32 \<or>
              elemType = kTLVElementType_FloatingPointNumber64 then kTLVType_FloatingPointNumber
      else if elemType = kTLVElementType_NotSpecified \<or> elemType \<ge> kTLVElementType_Null then elemType
      else elemType AND NOT kTLVTypeSizeMask)"

definition GetControlByte :: "'a tlv_reader_scheme \<Rightarrow> u16" where
  "GetControlByte r = mControlByte r"

definition GetTag :: "'a tlv_reader_scheme \<Rightarrow> u64" where
  "GetTag r = mElemTag r"

definition GetLength :: "'a tlv_reader_scheme \<Rightarrow> u32" where
  "GetLength r = (if TLVTypeHasLength (elem8 r) then ucast (mElemLenOrVal r) else 0)"

definition GetLengthRead :: "'a tlv_reader_scheme \<Rightarrow> u32" where
  "GetLengthRead r = mLenRead r"

definition GetRemainingLength :: "'a tlv_reader_scheme \<Rightarrow> u32" where
  "GetRemainingLength r = mMaxLen r - mLenRead r"

definition GetContainerType :: "'a tlv_reader_scheme \<Rightarrow> TLVType" where
  "GetContainerType r = mContainerType r"

text \<open>
  The \<open>Get\<close> overloads take the variable the reference parameter names and return its new value.
\<close>

definition Get_bool :: "'a tlv_reader_scheme \<Rightarrow> bool \<Rightarrow> MATTER_ERROR \<times> bool" where
  "Get_bool r v =
     (let elemType = ElementType r in
      if elemType = kTLVElementType_BooleanFalse then (MATTER_NO_ERROR, False)
      else if elemType = kTLVElementType_BooleanTrue then (MATTER_NO_ERROR, True)
      else (MATTER_ERROR_WRONG_TLV_TYPE, v))"

definition Get_u64 :: "'a tlv_reader_scheme \<Rightarrow> u64 \<Rightarrow> MATTER_ERROR \<times> u64" where
  "Get_u64 r v =
     (let elemType = ElementType r in
      if elemType = kTLVElementType_Int8
      then (MATTER_NO_ERROR, scast (ucast (mElemLenOrVal r) :: byte))
      else if elemType = kTLVElementType_Int16
      then (MATTER_NO_ERROR, scast (ucast (mElemLenOrVal r) :: u16))
      else if elemType = kTLVElementType_Int32
      then (MATTER_NO_ERROR, scast (ucast (mElemLenOrVal r) :: u32))
      else if elemType = kTLVElementType_Int64 \<or> elemType = kTLVElementType_UInt8 \<or>
              elemType = kTLVElementType_UInt16 \<or> elemType = kTLVElementType_UInt32 \<or>
              elemType = kTLVElementType_UInt64
      then (MATTER_NO_ERROR, mElemLenOrVal r)
      else (MATTER_ERROR_WRONG_TLV_TYPE, v))"

definition Get_i8 :: "'a tlv_reader_scheme \<Rightarrow> MATTER_ERROR \<times> byte" where
  "Get_i8 r = (let v64 = 0; (err, v64) = Get_u64 r v64 in (err, ucast v64))"

definition Get_i16 :: "'a tlv_reader_scheme \<Rightarrow> MATTER_ERROR \<times> u16" where
  "Get_i16 r = (let v64 = 0; (err, v64) = Get_u64 r v64 in (err, ucast v64))"

definition Get_i32 :: "'a tlv_reader_scheme \<Rightarrow> MATTER_ERROR \<times> u32" where
  "Get_i32 r = (let v64 = 0; (err, v64) = Get_u64 r v64 in (err, ucast v64))"

definition Get_i64 :: "'a tlv_reader_scheme \<Rightarrow> MATTER_ERROR \<times> u64" where
  "Get_i64 r = (let v64 = 0; (err, v64) = Get_u64 r v64 in (err, v64))"

definition Get_u8 :: "'a tlv_reader_scheme \<Rightarrow> MATTER_ERROR \<times> byte" where
  "Get_u8 r = (let v64 = 0; (err, v64) = Get_u64 r v64 in (err, ucast v64))"

definition Get_u16 :: "'a tlv_reader_scheme \<Rightarrow> MATTER_ERROR \<times> u16" where
  "Get_u16 r = (let v64 = 0; (err, v64) = Get_u64 r v64 in (err, ucast v64))"

definition Get_u32 :: "'a tlv_reader_scheme \<Rightarrow> MATTER_ERROR \<times> u32" where
  "Get_u32 r = (let v64 = 0; (err, v64) = Get_u64 r v64 in (err, ucast v64))"

text \<open>
  A \<open>double\<close> that was read is the bit pattern of the \<open>float\<close> or \<open>double\<close> it comes from.
\<close>

datatype cdouble = OfFloat u32 | OfDouble u64

definition Get_double :: "'a tlv_reader_scheme \<Rightarrow> cdouble \<Rightarrow> MATTER_ERROR \<times> cdouble" where
  "Get_double r v =
     (let elemType = ElementType r in
      if elemType = kTLVElementType_FloatingPointNumber32
      then (MATTER_NO_ERROR, OfFloat (ucast (mElemLenOrVal r)))
      else if elemType = kTLVElementType_FloatingPointNumber64
      then (MATTER_NO_ERROR, OfDouble (mElemLenOrVal r))
      else (MATTER_ERROR_WRONG_TLV_TYPE, v))"

section \<open>Input\<close>

text \<open>\<open>mBufEnd - mReadPoint\<close>, a pointer difference.\<close>

definition buf_left :: "'a tlv_reader_scheme \<Rightarrow> int" where
  "buf_left r = int (mBufEnd r) - int (mReadPoint r)"

definition EnsureData :: "MATTER_ERROR \<Rightarrow> 'a tlv_reader_scheme \<Rightarrow> MATTER_ERROR \<times> 'a tlv_reader_scheme" where
  "EnsureData noDataErr r =
     (if mReadPoint r = mBufEnd r then
        (if mLenRead r = mMaxLen r then (noDataErr, r)
         else (case GetNextBuffer r of
             None \<Rightarrow> (noDataErr, r)
           | Some getNext \<Rightarrow>
               (let (err, handle, bs) = getNext (mBufHandle r);
                    r = r\<lparr>mBufHandle := handle\<rparr>;
                    bufLen = (of_nat (length bs) :: u32)
                in if err \<noteq> MATTER_NO_ERROR then (err, r)
                   else if bufLen = 0 then (noDataErr, r)
                   else
                     (let overallLenRemaining = mMaxLen r - mLenRead r;
                          bufLen = (if overallLenRemaining < bufLen then overallLenRemaining
                                    else bufLen)
                      in (MATTER_NO_ERROR,
                          r\<lparr>mBuf := bs, mReadPoint := 0, mBufEnd := 0 + unat bufLen\<rparr>)))))
      else (MATTER_NO_ERROR, r))"

text \<open>
  \<open>memcpy(buf, mReadPoint, readLen)\<close>, when \<open>buf\<close> is not null: the destination has room for \<open>cap\<close>
  bytes and \<open>acc\<close> is what was stored so far. Neither object may be overrun.
\<close>

definition copy_out ::
  "nat option \<Rightarrow> byte list \<Rightarrow> nat \<Rightarrow> 'a tlv_reader_scheme \<Rightarrow> byte list option" where
  "copy_out cap acc n r =
     (case cap of None \<Rightarrow> Some acc
      | Some room \<Rightarrow>
          if room < length acc + n then None
          else (case load_bytes (mBuf r) (mReadPoint r) n of
              None \<Rightarrow> None | Some bs \<Rightarrow> Some (acc @ bs)))"

partial_function (option) ReadData_loop ::
  "nat option \<Rightarrow> byte list \<Rightarrow> u32 \<Rightarrow> 'a tlv_reader_scheme \<Rightarrow>
   (MATTER_ERROR \<times> byte list \<times> 'a tlv_reader_scheme) option" where
  [code]: "ReadData_loop cap acc len r =
     (if len > 0 then
        (let (err, r) = EnsureData MATTER_ERROR_TLV_UNDERRUN r in
         if err \<noteq> MATTER_NO_ERROR then Some (err, acc, r)
         else
           (let remainingLen = (word_of_int (buf_left r) :: u32);
                readLen = (if len > remainingLen then remainingLen else len)
            in case copy_out cap acc (unat readLen) r of
                None \<Rightarrow> None
              | Some acc' \<Rightarrow>
                  ReadData_loop cap acc' (len - readLen)
                    (r\<lparr>mReadPoint := mReadPoint r + unat readLen,
                       mLenRead := mLenRead r + readLen\<rparr>)))
      else Some (MATTER_NO_ERROR, acc, r))"

text \<open>\<open>ReadData(buf, len)\<close>: \<open>cap\<close> is \<open>None\<close> for a null \<open>buf\<close>, else the size of the object at \<open>buf\<close>.\<close>

definition ReadData ::
  "nat option \<Rightarrow> u32 \<Rightarrow> 'a tlv_reader_scheme \<Rightarrow>
   (MATTER_ERROR \<times> byte list \<times> 'a tlv_reader_scheme) option" where
  "ReadData cap len r = ReadData_loop cap [] len r"

section \<open>Reading an element\<close>

definition sTagSizes :: "byte list" where
  "sTagSizes = [0, 1, 2, 4, 2, 4, 6, 8]"

definition stagingBuf_size :: nat where
  "stagingBuf_size = 17"

text \<open>The number of bytes of an element's head: control byte, tag, and length or value field.\<close>

definition head_bytes :: "'a tlv_reader_scheme \<Rightarrow> byte" where
  "head_bytes r =
     (let tagControl = mControlByte r AND kTLVTagControlMask;
          tagBytes = sTagSizes ! unat (drop_bit kTLVTagControlShift tagControl);
          lenOrValFieldSize = GetTLVFieldSize (elem8 r);
          valOrLenBytes = TLVFieldSizeToBytes lenOrValFieldSize
      in 1 + tagBytes + valOrLenBytes)"

definition GetElementHeadLength :: "'a tlv_reader_scheme \<Rightarrow> byte \<Rightarrow> MATTER_ERROR \<times> byte" where
  "GetElementHeadLength r elemHeadBytes =
     (if \<not> IsValidTLVType (elem8 r) then (MATTER_ERROR_INVALID_TLV_ELEMENT, elemHeadBytes)
      else (MATTER_NO_ERROR, head_bytes r))"

definition ReadTag ::
  "'a tlv_reader_scheme \<Rightarrow> TLVTagControl \<Rightarrow> byte list \<Rightarrow> (u64 \<times> byte list) option" where
  "ReadTag r tagControl p =
     (if tagControl = kTLVTagControl_ContextSpecific then
        (case Read8 p of None \<Rightarrow> None | Some (n, p) \<Rightarrow> Some (ContextTag n, p))
      else if tagControl = kTLVTagControl_CommonProfile_2Bytes then
        (case LE_Read16 p of None \<Rightarrow> None | Some (n, p) \<Rightarrow> Some (CommonTag (ucast n), p))
      else if tagControl = kTLVTagControl_CommonProfile_4Bytes then
        (case LE_Read32 p of None \<Rightarrow> None | Some (n, p) \<Rightarrow> Some (CommonTag n, p))
      else if tagControl = kTLVTagControl_ImplicitProfile_2Bytes then
        (if ImplicitProfileId r = kProfileIdNotSpecified then Some (UnknownImplicitTag, p)
         else case LE_Read16 p of None \<Rightarrow> None
           | Some (n, p) \<Rightarrow> Some (ProfileTag (ImplicitProfileId r) (ucast n), p))
      else if tagControl = kTLVTagControl_ImplicitProfile_4Bytes then
        (if ImplicitProfileId r = kProfileIdNotSpecified then Some (UnknownImplicitTag, p)
         else case LE_Read32 p of None \<Rightarrow> None
           | Some (n, p) \<Rightarrow> Some (ProfileTag (ImplicitProfileId r) n, p))
      else if tagControl = kTLVTagControl_FullyQualified_6Bytes then
        (case LE_Read16 p of None \<Rightarrow> None | Some (vendorId, p) \<Rightarrow>
         (case LE_Read16 p of None \<Rightarrow> None | Some (profileNum, p) \<Rightarrow>
          (case LE_Read16 p of None \<Rightarrow> None
           | Some (n, p) \<Rightarrow> Some (ProfileTag3 vendorId profileNum (ucast n), p))))
      else if tagControl = kTLVTagControl_FullyQualified_8Bytes then
        (case LE_Read16 p of None \<Rightarrow> None | Some (vendorId, p) \<Rightarrow>
         (case LE_Read16 p of None \<Rightarrow> None | Some (profileNum, p) \<Rightarrow>
          (case LE_Read32 p of None \<Rightarrow> None
           | Some (n, p) \<Rightarrow> Some (ProfileTag3 vendorId profileNum n, p))))
      else Some (AnonymousTag, p))"

text \<open>The length or value field of a head, by its size.\<close>

definition ReadLenOrVal :: "TLVFieldSize \<Rightarrow> byte list \<Rightarrow> u64 \<Rightarrow> u64 option" where
  "ReadLenOrVal lenOrValFieldSize p old =
     (if lenOrValFieldSize = kTLVFieldSize_0Byte then Some 0
      else if lenOrValFieldSize = kTLVFieldSize_1Byte then map_option (\<lambda>(v, p). ucast v) (Read8 p)
      else if lenOrValFieldSize = kTLVFieldSize_2Byte then map_option (\<lambda>(v, p). ucast v) (LE_Read16 p)
      else if lenOrValFieldSize = kTLVFieldSize_4Byte then map_option (\<lambda>(v, p). ucast v) (LE_Read32 p)
      else if lenOrValFieldSize = kTLVFieldSize_8Byte then map_option (\<lambda>(v, p). v) (LE_Read64 p)
      else Some old)"

definition VerifyElement :: "'a tlv_reader_scheme \<Rightarrow> MATTER_ERROR" where
  "VerifyElement r =
     (let contextErr =
        (if ElementType r = kTLVElementType_EndOfContainer then
           (if mContainerType r = kTLVType_NotSpecified then MATTER_ERROR_INVALID_TLV_ELEMENT
            else if mElemTag r \<noteq> AnonymousTag then MATTER_ERROR_INVALID_TLV_TAG
            else MATTER_NO_ERROR)
         else if mElemTag r = UnknownImplicitTag then MATTER_ERROR_UNKNOWN_IMPLICIT_TLV_TAG
         else if mContainerType r = kTLVType_NotSpecified then
           (if IsContextTag (mElemTag r) then MATTER_ERROR_INVALID_TLV_TAG else MATTER_NO_ERROR)
         else if mContainerType r = kTLVType_Structure \<or> mContainerType r = kTLVType_Path then
           (if mElemTag r = AnonymousTag then MATTER_ERROR_INVALID_TLV_TAG else MATTER_NO_ERROR)
         else if mContainerType r = kTLVType_Array then
           (if mElemTag r \<noteq> AnonymousTag then MATTER_ERROR_INVALID_TLV_TAG else MATTER_NO_ERROR)
         else if mContainerType r = kTLVType_UnknownContainer then MATTER_NO_ERROR
         else MATTER_ERROR_INCORRECT_STATE)
      in if contextErr \<noteq> MATTER_NO_ERROR then contextErr
         else if TLVTypeHasLength (elem8 r) \<and> mMaxLen r - mLenRead r < ucast (mElemLenOrVal r)
         then MATTER_ERROR_TLV_UNDERRUN
         else MATTER_NO_ERROR)"

text \<open>
  \<open>ReadElement\<close> in its two halves: getting the head's bytes (from the staging buffer when the head
  straddles the end of the input buffer), and parsing them.
\<close>

definition ReadElementHead ::
  "'a tlv_reader_scheme \<Rightarrow> (MATTER_ERROR \<times> byte list \<times> 'a tlv_reader_scheme) option" where
  "ReadElementHead r =
     (let elemHeadBytes = head_bytes r in
      if int (unat elemHeadBytes) > buf_left r
      then ReadData (Some stagingBuf_size) (ucast elemHeadBytes) r
      else Some (MATTER_NO_ERROR, drop (mReadPoint r) (mBuf r),
                 r\<lparr>mReadPoint := mReadPoint r + unat elemHeadBytes,
                   mLenRead := mLenRead r + ucast elemHeadBytes\<rparr>))"

definition ReadElementFields :: "byte list \<Rightarrow> 'a tlv_reader_scheme \<Rightarrow> 'a tlv_reader_scheme result" where
  "ReadElementFields p r =
     (case Read8 p of None \<Rightarrow> None
      | Some (_, p) \<Rightarrow>
        (case ReadTag r (uint (mControlByte r AND kTLVTagControlMask)) p of None \<Rightarrow> None
         | Some (tag, p) \<Rightarrow>
           (case ReadLenOrVal (GetTLVFieldSize (elem8 r)) p (mElemLenOrVal r) of None \<Rightarrow> None
            | Some v \<Rightarrow>
              (let r = r\<lparr>mElemTag := tag, mElemLenOrVal := v\<rparr> in Some (VerifyElement r, r)))))"

definition ReadElement :: "'a tlv_reader_scheme \<Rightarrow> 'a tlv_reader_scheme result" where
  "ReadElement r =
     (let (err, r) = EnsureData MATTER_END_OF_TLV r in
      if err \<noteq> MATTER_NO_ERROR then Some (err, r)
      else
        (case Read8 (drop (mReadPoint r) (mBuf r)) of None \<Rightarrow> None
         | Some (c, _) \<Rightarrow>
           (let r = r\<lparr>mControlByte := ucast c\<rparr> in
            if \<not> IsValidTLVType (elem8 r) then Some (MATTER_ERROR_INVALID_TLV_ELEMENT, r)
            else
              (case ReadElementHead r of None \<Rightarrow> None
               | Some (err, p, r) \<Rightarrow>
                   if err \<noteq> MATTER_NO_ERROR then Some (err, r) else ReadElementFields p r))))"

section \<open>Skipping\<close>

definition SkipData :: "'a tlv_reader_scheme \<Rightarrow> 'a tlv_reader_scheme result" where
  "SkipData r =
     (if TLVTypeHasLength (elem8 r)
      then (case ReadData None (ucast (mElemLenOrVal r)) r of None \<Rightarrow> None
            | Some (err, _, r) \<Rightarrow> Some (err, r))
      else Some (MATTER_NO_ERROR, r))"

definition SkipToEnd_enter ::
  "u32 \<Rightarrow> TLVType \<Rightarrow> 'a tlv_reader_scheme \<Rightarrow> u32 \<times> 'a tlv_reader_scheme" where
  \<comment> \<open>the bookkeeping of one turn of the loop: the nesting level and the container type\<close>
  "SkipToEnd_enter nestLevel outerContainerType r =
     (let elemType = ElementType r in
      if elemType = kTLVElementType_EndOfContainer then
        (let nestLevel = nestLevel - 1 in
         (nestLevel, r\<lparr>mContainerType := (if nestLevel = 0 then outerContainerType
                                          else kTLVType_UnknownContainer)\<rparr>))
      else if TLVTypeIsContainer (elem8 r) then
        (nestLevel + 1, r\<lparr>mContainerType := elemType\<rparr>)
      else (nestLevel, r))"

partial_function (option) SkipToEnd_loop ::
  "u32 \<Rightarrow> TLVType \<Rightarrow> 'a tlv_reader_scheme \<Rightarrow> 'a tlv_reader_scheme result" where
  [code]: "SkipToEnd_loop nestLevel outerContainerType r =
     (if ElementType r = kTLVElementType_EndOfContainer \<and> nestLevel = 0 then Some (MATTER_NO_ERROR, r)
      else
        (let (nestLevel, r) = SkipToEnd_enter nestLevel outerContainerType r in
         SuccessOrExit (SkipData r) (\<lambda>r.
         SuccessOrExit (ReadElement r) (\<lambda>r.
         SkipToEnd_loop nestLevel outerContainerType r))))"

definition SkipToEndOfContainer :: "'a tlv_reader_scheme \<Rightarrow> 'a tlv_reader_scheme result" where
  "SkipToEndOfContainer r =
     (let outerContainerType = mContainerType r;
          nestLevel = 0;
          r = SetContainerOpen False r
      in SkipToEnd_loop nestLevel outerContainerType r)"

section \<open>Containers\<close>

text \<open>\<open>EnterContainer\<close> returns the container type it saves, on success.\<close>

definition EnterContainer ::
  "'a tlv_reader_scheme \<Rightarrow> TLVType \<Rightarrow> MATTER_ERROR \<times> TLVType \<times> 'a tlv_reader_scheme" where
  "EnterContainer r outerContainerType =
     (if \<not> TLVTypeIsContainer (elem8 r) then (MATTER_ERROR_INCORRECT_STATE, outerContainerType, r)
      else
        (let outerContainerType = mContainerType r;
             r = r\<lparr>mContainerType := ElementType r\<rparr>;
             r = ClearElementState r;
             r = SetContainerOpen False r
         in (MATTER_NO_ERROR, outerContainerType, r)))"

definition ExitContainer :: "TLVType \<Rightarrow> 'a tlv_reader_scheme \<Rightarrow> 'a tlv_reader_scheme result" where
  "ExitContainer outerContainerType r =
     SuccessOrExit (SkipToEndOfContainer r) (\<lambda>r.
       Some (MATTER_NO_ERROR, ClearElementState (r\<lparr>mContainerType := outerContainerType\<rparr>)))"

definition OpenContainer ::
  "'b tlv_reader_scheme \<Rightarrow> 'a tlv_reader_scheme \<Rightarrow>
   MATTER_ERROR \<times> 'b tlv_reader_scheme \<times> 'a tlv_reader_scheme" where
  "OpenContainer containerReader r =
     (if \<not> TLVTypeIsContainer (elem8 r) then (MATTER_ERROR_INCORRECT_STATE, containerReader, r)
      else
        (let c = containerReader\<lparr>mBufHandle := mBufHandle r, mBuf := mBuf r,
                   mReadPoint := mReadPoint r, mBufEnd := mBufEnd r, mLenRead := mLenRead r,
                   mMaxLen := mMaxLen r\<rparr>;
             c = ClearElementState c;
             c = c\<lparr>mContainerType := ElementType r\<rparr>;
             c = SetContainerOpen False c;
             c = c\<lparr>ImplicitProfileId := ImplicitProfileId r, AppData := AppData r,
                   GetNextBuffer := GetNextBuffer r\<rparr>
         in (MATTER_NO_ERROR, c, SetContainerOpen True r)))"

definition CloseContainer ::
  "'b tlv_reader_scheme \<Rightarrow> 'a tlv_reader_scheme \<Rightarrow>
   (MATTER_ERROR \<times> 'b tlv_reader_scheme \<times> 'a tlv_reader_scheme) option" where
  "CloseContainer containerReader r =
     (if \<not> IsContainerOpen r then Some (MATTER_ERROR_INCORRECT_STATE, containerReader, r)
      else if mContainerType containerReader \<noteq> ElementType r
      then Some (MATTER_ERROR_INCORRECT_STATE, containerReader, r)
      else (case SkipToEndOfContainer containerReader of None \<Rightarrow> None
        | Some (err, c) \<Rightarrow>
            if err \<noteq> MATTER_NO_ERROR then Some (err, c, r)
            else Some (MATTER_NO_ERROR, c,
                   ClearElementState (r\<lparr>mBufHandle := mBufHandle c, mBuf := mBuf c,
                     mReadPoint := mReadPoint c, mBufEnd := mBufEnd c, mLenRead := mLenRead c,
                     mMaxLen := mMaxLen c\<rparr>))))"

section \<open>Moving through the encoding\<close>

definition Skip :: "'a tlv_reader_scheme \<Rightarrow> 'a tlv_reader_scheme result" where
  "Skip r =
     (if ElementType r = kTLVElementType_EndOfContainer then Some (MATTER_END_OF_TLV, r)
      else if TLVTypeIsContainer (elem8 r) then
        (case EnterContainer r kTLVType_NotSpecified of (err, outerContainerType, r) \<Rightarrow>
          if err \<noteq> MATTER_NO_ERROR then Some (err, r)
          else SuccessOrExit (ExitContainer outerContainerType r) (\<lambda>r. Some (MATTER_NO_ERROR, r)))
      else SuccessOrExit (SkipData r) (\<lambda>r. Some (MATTER_NO_ERROR, ClearElementState r)))"

definition Next :: "'a tlv_reader_scheme \<Rightarrow> 'a tlv_reader_scheme result" where
  "Next r =
     SuccessOrExit (Skip r) (\<lambda>r.
     SuccessOrExit (ReadElement r) (\<lambda>r.
       if ElementType r = kTLVElementType_EndOfContainer then Some (MATTER_END_OF_TLV, r)
       else Some (MATTER_NO_ERROR, r)))"

definition Next_expect :: "TLVType \<Rightarrow> u64 \<Rightarrow> 'a tlv_reader_scheme \<Rightarrow> 'a tlv_reader_scheme result" where
  "Next_expect expectedType expectedTag r =
     SuccessOrExit (Next r) (\<lambda>r.
       if GetType r \<noteq> expectedType then Some (MATTER_ERROR_WRONG_TLV_TYPE, r)
       else if mElemTag r \<noteq> expectedTag then Some (MATTER_ERROR_UNEXPECTED_TLV_ELEMENT, r)
       else Some (MATTER_NO_ERROR, r))"

definition VerifyEndOfContainer :: "'a tlv_reader_scheme \<Rightarrow> 'a tlv_reader_scheme result" where
  "VerifyEndOfContainer r =
     (case Next r of None \<Rightarrow> None
      | Some (err, r) \<Rightarrow>
          if err = MATTER_END_OF_TLV then Some (MATTER_NO_ERROR, r)
          else if err = MATTER_NO_ERROR then Some (MATTER_ERROR_UNEXPECTED_TLV_ELEMENT, r)
          else Some (err, r))"

section \<open>String values\<close>

definition GetBytes ::
  "u32 \<Rightarrow> 'a tlv_reader_scheme \<Rightarrow> (MATTER_ERROR \<times> byte list \<times> 'a tlv_reader_scheme) option" where
  "GetBytes bufSize r =
     (if \<not> TLVTypeIsString (elem8 r) then Some (MATTER_ERROR_WRONG_TLV_TYPE, [], r)
      else if mElemLenOrVal r > ucast bufSize then Some (MATTER_ERROR_BUFFER_TOO_SMALL, [], r)
      else (case ReadData (Some (unat bufSize)) (ucast (mElemLenOrVal r)) r of None \<Rightarrow> None
        | Some (err, bs, r) \<Rightarrow>
            if err \<noteq> MATTER_NO_ERROR then Some (err, bs, r)
            else Some (MATTER_NO_ERROR, bs, r\<lparr>mElemLenOrVal := 0\<rparr>)))"

text \<open>The terminating zero that \<open>GetString\<close> stores at \<open>buf[mElemLenOrVal]\<close> has to be in \<open>buf\<close>.\<close>

definition GetString ::
  "u32 \<Rightarrow> 'a tlv_reader_scheme \<Rightarrow> (MATTER_ERROR \<times> byte list \<times> 'a tlv_reader_scheme) option" where
  "GetString bufSize r =
     (if \<not> TLVTypeIsString (elem8 r) then Some (MATTER_ERROR_WRONG_TLV_TYPE, [], r)
      else if mElemLenOrVal r + 1 > ucast bufSize then Some (MATTER_ERROR_BUFFER_TOO_SMALL, [], r)
      else if unat (mElemLenOrVal r) \<ge> unat bufSize then None
      else GetBytes (bufSize - 1) r)"

text \<open>
  \<open>malloc_ok n\<close> says whether the allocation of \<open>n\<close> bytes succeeds. \<open>buf\<close> and \<open>dataLen\<close> are the
  variables the reference parameters name; a buffer freed on an error path is not returned.
\<close>

definition DupBytes ::
  "(u64 \<Rightarrow> bool) \<Rightarrow> u32 \<Rightarrow> 'a tlv_reader_scheme \<Rightarrow>
   (MATTER_ERROR \<times> byte list option \<times> u32 \<times> 'a tlv_reader_scheme) option" where
  "DupBytes malloc_ok dataLen r =
     (if \<not> TLVTypeIsString (elem8 r) then Some (MATTER_ERROR_WRONG_TLV_TYPE, None, dataLen, r)
      else if \<not> malloc_ok (mElemLenOrVal r) then Some (MATTER_ERROR_NO_MEMORY, None, dataLen, r)
      else (case ReadData (Some (unat (mElemLenOrVal r))) (ucast (mElemLenOrVal r)) r of None \<Rightarrow> None
        | Some (err, bs, r) \<Rightarrow>
            if err \<noteq> MATTER_NO_ERROR then Some (err, None, dataLen, r)
            else Some (MATTER_NO_ERROR, Some bs, ucast (mElemLenOrVal r), r\<lparr>mElemLenOrVal := 0\<rparr>)))"

definition DupString ::
  "(u64 \<Rightarrow> bool) \<Rightarrow> 'a tlv_reader_scheme \<Rightarrow>
   (MATTER_ERROR \<times> byte list option \<times> 'a tlv_reader_scheme) option" where
  "DupString malloc_ok r =
     (if \<not> TLVTypeIsString (elem8 r) then Some (MATTER_ERROR_WRONG_TLV_TYPE, None, r)
      else if \<not> malloc_ok (mElemLenOrVal r + 1) then Some (MATTER_ERROR_NO_MEMORY, None, r)
      else (case ReadData (Some (unat (mElemLenOrVal r + 1))) (ucast (mElemLenOrVal r)) r of None \<Rightarrow> None
        | Some (err, bs, r) \<Rightarrow>
            if err \<noteq> MATTER_NO_ERROR then Some (err, None, r)
            else if unat (mElemLenOrVal r) \<ge> unat (mElemLenOrVal r + 1) then None
            else Some (MATTER_NO_ERROR, Some bs, r\<lparr>mElemLenOrVal := 0\<rparr>)))"

text \<open>\<open>GetDataPtr\<close> returns the offset of the value in \<open>mBuf\<close>.\<close>

definition GetDataPtr ::
  "'a tlv_reader_scheme \<Rightarrow> MATTER_ERROR \<times> nat option \<times> 'a tlv_reader_scheme" where
  "GetDataPtr r =
     (if \<not> TLVTypeIsString (elem8 r) then (MATTER_ERROR_WRONG_TLV_TYPE, None, r)
      else
        (let (err, r) = EnsureData MATTER_ERROR_TLV_UNDERRUN r in
         if err \<noteq> MATTER_NO_ERROR then (err, None, r)
         else if (word_of_int (buf_left r) :: u32) < ucast (mElemLenOrVal r)
         then (MATTER_ERROR_TLV_UNDERRUN, None, r)
         else (MATTER_NO_ERROR, Some (mReadPoint r), r)))"

end
