(* ===== verification/TLV_Reader_Inv.thy ===== *)
theory TLV_Reader_Inv
  imports TLV_Reader
begin

text \<open>
  The reader's invariant, and that every method keeps it and returns. \<open>reader_inv\<close> says that the read
  pointer lies in its buffer and that what the buffer still holds fits in what may still be read.
  From it follow memory safety (no method reads or stores outside an object, which would be \<open>None\<close>)
  and termination of the two loops (a loop that does not return would be \<open>None\<close> too).
\<close>

section \<open>The invariant\<close>

definition remaining :: "'a tlv_reader_scheme \<Rightarrow> nat" where
  "remaining r = unat (mMaxLen r) - unat (mLenRead r)"

definition reader_inv :: "'a tlv_reader_scheme \<Rightarrow> bool" where
  "reader_inv r \<longleftrightarrow>
     mReadPoint r \<le> mBufEnd r \<and> mBufEnd r \<le> length (mBuf r) \<and>
     mLenRead r \<le> mMaxLen r \<and> mBufEnd r - mReadPoint r \<le> remaining r"

text \<open>\<open>moved r r'\<close>: from \<open>r\<close> to \<open>r'\<close> only the input position changed.\<close>

definition moved :: "'a tlv_reader_scheme \<Rightarrow> 'a tlv_reader_scheme \<Rightarrow> bool" where
  "moved r r' \<longleftrightarrow>
     r' = r\<lparr>mBufHandle := mBufHandle r', mBuf := mBuf r', mReadPoint := mReadPoint r',
            mBufEnd := mBufEnd r', mLenRead := mLenRead r'\<rparr>"

text \<open>\<open>in_context r r'\<close>: from \<open>r\<close> to \<open>r'\<close> the configuration and the container stayed.\<close>

definition in_context :: "'a tlv_reader_scheme \<Rightarrow> 'a tlv_reader_scheme \<Rightarrow> bool" where
  "in_context r r' \<longleftrightarrow>
     mMaxLen r' = mMaxLen r \<and> mContainerType r' = mContainerType r \<and>
     ImplicitProfileId r' = ImplicitProfileId r \<and> AppData r' = AppData r \<and>
     GetNextBuffer r' = GetNextBuffer r \<and> more r' = more r"

lemma moved_refl [simp]: "moved r r"
  by (simp add: moved_def)

lemma moved_fields:
  assumes "moved r r'"
  shows "mElemTag r' = mElemTag r" "mElemLenOrVal r' = mElemLenOrVal r" "mMaxLen r' = mMaxLen r"
    "mContainerType r' = mContainerType r" "mControlByte r' = mControlByte r"
    "mContainerOpen r' = mContainerOpen r" "ImplicitProfileId r' = ImplicitProfileId r"
    "AppData r' = AppData r" "GetNextBuffer r' = GetNextBuffer r" "more r' = more r"
  by (subst assms [unfolded moved_def]; simp)+

lemma movedI:
  assumes "mElemTag r' = mElemTag r" "mElemLenOrVal r' = mElemLenOrVal r" "mMaxLen r' = mMaxLen r"
    "mContainerType r' = mContainerType r" "mControlByte r' = mControlByte r"
    "mContainerOpen r' = mContainerOpen r" "ImplicitProfileId r' = ImplicitProfileId r"
    "AppData r' = AppData r" "GetNextBuffer r' = GetNextBuffer r" "more r' = more r"
  shows "moved r r'"
  using assms by (simp add: moved_def)

lemma moved_trans: "moved r r' \<Longrightarrow> moved r' r'' \<Longrightarrow> moved r r''"
  by (rule movedI) (simp_all add: moved_fields)

lemma moved_in_context: "moved r r' \<Longrightarrow> in_context r r'"
  by (simp add: in_context_def moved_fields)

lemma moved_ElementType: "moved r r' \<Longrightarrow> ElementType r' = ElementType r"
  by (simp add: ElementType_def moved_fields)

lemma moved_elem8: "moved r r' \<Longrightarrow> elem8 r' = elem8 r"
  by (simp add: elem8_def moved_ElementType)

lemma in_context_refl [simp]: "in_context r r"
  by (simp add: in_context_def)

lemma in_context_trans: "in_context r r' \<Longrightarrow> in_context r' r'' \<Longrightarrow> in_context r r''"
  by (simp add: in_context_def)

lemma in_context_remaining: "in_context r r' \<Longrightarrow> mMaxLen r' = mMaxLen r"
  by (simp add: in_context_def)

lemma reader_inv_remaining_less: "remaining r < 4294967296"
  using unat_le_32 [of "mMaxLen r"] by (simp add: remaining_def)

text \<open>The invariant and \<open>remaining\<close> look at the input position only.\<close>

lemma reader_inv_upd [simp]:
  "reader_inv (r\<lparr>mElemTag := t\<rparr>) = reader_inv r"
  "reader_inv (r\<lparr>mElemLenOrVal := v\<rparr>) = reader_inv r"
  "reader_inv (r\<lparr>mContainerType := ct\<rparr>) = reader_inv r"
  "reader_inv (r\<lparr>mControlByte := c\<rparr>) = reader_inv r"
  "reader_inv (r\<lparr>mContainerOpen := b\<rparr>) = reader_inv r"
  "reader_inv (r\<lparr>ImplicitProfileId := i\<rparr>) = reader_inv r"
  "reader_inv (ClearElementState r) = reader_inv r"
  "reader_inv (SetContainerOpen b r) = reader_inv r"
  by (simp_all add: reader_inv_def remaining_def ClearElementState_def SetContainerOpen_def)

lemma remaining_upd [simp]:
  "remaining (r\<lparr>mElemTag := t\<rparr>) = remaining r"
  "remaining (r\<lparr>mElemLenOrVal := v\<rparr>) = remaining r"
  "remaining (r\<lparr>mContainerType := ct\<rparr>) = remaining r"
  "remaining (r\<lparr>mControlByte := c\<rparr>) = remaining r"
  "remaining (r\<lparr>mContainerOpen := b\<rparr>) = remaining r"
  "remaining (r\<lparr>ImplicitProfileId := i\<rparr>) = remaining r"
  "remaining (ClearElementState r) = remaining r"
  "remaining (SetContainerOpen b r) = remaining r"
  by (simp_all add: remaining_def ClearElementState_def SetContainerOpen_def)

lemma Init_buf_inv:
  assumes "unat dataLen \<le> length data"
  shows "reader_inv (Init_buf data dataLen r)"
  using assms
  by (simp add: Init_buf_def Let_def reader_inv_def remaining_def ClearElementState_def
      SetContainerOpen_def)

section \<open>Input\<close>

lemma EnsureData_spec:
  assumes inv: "reader_inv r" and e: "EnsureData noDataErr r = (err, r')"
  shows "reader_inv r'" and "moved r r'" and "mLenRead r' = mLenRead r"
    and "err = 0 \<Longrightarrow> noDataErr \<noteq> 0 \<Longrightarrow> mReadPoint r' < mBufEnd r'"
proof -
  have "reader_inv r' \<and> moved r r' \<and> mLenRead r' = mLenRead r \<and>
        (err = 0 \<longrightarrow> noDataErr \<noteq> 0 \<longrightarrow> mReadPoint r' < mBufEnd r')"
  proof (cases "mReadPoint r = mBufEnd r \<and> mLenRead r \<noteq> mMaxLen r \<and> GetNextBuffer r \<noteq> None")
    case False
    then show ?thesis
      using inv e by (auto simp: EnsureData_def reader_inv_def split: if_splits option.splits)
  next
    case True
    then obtain g where g: "GetNextBuffer r = Some g" by auto
    obtain err1 h bs where gb: "g (mBufHandle r) = (err1, h, bs)" by (cases "g (mBufHandle r)")
    define n where "n = (of_nat (length bs) :: u32)"
    define m where "m = (if mMaxLen r - mLenRead r < n then mMaxLen r - mLenRead r else n)"
    have le: "mLenRead r \<le> mMaxLen r" using inv by (simp add: reader_inv_def)
    then have left: "unat (mMaxLen r - mLenRead r) = remaining r"
      by (simp add: remaining_def unat_sub)
    have "mMaxLen r - mLenRead r \<noteq> 0" using True by auto
    moreover have "unat n \<le> length bs" unfolding n_def by (simp add: unat_of_nat)
    ultimately have m: "unat m \<le> length bs" "unat m \<le> remaining r" "n \<noteq> 0 \<Longrightarrow> 0 < unat m"
      unfolding m_def by (auto simp: left [symmetric] word_less_nat_alt unat_gt_0)
    show ?thesis
    proof (cases "err1 = 0 \<and> n \<noteq> 0")
      case False
      with True inv e g gb show ?thesis
        by (auto simp: EnsureData_def reader_inv_def remaining_def n_def Let_def moved_def
            split: if_splits)
    next
      case ok: True
      have "(err, r') = (0, r\<lparr>mBufHandle := h, mBuf := bs, mReadPoint := 0, mBufEnd := unat m\<rparr>)"
        using True ok e g gb unfolding EnsureData_def m_def n_def by (simp add: Let_def)
      with m ok le show ?thesis
        by (simp add: reader_inv_def remaining_def moved_def)
    qed
  qed
  then show "reader_inv r'" "moved r r'" "mLenRead r' = mLenRead r"
    "err = 0 \<Longrightarrow> noDataErr \<noteq> 0 \<Longrightarrow> mReadPoint r' < mBufEnd r'"
    by auto
qed

text \<open>One step over \<open>n\<close> bytes that the buffer holds.\<close>

lemma advance_spec:
  assumes inv: "reader_inv r" and n: "unat n \<le> mBufEnd r - mReadPoint r"
  shows "reader_inv (r\<lparr>mReadPoint := mReadPoint r + unat n, mLenRead := mLenRead r + n\<rparr>)"
    and "unat (mLenRead r + n) = unat (mLenRead r) + unat n"
    and "unat n \<le> remaining r"
proof -
  have rem: "unat n \<le> remaining r" using inv n by (simp add: reader_inv_def)
  moreover have "unat (mLenRead r) \<le> unat (mMaxLen r)"
    using inv by (simp add: reader_inv_def word_le_nat_alt)
  ultimately have sum: "unat (mLenRead r) + unat n \<le> unat (mMaxLen r)"
    by (simp add: remaining_def)
  then have u: "unat (mLenRead r + n) = unat (mLenRead r) + unat n"
    using unat_le_32 [of "mMaxLen r"] by (simp add: unat_word_ariths)
  show "unat n \<le> remaining r" by (rule rem)
  show "unat (mLenRead r + n) = unat (mLenRead r) + unat n" by (rule u)
  show "reader_inv (r\<lparr>mReadPoint := mReadPoint r + unat n, mLenRead := mLenRead r + n\<rparr>)"
    using inv n sum by (auto simp: reader_inv_def remaining_def u word_le_nat_alt)
qed

text \<open>Reading \<open>len\<close> bytes into an object that has room for them returns, and what it stored.\<close>

definition read_post :: "'a tlv_reader_scheme \<Rightarrow> 'a tlv_reader_scheme \<Rightarrow> bool" where
  "read_post r r' \<longleftrightarrow> reader_inv r' \<and> moved r r' \<and> mLenRead r \<le> mLenRead r'"

lemma read_post_trans: "read_post r r' \<Longrightarrow> read_post r' r'' \<Longrightarrow> read_post r r''"
  by (auto simp: read_post_def intro: moved_trans)

lemma ReadData_loop_spec:
  assumes "reader_inv r" and "\<forall>room. cap = Some room \<longrightarrow> length acc + unat len \<le> room"
  shows "returns (ReadData_loop cap acc len r) (\<lambda>err (bs, r'). read_post r r' \<and>
           (err = 0 \<longrightarrow> unat (mLenRead r') = unat (mLenRead r) + unat len \<and>
              length bs = length acc + (if cap = None then 0 else unat len)))"
  using assms
proof (induction "unat len" arbitrary: len acc r rule: less_induct)
  case less
  show ?case
  proof (cases "len = 0")
    case True
    with less.prems show ?thesis by (subst ReadData_loop.simps) (simp add: read_post_def)
  next
    case False
    obtain err r1 where e: "EnsureData MATTER_ERROR_TLV_UNDERRUN r = (err, r1)" by fastforce
    note E = EnsureData_spec [OF less.prems(1) e]
    show ?thesis
    proof (cases "err = 0")
      case nz: False
      from E show ?thesis
        using nz e False
        by (subst ReadData_loop.simps) (simp add: word_gt_0 read_post_def)
    next
      case ok: True
      have pos: "mReadPoint r1 < mBufEnd r1" using E(4) ok by simp
      have "mBufEnd r1 - mReadPoint r1 \<le> remaining r1" using E(1) by (simp add: reader_inv_def)
      then have small: "mBufEnd r1 - mReadPoint r1 < 4294967296"
        using reader_inv_remaining_less [of r1] by linarith
      define rest where "rest = (word_of_int (buf_left r1) :: u32)"
      have rest: "unat rest = mBufEnd r1 - mReadPoint r1"
        unfolding rest_def buf_left_def using pos small
        by (subst unat_word_of_int_32) auto
      define n where "n = (if len > rest then rest else len)"
      have n: "unat n \<le> mBufEnd r1 - mReadPoint r1" "0 < unat n" "n \<le> len"
        using pos False rest unfolding n_def
        by (auto simp: word_less_nat_alt word_le_nat_alt unat_gt_0 not_less)
      then have len: "unat (len - n) = unat len - unat n" "unat n \<le> unat len"
        by (simp_all add: unat_sub word_le_nat_alt)
      define r2 where "r2 = r1\<lparr>mReadPoint := mReadPoint r1 + unat n, mLenRead := mLenRead r1 + n\<rparr>"
      note A = advance_spec [OF E(1) n(1)]
      have mem: "mReadPoint r1 + unat n \<le> length (mBuf r1)"
        using E(1) n(1) pos unfolding reader_inv_def by linarith
      obtain acc' where c: "copy_out cap acc (unat n) r1 = Some acc'"
        and acc': "length acc' = length acc + (if cap = None then 0 else unat n)"
        using less.prems(2) len mem
        by (cases cap) (auto simp: copy_out_def load_bytes_Some)
      have eq: "ReadData_loop cap acc len r = ReadData_loop cap acc' (len - n) r2"
        using False e ok c
        by (subst ReadData_loop.simps)
          (cases "rest < len"; simp add: word_gt_0 Let_def rest_def n_def r2_def)
      have post: "read_post r r2"
        using A(1,2) E(2,3) unfolding read_post_def r2_def
        by (auto simp: word_le_nat_alt moved_fields intro: moved_trans [OF E(2)] movedI)
      have "returns (ReadData_loop cap acc' (len - n) r2) (\<lambda>err (bs, r'). read_post r2 r' \<and>
           (err = 0 \<longrightarrow> unat (mLenRead r') = unat (mLenRead r2) + unat (len - n) \<and>
              length bs = length acc' + (if cap = None then 0 else unat (len - n))))"
        using less.hyps [of "len - n" r2 acc'] len n(2) A(1) less.prems(2) acc'
        by (auto simp: r2_def)
      then show ?thesis
        unfolding eq
        by (rule returns_mono)
          (use post acc' len A(2) E(3) in \<open>auto simp: r2_def intro: read_post_trans split: if_splits\<close>)
    qed
  qed
qed

lemma ReadData_spec:
  assumes "reader_inv r" and "\<And>room. cap = Some room \<Longrightarrow> unat len \<le> room"
  shows "returns (ReadData cap len r) (\<lambda>err (bs, r'). read_post r r' \<and>
           (err = 0 \<longrightarrow> unat (mLenRead r') = unat (mLenRead r) + unat len \<and>
              (cap \<noteq> None \<longrightarrow> length bs = unat len)))"
  unfolding ReadData_def
  by (rule returns_mono [OF ReadData_loop_spec [OF assms(1)]]) (use assms(2) in auto)

section \<open>Reading an element\<close>

lemma sTagSizes_nth: "unat w < 8 \<Longrightarrow> sTagSizes ! unat w \<in> {0, 1, 2, 4, 6, 8}"
proof -
  assume "unat w < 8"
  then have "unat w \<in> {0, 1, 2, 3, 4, 5, 6, 7}" by auto
  then show ?thesis by (auto simp: sTagSizes_def)
qed

text \<open>The tag control field of a control byte is one of eight values, and indexes \<open>sTagSizes\<close>.\<close>

lemma tag_control_cases:
  obtains k where "k < 8" "c AND kTLVTagControlMask = (of_nat (32 * k) :: u16)"
    "unat (drop_bit kTLVTagControlShift (c AND kTLVTagControlMask)) = k"
proof -
  define d where "d = take_bit 3 (drop_bit 5 c)"
  have c: "c AND kTLVTagControlMask = push_bit 5 d"
  proof -
    have m: "(0xE0 :: u16) = push_bit 5 (mask 3)" by (simp add: mask_eq_exp_minus_1)
    show ?thesis unfolding kTLVTagControlMask_def m d_def
      by (rule bit_eqI) (auto simp: bit_simps)
  qed
  have "unat d = take_bit 3 (unat (drop_bit 5 c))" unfolding d_def by (rule unsigned_take_bit_eq)
  then have k: "unat d < 8" by (simp add: take_bit_eq_mod)
  have d: "d = of_nat (unat d)" by simp
  have "push_bit 5 d = of_nat (32 * unat d)"
    by (subst d) (simp add: push_bit_eq_mult)
  moreover have "drop_bit 5 (push_bit 5 d) = d"
    unfolding d_def by (rule bit_eqI) (auto simp: bit_simps)
  ultimately show ?thesis using that [of "unat d"] k c by simp
qed

definition tag_bytes :: "nat \<Rightarrow> nat" where
  "tag_bytes k = [0, 1, 2, 4, 2, 4, 6, 8] ! k"

lemma less_8_cases: "(k::nat) < 8 \<Longrightarrow> k = 0 \<or> k = 1 \<or> k = 2 \<or> k = 3 \<or> k = 4 \<or> k = 5 \<or> k = 6 \<or> k = 7"
  by auto

lemma tag_bytes_le: "k < 8 \<Longrightarrow> tag_bytes k \<le> 8"
  by (drule less_8_cases) (auto simp: tag_bytes_def)

lemma unat_head_bytes:
  assumes "unat (drop_bit kTLVTagControlShift (mControlByte r AND kTLVTagControlMask)) = k" and "k < 8"
  shows "unat (head_bytes r) = 1 + tag_bytes k + unat (TLVFieldSizeToBytes (GetTLVFieldSize (elem8 r)))"
proof -
  have t: "unat (sTagSizes ! k) = tag_bytes k"
    using less_8_cases [OF assms(2)] by (elim disjE) (simp_all add: sTagSizes_def tag_bytes_def)
  have "unat (1 + sTagSizes ! k + TLVFieldSizeToBytes (GetTLVFieldSize (elem8 r))) =
        1 + tag_bytes k + unat (TLVFieldSizeToBytes (GetTLVFieldSize (elem8 r)))"
    using field_bytes_le [of "elem8 r"] tag_bytes_le [OF assms(2)]
    by (simp add: unat_word_ariths t)
  then show ?thesis by (simp add: head_bytes_def Let_def assms(1) [simplified])
qed

lemma head_bytes_bounds: "1 \<le> unat (head_bytes r)" "unat (head_bytes r) \<le> stagingBuf_size"
proof -
  obtain k where "k < 8" "unat (drop_bit kTLVTagControlShift (mControlByte r AND kTLVTagControlMask)) = k"
    by (rule tag_control_cases [of "mControlByte r"])
  then show "1 \<le> unat (head_bytes r)" "unat (head_bytes r) \<le> stagingBuf_size"
    using unat_head_bytes [of r k] tag_bytes_le [of k] field_bytes_le [of "elem8 r"]
    by (auto simp: stagingBuf_size_def)
qed

text \<open>A tag is read from as many bytes as its control says.\<close>

lemma ReadTag_total:
  assumes "k < 8" and "tag_bytes k \<le> length p"
  shows "\<exists>tag p'. ReadTag r (int (32 * k)) p = Some (tag, p') \<and> length p \<le> length p' + tag_bytes k"
proof -
  have r: "\<exists>n p'. Read8 p = Some (n, p') \<and> length p = 1 + length p'" if "1 \<le> length p"
    using u8.read_total [OF that] u8.read_consumes by blast
  have r2: "\<exists>n p'. LE_Read16 p = Some (n, p') \<and> length p = 2 + length p'" if "2 \<le> length p" for p
    using le16.read_total [OF that] le16.read_consumes by blast
  have r4: "\<exists>n p'. LE_Read32 p = Some (n, p') \<and> length p = 4 + length p'" if "4 \<le> length p" for p
    using le32.read_total [OF that] le32.read_consumes by blast
  consider "k = 0" | "k = 1" | "k = 2" | "k = 3" | "k = 4" | "k = 5" | "k = 6" | "k = 7"
    using assms(1) by arith
  then show ?thesis
  proof cases
    case 1 then show ?thesis by (simp add: ReadTag_def)
  next
    case 2 then show ?thesis using r assms(2) by (auto simp: ReadTag_def tag_bytes_def)
  next
    case 3 then show ?thesis using r2 [of p] assms(2) by (auto simp: ReadTag_def tag_bytes_def)
  next
    case 4 then show ?thesis using r4 [of p] assms(2) by (auto simp: ReadTag_def tag_bytes_def)
  next
    case 5 then show ?thesis using r2 [of p] assms(2) by (auto simp: ReadTag_def tag_bytes_def)
  next
    case 6 then show ?thesis using r4 [of p] assms(2) by (auto simp: ReadTag_def tag_bytes_def)
  next
    case 7
    then have len: "6 \<le> length p" using assms(2) by (simp add: tag_bytes_def)
    then obtain a p1 where 1: "LE_Read16 p = Some (a, p1)" "length p = 2 + length p1"
      using r2 [of p] by auto
    then obtain b p2 where 2: "LE_Read16 p1 = Some (b, p2)" "length p1 = 2 + length p2"
      using r2 [of p1] len by auto
    then obtain c p3 where 3: "LE_Read16 p2 = Some (c, p3)" "length p2 = 2 + length p3"
      using r2 [of p2] len 1 by auto
    show ?thesis using 7 1 2 3 by (simp add: ReadTag_def tag_bytes_def)
  next
    case 8
    then have len: "8 \<le> length p" using assms(2) by (simp add: tag_bytes_def)
    then obtain a p1 where 1: "LE_Read16 p = Some (a, p1)" "length p = 2 + length p1"
      using r2 [of p] by auto
    then obtain b p2 where 2: "LE_Read16 p1 = Some (b, p2)" "length p1 = 2 + length p2"
      using r2 [of p1] len by auto
    then obtain c p3 where 3: "LE_Read32 p2 = Some (c, p3)" "length p2 = 4 + length p3"
      using r4 [of p2] len 1 by auto
    show ?thesis using 8 1 2 3 by (simp add: ReadTag_def tag_bytes_def)
  qed
qed

lemma ReadLenOrVal_total:
  assumes "unat (TLVFieldSizeToBytes (GetTLVFieldSize t)) \<le> length p"
  shows "\<exists>v. ReadLenOrVal (GetTLVFieldSize t) p old = Some v"
proof -
  have r: "\<exists>n p'. Read8 p = Some (n, p')" if "1 \<le> length p" using u8.read_total [OF that] by blast
  have r2: "\<exists>n p'. LE_Read16 p = Some (n, p')" if "2 \<le> length p" using le16.read_total [OF that] by blast
  have r4: "\<exists>n p'. LE_Read32 p = Some (n, p')" if "4 \<le> length p" using le32.read_total [OF that] by blast
  have r8: "\<exists>n p'. LE_Read64 p = Some (n, p')" if "8 \<le> length p" using le64.read_total [OF that] by blast
  from field_size_cases [of t, unfolded insert_iff empty_iff] show ?thesis
  proof (elim disjE)
    assume a: "GetTLVFieldSize t = kTLVFieldSize_0Byte"
    then show ?thesis by (simp add: ReadLenOrVal_def)
  next
    assume a: "GetTLVFieldSize t = kTLVFieldSize_1Byte"
    then show ?thesis using r assms by (force simp: ReadLenOrVal_def TLVFieldSizeToBytes_def)
  next
    assume a: "GetTLVFieldSize t = kTLVFieldSize_2Byte"
    then show ?thesis using r2 assms by (force simp: ReadLenOrVal_def TLVFieldSizeToBytes_def)
  next
    assume a: "GetTLVFieldSize t = kTLVFieldSize_4Byte"
    then show ?thesis using r4 assms by (force simp: ReadLenOrVal_def TLVFieldSizeToBytes_def)
  next
    assume a: "GetTLVFieldSize t = kTLVFieldSize_8Byte"
    then show ?thesis using r8 assms by (force simp: ReadLenOrVal_def TLVFieldSizeToBytes_def)
  qed simp
qed

lemma ReadElementFields_total:
  assumes "unat (head_bytes r) \<le> length p"
  obtains tag v where "ReadElementFields p r =
    (let r = r\<lparr>mElemTag := tag, mElemLenOrVal := v\<rparr> in Some (VerifyElement r, r))"
proof -
  obtain k where k: "k < 8" "mControlByte r AND kTLVTagControlMask = of_nat (32 * k)"
    "unat (drop_bit kTLVTagControlShift (mControlByte r AND kTLVTagControlMask)) = k"
    by (rule tag_control_cases [of "mControlByte r"])
  note h = unat_head_bytes [OF k(3,1)]
  have "unat (of_nat (32 * k) :: u16) = 32 * k"
    using k(1) by (simp only: unat_of_nat) simp
  then have u: "uint (mControlByte r AND kTLVTagControlMask) = int (32 * k)"
    unfolding k(2) uint_nat by (rule arg_cong)
  have "1 \<le> length p" using h assms by linarith
  then obtain c p1 where c: "Read8 p = Some (c, p1)"
    using u8.read_total by blast
  then have p1: "length p = 1 + length p1" by (rule u8.read_consumes)
  have "tag_bytes k \<le> length p1" using p1 h assms by linarith
  then obtain tag p2 where p2: "ReadTag r (int (32 * k)) p1 = Some (tag, p2)"
    "length p1 \<le> length p2 + tag_bytes k"
    using ReadTag_total [OF k(1)] by blast
  have "unat (TLVFieldSizeToBytes (GetTLVFieldSize (elem8 r))) \<le> length p2"
    using p1 p2(2) h assms by linarith
  then obtain v where v: "ReadLenOrVal (GetTLVFieldSize (elem8 r)) p2 (mElemLenOrVal r) = Some v"
    using ReadLenOrVal_total by blast
  show ?thesis
    by (rule that [where tag = tag and v = v])
      (simp only: ReadElementFields_def u c p2(1) v Let_def option.case prod.case)
qed

text \<open>
  \<open>stays r r'\<close>: the reader moved forward and only forward, under the same configuration. It is what
  every method keeps.
\<close>

definition stays :: "'a tlv_reader_scheme \<Rightarrow> 'a tlv_reader_scheme \<Rightarrow> bool" where
  "stays r r' \<longleftrightarrow>
     reader_inv r' \<and> mLenRead r \<le> mLenRead r' \<and> mMaxLen r' = mMaxLen r \<and>
     ImplicitProfileId r' = ImplicitProfileId r \<and> AppData r' = AppData r \<and>
     GetNextBuffer r' = GetNextBuffer r \<and> more r' = more r"

lemma stays_refl: "reader_inv r \<Longrightarrow> stays r r"
  by (simp add: stays_def)

lemma stays_trans: "stays r r' \<Longrightarrow> stays r' r'' \<Longrightarrow> stays r r''"
  by (auto simp: stays_def)

lemma stays_inv: "stays r r' \<Longrightarrow> reader_inv r'"
  by (simp add: stays_def)

lemma stays_remaining: "stays r r' \<Longrightarrow> remaining r' \<le> remaining r"
  by (auto simp: stays_def remaining_def word_le_nat_alt)

lemma read_post_stays: "read_post r r' \<Longrightarrow> stays r r'"
  by (simp add: read_post_def stays_def moved_fields)

lemma stays_upd [simp]:
  "stays r (r'\<lparr>mElemTag := t\<rparr>) = stays r r'"
  "stays r (r'\<lparr>mElemLenOrVal := v\<rparr>) = stays r r'"
  "stays r (r'\<lparr>mContainerType := ct\<rparr>) = stays r r'"
  "stays r (r'\<lparr>mControlByte := c\<rparr>) = stays r r'"
  "stays r (r'\<lparr>mContainerOpen := b\<rparr>) = stays r r'"
  "stays r (ClearElementState r') = stays r r'"
  "stays r (SetContainerOpen b r') = stays r r'"
  by (simp_all add: stays_def ClearElementState_def SetContainerOpen_def reader_inv_def remaining_def)

lemma stays_upd_left [simp]:
  "stays (r\<lparr>mElemTag := t\<rparr>) r' = stays r r'"
  "stays (r\<lparr>mElemLenOrVal := v\<rparr>) r' = stays r r'"
  "stays (r\<lparr>mContainerType := ct\<rparr>) r' = stays r r'"
  "stays (r\<lparr>mControlByte := c\<rparr>) r' = stays r r'"
  "stays (r\<lparr>mContainerOpen := b\<rparr>) r' = stays r r'"
  "stays (ClearElementState r) r' = stays r r'"
  "stays (SetContainerOpen b r) r' = stays r r'"
  by (simp_all add: stays_def ClearElementState_def SetContainerOpen_def)

lemma ReadElementHead_spec:
  assumes inv: "reader_inv r" and pos: "mReadPoint r < mBufEnd r"
  obtains err p r' where "ReadElementHead r = Some (err, p, r')" "stays r r'" "moved r r'"
    "err = 0 \<longrightarrow> unat (head_bytes r) \<le> length p"
    "err = 0 \<longrightarrow> unat (mLenRead r') = unat (mLenRead r) + unat (head_bytes r)"
proof -
  have u: "unat (ucast (head_bytes r) :: u32) = unat (head_bytes r)"
    by (rule unat_ucast_8_32)
  show ?thesis
  proof (cases "int (unat (head_bytes r)) > buf_left r")
    case True
    have "returns (ReadData (Some stagingBuf_size) (ucast (head_bytes r)) r) (\<lambda>err (bs, r').
        read_post r r' \<and> (err = 0 \<longrightarrow> unat (mLenRead r') =
          unat (mLenRead r) + unat (ucast (head_bytes r) :: u32) \<and>
          (Some stagingBuf_size \<noteq> None \<longrightarrow> length bs = unat (ucast (head_bytes r) :: u32))))"
      by (rule ReadData_spec [OF inv]) (use head_bytes_bounds [of r] in \<open>simp add: u\<close>)
    then show ?thesis
      using True that read_post_stays [of r]
      by (auto simp: returns_def ReadElementHead_def Let_def u read_post_def)
  next
    case False
    then have n: "unat (ucast (head_bytes r) :: u32) \<le> mBufEnd r - mReadPoint r"
      using pos unfolding u buf_left_def by linarith
    note A = advance_spec [OF inv n]
    have "mBufEnd r \<le> length (mBuf r)" using inv by (simp add: reader_inv_def)
    then have "unat (head_bytes r) \<le> length (drop (mReadPoint r) (mBuf r))"
      using n pos u by simp
    moreover have "stays r (r\<lparr>mReadPoint := mReadPoint r + unat (head_bytes r),
        mLenRead := mLenRead r + ucast (head_bytes r)\<rparr>)"
      using A(1,2) by (simp add: stays_def u word_le_nat_alt)
    ultimately show ?thesis
      using False that A(2) u by (auto simp: ReadElementHead_def Let_def moved_def)
  qed
qed


text \<open>
  Reading the next element returns, and a successful read consumed at least the control byte.
\<close>

lemma ReadElement_total:
  assumes inv: "reader_inv r"
  shows "returns (ReadElement r) (\<lambda>err r'. stays r r' \<and> mContainerType r' = mContainerType r \<and>
    mContainerOpen r' = mContainerOpen r \<and>
    (err = 0 \<longrightarrow> remaining r' < remaining r \<and> VerifyElement r' = 0))"
proof -
  obtain err r1 where e: "EnsureData MATTER_END_OF_TLV r = (err, r1)" by fastforce
  note E = EnsureData_spec [OF inv e]
  have s1: "stays r r1" using E(1,3) by (simp add: stays_def moved_fields [OF E(2)])
  show ?thesis
  proof (cases "err = 0")
    case False
    with e s1 show ?thesis by (simp add: ReadElement_def moved_fields [OF E(2)])
  next
    case True
    have pos: "mReadPoint r1 < mBufEnd r1" using E(4) True by simp
    then have "1 \<le> length (drop (mReadPoint r1) (mBuf r1))"
      using E(1) unfolding reader_inv_def length_drop by linarith
    then obtain c p where c: "Read8 (drop (mReadPoint r1) (mBuf r1)) = Some (c, p)"
      using u8.read_total by blast
    define r2 where "r2 = r1\<lparr>mControlByte := ucast c\<rparr>"
    have r2: "stays r r2" "reader_inv r2" "mReadPoint r2 < mBufEnd r2" "remaining r2 = remaining r"
      "mContainerType r2 = mContainerType r" "mContainerOpen r2 = mContainerOpen r"
      using s1 E(1,3) pos by (simp_all add: r2_def moved_fields [OF E(2)] remaining_def)
    show ?thesis
    proof (cases "IsValidTLVType (elem8 r2)")
      case False
      then show ?thesis using e True c r2 by (simp add: ReadElement_def r2_def)
    next
      case valid: True
      obtain err3 p3 r3 where H: "ReadElementHead r2 = Some (err3, p3, r3)" "stays r2 r3" "moved r2 r3"
        "err3 = 0 \<longrightarrow> unat (head_bytes r2) \<le> length p3"
        "err3 = 0 \<longrightarrow> unat (mLenRead r3) = unat (mLenRead r2) + unat (head_bytes r2)"
        by (rule ReadElementHead_spec [OF r2(2,3)])
      have eq: "ReadElement r = (if err3 \<noteq> 0 then Some (err3, r3) else ReadElementFields p3 r3)"
        using e True c valid H(1) by (simp add: ReadElement_def r2_def)
      have s3: "stays r r3" by (rule stays_trans [OF r2(1) H(2)])
      show ?thesis
      proof (cases "err3 = 0")
        case False
        then show ?thesis using s3 r2 by (simp add: eq moved_fields [OF H(3)])
      next
        case ok: True
        have hb: "head_bytes r3 = head_bytes r2"
          by (simp add: head_bytes_def moved_elem8 [OF H(3)] moved_fields [OF H(3)])
        have "unat (head_bytes r3) \<le> length p3" using H(4) ok hb by simp
        then obtain tag v where f: "ReadElementFields p3 r3 =
            (let r = r3\<lparr>mElemTag := tag, mElemLenOrVal := v\<rparr> in Some (VerifyElement r, r))"
          by (rule ReadElementFields_total)
        have "unat (mLenRead r3) \<le> unat (mMaxLen r3)"
          using H(2) unfolding stays_def reader_inv_def word_le_nat_alt by blast
        then have "remaining r3 < remaining r"
          using H(5) ok head_bytes_bounds(1) [of r2] r2(4)
          by (simp add: remaining_def moved_fields [OF H(3)])
        then show ?thesis using s3 r2 ok by (simp add: eq f Let_def moved_fields [OF H(3)])
      qed
    qed
  qed
qed

section \<open>Skipping\<close>

lemma SkipData_total:
  assumes "reader_inv r"
  shows "returns (SkipData r) (\<lambda>err r'. stays r r' \<and> moved r r')"
proof (cases "TLVTypeHasLength (elem8 r)")
  case True
  show ?thesis
    using True ReadData_spec [OF assms, of None "ucast (mElemLenOrVal r)"] read_post_stays [of r]
    by (auto simp: SkipData_def returns_def read_post_def)
next
  case False
  then show ?thesis using assms by (simp add: SkipData_def stays_refl)
qed

lemma SkipToEnd_enter_spec:
  assumes "SkipToEnd_enter nestLevel outer r = (nestLevel', r')"
    and "reader_inv r" and "nestLevel = 0 \<longrightarrow> mContainerType r = outer"
    and "unat nestLevel + remaining r < 4294967296"
    and "\<not> (ElementType r = kTLVElementType_EndOfContainer \<and> nestLevel = 0)"
  shows "stays r r'" "remaining r' = remaining r" "mContainerOpen r' = mContainerOpen r"
    and "remaining r = 0 \<or> (nestLevel' = 0 \<longrightarrow> mContainerType r' = outer)"
    and "remaining r = 0 \<or> unat nestLevel' + remaining r < 4294967297"
proof -
  have up: "unat (nestLevel + 1) = unat nestLevel + 1" if "remaining r \<noteq> 0"
    using that assms(4) by (simp add: unat_word_ariths)
  have down: "unat (nestLevel - 1) = unat nestLevel - 1" if "nestLevel \<noteq> 0"
    using that by (simp add: unat_minus_one)
  show "stays r r'" "remaining r' = remaining r" "mContainerOpen r' = mContainerOpen r"
    using assms(1,2) by (auto simp: SkipToEnd_enter_def Let_def stays_refl split: if_splits)
  show "remaining r = 0 \<or> (nestLevel' = 0 \<longrightarrow> mContainerType r' = outer)"
  proof (cases "remaining r = 0")
    case False
    have "nestLevel + 1 \<noteq> 0" using up [OF False] by (metis unat_0 add_is_0 one_neq_zero)
    then show ?thesis using assms(1,3)
      by (auto simp: SkipToEnd_enter_def Let_def split: if_splits)
  qed simp
  show "remaining r = 0 \<or> unat nestLevel' + remaining r < 4294967297"
  proof (cases "remaining r = 0")
    case False
    then show ?thesis using assms(1,4,5) up [OF False] down
      by (auto simp: SkipToEnd_enter_def Let_def split: if_splits)
  qed simp
qed

text \<open>
  Skipping to the end of a container returns. Each turn of the loop reads an element, so it consumes a
  byte; the nesting level is at most the number of bytes consumed, so it does not wrap around and is
  zero again only at the end of the container the loop started in.
\<close>

lemma SkipToEnd_loop_total:
  assumes "reader_inv r" and "nestLevel = 0 \<longrightarrow> mContainerType r = outer"
    and "unat nestLevel + remaining r < 4294967296"
  shows "returns (SkipToEnd_loop nestLevel outer r) (\<lambda>err r'. stays r r' \<and>
    mContainerOpen r' = mContainerOpen r \<and>
    (err = 0 \<longrightarrow> ElementType r' = kTLVElementType_EndOfContainer \<and> mContainerType r' = outer))"
  using assms
proof (induction "remaining r" arbitrary: nestLevel r rule: less_induct)
  case less
  show ?case
  proof (cases "ElementType r = kTLVElementType_EndOfContainer \<and> nestLevel = 0")
    case True
    with less.prems show ?thesis by (subst SkipToEnd_loop.simps) (simp add: stays_refl)
  next
    case False
    obtain n1 r1 where e: "SkipToEnd_enter nestLevel outer r = (n1, r1)" by fastforce
    note E = SkipToEnd_enter_spec [OF e less.prems False]
    have eq: "SkipToEnd_loop nestLevel outer r =
        SuccessOrExit (SkipData r1) (\<lambda>r. SuccessOrExit (ReadElement r) (SkipToEnd_loop n1 outer))"
      using e False by (subst SkipToEnd_loop.simps) auto
    show ?thesis unfolding eq
    proof (rule returns_SuccessOrExit [OF SkipData_total [OF stays_inv [OF E(1)]]])
      fix err r2 assume "stays r1 r2 \<and> moved r1 r2" and "err \<noteq> 0"
      then show "stays r r2 \<and> mContainerOpen r2 = mContainerOpen r \<and>
          (err = 0 \<longrightarrow> ElementType r2 = kTLVElementType_EndOfContainer \<and> mContainerType r2 = outer)"
        using E by (auto simp: moved_fields intro: stays_trans)
    next
      fix r2 assume r2: "stays r1 r2 \<and> moved r1 r2"
      have s2: "stays r r2" and rem2: "remaining r2 \<le> remaining r"
        using r2 E stays_remaining [of r1 r2] by (auto intro: stays_trans)
      show "returns (SuccessOrExit (ReadElement r2) (SkipToEnd_loop n1 outer)) (\<lambda>err r'. stays r r' \<and>
          mContainerOpen r' = mContainerOpen r \<and>
          (err = 0 \<longrightarrow> ElementType r' = kTLVElementType_EndOfContainer \<and> mContainerType r' = outer))"
      proof (rule returns_SuccessOrExit [OF ReadElement_total [OF stays_inv [OF s2]]])
        fix err r3
        assume "stays r2 r3 \<and> mContainerType r3 = mContainerType r2 \<and>
          mContainerOpen r3 = mContainerOpen r2 \<and>
          (err = 0 \<longrightarrow> remaining r3 < remaining r2 \<and> VerifyElement r3 = 0)" and "err \<noteq> 0"
        then show "stays r r3 \<and> mContainerOpen r3 = mContainerOpen r \<and>
          (err = 0 \<longrightarrow> ElementType r3 = kTLVElementType_EndOfContainer \<and> mContainerType r3 = outer)"
          using s2 r2 E(3) by (auto simp: moved_fields intro: stays_trans)
      next
        fix r3
        assume r3: "stays r2 r3 \<and> mContainerType r3 = mContainerType r2 \<and>
          mContainerOpen r3 = mContainerOpen r2 \<and>
          ((0::int) = 0 \<longrightarrow> remaining r3 < remaining r2 \<and> VerifyElement r3 = 0)"
        have "remaining r3 < remaining r" using r3 rem2 by simp
        moreover have "reader_inv r3" using r3 stays_inv by blast
        moreover have "n1 = 0 \<longrightarrow> mContainerType r3 = outer"
          using E(4) r3 r2 rem2 by (auto simp: moved_fields)
        moreover have "unat n1 + remaining r3 < 4294967296"
          using E(5) r3 rem2 by linarith
        ultimately have "returns (SkipToEnd_loop n1 outer r3) (\<lambda>err r'. stays r3 r' \<and>
            mContainerOpen r' = mContainerOpen r3 \<and>
            (err = 0 \<longrightarrow> ElementType r' = kTLVElementType_EndOfContainer \<and> mContainerType r' = outer))"
          by (rule less.hyps)
        then show "returns (SkipToEnd_loop n1 outer r3) (\<lambda>err r'. stays r r' \<and>
            mContainerOpen r' = mContainerOpen r \<and>
            (err = 0 \<longrightarrow> ElementType r' = kTLVElementType_EndOfContainer \<and> mContainerType r' = outer))"
          by (rule returns_mono)
            (use r3 s2 r2 E(3) in \<open>auto simp: moved_fields intro: stays_trans\<close>)
      qed
    qed
  qed
qed

lemma SkipToEndOfContainer_total:
  assumes "reader_inv r"
  shows "returns (SkipToEndOfContainer r) (\<lambda>err r'. stays r r' \<and> \<not> mContainerOpen r' \<and>
    (err = 0 \<longrightarrow> ElementType r' = kTLVElementType_EndOfContainer \<and>
       mContainerType r' = mContainerType r))"
proof -
  have "returns (SkipToEnd_loop 0 (mContainerType r) (SetContainerOpen False r))
     (\<lambda>err r'. stays (SetContainerOpen False r) r' \<and>
       mContainerOpen r' = mContainerOpen (SetContainerOpen False r) \<and>
       (err = 0 \<longrightarrow> ElementType r' = kTLVElementType_EndOfContainer \<and>
          mContainerType r' = mContainerType r))"
    by (rule SkipToEnd_loop_total)
      (use assms reader_inv_remaining_less [of r] in \<open>simp_all add: SetContainerOpen_def\<close>)
  then show ?thesis
    by (simp add: SkipToEndOfContainer_def) (simp add: SetContainerOpen_def)
qed


section \<open>Containers and elements\<close>

lemma EnterContainer_spec:
  assumes "EnterContainer r outer = (err, outer', r')" and "reader_inv r"
  shows "stays r r'" and "remaining r' = remaining r"
    and "err = 0 \<longleftrightarrow> TLVTypeIsContainer (elem8 r)"
    and "err = 0 \<Longrightarrow> outer' = mContainerType r \<and> mContainerType r' = ElementType r"
  using assms by (auto simp: EnterContainer_def Let_def stays_refl split: if_splits)
    (simp_all add: ClearElementState_def SetContainerOpen_def)

lemma ExitContainer_total:
  assumes "reader_inv r"
  shows "returns (ExitContainer outer r) (\<lambda>err r'. stays r r' \<and> \<not> mContainerOpen r' \<and>
    (err = 0 \<longrightarrow> mContainerType r' = outer \<and> ElementType r' = kTLVElementType_NotSpecified))"
  unfolding ExitContainer_def
  by (rule returns_SuccessOrExit [OF SkipToEndOfContainer_total [OF assms]], blast)
    (simp, simp add: ClearElementState_def ElementType_def)

lemma CloseContainer_total:
  assumes "reader_inv c" and "reader_inv r"
  obtains err c' r' where "CloseContainer c r = Some (err, c', r')" "reader_inv c'" "reader_inv r'"
    "err = 0 \<longrightarrow> mLenRead r' = mLenRead c' \<and> mReadPoint r' = mReadPoint c'"
proof (cases "\<not> IsContainerOpen r \<or> mContainerType c \<noteq> ElementType r")
  case True
  then have "CloseContainer c r = Some (MATTER_ERROR_INCORRECT_STATE, c, r)"
    by (auto simp: CloseContainer_def)
  then show ?thesis by (rule that) (use assms in simp_all)
next
  case False
  obtain err c' where c: "SkipToEndOfContainer c = Some (err, c')" "stays c c'"
    using SkipToEndOfContainer_total [OF assms(1)] by (auto elim: returnsE)
  have inv: "reader_inv c'" using c(2) by (rule stays_inv)
  define r' where "r' = (if err \<noteq> 0 then r else ClearElementState (r\<lparr>mBufHandle := mBufHandle c',
    mBuf := mBuf c', mReadPoint := mReadPoint c', mBufEnd := mBufEnd c', mLenRead := mLenRead c',
    mMaxLen := mMaxLen c'\<rparr>))"
  have "CloseContainer c r = Some (err, c', r')"
    using False c(1) by (simp add: CloseContainer_def r'_def)
  then show ?thesis
    by (rule that)
      (use inv assms in \<open>simp_all add: r'_def, simp_all add: reader_inv_def remaining_def ClearElementState_def\<close>)
qed

lemma Skip_total:
  assumes "reader_inv r"
  shows "returns (Skip r) (\<lambda>err r'. stays r r' \<and>
    (err = 0 \<longrightarrow> mContainerType r' = mContainerType r \<and>
       ElementType r' = kTLVElementType_NotSpecified))"
proof (cases "ElementType r = kTLVElementType_EndOfContainer")
  case True
  then show ?thesis using assms by (simp add: Skip_def stays_refl)
next
  case noend: False
  show ?thesis
  proof (cases "TLVTypeIsContainer (elem8 r)")
    case True
    obtain err outer r1 where e: "EnterContainer r kTLVType_NotSpecified = (err, outer, r1)"
      by (metis prod_cases3)
    note E = EnterContainer_spec [OF e assms]
    have err: "err = 0" using E(3) True by simp
    have "returns (SuccessOrExit (ExitContainer outer r1) (\<lambda>r. Some (MATTER_NO_ERROR, r)))
      (\<lambda>err r'. stays r r' \<and> (err = 0 \<longrightarrow> mContainerType r' = mContainerType r \<and>
       ElementType r' = kTLVElementType_NotSpecified))"
      by (rule returns_SuccessOrExit [OF ExitContainer_total [OF stays_inv [OF E(1)]]])
        (use E err in \<open>auto intro: stays_trans\<close>)
    then show ?thesis using noend True e err by (simp add: Skip_def)
  next
    case False
    show ?thesis
      using noend False
      by (simp add: Skip_def)
        (rule returns_SuccessOrExit [OF SkipData_total [OF assms]];
         auto simp: ClearElementState_def ElementType_def stays_def reader_inv_def remaining_def
           moved_fields)
  qed
qed

text \<open>Moving to the next element returns; a success consumed a byte, and the element is not the end of
  the container.\<close>

lemma Next_total:
  assumes "reader_inv r"
  shows "returns (Next r) (\<lambda>err r'. stays r r' \<and>
    (err = 0 \<longrightarrow> remaining r' < remaining r \<and> mContainerType r' = mContainerType r \<and>
       VerifyElement r' = 0 \<and> ElementType r' \<noteq> kTLVElementType_EndOfContainer))"
  unfolding Next_def
proof (rule returns_SuccessOrExit [OF Skip_total [OF assms]], blast)
  fix r1
  assume r1: "stays r r1 \<and> ((0::int) = 0 \<longrightarrow> mContainerType r1 = mContainerType r \<and>
       ElementType r1 = kTLVElementType_NotSpecified)"
  then have inv: "reader_inv r1" and le: "remaining r1 \<le> remaining r"
    using stays_inv stays_remaining by blast+
  show "returns (SuccessOrExit (ReadElement r1) (\<lambda>r.
       if ElementType r = kTLVElementType_EndOfContainer then Some (MATTER_END_OF_TLV, r)
       else Some (MATTER_NO_ERROR, r)))
     (\<lambda>err r'. stays r r' \<and> (err = 0 \<longrightarrow> remaining r' < remaining r \<and>
        mContainerType r' = mContainerType r \<and> VerifyElement r' = 0 \<and>
        ElementType r' \<noteq> kTLVElementType_EndOfContainer))"
    by (rule returns_SuccessOrExit [OF ReadElement_total [OF inv]])
      (use r1 le in \<open>auto intro: stays_trans\<close>)
qed

lemma Next_expect_total:
  assumes "reader_inv r"
  shows "returns (Next_expect ty tag r) (\<lambda>err r'. stays r r' \<and>
    (err = 0 \<longrightarrow> remaining r' < remaining r \<and> GetType r' = ty \<and> mElemTag r' = tag))"
  unfolding Next_expect_def
  by (rule returns_SuccessOrExit [OF Next_total [OF assms]]) auto

lemma VerifyEndOfContainer_total:
  assumes "reader_inv r"
  shows "returns (VerifyEndOfContainer r) (\<lambda>err r'. stays r r')"
  using Next_total [OF assms] by (auto simp: VerifyEndOfContainer_def returns_def)

section \<open>String values\<close>

text \<open>
  The copies of a string value fit the buffer they go to. \<open>GetString\<close> and \<open>DupString\<close> need one byte more
  than the length, a sum that wraps around for the length \<open>2^64 - 1\<close>.
\<close>

lemma take_bit_32_64: "take_bit 32 v \<le> take_bit 64 (v :: int)"
proof -
  have "take_bit 32 v = take_bit 32 (take_bit 64 v)" by simp
  also have "\<dots> \<le> take_bit 64 v"
    by (simp only: take_bit_int_less_eq_self_iff) simp
  finally show ?thesis .
qed

lemma unat_low_32: "unat (ucast (v :: u64) :: u32) \<le> unat v"
  by transfer (simp add: nat_mono take_bit_32_64)

lemma GetBytes_total:
  assumes "reader_inv r"
  obtains err bs r' where "GetBytes bufSize r = Some (err, bs, r')" "stays r r'"
    "err = 0 \<longrightarrow> length bs \<le> unat bufSize"
proof (cases "TLVTypeIsString (elem8 r) \<and> mElemLenOrVal r \<le> ucast bufSize")
  case False
  then have "GetBytes bufSize r = Some (if TLVTypeIsString (elem8 r) then MATTER_ERROR_BUFFER_TOO_SMALL
      else MATTER_ERROR_WRONG_TLV_TYPE, [], r)"
    by (auto simp: GetBytes_def not_le)
  then show ?thesis by (rule that) (use assms in \<open>simp_all add: stays_refl\<close>)
next
  case True
  have le: "unat (ucast (mElemLenOrVal r) :: u32) \<le> unat bufSize"
    using True unat_low_32 [of "mElemLenOrVal r"]
    by (simp add: word_le_nat_alt unat_ucast_32_64)
  have "returns (ReadData (Some (unat bufSize)) (ucast (mElemLenOrVal r)) r) (\<lambda>err (bs, r').
      read_post r r' \<and> (err = 0 \<longrightarrow> unat (mLenRead r') = unat (mLenRead r) +
          unat (ucast (mElemLenOrVal r) :: u32) \<and>
        (Some (unat bufSize) \<noteq> None \<longrightarrow> length bs = unat (ucast (mElemLenOrVal r) :: u32))))"
    by (rule ReadData_spec [OF assms]) (use le in simp)
  then obtain err bs r' where d: "ReadData (Some (unat bufSize)) (ucast (mElemLenOrVal r)) r =
      Some (err, bs, r')" "read_post r r'" "err = 0 \<longrightarrow> length bs \<le> unat bufSize"
    using le by (auto simp: returns_def)
  define r2 where "r2 = (if err \<noteq> 0 then r' else r'\<lparr>mElemLenOrVal := 0\<rparr>)"
  have "GetBytes bufSize r = Some (err, bs, r2)"
    using True d(1) by (auto simp: GetBytes_def r2_def)
  then show ?thesis
    by (rule that) (use d read_post_stays [OF d(2)] in \<open>simp_all add: r2_def\<close>)
qed

lemma length_plus_1:
  assumes "mElemLenOrVal r \<noteq> 0xFFFFFFFFFFFFFFFF"
  shows "unat (mElemLenOrVal r + 1) = unat (mElemLenOrVal r) + 1"
proof -
  have "mElemLenOrVal r + 1 \<noteq> 0"
  proof
    assume "mElemLenOrVal r + 1 = 0"
    then have "mElemLenOrVal r = - 1" by (simp add: eq_neg_iff_add_eq_0)
    with assms show False by simp
  qed
  then show ?thesis using unatSuc [of "mElemLenOrVal r"] by (simp add: add.commute)
qed

lemma GetString_total:
  assumes "reader_inv r" and "mElemLenOrVal r \<noteq> 0xFFFFFFFFFFFFFFFF"
  obtains err bs r' where "GetString bufSize r = Some (err, bs, r')" "stays r r'"
    "err = 0 \<longrightarrow> length bs < unat bufSize"
proof (cases "TLVTypeIsString (elem8 r) \<and> mElemLenOrVal r + 1 \<le> ucast bufSize")
  case False
  then have "GetString bufSize r = Some (if TLVTypeIsString (elem8 r) then MATTER_ERROR_BUFFER_TOO_SMALL
      else MATTER_ERROR_WRONG_TLV_TYPE, [], r)"
    by (auto simp: GetString_def not_le)
  then show ?thesis by (rule that) (use assms in \<open>simp_all add: stays_refl\<close>)
next
  case True
  have lt: "unat (mElemLenOrVal r) < unat bufSize"
    using True length_plus_1 [OF assms(2)] by (simp add: word_le_nat_alt unat_ucast_32_64)
  then have "bufSize \<noteq> 0" by auto
  then have bs: "unat (bufSize - 1) = unat bufSize - 1" by (rule unat_minus_one)
  obtain err bs r' where g: "GetBytes (bufSize - 1) r = Some (err, bs, r')" "stays r r'"
    "err = 0 \<longrightarrow> length bs \<le> unat (bufSize - 1)"
    by (rule GetBytes_total [OF assms(1)])
  have "GetString bufSize r = Some (err, bs, r')"
    using True lt g(1) unfolding GetString_def by (simp add: not_le leD)
  then show ?thesis by (rule that) (use g bs lt in auto)
qed

lemma Dup_ReadData:
  assumes "reader_inv r" and "unat (mElemLenOrVal r) \<le> room"
  obtains err bs r' where "ReadData (Some room) (ucast (mElemLenOrVal r)) r = Some (err, bs, r')"
    "read_post r r'" "err = 0 \<longrightarrow> length bs = unat (ucast (mElemLenOrVal r) :: u32)"
proof -
  have "returns (ReadData (Some room) (ucast (mElemLenOrVal r)) r) (\<lambda>err (bs, r').
      read_post r r' \<and> (err = 0 \<longrightarrow> unat (mLenRead r') = unat (mLenRead r) +
          unat (ucast (mElemLenOrVal r) :: u32) \<and>
        (Some room \<noteq> None \<longrightarrow> length bs = unat (ucast (mElemLenOrVal r) :: u32))))"
    by (rule ReadData_spec [OF assms(1)]) (use assms(2) unat_low_32 [of "mElemLenOrVal r"] in simp)
  then show ?thesis using that by (auto simp: returns_def)
qed

lemma DupBytes_total:
  assumes "reader_inv r"
  obtains err buf n r' where "DupBytes malloc_ok dataLen r = Some (err, buf, n, r')" "stays r r'"
    "err = 0 \<longrightarrow> (\<exists>bs. buf = Some bs \<and> length bs = unat n)" "err \<noteq> 0 \<longrightarrow> buf = None"
proof (cases "TLVTypeIsString (elem8 r) \<and> malloc_ok (mElemLenOrVal r)")
  case False
  then have "DupBytes malloc_ok dataLen r = Some (if TLVTypeIsString (elem8 r) then MATTER_ERROR_NO_MEMORY
      else MATTER_ERROR_WRONG_TLV_TYPE, None, dataLen, r)"
    by (auto simp: DupBytes_def)
  then show ?thesis by (rule that) (use assms in \<open>simp_all add: stays_refl\<close>)
next
  case True
  obtain err bs r' where d: "ReadData (Some (unat (mElemLenOrVal r))) (ucast (mElemLenOrVal r)) r =
      Some (err, bs, r')" "read_post r r'" "err = 0 \<longrightarrow> length bs = unat (ucast (mElemLenOrVal r) :: u32)"
    by (rule Dup_ReadData [OF assms order_refl])
  have "mElemLenOrVal r' = mElemLenOrVal r" using d(2) by (simp add: read_post_def moved_fields)
  then have "DupBytes malloc_ok dataLen r = (if err \<noteq> 0 then Some (err, None, dataLen, r')
      else Some (0, Some bs, ucast (mElemLenOrVal r), r'\<lparr>mElemLenOrVal := 0\<rparr>))"
    using True d(1) by (simp add: DupBytes_def)
  then show ?thesis using d(3) read_post_stays [OF d(2)] that by (cases "err = 0") simp_all
qed

lemma element_len_upd [simp]:
  "ElementType (r\<lparr>mElemLenOrVal := v\<rparr>) = ElementType r"
  "elem8 (r\<lparr>mElemLenOrVal := v\<rparr>) = elem8 r"
  by (simp_all add: ElementType_def elem8_def)

lemma DupString_total:
  assumes "reader_inv r" and "mElemLenOrVal r \<noteq> 0xFFFFFFFFFFFFFFFF"
  obtains err buf r' where "DupString malloc_ok r = Some (err, buf, r')" "stays r r'"
    "elem8 r' = elem8 r" "mElemLenOrVal r' = mElemLenOrVal r \<or> mElemLenOrVal r' = 0"
    "mContainerType r' = mContainerType r" "err = 0 \<longrightarrow> buf \<noteq> None"
proof (cases "TLVTypeIsString (elem8 r) \<and> malloc_ok (mElemLenOrVal r + 1)")
  case False
  then have "DupString malloc_ok r = Some (if TLVTypeIsString (elem8 r) then MATTER_ERROR_NO_MEMORY
      else MATTER_ERROR_WRONG_TLV_TYPE, None, r)"
    by (auto simp: DupString_def)
  then show ?thesis by (rule that) (use assms in \<open>simp_all add: stays_refl\<close>)
next
  case True
  note l = length_plus_1 [OF assms(2)]
  obtain err bs r' where d: "ReadData (Some (unat (mElemLenOrVal r + 1))) (ucast (mElemLenOrVal r)) r =
      Some (err, bs, r')" "read_post r r'"
    by (rule Dup_ReadData [OF assms(1), of "unat (mElemLenOrVal r + 1)"]) (simp_all add: l)
  have "mElemLenOrVal r' = mElemLenOrVal r" using d(2) by (simp add: read_post_def moved_fields)
  then have "DupString malloc_ok r = (if err \<noteq> 0 then Some (err, None, r')
      else Some (0, Some bs, r'\<lparr>mElemLenOrVal := 0\<rparr>))"
    using True d(1) l by (simp add: DupString_def)
  moreover have "elem8 r' = elem8 r" "mContainerType r' = mContainerType r"
    using d(2) by (simp_all add: read_post_def moved_elem8 moved_fields)
  ultimately show ?thesis
    using read_post_stays [OF d(2)] that \<open>mElemLenOrVal r' = _\<close>
    by (cases "err = 0") simp_all
qed

text \<open>
  The pointer \<open>GetDataPtr\<close> hands out has the low 32 bits of the length behind it, in the buffer.
\<close>

lemma GetDataPtr_spec:
  assumes "GetDataPtr r = (err, ptr, r')" and "reader_inv r"
  shows "stays r r'" and "moved r r'"
    and "err = 0 \<Longrightarrow> ptr = Some (mReadPoint r') \<and>
           mReadPoint r' + unat (GetLength r') \<le> mBufEnd r' \<and> mBufEnd r' \<le> length (mBuf r')"
proof -
  obtain err1 r1 where e: "EnsureData MATTER_ERROR_TLV_UNDERRUN r = (err1, r1)" by fastforce
  note E = EnsureData_spec [OF assms(2) e]
  have "mBufEnd r1 - mReadPoint r1 \<le> remaining r1" "mReadPoint r1 \<le> mBufEnd r1"
    using E(1) by (simp_all add: reader_inv_def)
  then have rest: "unat (word_of_int (buf_left r1) :: u32) = mBufEnd r1 - mReadPoint r1"
    unfolding buf_left_def using reader_inv_remaining_less [of r1]
    by (subst unat_word_of_int_32) auto
  have s: "stays r r1" using E(1,3) by (simp add: stays_def moved_fields [OF E(2)])
  show "stays r r'" "moved r r'"
    using assms e s E(2) by (auto simp: GetDataPtr_def stays_refl split: if_splits)
  assume ok: "err = 0"
  then have "r' = r1" "ptr = Some (mReadPoint r1)" "TLVTypeIsString (elem8 r1)"
    "unat (ucast (mElemLenOrVal r1) :: u32) \<le> mBufEnd r1 - mReadPoint r1"
    using assms(1) e moved_elem8 [OF E(2)]
    by (auto simp: GetDataPtr_def not_less word_le_nat_alt rest split: if_splits)
  then show "ptr = Some (mReadPoint r') \<and>
      mReadPoint r' + unat (GetLength r') \<le> mBufEnd r' \<and> mBufEnd r' \<le> length (mBuf r')"
    using E(1) by (auto simp: GetLength_def string_iff_length reader_inv_def)
qed

end
