(* ===== verification/TLV_Spec.thy ===== *)
theory TLV_Spec
  imports TLV_Reader_Inv
begin

text \<open>
  The abstract syntax of the TLV encoding, its byte form, and that the reader implements it: what
  \<open>ReadElement\<close>, \<open>Skip\<close>, \<open>Next\<close> and the value accessors do on the encoding of a well-formed element. The
  encoding is not code of the program (it only reads); it is the specification that the reader is
  checked against, written from the format that the comments of \<open>MatterTLVTypes.h\<close> and
  \<open>MatterTLVTags.h\<close> describe.
\<close>

section \<open>Abstract syntax\<close>

datatype tlv_tag =
    TAnonymous
  | TContext byte
  | TCommon2 u16 | TCommon4 u32
  | TImplicit2 u16 | TImplicit4 u32
  | TFull6 u16 u16 u16 | TFull8 u16 u16 u32

text \<open>
  A leaf is a tag, an element type, the value (or length) field and the string bytes; a node is a tag, a
  container type and the elements in it.
\<close>

datatype tlv = Leaf tlv_tag byte u64 "byte list" | Node tlv_tag byte "tlv list"

primrec tag_control :: "tlv_tag \<Rightarrow> nat" where
  "tag_control TAnonymous = 0"
| "tag_control (TContext n) = 1"
| "tag_control (TCommon2 n) = 2"
| "tag_control (TCommon4 n) = 3"
| "tag_control (TImplicit2 n) = 4"
| "tag_control (TImplicit4 n) = 5"
| "tag_control (TFull6 v p n) = 6"
| "tag_control (TFull8 v p n) = 7"

primrec enc_tag :: "tlv_tag \<Rightarrow> byte list" where
  "enc_tag TAnonymous = []"
| "enc_tag (TContext n) = Write8 n"
| "enc_tag (TCommon2 n) = LE_Write16 n"
| "enc_tag (TCommon4 n) = LE_Write32 n"
| "enc_tag (TImplicit2 n) = LE_Write16 n"
| "enc_tag (TImplicit4 n) = LE_Write32 n"
| "enc_tag (TFull6 v p n) = LE_Write16 v @ LE_Write16 p @ LE_Write16 n"
| "enc_tag (TFull8 v p n) = LE_Write16 v @ LE_Write16 p @ LE_Write32 n"

text \<open>The tag that a tag stands for, where elements without a profile belong to \<open>imp\<close>.\<close>

primrec tag_value :: "u32 \<Rightarrow> tlv_tag \<Rightarrow> u64" where
  "tag_value imp TAnonymous = AnonymousTag"
| "tag_value imp (TContext n) = ContextTag n"
| "tag_value imp (TCommon2 n) = CommonTag (ucast n)"
| "tag_value imp (TCommon4 n) = CommonTag n"
| "tag_value imp (TImplicit2 n) = ProfileTag imp (ucast n)"
| "tag_value imp (TImplicit4 n) = ProfileTag imp n"
| "tag_value imp (TFull6 v p n) = ProfileTag3 v p (ucast n)"
| "tag_value imp (TFull8 v p n) = ProfileTag3 v p n"

definition tag_known :: "u32 \<Rightarrow> tlv_tag \<Rightarrow> bool" where
  "tag_known imp t \<longleftrightarrow> tag_control t \<in> {4, 5} \<longrightarrow> imp \<noteq> kProfileIdNotSpecified"

definition control_byte :: "tlv_tag \<Rightarrow> byte \<Rightarrow> byte" where
  "control_byte t ty = push_bit 5 (of_nat (tag_control t)) OR ty"

text \<open>The value or length field, and the values that fit in it.\<close>

definition enc_field :: "byte \<Rightarrow> u64 \<Rightarrow> byte list" where
  "enc_field ty v =
     (let s = GetTLVFieldSize ty in
      if s = kTLVFieldSize_1Byte then Write8 (ucast v)
      else if s = kTLVFieldSize_2Byte then LE_Write16 (ucast v)
      else if s = kTLVFieldSize_4Byte then LE_Write32 (ucast v)
      else if s = kTLVFieldSize_8Byte then LE_Write64 v
      else [])"

definition field_value :: "byte \<Rightarrow> u64 \<Rightarrow> u64" where
  "field_value ty v =
     (let s = GetTLVFieldSize ty in
      if s = kTLVFieldSize_1Byte then ucast (ucast v :: byte)
      else if s = kTLVFieldSize_2Byte then ucast (ucast v :: u16)
      else if s = kTLVFieldSize_4Byte then ucast (ucast v :: u32)
      else if s = kTLVFieldSize_8Byte then v
      else 0)"

definition enc_head :: "tlv_tag \<Rightarrow> byte \<Rightarrow> u64 \<Rightarrow> byte list" where
  "enc_head t ty v = control_byte t ty # enc_tag t @ enc_field ty v"

definition end_of_container :: byte where
  "end_of_container = 0x18"

fun encode :: "tlv \<Rightarrow> byte list" where
  "encode (Leaf t ty v bs) = enc_head t ty v @ bs"
| "encode (Node t ty es) = enc_head t ty 0 @ concat (map encode es) @ [end_of_container]"

definition encodes :: "tlv list \<Rightarrow> byte list" where
  "encodes es = concat (map encode es)"

lemma encodes_simps [simp]:
  "encodes [] = []"
  "encodes (e # es) = encode e @ encodes es"
  "encodes (es @ fs) = encodes es @ encodes fs"
  by (simp_all add: encodes_def)

lemma encode_Node: "encode (Node t ty es) = enc_head t ty 0 @ encodes es @ [end_of_container]"
  by (simp add: encodes_def)

declare encode.simps(2) [simp del]

primrec elem_tag :: "tlv \<Rightarrow> tlv_tag" where
  "elem_tag (Leaf t ty v bs) = t"
| "elem_tag (Node t ty es) = t"

primrec elem_type :: "tlv \<Rightarrow> byte" where
  "elem_type (Leaf t ty v bs) = ty"
| "elem_type (Node t ty es) = ty"

primrec elem_field :: "tlv \<Rightarrow> u64" where
  "elem_field (Leaf t ty v bs) = v"
| "elem_field (Node t ty es) = 0"

text \<open>
  Which tags a container admits: the rules of \<open>VerifyElement\<close>. A structure or a path has no anonymous
  elements, an array has no others, and at the top level there are no context tags.
\<close>

definition tag_admitted :: "u32 \<Rightarrow> TLVType \<Rightarrow> tlv_tag \<Rightarrow> bool" where
  "tag_admitted imp ct t \<longleftrightarrow>
     tag_known imp t \<and> tag_value imp t \<noteq> UnknownImplicitTag \<and>
     (if ct = kTLVType_NotSpecified then \<not> IsContextTag (tag_value imp t)
      else if ct = kTLVType_Structure \<or> ct = kTLVType_Path then tag_value imp t \<noteq> AnonymousTag
      else if ct = kTLVType_Array then tag_value imp t = AnonymousTag
      else ct = kTLVType_UnknownContainer)"

fun wf_tlv :: "u32 \<Rightarrow> TLVType \<Rightarrow> tlv \<Rightarrow> bool" where
  "wf_tlv imp ct (Leaf t ty v bs) \<longleftrightarrow>
     tag_admitted imp ct t \<and> uint ty < kTLVElementType_EndOfContainer \<and> \<not> TLVTypeIsContainer ty \<and>
     field_value ty v = v \<and> (if TLVTypeHasLength ty then unat v = length bs else bs = [])"
| "wf_tlv imp ct (Node t ty es) \<longleftrightarrow>
     tag_admitted imp ct t \<and> TLVTypeIsContainer ty \<and> (\<forall>e \<in> set es. wf_tlv imp (uint ty) e)"

section \<open>Heads\<close>

lemma length_enc_tag: "length (enc_tag t) = tag_bytes (tag_control t)"
  by (cases t) (simp_all add: tag_bytes_def u8.length_write le16.length_write le32.length_write)

lemma tag_control_less: "tag_control t < 8"
  by (cases t) simp_all

lemma length_enc_field: "length (enc_field ty v) = unat (TLVFieldSizeToBytes (GetTLVFieldSize ty))"
  using field_size_cases [of ty, unfolded insert_iff empty_iff]
  by (elim disjE)
    (simp_all add: enc_field_def TLVFieldSizeToBytes_def u8.length_write le16.length_write
      le32.length_write le64.length_write)

lemma ReadTag_enc:
  assumes "tag_known (ImplicitProfileId r) t"
  shows "ReadTag r (int (32 * tag_control t)) (enc_tag t @ p) =
    Some (tag_value (ImplicitProfileId r) t, p)"
  using assms
  by (cases t)
    (simp_all add: ReadTag_def tag_known_def u8.read_write le16.read_write le32.read_write
      del: kProfileIdNotSpecified_def)

lemma ReadLenOrVal_enc:
  "ReadLenOrVal (GetTLVFieldSize ty) (enc_field ty v @ p) old = Some (field_value ty v)"
  using field_size_cases [of ty, unfolded insert_iff empty_iff]
  by (elim disjE)
    (simp_all add: ReadLenOrVal_def enc_field_def field_value_def u8.read_write le16.read_write
      le32.read_write le64.read_write)

lemma bit_small:
  assumes "uint (ty :: byte) < 32" and "bit ty n"
  shows "n < 5"
proof -
  have "take_bit 5 (uint ty) = uint ty" using assms(1) by (intro take_bit_int_eq_self) simp_all
  moreover have "bit (uint ty) n"
    using assms(2) bit_imp_le_length [OF assms(2)] by (simp add: bit_uint_iff)
  ultimately have "bit (take_bit 5 (uint ty)) n" by simp
  then show ?thesis by (simp add: bit_take_bit_iff)
qed

lemma control_byte_type:
  assumes "uint ty < 32"
  shows "ucast (control_byte t ty) AND kTLVTypeMask = (ucast ty :: u16)"
proof -
  have m: "(0x1F :: u16) = mask 5" by (simp add: mask_eq_exp_minus_1)
  show ?thesis unfolding kTLVTypeMask_def m control_byte_def
    by (rule bit_eqI) (auto simp: bit_simps dest: bit_small [OF assms])
qed

lemma control_byte_tag:
  assumes "uint ty < 32"
  shows "ucast (control_byte t ty) AND kTLVTagControlMask = (of_nat (32 * tag_control t) :: u16)"
proof -
  have "of_nat (32 * tag_control t) = push_bit 5 (of_nat (tag_control t) :: u16)"
    by (simp add: push_bit_eq_mult)
  moreover have "ucast (push_bit 5 (of_nat k) OR ty) AND (0xE0 :: u16) = push_bit 5 (of_nat k)"
    if "k < 8" for k
  proof -
    have m: "(0xE0 :: u16) = push_bit 5 (mask 3)" by (simp add: mask_eq_exp_minus_1)
    have "take_bit 3 k = k" using that by (intro take_bit_nat_eq_self) simp
    then have k: "bit k n \<Longrightarrow> n < 3" for n by (metis bit_take_bit_iff)
    show ?thesis unfolding m
      by (rule bit_eqI) (auto simp: bit_simps dest: bit_small [OF assms] k)
  qed
  ultimately show ?thesis
    using tag_control_less [of t] by (simp add: control_byte_def)
qed

section \<open>What lies ahead\<close>

text \<open>
  \<open>ahead r bs\<close>: the reader is in a single buffer, and exactly the bytes \<open>bs\<close> remain to be read.
\<close>

definition ahead :: "'a tlv_reader_scheme \<Rightarrow> byte list \<Rightarrow> bool" where
  "ahead r bs \<longleftrightarrow> reader_inv r \<and> remaining r = length bs \<and>
     take (mBufEnd r - mReadPoint r) (drop (mReadPoint r) (mBuf r)) = bs"

definition advance :: "nat \<Rightarrow> 'a tlv_reader_scheme \<Rightarrow> 'a tlv_reader_scheme" where
  "advance n r = r\<lparr>mReadPoint := mReadPoint r + n, mLenRead := mLenRead r + of_nat n\<rparr>"

lemma advance_fields [simp]:
  "mElemTag (advance n r) = mElemTag r" "mElemLenOrVal (advance n r) = mElemLenOrVal r"
  "mBufHandle (advance n r) = mBufHandle r" "mBuf (advance n r) = mBuf r"
  "mReadPoint (advance n r) = mReadPoint r + n" "mBufEnd (advance n r) = mBufEnd r"
  "mMaxLen (advance n r) = mMaxLen r" "mContainerType (advance n r) = mContainerType r"
  "mControlByte (advance n r) = mControlByte r" "mContainerOpen (advance n r) = mContainerOpen r"
  "ImplicitProfileId (advance n r) = ImplicitProfileId r" "AppData (advance n r) = AppData r"
  "GetNextBuffer (advance n r) = GetNextBuffer r" "more (advance n r) = more r"
  "ElementType (advance n r) = ElementType r" "elem8 (advance n r) = elem8 r"
  by (simp_all add: advance_def ElementType_def elem8_def)

lemma ahead_upd [simp]:
  "ahead (r\<lparr>mElemTag := t\<rparr>) bs = ahead r bs"
  "ahead (r\<lparr>mElemLenOrVal := v\<rparr>) bs = ahead r bs"
  "ahead (r\<lparr>mContainerType := ct\<rparr>) bs = ahead r bs"
  "ahead (r\<lparr>mControlByte := c\<rparr>) bs = ahead r bs"
  "ahead (r\<lparr>mContainerOpen := b\<rparr>) bs = ahead r bs"
  "ahead (ClearElementState r) bs = ahead r bs"
  "ahead (SetContainerOpen b r) bs = ahead r bs"
  by (simp_all add: ahead_def) (simp_all add: ClearElementState_def SetContainerOpen_def)

lemma element_upd [simp]:
  "ElementType (r\<lparr>mContainerType := ct\<rparr>) = ElementType r"
  "elem8 (r\<lparr>mContainerType := ct\<rparr>) = elem8 r"
  "ElementType (r\<lparr>mContainerOpen := b\<rparr>) = ElementType r"
  "elem8 (r\<lparr>mContainerOpen := b\<rparr>) = elem8 r"
  "ElementType (SetContainerOpen b r) = ElementType r"
  "ElementType (ClearElementState r) = kTLVElementType_NotSpecified"
  by (simp_all add: ElementType_def elem8_def SetContainerOpen_def ClearElementState_def)

lemma ahead_inv: "ahead r bs \<Longrightarrow> reader_inv r"
  by (simp add: ahead_def)

lemma ahead_length:
  assumes "ahead r bs"
  shows "mBufEnd r - mReadPoint r = length bs" "length bs < 4294967296"
    "mReadPoint r + length bs \<le> length (mBuf r)" "mReadPoint r \<le> mBufEnd r"
proof -
  have inv: "mReadPoint r \<le> mBufEnd r" "mBufEnd r \<le> length (mBuf r)"
    using assms by (simp_all add: ahead_def reader_inv_def)
  have "length (take (mBufEnd r - mReadPoint r) (drop (mReadPoint r) (mBuf r))) = length bs"
    using assms by (simp add: ahead_def)
  then show l: "mBufEnd r - mReadPoint r = length bs" using inv by simp
  show "length bs < 4294967296" using assms reader_inv_remaining_less [of r] by (simp add: ahead_def)
  show "mReadPoint r + length bs \<le> length (mBuf r)" "mReadPoint r \<le> mBufEnd r"
    using l inv by linarith+
qed

lemma ahead_drop: "ahead r bs \<Longrightarrow> drop (mReadPoint r) (mBuf r) = bs @ drop (mBufEnd r) (mBuf r)"
  using append_take_drop_id [of "mBufEnd r - mReadPoint r" "drop (mReadPoint r) (mBuf r)"]
    ahead_length(4) [of r bs]
  by (simp add: ahead_def)

lemma ahead_of_nat: "ahead r (xs @ ys) \<Longrightarrow> unat (of_nat (length xs) :: u32) = length xs"
  by (rule unat_of_nat_32) (use ahead_length(2) [of r "xs @ ys"] in simp)

lemma ahead_advance:
  assumes "ahead r (xs @ ys)"
  shows "ahead (advance (length xs) r) ys"
proof -
  note l = ahead_length [OF assms]
  define n where "n = (of_nat (length xs) :: u32)"
  have u: "unat n = length xs" unfolding n_def by (rule ahead_of_nat [OF assms])
  have n: "unat n \<le> mBufEnd r - mReadPoint r" using l u by simp
  note A = advance_spec [OF ahead_inv [OF assms] n]
  have "advance (length xs) r = r\<lparr>mReadPoint := mReadPoint r + unat n, mLenRead := mLenRead r + n\<rparr>"
    using ahead_of_nat [OF assms] by (simp add: advance_def n_def)
  then have inv: "reader_inv (advance (length xs) r)" using A(1) by simp
  have "unat (mLenRead (advance (length xs) r)) = unat (mLenRead r) + length xs"
    using A(2) u by (simp add: advance_def n_def)
  then have rem: "remaining (advance (length xs) r) = length ys"
    using assms by (simp add: remaining_def ahead_def flip: diff_diff_left)
  have "take (mBufEnd r - mReadPoint r) (drop (mReadPoint r) (mBuf r)) = xs @ ys"
    using assms by (simp add: ahead_def)
  then have "drop (length xs) (take (mBufEnd r - mReadPoint r) (drop (mReadPoint r) (mBuf r))) = ys"
    by simp
  then have "take (mBufEnd r - (mReadPoint r + length xs)) (drop (mReadPoint r + length xs) (mBuf r)) = ys"
    by (simp add: drop_take add.commute)
  with inv rem show ?thesis by (simp add: ahead_def)
qed

lemma advance_zero [simp]: "advance 0 r = r"
  by (simp add: advance_def)

lemma EnsureData_ahead:
  assumes "ahead r bs"
  shows "EnsureData e r = (if bs = [] then (e, r) else (MATTER_NO_ERROR, r))"
proof (cases "bs = []")
  case True
  then have "mReadPoint r = mBufEnd r" "remaining r = 0"
    using ahead_length [OF assms] assms by (auto simp: ahead_def)
  moreover from this have "mLenRead r = mMaxLen r"
    using assms by (auto simp: ahead_def reader_inv_def remaining_def word_le_nat_alt
        intro: word_unat_eq_iff [THEN iffD2])
  ultimately show ?thesis using True by (simp add: EnsureData_def)
next
  case False
  then have "mReadPoint r \<noteq> mBufEnd r" using ahead_length [OF assms] by auto
  then show ?thesis using False by (simp add: EnsureData_def)
qed

lemma ReadData_ahead:
  assumes a: "ahead r (xs @ ys)" and len: "unat len = length xs"
    and room: "\<And>n. cap = Some n \<Longrightarrow> length xs \<le> n"
  shows "ReadData cap len r =
    Some (MATTER_NO_ERROR, (if cap = None then [] else xs), advance (length xs) r)"
proof (cases "xs = []")
  case True
  then have "len = 0" using len by (simp add: unat_eq_0)
  then show ?thesis using True
    by (simp add: ReadData_def ReadData_loop.simps [of _ _ 0])
next
  case False
  then have pos: "len > 0" using len by (metis length_0_conv unat_gt_0 word_gt_0 unat_eq_0)
  note l = ahead_length [OF a]
  have rest: "unat (word_of_int (buf_left r) :: u32) = length (xs @ ys)"
    unfolding buf_left_def using l
    by (subst unat_word_of_int_32) auto
  then have n: "\<not> len > (word_of_int (buf_left r) :: u32)"
    using len by (simp add: word_less_nat_alt)
  have ld: "load_bytes (mBuf r) (mReadPoint r) (unat len) = Some xs"
    using l len by (simp add: load_bytes_def ahead_drop [OF a])
  have c: "copy_out cap [] (unat len) r = Some (if cap = None then [] else xs)"
    using room ld len by (cases cap) (auto simp: copy_out_def)
  have len': "len = of_nat (length xs)" using len [symmetric] by simp
  have "ReadData_loop cap [] len r = ReadData_loop cap (if cap = None then [] else xs) (len - len)
      (r\<lparr>mReadPoint := mReadPoint r + unat len, mLenRead := mLenRead r + len\<rparr>)"
    using pos EnsureData_ahead [OF a] False n c by (subst ReadData_loop.simps) simp
  also have "\<dots> = Some (MATTER_NO_ERROR, (if cap = None then [] else xs), advance (length xs) r)"
    by (subst ReadData_loop.simps) (simp add: advance_def len, simp add: len')
  finally show ?thesis by (simp add: ReadData_def)
qed

section \<open>Reading an element\<close>

text \<open>The reader's state after the head of an element: its control byte, tag and field are loaded.\<close>

definition after_head :: "tlv_tag \<Rightarrow> byte \<Rightarrow> u64 \<Rightarrow> 'a tlv_reader_scheme \<Rightarrow> 'a tlv_reader_scheme" where
  "after_head t ty v r =
     (advance (length (enc_head t ty v)) r)
       \<lparr>mControlByte := ucast (control_byte t ty), mElemTag := tag_value (ImplicitProfileId r) t,
        mElemLenOrVal := v\<rparr>"

lemma control_not_NotSpecified: "ucast (b :: byte) \<noteq> kTLVControlByte_NotSpecified"
proof
  assume "ucast b = kTLVControlByte_NotSpecified"
  then have "unat (ucast b :: u16) = 65535" by simp
  moreover have "unat (ucast b :: u16) = unat b" by transfer (simp add: take_bit_eq_mod mod_mod_cancel)
  moreover have "unat b < 2 ^ LENGTH(8)" by (rule unsigned_less)
  ultimately show False by simp
qed

lemma control_ElementType:
  assumes "uint ty < 32" and "mControlByte r = ucast (control_byte t ty)"
  shows "ElementType r = uint ty" "elem8 r = ty"
proof -
  have "uint (ucast ty :: u16) = uint ty" by transfer (simp add: take_bit_eq_mod)
  then show "ElementType r = uint ty"
    using assms control_byte_type [OF assms(1), of t] control_not_NotSpecified
    by (simp add: ElementType_def del: kTLVControlByte_NotSpecified_def kTLVTypeMask_def)
  then show "elem8 r = ty" by (simp add: elem8_def)
qed

lemma head_bytes_enc:
  assumes "uint ty < 32" and "mControlByte r = ucast (control_byte t ty)"
  shows "unat (head_bytes r) = length (enc_head t ty v)"
proof -
  obtain k where k: "k < 8" "mControlByte r AND kTLVTagControlMask = of_nat (32 * k)"
    "unat (drop_bit kTLVTagControlShift (mControlByte r AND kTLVTagControlMask)) = k"
    by (rule tag_control_cases)
  have "of_nat (32 * k) = (of_nat (32 * tag_control t) :: u16)"
    using k(2) control_byte_tag [OF assms(1), of t] assms(2) by simp
  then have "unat (of_nat (32 * k) :: u16) = unat (of_nat (32 * tag_control t) :: u16)" by simp
  then have "k = tag_control t"
    using k(1) tag_control_less [of t] by (simp only: unat_of_nat) simp
  then show ?thesis
    using unat_head_bytes [OF k(3,1)] control_ElementType [OF assms]
    by (simp add: enc_head_def length_enc_tag length_enc_field)
qed

lemma after_head_fields [simp]:
  "mElemTag (after_head t ty v r) = tag_value (ImplicitProfileId r) t"
  "mElemLenOrVal (after_head t ty v r) = v"
  "mContainerType (after_head t ty v r) = mContainerType r"
  "mContainerOpen (after_head t ty v r) = mContainerOpen r"
  "ImplicitProfileId (after_head t ty v r) = ImplicitProfileId r"
  "mMaxLen (after_head t ty v r) = mMaxLen r" "mBuf (after_head t ty v r) = mBuf r"
  "mBufEnd (after_head t ty v r) = mBufEnd r" "more (after_head t ty v r) = more r"
  "mReadPoint (after_head t ty v r) = mReadPoint r + length (enc_head t ty v)"
  by (simp_all add: after_head_def)

lemma after_head_type:
  assumes "uint ty < 32"
  shows "ElementType (after_head t ty v r) = uint ty" "elem8 (after_head t ty v r) = ty"
  using control_ElementType [OF assms, of "after_head t ty v r" t] by (simp_all add: after_head_def)

lemma ahead_after_head:
  "ahead r (enc_head t ty v @ p) \<Longrightarrow> ahead (after_head t ty v r) p"
  using ahead_advance [of r "enc_head t ty v" p] by (simp add: after_head_def)

text \<open>\<open>ReadElement\<close> on the head of an element loads it, and returns the verdict of \<open>VerifyElement\<close>.\<close>

lemma ReadElement_enc_head:
  assumes a: "ahead r (enc_head t ty v @ p)" and ty: "IsValidTLVType ty"
    and fits: "field_value ty v = v" and known: "tag_known (ImplicitProfileId r) t"
  shows "ReadElement r = Some (VerifyElement (after_head t ty v r), after_head t ty v r)"
proof -
  have ty32: "uint ty < 32" using ty by (simp add: IsValidTLVType_def)
  have ne: "enc_head t ty v @ p \<noteq> []" by (simp add: enc_head_def)
  have E: "EnsureData MATTER_END_OF_TLV r = (MATTER_NO_ERROR, r)"
    using EnsureData_ahead [OF a] ne by simp
  define m where "m = drop (mBufEnd r) (mBuf r)"
  have d: "drop (mReadPoint r) (mBuf r) = enc_head t ty v @ p @ m"
    using ahead_drop [OF a] by (simp add: m_def)
  have c: "Read8 (drop (mReadPoint r) (mBuf r)) =
      Some (control_byte t ty, enc_tag t @ enc_field ty v @ p @ m)"
    unfolding d by (simp add: enc_head_def Read8_def)
  define r1 where "r1 = r\<lparr>mControlByte := ucast (control_byte t ty)\<rparr>"
  have r1: "elem8 r1 = ty" "mControlByte r1 = ucast (control_byte t ty)"
    using control_ElementType [OF ty32, of r1 t] by (simp_all add: r1_def)
  have hb: "unat (head_bytes r1) = length (enc_head t ty v)"
    by (rule head_bytes_enc [OF ty32 r1(2)])
  have a1: "ahead r1 (enc_head t ty v @ p)" using a by (simp add: r1_def)
  have hb32: "ucast (head_bytes r1) = (of_nat (length (enc_head t ty v)) :: u32)"
    using unat_ucast_8_32 [of "head_bytes r1"] hb by (metis word_unat_eq_iff ahead_of_nat [OF a1])
  have "\<not> uint (head_bytes r1) > buf_left r1"
    using ahead_length [OF a1] hb unfolding uint_nat buf_left_def by simp
  moreover have "drop (mReadPoint r1) (mBuf r1) = enc_head t ty v @ p @ m"
    using d by (simp add: r1_def)
  ultimately have H: "ReadElementHead r1 = Some (MATTER_NO_ERROR, enc_head t ty v @ p @ m,
      advance (length (enc_head t ty v)) r1)"
    using hb hb32 by (simp add: ReadElementHead_def advance_def Let_def)
  define r2 where "r2 = advance (length (enc_head t ty v)) r1"
  have r2: "mControlByte r2 = ucast (control_byte t ty)" "elem8 r2 = ty"
    "ImplicitProfileId r2 = ImplicitProfileId r"
    using r1 by (simp_all add: r2_def) (simp add: r1_def)
  have "unat (of_nat (32 * tag_control t) :: u16) = 32 * tag_control t"
    using tag_control_less [of t] by (simp only: unat_of_nat) simp
  then have tc: "uint (mControlByte r2 AND kTLVTagControlMask) = int (32 * tag_control t)"
    unfolding r2(1) control_byte_tag [OF ty32] uint_nat by (rule arg_cong)
  have c2: "Read8 (enc_head t ty v @ p @ m) = Some (control_byte t ty, enc_tag t @ enc_field ty v @ p @ m)"
    by (simp add: enc_head_def Read8_def)
  have T: "ReadTag r2 (int (32 * tag_control t)) (enc_tag t @ enc_field ty v @ p @ m) =
      Some (tag_value (ImplicitProfileId r) t, enc_field ty v @ p @ m)"
    using ReadTag_enc [of r2 t] known by (simp add: r2)
  have F: "ReadElementFields (enc_head t ty v @ p @ m) r2 =
      (let r = r2\<lparr>mElemTag := tag_value (ImplicitProfileId r) t, mElemLenOrVal := v\<rparr>
       in Some (VerifyElement r, r))"
    unfolding ReadElementFields_def tc c2
    by (simp only: T option.case prod.case r2(2) ReadLenOrVal_enc fits)
  have eq: "r2\<lparr>mElemTag := tag_value (ImplicitProfileId r) t, mElemLenOrVal := v\<rparr> = after_head t ty v r"
    by (simp add: r2_def r1_def after_head_def advance_def)
  show ?thesis
    using E c r1(1) ty H F eq unfolding ReadElement_def r1_def [symmetric] r2_def
    by (simp add: r1_def [symmetric] Let_def)
qed

lemma ahead_left:
  assumes "ahead r bs"
  shows "unat (mMaxLen r - mLenRead r) = length bs"
  using assms by (simp add: ahead_def reader_inv_def remaining_def unat_sub)

lemma VerifyElement_admitted:
  assumes ty: "uint (ty :: byte) < kTLVElementType_EndOfContainer"
    and t: "tag_admitted (ImplicitProfileId r) ct t"
    and ct: "mContainerType r = ct \<or> mContainerType r = kTLVType_UnknownContainer"
    and a: "ahead (after_head t ty v r) p"
    and len: "TLVTypeHasLength ty \<Longrightarrow> unat v \<le> length p"
  shows "VerifyElement (after_head t ty v r) = MATTER_NO_ERROR"
proof -
  let ?r = "after_head t ty v r"
  have ty': "ElementType ?r = uint ty" "elem8 ?r = ty"
    using after_head_type [of ty] ty by simp_all
  have "\<not> mMaxLen ?r - mLenRead ?r < ucast v" if "TLVTypeHasLength ty"
    using len [OF that] unat_low_32 [of v] ahead_left [OF a] by (simp add: word_less_nat_alt)
  then have u: "\<not> (TLVTypeHasLength (elem8 ?r) \<and> mMaxLen ?r - mLenRead ?r < ucast (mElemLenOrVal ?r))"
    using ty' by simp
  have "tag_value (ImplicitProfileId r) t \<noteq> UnknownImplicitTag"
    using t by (simp add: tag_admitted_def)
  then show ?thesis
    using u ct t ty ty' unfolding VerifyElement_def tag_admitted_def
    by (auto simp: Let_def simp del: UnknownImplicitTag_def split: if_splits)
qed

lemma enc_head_end: "enc_head TAnonymous end_of_container 0 = [end_of_container]"
  by (simp add: enc_head_def control_byte_def end_of_container_def enc_field_def GetTLVFieldSize_def
      TLVTypeHasValue_def)

lemma ReadElement_end:
  assumes a: "ahead r (end_of_container # p)" and ct: "mContainerType r \<noteq> kTLVType_NotSpecified"
  shows "ReadElement r = Some (MATTER_NO_ERROR, after_head TAnonymous end_of_container 0 r)"
proof -
  have "ReadElement r = Some (VerifyElement (after_head TAnonymous end_of_container 0 r),
      after_head TAnonymous end_of_container 0 r)"
    by (rule ReadElement_enc_head [of _ _ _ _ p])
      (use a in \<open>simp add: enc_head_end, simp_all add: IsValidTLVType_def end_of_container_def
         field_value_def GetTLVFieldSize_def TLVTypeHasValue_def tag_known_def\<close>)
  moreover have "VerifyElement (after_head TAnonymous end_of_container 0 r) = MATTER_NO_ERROR"
    using ct after_head_type [of end_of_container TAnonymous 0 r]
    by (simp add: VerifyElement_def end_of_container_def TLVTypeHasLength_def)
  ultimately show ?thesis by simp
qed

text \<open>\<open>loose k r r'\<close>: \<open>r'\<close> is \<open>k\<close> bytes further than \<open>r\<close>, with any current element and container type.\<close>

definition loose :: "nat \<Rightarrow> 'a tlv_reader_scheme \<Rightarrow> 'a tlv_reader_scheme \<Rightarrow> bool" where
  "loose k r r' \<longleftrightarrow>
     mBufHandle r' = mBufHandle r \<and> mBuf r' = mBuf r \<and> mReadPoint r' = mReadPoint r + k \<and>
     mBufEnd r' = mBufEnd r \<and> mLenRead r' = mLenRead r + of_nat k \<and> mMaxLen r' = mMaxLen r \<and>
     mContainerOpen r' = mContainerOpen r \<and> ImplicitProfileId r' = ImplicitProfileId r \<and>
     AppData r' = AppData r \<and> GetNextBuffer r' = GetNextBuffer r \<and> more r' = more r"

lemma loose_refl [simp]: "loose 0 r r"
  by (simp add: loose_def)

lemma loose_trans: "loose j r r' \<Longrightarrow> loose k r' r'' \<Longrightarrow> loose (j + k) r r''"
  by (simp add: loose_def add_ac)

lemma loose_advance: "loose k r (advance k r)"
  by (simp add: loose_def) (simp add: advance_def)

lemma loose_after_head: "loose (length (enc_head t ty v)) r (after_head t ty v r)"
  by (simp add: loose_def after_head_def) (simp add: advance_def)

lemma loose_upd [simp]: "loose k r (r'\<lparr>mContainerType := ct\<rparr>) = loose k r r'"
  by (simp add: loose_def)

lemma loose_upd_left [simp]:
  "loose k (r\<lparr>mContainerType := ct\<rparr>) r' = loose k r r'"
  "loose k (ClearElementState r) r' = loose k r r'"
  by (simp_all add: loose_def ClearElementState_def)

lemma loose_Clear:
  "loose k r r' \<Longrightarrow> ClearElementState (r'\<lparr>mContainerType := ct\<rparr>) =
     ClearElementState ((advance k r)\<lparr>mContainerType := ct\<rparr>)"
  by (simp add: loose_def ClearElementState_def advance_def)

section \<open>Skipping an element\<close>

text \<open>The rest of the loop of \<open>SkipToEndOfContainer\<close>, from where the next element is read.\<close>

definition skip_rest :: "u32 \<Rightarrow> TLVType \<Rightarrow> 'a tlv_reader_scheme \<Rightarrow> 'a tlv_reader_scheme result" where
  "skip_rest n outer r = SuccessOrExit (ReadElement r) (SkipToEnd_loop n outer)"

lemma SkipToEnd_loop_rest:
  assumes "\<not> (ElementType r = kTLVElementType_EndOfContainer \<and> n = 0)"
    and "SkipToEnd_enter n outer r = (n', r')" and "SkipData r' = Some (MATTER_NO_ERROR, r'')"
  shows "SkipToEnd_loop n outer r = skip_rest n' outer r''"
  using assms by (subst SkipToEnd_loop.simps) (auto simp: skip_rest_def)

lemma SkipData_ahead:
  assumes "ahead r (bs @ p)"
    and "if TLVTypeHasLength (elem8 r) then unat (mElemLenOrVal r) = length bs else bs = []"
  shows "SkipData r = Some (MATTER_NO_ERROR, advance (length bs) r)"
proof (cases "TLVTypeHasLength (elem8 r)")
  case True
  have l: "length bs < 4294967296" using ahead_length(2) [OF assms(1)] by simp
  then have "unat (ucast (mElemLenOrVal r) :: u32) = length bs"
    using unat_ucast_64_32 [of "mElemLenOrVal r"] True assms(2) by simp
  then show ?thesis
    using True ReadData_ahead [OF assms(1), of "ucast (mElemLenOrVal r)" None]
    by (simp add: SkipData_def)
qed (use assms in \<open>simp add: SkipData_def\<close>)

text \<open>
  \<open>skips es\<close>: from any state in front of the encoding of \<open>es\<close>, the loop comes to a state behind it. Inside
  a nested container the loop forgets which kind of container it is in.
\<close>

definition skips :: "byte list \<Rightarrow> u32 \<Rightarrow> TLVType \<Rightarrow> 'a tlv_reader_scheme \<Rightarrow> byte list \<Rightarrow> bool" where
  "skips bs n outer r p \<longleftrightarrow> (\<exists>r'. skip_rest n outer r = skip_rest n outer r' \<and> ahead r' p \<and>
     loose (length bs) r r' \<and>
     (mContainerType r' = mContainerType r \<or>
      mContainerType r' = (if n = 0 then outer else kTLVType_UnknownContainer)))"

lemma skips_Leaf:
  assumes a: "ahead r (encode (Leaf t ty v bs) @ p)"
    and wf: "wf_tlv (ImplicitProfileId r) ct (Leaf t ty v bs)"
    and ct: "mContainerType r = ct \<or> mContainerType r = kTLVType_UnknownContainer"
  shows "skips (encode (Leaf t ty v bs)) n outer r p"
proof -
  let ?r = "after_head t ty v r"
  have wf': "tag_admitted (ImplicitProfileId r) ct t" "uint ty < kTLVElementType_EndOfContainer"
    "\<not> TLVTypeIsContainer ty" "field_value ty v = v"
    "if TLVTypeHasLength ty then unat v = length bs else bs = []"
    using wf by simp_all
  have a1: "ahead r (enc_head t ty v @ bs @ p)" using a by simp
  have a2: "ahead ?r (bs @ p)" by (rule ahead_after_head [OF a1])
  have ty: "ElementType ?r = uint ty" "elem8 ?r = ty" using after_head_type [of ty] wf'(2) by simp_all
  have "VerifyElement ?r = MATTER_NO_ERROR"
    by (rule VerifyElement_admitted [OF wf'(2,1) ct a2]) (use wf'(5) in simp)
  then have R: "ReadElement r = Some (MATTER_NO_ERROR, ?r)"
    using ReadElement_enc_head [OF a1] wf' by (simp add: IsValidTLVType_def tag_admitted_def)
  have "SkipToEnd_enter n outer ?r = (n, ?r)"
    using ty wf'(2,3) by (simp add: SkipToEnd_enter_def)
  moreover have "SkipData ?r = Some (MATTER_NO_ERROR, advance (length bs) ?r)"
    by (rule SkipData_ahead [OF a2]) (use ty wf'(5) in simp)
  ultimately have "SkipToEnd_loop n outer ?r = skip_rest n outer (advance (length bs) ?r)"
    using ty wf'(2) by (intro SkipToEnd_loop_rest) auto
  then have "skip_rest n outer r = skip_rest n outer (advance (length bs) ?r)"
    by (subst skip_rest_def) (simp add: R)
  moreover have "ahead (advance (length bs) ?r) p" by (rule ahead_advance [OF a2])
  moreover have "loose (length (encode (Leaf t ty v bs))) r (advance (length bs) ?r)"
    using loose_trans [OF loose_after_head loose_advance] by simp
  ultimately show ?thesis unfolding skips_def
    by (intro exI [of _ "advance (length bs) ?r"]) simp
qed

lemma skips_append:
  fixes r :: "'a tlv_reader_scheme"
  assumes "skips bs n outer r (cs @ p)"
    and "\<And>r' :: 'a tlv_reader_scheme. ahead r' (cs @ p) \<Longrightarrow> ImplicitProfileId r' = ImplicitProfileId r \<Longrightarrow>
        (mContainerType r' = mContainerType r \<or>
         mContainerType r' = (if n = 0 then outer else kTLVType_UnknownContainer)) \<Longrightarrow>
        skips cs n outer r' p"
  shows "skips (bs @ cs) n outer r p"
proof -
  obtain r1 where r1: "skip_rest n outer r = skip_rest n outer r1" "ahead r1 (cs @ p)"
    "loose (length bs) r r1" "mContainerType r1 = mContainerType r \<or>
      mContainerType r1 = (if n = 0 then outer else kTLVType_UnknownContainer)"
    using assms(1) by (auto simp: skips_def)
  have "skips cs n outer r1 p"
    by (rule assms(2) [OF r1(2) _ r1(4)]) (use r1(3) in \<open>simp add: loose_def\<close>)
  then show ?thesis
    using r1 loose_trans [of "length bs" r r1] unfolding skips_def length_append by metis
qed

text \<open>The \<open>EndOfContainer\<close> of a nested container brings the nesting level down.\<close>

lemma skip_rest_end:
  assumes a: "ahead r (end_of_container # p)" and ct: "mContainerType r \<noteq> kTLVType_NotSpecified"
    and n: "n + 1 \<noteq> 0"
  shows "skip_rest (n + 1) outer r = skip_rest n outer
     ((after_head TAnonymous end_of_container 0 r)
        \<lparr>mContainerType := (if n = 0 then outer else kTLVType_UnknownContainer)\<rparr>)"
proof -
  let ?r = "after_head TAnonymous end_of_container 0 r"
  let ?r' = "?r\<lparr>mContainerType := (if n = 0 then outer else kTLVType_UnknownContainer)\<rparr>"
  have ty: "ElementType ?r = kTLVElementType_EndOfContainer"
    using after_head_type(1) [of end_of_container TAnonymous 0 r] by (simp add: end_of_container_def)
  have "SkipToEnd_enter (n + 1) outer ?r = (n, ?r')"
    using ty by (simp add: SkipToEnd_enter_def)
  moreover have "SkipData ?r' = Some (MATTER_NO_ERROR, ?r')"
    using ty by (simp add: SkipData_def elem8_def TLVTypeHasLength_def)
  ultimately have "SkipToEnd_loop (n + 1) outer ?r = skip_rest n outer ?r'"
    using n by (intro SkipToEnd_loop_rest) auto
  then show ?thesis
    unfolding skip_rest_def [of "n + 1"] ReadElement_end [OF a ct] by simp
qed

lemma skips_Node:
  fixes r :: "'a tlv_reader_scheme"
  assumes a: "ahead r (encode (Node t ty es) @ p)"
    and wf: "wf_tlv (ImplicitProfileId r) ct (Node t ty es)"
    and ct: "mContainerType r = ct \<or> mContainerType r = kTLVType_UnknownContainer"
    and n: "unat n + length (encode (Node t ty es) @ p) < 4294967296"
    and es: "\<And>r' :: 'a tlv_reader_scheme. ahead r' (encodes es @ end_of_container # p) \<Longrightarrow>
        ImplicitProfileId r' = ImplicitProfileId r \<Longrightarrow> mContainerType r' = uint ty \<Longrightarrow>
        skips (encodes es) (n + 1) outer r' (end_of_container # p)"
  shows "skips (encode (Node t ty es)) n outer r p"
proof -
  let ?r = "after_head t ty 0 r"
  let ?r2 = "?r\<lparr>mContainerType := uint ty\<rparr>"
  have ty: "TLVTypeIsContainer ty" "uint ty < kTLVElementType_EndOfContainer" "\<not> TLVTypeHasLength ty"
    using wf by (simp_all add: TLVTypeIsContainer_def TLVTypeHasLength_def)
  have t: "tag_admitted (ImplicitProfileId r) ct t" using wf by simp
  have a1: "ahead r (enc_head t ty 0 @ encodes es @ end_of_container # p)"
    using a by (simp add: encode_Node)
  have a2: "ahead ?r (encodes es @ end_of_container # p)" by (rule ahead_after_head [OF a1])
  have rty: "ElementType ?r = uint ty" "elem8 ?r = ty" using after_head_type [of ty] ty(2) by simp_all
  have "VerifyElement ?r = MATTER_NO_ERROR"
    by (rule VerifyElement_admitted [OF ty(2) t ct a2]) (use ty in simp)
  moreover have "field_value ty 0 = 0" by (simp add: field_value_def Let_def)
  ultimately have R: "ReadElement r = Some (MATTER_NO_ERROR, ?r)"
    using ReadElement_enc_head [OF a1] t ty by (simp add: IsValidTLVType_def tag_admitted_def)
  have n1: "n + 1 \<noteq> 0"
  proof -
    have "unat (n + 1) = unat n + 1"
      using n unat_add_no_wrap [of n 1] by (simp add: encode_Node)
    then show ?thesis by auto
  qed
  have "SkipToEnd_enter n outer ?r = (n + 1, ?r2)"
    using rty ty by (simp add: SkipToEnd_enter_def)
  moreover have "elem8 ?r2 = ty" using rty by simp
  then have "SkipData ?r2 = Some (MATTER_NO_ERROR, ?r2)"
    using ty by (simp add: SkipData_def)
  ultimately have "SkipToEnd_loop n outer ?r = skip_rest (n + 1) outer ?r2"
    using rty ty by (intro SkipToEnd_loop_rest) auto
  then have 1: "skip_rest n outer r = skip_rest (n + 1) outer ?r2"
    by (subst skip_rest_def) (simp add: R)
  have "skips (encodes es) (n + 1) outer ?r2 (end_of_container # p)"
    by (rule es) (use a2 in simp_all)
  then obtain r3 where r3: "skip_rest (n + 1) outer ?r2 = skip_rest (n + 1) outer r3"
    "ahead r3 (end_of_container # p)" "loose (length (encodes es)) ?r2 r3"
    "mContainerType r3 = uint ty \<or> mContainerType r3 = kTLVType_UnknownContainer"
    using n1 by (auto simp: skips_def)
  let ?r4 = "(after_head TAnonymous end_of_container 0 r3)
        \<lparr>mContainerType := (if n = 0 then outer else kTLVType_UnknownContainer)\<rparr>"
  have "mContainerType r3 \<noteq> kTLVType_NotSpecified"
    using r3(4) ty(1) by (auto simp: TLVTypeIsContainer_def)
  then have 2: "skip_rest (n + 1) outer r3 = skip_rest n outer ?r4"
    by (rule skip_rest_end [OF r3(2) _ n1])
  have "ahead ?r4 p"
    using ahead_after_head [of r3 TAnonymous end_of_container 0 p] r3(2) by (simp add: enc_head_end)
  moreover have "loose (length (encode (Node t ty es))) r ?r4"
    using loose_trans [OF loose_trans [OF loose_after_head [of t ty 0 r] r3(3) [simplified]]
        loose_after_head [of TAnonymous end_of_container 0 r3]]
    by (simp add: encode_Node enc_head_end)
  ultimately show ?thesis using 1 2 r3(1) unfolding skips_def
    by (intro exI [of _ ?r4]) simp
qed

text \<open>The loop skips every element that the format admits, however deep.\<close>

lemma skips_list:
  fixes r :: "'a tlv_reader_scheme"
  assumes elem: "\<And>e n (r :: 'a tlv_reader_scheme) p. e \<in> set es \<Longrightarrow> ahead r (encode e @ p) \<Longrightarrow>
      wf_tlv (ImplicitProfileId r) ct e \<Longrightarrow>
      mContainerType r = ct \<or> mContainerType r = kTLVType_UnknownContainer \<Longrightarrow>
      unat n + length (encode e @ p) < 4294967296 \<Longrightarrow> n = 0 \<longrightarrow> outer = ct \<Longrightarrow>
      skips (encode e) n outer r p"
    and "ahead r (encodes es @ p)" and "\<forall>e \<in> set es. wf_tlv (ImplicitProfileId r) ct e"
    and "mContainerType r = ct \<or> mContainerType r = kTLVType_UnknownContainer"
    and "unat n + length (encodes es @ p) < 4294967296" and "n = 0 \<longrightarrow> outer = ct"
  shows "skips (encodes es) n outer r p"
  using assms
proof (induction es arbitrary: r)
  case Nil
  then show ?case by (auto simp: skips_def intro!: exI [of _ r])
next
  case (Cons e es)
  have "skips (encode e @ encodes es) n outer r p"
  proof (rule skips_append)
    show "skips (encode e) n outer r (encodes es @ p)"
      by (rule Cons.prems(1)) (use Cons.prems in auto)
  next
    fix r' :: "'a tlv_reader_scheme"
    assume "ahead r' (encodes es @ p)" "ImplicitProfileId r' = ImplicitProfileId r"
      "mContainerType r' = mContainerType r \<or>
         mContainerType r' = (if n = 0 then outer else kTLVType_UnknownContainer)"
    then show "skips (encodes es) n outer r' p"
      using Cons.prems by (intro Cons.IH) (auto split: if_splits)
  qed
  then show ?case by simp
qed

lemma skips_encode:
  fixes r :: "'a tlv_reader_scheme"
  assumes "ahead r (encode e @ p)" and "wf_tlv (ImplicitProfileId r) ct e"
    and "mContainerType r = ct \<or> mContainerType r = kTLVType_UnknownContainer"
    and "unat n + length (encode e @ p) < 4294967296" and "n = 0 \<longrightarrow> outer = ct"
  shows "skips (encode e) n outer r p"
  using assms
proof (induction e arbitrary: r n ct outer p rule: encode.induct)
  case (1 t ty v bs)
  then show ?case by (intro skips_Leaf)
next
  case (2 t ty es)
  have n1: "unat (n + 1) = unat n + 1"
    using "2.prems"(4) unat_add_no_wrap [of n 1] by (simp add: encode_Node)
  show ?case
  proof (rule skips_Node [OF "2.prems"(1-4)])
    fix r' :: "'a tlv_reader_scheme"
    assume r': "ahead r' (encodes es @ end_of_container # p)"
      "ImplicitProfileId r' = ImplicitProfileId r" "mContainerType r' = uint ty"
    show "skips (encodes es) (n + 1) outer r' (end_of_container # p)"
    proof (rule skips_list [where ct = "uint ty"])
      fix e and k :: u32 and r2 :: "'a tlv_reader_scheme" and q
      assume "e \<in> set es" "ahead r2 (encode e @ q)" "wf_tlv (ImplicitProfileId r2) (uint ty) e"
        "mContainerType r2 = uint ty \<or> mContainerType r2 = kTLVType_UnknownContainer"
        "unat k + length (encode e @ q) < 4294967296" "k = 0 \<longrightarrow> outer = uint ty"
      then show "skips (encode e) k outer r2 q" by (rule "2.IH")
    next
      show "unat (n + 1) + length (encodes es @ end_of_container # p) < 4294967296"
        using "2.prems"(4) n1 by (simp add: encode_Node enc_head_def)
      show "n + 1 = 0 \<longrightarrow> outer = uint ty" using n1 by auto
    qed (use r' "2.prems"(2) in simp_all)
  qed
qed

lemma skips_encodes:
  fixes r :: "'a tlv_reader_scheme"
  assumes "ahead r (encodes es @ p)" and "\<forall>e \<in> set es. wf_tlv (ImplicitProfileId r) ct e"
    and "mContainerType r = ct"
  shows "skips (encodes es) 0 ct r p"
proof (rule skips_list [where ct = ct])
  fix e and k :: u32 and r2 :: "'a tlv_reader_scheme" and q
  assume "ahead r2 (encode e @ q)" "wf_tlv (ImplicitProfileId r2) ct e"
    "mContainerType r2 = ct \<or> mContainerType r2 = kTLVType_UnknownContainer"
    "unat k + length (encode e @ q) < 4294967296" "k = 0 \<longrightarrow> ct = ct"
  then show "skips (encode e) k ct r2 q" by (rule skips_encode)
qed (use assms ahead_length(2) [OF assms(1)] in simp_all)

lemma no_element_type: "\<not> TLVTypeIsContainer (- 1)" "\<not> TLVTypeHasLength (- 1)"
  by (simp_all add: TLVTypeIsContainer_def TLVTypeHasLength_def unsigned_minus_1_eq_mask mask_eq_exp_minus_1)

text \<open>
  \<open>SkipToEndOfContainer\<close> from inside a container (with no element loaded) ends right behind the
  container's \<open>EndOfContainer\<close>.
\<close>

lemma SkipToEndOfContainer_encodes:
  assumes a: "ahead r (encodes es @ end_of_container # p)"
    and wf: "\<forall>e \<in> set es. wf_tlv (ImplicitProfileId r) (mContainerType r) e"
    and ct: "mContainerType r \<noteq> kTLVType_NotSpecified"
    and clear: "ElementType r = kTLVElementType_NotSpecified"
  shows "\<exists>r'. SkipToEndOfContainer r = Some (MATTER_NO_ERROR, r') \<and>
    loose (length (encodes es) + 1) (SetContainerOpen False r) r' \<and> mContainerType r' = mContainerType r"
proof -
  let ?r = "SetContainerOpen False r"
  have r: "ahead ?r (encodes es @ end_of_container # p)" "mContainerType ?r = mContainerType r"
    "ImplicitProfileId ?r = ImplicitProfileId r" "ElementType ?r = kTLVElementType_NotSpecified"
    using a clear by simp_all (simp_all add: SetContainerOpen_def)
  have e8: "elem8 ?r = - 1" using r(4) by (simp add: elem8_def)
  have "SkipToEnd_enter 0 (mContainerType r) ?r = (0, ?r)" "SkipData ?r = Some (MATTER_NO_ERROR, ?r)"
    using r(4) e8 no_element_type by (simp_all add: SkipToEnd_enter_def SkipData_def)
  then have "SkipToEnd_loop 0 (mContainerType r) ?r = skip_rest 0 (mContainerType r) ?r"
    using r(4) by (intro SkipToEnd_loop_rest) simp_all
  moreover obtain r1 where r1: "skip_rest 0 (mContainerType r) ?r = skip_rest 0 (mContainerType r) r1"
    "ahead r1 (end_of_container # p)" "loose (length (encodes es)) ?r r1"
    "mContainerType r1 = mContainerType r"
    using skips_encodes [OF r(1), of "mContainerType r"] wf r(2,3) by (auto simp: skips_def)
  moreover have "skip_rest 0 (mContainerType r) r1 =
      Some (MATTER_NO_ERROR, after_head TAnonymous end_of_container 0 r1)"
    using ReadElement_end [OF r1(2)] ct r1(4)
      after_head_type(1) [of end_of_container TAnonymous 0 r1]
    by (simp add: skip_rest_def SkipToEnd_loop.simps [of 0] end_of_container_def)
  moreover have "loose (length (encodes es) + 1) ?r (after_head TAnonymous end_of_container 0 r1)"
    using loose_trans [OF r1(3) loose_after_head [of TAnonymous end_of_container 0]]
    by (simp add: enc_head_end)
  ultimately show ?thesis
    by (intro exI [of _ "after_head TAnonymous end_of_container 0 r1"])
      (simp add: SkipToEndOfContainer_def)
qed

section \<open>Moving from element to element\<close>

text \<open>
  \<open>loaded e r\<close>: the head of \<open>e\<close> has been read; \<open>passed e r\<close>: the reader is behind \<open>e\<close>.
\<close>

definition loaded :: "tlv \<Rightarrow> 'a tlv_reader_scheme \<Rightarrow> 'a tlv_reader_scheme" where
  "loaded e r = after_head (elem_tag e) (elem_type e) (elem_field e) r"

primrec is_node :: "tlv \<Rightarrow> bool" where
  "is_node (Leaf t ty v bs) = False"
| "is_node (Node t ty es) = True"

definition passed :: "tlv \<Rightarrow> 'a tlv_reader_scheme \<Rightarrow> 'a tlv_reader_scheme" where
  "passed e r = ClearElementState ((advance (length (encode e)) r)
     \<lparr>mContainerOpen := (mContainerOpen r \<and> \<not> is_node e)\<rparr>)"

lemma elem_type_valid:
  "wf_tlv imp ct e \<Longrightarrow> uint (elem_type e) < kTLVElementType_EndOfContainer"
  by (cases e) (auto simp: TLVTypeIsContainer_def)

lemma loaded_fields [simp]:
  "mElemTag (loaded e r) = tag_value (ImplicitProfileId r) (elem_tag e)"
  "mElemLenOrVal (loaded e r) = elem_field e"
  "mContainerType (loaded e r) = mContainerType r"
  "ImplicitProfileId (loaded e r) = ImplicitProfileId r"
  by (simp_all add: loaded_def)

lemma loaded_type:
  "wf_tlv imp ct e \<Longrightarrow> ElementType (loaded e r) = uint (elem_type e)"
  "wf_tlv imp ct e \<Longrightarrow> elem8 (loaded e r) = elem_type e"
  using after_head_type [of "elem_type e" "elem_tag e" "elem_field e" r] elem_type_valid [of imp ct e]
  by (simp_all add: loaded_def)

lemma passed_fields [simp]:
  "mContainerType (passed e r) = mContainerType r"
  "ImplicitProfileId (passed e r) = ImplicitProfileId r"
  "ElementType (passed e r) = kTLVElementType_NotSpecified"
  by (simp_all add: passed_def) (simp_all add: ClearElementState_def)

lemma ahead_passed: "ahead r (encode e @ p) \<Longrightarrow> ahead (passed e r) p"
  using ahead_advance [of r "encode e" p] by (simp add: passed_def)

lemma field_value_zero [simp]: "field_value ty 0 = 0"
  by (simp add: field_value_def Let_def)

text \<open>Reading an element that the current container admits succeeds.\<close>

lemma ReadElement_encode:
  assumes a: "ahead r (encode e @ p)" and wf: "wf_tlv (ImplicitProfileId r) (mContainerType r) e"
  shows "ReadElement r = Some (MATTER_NO_ERROR, loaded e r)"
proof (cases e)
  case (Leaf t ty v bs)
  have a1: "ahead r (enc_head t ty v @ bs @ p)" using a Leaf by simp
  have "VerifyElement (after_head t ty v r) = MATTER_NO_ERROR"
    by (rule VerifyElement_admitted [where ct = "mContainerType r", OF _ _ _ ahead_after_head [OF a1]])
      (use wf Leaf in \<open>simp_all split: if_splits\<close>)
  then show ?thesis
    using ReadElement_enc_head [OF a1] wf Leaf
    by (simp add: loaded_def IsValidTLVType_def tag_admitted_def)
next
  case (Node t ty es)
  have a1: "ahead r (enc_head t ty 0 @ encodes es @ end_of_container # p)"
    using a Node by (simp add: encode_Node)
  have ty: "uint ty < kTLVElementType_EndOfContainer" "\<not> TLVTypeHasLength ty"
    using wf Node by (simp_all add: TLVTypeIsContainer_def TLVTypeHasLength_def)
  have "VerifyElement (after_head t ty 0 r) = MATTER_NO_ERROR"
    by (rule VerifyElement_admitted [where ct = "mContainerType r", OF ty(1) _ _ ahead_after_head [OF a1]])
      (use wf Node ty in simp_all)
  then show ?thesis
    using ReadElement_enc_head [OF a1] wf Node ty
    by (simp add: loaded_def IsValidTLVType_def tag_admitted_def)
qed

text \<open>Skipping a loaded element, a container with all its contents included, lands right behind it.\<close>

lemma Skip_encode:
  assumes a: "ahead r (encode e @ p)" and wf: "wf_tlv (ImplicitProfileId r) (mContainerType r) e"
  shows "Skip (loaded e r) = Some (MATTER_NO_ERROR, passed e r)"
proof (cases e)
  case (Leaf t ty v bs)
  have a1: "ahead r (enc_head t ty v @ bs @ p)" using a Leaf by simp
  have l: "ElementType (loaded e r) = uint ty" "elem8 (loaded e r) = ty"
    using loaded_type [OF wf] Leaf by simp_all
  have "SkipData (loaded e r) = Some (MATTER_NO_ERROR, advance (length bs) (loaded e r))"
    by (rule SkipData_ahead [of _ _ p])
      (use ahead_after_head [OF a1] wf l Leaf in \<open>simp_all add: loaded_def\<close>)
  moreover have "ClearElementState (advance (length bs) (loaded e r)) = passed e r"
    using Leaf
    by (simp add: passed_def loaded_def after_head_def ClearElementState_def advance_def add_ac)
  ultimately show ?thesis using l wf Leaf by (simp add: Skip_def)
next
  case (Node t ty es)
  have a1: "ahead r (enc_head t ty 0 @ encodes es @ end_of_container # p)"
    using a Node by (simp add: encode_Node)
  have l: "ElementType (loaded e r) = uint ty" "elem8 (loaded e r) = ty" "TLVTypeIsContainer ty"
    "uint ty < kTLVElementType_EndOfContainer"
    using loaded_type [OF wf] elem_type_valid [OF wf] wf Node by simp_all
  define r1 where "r1 = SetContainerOpen False (ClearElementState ((loaded e r)\<lparr>mContainerType := uint ty\<rparr>))"
  have enter: "EnterContainer (loaded e r) kTLVType_NotSpecified = (MATTER_NO_ERROR, mContainerType r, r1)"
    using l by (simp add: EnterContainer_def r1_def)
  have r1: "mContainerType r1 = uint ty" "ImplicitProfileId r1 = ImplicitProfileId r"
    "ElementType r1 = kTLVElementType_NotSpecified"
    by (simp_all add: r1_def) (simp_all add: SetContainerOpen_def ClearElementState_def)
  have "\<exists>r'. SkipToEndOfContainer r1 = Some (MATTER_NO_ERROR, r') \<and>
      loose (length (encodes es) + 1) (SetContainerOpen False r1) r' \<and> mContainerType r' = mContainerType r1"
    by (rule SkipToEndOfContainer_encodes [of _ _ p])
      (use ahead_after_head [OF a1] wf l r1 Node in
        \<open>simp_all add: loaded_def r1_def TLVTypeIsContainer_def\<close>)
  then obtain r' where r': "SkipToEndOfContainer r1 = Some (MATTER_NO_ERROR, r')"
    "loose (length (encodes es) + 1) (SetContainerOpen False r1) r'" by blast
  have "ClearElementState (r'\<lparr>mContainerType := mContainerType r\<rparr>) = passed e r"
    unfolding loose_Clear [OF r'(2)] using Node
    by (simp add: passed_def r1_def loaded_def after_head_def ClearElementState_def
        SetContainerOpen_def advance_def encode_Node add_ac)
  then show ?thesis using l enter r'(1) by (simp add: Skip_def ExitContainer_def)
qed

lemma Next_loaded:
  assumes "Skip r = Some (MATTER_NO_ERROR, r1)" and "ahead r1 (encode e @ p)"
    and wf: "wf_tlv (ImplicitProfileId r1) (mContainerType r1) e"
  shows "Next r = Some (MATTER_NO_ERROR, loaded e r1)"
  using assms(1) ReadElement_encode [OF assms(2,3)] loaded_type(1) [OF wf, of r1]
    elem_type_valid [OF wf]
  by (simp add: Next_def)

lemma Next_end_of_input:
  assumes "Skip r = Some (MATTER_NO_ERROR, r1)" and "ahead r1 []"
  shows "Next r = Some (MATTER_END_OF_TLV, r1)"
  using assms(1) EnsureData_ahead [OF assms(2)] by (simp add: Next_def ReadElement_def)

lemma Next_end_of_container:
  assumes "Skip r = Some (MATTER_NO_ERROR, r1)" and "ahead r1 (end_of_container # p)"
    and "mContainerType r1 \<noteq> kTLVType_NotSpecified"
  shows "Next r = Some (MATTER_END_OF_TLV, after_head TAnonymous end_of_container 0 r1)"
  using assms(1) ReadElement_end [OF assms(2,3)]
    after_head_type(1) [of end_of_container TAnonymous 0 r1]
  by (simp add: Next_def end_of_container_def)

text \<open>With no element loaded there is nothing to skip.\<close>

lemma Skip_clear:
  assumes "ElementType r = kTLVElementType_NotSpecified"
  shows "Skip r = Some (MATTER_NO_ERROR, ClearElementState r)"
  using assms no_element_type by (simp add: Skip_def SkipData_def elem8_def)

text \<open>
  \<open>siblings\<close> is the loop every client writes: call \<open>Next\<close> until it fails, looking at the type, tag and
  value field of each element.
\<close>

fun siblings :: "nat \<Rightarrow> 'a tlv_reader_scheme \<Rightarrow> ((TLVElementType \<times> u64 \<times> u64) list \<times> MATTER_ERROR) option" where
  "siblings 0 r = None"
| "siblings (Suc fuel) r = (case Next r of None \<Rightarrow> None
     | Some (err, r') \<Rightarrow>
         if err \<noteq> MATTER_NO_ERROR then Some ([], err)
         else map_option (\<lambda>(xs, err). ((ElementType r', mElemTag r', mElemLenOrVal r') # xs, err))
                (siblings fuel r'))"

definition heads :: "u32 \<Rightarrow> tlv list \<Rightarrow> (TLVElementType \<times> u64 \<times> u64) list" where
  "heads imp es = map (\<lambda>e. (uint (elem_type e), tag_value imp (elem_tag e), elem_field e)) es"

lemma siblings_encodes:
  assumes "Skip r = Some (MATTER_NO_ERROR, r1)" and "ahead r1 (encodes es @ p)"
    and "\<forall>e \<in> set es. wf_tlv (ImplicitProfileId r1) (mContainerType r1) e"
    and "p = [] \<or> (mContainerType r1 \<noteq> kTLVType_NotSpecified \<and> (\<exists>q. p = end_of_container # q))"
  shows "siblings (Suc (length es)) r = Some (heads (ImplicitProfileId r1) es, MATTER_END_OF_TLV)"
  using assms
proof (induction es arbitrary: r r1)
  case Nil
  then have "\<exists>r'. Next r = Some (MATTER_END_OF_TLV, r')"
    using Next_end_of_input [OF Nil(1)] Next_end_of_container [OF Nil(1)] by auto
  then show ?case by (auto simp: heads_def)
next
  case (Cons e es)
  have wf: "wf_tlv (ImplicitProfileId r1) (mContainerType r1) e" using Cons.prems(3) by simp
  have a: "ahead r1 (encode e @ encodes es @ p)" using Cons.prems(2) by simp
  have N: "Next r = Some (MATTER_NO_ERROR, loaded e r1)" by (rule Next_loaded [OF Cons.prems(1) a wf])
  have "siblings (Suc (length es)) (loaded e r1) =
      Some (heads (ImplicitProfileId (passed e r1)) es, MATTER_END_OF_TLV)"
    by (rule Cons.IH [OF Skip_encode [OF a wf] ahead_passed [OF a]])
      (use Cons.prems(3,4) in simp_all)
  then show ?case
    using N loaded_type(1) [OF wf, of r1] by (simp add: heads_def del: siblings.simps(2)) (simp add: heads_def)
qed

text \<open>The start state of \<open>Init\<close> on an encoding.\<close>

lemma Init_buf_ahead:
  assumes "unat dataLen = length bs"
  shows "ahead (Init_buf (bs @ more_data) dataLen r) bs"
    and "ElementType (Init_buf (bs @ more_data) dataLen r) = kTLVElementType_NotSpecified"
    and "ImplicitProfileId (Init_buf (bs @ more_data) dataLen r) = kProfileIdNotSpecified"
    and "mContainerType (Init_buf (bs @ more_data) dataLen r) = kTLVType_NotSpecified"
  using assms
  by (auto simp: Init_buf_def Let_def ahead_def reader_inv_def remaining_def ClearElementState_def
      SetContainerOpen_def ElementType_def)

text \<open>The string behind a loaded leaf is what \<open>GetBytes\<close> copies.\<close>

lemma GetBytes_encode:
  assumes a: "ahead r (encode (Leaf t ty v bs) @ p)"
    and wf: "wf_tlv (ImplicitProfileId r) (mContainerType r) (Leaf t ty v bs)"
    and str: "TLVTypeIsString ty" and fits: "length bs \<le> unat bufSize"
  shows "GetBytes bufSize (loaded (Leaf t ty v bs) r) = Some (MATTER_NO_ERROR, bs,
    (advance (length bs) (loaded (Leaf t ty v bs) r))\<lparr>mElemLenOrVal := 0\<rparr>)"
proof -
  let ?r = "loaded (Leaf t ty v bs) r"
  have v: "unat v = length bs" using wf str by (simp add: string_iff_length)
  have ty: "elem8 ?r = ty" using loaded_type(2) [OF wf] by simp
  have a1: "ahead ?r (bs @ p)"
    using ahead_after_head [of r t ty v "bs @ p"] a by (simp add: loaded_def)
  have "unat (ucast v :: u32) = length bs"
    using ahead_length(2) [OF a1] v unat_ucast_64_32 [of v] by simp
  then have "ReadData (Some (unat bufSize)) (ucast v) ?r = Some (MATTER_NO_ERROR, bs, advance (length bs) ?r)"
    using ReadData_ahead [OF a1, of "ucast v" "Some (unat bufSize)"] fits by simp
  moreover have "\<not> v > ucast bufSize" using fits v by (simp add: word_less_nat_alt unat_ucast_32_64)
  ultimately show ?thesis using ty str by (simp add: GetBytes_def)
qed

end
