(* ===== verification/Text_Format.thy ===== *)
theory Text_Format
  imports Matter_Prelude
begin

text \<open>
  The conversions of \<open>printf\<close> that the dissectors use, as functions to strings: \<open>%u\<close> and \<open>PRIu64\<close>
  (\<open>dec\<close>), \<open>%d\<close> and \<open>PRId64\<close> (\<open>sdec\<close>), \<open>%02x\<close> and \<open>%08X\<close> (\<open>hex_lower\<close>, \<open>hex_upper\<close> with a minimal
  width), and C strings, which end at the first zero byte. The last section has the inverse direction
  that the key parsers need.
\<close>

section \<open>Digits\<close>

definition digit_lower :: "nat \<Rightarrow> char" where
  "digit_lower d = ''0123456789abcdef'' ! d"

definition digit_upper :: "nat \<Rightarrow> char" where
  "digit_upper d = ''0123456789ABCDEF'' ! d"

fun digits :: "nat \<Rightarrow> nat \<Rightarrow> nat list" where
  "digits b n = (if b < 2 \<or> n < b then [n] else digits b (n div b) @ [n mod b])"

declare digits.simps [simp del]

definition pad :: "nat \<Rightarrow> nat list \<Rightarrow> nat list" where
  "pad w ds = replicate (w - length ds) 0 @ ds"

definition dec :: "nat \<Rightarrow> string" where
  "dec n = map digit_lower (digits 10 n)"

definition sdec :: "int \<Rightarrow> string" where
  "sdec i = (if i < 0 then ''-'' @ dec (nat (- i)) else dec (nat i))"

definition hex_lower :: "nat \<Rightarrow> nat \<Rightarrow> string" where
  "hex_lower w n = map digit_lower (pad w (digits 16 n))"

definition hex_upper :: "nat \<Rightarrow> nat \<Rightarrow> string" where
  "hex_upper w n = map digit_upper (pad w (digits 16 n))"

lemma digits_bound: "2 \<le> b \<Longrightarrow> d \<in> set (digits b n) \<Longrightarrow> d < b"
proof (induction b n rule: digits.induct)
  case (1 b n)
  then show ?case
    using digits.simps [of b n] by (auto split: if_splits)
qed

lemma digits_not_Nil [simp]: "digits b n \<noteq> []"
  by (subst digits.simps) simp

definition undigits :: "nat \<Rightarrow> nat list \<Rightarrow> nat" where
  "undigits b ds = foldl (\<lambda>acc d. acc * b + d) 0 ds"

lemma undigits_snoc [simp]: "undigits b (ds @ [d]) = undigits b ds * b + d"
  by (simp add: undigits_def)

lemma undigits_Nil [simp]: "undigits b [] = 0"
  by (simp add: undigits_def)

lemma undigits_digits: "undigits b (digits b n) = n"
proof (induction b n rule: digits.induct)
  case (1 b n)
  show ?case
  proof (cases "b < 2 \<or> n < b")
    case True
    then show ?thesis by (subst digits.simps) (simp add: undigits_def)
  next
    case False
    with 1 have "undigits b (digits b (n div b)) = n div b" by blast
    with False show ?thesis by (subst digits.simps) (simp add: div_mult_mod_eq)
  qed
qed

lemma undigits_pad: "undigits b (pad w ds) = undigits b ds"
proof -
  have "foldl (\<lambda>acc d. acc * b + d) 0 (replicate k (0::nat)) = 0" for k
    by (induction k) simp_all
  then show ?thesis by (simp add: undigits_def pad_def)
qed

lemma length_digits:
  assumes "2 \<le> b" and "n < b ^ w" and "0 < w"
  shows "length (digits b n) \<le> w"
  using assms
proof (induction w arbitrary: n)
  case (Suc w)
  show ?case
  proof (cases "n < b")
    case True
    then show ?thesis by (subst digits.simps) simp
  next
    case False
    have "n div b < b ^ w" using Suc.prems by (simp add: less_mult_imp_div_less mult.commute)
    moreover have "0 < w" using False Suc.prems by (cases w) auto
    ultimately have "length (digits b (n div b)) \<le> w" using Suc by blast
    then show ?thesis using False Suc.prems by (subst digits.simps) simp
  qed
qed simp

lemma length_hex_lower: "n < 16 ^ w \<Longrightarrow> 0 < w \<Longrightarrow> length (hex_lower w n) = w"
  using length_digits [of 16 n w] by (simp add: hex_lower_def pad_def)

text \<open>The digits of a number, read back, are the number.\<close>

definition hex_value :: "char \<Rightarrow> nat option" where
  "hex_value c =
     (let n = of_char c :: nat in
      if 48 \<le> n \<and> n \<le> 57 then Some (n - 48)
      else if 97 \<le> n \<and> n \<le> 102 then Some (n - 87)
      else if 65 \<le> n \<and> n \<le> 70 then Some (n - 55)
      else None)"

lemma hex_value_digit_lower: "d < 16 \<Longrightarrow> hex_value (digit_lower d) = Some d"
proof -
  assume "d < 16"
  then have "d = 0 \<or> d = 1 \<or> d = 2 \<or> d = 3 \<or> d = 4 \<or> d = 5 \<or> d = 6 \<or> d = 7 \<or>
      d = 8 \<or> d = 9 \<or> d = 10 \<or> d = 11 \<or> d = 12 \<or> d = 13 \<or> d = 14 \<or> d = 15"
    by arith
  then show ?thesis
    by (elim disjE; simp add: digit_lower_def hex_value_def)
qed

section \<open>C strings\<close>

definition cstr :: "byte list \<Rightarrow> byte list" where
  "cstr bs = takeWhile (\<lambda>b. b \<noteq> 0) bs"

lemma cstr_no_zero: "0 \<notin> set bs \<Longrightarrow> cstr bs = bs"
  by (auto simp: cstr_def)

lemma cstr_le: "length (cstr bs) \<le> length bs"
  by (simp add: cstr_def length_takeWhile_le)

definition text_of :: "byte list \<Rightarrow> string" where
  "text_of bs = map (\<lambda>b. char_of (unat b)) (cstr bs)"

end
