(* ===== verification/TLV_Dissector.thy ===== *)
theory TLV_Dissector
  imports TLV_Spec Text_Format
begin

text \<open>
  \<open>TLVDissector\<close> (\<open>TLVDissector.h\<close>, \<open>TLVDissector.cpp\<close>): the reader extended with the position of the
  current element, the stack of the containers it is in, and the calls it makes to add items to the
  protocol tree. The tree belongs to the host application: a call is an event appended to \<open>trace\<close>, and
  the item it returns is its index there. What the host decides (the type of a field, whether memory is
  left, how a double or an escaped string is written) is the parameter \<open>env\<close>.
\<close>

section \<open>The host\<close>

type_synonym proto_item = "nat option"
type_synonym proto_tree = "nat option"

datatype ftenum = FT_INT8 | FT_INT16 | FT_INT24 | FT_INT32 | FT_INT40 | FT_INT48 | FT_INT56 | FT_INT64
  | FT_UINT8 | FT_UINT16 | FT_UINT24 | FT_UINT32 | FT_UINT40 | FT_UINT48 | FT_UINT56 | FT_UINT64
  | FT_NONE | FT_BOOLEAN | FT_DOUBLE | FT_STRING | FT_BYTES | FT_FRAMENUM | FT_OTHER

datatype item_value =
    AddInt u32 | AddInt64 u64 | AddUint u32 | AddUint64 u64 | AddBoolean bool | AddDouble cdouble
  | AddString "byte list" | AddBytes "byte list" | AddNone string | AddItem
  | AddStringFormatValue string | AddStringFormat string | AddUintFormatValue u32 string

text \<open>
  \<open>ProtoAdd tree hf start len v\<close> is a \<open>proto_tree_add_*\<close> call, \<open>ProtoSubtree\<close> is
  \<open>proto_item_add_subtree\<close>, \<open>ProtoAppendText\<close> and \<open>ProtoSetText\<close> change the text of an item, and
  \<open>ProtoSetHidden\<close> hides it.
\<close>

datatype proto_call =
    ProtoAdd proto_tree int u32 u32 item_value
  | ProtoSubtree proto_item int
  | ProtoAppendText proto_item string
  | ProtoSetText proto_item string
  | ProtoSetHidden proto_item

record env =
  proto_registrar_get_ftype :: "int \<Rightarrow> ftenum"
  malloc_ok :: "u64 \<Rightarrow> bool"
  realloc_ok :: "u64 \<Rightarrow> bool"
  ws_escape_string :: "byte list \<Rightarrow> string"
  fmt_17g :: "cdouble \<Rightarrow> string"

section \<open>State\<close>

record container_context =
  ContainerType :: TLVType
  ContainerItem :: proto_item
  CtxElemStart :: u32
  CtxElemLen :: u32

text \<open>
  The stack is the array at \<open>mContainerStack\<close>, \<open>None\<close> for a null pointer; an entry of the array that was
  not written yet is \<open>None\<close>.
\<close>

record tlv_dissector = tlv_reader +
  mSourceBufBaseOffset :: u32
  mElemStart :: u32
  mElemLen :: u32
  mLastItem :: proto_item
  mContainerStack :: "container_context option list option"
  mContainerStackSize :: u32
  mContainerDepth :: u32
  trace :: "proto_call list"

type_synonym dissector = tlv_dissector

definition TLVDissector :: "dissector \<Rightarrow> dissector" where
  "TLVDissector d = d\<lparr>mElemStart := 0, mElemLen := 0, mLastItem := None, mContainerStack := None,
     mContainerStackSize := 0, mContainerDepth := 0, mSourceBufBaseOffset := 0\<rparr>"

definition Dissector_Init :: "byte list \<Rightarrow> u32 \<Rightarrow> u32 \<Rightarrow> dissector \<Rightarrow> dissector" where
  "Dissector_Init data dataLen sourceBufBaseOffset d =
     (let d = Init_buf data dataLen d
      in d\<lparr>mSourceBufBaseOffset := sourceBufBaseOffset, mElemStart := 0, mElemLen := 0,
           mLastItem := None, mContainerDepth := 0\<rparr>)"

definition LastItem :: "dissector \<Rightarrow> proto_item" where
  "LastItem d = mLastItem d"

definition emit :: "proto_call \<Rightarrow> dissector \<Rightarrow> dissector" where
  "emit c d = d\<lparr>trace := trace d @ [c]\<rparr>"

text \<open>Adding an item for the current element, which becomes the last item.\<close>

definition add_item :: "proto_tree \<Rightarrow> int \<Rightarrow> item_value \<Rightarrow> dissector \<Rightarrow> dissector" where
  "add_item tree hfindex v d =
     (emit (ProtoAdd tree hfindex (mElemStart d + mSourceBufBaseOffset d) (mElemLen d) v) d)
       \<lparr>mLastItem := Some (length (trace d))\<rparr>"

section \<open>The position of the current element\<close>

definition MarkElemStart :: "dissector \<Rightarrow> dissector result" where
  "MarkElemStart d =
     VerifyOrExit (GetType d = kTLVType_NotSpecified) MATTER_ERROR_INCORRECT_STATE d
       (Some (MATTER_NO_ERROR, d\<lparr>mElemStart := GetLengthRead d\<rparr>))"

definition MarkElemLength :: "dissector \<Rightarrow> dissector result" where
  "MarkElemLength d =
     (let readerCopy = d in
      case Skip readerCopy of None \<Rightarrow> None
      | Some (err, readerCopy) \<Rightarrow>
          if err \<noteq> MATTER_NO_ERROR then Some (err, d)
          else Some (MATTER_NO_ERROR, d\<lparr>mElemLen := GetLengthRead readerCopy - mElemStart d\<rparr>))"

definition Dissector_Next :: "dissector \<Rightarrow> dissector result" where
  "Dissector_Next d =
     (let d = d\<lparr>mLastItem := None\<rparr> in
      SuccessOrExit (Skip d) (\<lambda>d.
      SuccessOrExit (MarkElemStart d) (\<lambda>d.
      SuccessOrExit (Next d) (\<lambda>d.
      SuccessOrExit (MarkElemLength d) (\<lambda>d. Some (MATTER_NO_ERROR, d))))))"

definition Dissector_Next_expect :: "TLVType \<Rightarrow> u64 \<Rightarrow> dissector \<Rightarrow> dissector result" where
  "Dissector_Next_expect expectedType expectedTag d =
     (let d = d\<lparr>mLastItem := None\<rparr> in
      SuccessOrExit (Skip d) (\<lambda>d.
      SuccessOrExit (MarkElemStart d) (\<lambda>d.
      SuccessOrExit (Next_expect expectedType expectedTag d) (\<lambda>d.
      SuccessOrExit (MarkElemLength d) (\<lambda>d. Some (MATTER_NO_ERROR, d))))))"

section \<open>The container stack\<close>

text \<open>\<open>realloc\<close> keeps the entries that fit, and the rest of the new array is not initialised.\<close>

definition resize :: "nat \<Rightarrow> 'a option list \<Rightarrow> 'a option list" where
  "resize n xs = take n xs @ replicate (n - length xs) None"

definition sizeof_ContainerContext :: u64 where
  "sizeof_ContainerContext = 24"

definition PushContainer :: "env \<Rightarrow> TLVType \<Rightarrow> dissector \<Rightarrow> dissector result" where
  "PushContainer E containerType d =
     SuccessOrExit
       (if mContainerStack d = None \<or> mContainerStackSize d = 0 \<or>
           mContainerStackSize d = mContainerDepth d
        then
          (let d = d\<lparr>mContainerStackSize := (if mContainerStackSize d = 0 then 16
                                           else mContainerStackSize d * 2)\<rparr>;
               d = d\<lparr>mContainerStack :=
                 (if realloc_ok E (ucast (mContainerStackSize d) * sizeof_ContainerContext)
                  then Some (resize (unat (mContainerStackSize d))
                        (case mContainerStack d of None \<Rightarrow> [] | Some s \<Rightarrow> s))
                  else None)\<rparr>
           in VerifyOrExit (mContainerStack d \<noteq> None) MATTER_ERROR_NO_MEMORY d
                (Some (MATTER_NO_ERROR, d)))
        else Some (MATTER_NO_ERROR, d))
       (\<lambda>d. case mContainerStack d of None \<Rightarrow> None
          | Some stack \<Rightarrow>
              if unat (mContainerDepth d) < length stack
              then Some (MATTER_NO_ERROR,
                     d\<lparr>mContainerStack := Some (stack[unat (mContainerDepth d) := Some
                         \<lparr>ContainerType = containerType, ContainerItem = mLastItem d,
                          CtxElemStart = mElemStart d, CtxElemLen = mElemLen d\<rparr>]),
                       mContainerDepth := mContainerDepth d + 1\<rparr>)
              else None)"

text \<open>\<open>None\<close> is the read of an entry that is not there.\<close>

definition PopContainer :: "dissector \<Rightarrow> (TLVType \<times> dissector) option" where
  "PopContainer d =
     (if mContainerDepth d > 0 then
        (let d = d\<lparr>mContainerDepth := mContainerDepth d - 1\<rparr> in
         case mContainerStack d of None \<Rightarrow> None
         | Some stack \<Rightarrow>
             if unat (mContainerDepth d) < length stack
             then (case stack ! unat (mContainerDepth d) of None \<Rightarrow> None
               | Some c \<Rightarrow> Some (ContainerType c,
                   d\<lparr>mLastItem := ContainerItem c, mElemStart := CtxElemStart c,
                     mElemLen := CtxElemLen c\<rparr>))
             else None)
      else Some (kTLVType_NotSpecified, d))"

definition Dissector_EnterContainer :: "env \<Rightarrow> dissector \<Rightarrow> dissector result" where
  "Dissector_EnterContainer E d =
     (case EnterContainer d kTLVType_NotSpecified of (err, containerType, d) \<Rightarrow>
        if err \<noteq> MATTER_NO_ERROR then Some (err, d)
        else SuccessOrExit (PushContainer E containerType d) (\<lambda>d. Some (MATTER_NO_ERROR, d)))"

definition Dissector_ExitContainer :: "dissector \<Rightarrow> dissector result" where
  "Dissector_ExitContainer d =
     (case PopContainer d of None \<Rightarrow> None
      | Some (containerType, d) \<Rightarrow>
          SuccessOrExit (ExitContainer containerType d) (\<lambda>d. Some (MATTER_NO_ERROR, d)))"

section \<open>Adding items\<close>

definition AddTypedItem :: "env \<Rightarrow> proto_tree \<Rightarrow> int \<Rightarrow> dissector \<Rightarrow> dissector result" where
  "AddTypedItem E tree hfindex d =
     (let elemType = GetType d;
          fieldType = proto_registrar_get_ftype E hfindex
      in
      if elemType = kTLVType_SignedInteger then
        (case Get_i64 d of (err, val) \<Rightarrow>
           if err \<noteq> MATTER_NO_ERROR then Some (err, d)
           else if fieldType \<in> {FT_INT8, FT_INT16, FT_INT24, FT_INT32}
           then Some (MATTER_NO_ERROR, add_item tree hfindex (AddInt (ucast val)) d)
           else if fieldType \<in> {FT_INT40, FT_INT48, FT_INT56, FT_INT64}
           then Some (MATTER_NO_ERROR, add_item tree hfindex (AddInt64 val) d)
           else Some (MATTER_ERROR_INVALID_ARGUMENT, d))
      else if elemType = kTLVType_UnsignedInteger then
        (case Get_u64 d 0 of (err, val) \<Rightarrow>
           if err \<noteq> MATTER_NO_ERROR then Some (err, d)
           else if fieldType \<in> {FT_UINT8, FT_UINT16, FT_UINT24, FT_UINT32}
           then Some (MATTER_NO_ERROR, add_item tree hfindex (AddUint (ucast val)) d)
           else if fieldType \<in> {FT_UINT40, FT_UINT48, FT_UINT56, FT_UINT64}
           then Some (MATTER_NO_ERROR, add_item tree hfindex (AddUint64 val) d)
           else Some (MATTER_ERROR_INVALID_ARGUMENT, d))
      else if elemType = kTLVType_Boolean then
        (case Get_bool d False of (err, val) \<Rightarrow>
           if err \<noteq> MATTER_NO_ERROR then Some (err, d)
           else Some (MATTER_NO_ERROR, add_item tree hfindex (AddBoolean val) d))
      else if elemType = kTLVType_FloatingPointNumber then
        (case Get_double d (OfDouble 0) of (err, val) \<Rightarrow>
           if err \<noteq> MATTER_NO_ERROR then Some (err, d)
           else Some (MATTER_NO_ERROR, add_item tree hfindex (AddDouble val) d))
      else if elemType = kTLVType_UTF8String then
        (case DupString (malloc_ok E) d of None \<Rightarrow> None
         | Some (err, val, d) \<Rightarrow>
             if err \<noteq> MATTER_NO_ERROR then Some (err, d)
             else (case val of None \<Rightarrow> None
               | Some val \<Rightarrow> Some (MATTER_NO_ERROR, add_item tree hfindex (AddString (cstr val)) d)))
      else if elemType = kTLVType_ByteString then
        (case GetDataPtr d of (err, val, d) \<Rightarrow>
           if err \<noteq> MATTER_NO_ERROR then Some (err, d)
           else
             (let valLen = GetLength d in
              case val of None \<Rightarrow> None
              | Some p \<Rightarrow>
                  (case load_bytes (mBuf d) p (unat valLen) of None \<Rightarrow> None
                   | Some bs \<Rightarrow> Some (MATTER_NO_ERROR, add_item tree hfindex (AddBytes bs) d))))
      else if elemType = kTLVType_Null
      then Some (MATTER_NO_ERROR, add_item tree hfindex (AddNone ''null'') d)
      else Some (MATTER_ERROR_UNEXPECTED_TLV_ELEMENT, d))"

definition AddStringItemF :: "proto_tree \<Rightarrow> int \<Rightarrow> string \<Rightarrow> dissector \<Rightarrow> dissector" where
  "AddStringItemF tree hfindex msg d = add_item tree hfindex (AddStringFormatValue msg) d"

definition AddStringItemWithHeaderF :: "proto_tree \<Rightarrow> int \<Rightarrow> string \<Rightarrow> dissector \<Rightarrow> dissector" where
  "AddStringItemWithHeaderF tree hfindex msg d = add_item tree hfindex (AddStringFormat msg) d"

text \<open>\<open>AddSubTreeItem\<close> takes the variable the reference \<open>subTree\<close> names and returns its new value.\<close>

definition AddSubTreeItem ::
  "proto_tree \<Rightarrow> int \<Rightarrow> int \<Rightarrow> proto_tree \<Rightarrow> dissector \<Rightarrow> MATTER_ERROR \<times> proto_tree \<times> dissector" where
  "AddSubTreeItem tree hfindex ett subTree d =
     (if \<not> GetType d \<noteq> kTLVType_NotSpecified then (MATTER_ERROR_INCORRECT_STATE, subTree, d)
      else
        (let d = add_item tree hfindex AddItem d in
         (MATTER_NO_ERROR, mLastItem d, emit (ProtoSubtree (mLastItem d) ett) d)))"

definition AddSubTreeItemF ::
  "proto_tree \<Rightarrow> int \<Rightarrow> int \<Rightarrow> proto_tree \<Rightarrow> string \<Rightarrow> dissector \<Rightarrow>
   MATTER_ERROR \<times> proto_tree \<times> dissector" where
  "AddSubTreeItemF tree hfindex ett subTree msg d =
     (case AddSubTreeItem tree hfindex ett subTree d of (err, subTree, d) \<Rightarrow>
        if err \<noteq> MATTER_NO_ERROR then (err, subTree, d)
        else (MATTER_NO_ERROR, subTree, emit (ProtoSetText (mLastItem d) msg) d))"

section \<open>Loops over the elements of a container\<close>

text \<open>
  The loop \<open>while (true) { err = Next(); if (err == MATTER_END_OF_TLV) break; SuccessOrExit(err); body }\<close>
  that every handler has. \<open>'l\<close> are the local variables that the body assigns.
\<close>

partial_function (option) each_elem ::
  "('l \<times> dissector \<Rightarrow> ('l \<times> dissector) result) \<Rightarrow> 'l \<times> dissector \<Rightarrow> ('l \<times> dissector) result" where
  [code]: "each_elem body s =
     (case Dissector_Next (snd s) of None \<Rightarrow> None
      | Some (err, d) \<Rightarrow>
          if err = MATTER_END_OF_TLV then Some (MATTER_NO_ERROR, fst s, d)
          else if err \<noteq> MATTER_NO_ERROR then Some (err, fst s, d)
          else SuccessOrExit (body (fst s, d)) (\<lambda>s. each_elem body s))"

text \<open>
  The frame around the loop: \<open>EnterContainer\<close>, the loop, \<open>ExitContainer\<close>, each followed by
  \<open>SuccessOrExit\<close>. \<open>with_locals\<close> runs a call that does not touch the local variables.
\<close>

definition with_locals :: "'l \<Rightarrow> 'd result \<Rightarrow> ('l \<times> 'd) result" where
  "with_locals l m = map_option (\<lambda>(err, d). (err, l, d)) m"

definition in_container ::
  "env \<Rightarrow> ('l \<times> dissector \<Rightarrow> ('l \<times> dissector) result) \<Rightarrow> 'l \<times> dissector \<Rightarrow> ('l \<times> dissector) result" where
  "in_container E body s =
     SuccessOrExit (with_locals (fst s) (Dissector_EnterContainer E (snd s))) (\<lambda>s.
     SuccessOrExit (each_elem body s) (\<lambda>s.
       with_locals (fst s) (Dissector_ExitContainer (snd s))))"

type_synonym ListElemHandler = "proto_tree \<Rightarrow> dissector \<Rightarrow> dissector result"

text \<open>The body of the loop of \<open>AddListItem\<close>; \<open>elemCount\<close> is a \<open>uint32_t\<close>.\<close>

definition AddListItem_body :: "ListElemHandler \<Rightarrow> proto_tree \<Rightarrow> u32 \<times> dissector \<Rightarrow> (u32 \<times> dissector) result" where
  "AddListItem_body elemHandler listTree s =
     SuccessOrExit (with_locals (fst s) (elemHandler listTree (snd s))) (\<lambda>(elemCount, d).
       Some (MATTER_NO_ERROR, elemCount + 1, d))"

definition AddListItem ::
  "env \<Rightarrow> proto_tree \<Rightarrow> int \<Rightarrow> int \<Rightarrow> ListElemHandler \<Rightarrow> dissector \<Rightarrow> dissector result" where
  "AddListItem E tree hfindex ett elemHandler d =
     VerifyOrExit (GetType d = kTLVType_Array \<or> GetType d = kTLVType_Path)
       MATTER_ERROR_INCORRECT_STATE d
       (case AddSubTreeItem tree hfindex ett None d of (err, listTree, d) \<Rightarrow>
        if err \<noteq> MATTER_NO_ERROR then Some (err, d)
        else
          (let listItem = LastItem d in
           case in_container E (AddListItem_body elemHandler listTree) (0, d) of None \<Rightarrow> None
           | Some (err, elemCount, d) \<Rightarrow>
               if err \<noteq> MATTER_NO_ERROR then Some (err, d)
               else
                 Some (MATTER_NO_ERROR,
                   if listItem \<noteq> None
                   then emit (ProtoAppendText listItem ('' (len = '' @ dec (unat elemCount) @ '')'')) d
                   else d)))"

end
