(* ===== verification/TLV_Text.thy ===== *)
theory TLV_Text
  imports TLV_Dissector
begin

text \<open>
  The textual rendering of TLV in \<open>TLVDissector.cpp\<close>: the growing string buffer (\<open>AppendStringF\<close>,
  \<open>AppendRepeated\<close>), the generic pretty printer \<open>AddGenericTLVItem\<close> and the path printer
  \<open>AppendIMPath\<close> / \<open>AddIMPathItem\<close>. A buffer is the string it holds, \<open>None\<close> for a null pointer, and its
  allocated size; the \<open>realloc\<close> of a buffer, whose result the code does not check, is assumed to succeed.
\<close>

section \<open>The string buffer\<close>

type_synonym strbuf = "string option \<times> nat"

text \<open>\<open>while (strBufSize < needed) strBufSize *= 2\<close>, which would not end for a size of zero.\<close>

partial_function (option) grow :: "nat \<Rightarrow> nat \<Rightarrow> nat option" where
  [code]: "grow strBufSize needed = (if strBufSize < needed then grow (strBufSize * 2) needed else Some strBufSize)"

definition AppendStringF :: "string \<Rightarrow> strbuf \<Rightarrow> strbuf option" where
  "AppendStringF added sb =
     (case sb of (strBuf, strBufSize) \<Rightarrow>
      let cur = (case strBuf of None \<Rightarrow> '''' | Some s \<Rightarrow> s);
          curStrLen = length cur;
          addedStrLen = length added
      in if addedStrLen \<ge> strBufSize - curStrLen then
           (if strBuf = None \<or> strBufSize = 0 then Some (Some (cur @ added), addedStrLen + 1)
            else map_option (\<lambda>n. (Some (cur @ added), n)) (grow strBufSize (curStrLen + addedStrLen + 1)))
         else Some (Some (cur @ added), strBufSize))"

primrec AppendRepeated :: "string \<Rightarrow> nat \<Rightarrow> strbuf \<Rightarrow> strbuf option" where
  "AppendRepeated inStr 0 sb = Some sb"
| "AppendRepeated inStr (Suc n) sb =
     (case AppendStringF inStr sb of None \<Rightarrow> None | Some sb \<Rightarrow> AppendRepeated inStr n sb)"

primrec AppendBytes :: "byte list \<Rightarrow> strbuf \<Rightarrow> strbuf option" where
  \<comment> \<open>the loop over the bytes of a byte string, each as \<open>%02x\<close>\<close>
  "AppendBytes [] sb = Some sb"
| "AppendBytes (b # bs) sb =
     (case AppendStringF ('' '' @ hex_lower 2 (unat b)) sb of None \<Rightarrow> None
      | Some sb \<Rightarrow> AppendBytes bs sb)"

text \<open>Running one append after another, from a given error-free state.\<close>

abbreviation and_then :: "'a option \<Rightarrow> ('a \<Rightarrow> 'b option) \<Rightarrow> 'b option" where
  "and_then m k \<equiv> case m of None \<Rightarrow> None | Some x \<Rightarrow> k x"

section \<open>The generic printer\<close>

text \<open>
  The format \<open>"%08" PRIX32 ":" PRId32 " = "\<close> of a profile tag: the second conversion lacks its \<open>%\<close>, so
  the letter of \<open>PRId32\<close> is written and the tag number is not.
\<close>

definition tag_text :: "u64 \<Rightarrow> string option" where
  "tag_text tag =
     (if IsContextTag tag then Some (sdec (sint (TagNumFromTag tag)) @ '' = '')
      else if IsProfileTag tag then Some (hex_upper 8 (unat (ProfileIdFromTag tag)) @ '':d = '')
      else None)"

definition float_text :: "env \<Rightarrow> cdouble \<Rightarrow> string" where
  "float_text E val =
     (let valBuf = take 63 (fmt_17g E val) in
      if CHR ''.'' \<notin> set valBuf \<and> CHR ''e'' \<notin> set valBuf \<and> CHR ''E'' \<notin> set valBuf
      then valBuf @ ''.0'' else valBuf)"

definition close_char :: "TLVType \<Rightarrow> string" where
  "close_char type =
     (if type = kTLVType_Structure then ''}'' else if type = kTLVType_Array then '']''
      else if type = kTLVType_Path then ''>'' else '' '')"

text \<open>The first half of \<open>AddGenericTLVItem\<close>: the text of the current element.\<close>

definition GenericHeader :: "bool \<Rightarrow> bool \<Rightarrow> nat \<Rightarrow> dissector \<Rightarrow> strbuf option" where
  "GenericHeader suppressTag suppressHeader indentLevel d =
     and_then (if suppressHeader then AppendRepeated ''    '' indentLevel (None, 0) else Some (None, 0))
       (\<lambda>sb. if \<not> suppressTag
             then (case tag_text (GetTag d) of None \<Rightarrow> Some sb | Some s \<Rightarrow> AppendStringF s sb)
             else Some sb)"

definition GenericValue ::
  "env \<Rightarrow> strbuf \<Rightarrow> dissector \<Rightarrow> (MATTER_ERROR \<times> strbuf \<times> dissector) option" where
  "GenericValue E sb d =
     (let type = GetType d;
          put = (\<lambda>s. and_then (AppendStringF s sb) (\<lambda>sb. Some (MATTER_NO_ERROR, sb, d)))
      in
      if type = kTLVType_SignedInteger then
        (case Get_i64 d of (err, val) \<Rightarrow>
           if err \<noteq> MATTER_NO_ERROR then Some (err, sb, d) else put (sdec (sint val)))
      else if type = kTLVType_UnsignedInteger then
        (case Get_u64 d 0 of (err, val) \<Rightarrow>
           if err \<noteq> MATTER_NO_ERROR then Some (err, sb, d) else put (dec (unat val)))
      else if type = kTLVType_Boolean then
        (case Get_bool d False of (err, val) \<Rightarrow>
           if err \<noteq> MATTER_NO_ERROR then Some (err, sb, d)
           else put (if val then ''true'' else ''false''))
      else if type = kTLVType_FloatingPointNumber then
        (case Get_double d (OfDouble 0) of (err, val) \<Rightarrow>
           if err \<noteq> MATTER_NO_ERROR then Some (err, sb, d) else put (float_text E val))
      else if type = kTLVType_UTF8String then
        (case DupString (malloc_ok E) d of None \<Rightarrow> None
         | Some (err, val, d) \<Rightarrow>
             if err \<noteq> MATTER_NO_ERROR then Some (err, sb, d)
             else (case val of None \<Rightarrow> None
               | Some val \<Rightarrow> and_then (AppendStringF (ws_escape_string E (cstr val)) sb)
                   (\<lambda>sb. Some (MATTER_NO_ERROR, sb, d))))
      else if type = kTLVType_ByteString then
        (let dataLen = GetLength d in
         case GetDataPtr d of (err, data, d) \<Rightarrow>
           if err \<noteq> MATTER_NO_ERROR then Some (err, sb, d)
           else (case data of None \<Rightarrow> None
             | Some p \<Rightarrow> (case load_bytes (mBuf d) p (unat dataLen) of None \<Rightarrow> None
               | Some bs \<Rightarrow> and_then (AppendBytes bs sb) (\<lambda>sb. Some (MATTER_NO_ERROR, sb, d)))))
      else if type = kTLVType_Null then put ''null''
      else if type = kTLVType_Structure then put ''{''
      else if type = kTLVType_Array then put ''[''
      else if type = kTLVType_Path then put ''<''
      else Some (MATTER_ERROR_UNEXPECTED_TLV_ELEMENT, sb, d))"

text \<open>The line that closes a container, in the buffer whose string was reset.\<close>

definition GenericClose :: "proto_tree \<Rightarrow> int \<Rightarrow> nat \<Rightarrow> TLVType \<Rightarrow> nat \<Rightarrow> dissector \<Rightarrow> dissector result" where
  "GenericClose tree hfindex indentLevel type strBufSize d =
     and_then (AppendRepeated ''    '' indentLevel (Some '''', strBufSize)) (\<lambda>sb.
     and_then (AppendStringF (close_char type) sb) (\<lambda>sb.
     (case fst sb of None \<Rightarrow> None
      | Some s \<Rightarrow> Some (MATTER_NO_ERROR, AddStringItemWithHeaderF tree hfindex s d))))"

text \<open>
  The recursion of \<open>AddGenericTLVItem\<close> and the loop in it, as one function: \<open>GItem\<close> is a call and
  \<open>GMembers\<close> is the loop, from the top of its body. Writing to \<open>strBuf[0]\<close> needs a buffer.
\<close>

datatype generic_pc = GItem bool bool nat | GMembers nat

partial_function (option) AddGenericTLV_run ::
  "env \<Rightarrow> proto_tree \<Rightarrow> int \<Rightarrow> generic_pc \<Rightarrow> dissector \<Rightarrow> dissector result" where
  [code]: "AddGenericTLV_run E tree hfindex pc d =
     (case pc of
        GItem suppressTag suppressHeader indentLevel \<Rightarrow>
          (let type = GetType d in
           case GenericHeader suppressTag suppressHeader indentLevel d of None \<Rightarrow> None
           | Some sb \<Rightarrow>
             (case GenericValue E sb d of None \<Rightarrow> None
              | Some (err, (strBuf, strBufSize), d) \<Rightarrow>
                if err \<noteq> MATTER_NO_ERROR then Some (err, d)
                else (case strBuf of None \<Rightarrow> None
                  | Some s \<Rightarrow>
                    (let d = (if \<not> suppressHeader then AddStringItemF tree hfindex s d
                              else AddStringItemWithHeaderF tree hfindex s d) in
                     if type = kTLVType_Structure \<or> type = kTLVType_Array \<or> type = kTLVType_Path then
                       SuccessOrExit (Dissector_EnterContainer E d) (\<lambda>d.
                       SuccessOrExit (AddGenericTLV_run E tree hfindex (GMembers indentLevel) d) (\<lambda>d.
                       SuccessOrExit (Dissector_ExitContainer d) (\<lambda>d.
                         GenericClose tree hfindex indentLevel type strBufSize d)))
                     else Some (MATTER_NO_ERROR, d)))))
      | GMembers indentLevel \<Rightarrow>
          (case Dissector_Next d of None \<Rightarrow> None
           | Some (err, d) \<Rightarrow>
               if err = MATTER_END_OF_TLV then Some (MATTER_NO_ERROR, d)
               else if err \<noteq> MATTER_NO_ERROR then Some (err, d)
               else
                 SuccessOrExit (AddGenericTLV_run E tree hfindex (GItem False True (indentLevel + 1)) d) (\<lambda>d.
                   AddGenericTLV_run E tree hfindex (GMembers indentLevel) d)))"

definition AddGenericTLVItem :: "env \<Rightarrow> proto_tree \<Rightarrow> int \<Rightarrow> bool \<Rightarrow> dissector \<Rightarrow> dissector result" where
  "AddGenericTLVItem E tree hfindex suppressTag d =
     AddGenericTLV_run E tree hfindex (GItem suppressTag False 0) d"

section \<open>The path printer\<close>

definition kTag_Endpoint :: u32 where "kTag_Endpoint = 0"
definition kTag_Cluster :: u32 where "kTag_Cluster = 1"
definition kTag_Command :: u32 where "kTag_Command = 2"

text \<open>\<open>reader.Next()\<close> on a plain \<open>TLVReader\<close>: here the copy that \<open>AddIMPathItem\<close> makes.\<close>

definition AppendIMPath_elem ::
  "bool \<times> strbuf \<times> tlv_reader \<Rightarrow> (bool \<times> strbuf \<times> tlv_reader) result" where
  "AppendIMPath_elem s =
     (case s of (addSep, sb, reader) \<Rightarrow>
      let type = GetType reader; tag = GetTag reader; tagNum = TagNumFromTag tag in
      VerifyOrExit (IsContextTag tag) MATTER_ERROR_UNEXPECTED_TLV_ELEMENT (addSep, sb, reader)
      (and_then (if addSep then AppendStringF '','' sb else Some sb) (\<lambda>sb.
       if tagNum = kTag_Endpoint \<or> tagNum = kTag_Cluster \<or> tagNum = kTag_Command then
         VerifyOrExit (type = kTLVType_UnsignedInteger) MATTER_ERROR_UNEXPECTED_TLV_ELEMENT
           (addSep, sb, reader)
         (case Get_u32 reader of (err, pathElement) \<Rightarrow>
            if err \<noteq> MATTER_NO_ERROR then Some (err, addSep, sb, reader)
            else
              (let pathElementName =
                 (if tagNum = kTag_Endpoint then ''Endpoint''
                  else if tagNum = kTag_Cluster then ''Cluster''
                  else if tagNum = kTag_Command then ''Command'' else ''Unknown'')
               in and_then (AppendStringF
                     (pathElementName @ ''=0x'' @ hex_upper 8 (unat pathElement)) sb)
                    (\<lambda>sb. Some (MATTER_NO_ERROR, True, sb, reader))))
       else Some (MATTER_ERROR_UNEXPECTED_TLV_ELEMENT, addSep, sb, reader))))"

definition AppendIMPath_null ::
  "bool \<times> strbuf \<times> tlv_reader \<Rightarrow> (bool \<times> strbuf \<times> tlv_reader) result" where
  "AppendIMPath_null s =
     (case s of (addSep, sb, reader) \<Rightarrow>
      let type = GetType reader; tag = GetTag reader in
      VerifyOrExit (IsContextTag tag) MATTER_ERROR_UNEXPECTED_TLV_ELEMENT (addSep, sb, reader)
      (VerifyOrExit (type = kTLVType_Null) MATTER_ERROR_UNEXPECTED_TLV_ELEMENT (addSep, sb, reader)
       (and_then (AppendStringF ((if addSep then ''/'' else '''') @ sdec (sint (TagNumFromTag tag))) sb)
          (\<lambda>sb. Some (MATTER_NO_ERROR, True, sb, reader)))))"

partial_function (option) AppendIMPath_loop ::
  "(bool \<times> strbuf \<times> tlv_reader \<Rightarrow> (bool \<times> strbuf \<times> tlv_reader) result) \<Rightarrow>
   bool \<times> strbuf \<times> tlv_reader \<Rightarrow> (bool \<times> strbuf \<times> tlv_reader) result" where
  [code]: "AppendIMPath_loop body s =
     (case s of (addSep, sb, reader) \<Rightarrow>
      case Next reader of None \<Rightarrow> None
      | Some (err, reader) \<Rightarrow>
          if err = MATTER_END_OF_TLV then Some (MATTER_NO_ERROR, addSep, sb, reader)
          else if err \<noteq> MATTER_NO_ERROR then Some (err, addSep, sb, reader)
          else SuccessOrExit (body (addSep, sb, reader)) (\<lambda>s. AppendIMPath_loop body s))"

text \<open>On an error the buffer is freed and the caller's pointer reset.\<close>

definition AppendIMPath :: "tlv_reader \<Rightarrow> strbuf \<Rightarrow> (MATTER_ERROR \<times> strbuf \<times> tlv_reader) option" where
  "AppendIMPath reader sb =
     map_option (\<lambda>(err, addSep, sb, reader).
         (err, if err \<noteq> MATTER_NO_ERROR then (None, snd sb) else sb, reader))
       (VerifyOrExit (GetType reader = kTLVType_Path) MATTER_ERROR_UNEXPECTED_TLV_ELEMENT
          (False, sb, reader)
          (case EnterContainer reader kTLVType_NotSpecified of (err, pathContainer, reader) \<Rightarrow>
             if err \<noteq> MATTER_NO_ERROR then Some (err, False, sb, reader)
             else and_then (AppendStringF ''//'' sb) (\<lambda>sb.
               SuccessOrExit (AppendIMPath_loop AppendIMPath_elem (False, sb, reader))
                 (\<lambda>(addSep, sb, reader).
               and_then (AppendStringF ''/'' sb) (\<lambda>sb.
               SuccessOrExit (AppendIMPath_loop AppendIMPath_null (False, sb, reader))
                 (\<lambda>(addSep, sb, reader).
                   map_option (\<lambda>(err, reader). (err, addSep, sb, reader))
                     (ExitContainer pathContainer reader)))))))"

definition AddIMPathItem :: "proto_tree \<Rightarrow> int \<Rightarrow> string option \<Rightarrow> dissector \<Rightarrow> dissector result" where
  "AddIMPathItem tree hfindex header d =
     (let readerCopy = tlv_reader.truncate d in
      and_then (case header of None \<Rightarrow> Some (None, 0) | Some h \<Rightarrow> AppendStringF h (None, 0)) (\<lambda>sb.
      (case AppendIMPath readerCopy sb of None \<Rightarrow> None
       | Some (err, sb, readerCopy) \<Rightarrow>
           if err \<noteq> MATTER_NO_ERROR then Some (err, d)
           else (case fst sb of None \<Rightarrow> None
             | Some pathStr \<Rightarrow>
                 Some (MATTER_NO_ERROR,
                   if header \<noteq> None then AddStringItemWithHeaderF tree hfindex pathStr d
                   else AddStringItemF tree hfindex pathStr d)))))"

end
