(* ===== verification/TLV_Dissector_Inv.thy ===== *)
theory TLV_Dissector_Inv
  imports TLV_Text
begin

text \<open>
  The dissector's invariant: the reader's invariant, a container stack whose entries below the depth
  are there, and a depth that the data that was read accounts for. Every operation keeps it and
  returns; an operation on a whole element leaves the stack as it found it. The interface of a list
  element's handler is the locale \<open>element_handler\<close>.
\<close>

section \<open>The invariant\<close>

definition entries :: "dissector \<Rightarrow> container_context option list" where
  "entries d = (case mContainerStack d of None \<Rightarrow> [] | Some s \<Rightarrow> s)"

definition frames :: "dissector \<Rightarrow> container_context option list" where
  "frames d = take (unat (mContainerDepth d)) (entries d)"

definition stack_inv :: "dissector \<Rightarrow> bool" where
  "stack_inv d \<longleftrightarrow> length (entries d) = unat (mContainerStackSize d) \<and>
     mContainerDepth d \<le> mContainerStackSize d \<and> None \<notin> set (frames d)"

definition depth_room :: "dissector \<Rightarrow> nat" where
  "depth_room d = unat (mContainerDepth d) + remaining d"

text \<open>
  \<open>between_inv\<close> holds between elements; \<open>dissector_inv\<close> holds on an element: there is room on the
  stack for one more container, and a string's length leaves room for a terminator.
\<close>

definition between_inv :: "dissector \<Rightarrow> bool" where
  "between_inv d \<longleftrightarrow> reader_inv d \<and> stack_inv d \<and> depth_room d < 2147483648"

definition dissector_inv :: "dissector \<Rightarrow> bool" where
  "dissector_inv d \<longleftrightarrow> between_inv d \<and>
     (TLVTypeIsContainer (elem8 d) \<longrightarrow> depth_room d < 2147483647) \<and>
     (TLVTypeHasLength (elem8 d) \<longrightarrow> mElemLenOrVal d \<noteq> 0xFFFFFFFFFFFFFFFF)"

lemma dissector_invD: "dissector_inv d \<Longrightarrow> between_inv d" "dissector_inv d \<Longrightarrow> reader_inv d"
  by (simp_all add: dissector_inv_def between_inv_def)

lemma between_invD: "between_inv d \<Longrightarrow> reader_inv d" "between_inv d \<Longrightarrow> stack_inv d"
  by (simp_all add: between_inv_def)

lemma dissector_inv_clear:
  "ElementType d = kTLVElementType_NotSpecified \<Longrightarrow> dissector_inv d = between_inv d"
  using no_element_type by (simp add: dissector_inv_def elem8_def)

text \<open>What a step of the reader leaves alone.\<close>

definition same_frames :: "dissector \<Rightarrow> dissector \<Rightarrow> bool" where
  "same_frames d d' \<longleftrightarrow> mContainerStack d' = mContainerStack d \<and>
     mContainerStackSize d' = mContainerStackSize d \<and> mContainerDepth d' = mContainerDepth d"

lemma same_frames_refl [simp]: "same_frames d d"
  by (simp add: same_frames_def)

lemma same_frames_trans: "same_frames d d' \<Longrightarrow> same_frames d' d'' \<Longrightarrow> same_frames d d''"
  by (simp add: same_frames_def)

lemma more_eq:
  assumes "tlv_reader.more d' = tlv_reader.more (d :: dissector)"
  shows "mSourceBufBaseOffset d' = mSourceBufBaseOffset d" "mElemStart d' = mElemStart d"
    "mElemLen d' = mElemLen d" "mLastItem d' = mLastItem d" "mContainerStack d' = mContainerStack d"
    "mContainerStackSize d' = mContainerStackSize d" "mContainerDepth d' = mContainerDepth d"
    "trace d' = trace d"
  using assms by (cases d; cases d'; simp)+

lemma stays_more: "stays d d' \<Longrightarrow> tlv_reader.more d' = tlv_reader.more d"
  by (simp add: stays_def)

lemma stays_same_frames: "stays (d :: dissector) d' \<Longrightarrow> same_frames d d'"
  using more_eq [OF stays_more] by (simp add: same_frames_def)

lemma same_frames_frames: "same_frames d d' \<Longrightarrow> frames d' = frames d"
  by (simp add: same_frames_def frames_def entries_def)

lemma same_frames_stack_inv: "same_frames d d' \<Longrightarrow> stack_inv d' = stack_inv d"
  by (simp add: stack_inv_def same_frames_frames) (simp add: same_frames_def entries_def)

lemma stays_between_inv:
  assumes "stays d d'" and "between_inv d"
  shows "between_inv d'"
proof -
  have f: "same_frames d d'" by (rule stays_same_frames [OF assms(1)])
  then have "mContainerDepth d' = mContainerDepth d" by (simp add: same_frames_def)
  then show ?thesis
    using assms stays_inv [OF assms(1)] stays_remaining [OF assms(1)] same_frames_stack_inv [OF f]
    by (simp add: between_inv_def depth_room_def)
qed

text \<open>Updates of the dissector's own fields.\<close>

lemma reader_upd [simp]:
  "reader_inv (d\<lparr>mElemStart := a\<rparr>) = reader_inv d" "reader_inv (d\<lparr>mElemLen := b\<rparr>) = reader_inv d"
  "reader_inv (d\<lparr>mLastItem := c\<rparr>) = reader_inv d" "reader_inv (d\<lparr>mContainerDepth := e\<rparr>) = reader_inv d"
  "reader_inv (d\<lparr>mContainerStack := f\<rparr>) = reader_inv d"
  "reader_inv (d\<lparr>mSourceBufBaseOffset := i\<rparr>) = reader_inv d"
  "reader_inv (d\<lparr>mContainerStackSize := g\<rparr>) = reader_inv d" "reader_inv (d\<lparr>trace := h\<rparr>) = reader_inv d"
  "remaining (d\<lparr>mElemStart := a\<rparr>) = remaining d" "remaining (d\<lparr>mElemLen := b\<rparr>) = remaining d"
  "remaining (d\<lparr>mLastItem := c\<rparr>) = remaining d" "remaining (d\<lparr>mContainerDepth := e\<rparr>) = remaining d"
  "remaining (d\<lparr>mContainerStack := f\<rparr>) = remaining d"
  "remaining (d\<lparr>mContainerStackSize := g\<rparr>) = remaining d" "remaining (d\<lparr>trace := h\<rparr>) = remaining d"
  by (simp_all add: reader_inv_def remaining_def)

lemma elem_upd [simp]:
  "ElementType (d\<lparr>mElemStart := a\<rparr>) = ElementType d" "ElementType (d\<lparr>mElemLen := b\<rparr>) = ElementType d"
  "ElementType (d\<lparr>mLastItem := c\<rparr>) = ElementType d" "ElementType (d\<lparr>trace := h\<rparr>) = ElementType d"
  "ElementType (d\<lparr>mContainerDepth := e\<rparr>) = ElementType d"
  "ElementType (d\<lparr>mContainerStack := f\<rparr>) = ElementType d"
  "ElementType (d\<lparr>mContainerStackSize := g\<rparr>) = ElementType d"
  "elem8 (d\<lparr>mElemStart := a\<rparr>) = elem8 d" "elem8 (d\<lparr>mElemLen := b\<rparr>) = elem8 d"
  "elem8 (d\<lparr>mLastItem := c\<rparr>) = elem8 d" "elem8 (d\<lparr>trace := h\<rparr>) = elem8 d"
  by (simp_all add: ElementType_def elem8_def)

lemma between_upd [simp]:
  "between_inv (d\<lparr>mElemStart := a\<rparr>) = between_inv d" "between_inv (d\<lparr>mElemLen := b\<rparr>) = between_inv d"
  "between_inv (d\<lparr>mLastItem := c\<rparr>) = between_inv d" "between_inv (d\<lparr>trace := h\<rparr>) = between_inv d"
  by (simp_all add: between_inv_def stack_inv_def depth_room_def frames_def entries_def)

lemma dissector_upd [simp]:
  "dissector_inv (d\<lparr>mElemStart := a\<rparr>) = dissector_inv d" "dissector_inv (d\<lparr>mElemLen := b\<rparr>) = dissector_inv d"
  "dissector_inv (d\<lparr>mLastItem := c\<rparr>) = dissector_inv d" "dissector_inv (d\<lparr>trace := h\<rparr>) = dissector_inv d"
  by (simp_all add: dissector_inv_def depth_room_def)

lemma frames_upd [simp]:
  "frames (d\<lparr>mElemStart := a\<rparr>) = frames d" "frames (d\<lparr>mElemLen := b\<rparr>) = frames d"
  "frames (d\<lparr>mLastItem := c\<rparr>) = frames d" "frames (d\<lparr>trace := h\<rparr>) = frames d"
  by (simp_all add: frames_def entries_def)

lemma emit_simps [simp]:
  "dissector_inv (emit c d) = dissector_inv d" "frames (emit c d) = frames d"
  "remaining (emit c d) = remaining d" "mContainerType (emit c d) = mContainerType d"
  "ElementType (emit c d) = ElementType d" "mLastItem (emit c d) = mLastItem d"
  "mElemStart (emit c d) = mElemStart d" "mElemLen (emit c d) = mElemLen d"
  "trace (emit c d) = trace d @ [c]"
  by (simp_all add: emit_def)

lemma add_item_simps [simp]:
  "dissector_inv (add_item t h v d) = dissector_inv d" "frames (add_item t h v d) = frames d"
  "remaining (add_item t h v d) = remaining d" "mContainerType (add_item t h v d) = mContainerType d"
  "ElementType (add_item t h v d) = ElementType d"
  "mElemStart (add_item t h v d) = mElemStart d" "mElemLen (add_item t h v d) = mElemLen d"
  by (simp_all add: add_item_def)

section \<open>The start state\<close>

lemma Dissector_Init_inv:
  assumes "unat dataLen \<le> length data" and "unat dataLen < 2147483648"
    and "mContainerStack d = None" and "mContainerStackSize d = 0"
  shows "dissector_inv (Dissector_Init data dataLen base d)"
proof -
  let ?d = "Dissector_Init data dataLen base d"
  have "reader_inv ?d" "ElementType ?d = kTLVElementType_NotSpecified" "remaining ?d = unat dataLen"
    using Init_buf_inv [OF assms(1), of d]
    by (simp_all add: Dissector_Init_def)
      (simp_all add: Init_buf_def Let_def ClearElementState_def SetContainerOpen_def ElementType_def remaining_def)
  moreover have "mContainerDepth ?d = 0" "mContainerStack ?d = None" "mContainerStackSize ?d = 0"
    using assms
    by (simp_all add: Dissector_Init_def Init_buf_def Let_def ClearElementState_def SetContainerOpen_def)
  ultimately show ?thesis
    using assms(2) by (simp add: dissector_inv_clear between_inv_def stack_inv_def depth_room_def frames_def entries_def)
qed

section \<open>Moving from element to element\<close>

lemma MarkElemStart_clear:
  assumes "ElementType d = kTLVElementType_NotSpecified"
  shows "MarkElemStart d = Some (MATTER_NO_ERROR, d\<lparr>mElemStart := mLenRead d\<rparr>)"
  using assms by (simp add: MarkElemStart_def GetType_def GetLengthRead_def)

lemma mElemLen_self: "d\<lparr>mElemLen := mElemLen d\<rparr> = d"
  by simp

lemma MarkElemLength_total:
  assumes "reader_inv d"
  shows "returns (MarkElemLength d) (\<lambda>err d'. \<exists>n. d' = d\<lparr>mElemLen := n\<rparr>)"
proof -
  obtain err r where s: "Skip d = Some (err, r)"
    using Skip_total [OF assms] by (auto elim: returnsE)
  have "\<exists>n. d = d\<lparr>mElemLen := n\<rparr>" by (rule exI [of _ "mElemLen d"]) simp
  with s show ?thesis by (auto simp: MarkElemLength_def)
qed

text \<open>
  \<open>Next\<close>: the stack is as it was, and an element that was found left room for one more container.
\<close>

definition next_post :: "dissector \<Rightarrow> MATTER_ERROR \<Rightarrow> dissector \<Rightarrow> bool" where
  "next_post d err d' \<longleftrightarrow> between_inv d' \<and> same_frames d d' \<and> remaining d' \<le> remaining d \<and>
     trace d' = trace d \<and>
     (err = 0 \<longrightarrow> dissector_inv d' \<and> remaining d' < remaining d \<and>
        mContainerType d' = mContainerType d \<and> ElementType d' \<noteq> kTLVElementType_EndOfContainer)"

lemma VerifyElement_length:
  assumes "VerifyElement r = 0" and "TLVTypeHasLength (elem8 r)" and "reader_inv r"
    and "remaining r < 2147483648"
  shows "mElemLenOrVal r \<noteq> 0xFFFFFFFFFFFFFFFF"
proof
  assume "mElemLenOrVal r = 0xFFFFFFFFFFFFFFFF"
  then have "unat (ucast (mElemLenOrVal r) :: u32) = 4294967295" by simp
  moreover have "\<not> mMaxLen r - mLenRead r < ucast (mElemLenOrVal r)"
    using assms(1,2) by (auto simp: VerifyElement_def Let_def split: if_splits)
  moreover have "unat (mMaxLen r - mLenRead r) = remaining r"
    using assms(3) by (simp add: reader_inv_def remaining_def unat_sub)
  ultimately show False using assms(4) by (simp add: word_less_nat_alt)
qed

lemma stays_dissector_inv:
  assumes "stays d d'" and "between_inv d" and "remaining d' < remaining d" and "VerifyElement d' = 0"
  shows "dissector_inv d'"
proof -
  have b: "between_inv d'" by (rule stays_between_inv [OF assms(1,2)])
  have "mContainerDepth d' = mContainerDepth d"
    using stays_same_frames [OF assms(1)] by (simp add: same_frames_def)
  then have "depth_room d' < 2147483647"
    using assms(2,3) by (simp add: between_inv_def depth_room_def)
  moreover from this have "remaining d' < 2147483648" by (simp add: depth_room_def)
  ultimately show ?thesis
    using b VerifyElement_length [OF assms(4)] by (auto simp: dissector_inv_def between_inv_def)
qed

lemma stays_trace: "stays d d' \<Longrightarrow> trace d' = trace (d :: dissector)"
  by (rule more_eq(8) [OF stays_more])

lemma Next_dissector:
  assumes "between_inv d"
  shows "returns (Next d) (\<lambda>err d'. next_post d err d')"
  by (rule returns_mono [OF Next_total [OF between_invD(1) [OF assms]]])
    (use assms in \<open>auto simp: next_post_def intro: stays_between_inv stays_same_frames
       stays_remaining stays_trace stays_dissector_inv\<close>)

lemma Next_expect_dissector:
  assumes "between_inv d"
  shows "returns (Next_expect ty tag d) (\<lambda>err d'. next_post d err d' \<and>
    (err = 0 \<longrightarrow> GetType d' = ty \<and> mElemTag d' = tag))"
  unfolding Next_expect_def
  by (rule returns_SuccessOrExit [OF Next_dissector [OF assms]]) (auto simp: next_post_def)

text \<open>Both \<open>Next\<close>s of the dissector are a skip, a mark, the reader's call and a mark.\<close>

lemma Next_marks:
  assumes inv: "between_inv d"
    and nxt: "\<And>d1. between_inv d1 \<Longrightarrow> returns (nxt d1) (\<lambda>err d'. next_post d1 err d' \<and> (err = 0 \<longrightarrow> P d'))"
    and P: "\<And>d n. P d \<Longrightarrow> P (d\<lparr>mElemLen := n\<rparr>)"
  shows "returns (let d = d\<lparr>mLastItem := None\<rparr> in
      SuccessOrExit (Skip d) (\<lambda>d. SuccessOrExit (MarkElemStart d) (\<lambda>d.
      SuccessOrExit (nxt d) (\<lambda>d. SuccessOrExit (MarkElemLength d) (\<lambda>d. Some (MATTER_NO_ERROR, d))))))
    (\<lambda>err d'. next_post d err d' \<and> (err = 0 \<longrightarrow> P d'))"
proof -
  let ?d = "d\<lparr>mLastItem := None\<rparr>"
  have Q: "next_post d err d'" if "next_post ?d err d'" for err d'
    using that by (simp add: next_post_def same_frames_def)
  have "returns (SuccessOrExit (Skip ?d) (\<lambda>d. SuccessOrExit (MarkElemStart d) (\<lambda>d.
      SuccessOrExit (nxt d) (\<lambda>d. SuccessOrExit (MarkElemLength d) (\<lambda>d. Some (MATTER_NO_ERROR, d))))))
    (\<lambda>err d'. next_post ?d err d' \<and> (err = 0 \<longrightarrow> P d'))"
  proof (rule returns_SuccessOrExit [OF Skip_total])
    show "reader_inv ?d" using inv by (simp add: between_inv_def)
  next
    fix err :: MATTER_ERROR and d1
    assume "stays ?d d1 \<and> (err = 0 \<longrightarrow> mContainerType d1 = mContainerType ?d \<and>
        ElementType d1 = kTLVElementType_NotSpecified)" and "err \<noteq> 0"
    then show "next_post ?d err d1 \<and> (err = 0 \<longrightarrow> P d1)"
      using inv by (auto simp: next_post_def intro: stays_between_inv stays_same_frames
          dest: stays_remaining stays_trace)
  next
    fix d1
    assume "stays ?d d1 \<and> ((0::int) = 0 \<longrightarrow> mContainerType d1 = mContainerType ?d \<and>
        ElementType d1 = kTLVElementType_NotSpecified)"
    then have s: "stays ?d d1" and ct: "mContainerType d1 = mContainerType ?d"
      and clear: "ElementType d1 = kTLVElementType_NotSpecified" by auto
    have b1: "between_inv d1" by (rule stays_between_inv [OF s]) (simp add: inv)
    let ?d1 = "d1\<lparr>mElemStart := mLenRead d1\<rparr>"
    have b1': "between_inv ?d1" using b1 by simp
    have N: "next_post ?d err d'" if "next_post ?d1 err d'" for err d'
      using that stays_same_frames [OF s] stays_remaining [OF s] stays_trace [OF s] ct
      by (auto simp: next_post_def same_frames_def)
    show "returns (SuccessOrExit (MarkElemStart d1) (\<lambda>d. SuccessOrExit (nxt d)
        (\<lambda>d. SuccessOrExit (MarkElemLength d) (\<lambda>d. Some (MATTER_NO_ERROR, d)))))
      (\<lambda>err d'. next_post ?d err d' \<and> (err = 0 \<longrightarrow> P d'))"
      unfolding MarkElemStart_clear [OF clear] MATTER_NO_ERROR_def SuccessOrExit_simps
    proof (rule returns_SuccessOrExit [OF nxt [OF b1']])
      fix err :: MATTER_ERROR and d2 assume "next_post ?d1 err d2 \<and> (err = 0 \<longrightarrow> P d2)" and "err \<noteq> 0"
      then show "next_post ?d err d2 \<and> (err = 0 \<longrightarrow> P d2)" using N by blast
    next
      fix d2 assume "next_post ?d1 0 d2 \<and> ((0::int) = 0 \<longrightarrow> P d2)"
      then have d2: "next_post ?d 0 d2" "P d2" using N by auto
      have "reader_inv d2" using d2(1) by (simp add: next_post_def between_inv_def)
      then show "returns (SuccessOrExit (MarkElemLength d2) (\<lambda>d. Some (0, d)))
        (\<lambda>err d'. next_post ?d err d' \<and> (err = 0 \<longrightarrow> P d'))"
        by (intro returns_SuccessOrExit [OF MarkElemLength_total])
          (use d2 P in \<open>auto simp: next_post_def same_frames_def\<close>)
    qed
  qed
  then show ?thesis using Q by (simp add: Let_def) (erule returns_mono, blast)
qed

lemma Dissector_Next_total:
  assumes "between_inv d"
  shows "returns (Dissector_Next d) (\<lambda>err d'. next_post d err d')"
  using Next_marks [where nxt = Next and P = "\<lambda>_. True", OF assms] Next_dissector
  by (simp add: Dissector_Next_def)

lemma Dissector_Next_expect_total:
  assumes "between_inv d"
  shows "returns (Dissector_Next_expect ty tag d) (\<lambda>err d'. next_post d err d' \<and>
    (err = 0 \<longrightarrow> GetType d' = ty \<and> mElemTag d' = tag))"
  unfolding Dissector_Next_expect_def
  by (rule Next_marks [OF assms Next_expect_dissector]) (auto simp: GetType_def)

section \<open>The container stack\<close>

lemma take_resize: "n \<le> length xs \<Longrightarrow> n \<le> m \<Longrightarrow> take n (resize m xs) = take n xs"
  by (simp add: resize_def)

lemma length_resize: "length (resize m xs) = m"
  by (simp add: resize_def)

lemma u32_double:
  assumes "unat (n :: u32) < 2147483648"
  shows "unat (n * 2) = 2 * unat n"
  using assms by (simp add: unat_word_ariths)

text \<open>The array has room for one more entry after the first part of \<open>PushContainer\<close>.\<close>

lemma PushContainer_spec:
  assumes inv: "between_inv d" and room: "depth_room d < 2147483647"
  shows "returns (PushContainer E ct d) (\<lambda>err d'. err = 0 \<longrightarrow>
    between_inv d' \<and> ElementType d' = ElementType d \<and> mContainerType d' = mContainerType d \<and>
    remaining d' = remaining d \<and> trace d' = trace d \<and> mElemLenOrVal d' = mElemLenOrVal d \<and>
    frames d' = frames d @ [Some \<lparr>ContainerType = ct, ContainerItem = mLastItem d,
      CtxElemStart = mElemStart d, CtxElemLen = mElemLen d\<rparr>])"
proof -
  let ?c = "\<lparr>ContainerType = ct, ContainerItem = mLastItem d, CtxElemStart = mElemStart d,
    CtxElemLen = mElemLen d\<rparr>"
  let ?full = "mContainerStack d = None \<or> mContainerStackSize d = 0 \<or>
    mContainerStackSize d = mContainerDepth d"
  have depth: "unat (mContainerDepth d) < 2147483647" using room by (simp add: depth_room_def)
  have len: "length (entries d) = unat (mContainerStackSize d)"
    and le: "unat (mContainerDepth d) \<le> unat (mContainerStackSize d)" and nn: "None \<notin> set (frames d)"
    using between_invD(2) [OF inv] by (simp_all add: stack_inv_def word_le_nat_alt)
  define size' where "size' = (if mContainerStackSize d = 0 then 16 else mContainerStackSize d * 2)"
  define st where "st = (if ?full then resize (unat size') (entries d) else entries d)"
  define n where "n = (if ?full then size' else mContainerStackSize d)"
  have size': "unat (mContainerDepth d) < unat size'" if ?full
  proof (cases "mContainerStackSize d = 0")
    case True
    then show ?thesis using le by (simp add: size'_def)
  next
    case False
    then have eq: "mContainerStackSize d = mContainerDepth d" using that len by (auto simp: entries_def unat_eq_0)
    then have "unat (mContainerStackSize d * 2) = 2 * unat (mContainerStackSize d)"
      using depth by (intro u32_double) simp
    then show ?thesis using False eq by (simp add: size'_def unat_gt_0)
  qed
  have n: "unat (mContainerDepth d) < unat n"
    using size' le by (auto simp: n_def word_unat_eq_iff)
  have st: "length st = unat n" "take (unat (mContainerDepth d)) st = frames d"
    using len le n by (auto simp: st_def n_def length_resize take_resize frames_def)
  define d1 where "d1 = d\<lparr>mContainerStack := Some (st[unat (mContainerDepth d) := Some ?c]),
    mContainerStackSize := n, mContainerDepth := mContainerDepth d + 1\<rparr>"
  have dep: "unat (mContainerDepth d + 1) = unat (mContainerDepth d) + 1"
    using depth by (simp add: unat_word_ariths)
  have fr: "frames d1 = frames d @ [Some ?c]"
    using st n by (simp add: frames_def entries_def d1_def dep take_Suc_conv_app_nth)
  have "stack_inv d1"
    using st n nn fr by (simp add: stack_inv_def entries_def word_le_nat_alt) (simp add: d1_def dep)
  then have b: "between_inv d1"
    using inv room by (simp add: between_inv_def) (simp add: d1_def depth_room_def dep)
  have "PushContainer E ct d = Some (MATTER_NO_ERROR, d1)
      \<or> (\<exists>d'. PushContainer E ct d = Some (MATTER_ERROR_NO_MEMORY, d'))"
  proof (cases ?full)
    case True
    then show ?thesis
      using st n len unfolding PushContainer_def d1_def size'_def n_def st_def entries_def
      by (cases "mContainerStackSize d = 0") (auto simp: Let_def)
  next
    case False
    then obtain s where "mContainerStack d = Some s" by auto
    with False show ?thesis
      using st n unfolding PushContainer_def d1_def n_def st_def entries_def by auto
  qed
  moreover have "ElementType d1 = ElementType d" by (simp add: d1_def)
  moreover have "mContainerType d1 = mContainerType d" "remaining d1 = remaining d" "trace d1 = trace d"
    "mElemLenOrVal d1 = mElemLenOrVal d"
    by (simp_all add: d1_def)
  ultimately show ?thesis using b fr by auto
qed

lemma Dissector_EnterContainer_spec:
  assumes inv: "dissector_inv d"
  shows "returns (Dissector_EnterContainer E d) (\<lambda>err d'. err = 0 \<longrightarrow>
    dissector_inv d' \<and> TLVTypeIsContainer (elem8 d) \<and> mContainerType d' = ElementType d \<and>
    ElementType d' = kTLVElementType_NotSpecified \<and> remaining d' = remaining d \<and> trace d' = trace d \<and>
    frames d' = frames d @ [Some \<lparr>ContainerType = mContainerType d, ContainerItem = mLastItem d,
      CtxElemStart = mElemStart d, CtxElemLen = mElemLen d\<rparr>])"
proof -
  obtain err ct d1 where e: "EnterContainer d kTLVType_NotSpecified = (err, ct, d1)"
    by (metis prod_cases3)
  note E = EnterContainer_spec [OF e dissector_invD(2) [OF inv]]
  show ?thesis
  proof (cases "err = 0")
    case False
    then show ?thesis using e by (simp add: Dissector_EnterContainer_def)
  next
    case ok: True
    have c: "TLVTypeIsContainer (elem8 d)" "ct = mContainerType d" "mContainerType d1 = ElementType d"
      using E(3,4) ok by simp_all
    have clear: "ElementType d1 = kTLVElementType_NotSpecified"
      using e ok by (auto simp: EnterContainer_def split: if_splits)
    have room: "depth_room d1 < 2147483647"
      using inv c(1) E(2) stays_same_frames [OF E(1)]
      by (simp add: dissector_inv_def depth_room_def same_frames_def)
    have fr: "frames d1 = frames d" by (rule same_frames_frames [OF stays_same_frames [OF E(1)]])
    note m = more_eq [OF stays_more [OF E(1)]]
    have "returns (PushContainer E ct d1) (\<lambda>err d'. err = 0 \<longrightarrow>
      between_inv d' \<and> ElementType d' = ElementType d1 \<and> mContainerType d' = mContainerType d1 \<and>
      remaining d' = remaining d1 \<and> trace d' = trace d1 \<and> mElemLenOrVal d' = mElemLenOrVal d1 \<and>
      frames d' = frames d1 @ [Some \<lparr>ContainerType = ct, ContainerItem = mLastItem d1,
        CtxElemStart = mElemStart d1, CtxElemLen = mElemLen d1\<rparr>])"
      by (rule PushContainer_spec [OF stays_between_inv [OF E(1) dissector_invD(1) [OF inv]] room])
    then have "returns (SuccessOrExit (PushContainer E ct d1) (\<lambda>d. Some (MATTER_NO_ERROR, d)))
      (\<lambda>err d'. err = 0 \<longrightarrow> dissector_inv d' \<and> TLVTypeIsContainer (elem8 d) \<and>
        mContainerType d' = ElementType d \<and> ElementType d' = kTLVElementType_NotSpecified \<and>
        remaining d' = remaining d \<and> trace d' = trace d \<and>
        frames d' = frames d @ [Some \<lparr>ContainerType = mContainerType d, ContainerItem = mLastItem d,
          CtxElemStart = mElemStart d, CtxElemLen = mElemLen d\<rparr>])"
      by (rule returns_SuccessOrExit) (use c clear E(2) fr m in \<open>auto simp: dissector_inv_clear\<close>)
    then show ?thesis using e ok by (simp add: Dissector_EnterContainer_def)
  qed
qed

lemma frames_snoc_depth:
  assumes "stack_inv d" and "frames d = fs @ [Some c]"
  shows "unat (mContainerDepth d) = Suc (length fs)" "length fs < length (entries d)"
    "entries d ! length fs = Some c" "take (length fs) (entries d) = fs"
proof -
  have "unat (mContainerDepth d) \<le> length (entries d)"
    using assms(1) by (simp add: stack_inv_def word_le_nat_alt)
  then have "length (frames d) = unat (mContainerDepth d)" by (simp add: frames_def)
  then show d: "unat (mContainerDepth d) = Suc (length fs)" using assms(2) by simp
  then show "length fs < length (entries d)" using \<open>_ \<le> length (entries d)\<close> by simp
  have t: "take (Suc (length fs)) (entries d) = fs @ [Some c]"
    using assms(2) d by (simp add: frames_def)
  then have "take (Suc (length fs)) (entries d) ! length fs = Some c" by simp
  then show "entries d ! length fs = Some c" by simp
  have "take (length fs) (take (Suc (length fs)) (entries d)) = fs" unfolding t by simp
  then show "take (length fs) (entries d) = fs" by simp
qed

lemma PopContainer_spec:
  assumes inv: "between_inv d" and fr: "frames d = fs @ [Some c]"
  shows "PopContainer d = Some (ContainerType c, d\<lparr>mContainerDepth := mContainerDepth d - 1,
      mLastItem := ContainerItem c, mElemStart := CtxElemStart c, mElemLen := CtxElemLen c\<rparr>)"
    and "between_inv (d\<lparr>mContainerDepth := mContainerDepth d - 1\<rparr>)"
    and "frames (d\<lparr>mContainerDepth := mContainerDepth d - 1\<rparr>) = fs"
proof -
  note st = between_invD(2) [OF inv]
  note f = frames_snoc_depth [OF st fr]
  have pos: "mContainerDepth d > 0" using f(1) by (simp add: word_less_nat_alt)
  have dep: "unat (mContainerDepth d - 1) = length fs"
    using f(1) pos by (simp add: unat_minus_one word_gt_0)
  obtain s where s: "mContainerStack d = Some s" "entries d = s"
    using f(2) by (cases "mContainerStack d") (simp_all add: entries_def)
  show "PopContainer d = Some (ContainerType c, d\<lparr>mContainerDepth := mContainerDepth d - 1,
      mLastItem := ContainerItem c, mElemStart := CtxElemStart c, mElemLen := CtxElemLen c\<rparr>)"
    using pos s dep f by (simp add: PopContainer_def)
  show fr': "frames (d\<lparr>mContainerDepth := mContainerDepth d - 1\<rparr>) = fs"
    using f(4) by (simp add: frames_def entries_def dep)
  have "None \<notin> set fs" using st fr by (simp add: stack_inv_def)
  moreover have "mContainerDepth d - 1 \<le> mContainerStackSize d"
    using st f dep by (simp add: stack_inv_def word_le_nat_alt)
  ultimately show "between_inv (d\<lparr>mContainerDepth := mContainerDepth d - 1\<rparr>)"
    using inv fr' dep f(1)
    by (simp add: between_inv_def stack_inv_def depth_room_def entries_def)
qed

lemma Dissector_ExitContainer_spec:
  assumes inv: "between_inv d" and fr: "frames d = fs @ [Some c]"
  shows "returns (Dissector_ExitContainer d) (\<lambda>err d'. between_inv d' \<and> frames d' = fs \<and>
    remaining d' \<le> remaining d \<and> trace d' = trace d \<and>
    (err = 0 \<longrightarrow> dissector_inv d' \<and> mContainerType d' = ContainerType c \<and>
       ElementType d' = kTLVElementType_NotSpecified \<and> mLastItem d' = ContainerItem c \<and>
       mElemStart d' = CtxElemStart c \<and> mElemLen d' = CtxElemLen c))"
proof -
  note P = PopContainer_spec [OF inv fr]
  let ?d = "d\<lparr>mContainerDepth := mContainerDepth d - 1, mLastItem := ContainerItem c,
    mElemStart := CtxElemStart c, mElemLen := CtxElemLen c\<rparr>"
  have b: "between_inv ?d" "frames ?d = fs" "remaining ?d = remaining d" "trace ?d = trace d"
    using P(2,3) by simp_all
  have "returns (SuccessOrExit (ExitContainer (ContainerType c) ?d) (\<lambda>d. Some (MATTER_NO_ERROR, d)))
    (\<lambda>err d'. between_inv d' \<and> frames d' = fs \<and> remaining d' \<le> remaining d \<and> trace d' = trace d \<and>
    (err = 0 \<longrightarrow> dissector_inv d' \<and> mContainerType d' = ContainerType c \<and>
       ElementType d' = kTLVElementType_NotSpecified \<and> mLastItem d' = ContainerItem c \<and>
       mElemStart d' = CtxElemStart c \<and> mElemLen d' = CtxElemLen c))"
  proof (rule returns_SuccessOrExit [OF ExitContainer_total [OF between_invD(1) [OF b(1)]]])
    fix err :: MATTER_ERROR and d1
    assume "stays ?d d1 \<and> \<not> mContainerOpen d1 \<and> (err = 0 \<longrightarrow> mContainerType d1 = ContainerType c \<and>
      ElementType d1 = kTLVElementType_NotSpecified)" and "err \<noteq> 0"
    then show "between_inv d1 \<and> frames d1 = fs \<and> remaining d1 \<le> remaining d \<and> trace d1 = trace d \<and>
    (err = 0 \<longrightarrow> dissector_inv d1 \<and> mContainerType d1 = ContainerType c \<and>
       ElementType d1 = kTLVElementType_NotSpecified \<and> mLastItem d1 = ContainerItem c \<and>
       mElemStart d1 = CtxElemStart c \<and> mElemLen d1 = CtxElemLen c)"
      using b stays_between_inv [of ?d d1] same_frames_frames [OF stays_same_frames, of ?d d1]
        stays_remaining [of ?d d1] stays_trace [of ?d d1] by auto
  next
    fix d1
    assume a: "stays ?d d1 \<and> \<not> mContainerOpen d1 \<and> ((0::int) = 0 \<longrightarrow>
      mContainerType d1 = ContainerType c \<and> ElementType d1 = kTLVElementType_NotSpecified)"
    then have m: "tlv_reader.more d1 = tlv_reader.more ?d" using stays_more by blast
    show "returns (Some (MATTER_NO_ERROR, d1)) (\<lambda>err d'. between_inv d' \<and> frames d' = fs \<and>
      remaining d' \<le> remaining d \<and> trace d' = trace d \<and>
      (err = 0 \<longrightarrow> dissector_inv d' \<and> mContainerType d' = ContainerType c \<and>
       ElementType d' = kTLVElementType_NotSpecified \<and> mLastItem d' = ContainerItem c \<and>
       mElemStart d' = CtxElemStart c \<and> mElemLen d' = CtxElemLen c))"
      using a b stays_between_inv [of ?d d1] same_frames_frames [OF stays_same_frames, of ?d d1]
        stays_remaining [of ?d d1] more_eq [OF m] by (auto simp: dissector_inv_clear)
  qed
  then show ?thesis by (simp add: Dissector_ExitContainer_def P(1))
qed

section \<open>Handlers of an element\<close>

text \<open>
  \<open>keeps d d'\<close> is the contract of an operation on one element: the invariant holds again, the container
  and the stack are as before, no input was put back, and items were only added.
\<close>

definition keeps :: "dissector \<Rightarrow> dissector \<Rightarrow> bool" where
  "keeps d d' \<longleftrightarrow> dissector_inv d' \<and> frames d' = frames d \<and> remaining d' \<le> remaining d \<and>
     mContainerType d' = mContainerType d \<and> (\<exists>calls. trace d' = trace d @ calls)"

lemma keeps_refl: "dissector_inv d \<Longrightarrow> keeps d d"
  by (simp add: keeps_def)

lemma keeps_trans: "keeps d d' \<Longrightarrow> keeps d' d'' \<Longrightarrow> keeps d d''"
  by (auto simp: keeps_def)

lemma keeps_inv: "keeps d d' \<Longrightarrow> dissector_inv d'"
  by (simp add: keeps_def)

lemma keeps_add_item [simp]: "keeps d d' \<Longrightarrow> keeps d (add_item t h v d')"
  by (auto simp: keeps_def) (simp add: add_item_def)

lemma keeps_emit [simp]: "keeps d d' \<Longrightarrow> keeps d (emit c d')"
  by (auto simp: keeps_def)

locale element_handler =
  fixes h :: "proto_tree \<Rightarrow> dissector \<Rightarrow> dissector result"
  assumes handles: "dissector_inv d \<Longrightarrow> returns (h tree d) (\<lambda>err d'. err = 0 \<longrightarrow> keeps d d')"

text \<open>Steps of the reader that leave the element's type and length, up to a shorter length, keep the
  dissector.\<close>

lemma stays_keeps:
  assumes "stays d d'" and "dissector_inv d" and "elem8 d' = elem8 d"
    and "mElemLenOrVal d' = mElemLenOrVal d \<or> mElemLenOrVal d' = 0"
    and "mContainerType d' = mContainerType d"
  shows "keeps d d'"
proof -
  have "between_inv d'" by (rule stays_between_inv [OF assms(1) dissector_invD(1) [OF assms(2)]])
  moreover have "depth_room d' \<le> depth_room d"
    using stays_remaining [OF assms(1)] stays_same_frames [OF assms(1)]
    by (simp add: depth_room_def same_frames_def)
  ultimately have "dissector_inv d'" using assms(2-4) by (auto simp: dissector_inv_def)
  then show ?thesis
    using assms same_frames_frames [OF stays_same_frames [OF assms(1)]] stays_remaining [OF assms(1)]
      stays_trace [OF assms(1)]
    by (simp add: keeps_def)
qed

lemma AddTypedItem_keeps:
  assumes inv: "dissector_inv d"
  shows "returns (AddTypedItem E tree hf d) (\<lambda>err d'. keeps d d')"
proof -
  note k = keeps_refl [OF inv]
  consider (str) "GetType d = kTLVType_UTF8String" | (bytes) "GetType d = kTLVType_ByteString"
    | (other) "GetType d \<noteq> kTLVType_UTF8String" "GetType d \<noteq> kTLVType_ByteString" by blast
  then show ?thesis
  proof cases
    case str
    show ?thesis
    proof (cases "TLVTypeIsString (elem8 d)")
      case True
      then have "mElemLenOrVal d \<noteq> 0xFFFFFFFFFFFFFFFF"
        using inv by (simp add: dissector_inv_def string_iff_length)
      then obtain err buf d' where D: "DupString (malloc_ok E) d = Some (err, buf, d')" "stays d d'"
        "elem8 d' = elem8 d" "mElemLenOrVal d' = mElemLenOrVal d \<or> mElemLenOrVal d' = 0"
        "mContainerType d' = mContainerType d" "err = 0 \<longrightarrow> buf \<noteq> None"
        by (rule DupString_total [OF dissector_invD(2) [OF inv]])
      have "keeps d d'" by (rule stays_keeps [OF D(2) inv D(3-5)])
      then show ?thesis using str D(1,6) by (auto simp: AddTypedItem_def)
    next
      case False
      then show ?thesis using str k by (simp add: AddTypedItem_def DupString_def)
    qed
  next
    case bytes
    obtain err ptr d' where g: "GetDataPtr d = (err, ptr, d')" by (metis prod_cases3)
    note G = GetDataPtr_spec [OF g dissector_invD(2) [OF inv]]
    have k': "keeps d d'"
      by (rule stays_keeps [OF G(1) inv]) (simp_all add: moved_fields [OF G(2)] moved_elem8 [OF G(2)])
    show ?thesis
    proof (cases "err = 0")
      case False
      then show ?thesis using bytes g k' by (simp add: AddTypedItem_def)
    next
      case True
      note G3 = G(3) [OF True]
      have "load_bytes (mBuf d') (mReadPoint d') (unat (GetLength d')) =
          Some (take (unat (GetLength d')) (drop (mReadPoint d') (mBuf d')))"
        by (rule load_bytes_Some) (use G3 in linarith)
      then show ?thesis using bytes g True G3 k' by (simp add: AddTypedItem_def)
    qed
  next
    case other
    then show ?thesis using k by (auto simp: AddTypedItem_def Let_def split: prod.splits)
  qed
qed

interpretation typed_item: element_handler "\<lambda>tree. AddTypedItem E tree hf" for E hf
  by unfold_locales (rule returns_mono [OF AddTypedItem_keeps], simp_all)

text \<open>\<open>AddSubTreeItem\<close> adds an item and a subtree.\<close>

lemma AddSubTreeItem_keeps:
  assumes "AddSubTreeItem tree hf ett subTree d = (err, tree', d')" and "dissector_inv d"
  shows "keeps d d'" "elem8 d' = elem8 d" "ElementType d' = ElementType d"
  using assms by (auto simp: AddSubTreeItem_def Let_def keeps_refl elem8_def split: if_splits)

section \<open>Loops\<close>

text \<open>
  A loop over the elements of a container returns when its body does: every turn that goes on has read
  an element. The body's locals are unconstrained.
\<close>

definition loop_post :: "dissector \<Rightarrow> dissector \<Rightarrow> bool" where
  "loop_post d d' \<longleftrightarrow> between_inv d' \<and> frames d' = frames d \<and> remaining d' \<le> remaining d \<and>
     (\<exists>calls. trace d' = trace d @ calls)"

lemma each_elem_total:
  fixes s :: "'a \<times> dissector"
  assumes body: "\<And>l d. dissector_inv d \<Longrightarrow>
      returns (body (l, d)) (\<lambda>err s. err = 0 \<longrightarrow> keeps d (snd s))"
    and "between_inv (snd s)"
  shows "returns (each_elem body s) (\<lambda>err s'. err = 0 \<longrightarrow> loop_post (snd s) (snd s'))"
  using assms(2)
proof (induction "remaining (snd s)" arbitrary: s rule: less_induct)
  case less
  obtain err d where n: "Dissector_Next (snd s) = Some (err, d)" "next_post (snd s) err d"
    using Dissector_Next_total [OF less.prems] by (auto simp: returns_def)
  have fr: "frames d = frames (snd s)" using n(2) by (simp add: next_post_def same_frames_frames)
  show ?case
  proof (cases "err = 0")
    case False
    then show ?thesis using n fr
      by (subst each_elem.simps) (auto simp: next_post_def loop_post_def)
  next
    case True
    have d: "dissector_inv d" "remaining d < remaining (snd s)" "trace d = trace (snd s)"
      using n(2) True by (simp_all add: next_post_def)
    have eq: "each_elem body s = SuccessOrExit (body (fst s, d)) (each_elem body)"
      using n(1) True by (subst each_elem.simps) simp
    show ?thesis unfolding eq
    proof (rule returns_SuccessOrExit [OF body [OF d(1)]])
      fix s2 :: "'a \<times> dissector" assume "(0::int) = 0 \<longrightarrow> keeps d (snd s2)"
      then have k: "keeps d (snd s2)" by simp
      then have "remaining (snd s2) < remaining (snd s)" "between_inv (snd s2)"
        using d(2) dissector_invD(1) by (auto simp: keeps_def)
      then have "returns (each_elem body s2) (\<lambda>err s'. err = 0 \<longrightarrow> loop_post (snd s2) (snd s'))"
        by (rule less.hyps)
      then show "returns (each_elem body s2) (\<lambda>err s'. err = 0 \<longrightarrow> loop_post (snd s) (snd s'))"
        by (rule returns_mono) (use k d fr in \<open>auto simp: loop_post_def keeps_def\<close>)
    qed simp
  qed
qed

lemma returns_with_locals [simp]:
  "returns (with_locals l m) Q \<longleftrightarrow> returns m (\<lambda>err d. Q err (l, d))"
  by (auto simp: returns_def with_locals_def)

lemma SuccessOrExit_with_locals:
  "returns m (\<lambda>err d. (err \<noteq> 0 \<longrightarrow> Q err (l, d)) \<and> (err = 0 \<longrightarrow> returns (k (l, d)) Q)) \<Longrightarrow>
   returns (SuccessOrExit (with_locals l m) k) Q"
  by (auto simp: returns_def with_locals_def SuccessOrExit_def)

text \<open>Entering a container, any loop over its elements, and leaving it again keeps the dissector.\<close>

lemma in_container_keeps:
  fixes l :: 'a
  assumes inv: "dissector_inv d"
    and body: "\<And>l d. dissector_inv d \<Longrightarrow>
      returns (body (l, d)) (\<lambda>err s. err = 0 \<longrightarrow> keeps d (snd s))"
  shows "returns (in_container E body (l, d)) (\<lambda>err s. err = 0 \<longrightarrow> keeps d (snd s) \<and>
    ElementType (snd s) = kTLVElementType_NotSpecified \<and> mLastItem (snd s) = mLastItem d \<and>
    mElemStart (snd s) = mElemStart d \<and> mElemLen (snd s) = mElemLen d)"
proof -
  let ?c = "\<lparr>ContainerType = mContainerType d, ContainerItem = mLastItem d,
      CtxElemStart = mElemStart d, CtxElemLen = mElemLen d\<rparr>"
  have exit: "returns (Dissector_ExitContainer d2) (\<lambda>err d'. err = 0 \<longrightarrow> keeps d d' \<and>
      ElementType d' = kTLVElementType_NotSpecified \<and> mLastItem d' = mLastItem d \<and>
      mElemStart d' = mElemStart d \<and> mElemLen d' = mElemLen d)"
    if "frames d1 = frames d @ [Some ?c]" "remaining d1 = remaining d" "trace d1 = trace d"
      "loop_post d1 d2" for d1 d2
    by (rule returns_mono [OF Dissector_ExitContainer_spec [of d2 "frames d" ?c]])
      (use that in \<open>auto simp: loop_post_def keeps_def\<close>)
  show ?thesis unfolding in_container_def fst_conv snd_conv
  proof (rule SuccessOrExit_with_locals, rule returns_mono [OF Dissector_EnterContainer_spec [OF inv]],
      intro conjI impI)
    fix err :: MATTER_ERROR and d1
    assume ok: "err = 0" and "err = 0 \<longrightarrow> dissector_inv d1 \<and> TLVTypeIsContainer (elem8 d) \<and>
      mContainerType d1 = ElementType d \<and> ElementType d1 = kTLVElementType_NotSpecified \<and>
      remaining d1 = remaining d \<and> trace d1 = trace d \<and> frames d1 = frames d @ [Some ?c]"
    then have d1: "dissector_inv d1" "remaining d1 = remaining d" "trace d1 = trace d"
      "frames d1 = frames d @ [Some ?c]" by simp_all
    have "returns (each_elem body (l, d1)) (\<lambda>err s'. err = 0 \<longrightarrow> loop_post (snd (l, d1)) (snd s'))"
      by (rule each_elem_total [OF body]) (use d1(1) dissector_invD(1) in simp_all)
    then show "returns (SuccessOrExit (each_elem body (l, d1))
        (\<lambda>s. with_locals (fst s) (Dissector_ExitContainer (snd s))))
      (\<lambda>err s. err = 0 \<longrightarrow> keeps d (snd s) \<and>
        ElementType (snd s) = kTLVElementType_NotSpecified \<and> mLastItem (snd s) = mLastItem d \<and>
        mElemStart (snd s) = mElemStart d \<and> mElemLen (snd s) = mElemLen d)"
      by (rule returns_SuccessOrExit) (use exit [OF d1(4,2,3)] in auto)
  qed simp_all
qed

context element_handler
begin

text \<open>A list whose elements a handler takes is itself taken.\<close>

lemma list_body_keeps:
  "dissector_inv d \<Longrightarrow>
     returns (AddListItem_body h listTree (l, d)) (\<lambda>err s. err = 0 \<longrightarrow> keeps d (snd s))"
  unfolding AddListItem_body_def fst_conv snd_conv
  by (rule SuccessOrExit_with_locals, rule returns_mono [OF handles]) auto

lemma AddListItem_keeps:
  assumes inv: "dissector_inv d"
  shows "returns (AddListItem E tree hf ett h d) (\<lambda>err d'. err = 0 \<longrightarrow> keeps d d')"
  unfolding AddListItem_def
proof (rule returns_VerifyOrExit)
  obtain err listTree d1 where s: "AddSubTreeItem tree hf ett None d = (err, listTree, d1)"
    by (metis prod_cases3)
  note S = AddSubTreeItem_keeps [OF s inv]
  obtain err' s' where c: "in_container E (AddListItem_body h listTree) (0, d1) = Some (err', s')"
    "err' = 0 \<longrightarrow> keeps d1 (snd s')"
    using in_container_keeps [where E = E and l = 0 and body = "AddListItem_body h listTree",
        OF keeps_inv [OF S(1)] list_body_keeps]
    by (auto simp: returns_def)
  show "returns (case AddSubTreeItem tree hf ett None d of (err, listTree, d) \<Rightarrow>
        if err \<noteq> MATTER_NO_ERROR then Some (err, d)
        else
          (let listItem = LastItem d in
           case in_container E (AddListItem_body h listTree) (0, d) of None \<Rightarrow> None
           | Some (err, elemCount, d) \<Rightarrow>
               if err \<noteq> MATTER_NO_ERROR then Some (err, d)
               else
                 Some (MATTER_NO_ERROR,
                   if listItem \<noteq> None
                   then emit (ProtoAppendText listItem ('' (len = '' @ dec (unat elemCount) @ '')'')) d
                   else d))) (\<lambda>err d'. err = 0 \<longrightarrow> keeps d d')"
    using s c keeps_trans [OF S(1)]
    by (cases s') (auto simp: Let_def)
qed simp

end

end
