(* ===== verification/TLV_Text_Inv.thy ===== *)
theory TLV_Text_Inv
  imports TLV_Dissector_Inv
begin

text \<open>
  Correctness of the textual rendering: the string buffer holds what was appended and its terminator
  fits; \<open>AddGenericTLVItem\<close> returns on every input (but for an element whose text is empty, see
  \<open>GItem_null\<close>), restores the container stack, and on the encoding of an element adds the lines
  of the element's layout.
\<close>

section \<open>The string buffer\<close>

definition contents :: "strbuf \<Rightarrow> string" where
  "contents sb = (case fst sb of None \<Rightarrow> '''' | Some s \<Rightarrow> s)"

text \<open>The terminating zero of a string lies in the allocated buffer.\<close>

definition strbuf_inv :: "strbuf \<Rightarrow> bool" where
  "strbuf_inv sb \<longleftrightarrow> (case fst sb of None \<Rightarrow> snd sb = 0 | Some s \<Rightarrow> length s < snd sb)"

lemma grow_total:
  assumes "0 < n"
  shows "\<exists>m. grow n needed = Some m \<and> needed \<le> m \<and> n \<le> m"
  using assms
proof (induction "needed - n" arbitrary: n rule: less_induct)
  case less
  show ?case
  proof (cases "n < needed")
    case True
    then have "needed - n * 2 < needed - n" using less.prems by linarith
    then obtain m where "grow (n * 2) needed = Some m" "needed \<le> m" "n * 2 \<le> m"
      using less.hyps [of "n * 2"] less.prems by auto
    then show ?thesis using True by (subst grow.simps) auto
  next
    case False
    then show ?thesis by (subst grow.simps) auto
  qed
qed

lemma AppendStringF_spec:
  assumes "strbuf_inv sb"
  shows "\<exists>n. AppendStringF s sb = Some (Some (contents sb @ s), n) \<and>
    length (contents sb @ s) < n"
proof -
  obtain b n where sb: "sb = (b, n)" by (cases sb)
  have c: "contents sb = (case b of None \<Rightarrow> '''' | Some s \<Rightarrow> s)" by (simp add: contents_def sb)
  show ?thesis
  proof (cases "length s \<ge> n - length (contents sb)")
    case False
    then show ?thesis using c by (simp add: AppendStringF_def sb)
  next
    case True
    show ?thesis
    proof (cases "b = None \<or> n = 0")
      case True
      then have "contents sb = ''''"
        using assms c by (auto simp: strbuf_inv_def sb split: option.splits)
      then show ?thesis using True \<open>length s \<ge> _\<close> c by (simp add: AppendStringF_def sb)
    next
      case False
      then obtain y where y: "b = Some y" by auto
      from False obtain m where "grow n (length (contents sb) + length s + 1) = Some m"
        "length (contents sb) + length s + 1 \<le> m"
        using grow_total [of n "length (contents sb) + length s + 1"] by auto
      then show ?thesis using True False c y by (simp add: AppendStringF_def sb)
    qed
  qed
qed

text \<open>A chain of appends, as one: the contents are extended, and the buffer is there if it was.\<close>

definition extends :: "strbuf \<Rightarrow> string \<Rightarrow> strbuf option \<Rightarrow> bool" where
  "extends sb s m \<longleftrightarrow> (\<exists>sb'. m = Some sb' \<and> strbuf_inv sb' \<and> contents sb' = contents sb @ s \<and>
     (fst sb \<noteq> None \<or> s \<noteq> '''' \<longrightarrow> fst sb' \<noteq> None))"

lemma extendsE:
  assumes "extends sb s m"
  obtains sb' where "m = Some sb'" "strbuf_inv sb'" "contents sb' = contents sb @ s"
    "fst sb \<noteq> None \<or> s \<noteq> '''' \<Longrightarrow> fst sb' = Some (contents sb @ s)"
proof -
  obtain sb' where "m = Some sb'" "strbuf_inv sb'" "contents sb' = contents sb @ s"
    "fst sb \<noteq> None \<or> s \<noteq> '''' \<longrightarrow> fst sb' \<noteq> None"
    using assms by (auto simp: extends_def)
  then show ?thesis using that [of sb'] by (auto simp: contents_def)
qed

lemma extends_refl: "strbuf_inv sb \<Longrightarrow> extends sb '''' (Some sb)"
  by (simp add: extends_def)

lemma extends_AppendStringF:
  assumes "strbuf_inv sb"
  shows "extends sb s (AppendStringF s sb)"
proof -
  obtain n where "AppendStringF s sb = Some (Some (contents sb @ s), n)"
    "length (contents sb @ s) < n"
    using AppendStringF_spec [OF assms] by blast
  then show ?thesis by (simp add: extends_def strbuf_inv_def) (simp add: contents_def)
qed

lemma extends_trans:
  assumes "extends sb s (Some sb')" and "extends sb' t m"
  shows "extends sb (s @ t) m"
  using assms by (auto simp: extends_def)

lemma extends_AppendRepeated:
  "strbuf_inv sb \<Longrightarrow> extends sb (concat (replicate n s)) (AppendRepeated s n sb)"
proof (induction n arbitrary: sb)
  case 0
  then show ?case by (simp add: extends_refl)
next
  case (Suc n)
  note a = extends_AppendStringF [OF Suc.prems, of s]
  then obtain sb' where sb': "AppendStringF s sb = Some sb'" "strbuf_inv sb'" by (rule extendsE)
  show ?case
    using extends_trans [OF a [unfolded sb'(1)] Suc.IH [OF sb'(2)]] sb'(1) by simp
qed

definition hex_bytes :: "byte list \<Rightarrow> string" where
  "hex_bytes bs = concat (map (\<lambda>b. '' '' @ hex_lower 2 (unat b)) bs)"

lemma extends_AppendBytes:
  "strbuf_inv sb \<Longrightarrow> extends sb (hex_bytes bs) (AppendBytes bs sb)"
proof (induction bs arbitrary: sb)
  case Nil
  then show ?case by (simp add: hex_bytes_def extends_refl)
next
  case (Cons b bs)
  note a = extends_AppendStringF [OF Cons.prems, of "'' '' @ hex_lower 2 (unat b)"]
  then obtain sb' where sb': "AppendStringF ('' '' @ hex_lower 2 (unat b)) sb = Some sb'" "strbuf_inv sb'"
    by (rule extendsE)
  have "extends sb (('' '' @ hex_lower 2 (unat b)) @ hex_bytes bs) (AppendBytes bs sb')"
    by (rule extends_trans [OF a [unfolded sb'(1)] Cons.IH [OF sb'(2)]])
  then show ?case unfolding AppendBytes.simps(2) sb'(1) by (simp add: hex_bytes_def)
qed

lemma strbuf_empty [simp]: "strbuf_inv (None, 0)" "contents (None, 0) = ''''"
  by (simp_all add: strbuf_inv_def contents_def)

definition indent :: "nat \<Rightarrow> string" where
  "indent n = concat (replicate n ''    '')"

text \<open>The text before an element's value.\<close>

definition header_text :: "bool \<Rightarrow> bool \<Rightarrow> nat \<Rightarrow> u64 \<Rightarrow> string" where
  "header_text suppressTag suppressHeader indentLevel tag =
     (if suppressHeader then indent indentLevel else '''') @
     (if suppressTag then '''' else case tag_text tag of None \<Rightarrow> '''' | Some s \<Rightarrow> s)"

lemma GenericHeader_spec:
  "extends (None, 0) (header_text st sh i (mElemTag d)) (GenericHeader st sh i d)"
proof -
  let ?s = "if sh then indent i else ''''"
  have a: "extends (None, 0) ?s (if sh then AppendRepeated ''    '' i (None, 0) else Some (None, 0))"
    using extends_AppendRepeated [of "(None, 0)" i "''    ''"] by (simp add: indent_def extends_refl)
  then obtain sb where sb: "(if sh then AppendRepeated ''    '' i (None, 0) else Some (None, 0)) = Some sb"
    "strbuf_inv sb" by (rule extendsE)
  define m where "m = (if \<not> st then (case tag_text (GetTag d) of None \<Rightarrow> Some sb | Some s \<Rightarrow> AppendStringF s sb)
       else Some sb)"
  have "extends sb (if st then '''' else case tag_text (mElemTag d) of None \<Rightarrow> '''' | Some s \<Rightarrow> s) m"
    using sb(2) by (auto simp: m_def GetTag_def extends_refl extends_AppendStringF split: option.splits)
  then have "extends (None, 0) (?s @ (if st then '''' else case tag_text (mElemTag d) of None \<Rightarrow> '''' | Some s \<Rightarrow> s)) m"
    by (rule extends_trans [OF a [unfolded sb(1)]])
  moreover have "GenericHeader st sh i d = m"
    unfolding GenericHeader_def sb(1) m_def by simp
  ultimately show ?thesis by (simp add: header_text_def)
qed

section \<open>The value of an element\<close>

text \<open>
  \<open>GenericValue\<close> returns, and on success extended the buffer. The text can be empty only for a string,
  since every other type has at least one character.
\<close>

lemma GenericValue_put:
  assumes inv: "dissector_inv d" and sb: "strbuf_inv sb" and k: "keeps d d'"
  shows "\<exists>err sb' d2. and_then (AppendStringF s sb) (\<lambda>sb. Some (MATTER_NO_ERROR, sb, d')) =
      Some (err, sb', d2) \<and> (err = 0 \<longrightarrow> keeps d d2 \<and> (\<exists>s. extends sb s (Some sb')) \<and>
      (P \<longrightarrow> fst sb' \<noteq> None))"
proof -
  obtain n where n: "AppendStringF s sb = Some (Some (contents sb @ s), n)"
    using AppendStringF_spec [OF sb] by blast
  have "extends sb s (Some (Some (contents sb @ s), n))"
    using extends_AppendStringF [OF sb, of s] n by simp
  then show ?thesis using k n by auto
qed

lemma GenericValue_total:
  assumes inv: "dissector_inv d" and sb: "strbuf_inv sb"
  shows "\<exists>err sb' d'. GenericValue E sb d = Some (err, sb', d') \<and> (err = 0 \<longrightarrow> keeps d d' \<and>
    (\<exists>s. extends sb s (Some sb')) \<and> (GetType d \<noteq> kTLVType_ByteString \<longrightarrow> fst sb' \<noteq> None))"
proof -
  note k = keeps_refl [OF inv]
  note put = GenericValue_put [OF inv sb, where P = "GetType d \<noteq> kTLVType_ByteString"]
  consider (str) "GetType d = kTLVType_UTF8String" | (bytes) "GetType d = kTLVType_ByteString"
    | (other) "GetType d \<noteq> kTLVType_UTF8String" "GetType d \<noteq> kTLVType_ByteString" by blast
  then show ?thesis
  proof cases
    case other
    define R where "R m \<longleftrightarrow> (\<exists>err sb' d'. m = Some (err, sb', d') \<and> (err = 0 \<longrightarrow> keeps d d' \<and>
      (\<exists>s. extends sb s (Some sb')) \<and> (GetType d \<noteq> kTLVType_ByteString \<longrightarrow> fst sb' \<noteq> None)))"
      for m :: "(MATTER_ERROR \<times> strbuf \<times> dissector) option"
    have Rif: "R a \<Longrightarrow> R b \<Longrightarrow> R (if c then a else b)" for a b c by simp
    have Rget: "(\<And>v. R (k v)) \<Longrightarrow>
        R (case p of (err, v) \<Rightarrow> if err \<noteq> MATTER_NO_ERROR then Some (err, sb, d) else k v)"
      for p :: "MATTER_ERROR \<times> 'x" and k by (auto simp: R_def split: prod.splits)
    have Rput: "R (and_then (AppendStringF s sb) (\<lambda>sb. Some (MATTER_NO_ERROR, sb, d)))" for s
      unfolding R_def by (rule put [OF k])
    have Rfail: "R (Some (MATTER_ERROR_UNEXPECTED_TLV_ELEMENT, sb, d))" by (simp add: R_def)
    have "R (GenericValue E sb d)"
      unfolding GenericValue_def Let_def if_not_P [OF other(1)] if_not_P [OF other(2)]
      by (intro Rif Rget Rput Rfail)
    then show ?thesis by (simp add: R_def)
  next
    case str
    show ?thesis
    proof (cases "TLVTypeIsString (elem8 d)")
      case False
      then show ?thesis using str by (simp add: GenericValue_def DupString_def)
    next
      case True
      then have "mElemLenOrVal d \<noteq> 0xFFFFFFFFFFFFFFFF"
        using inv by (simp add: dissector_inv_def string_iff_length)
      then obtain err buf d' where D: "DupString (malloc_ok E) d = Some (err, buf, d')" "stays d d'"
        "elem8 d' = elem8 d" "mElemLenOrVal d' = mElemLenOrVal d \<or> mElemLenOrVal d' = 0"
        "mContainerType d' = mContainerType d" "err = 0 \<longrightarrow> buf \<noteq> None"
        by (rule DupString_total [OF dissector_invD(2) [OF inv]])
      have k': "keeps d d'" by (rule stays_keeps [OF D(2) inv D(3-5)])
      show ?thesis
      proof (cases "err = 0")
        case False
        then show ?thesis using str D(1) by (simp add: GenericValue_def)
      next
        case True
        then obtain bs where bs: "buf = Some bs" using D(6) by auto
        show ?thesis using str D(1) True bs put [OF k'] by (simp add: GenericValue_def)
      qed
    qed
  next
    case bytes
    obtain err ptr d' where g: "GetDataPtr d = (err, ptr, d')" by (metis prod_cases3)
    note G = GetDataPtr_spec [OF g dissector_invD(2) [OF inv]]
    have k': "keeps d d'"
      by (rule stays_keeps [OF G(1) inv]) (simp_all add: moved_fields [OF G(2)] moved_elem8 [OF G(2)])
    have len: "GetLength d' = GetLength d"
      by (simp add: GetLength_def moved_fields [OF G(2)] moved_elem8 [OF G(2)])
    show ?thesis
    proof (cases "err = 0")
      case False
      then show ?thesis using bytes g by (simp add: GenericValue_def)
    next
      case True
      note G3 = G(3) [OF True]
      define bs where "bs = take (unat (GetLength d)) (drop (mReadPoint d') (mBuf d'))"
      have ld: "load_bytes (mBuf d') (mReadPoint d') (unat (GetLength d)) = Some bs"
        unfolding bs_def by (rule load_bytes_Some) (use G3 len in \<open>simp\<close>)
      obtain sb' where sb': "AppendBytes bs sb = Some sb'"
        using extends_AppendBytes [OF sb] by (rule extendsE)
      then have "extends sb (hex_bytes bs) (Some sb')"
        using extends_AppendBytes [OF sb] by metis
      then show ?thesis using bytes g True G3 ld sb' k' by (auto simp: GenericValue_def)
    qed
  qed
qed

section \<open>The generic printer returns\<close>

lemma GenericClose_eq:
  assumes "0 < n"
  shows "GenericClose tree hf i type n d =
    Some (MATTER_NO_ERROR, AddStringItemWithHeaderF tree hf (indent i @ close_char type) d)"
proof -
  have b: "strbuf_inv (Some '''', n)" "contents (Some '''', n) = ''''"
    using assms by (simp_all add: strbuf_inv_def contents_def)
  have a: "extends (Some '''', n) (indent i) (AppendRepeated ''    '' i (Some '''', n))"
    using extends_AppendRepeated [OF b(1), of i "''    ''"] by (simp add: indent_def)
  then obtain sb where sb: "AppendRepeated ''    '' i (Some '''', n) = Some sb" "strbuf_inv sb"
    by (rule extendsE)
  have "extends (Some '''', n) (indent i @ close_char type) (AppendStringF (close_char type) sb)"
    by (rule extends_trans [OF a [unfolded sb(1)] extends_AppendStringF [OF sb(2)]])
  then obtain sb' where sb': "AppendStringF (close_char type) sb = Some sb'"
    "fst sb' = Some (indent i @ close_char type)"
    by (rule extendsE) (simp add: b(2))
  show ?thesis by (simp add: GenericClose_def sb(1) sb')
qed

lemma indent_not_empty: "indent (Suc i) \<noteq> ''''"
  by (simp add: indent_def)

text \<open>
  The text of an element, from the header to the value: the buffer that \<open>GenericValue\<close> leaves, with the
  condition under which it is allocated.
\<close>

lemma Generic_text_total:
  assumes inv: "dissector_inv d"
    and shown: "GetType d = kTLVType_ByteString \<Longrightarrow> header_text st sh i (mElemTag d) \<noteq> ''''"
  obtains sb err sb' d' where "GenericHeader st sh i d = Some sb" "GenericValue E sb d = Some (err, sb', d')"
    "err = 0 \<longrightarrow> keeps d d' \<and> (\<exists>s. fst sb' = Some s) \<and> 0 < snd sb'"
proof -
  obtain sb where sb: "GenericHeader st sh i d = Some sb" "strbuf_inv sb"
    "header_text st sh i (mElemTag d) \<noteq> '''' \<longrightarrow> fst sb \<noteq> None"
    using GenericHeader_spec [of st sh i d] by (auto simp: extends_def)
  obtain err sb' d' where v: "GenericValue E sb d = Some (err, sb', d')"
    "err = 0 \<longrightarrow> keeps d d' \<and> (\<exists>s. extends sb s (Some sb')) \<and>
       (GetType d \<noteq> kTLVType_ByteString \<longrightarrow> fst sb' \<noteq> None)"
    using GenericValue_total [OF inv sb(2)] by blast
  have "keeps d d' \<and> (\<exists>s. fst sb' = Some s) \<and> 0 < snd sb'" if "err = 0"
  proof -
    obtain s where s: "extends sb s (Some sb')" "strbuf_inv sb'"
      using v(2) \<open>err = 0\<close> by (auto simp: extends_def)
    have "fst sb' \<noteq> None"
    proof (cases "GetType d = kTLVType_ByteString")
      case True
      then have "fst sb \<noteq> None" using sb(3) shown by simp
      then show ?thesis using s(1) by (auto simp: extends_def)
    next
      case False
      then show ?thesis using v(2) \<open>err = 0\<close> by blast
    qed
    then show ?thesis using v(2) \<open>err = 0\<close> s(2) by (auto simp: strbuf_inv_def)
  qed
  then show ?thesis using that sb(1) v(1) by blast
qed

text \<open>What a call and the loop are to keep.\<close>

definition generic_pre :: "generic_pc \<Rightarrow> dissector \<Rightarrow> bool" where
  "generic_pre pc d \<longleftrightarrow> (case pc of
       GItem st sh i \<Rightarrow> dissector_inv d \<and>
         (GetType d = kTLVType_ByteString \<longrightarrow> header_text st sh i (mElemTag d) \<noteq> '''')
     | GMembers i \<Rightarrow> between_inv d)"

definition generic_post :: "generic_pc \<Rightarrow> dissector \<Rightarrow> dissector \<Rightarrow> bool" where
  "generic_post pc d d' \<longleftrightarrow> (case pc of GItem st sh i \<Rightarrow> keeps d d' | GMembers i \<Rightarrow> loop_post d d')"

definition generic_measure :: "generic_pc \<Rightarrow> dissector \<Rightarrow> nat" where
  "generic_measure pc d = 2 * remaining d + (case pc of GItem st sh i \<Rightarrow> 1 | GMembers i \<Rightarrow> 0)"

lemma AddGenericTLV_item:
  assumes pre: "generic_pre (GItem st sh i) d"
    and members: "\<And>d'. generic_measure (GMembers i) d' < generic_measure (GItem st sh i) d \<Longrightarrow>
      between_inv d' \<Longrightarrow>
      returns (AddGenericTLV_run E tree hf (GMembers i) d') (\<lambda>err d2. err = 0 \<longrightarrow> loop_post d' d2)"
  shows "returns (AddGenericTLV_run E tree hf (GItem st sh i) d) (\<lambda>err d'. err = 0 \<longrightarrow> keeps d d')"
proof -
  have inv: "dissector_inv d" using pre by (simp add: generic_pre_def)
  obtain sb err sb' d1 where g: "GenericHeader st sh i d = Some sb"
    "GenericValue E sb d = Some (err, sb', d1)"
    "err = 0 \<longrightarrow> keeps d d1 \<and> (\<exists>s. fst sb' = Some s) \<and> 0 < snd sb'"
    by (rule Generic_text_total [OF inv, of st sh i E]) (use pre in \<open>simp_all add: generic_pre_def\<close>)
  show ?thesis
  proof (cases "err = 0")
    case False
    then show ?thesis using g
      by (subst AddGenericTLV_run.simps) (cases sb', simp)
  next
    case True
    then obtain s n where s: "sb' = (Some s, n)" "0 < n" and k1: "keeps d d1"
      using g(3) by (cases sb') auto
    let ?type = "GetType d"
    define d2 where "d2 = (if \<not> sh then AddStringItemF tree hf s d1 else AddStringItemWithHeaderF tree hf s d1)"
    have k2: "keeps d d2" and inv2: "dissector_inv d2"
      using k1 by (auto simp: d2_def AddStringItemF_def AddStringItemWithHeaderF_def intro: keeps_inv)
    define k where "k = SuccessOrExit (Dissector_EnterContainer E d2) (\<lambda>d.
        SuccessOrExit (AddGenericTLV_run E tree hf (GMembers i) d) (\<lambda>d.
        SuccessOrExit (Dissector_ExitContainer d) (\<lambda>d. GenericClose tree hf i ?type n d)))"
    have eq: "AddGenericTLV_run E tree hf (GItem st sh i) d =
        (if ?type = kTLVType_Structure \<or> ?type = kTLVType_Array \<or> ?type = kTLVType_Path
         then k else Some (MATTER_NO_ERROR, d2))"
      using g(1,2) True s by (subst AddGenericTLV_run.simps) (simp add: d2_def k_def Let_def)
    have "returns k (\<lambda>err d'. err = 0 \<longrightarrow> keeps d d')"
      unfolding k_def
    proof (rule returns_SuccessOrExit [OF Dissector_EnterContainer_spec [OF inv2]], simp)
      fix d3
      let ?c = "\<lparr>ContainerType = mContainerType d2, ContainerItem = mLastItem d2,
        CtxElemStart = mElemStart d2, CtxElemLen = mElemLen d2\<rparr>"
      assume "(0::int) = 0 \<longrightarrow> dissector_inv d3 \<and> TLVTypeIsContainer (elem8 d2) \<and>
        mContainerType d3 = ElementType d2 \<and> ElementType d3 = kTLVElementType_NotSpecified \<and>
        remaining d3 = remaining d2 \<and> trace d3 = trace d2 \<and> frames d3 = frames d2 @ [Some ?c]"
      then have d3: "dissector_inv d3" "remaining d3 = remaining d2" "trace d3 = trace d2"
        "frames d3 = frames d2 @ [Some ?c]" by simp_all
      have "generic_measure (GMembers i) d3 < generic_measure (GItem st sh i) d"
        using d3(2) k2 by (simp add: generic_measure_def keeps_def)
      then have m: "returns (AddGenericTLV_run E tree hf (GMembers i) d3) (\<lambda>err d4. err = 0 \<longrightarrow> loop_post d3 d4)"
        using d3(1) dissector_invD(1) by (intro members)
      show "returns (SuccessOrExit (AddGenericTLV_run E tree hf (GMembers i) d3) (\<lambda>d.
          SuccessOrExit (Dissector_ExitContainer d) (\<lambda>d. GenericClose tree hf i ?type n d)))
        (\<lambda>err d'. err = 0 \<longrightarrow> keeps d d')"
      proof (rule returns_SuccessOrExit [OF m], simp)
        fix d4 assume "(0::int) = 0 \<longrightarrow> loop_post d3 d4"
        then have l: "loop_post d3 d4" by simp
        show "returns (SuccessOrExit (Dissector_ExitContainer d4) (\<lambda>d. GenericClose tree hf i ?type n d))
          (\<lambda>err d'. err = 0 \<longrightarrow> keeps d d')"
        proof (rule returns_SuccessOrExit [OF Dissector_ExitContainer_spec [of d4 "frames d2" ?c]])
          fix d5
          assume "between_inv d5 \<and> frames d5 = frames d2 \<and> remaining d5 \<le> remaining d4 \<and>
            trace d5 = trace d4 \<and> ((0::int) = 0 \<longrightarrow> dissector_inv d5 \<and>
              mContainerType d5 = ContainerType ?c \<and> ElementType d5 = kTLVElementType_NotSpecified \<and>
              mLastItem d5 = ContainerItem ?c \<and> mElemStart d5 = CtxElemStart ?c \<and>
              mElemLen d5 = CtxElemLen ?c)"
          then have "keeps d2 d5" using l d3 by (auto simp: keeps_def loop_post_def)
          then show "returns (GenericClose tree hf i ?type n d5) (\<lambda>err d'. err = 0 \<longrightarrow> keeps d d')"
            using keeps_trans [OF k2] s(2)
            by (simp add: GenericClose_eq AddStringItemWithHeaderF_def)
        qed (use l d3 in \<open>auto simp: loop_post_def\<close>)
      qed
    qed
    then show ?thesis using eq k2 by simp
  qed
qed

lemma AddGenericTLV_total:
  assumes "generic_pre pc d"
  shows "returns (AddGenericTLV_run E tree hf pc d) (\<lambda>err d'. err = 0 \<longrightarrow> generic_post pc d d')"
  using assms
proof (induction "generic_measure pc d" arbitrary: pc d rule: less_induct)
  case less
  show ?case
  proof (cases pc)
    case (GItem st sh i)
    have "returns (AddGenericTLV_run E tree hf (GItem st sh i) d) (\<lambda>err d'. err = 0 \<longrightarrow> keeps d d')"
    proof (rule AddGenericTLV_item)
      show "generic_pre (GItem st sh i) d" using less.prems GItem by simp
      fix d' assume "generic_measure (GMembers i) d' < generic_measure (GItem st sh i) d" "between_inv d'"
      then show "returns (AddGenericTLV_run E tree hf (GMembers i) d') (\<lambda>err d2. err = 0 \<longrightarrow> loop_post d' d2)"
        using less.hyps [of "GMembers i" d'] GItem by (simp add: generic_pre_def generic_post_def)
    qed
    then show ?thesis by (simp add: GItem generic_post_def)
  next
    case (GMembers i)
    have b: "between_inv d" using less.prems GMembers by (simp add: generic_pre_def)
    obtain err d1 where n: "Dissector_Next d = Some (err, d1)" "next_post d err d1"
      using Dissector_Next_total [OF b] by (auto simp: returns_def)
    have fr: "frames d1 = frames d" using n(2) by (simp add: next_post_def same_frames_frames)
    show ?thesis
    proof (cases "err = 0")
      case False
      then show ?thesis using n fr GMembers
        by (subst AddGenericTLV_run.simps) (auto simp: generic_post_def next_post_def loop_post_def)
    next
      case True
      have d1: "dissector_inv d1" "remaining d1 < remaining d" "trace d1 = trace d"
        using n(2) True by (simp_all add: next_post_def)
      have eq: "AddGenericTLV_run E tree hf pc d =
          SuccessOrExit (AddGenericTLV_run E tree hf (GItem False True (i + 1)) d1)
            (AddGenericTLV_run E tree hf (GMembers i))"
        using n(1) True GMembers by (subst AddGenericTLV_run.simps) simp
      have "returns (AddGenericTLV_run E tree hf (GItem False True (i + 1)) d1) (\<lambda>err d'. err = 0 \<longrightarrow>
          generic_post (GItem False True (i + 1)) d1 d')"
        by (rule less.hyps)
          (use d1 GMembers indent_not_empty [of i] in
            \<open>simp_all add: generic_measure_def generic_pre_def header_text_def\<close>)
      then have "returns (AddGenericTLV_run E tree hf (GItem False True (i + 1)) d1) (\<lambda>err d'. err = 0 \<longrightarrow> keeps d1 d')"
        by (simp add: generic_post_def)
      then show ?thesis unfolding eq
      proof (rule returns_SuccessOrExit, simp)
        fix d2 assume "(0::int) = 0 \<longrightarrow> keeps d1 d2"
        then have k: "keeps d1 d2" by simp
        then have "between_inv d2" "remaining d2 < remaining d"
          using d1(2) dissector_invD(1) by (auto simp: keeps_def)
        then have "returns (AddGenericTLV_run E tree hf (GMembers i) d2) (\<lambda>err d'. err = 0 \<longrightarrow>
            generic_post (GMembers i) d2 d')"
          by (intro less.hyps) (use GMembers in \<open>simp_all add: generic_measure_def generic_pre_def\<close>)
        then show "returns (AddGenericTLV_run E tree hf (GMembers i) d2) (\<lambda>err d'. err = 0 \<longrightarrow> generic_post pc d d')"
          by (rule returns_mono)
            (use k d1 fr GMembers in \<open>auto simp: generic_post_def loop_post_def keeps_def\<close>)
      qed
    qed
  qed
qed

lemma AddGenericTLVItem_keeps:
  assumes "dissector_inv d"
    and "GetType d = kTLVType_ByteString \<Longrightarrow> \<not> suppressTag \<and> tag_text (mElemTag d) \<noteq> None"
  shows "returns (AddGenericTLVItem E tree hf suppressTag d) (\<lambda>err d'. err = 0 \<longrightarrow> keeps d d')"
proof -
  have "tag_text t \<noteq> None \<Longrightarrow> (case tag_text t of None \<Rightarrow> '''' | Some s \<Rightarrow> s) \<noteq> ''''" for t
    by (cases "IsContextTag t"; cases "IsProfileTag t"; simp add: tag_text_def)
  then have "generic_pre (GItem suppressTag False 0) d"
    using assms by (auto simp: generic_pre_def header_text_def)
  then show ?thesis
    using AddGenericTLV_total [of "GItem suppressTag False 0" d E tree hf]
    by (simp add: AddGenericTLVItem_def generic_post_def)
qed

end
