(* ===== verification/TLV_Layout.thy ===== *)
theory TLV_Layout
  imports TLV_Text_Inv
begin

text \<open>
  What \<open>AddGenericTLVItem\<close> shows for an element: the layout of an abstract element, and the refinement
  theorem that the printer adds exactly the layout's lines, each with the byte range of its element.
\<close>

section \<open>The layout of an element\<close>

definition value_text :: "env \<Rightarrow> byte \<Rightarrow> u64 \<Rightarrow> byte list \<Rightarrow> string" where
  "value_text E ty v bs =
     (let t = uint ty in
      if t = 0 then sdec (sint (ucast v :: byte))
      else if t = 1 then sdec (sint (ucast v :: u16))
      else if t = 2 then sdec (sint (ucast v :: u32))
      else if t = 3 then sdec (sint v)
      else if t \<le> 7 then dec (unat v)
      else if t = 8 then ''false''
      else if t = 9 then ''true''
      else if t = 10 then float_text E (OfFloat (ucast v))
      else if t = 11 then float_text E (OfDouble v)
      else if t \<le> 15 then ws_escape_string E (cstr bs)
      else if t \<le> 19 then hex_bytes bs
      else if t = 20 then ''null''
      else if t = 21 then ''{'' else if t = 22 then ''['' else ''<'')"

definition line :: "proto_tree \<Rightarrow> int \<Rightarrow> u32 \<Rightarrow> nat \<Rightarrow> nat \<Rightarrow> item_value \<Rightarrow> proto_call" where
  "line tree hf base start len v = ProtoAdd tree hf (of_nat start + base) (of_nat len) v"

text \<open>
  The lines of the element at offset \<open>start\<close>: one line for a leaf; for a container an opening line, the
  lines of its elements, one level deeper, and a closing line with the range of the whole container.
\<close>

fun layout :: "env \<Rightarrow> proto_tree \<Rightarrow> int \<Rightarrow> u32 \<Rightarrow> u32 \<Rightarrow> bool \<Rightarrow> bool \<Rightarrow> nat \<Rightarrow> nat \<Rightarrow> tlv \<Rightarrow> proto_call list"
  and layouts :: "env \<Rightarrow> proto_tree \<Rightarrow> int \<Rightarrow> u32 \<Rightarrow> u32 \<Rightarrow> nat \<Rightarrow> nat \<Rightarrow> tlv list \<Rightarrow> proto_call list" where
  "layout E tree hf base imp st sh i start (Leaf t ty v bs) =
     [line tree hf base start (length (encode (Leaf t ty v bs)))
        ((if sh then AddStringFormat else AddStringFormatValue)
           (header_text st sh i (tag_value imp t) @ value_text E ty v bs))]"
| "layout E tree hf base imp st sh i start (Node t ty es) =
     (let len = length (encode (Node t ty es)) in
      line tree hf base start len
        ((if sh then AddStringFormat else AddStringFormatValue)
           (header_text st sh i (tag_value imp t) @ value_text E ty 0 [])) #
      layouts E tree hf base imp (i + 1) (start + length (enc_head t ty 0)) es @
      [line tree hf base start len (AddStringFormat (indent i @ close_char (uint ty)))])"
| "layouts E tree hf base imp i start [] = []"
| "layouts E tree hf base imp i start (e # es) =
     layout E tree hf base imp False True i start e @
     layouts E tree hf base imp i (start + length (encode e)) es"

section \<open>On an element and behind it\<close>

definition elem_body :: "tlv \<Rightarrow> byte list" where
  "elem_body e = (case e of Leaf t ty v bs \<Rightarrow> bs | Node t ty es \<Rightarrow> encodes es @ [end_of_container])"

definition elem_head :: "tlv \<Rightarrow> byte list" where
  "elem_head e = enc_head (elem_tag e) (elem_type e) (elem_field e)"

lemma encode_split: "encode e = elem_head e @ elem_body e"
  by (cases e) (simp_all add: elem_head_def elem_body_def encode_Node)

text \<open>\<open>on_elem d e p\<close>: the head of \<open>e\<close> is loaded and marked, and its body and then \<open>p\<close> lie ahead.\<close>

definition on_elem :: "dissector \<Rightarrow> tlv \<Rightarrow> byte list \<Rightarrow> bool" where
  "on_elem d e p \<longleftrightarrow> dissector_inv d \<and> ahead d (elem_body e @ p) \<and>
     wf_tlv (ImplicitProfileId d) (mContainerType d) e \<and>
     ElementType d = uint (elem_type e) \<and> elem8 d = elem_type e \<and>
     mElemTag d = tag_value (ImplicitProfileId d) (elem_tag e) \<and> mElemLenOrVal d = elem_field e \<and>
     mElemStart d = of_nat (unat (mMaxLen d) - length (encode e @ p)) \<and>
     mElemLen d = of_nat (length (encode e)) \<and> length (encode e @ p) \<le> unat (mMaxLen d)"

text \<open>\<open>behind d p\<close>: at most the bytes of a loaded string are left before \<open>p\<close>.\<close>

definition behind :: "'a tlv_reader_scheme \<Rightarrow> byte list \<Rightarrow> bool" where
  "behind d p \<longleftrightarrow> (\<exists>bs. ahead d (bs @ p) \<and>
     (if TLVTypeHasLength (elem8 d) then unat (mElemLenOrVal d) = length bs else bs = []) \<and>
     \<not> TLVTypeIsContainer (elem8 d) \<and> ElementType d \<noteq> kTLVElementType_EndOfContainer)"

text \<open>\<open>same_place\<close>: the configuration of the dissector is as before.\<close>

definition same_config :: "dissector \<Rightarrow> dissector \<Rightarrow> bool" where
  "same_config d d' \<longleftrightarrow> ImplicitProfileId d' = ImplicitProfileId d \<and>
     mContainerType d' = mContainerType d \<and> mMaxLen d' = mMaxLen d \<and>
     mSourceBufBaseOffset d' = mSourceBufBaseOffset d"

lemma same_config_refl [simp]: "same_config d d"
  by (simp add: same_config_def)

lemma same_config_trans: "same_config d d' \<Longrightarrow> same_config d' d'' \<Longrightarrow> same_config d d''"
  by (simp add: same_config_def)

lemma ahead_more [simp]:
  "ahead (d\<lparr>mElemStart := a\<rparr>) p = ahead d p" "ahead (d\<lparr>mElemLen := b\<rparr>) p = ahead d p"
  "ahead (d\<lparr>mLastItem := c\<rparr>) p = ahead d p" "ahead (d\<lparr>trace := t\<rparr>) p = ahead d p"
  "ahead (d\<lparr>mContainerDepth := n\<rparr>) p = ahead d p"
  by (simp_all add: ahead_def)

lemma behind_more [simp]:
  "behind (d\<lparr>mLastItem := c\<rparr>) p = behind d p" "behind (d\<lparr>trace := t\<rparr>) p = behind d p"
  by (simp_all add: behind_def)

lemma behind_item [simp]:
  "behind (add_item tree hf v d) p = behind d p" "behind (emit c d) p = behind d p"
  by (simp_all add: add_item_def emit_def)

lemma Skip_behind:
  assumes "behind d p"
  obtains n where "Skip d = Some (MATTER_NO_ERROR, ClearElementState (advance n d))"
    "ahead (ClearElementState (advance n d)) p"
proof -
  obtain bs where bs: "ahead d (bs @ p)"
    "if TLVTypeHasLength (elem8 d) then unat (mElemLenOrVal d) = length bs else bs = []"
    "\<not> TLVTypeIsContainer (elem8 d)" "ElementType d \<noteq> kTLVElementType_EndOfContainer"
    using assms by (auto simp: behind_def)
  have "Skip d = Some (MATTER_NO_ERROR, ClearElementState (advance (length bs) d))"
    using bs SkipData_ahead [OF bs(1,2)] by (simp add: Skip_def)
  moreover have "ahead (ClearElementState (advance (length bs) d)) p"
    using ahead_advance [OF bs(1)] by simp
  ultimately show ?thesis by (rule that)
qed

lemma behind_clear:
  assumes "ahead d p" and "ElementType d = kTLVElementType_NotSpecified"
  shows "behind d p"
proof -
  have "elem8 d = - 1" using assms(2) by (simp add: elem8_def)
  then show ?thesis using assms no_element_type by (simp add: behind_def)
qed

lemma ahead_pos:
  assumes "ahead d p"
  shows "unat (mLenRead d) = unat (mMaxLen d) - length p" "length p \<le> unat (mMaxLen d)"
  using assms by (auto simp: ahead_def remaining_def reader_inv_def word_le_nat_alt)

lemma ahead_LenRead:
  assumes "ahead d p"
  shows "mLenRead d = of_nat (unat (mMaxLen d) - length p)"
  using ahead_pos(1) [OF assms] by (metis of_nat_unat ucast_id)

text \<open>\<open>Next\<close> from behind one element to the next.\<close>

lemma Dissector_Next_on_elem:
  assumes b: "behind d (encode e @ p)" and inv: "between_inv d"
    and wf: "wf_tlv (ImplicitProfileId d) (mContainerType d) e"
  shows "\<exists>d'. Dissector_Next d = Some (MATTER_NO_ERROR, d') \<and> on_elem d' e p \<and> same_config d d' \<and>
    same_frames d d' \<and> trace d' = trace d"
proof -
  let ?d = "d\<lparr>mLastItem := None\<rparr>"
  have "behind ?d (encode e @ p)" using b by simp
  then obtain n where s: "Skip ?d = Some (MATTER_NO_ERROR, ClearElementState (advance n ?d))"
    "ahead (ClearElementState (advance n ?d)) (encode e @ p)" by (rule Skip_behind)
  define d1 where "d1 = (ClearElementState (advance n ?d))
    \<lparr>mElemStart := mLenRead (ClearElementState (advance n ?d))\<rparr>"
  have d1: "ahead d1 (encode e @ p)" "ElementType d1 = kTLVElementType_NotSpecified"
    using s(2) by (simp_all add: d1_def)
  have f1: "ImplicitProfileId d1 = ImplicitProfileId d" "mContainerType d1 = mContainerType d"
    "mMaxLen d1 = mMaxLen d" "mSourceBufBaseOffset d1 = mSourceBufBaseOffset d"
    "mElemStart d1 = mLenRead d1" "trace d1 = trace d" "same_frames d d1"
    by (simp_all add: d1_def ClearElementState_def same_frames_def) (simp_all add: advance_def)
  have MS: "MarkElemStart (ClearElementState (advance n ?d)) = Some (MATTER_NO_ERROR, d1)"
    unfolding d1_def by (rule MarkElemStart_clear) simp
  define d2 where "d2 = ClearElementState d1"
  have d2: "ahead d2 (encode e @ p)" "mContainerType d2 = mContainerType d"
    "ImplicitProfileId d2 = ImplicitProfileId d" "tlv_reader.more d2 = tlv_reader.more d1"
    "mLenRead d2 = mLenRead d1" "mMaxLen d2 = mMaxLen d"
    using d1(1) f1 by (simp_all add: d2_def) (simp_all add: ClearElementState_def)
  have wf2: "wf_tlv (ImplicitProfileId d2) (mContainerType d2) e" using wf d2 by simp
  have N: "Next d1 = Some (MATTER_NO_ERROR, loaded e d2)"
    using Next_loaded [OF Skip_clear [OF d1(2)]] d2(1) wf2 by (simp add: d2_def)
  have K: "Skip (loaded e d2) = Some (MATTER_NO_ERROR, passed e d2)" by (rule Skip_encode [OF d2(1) wf2])
  define d3 where "d3 = (loaded e d2)\<lparr>mElemLen := mLenRead (passed e d2) - mElemStart (loaded e d2)\<rparr>"
  have m: "tlv_reader.more (loaded e d2) = tlv_reader.more d1"
    using d2(4) by (simp add: loaded_def)
  have len: "mLenRead (passed e d2) = mLenRead d1 + of_nat (length (encode e))"
    using d2(5) by (simp add: passed_def ClearElementState_def) (simp add: advance_def)
  have l: "mElemStart (loaded e d2) = mLenRead d1" using more_eq(2) [OF m] f1(5) by simp
  have D: "Dissector_Next d = Some (MATTER_NO_ERROR, d3)"
    using s(1) MS N K unfolding Dissector_Next_def d3_def
    by (simp add: MarkElemLength_def GetLengthRead_def)
  then have "returns (Dissector_Next d) (\<lambda>err d'. d' = d3 \<and> err = 0)" by simp
  then have post: "next_post d 0 d3" using Dissector_Next_total [OF inv] D by simp
  have "ahead (loaded e d2) (elem_body e @ p)"
    using ahead_after_head [of d2 "elem_tag e" "elem_type e" "elem_field e" "elem_body e @ p"] d2(1)
    by (simp add: loaded_def encode_split elem_head_def)
  then have "on_elem d3 e p"
    using post loaded_type [OF wf2, of d2] wf2 d2 l len ahead_LenRead [OF d1(1)] ahead_pos(2) [OF d1(1)] f1
    unfolding on_elem_def d3_def
    by (simp add: next_post_def) (simp add: loaded_def)
  moreover have "same_config d d3"
    using d2 more_eq(1) [OF m] f1 by (simp add: same_config_def d3_def) (simp add: loaded_def)
  ultimately show ?thesis using D post by (auto simp: next_post_def)
qed

section \<open>The value of a leaf\<close>

lemma GetType_leaf:
  assumes "ElementType r = k" and "0 \<le> k" and "k \<le> 20"
  shows "GetType r = (if k \<le> 3 then kTLVType_SignedInteger else if k \<le> 7 then kTLVType_UnsignedInteger
    else if k \<le> 9 then kTLVType_Boolean else if k \<le> 11 then kTLVType_FloatingPointNumber
    else if k \<le> 15 then kTLVType_UTF8String else if k \<le> 19 then kTLVType_ByteString
    else kTLVType_Null)"
proof -
  have "k = 0 \<or> k = 1 \<or> k = 2 \<or> k = 3 \<or> k = 4 \<or> k = 5 \<or> k = 6 \<or> k = 7 \<or> k = 8 \<or> k = 9 \<or> k = 10 \<or>
      k = 11 \<or> k = 12 \<or> k = 13 \<or> k = 14 \<or> k = 15 \<or> k = 16 \<or> k = 17 \<or> k = 18 \<or> k = 19 \<or> k = 20"
    using assms(2,3) by presburger
  then show ?thesis
    by (elim disjE; simp add: GetType_def assms(1))
qed

lemma GetType_bytes:
  assumes "ElementType r = k" and "0 \<le> k" and "k \<le> 20" and "GetType r = kTLVType_ByteString"
  shows "16 \<le> k \<and> k \<le> 19"
proof -
  consider "k \<le> 15" | "16 \<le> k" "k \<le> 19" | "k = 20" using assms(3) by linarith
  then show ?thesis
  proof cases
    case 1
    then have "GetType r \<noteq> kTLVType_ByteString"
      using GetType_leaf [OF assms(1-3)] by simp
    then show ?thesis using assms(4) by simp
  qed (use GetType_leaf [OF assms(1-3)] assms(4) in simp_all)
qed

lemma sint_scast_u64:
  "sint (scast (b :: byte) :: u64) = sint b"
  "sint (scast (h :: u16) :: u64) = sint h"
  "sint (scast (w :: u32) :: u64) = sint w"
  by (simp_all add: signed_scast_eq signed_take_bit_int_eq_self_iff)
    (use sint_range_size [of b] sint_range_size [of h] sint_range_size [of w] in
      \<open>auto simp: word_size\<close>)

text \<open>What \<open>GenericValue\<close> does on a leaf: its text is appended, and only the string is left to skip.\<close>

definition shows_value :: "strbuf \<Rightarrow> dissector \<Rightarrow> byte list \<Rightarrow> string \<Rightarrow>
    (MATTER_ERROR \<times> strbuf \<times> dissector) option \<Rightarrow> bool" where
  "shows_value sb d p s m \<longleftrightarrow> (\<exists>sb' d'. m = Some (MATTER_NO_ERROR, sb', d') \<and>
     extends sb s (Some sb') \<and> behind d' p \<and> same_config d d' \<and>
     tlv_reader.more d' = tlv_reader.more d)"

lemma shows_value_put:
  assumes "strbuf_inv sb" and "behind d' p" and "same_config d d'"
    and "tlv_reader.more d' = tlv_reader.more d"
  shows "shows_value sb d p s (and_then (AppendStringF s sb) (\<lambda>sb. Some (MATTER_NO_ERROR, sb, d')))"
proof -
  obtain sb' where sb': "AppendStringF s sb = Some sb'"
    using extends_AppendStringF [OF assms(1), of s] by (rule extendsE)
  then have "extends sb s (Some sb')" using extends_AppendStringF [OF assms(1), of s] by simp
  then show ?thesis using assms(2-4) by (simp add: shows_value_def sb')
qed

lemma unat_field_32:
  assumes "ahead r (bs @ p)" and "unat (v :: u64) = length bs"
  shows "unat (ucast v :: u32) = length bs"
  using ahead_length(2) [OF assms(1)] assms(2) unat_ucast_64_32 [of v] by simp

lemma DupString_ahead:
  assumes a: "ahead r (bs @ p)" and str: "TLVTypeIsString (elem8 r)" and v: "unat (mElemLenOrVal r) = length bs"
  shows "DupString (\<lambda>_. True) r =
    Some (MATTER_NO_ERROR, Some bs, (advance (length bs) r)\<lparr>mElemLenOrVal := 0\<rparr>)"
proof -
  have "mElemLenOrVal r \<noteq> 0xFFFFFFFFFFFFFFFF" using ahead_length(2) [OF a] v by auto
  then have l: "unat (mElemLenOrVal r + 1) = length bs + 1" using length_plus_1 [of r] v by simp
  have "ReadData (Some (unat (mElemLenOrVal r + 1))) (ucast (mElemLenOrVal r)) r =
      Some (MATTER_NO_ERROR, bs, advance (length bs) r)"
    using ReadData_ahead [OF a unat_field_32 [OF a v], of "Some (unat (mElemLenOrVal r + 1))"] l by simp
  then show ?thesis using str l v by (simp add: DupString_def)
qed

lemma GetDataPtr_ahead:
  assumes a: "ahead r (bs @ p)" and str: "TLVTypeIsString (elem8 r)"
    and v: "unat (mElemLenOrVal r) = length bs" and ne: "bs @ p \<noteq> []"
  shows "GetDataPtr r = (MATTER_NO_ERROR, Some (mReadPoint r), r)"
    and "load_bytes (mBuf r) (mReadPoint r) (unat (GetLength r)) = Some bs"
proof -
  note l = ahead_length [OF a]
  have "unat (word_of_int (buf_left r) :: u32) = length (bs @ p)"
    unfolding buf_left_def using l by (subst unat_word_of_int_32) auto
  then have "\<not> (word_of_int (buf_left r) :: u32) < ucast (mElemLenOrVal r)"
    using unat_field_32 [OF a v] by (simp add: word_less_nat_alt)
  then show "GetDataPtr r = (MATTER_NO_ERROR, Some (mReadPoint r), r)"
    using str EnsureData_ahead [OF a] ne by (simp add: GetDataPtr_def)
  show "load_bytes (mBuf r) (mReadPoint r) (unat (GetLength r)) = Some bs"
    using l str unat_field_32 [OF a v] ahead_drop [OF a]
    by (simp add: GetLength_def string_iff_length load_bytes_def)
qed

text \<open>The host allocates what it is asked for.\<close>

definition memory_ok :: "env \<Rightarrow> bool" where
  "memory_ok E \<longleftrightarrow> malloc_ok E = (\<lambda>_. True) \<and> realloc_ok E = (\<lambda>_. True)"

lemma GenericValue_leaf:
  assumes on: "on_elem d (Leaf t ty v bs) p" and E: "memory_ok E" and sb: "strbuf_inv sb"
    and ne: "uint ty \<ge> 16 \<Longrightarrow> uint ty \<le> 19 \<Longrightarrow> bs @ p \<noteq> []"
  shows "shows_value sb d p (value_text E ty v bs) (GenericValue E sb d)"
proof -
  have wf: "\<not> TLVTypeIsContainer ty" "uint ty < 24"
    "if TLVTypeHasLength ty then unat v = length bs else bs = []"
    and a: "ahead d (bs @ p)" and et: "ElementType d = uint ty" and e8: "elem8 d = ty"
    and vv: "mElemLenOrVal d = v"
    using on by (simp_all add: on_elem_def elem_body_def)
  have ty: "0 \<le> uint ty" "uint ty \<le> 20" using wf(1,2) by (auto simp: TLVTypeIsContainer_def)
  note T = GetType_leaf [OF et ty]
  have bh: "behind d p"
    using a wf et e8 vv unfolding behind_def by (intro exI [of _ bs]) simp
  note put = shows_value_put [OF sb bh same_config_refl refl]
  consider (num) "uint ty \<le> 11 \<or> uint ty = 20" | (str) "12 \<le> uint ty" "uint ty \<le> 15"
    | (bytes) "16 \<le> uint ty" "uint ty \<le> 19" using ty(2) by linarith
  then show ?thesis
  proof cases
    case num
    then have "uint ty = 0 \<or> uint ty = 1 \<or> uint ty = 2 \<or> uint ty = 3 \<or> uint ty = 4 \<or> uint ty = 5 \<or>
        uint ty = 6 \<or> uint ty = 7 \<or> uint ty = 8 \<or> uint ty = 9 \<or> uint ty = 10 \<or> uint ty = 11 \<or> uint ty = 20"
      using ty(1) by presburger
    then show ?thesis
      using put
      by (elim disjE; simp add: GenericValue_def T value_text_def Get_i64_def Get_u64_def Get_bool_def
          Get_double_def et vv sint_scast_u64)
  next
    case str
    have s: "TLVTypeIsString (elem8 d)" "unat (mElemLenOrVal d) = length bs"
      using str wf e8 vv by (simp_all add: TLVTypeIsString_def TLVTypeHasLength_def)
    let ?d = "(advance (length bs) d)\<lparr>mElemLenOrVal := 0\<rparr>"
    have "behind ?d p"
      using ahead_advance [OF a] wf(1,2) e8 et unfolding behind_def by (intro exI [of _ "[]"]) simp
    moreover have "same_config d ?d" using more_eq(1) [of ?d d] by (simp add: same_config_def)
    ultimately have "shows_value sb d p (ws_escape_string E (cstr bs))
        (and_then (AppendStringF (ws_escape_string E (cstr bs)) sb) (\<lambda>sb. Some (MATTER_NO_ERROR, sb, ?d)))"
      by (intro shows_value_put sb) simp_all
    then show ?thesis
      using str DupString_ahead [OF a s] E
      by (simp add: GenericValue_def T value_text_def memory_ok_def)
  next
    case bytes
    have s: "TLVTypeIsString (elem8 d)" "unat (mElemLenOrVal d) = length bs"
      using bytes wf e8 vv by (simp_all add: TLVTypeIsString_def TLVTypeHasLength_def)
    note G = GetDataPtr_ahead [OF a s ne [OF bytes]]
    obtain sb' where sb': "AppendBytes bs sb = Some sb'"
      using extends_AppendBytes [OF sb, of bs] by (rule extendsE)
    then have "extends sb (hex_bytes bs) (Some sb')" using extends_AppendBytes [OF sb, of bs] by simp
    then have "shows_value sb d p (hex_bytes bs) (Some (MATTER_NO_ERROR, sb', d))"
      using bh by (simp add: shows_value_def)
    then show ?thesis
      using bytes G sb' by (simp add: GenericValue_def T value_text_def)
  qed
qed

section \<open>The printer implements the layout\<close>

lemma GetType_node:
  assumes "TLVTypeIsContainer ty" and "ElementType r = uint ty"
  shows "GetType r = uint ty"
  using assms by (auto simp: GetType_def TLVTypeIsContainer_def)

lemma container_cases:
  assumes "TLVTypeIsContainer ty"
  obtains "uint ty = 21" | "uint ty = 22" | "uint ty = 23"
proof -
  have "uint ty = 21 \<or> uint ty = 22 \<or> uint ty = 23"
    using assms by (auto simp: TLVTypeIsContainer_def)
  then show ?thesis using that by blast
qed

text \<open>The text of an element, whatever it is, with the buffer and the dissector it leaves.\<close>

definition body_ok :: "bool \<Rightarrow> bool \<Rightarrow> nat \<Rightarrow> u32 \<Rightarrow> byte list \<Rightarrow> tlv \<Rightarrow> bool" where
  "body_ok st sh i imp p e \<longleftrightarrow> (case e of Node t ty es \<Rightarrow> True
     | Leaf t ty v bs \<Rightarrow> uint ty \<ge> 16 \<and> uint ty \<le> 19 \<longrightarrow> bs \<noteq> [] \<or>
         (p \<noteq> [] \<and> header_text st sh i (tag_value imp t) \<noteq> ''''))"

definition elem_text :: "env \<Rightarrow> tlv \<Rightarrow> string" where
  "elem_text E e = (case e of Leaf t ty v bs \<Rightarrow> value_text E ty v bs | Node t ty es \<Rightarrow> value_text E ty 0 [])"

lemma Generic_text_on_elem:
  assumes on: "on_elem d e p" and E: "memory_ok E" and ok: "body_ok st sh i (ImplicitProfileId d) p e"
  obtains sb n d1 where "GenericHeader st sh i d = Some sb"
    "GenericValue E sb d = Some (MATTER_NO_ERROR, (Some (header_text st sh i (mElemTag d) @ elem_text E e), n), d1)"
    "0 < n" "keeps d d1" "same_config d d1" "tlv_reader.more d1 = tlv_reader.more d"
    "case e of Leaf t ty v bs \<Rightarrow> behind d1 p | Node t ty es \<Rightarrow> d1 = d"
proof -
  have inv: "dissector_inv d" using on by (simp add: on_elem_def)
  obtain sb where sb: "GenericHeader st sh i d = Some sb" "strbuf_inv sb"
    "contents sb = header_text st sh i (mElemTag d)" "contents sb \<noteq> '''' \<longrightarrow> fst sb \<noteq> None"
    using GenericHeader_spec [of st sh i d] by (auto simp: extends_def)
  have S: "\<exists>sb' d1. GenericValue E sb d = Some (MATTER_NO_ERROR, sb', d1) \<and>
      extends sb (elem_text E e) (Some sb') \<and> same_config d d1 \<and>
      tlv_reader.more d1 = tlv_reader.more d \<and>
      (case e of Leaf t ty v bs \<Rightarrow> behind d1 p | Node t ty es \<Rightarrow> d1 = d)"
  proof (cases e)
    case (Leaf t ty v bs)
    have "shows_value sb d p (value_text E ty v bs) (GenericValue E sb d)"
      by (rule GenericValue_leaf [OF on [unfolded Leaf] E sb(2)]) (use ok Leaf in \<open>auto simp: body_ok_def\<close>)
    then show ?thesis using Leaf by (auto simp: shows_value_def elem_text_def)
  next
    case (Node t ty es)
    have ty: "TLVTypeIsContainer ty" and et: "ElementType d = uint ty"
      using on Node by (simp_all add: on_elem_def)
    obtain sb' where sb': "AppendStringF (value_text E ty 0 []) sb = Some sb'"
      using extends_AppendStringF [OF sb(2)] by (rule extendsE)
    have "extends sb (value_text E ty 0 []) (Some sb')"
      using extends_AppendStringF [OF sb(2), of "value_text E ty 0 []"] unfolding sb' .
    have g: "GenericValue E sb d = and_then (AppendStringF (value_text E ty 0 []) sb)
        (\<lambda>sb. Some (MATTER_NO_ERROR, sb, d))"
      using GetType_node [OF ty et]
      by (rule_tac container_cases [OF ty]) (simp_all add: GenericValue_def value_text_def)
    show ?thesis
      by (intro exI [of _ sb'] exI [of _ d] conjI)
        (simp_all add: g sb' \<open>extends sb _ (Some sb')\<close> Node elem_text_def)
  qed
  then obtain sb' d1 where v: "GenericValue E sb d = Some (MATTER_NO_ERROR, sb', d1)"
    "extends sb (elem_text E e) (Some sb')" "same_config d d1"
    "tlv_reader.more d1 = tlv_reader.more d"
    "case e of Leaf t ty v bs \<Rightarrow> behind d1 p | Node t ty es \<Rightarrow> d1 = d" by blast
  obtain err sb2 d2 where G: "GenericValue E sb d = Some (err, sb2, d2)" "err = 0 \<longrightarrow> keeps d d2 \<and>
    (GetType d \<noteq> kTLVType_ByteString \<longrightarrow> fst sb2 \<noteq> None)"
    using GenericValue_total [OF inv sb(2), of E] by blast
  have k: "keeps d d1" "GetType d \<noteq> kTLVType_ByteString \<longrightarrow> fst sb' \<noteq> None" using G v(1) by simp_all
  have "fst sb' \<noteq> None"
  proof (cases "GetType d = kTLVType_ByteString")
    case True
    have "contents sb \<noteq> '''' \<or> elem_text E e \<noteq> ''''"
    proof (cases e)
      case (Leaf t ty v bs)
      have et: "ElementType d = uint ty" "\<not> TLVTypeIsContainer ty" "uint ty < 24"
        "mElemTag d = tag_value (ImplicitProfileId d) t"
        using on Leaf by (simp_all add: on_elem_def)
      then have ty: "0 \<le> uint ty" "uint ty \<le> 20" by (auto simp: TLVTypeIsContainer_def)
      have r: "16 \<le> uint ty \<and> uint ty \<le> 19" by (rule GetType_bytes [OF et(1) ty True])
      then have "elem_text E e = hex_bytes bs" by (simp add: elem_text_def Leaf value_text_def)
      moreover have "bs \<noteq> [] \<Longrightarrow> hex_bytes bs \<noteq> ''''" by (cases bs) (simp_all add: hex_bytes_def)
      moreover have "bs \<noteq> [] \<or> header_text st sh i (mElemTag d) \<noteq> ''''"
        using ok r unfolding Leaf et(4) by (simp add: body_ok_def)
      ultimately show ?thesis using sb(3) by metis
    next
      case (Node t ty es)
      have ty: "TLVTypeIsContainer ty" using on Node by (simp add: on_elem_def)
      show ?thesis
        by (rule container_cases [OF ty]) (simp_all add: Node elem_text_def value_text_def)
    qed
    then show ?thesis using sb(4) v(2) by (auto simp: extends_def)
  next
    case False
    then show ?thesis using k(2) by blast
  qed
  moreover have "strbuf_inv sb'" "contents sb' = contents sb @ elem_text E e"
    using v(2) by (simp_all add: extends_def)
  ultimately obtain n where n: "sb' = (Some (contents sb @ elem_text E e), n)" "0 < n"
    by (cases sb'; cases "fst sb'") (simp_all add: contents_def strbuf_inv_def)
  show ?thesis
  proof (rule that [OF sb(1)])
    show "GenericValue E sb d = Some (MATTER_NO_ERROR,
        (Some (header_text st sh i (mElemTag d) @ elem_text E e), n), d1)"
      using v(1) n(1) sb(3) by simp
  qed (fact n(2) k(1) v(3) v(4) v(5))+
qed

text \<open>\<open>shows e\<close>: a call of the printer on \<open>e\<close> adds the layout of \<open>e\<close> and ends behind \<open>e\<close>.\<close>

definition item_shows :: "env \<Rightarrow> proto_tree \<Rightarrow> int \<Rightarrow> bool \<Rightarrow> bool \<Rightarrow> nat \<Rightarrow> tlv \<Rightarrow> byte list \<Rightarrow> dissector \<Rightarrow> bool" where
  "item_shows E tree hf st sh i e p d \<longleftrightarrow>
     (\<exists>d'. AddGenericTLV_run E tree hf (GItem st sh i) d = Some (MATTER_NO_ERROR, d') \<and>
        trace d' = trace d @ layout E tree hf (mSourceBufBaseOffset d) (ImplicitProfileId d) st sh i
          (unat (mMaxLen d) - length (encode e @ p)) e \<and>
        behind d' p \<and> same_config d d')"

lemma add_item_line:
  assumes "mElemStart d = of_nat start" and "mElemLen d = of_nat len"
  shows "trace (add_item tree hf v d) = trace d @ [line tree hf (mSourceBufBaseOffset d) start len v]"
  using assms by (simp add: add_item_def emit_def line_def)

lemma add_item_config [simp]:
  "same_config d (add_item tree hf v d') = same_config d d'" "same_config d (emit c d') = same_config d d'"
  "ahead (add_item tree hf v d) p = ahead d p" "mSourceBufBaseOffset (add_item tree hf v d) = mSourceBufBaseOffset d"
  "elem8 (add_item tree hf v d) = elem8 d" "mMaxLen (add_item tree hf v d) = mMaxLen d"
  "ImplicitProfileId (add_item tree hf v d) = ImplicitProfileId d"
  by (simp_all add: same_config_def add_item_def emit_def)

lemma leaf_shows:
  assumes on: "on_elem d (Leaf t ty v bs) p" and E: "memory_ok E"
    and ok: "body_ok st sh i (ImplicitProfileId d) p (Leaf t ty v bs)"
  shows "item_shows E tree hf st sh i (Leaf t ty v bs) p d"
proof -
  let ?e = "Leaf t ty v bs"
  let ?s = "header_text st sh i (mElemTag d) @ elem_text E ?e"
  obtain sb n d1 where g: "GenericHeader st sh i d = Some sb"
    "GenericValue E sb d = Some (MATTER_NO_ERROR, (Some ?s, n), d1)"
    "0 < n" "keeps d d1" "same_config d d1" "tlv_reader.more d1 = tlv_reader.more d"
    "case ?e of Leaf t ty v bs \<Rightarrow> behind d1 p | Node t ty es \<Rightarrow> d1 = d"
    by (rule Generic_text_on_elem [OF on E ok])
  have et: "ElementType d = uint ty" "\<not> TLVTypeIsContainer ty" "uint ty < 24"
    "mElemTag d = tag_value (ImplicitProfileId d) t"
    "mElemStart d = of_nat (unat (mMaxLen d) - length (encode ?e @ p))"
    "mElemLen d = of_nat (length (encode ?e))"
    using on by (simp_all add: on_elem_def)
  then have ty: "0 \<le> uint ty" "uint ty \<le> 20" by (auto simp: TLVTypeIsContainer_def)
  have T: "GetType d \<noteq> kTLVType_Structure" "GetType d \<noteq> kTLVType_Array" "GetType d \<noteq> kTLVType_Path"
    using GetType_leaf [OF et(1) ty] by simp_all
  let ?v = "(if sh then AddStringFormat else AddStringFormatValue) ?s"
  have "AddGenericTLV_run E tree hf (GItem st sh i) d = Some (MATTER_NO_ERROR, add_item tree hf ?v d1)"
    using g(1,2) T
    by (subst AddGenericTLV_run.simps) (simp add: AddStringItemF_def AddStringItemWithHeaderF_def)
  moreover have "trace (add_item tree hf ?v d1) = trace d @ [line tree hf (mSourceBufBaseOffset d)
      (unat (mMaxLen d) - length (encode ?e @ p)) (length (encode ?e)) ?v]"
    using add_item_line [of d1 _ _ tree hf ?v] et(5,6) more_eq [OF g(6)] by simp
  ultimately show ?thesis
    using g(5,7) et(4) unfolding item_shows_def
    by (intro exI [of _ "add_item tree hf ?v d1"]) (simp add: elem_text_def)
qed

text \<open>The loop over the elements of a container shows each of them, and stops on its end.\<close>

definition members_show :: "env \<Rightarrow> proto_tree \<Rightarrow> int \<Rightarrow> nat \<Rightarrow> tlv list \<Rightarrow> byte list \<Rightarrow> dissector \<Rightarrow> bool" where
  "members_show E tree hf i es p d \<longleftrightarrow>
     (\<exists>d'. AddGenericTLV_run E tree hf (GMembers i) d = Some (MATTER_NO_ERROR, d') \<and>
        trace d' = trace d @ layouts E tree hf (mSourceBufBaseOffset d) (ImplicitProfileId d) (i + 1)
          (unat (mMaxLen d) - length (encodes es @ end_of_container # p)) es \<and>
        ElementType d' = kTLVElementType_EndOfContainer \<and> ahead d' p \<and> same_config d d')"

lemma Dissector_Next_end:
  assumes b: "behind d (end_of_container # p)" and ct: "mContainerType d \<noteq> kTLVType_NotSpecified"
  shows "\<exists>d'. Dissector_Next d = Some (MATTER_END_OF_TLV, d') \<and> trace d' = trace d \<and>
    ElementType d' = kTLVElementType_EndOfContainer \<and> ahead d' p \<and> same_config d d'"
proof -
  let ?d = "d\<lparr>mLastItem := None\<rparr>"
  have "behind ?d (end_of_container # p)" using b by simp
  then obtain n where s: "Skip ?d = Some (MATTER_NO_ERROR, ClearElementState (advance n ?d))"
    "ahead (ClearElementState (advance n ?d)) (end_of_container # p)" by (rule Skip_behind)
  define d1 where "d1 = (ClearElementState (advance n ?d))
    \<lparr>mElemStart := mLenRead (ClearElementState (advance n ?d))\<rparr>"
  have d1: "ahead d1 (end_of_container # p)" "ElementType d1 = kTLVElementType_NotSpecified"
    using s(2) by (simp_all add: d1_def)
  have f1: "ImplicitProfileId d1 = ImplicitProfileId d" "mContainerType d1 = mContainerType d"
    "mMaxLen d1 = mMaxLen d" "mSourceBufBaseOffset d1 = mSourceBufBaseOffset d" "trace d1 = trace d"
    by (simp_all add: d1_def ClearElementState_def) (simp_all add: advance_def)
  have MS: "MarkElemStart (ClearElementState (advance n ?d)) = Some (MATTER_NO_ERROR, d1)"
    unfolding d1_def by (rule MarkElemStart_clear) simp
  define d2 where "d2 = ClearElementState d1"
  have d2: "ahead d2 (end_of_container # p)" "mContainerType d2 = mContainerType d"
    "ImplicitProfileId d2 = ImplicitProfileId d" "tlv_reader.more d2 = tlv_reader.more d1"
    "mMaxLen d2 = mMaxLen d"
    using d1(1) f1 by (simp_all add: d2_def) (simp_all add: ClearElementState_def)
  define d3 where "d3 = after_head TAnonymous end_of_container 0 d2"
  have N: "Next d1 = Some (MATTER_END_OF_TLV, d3)"
    unfolding d3_def
    by (rule Next_end_of_container [OF Skip_clear [OF d1(2)], of p, folded d2_def])
      (use d2 ct in simp_all)
  have m: "tlv_reader.more d3 = tlv_reader.more d1" using d2(4) by (simp add: d3_def)
  have "Dissector_Next d = Some (MATTER_END_OF_TLV, d3)"
    using s(1) MS N unfolding Dissector_Next_def by simp
  moreover have "ahead d3 p"
    using ahead_after_head [of d2 TAnonymous end_of_container 0 p] d2(1) by (simp add: d3_def enc_head_end)
  moreover have "ElementType d3 = kTLVElementType_EndOfContainer"
    using after_head_type(1) [of end_of_container TAnonymous 0 d2] by (simp add: d3_def end_of_container_def)
  moreover have "same_config d d3"
    using d2 more_eq(1) [OF m] f1 by (simp add: same_config_def) (simp add: d3_def)
  ultimately show ?thesis using more_eq(8) [OF m] f1 by (intro exI [of _ d3]) simp
qed

lemma members_show_list:
  assumes "behind d (encodes es @ end_of_container # p)" and "between_inv d"
    and "\<forall>e \<in> set es. wf_tlv (ImplicitProfileId d) (mContainerType d) e"
    and "mContainerType d \<noteq> kTLVType_NotSpecified"
    and elem: "\<And>e q d2. e \<in> set es \<Longrightarrow> on_elem d2 e q \<Longrightarrow> q \<noteq> [] \<Longrightarrow>
      item_shows E tree hf False True (i + 1) e q d2"
  shows "members_show E tree hf i es p d"
  using assms
proof (induction es arbitrary: d)
  case Nil
  obtain d' where d': "Dissector_Next d = Some (MATTER_END_OF_TLV, d')" "trace d' = trace d"
    "ElementType d' = kTLVElementType_EndOfContainer" "ahead d' p" "same_config d d'"
    using Dissector_Next_end [of d p] Nil.prems(1,4) by auto
  have "AddGenericTLV_run E tree hf (GMembers i) d = Some (MATTER_NO_ERROR, d')"
    using d'(1) by (subst AddGenericTLV_run.simps) simp
  then show ?case using d'(2-5) unfolding members_show_def
    by (intro exI [of _ d']) simp
next
  case (Cons e es)
  have b: "behind d (encode e @ encodes es @ end_of_container # p)" using Cons.prems(1) by simp
  let ?q = "encodes es @ end_of_container # p"
  obtain d1 where d1: "Dissector_Next d = Some (MATTER_NO_ERROR, d1)" "on_elem d1 e ?q"
    "same_config d d1" "same_frames d d1" "trace d1 = trace d"
    using Dissector_Next_on_elem [OF b Cons.prems(2)] Cons.prems(3) by auto
  have len: "length (encode e @ ?q) \<le> unat (mMaxLen d)"
    using d1(2,3) by (simp add: on_elem_def same_config_def)
  have "item_shows E tree hf False True (i + 1) e ?q d1"
    by (rule Cons.prems(5)) (use d1(2) in simp_all)
  then obtain d2 where d2: "AddGenericTLV_run E tree hf (GItem False True (i + 1)) d1 = Some (MATTER_NO_ERROR, d2)"
    "trace d2 = trace d1 @ layout E tree hf (mSourceBufBaseOffset d1) (ImplicitProfileId d1) False True (i + 1)
          (unat (mMaxLen d1) - length (encode e @ ?q)) e"
    "behind d2 ?q" "same_config d1 d2" unfolding item_shows_def by blast
  have "generic_pre (GItem False True (i + 1)) d1"
    using d1(2) indent_not_empty [of i] by (simp add: generic_pre_def on_elem_def header_text_def)
  from AddGenericTLV_total [OF this, of E tree hf] have k: "keeps d1 d2"
    using d2(1) by (simp add: generic_post_def)
  have cfg: "same_config d d2" by (rule same_config_trans [OF d1(3) d2(4)])
  have "members_show E tree hf i es p d2"
  proof (rule Cons.IH [OF d2(3)])
    show "between_inv d2" using k by (simp add: keeps_def dissector_invD(1))
    fix e' q d3
    assume "e' \<in> set es" "on_elem d3 e' q" "q \<noteq> []"
    then show "item_shows E tree hf False True (i + 1) e' q d3" by (intro Cons.prems(5)) simp_all
  qed (use Cons.prems(3,4) cfg in \<open>simp_all add: same_config_def\<close>)
  then obtain d' where d': "AddGenericTLV_run E tree hf (GMembers i) d2 = Some (MATTER_NO_ERROR, d')"
    "trace d' = trace d2 @ layouts E tree hf (mSourceBufBaseOffset d2) (ImplicitProfileId d2) (i + 1)
          (unat (mMaxLen d2) - length ?q) es"
    "ElementType d' = kTLVElementType_EndOfContainer" "ahead d' p" "same_config d2 d'"
    unfolding members_show_def by blast
  have "AddGenericTLV_run E tree hf (GMembers i) d = Some (MATTER_NO_ERROR, d')"
    using d1(1) d2(1) d'(1) by (subst AddGenericTLV_run.simps) simp
  moreover have "unat (mMaxLen d) - length (encode e @ ?q) + length (encode e) = unat (mMaxLen d) - length ?q"
    using len by simp
  ultimately show ?case
    using d'(2-5) d2(2) d1(3,5) cfg same_config_trans [OF cfg d'(5)] unfolding members_show_def
    by (intro exI [of _ d']) (simp add: same_config_def)
qed

text \<open>Entering a container with memory to spare, as seen from the input.\<close>

lemma PushContainer_fields:
  assumes "PushContainer E ct d = Some (err, d')" and "realloc_ok E = (\<lambda>_. True)"
  shows "err = 0" "\<exists>s n m. d' = d\<lparr>mContainerStackSize := n, mContainerStack := s, mContainerDepth := m\<rparr>"
proof -
  let ?full = "mContainerStack d = None \<or> mContainerStackSize d = 0 \<or>
      mContainerStackSize d = mContainerDepth d"
  let ?c = "Some \<lparr>ContainerType = ct, ContainerItem = mLastItem d,
      CtxElemStart = mElemStart d, CtxElemLen = mElemLen d\<rparr>"
  define n where "n = (if ?full then if mContainerStackSize d = 0 then 16 else mContainerStackSize d * 2
    else mContainerStackSize d)"
  define st where "st = (if ?full then resize (unat n) (entries d) else entries d)"
  have eq: "PushContainer E ct d = (if unat (mContainerDepth d) < length st
      then Some (MATTER_NO_ERROR, d\<lparr>mContainerStackSize := n,
        mContainerStack := Some (st[unat (mContainerDepth d) := ?c]),
        mContainerDepth := mContainerDepth d + 1\<rparr>) else None)"
  proof (cases ?full)
    case True
    then show ?thesis
      unfolding PushContainer_def if_P [OF True] st_def n_def assms(2) Let_def
      by (simp add: entries_def)
  next
    case False
    then obtain s where s: "mContainerStack d = Some s" by auto
    have "d\<lparr>mContainerStackSize := mContainerStackSize d\<rparr> = d" by simp
    then have "d\<lparr>mContainerStackSize := mContainerStackSize d, mContainerStack := x, mContainerDepth := m\<rparr> =
        d\<lparr>mContainerStack := x, mContainerDepth := m\<rparr>" for x m by simp
    with False s show ?thesis
      unfolding PushContainer_def if_not_P [OF False] st_def n_def by (simp add: entries_def)
  qed
  then show "err = 0" using assms(1) by (simp split: if_splits)
  show "\<exists>s n m. d' = d\<lparr>mContainerStackSize := n, mContainerStack := s, mContainerDepth := m\<rparr>"
    using assms(1) unfolding eq by (simp split: if_splits) blast
qed

lemma Enter_ahead:
  assumes inv: "dissector_inv d" and c: "TLVTypeIsContainer (elem8 d)" and E: "memory_ok E" and a: "ahead d q"
  obtains d' where "Dissector_EnterContainer E d = Some (MATTER_NO_ERROR, d')" "ahead d' q"
    "ImplicitProfileId d' = ImplicitProfileId d" "mMaxLen d' = mMaxLen d"
    "mSourceBufBaseOffset d' = mSourceBufBaseOffset d"
proof -
  let ?d = "SetContainerOpen False (ClearElementState (d\<lparr>mContainerType := ElementType d\<rparr>))"
  have e: "EnterContainer d kTLVType_NotSpecified = (MATTER_NO_ERROR, mContainerType d, ?d)"
    using c by (simp add: EnterContainer_def)
  have room: "depth_room d < 2147483647" using inv c by (simp add: dissector_inv_def)
  have b: "between_inv ?d" "depth_room ?d < 2147483647"
  proof -
    have s: "stays d ?d" using dissector_invD(2) [OF inv] by (simp add: stays_refl)
    show "between_inv ?d" by (rule stays_between_inv [OF s dissector_invD(1) [OF inv]])
    show "depth_room ?d < 2147483647"
      using room stays_same_frames [OF s] by (simp add: depth_room_def same_frames_def)
  qed
  obtain err d' where p: "PushContainer E (mContainerType d) ?d = Some (err, d')"
    by (rule returnsE [OF PushContainer_spec [OF b, of E "mContainerType d"]])
  have err: "err = 0" using PushContainer_fields(1) [OF p] E by (simp add: memory_ok_def)
  obtain s n m where d': "d' = ?d\<lparr>mContainerStackSize := n, mContainerStack := s, mContainerDepth := m\<rparr>"
    using PushContainer_fields(2) [OF p] E unfolding memory_ok_def by blast
  show ?thesis
  proof (rule that)
    show "Dissector_EnterContainer E d = Some (MATTER_NO_ERROR, d')"
      using e p err by (simp add: Dissector_EnterContainer_def)
    have "ahead ?d q" using a by simp
    then show "ahead d' q" by (simp add: d' ahead_def)
  qed (simp_all add: d' SetContainerOpen_def ClearElementState_def)
qed

text \<open>Leaving a container at its end restores the position of its own head.\<close>

lemma Exit_at_end:
  assumes inv: "between_inv d" and fr: "frames d = fs @ [Some c]"
    and et: "ElementType d = kTLVElementType_EndOfContainer" and a: "ahead d p"
  obtains d' where "Dissector_ExitContainer d = Some (MATTER_NO_ERROR, d')" "behind d' p"
    "mElemStart d' = CtxElemStart c" "mElemLen d' = CtxElemLen c" "mContainerType d' = ContainerType c"
    "trace d' = trace d" "ImplicitProfileId d' = ImplicitProfileId d" "mMaxLen d' = mMaxLen d"
    "mSourceBufBaseOffset d' = mSourceBufBaseOffset d"
proof -
  note P = PopContainer_spec(1) [OF inv fr]
  let ?d = "d\<lparr>mContainerDepth := mContainerDepth d - 1, mLastItem := ContainerItem c,
    mElemStart := CtxElemStart c, mElemLen := CtxElemLen c\<rparr>"
  let ?o = "SetContainerOpen False ?d"
  let ?r = "ClearElementState (?o\<lparr>mContainerType := ContainerType c\<rparr>)"
  have "SkipToEndOfContainer ?d = Some (MATTER_NO_ERROR, ?o)"
    using et by (simp add: SkipToEndOfContainer_def SkipToEnd_loop.simps [of 0])
  then have "Dissector_ExitContainer d = Some (MATTER_NO_ERROR, ?r)"
    by (simp add: Dissector_ExitContainer_def P ExitContainer_def)
  moreover have "behind ?r p" by (rule behind_clear) (use a in simp_all)
  ultimately show ?thesis
    by (rule that) (simp_all add: ClearElementState_def SetContainerOpen_def)
qed

lemma node_shows:
  assumes on: "on_elem d (Node t ty es) p" and E: "memory_ok E"
    and elem: "\<And>e q d2. e \<in> set es \<Longrightarrow> on_elem d2 e q \<Longrightarrow> q \<noteq> [] \<Longrightarrow>
      item_shows E tree hf False True (i + 1) e q d2"
  shows "item_shows E tree hf st sh i (Node t ty es) p d"
proof -
  let ?e = "Node t ty es"
  let ?s = "header_text st sh i (mElemTag d) @ elem_text E ?e"
  let ?v = "(if sh then AddStringFormat else AddStringFormatValue) ?s"
  let ?start = "unat (mMaxLen d) - length (encode ?e @ p)"
  obtain sb n d1 where g: "GenericHeader st sh i d = Some sb"
    "GenericValue E sb d = Some (MATTER_NO_ERROR, (Some ?s, n), d1)" "0 < n"
    "case ?e of Leaf t ty v bs \<Rightarrow> behind d1 p | Node t ty es \<Rightarrow> d1 = d"
    by (rule Generic_text_on_elem [OF on E, of st sh i]) (simp add: body_ok_def)
  have [simp]: "d1 = d" using g(4) by simp
  have et: "ElementType d = uint ty" "elem8 d = ty" "TLVTypeIsContainer ty" "dissector_inv d"
    "mElemTag d = tag_value (ImplicitProfileId d) t" "ahead d (encodes es @ end_of_container # p)"
    "mElemStart d = of_nat ?start" "mElemLen d = of_nat (length (encode ?e))"
    "\<forall>e \<in> set es. wf_tlv (ImplicitProfileId d) (uint ty) e" "length (encode ?e @ p) \<le> unat (mMaxLen d)"
    using on by (simp_all add: on_elem_def elem_body_def)
  note T = GetType_node [OF et(3,1)]
  define d2 where "d2 = add_item tree hf ?v d"
  have d2: "dissector_inv d2" "TLVTypeIsContainer (elem8 d2)" "ahead d2 (encodes es @ end_of_container # p)"
    using et by (simp_all add: d2_def)
  have tr2: "trace d2 = trace d @ [line tree hf (mSourceBufBaseOffset d) ?start (length (encode ?e)) ?v]"
    unfolding d2_def by (rule add_item_line [OF et(7,8)])
  obtain d3 where d3: "Dissector_EnterContainer E d2 = Some (MATTER_NO_ERROR, d3)"
    "ahead d3 (encodes es @ end_of_container # p)" "ImplicitProfileId d3 = ImplicitProfileId d2"
    "mMaxLen d3 = mMaxLen d2" "mSourceBufBaseOffset d3 = mSourceBufBaseOffset d2"
    by (rule Enter_ahead [OF d2(1,2) E d2(3)])
  let ?c = "\<lparr>ContainerType = mContainerType d2, ContainerItem = mLastItem d2,
      CtxElemStart = mElemStart d2, CtxElemLen = mElemLen d2\<rparr>"
  have d3': "dissector_inv d3" "mContainerType d3 = uint ty" "ElementType d3 = kTLVElementType_NotSpecified"
    "trace d3 = trace d2" "frames d3 = frames d2 @ [Some ?c]"
    using Dissector_EnterContainer_spec [OF d2(1), of E] d3(1) et(1) by (simp_all add: d2_def)
  have "members_show E tree hf i es p d3"
  proof (rule members_show_list)
    show "behind d3 (encodes es @ end_of_container # p)" by (rule behind_clear [OF d3(2) d3'(3)])
    show "between_inv d3" by (rule dissector_invD(1) [OF d3'(1)])
    show "\<forall>e \<in> set es. wf_tlv (ImplicitProfileId d3) (mContainerType d3) e"
      using et(9) d3(3) d3'(2) by (simp add: d2_def)
    show "mContainerType d3 \<noteq> kTLVType_NotSpecified"
      using et(3) d3'(2) by (auto simp: TLVTypeIsContainer_def)
  qed (rule elem)
  then obtain d4 where d4: "AddGenericTLV_run E tree hf (GMembers i) d3 = Some (MATTER_NO_ERROR, d4)"
    "trace d4 = trace d3 @ layouts E tree hf (mSourceBufBaseOffset d3) (ImplicitProfileId d3) (i + 1)
          (unat (mMaxLen d3) - length (encodes es @ end_of_container # p)) es"
    "ElementType d4 = kTLVElementType_EndOfContainer" "ahead d4 p" "same_config d3 d4"
    unfolding members_show_def by blast
  have "generic_pre (GMembers i) d3" using d3'(1) dissector_invD(1) by (simp add: generic_pre_def)
  from AddGenericTLV_total [OF this, of E tree hf] have l: "loop_post d3 d4"
    using d4(1) by (simp add: generic_post_def)
  have fr4: "frames d4 = frames d2 @ [Some ?c]" using l d3'(5) by (simp add: loop_post_def)
  obtain d5 where d5: "Dissector_ExitContainer d4 = Some (MATTER_NO_ERROR, d5)" "behind d5 p"
    "mElemStart d5 = CtxElemStart ?c" "mElemLen d5 = CtxElemLen ?c" "mContainerType d5 = ContainerType ?c"
    "trace d5 = trace d4" "ImplicitProfileId d5 = ImplicitProfileId d4" "mMaxLen d5 = mMaxLen d4"
    "mSourceBufBaseOffset d5 = mSourceBufBaseOffset d4"
    by (rule Exit_at_end [OF _ fr4 d4(3,4)]) (use l in \<open>simp add: loop_post_def\<close>)
  let ?w = "AddStringFormat (indent i @ close_char (uint ty))"
  have base: "mSourceBufBaseOffset d5 = mSourceBufBaseOffset d"
    using d5(9) d4(5) d3(5) by (simp add: same_config_def d2_def)
  have tr5: "trace (add_item tree hf ?w d5) = trace d5 @
      [line tree hf (mSourceBufBaseOffset d) ?start (length (encode ?e)) ?w]"
    unfolding base [symmetric]
    by (rule add_item_line) (use d5(3,4) et(7,8) in \<open>simp_all add: d2_def\<close>)
  have "AddGenericTLV_run E tree hf (GItem st sh i) d = Some (MATTER_NO_ERROR, add_item tree hf ?w d5)"
    using g(1,2,3) T et(3) d3(1) d4(1) d5(1)
    by (subst AddGenericTLV_run.simps, rule_tac container_cases [OF et(3)])
      (simp_all add: d2_def AddStringItemF_def AddStringItemWithHeaderF_def GenericClose_eq split: if_splits)
  moreover have "?start + length (enc_head t ty 0) = unat (mMaxLen d) - length (encodes es @ end_of_container # p)"
    using et(10) by (simp add: encode_Node)
  moreover have "same_config d (add_item tree hf ?w d5)"
    using d5(5,7-9) d4(5) d3(3-5) base by (simp add: same_config_def d2_def)
  ultimately show ?thesis
    using tr5 d5(2,6) d4(2) d3(3-5) d3'(4) tr2 et(5) unfolding item_shows_def
    by (intro exI [of _ "add_item tree hf ?w d5"]) (simp add: Let_def elem_text_def d2_def)
qed

theorem AddGenericTLV_layout:
  assumes "on_elem d e p" and "memory_ok E" and "body_ok st sh i (ImplicitProfileId d) p e"
  shows "item_shows E tree hf st sh i e p d"
  using assms
proof (induction e arbitrary: d p st sh i rule: encode.induct)
  case (1 t ty v bs)
  then show ?case by (intro leaf_shows)
next
  case (2 t ty es)
  show ?case
  proof (rule node_shows [OF "2.prems"(1,2)])
    fix e q d2
    assume "e \<in> set es" "on_elem d2 e q" "q \<noteq> []"
    then show "item_shows E tree hf False True (i + 1) e q d2"
      using "2.prems"(2) indent_not_empty [of i]
      by (intro "2.IH") (auto simp: body_ok_def header_text_def split: tlv.splits)
  qed
qed

end
