(* ===== verification/Matter_Names.thy ===== *)
theory Matter_Names
  imports Matter_Prelude
begin

text \<open>
  The names of vendors, protocols and messages (\<open>MatterNames.cpp\<close>) with the identifiers they are given for
  (\<open>MatterProfiles.h\<close> and the headers of the protocols). A \<open>switch\<close> is a list of its cases; \<open>None\<close> is the null
  pointer that is returned when no case applies.
\<close>

named_theorems vendor_ids \<open>vendor identifiers\<close>
named_theorems profile_ids \<open>protocol identifiers\<close>
named_theorems message_types \<open>message types\<close>

section \<open>Identifiers\<close>

definition kMatterVendor_Common :: u16 where [vendor_ids]: "kMatterVendor_Common = 0x0000"
definition kMatterVendor_NestLabs :: u16 where [vendor_ids]: "kMatterVendor_NestLabs = 0x235A"
definition kMatterProfile_Common :: u32 where [profile_ids]: "kMatterProfile_Common = 0x0000"
definition kMatterProfile_InteractionModel :: u32 where [profile_ids]: "kMatterProfile_InteractionModel = 0x0001"
definition kMatterProfile_BDX :: u32 where [profile_ids]: "kMatterProfile_BDX = 0x0002"
definition kMatterProfile_UDC :: u32 where [profile_ids]: "kMatterProfile_UDC = 0x0003"
definition kMatterProfile_Echo :: u32 where [profile_ids]: "kMatterProfile_Echo = 0x0004"
definition kMatterProfile_Security :: u32 where [profile_ids]: "kMatterProfile_Security = 0x1004"
definition kMatterProfile_FabricProvisioning :: u32 where [profile_ids]: "kMatterProfile_FabricProvisioning = 0x0005"
definition kMatterProfile_DeviceControl :: u32 where [profile_ids]: "kMatterProfile_DeviceControl = 0x0006"
definition kMatterProfile_Time :: u32 where [profile_ids]: "kMatterProfile_Time = 0x0007"
definition kMatterProfile_IM :: u32 where [profile_ids]: "kMatterProfile_IM = 0x000B"
definition kMatterProfile_SWU :: u32 where [profile_ids]: "kMatterProfile_SWU = 0x000C"
definition kMatterProfile_DeviceDescription :: u32 where [profile_ids]: "kMatterProfile_DeviceDescription = 0x000E"
definition kMatterProfile_ServiceProvisioning :: u32 where [profile_ids]: "kMatterProfile_ServiceProvisioning = 0x000F"
definition kMatterProfile_Locale :: u32 where [profile_ids]: "kMatterProfile_Locale = 0x0011"
definition kMatterProfile_DictionaryKey :: u32 where [profile_ids]: "kMatterProfile_DictionaryKey = 0x0021"
definition Common_kMsgType_StatusReport :: byte where [message_types]: "Common_kMsgType_StatusReport = 0x40"
definition Common_kMsgType_StandaloneAck :: byte where [message_types]: "Common_kMsgType_StandaloneAck = 0x10"
definition Common_kMsgType_MsgCounterSyncReq :: byte where [message_types]: "Common_kMsgType_MsgCounterSyncReq = 0x00"
definition Common_kMsgType_MsgCounterSyncRsp :: byte where [message_types]: "Common_kMsgType_MsgCounterSyncRsp = 0x01"
definition Common_kMsgType_PBKDFParamRequest :: byte where [message_types]: "Common_kMsgType_PBKDFParamRequest = 0x20"
definition Common_kMsgType_PBKDFParamResponse :: byte where [message_types]: "Common_kMsgType_PBKDFParamResponse = 0x21"
definition Common_kMsgType_PASE_Spake2p1 :: byte where [message_types]: "Common_kMsgType_PASE_Spake2p1 = 0x22"
definition Common_kMsgType_PASE_Spake2p2 :: byte where [message_types]: "Common_kMsgType_PASE_Spake2p2 = 0x23"
definition Common_kMsgType_PASE_Spake2p3 :: byte where [message_types]: "Common_kMsgType_PASE_Spake2p3 = 0x24"
definition Common_kMsgType_PASE_Spake2pError :: byte where [message_types]: "Common_kMsgType_PASE_Spake2pError = 0x2F"
definition Common_kMsgType_CASE_Sigma1 :: byte where [message_types]: "Common_kMsgType_CASE_Sigma1 = 0x30"
definition Common_kMsgType_CASE_Sigma2 :: byte where [message_types]: "Common_kMsgType_CASE_Sigma2 = 0x31"
definition Common_kMsgType_CASE_Sigma3 :: byte where [message_types]: "Common_kMsgType_CASE_Sigma3 = 0x32"
definition Common_kMsgType_CASE_Sigma2_Resume :: byte where [message_types]: "Common_kMsgType_CASE_Sigma2_Resume = 0x33"
definition Common_kMsgType_ICD_CheckIn :: byte where [message_types]: "Common_kMsgType_ICD_CheckIn = 0x50"
definition InteractionModel_kMsgType_StatusResponse :: byte where [message_types]: "InteractionModel_kMsgType_StatusResponse = 0x01"
definition InteractionModel_kMsgType_ReadRequest :: byte where [message_types]: "InteractionModel_kMsgType_ReadRequest = 0x02"
definition InteractionModel_kMsgType_SubscribeRequest :: byte where [message_types]: "InteractionModel_kMsgType_SubscribeRequest = 0x03"
definition InteractionModel_kMsgType_SubscribeResponse :: byte where [message_types]: "InteractionModel_kMsgType_SubscribeResponse = 0x04"
definition InteractionModel_kMsgType_ReportData :: byte where [message_types]: "InteractionModel_kMsgType_ReportData = 0x05"
definition InteractionModel_kMsgType_WriteRequest :: byte where [message_types]: "InteractionModel_kMsgType_WriteRequest = 0x06"
definition InteractionModel_kMsgType_WriteResponse :: byte where [message_types]: "InteractionModel_kMsgType_WriteResponse = 0x07"
definition InteractionModel_kMsgType_InvokeRequest :: byte where [message_types]: "InteractionModel_kMsgType_InvokeRequest = 0x08"
definition InteractionModel_kMsgType_InvokeResponse :: byte where [message_types]: "InteractionModel_kMsgType_InvokeResponse = 0x09"
definition InteractionModel_kMsgType_TimedRequest :: byte where [message_types]: "InteractionModel_kMsgType_TimedRequest = 0x0A"
definition kEchoMessageType_EchoRequest :: byte where [message_types]: "kEchoMessageType_EchoRequest = 0x01"
definition kEchoMessageType_EchoResponse :: byte where [message_types]: "kEchoMessageType_EchoResponse = 0x02"
definition kMatterProfile_NetworkProvisioning :: u32 where [profile_ids]: "kMatterProfile_NetworkProvisioning = 0x0003"
definition NetworkProvisioning_kMsgType_ScanNetworks :: byte where [message_types]: "NetworkProvisioning_kMsgType_ScanNetworks = 0x01"
definition NetworkProvisioning_kMsgType_NetworkScanComplete :: byte where [message_types]: "NetworkProvisioning_kMsgType_NetworkScanComplete = 0x02"
definition NetworkProvisioning_kMsgType_AddNetwork :: byte where [message_types]: "NetworkProvisioning_kMsgType_AddNetwork = 0x03"
definition NetworkProvisioning_kMsgType_AddNetworkComplete :: byte where [message_types]: "NetworkProvisioning_kMsgType_AddNetworkComplete = 0x04"
definition NetworkProvisioning_kMsgType_UpdateNetwork :: byte where [message_types]: "NetworkProvisioning_kMsgType_UpdateNetwork = 0x05"
definition NetworkProvisioning_kMsgType_RemoveNetwork :: byte where [message_types]: "NetworkProvisioning_kMsgType_RemoveNetwork = 0x06"
definition NetworkProvisioning_kMsgType_EnableNetwork :: byte where [message_types]: "NetworkProvisioning_kMsgType_EnableNetwork = 0x07"
definition NetworkProvisioning_kMsgType_DisableNetwork :: byte where [message_types]: "NetworkProvisioning_kMsgType_DisableNetwork = 0x08"
definition NetworkProvisioning_kMsgType_TestConnectivity :: byte where [message_types]: "NetworkProvisioning_kMsgType_TestConnectivity = 0x09"
definition NetworkProvisioning_kMsgType_SetRendezvousMode :: byte where [message_types]: "NetworkProvisioning_kMsgType_SetRendezvousMode = 0x0A"
definition NetworkProvisioning_kMsgType_GetNetworks :: byte where [message_types]: "NetworkProvisioning_kMsgType_GetNetworks = 0x0B"
definition NetworkProvisioning_kMsgType_GetNetworksComplete :: byte where [message_types]: "NetworkProvisioning_kMsgType_GetNetworksComplete = 0x0C"
definition NetworkProvisioning_kMsgType_GetLastResult :: byte where [message_types]: "NetworkProvisioning_kMsgType_GetLastResult = 0x0D"
definition Security_kMsgType_PASEInitiatorStep1 :: byte where [message_types]: "Security_kMsgType_PASEInitiatorStep1 = 0x01"
definition Security_kMsgType_PASEResponderStep1 :: byte where [message_types]: "Security_kMsgType_PASEResponderStep1 = 0x02"
definition Security_kMsgType_PASEResponderStep2 :: byte where [message_types]: "Security_kMsgType_PASEResponderStep2 = 0x03"
definition Security_kMsgType_PASEInitiatorStep2 :: byte where [message_types]: "Security_kMsgType_PASEInitiatorStep2 = 0x04"
definition Security_kMsgType_PASEResponderKeyConfirm :: byte where [message_types]: "Security_kMsgType_PASEResponderKeyConfirm = 0x05"
definition Security_kMsgType_PASEResponderReconfigure :: byte where [message_types]: "Security_kMsgType_PASEResponderReconfigure = 0x06"
definition Security_kMsgType_CASEBeginSessionRequest :: byte where [message_types]: "Security_kMsgType_CASEBeginSessionRequest = 0x0A"
definition Security_kMsgType_CASEBeginSessionResponse :: byte where [message_types]: "Security_kMsgType_CASEBeginSessionResponse = 0x0B"
definition Security_kMsgType_CASEInitiatorKeyConfirm :: byte where [message_types]: "Security_kMsgType_CASEInitiatorKeyConfirm = 0x0C"
definition Security_kMsgType_CASEReconfigure :: byte where [message_types]: "Security_kMsgType_CASEReconfigure = 0x0D"
definition Security_kMsgType_EndSession :: byte where [message_types]: "Security_kMsgType_EndSession = 0x64"
definition Security_kMsgType_KeyError :: byte where [message_types]: "Security_kMsgType_KeyError = 0x65"
definition Security_kMsgType_MsgCounterSyncResp :: byte where [message_types]: "Security_kMsgType_MsgCounterSyncResp = 0x66"
definition FabricProvisioning_kMsgType_CreateFabric :: byte where [message_types]: "FabricProvisioning_kMsgType_CreateFabric = 0x01"
definition FabricProvisioning_kMsgType_LeaveFabric :: byte where [message_types]: "FabricProvisioning_kMsgType_LeaveFabric = 0x02"
definition FabricProvisioning_kMsgType_GetFabricConfig :: byte where [message_types]: "FabricProvisioning_kMsgType_GetFabricConfig = 0x03"
definition FabricProvisioning_kMsgType_GetFabricConfigComplete :: byte where [message_types]: "FabricProvisioning_kMsgType_GetFabricConfigComplete = 0x04"
definition FabricProvisioning_kMsgType_JoinExistingFabric :: byte where [message_types]: "FabricProvisioning_kMsgType_JoinExistingFabric = 0x05"
definition DeviceControl_kMsgType_ResetConfig :: byte where [message_types]: "DeviceControl_kMsgType_ResetConfig = 0x01"
definition DeviceControl_kMsgType_ArmFailSafe :: byte where [message_types]: "DeviceControl_kMsgType_ArmFailSafe = 0x02"
definition DeviceControl_kMsgType_DisarmFailSafe :: byte where [message_types]: "DeviceControl_kMsgType_DisarmFailSafe = 0x03"
definition DeviceControl_kMsgType_EnableConnectionMonitor :: byte where [message_types]: "DeviceControl_kMsgType_EnableConnectionMonitor = 0x04"
definition DeviceControl_kMsgType_DisableConnectionMonitor :: byte where [message_types]: "DeviceControl_kMsgType_DisableConnectionMonitor = 0x05"
definition DeviceControl_kMsgType_RemotePassiveRendezvous :: byte where [message_types]: "DeviceControl_kMsgType_RemotePassiveRendezvous = 0x06"
definition DeviceControl_kMsgType_RemoteConnectionComplete :: byte where [message_types]: "DeviceControl_kMsgType_RemoteConnectionComplete = 0x07"
definition DeviceControl_kMsgType_StartSystemTest :: byte where [message_types]: "DeviceControl_kMsgType_StartSystemTest = 0x08"
definition DeviceControl_kMsgType_StopSystemTest :: byte where [message_types]: "DeviceControl_kMsgType_StopSystemTest = 0x09"
definition Time_kTimeMessageType_TimeSyncTimeChangeNotification :: byte where [message_types]: "Time_kTimeMessageType_TimeSyncTimeChangeNotification = 0x00"
definition Time_kTimeMessageType_TimeSyncRequest :: byte where [message_types]: "Time_kTimeMessageType_TimeSyncRequest = 0x01"
definition Time_kTimeMessageType_TimeSyncResponse :: byte where [message_types]: "Time_kTimeMessageType_TimeSyncResponse = 0x02"
definition SoftwareUpdate_kMsgType_ImageAnnounce :: byte where [message_types]: "SoftwareUpdate_kMsgType_ImageAnnounce = 0x00"
definition SoftwareUpdate_kMsgType_ImageQuery :: byte where [message_types]: "SoftwareUpdate_kMsgType_ImageQuery = 0x01"
definition SoftwareUpdate_kMsgType_ImageQueryResponse :: byte where [message_types]: "SoftwareUpdate_kMsgType_ImageQueryResponse = 0x02"
definition SoftwareUpdate_kMsgType_DownloadNotify :: byte where [message_types]: "SoftwareUpdate_kMsgType_DownloadNotify = 0x03"
definition SoftwareUpdate_kMsgType_NotifyRepsponse :: byte where [message_types]: "SoftwareUpdate_kMsgType_NotifyRepsponse = 0x04"
definition SoftwareUpdate_kMsgType_UpdateNotify :: byte where [message_types]: "SoftwareUpdate_kMsgType_UpdateNotify = 0x05"
definition SoftwareUpdate_kMsgType_ImageQueryStatus :: byte where [message_types]: "SoftwareUpdate_kMsgType_ImageQueryStatus = 0x06"
definition BDX_Development_kMsgType_SendInit :: byte where [message_types]: "BDX_Development_kMsgType_SendInit = 0x01"
definition BDX_Development_kMsgType_SendAccept :: byte where [message_types]: "BDX_Development_kMsgType_SendAccept = 0x02"
definition BDX_Development_kMsgType_SendReject :: byte where [message_types]: "BDX_Development_kMsgType_SendReject = 0x03"
definition BDX_Development_kMsgType_ReceiveInit :: byte where [message_types]: "BDX_Development_kMsgType_ReceiveInit = 0x04"
definition BDX_Development_kMsgType_ReceiveAccept :: byte where [message_types]: "BDX_Development_kMsgType_ReceiveAccept = 0x05"
definition BDX_Development_kMsgType_ReceiveReject :: byte where [message_types]: "BDX_Development_kMsgType_ReceiveReject = 0x06"
definition BDX_Development_kMsgType_BlockQuery :: byte where [message_types]: "BDX_Development_kMsgType_BlockQuery = 0x07"
definition BDX_Development_kMsgType_BlockSend :: byte where [message_types]: "BDX_Development_kMsgType_BlockSend = 0x08"
definition BDX_Development_kMsgType_BlockEOF :: byte where [message_types]: "BDX_Development_kMsgType_BlockEOF = 0x09"
definition BDX_Development_kMsgType_BlockAck :: byte where [message_types]: "BDX_Development_kMsgType_BlockAck = 0x0A"
definition BDX_Development_kMsgType_BlockEOFAck :: byte where [message_types]: "BDX_Development_kMsgType_BlockEOFAck = 0x0B"
definition BDX_Development_kMsgType_TransferError :: byte where [message_types]: "BDX_Development_kMsgType_TransferError = 0x0F"
definition BDX_Development_kMsgType_BlockQueryV1 :: byte where [message_types]: "BDX_Development_kMsgType_BlockQueryV1 = 0x10"
definition BDX_Development_kMsgType_BlockSendV1 :: byte where [message_types]: "BDX_Development_kMsgType_BlockSendV1 = 0x11"
definition BDX_Development_kMsgType_BlockEOFV1 :: byte where [message_types]: "BDX_Development_kMsgType_BlockEOFV1 = 0x12"
definition BDX_Development_kMsgType_BlockAckV1 :: byte where [message_types]: "BDX_Development_kMsgType_BlockAckV1 = 0x13"
definition BDX_Development_kMsgType_BlockEOFAckV1 :: byte where [message_types]: "BDX_Development_kMsgType_BlockEOFAckV1 = 0x14"
definition DeviceDescription_kMessageType_IdentifyRequest :: byte where [message_types]: "DeviceDescription_kMessageType_IdentifyRequest = 0x01"
definition DeviceDescription_kMessageType_IdentifyResponse :: byte where [message_types]: "DeviceDescription_kMessageType_IdentifyResponse = 0x02"
definition ServiceProvisioning_kMsgType_RegisterServicePairAccount :: byte where [message_types]: "ServiceProvisioning_kMsgType_RegisterServicePairAccount = 0x01"
definition ServiceProvisioning_kMsgType_UpdateService :: byte where [message_types]: "ServiceProvisioning_kMsgType_UpdateService = 0x02"
definition ServiceProvisioning_kMsgType_UnregisterService :: byte where [message_types]: "ServiceProvisioning_kMsgType_UnregisterService = 0x03"
definition ServiceProvisioning_kMsgType_UnpairDeviceFromAccount :: byte where [message_types]: "ServiceProvisioning_kMsgType_UnpairDeviceFromAccount = 0x65"
definition ServiceProvisioning_kMsgType_PairDeviceToAccount :: byte where [message_types]: "ServiceProvisioning_kMsgType_PairDeviceToAccount = 0x66"

section \<open>Names\<close>

definition vendor_names :: "(u16 \<times> string) list" where
  "vendor_names =
    [(kMatterVendor_Common, ''Common''),
     (kMatterVendor_NestLabs, ''Nest'')]"

definition GetVendorName :: "u16 \<Rightarrow> string option" where
  "GetVendorName vendorId = map_of vendor_names vendorId"

definition protocol_names :: "(u32 \<times> string) list" where
  "protocol_names =
    [(kMatterProfile_Common, ''SecureChannel''),
     (kMatterProfile_InteractionModel, ''IM''),
     (kMatterProfile_BDX, ''BDX (Bulk Data Exchange)''),
     (kMatterProfile_UDC, ''UDC (User Directed Commissioning)''),
     (kMatterProfile_Echo, ''Echo''),
     (kMatterProfile_Security, ''Security''),
     (kMatterProfile_FabricProvisioning, ''FabricProvisioning''),
     (kMatterProfile_DeviceControl, ''DeviceControl''),
     (kMatterProfile_Time, ''Time''),
     (kMatterProfile_IM, ''IM''),
     (kMatterProfile_SWU, ''SWU''),
     (kMatterProfile_DeviceDescription, ''DeviceDescription''),
     (kMatterProfile_ServiceProvisioning, ''ServiceProvisioning''),
     (kMatterProfile_Locale, ''Locale''),
     (kMatterProfile_DictionaryKey, ''DictionaryKey'')]"

definition GetProtocolName :: "u32 \<Rightarrow> string option" where
  "GetProtocolName profileId = map_of protocol_names profileId"

definition message_names :: "(u32 \<times> (byte \<times> string) list) list" where
  "message_names =
    [(kMatterProfile_Common,
      [(Common_kMsgType_StatusReport, ''StatusReport''),
       (Common_kMsgType_StandaloneAck, ''StandaloneAck''),
       (Common_kMsgType_MsgCounterSyncReq, ''MsgCounterSyncReq''),
       (Common_kMsgType_MsgCounterSyncRsp, ''MsgCounterSyncRsp''),
       (Common_kMsgType_PBKDFParamRequest, ''PBKDFParamRequest''),
       (Common_kMsgType_PBKDFParamResponse, ''PBKDFParamResponse''),
       (Common_kMsgType_PASE_Spake2p1, ''PASE_Pake1''),
       (Common_kMsgType_PASE_Spake2p2, ''PASE_Pake2''),
       (Common_kMsgType_PASE_Spake2p3, ''PASE_Pake3''),
       (Common_kMsgType_PASE_Spake2pError, ''PASE_Spake2pError''),
       (Common_kMsgType_CASE_Sigma1, ''CASE_Sigma1''),
       (Common_kMsgType_CASE_Sigma2, ''CASE_Sigma2''),
       (Common_kMsgType_CASE_Sigma3, ''CASE_Sigma3''),
       (Common_kMsgType_CASE_Sigma2_Resume, ''CASE_Sigma2_Resume''),
       (Common_kMsgType_ICD_CheckIn, ''ICD_CheckInMessage'')]),
     (kMatterProfile_InteractionModel,
      [(InteractionModel_kMsgType_StatusResponse, ''StatusResponse''),
       (InteractionModel_kMsgType_ReadRequest, ''ReadRequest''),
       (InteractionModel_kMsgType_SubscribeRequest, ''SubscribeRequest''),
       (InteractionModel_kMsgType_SubscribeResponse, ''SubscribeResponse''),
       (InteractionModel_kMsgType_ReportData, ''ReportData''),
       (InteractionModel_kMsgType_WriteRequest, ''WriteRequest''),
       (InteractionModel_kMsgType_WriteResponse, ''WriteResponse''),
       (InteractionModel_kMsgType_InvokeRequest, ''InvokeCommandRequest''),
       (InteractionModel_kMsgType_InvokeResponse, ''InvokeCommandResponse''),
       (InteractionModel_kMsgType_TimedRequest, ''TimedRequest'')]),
     (kMatterProfile_Echo,
      [(kEchoMessageType_EchoRequest, ''EchoRequest''),
       (kEchoMessageType_EchoResponse, ''EchoResponse'')]),
     (kMatterProfile_NetworkProvisioning,
      [(0x00, ''IdentificationDeclaration''),
       (NetworkProvisioning_kMsgType_ScanNetworks, ''ScanNetworks''),
       (NetworkProvisioning_kMsgType_NetworkScanComplete, ''NetworkScanComplete''),
       (NetworkProvisioning_kMsgType_AddNetwork, ''AddNetwork''),
       (NetworkProvisioning_kMsgType_AddNetworkComplete, ''AddNetworkComplete''),
       (NetworkProvisioning_kMsgType_UpdateNetwork, ''UpdateNetwork''),
       (NetworkProvisioning_kMsgType_RemoveNetwork, ''RemoveNetwork''),
       (NetworkProvisioning_kMsgType_EnableNetwork, ''EnableNetwork''),
       (NetworkProvisioning_kMsgType_DisableNetwork, ''DisableNetwork''),
       (NetworkProvisioning_kMsgType_TestConnectivity, ''TestConnectivity''),
       (NetworkProvisioning_kMsgType_SetRendezvousMode, ''SetRendezvousMode''),
       (NetworkProvisioning_kMsgType_GetNetworks, ''GetNetworks''),
       (NetworkProvisioning_kMsgType_GetNetworksComplete, ''GetNetworksComplete''),
       (NetworkProvisioning_kMsgType_GetLastResult, ''GetLastResult'')]),
     (kMatterProfile_Security,
      [(Security_kMsgType_PASEInitiatorStep1, ''PASEInitiatorStep1''),
       (Security_kMsgType_PASEResponderStep1, ''PASEResponderStep1''),
       (Security_kMsgType_PASEResponderStep2, ''PASEResponderStep2''),
       (Security_kMsgType_PASEInitiatorStep2, ''PASEInitiatorStep2''),
       (Security_kMsgType_PASEResponderKeyConfirm, ''PASEResponderKeyConfirm''),
       (Security_kMsgType_PASEResponderReconfigure, ''PASEReconfigure''),
       (Security_kMsgType_CASEBeginSessionRequest, ''CASEBeginSessionRequest''),
       (Security_kMsgType_CASEBeginSessionResponse, ''CASEBeginSessionResponse''),
       (Security_kMsgType_CASEInitiatorKeyConfirm, ''CASEInitiatorKeyConfirm''),
       (Security_kMsgType_CASEReconfigure, ''CASEReconfigure''),
       (Security_kMsgType_EndSession, ''EndSession''),
       (Security_kMsgType_KeyError, ''KeyError''),
       (Security_kMsgType_MsgCounterSyncResp, ''MessageCounterSyncResponse'')]),
     (kMatterProfile_FabricProvisioning,
      [(FabricProvisioning_kMsgType_CreateFabric, ''CreateFabric''),
       (FabricProvisioning_kMsgType_LeaveFabric, ''LeaveFabric''),
       (FabricProvisioning_kMsgType_GetFabricConfig, ''GetFabricConfig''),
       (FabricProvisioning_kMsgType_GetFabricConfigComplete, ''GetFabricConfigComplete''),
       (FabricProvisioning_kMsgType_JoinExistingFabric, ''JoinExistingFabric'')]),
     (kMatterProfile_DeviceControl,
      [(DeviceControl_kMsgType_ResetConfig, ''ResetConfig''),
       (DeviceControl_kMsgType_ArmFailSafe, ''ArmFailSafe''),
       (DeviceControl_kMsgType_DisarmFailSafe, ''DisarmFailSafe''),
       (DeviceControl_kMsgType_EnableConnectionMonitor, ''EnableConnectionMonitor''),
       (DeviceControl_kMsgType_DisableConnectionMonitor, ''DisableConnectionMonitor''),
       (DeviceControl_kMsgType_RemotePassiveRendezvous, ''RemotePassiveRendezvous''),
       (DeviceControl_kMsgType_RemoteConnectionComplete, ''RemoteConnectionComplete''),
       (DeviceControl_kMsgType_StartSystemTest, ''StartSystemTest''),
       (DeviceControl_kMsgType_StopSystemTest, ''StopSystemTest'')]),
     (kMatterProfile_Time,
      [(Time_kTimeMessageType_TimeSyncTimeChangeNotification, ''TimeSyncTimeChangeNotification''),
       (Time_kTimeMessageType_TimeSyncRequest, ''TimeSyncRequest''),
       (Time_kTimeMessageType_TimeSyncResponse, ''TimeSyncResponse'')]),
     (kMatterProfile_SWU,
      [(SoftwareUpdate_kMsgType_ImageAnnounce, ''ImageAnnounce''),
       (SoftwareUpdate_kMsgType_ImageQuery, ''ImageQuery''),
       (SoftwareUpdate_kMsgType_ImageQueryResponse, ''ImageQueryResponse''),
       (SoftwareUpdate_kMsgType_DownloadNotify, ''DownloadNotify''),
       (SoftwareUpdate_kMsgType_NotifyRepsponse, ''NotifyRepsponse''),
       (SoftwareUpdate_kMsgType_UpdateNotify, ''UpdateNotify''),
       (SoftwareUpdate_kMsgType_ImageQueryStatus, ''ImageQueryStatus'')]),
     (kMatterProfile_BDX,
      [(BDX_Development_kMsgType_SendInit, ''SendInit''),
       (BDX_Development_kMsgType_SendAccept, ''SendAccept''),
       (BDX_Development_kMsgType_SendReject, ''SendReject''),
       (BDX_Development_kMsgType_ReceiveInit, ''ReceiveInit''),
       (BDX_Development_kMsgType_ReceiveAccept, ''ReceiveAccept''),
       (BDX_Development_kMsgType_ReceiveReject, ''ReceiveReject''),
       (BDX_Development_kMsgType_BlockQuery, ''BlockQuery''),
       (BDX_Development_kMsgType_BlockSend, ''BlockSend''),
       (BDX_Development_kMsgType_BlockEOF, ''BlockEOF''),
       (BDX_Development_kMsgType_BlockAck, ''BlockAck''),
       (BDX_Development_kMsgType_BlockEOFAck, ''BlockEOFAck''),
       (BDX_Development_kMsgType_TransferError, ''TransferError''),
       (BDX_Development_kMsgType_BlockQueryV1, ''BlockQuery''),
       (BDX_Development_kMsgType_BlockSendV1, ''Block''),
       (BDX_Development_kMsgType_BlockEOFV1, ''BlockEOF''),
       (BDX_Development_kMsgType_BlockAckV1, ''BlockAck''),
       (BDX_Development_kMsgType_BlockEOFAckV1, ''BlockAckEOF''),
       (0x15, ''BlockQueryWithSkip'')]),
     (kMatterProfile_DeviceDescription,
      [(DeviceDescription_kMessageType_IdentifyRequest, ''IdentifyRequest''),
       (DeviceDescription_kMessageType_IdentifyResponse, ''IdentifyResponse'')]),
     (kMatterProfile_ServiceProvisioning,
      [(ServiceProvisioning_kMsgType_RegisterServicePairAccount, ''RegisterServicePairAccount''),
       (ServiceProvisioning_kMsgType_UpdateService, ''UpdateService''),
       (ServiceProvisioning_kMsgType_UnregisterService, ''UnregisterService''),
       (ServiceProvisioning_kMsgType_UnpairDeviceFromAccount, ''UnpairDeviceFromAccount''),
       (ServiceProvisioning_kMsgType_PairDeviceToAccount, ''PairDeviceToAccount'')])]"

definition GetMessageName :: "u32 \<Rightarrow> byte \<Rightarrow> string option" where
  "GetMessageName profileId msgType =
     (case map_of message_names profileId of None \<Rightarrow> None | Some names \<Rightarrow> map_of names msgType)"

section \<open>Laws\<close>

lemma map_of_known: "map_of xs k = Some v \<Longrightarrow> list_all P (map fst xs) \<Longrightarrow> P k"
  by (induction xs) (auto split: if_splits)

text \<open>Every protocol whose messages have names has a name itself.\<close>

lemma message_names_known: "list_all (\<lambda>p. GetProtocolName p \<noteq> None) (map fst message_names)"
  by (simp add: message_names_def GetProtocolName_def protocol_names_def profile_ids)

lemma GetMessageName_known: "GetMessageName p t = Some n \<Longrightarrow> GetProtocolName p \<noteq> None"
  using map_of_known [OF _ message_names_known] by (auto simp: GetMessageName_def split: option.splits)

text \<open>No name stands under two cases of one \<open>switch\<close>.\<close>

lemma protocol_names_distinct: "distinct (map fst protocol_names)"
  by (simp add: protocol_names_def profile_ids)

lemma message_names_distinct:
  "distinct (map fst message_names) \<and> list_all (\<lambda>(p, names). distinct (map fst names)) message_names"
  by (simp add: message_names_def profile_ids message_types)

end
