(* ===== verification/Message_Info.thy ===== *)
theory Message_Info
  imports Matter_Encoding
begin

text \<open>
  The data every message-level component shares: \<open>MatterMessageInfo\<close> of \<open>packet-matter.h\<close>, the header
  constants of \<open>MatterMessageLayer.h\<close> and \<open>MatterExchangeMgr.h\<close>, the key identifier helpers of
  \<open>MatterSessionIds.h\<close>, and the buffer and packet handles of the host. A record of the message tracker
  is its index in the tracker's list of records. Reading a host buffer out of its range raises the
  host's bounds exception, which ends the dissection of the packet: \<open>None\<close>.
\<close>

section \<open>Packets and buffers\<close>

datatype port_type = PT_UDP | PT_TCP | PT_NONE

record packet_info =
  fd_num :: u32
  ptype :: port_type
  tcp_stream :: u32

type_synonym tvbuff = "byte list"

definition tvb_range :: "tvbuff \<Rightarrow> int \<Rightarrow> int \<Rightarrow> byte list option" where
  "tvb_range tvb off len =
     (if off < 0 \<or> len < 0 then None else load_bytes tvb (nat off) (nat len))"

definition tvb_get_guint8 :: "tvbuff \<Rightarrow> nat \<Rightarrow> byte option" where
  "tvb_get_guint8 tvb off = map_option fst (Read8 (drop off tvb))"

definition tvb_get_letohs :: "tvbuff \<Rightarrow> nat \<Rightarrow> u16 option" where
  "tvb_get_letohs tvb off = map_option fst (LE_Read16 (drop off tvb))"

definition tvb_get_letohl :: "tvbuff \<Rightarrow> nat \<Rightarrow> u32 option" where
  "tvb_get_letohl tvb off = map_option fst (LE_Read32 (drop off tvb))"

definition tvb_get_letoh64 :: "tvbuff \<Rightarrow> nat \<Rightarrow> u64 option" where
  "tvb_get_letoh64 tvb off = map_option fst (LE_Read64 (drop off tvb))"

section \<open>Header constants\<close>

definition kMatterSessionType_Unicast :: byte where "kMatterSessionType_Unicast = 0"
definition kMatterSessionType_Group :: byte where "kMatterSessionType_Group = 1"
definition kMatterSessionId_Unsecured :: u16 where "kMatterSessionId_Unsecured = 0"
definition kMatterEncryptionType_None :: byte where "kMatterEncryptionType_None = 0"
definition kMatterEncryptionType_AES128CCM :: byte where "kMatterEncryptionType_AES128CCM = 1"
definition kMatterMessageFlag_SourceNodeId :: byte where "kMatterMessageFlag_SourceNodeId = 0x04"
definition kMatterMessageFlag_DestGroupId :: byte where "kMatterMessageFlag_DestGroupId = 0x02"
definition kMatterMessageFlag_DestNodeId :: byte where "kMatterMessageFlag_DestNodeId = 0x01"
definition kMsgHeaderField_MessageVersionMask :: byte where "kMsgHeaderField_MessageVersionMask = 0xF0"
definition kMsgHeaderField_MessageVersionShift :: nat where "kMsgHeaderField_MessageVersionShift = 4"
definition kMsgHeaderField_EncryptionTypeMask :: byte where "kMsgHeaderField_EncryptionTypeMask = 0x03"
definition kMsgHeaderField_EncryptionTypeShift :: nat where "kMsgHeaderField_EncryptionTypeShift = 0"
definition kMatterExchangeFlag_Initiator :: byte where "kMatterExchangeFlag_Initiator = 0x01"
definition kMatterExchangeFlag_AckId :: byte where "kMatterExchangeFlag_AckId = 0x02"
definition kMatterExchangeFlag_VendorProtocol :: byte where "kMatterExchangeFlag_VendorProtocol = 0x10"
definition MATTER_CRYPTO_TAG_LENGTH :: u16 where "MATTER_CRYPTO_TAG_LENGTH = 16"

lemmas header_constants = kMatterSessionType_Unicast_def kMatterSessionType_Group_def
  kMatterSessionId_Unsecured_def kMatterEncryptionType_None_def kMatterEncryptionType_AES128CCM_def
  kMatterMessageFlag_SourceNodeId_def kMatterMessageFlag_DestGroupId_def kMatterMessageFlag_DestNodeId_def
  kMsgHeaderField_MessageVersionMask_def kMsgHeaderField_MessageVersionShift_def
  kMsgHeaderField_EncryptionTypeMask_def kMsgHeaderField_EncryptionTypeShift_def
  kMatterExchangeFlag_Initiator_def kMatterExchangeFlag_AckId_def kMatterExchangeFlag_VendorProtocol_def
  MATTER_CRYPTO_TAG_LENGTH_def

section \<open>Message information\<close>

type_synonym rec_id = nat

record msg_info =
  mi_msgRec :: "rec_id option"
  mi_msgVersion :: byte
  mi_msgFlags :: byte
  mi_secFlags :: byte
  mi_srcNodeId :: u64
  mi_destNodeId :: u64
  mi_msgId :: u32
  mi_ackMsgCntr :: u32
  mi_ackedMsg :: "rec_id option"
  mi_msgProtocolId :: u16
  mi_msgProtocolVendorId :: u16
  mi_msgProfileName :: "string option"
  mi_exchId :: u16
  mi_exchangeStartMsg :: "rec_id option"
  mi_sessionType :: byte
  mi_sessionId :: u16
  mi_exchHeader :: byte
  mi_msgType :: byte
  mi_msgTypeName :: "string option"
  mi_msgLen :: u16
  mi_headerLen :: u16
  mi_payloadLen :: u16
  mi_trailerLen :: u16
  mi_retransOfMsg :: "rec_id option"
  mi_retransNum :: u32
  mi_totalRetrans :: u32
  mi_reusesMsgCntrFrom :: "rec_id option"

text \<open>The constructor clears the object.\<close>

definition MatterMessageInfo :: msg_info where
  "MatterMessageInfo = \<lparr>mi_msgRec = None, mi_msgVersion = 0, mi_msgFlags = 0, mi_secFlags = 0,
     mi_srcNodeId = 0, mi_destNodeId = 0, mi_msgId = 0, mi_ackMsgCntr = 0, mi_ackedMsg = None,
     mi_msgProtocolId = 0, mi_msgProtocolVendorId = 0, mi_msgProfileName = None, mi_exchId = 0,
     mi_exchangeStartMsg = None, mi_sessionType = 0, mi_sessionId = 0, mi_exchHeader = 0,
     mi_msgType = 0, mi_msgTypeName = None, mi_msgLen = 0, mi_headerLen = 0, mi_payloadLen = 0,
     mi_trailerLen = 0, mi_retransOfMsg = None, mi_retransNum = 0, mi_totalRetrans = 0,
     mi_reusesMsgCntrFrom = None\<rparr>"

definition MessageIsEncrypted :: "msg_info \<Rightarrow> bool" where
  "MessageIsEncrypted msgInfo \<longleftrightarrow>
     \<not> (mi_sessionType msgInfo = kMatterSessionType_Unicast \<and>
        mi_sessionId msgInfo = kMatterSessionId_Unsecured)"

section \<open>Key identifiers\<close>

definition kMask_SessionType :: u32 where "kMask_SessionType = 0x0F"
definition kMask_KeyNumber :: u32 where "kMask_KeyNumber = 0x00000FFF"
definition kMask_RootKeyNumber :: u32 where "kMask_RootKeyNumber = 0x00000C00"
definition kMask_EpochKeyNumber :: u32 where "kMask_EpochKeyNumber = 0x00000380"
definition kMask_GroupLocalNumber :: u32 where "kMask_GroupLocalNumber = 0x0000007F"
definition kFlag_UseCurrentEpochKey :: u32 where "kFlag_UseCurrentEpochKey = 0x80000000"
definition kTypeModifier_IncorporatesEpochKey :: u32 where "kTypeModifier_IncorporatesEpochKey = 0x00001000"
definition kType_None :: u32 where "kType_None = 0x00000000"
definition kType_General :: u32 where "kType_General = 0x00001000"
definition kType_Session :: u32 where "kType_Session = 0x00002000"
definition kType_AppStaticKey :: u32 where "kType_AppStaticKey = 0x00004000"
definition kType_AppRotatingKey :: u32 where "kType_AppRotatingKey = 0x00005000"
definition kType_AppRootKey :: u32 where "kType_AppRootKey = 0x00010000"
definition kType_AppEpochKey :: u32 where "kType_AppEpochKey = 0x00021000"
definition kType_AppGroupMasterKey :: u32 where "kType_AppGroupMasterKey = 0x00030000"

lemmas session_id_constants = kMask_SessionType_def kMask_KeyNumber_def kMask_RootKeyNumber_def
  kMask_EpochKeyNumber_def kMask_GroupLocalNumber_def kFlag_UseCurrentEpochKey_def
  kTypeModifier_IncorporatesEpochKey_def kType_None_def kType_General_def kType_Session_def
  kType_AppStaticKey_def kType_AppRotatingKey_def kType_AppRootKey_def kType_AppEpochKey_def
  kType_AppGroupMasterKey_def

definition SessionId_GetType :: "u32 \<Rightarrow> u32" where
  "SessionId_GetType keyId = keyId AND kMask_SessionType"

definition IsGeneralKey :: "u32 \<Rightarrow> bool" where "IsGeneralKey keyId \<longleftrightarrow> SessionId_GetType keyId = kType_General"
definition IsSessionKey :: "u32 \<Rightarrow> bool" where "IsSessionKey keyId \<longleftrightarrow> SessionId_GetType keyId = kType_Session"
definition IsAppStaticKey :: "u32 \<Rightarrow> bool" where
  "IsAppStaticKey keyId \<longleftrightarrow> SessionId_GetType keyId = kType_AppStaticKey"
definition IsAppRotatingKey :: "u32 \<Rightarrow> bool" where
  "IsAppRotatingKey keyId \<longleftrightarrow> SessionId_GetType keyId = kType_AppRotatingKey"
definition IsAppRootKey :: "u32 \<Rightarrow> bool" where
  "IsAppRootKey keyId \<longleftrightarrow> SessionId_GetType keyId = kType_AppRootKey"
definition IsAppEpochKey :: "u32 \<Rightarrow> bool" where
  "IsAppEpochKey keyId \<longleftrightarrow> SessionId_GetType keyId = kType_AppEpochKey"
definition IsAppGroupMasterKey :: "u32 \<Rightarrow> bool" where
  "IsAppGroupMasterKey keyId \<longleftrightarrow> SessionId_GetType keyId = kType_AppGroupMasterKey"

definition MakeGeneralSessionId :: "u16 \<Rightarrow> u16" where
  "MakeGeneralSessionId generalKeyNumber =
     ucast (kType_General OR (ucast generalKeyNumber AND kMask_KeyNumber))"
definition GetRootSessionId :: "u32 \<Rightarrow> u32" where
  "GetRootSessionId keyId = kType_AppRootKey OR (keyId AND kMask_RootKeyNumber)"
definition GetEpochSessionId :: "u32 \<Rightarrow> u32" where
  "GetEpochSessionId keyId = kType_AppEpochKey OR (keyId AND kMask_EpochKeyNumber)"
definition GetAppGroupMasterSessionId :: "u32 \<Rightarrow> u32" where
  "GetAppGroupMasterSessionId keyId = kType_AppGroupMasterKey OR (keyId AND kMask_GroupLocalNumber)"
definition GetRootKeyNumber :: "u32 \<Rightarrow> byte" where
  "GetRootKeyNumber keyId = ucast (drop_bit 10 (keyId AND kMask_RootKeyNumber))"
definition GetEpochKeyNumber :: "u32 \<Rightarrow> byte" where
  "GetEpochKeyNumber keyId = ucast (drop_bit 7 (keyId AND kMask_EpochKeyNumber))"
definition GetAppGroupLocalNumber :: "u32 \<Rightarrow> byte" where
  "GetAppGroupLocalNumber keyId = ucast (drop_bit 0 (keyId AND kMask_GroupLocalNumber))"
definition MakeRootSessionId :: "byte \<Rightarrow> u32" where
  "MakeRootSessionId rootKeyNumber = kType_AppRootKey OR push_bit 10 (ucast rootKeyNumber)"
definition MakeEpochSessionId :: "byte \<Rightarrow> u32" where
  "MakeEpochSessionId epochKeyNumber = kType_AppEpochKey OR push_bit 7 (ucast epochKeyNumber)"
definition MakeAppGroupMasterSessionId :: "byte \<Rightarrow> u32" where
  "MakeAppGroupMasterSessionId appGroupLocalNumber =
     kType_AppGroupMasterKey OR push_bit 0 (ucast appGroupLocalNumber)"
definition ConvertToCurrentAppSessionId :: "u32 \<Rightarrow> u32" where
  "ConvertToCurrentAppSessionId keyId = (keyId AND NOT kMask_EpochKeyNumber) OR kFlag_UseCurrentEpochKey"
definition IncorporatesEpochKey :: "u32 \<Rightarrow> bool" where
  "IncorporatesEpochKey keyId \<longleftrightarrow> keyId AND kTypeModifier_IncorporatesEpochKey \<noteq> 0"

text \<open>
  The mask of \<open>GetType\<close> keeps the low four bits, and every key type but \<open>kType_None\<close> lies above them.
\<close>

lemma SessionId_GetType_less: "unat (SessionId_GetType keyId) < 16"
proof -
  have m: "(0x0F :: u32) = mask 4" by (simp add: mask_eq_exp_minus_1)
  have "SessionId_GetType keyId = take_bit 4 keyId"
    by (simp only: SessionId_GetType_def kMask_SessionType_def m take_bit_eq_mask)
  then have "unat (SessionId_GetType keyId) = take_bit 4 (unat keyId)" by (simp only: unsigned_take_bit_eq)
  then show ?thesis by (simp add: take_bit_eq_mod)
qed

lemma no_key_has_a_type:
  "\<not> IsGeneralKey keyId" "\<not> IsSessionKey keyId" "\<not> IsAppStaticKey keyId" "\<not> IsAppRotatingKey keyId"
  "\<not> IsAppRootKey keyId" "\<not> IsAppEpochKey keyId" "\<not> IsAppGroupMasterKey keyId"
  using SessionId_GetType_less [of keyId]
  by (auto simp: IsGeneralKey_def IsSessionKey_def IsAppStaticKey_def IsAppRotatingKey_def
      IsAppRootKey_def IsAppEpochKey_def IsAppGroupMasterKey_def session_id_constants)

text \<open>The number in a root, epoch or group key identifier is the number it was made from.\<close>

lemma root_key_number:
  assumes "unat n < 4"
  shows "GetRootKeyNumber (MakeRootSessionId n) = n"
proof -
  have "n = 0 \<or> n = 1 \<or> n = 2 \<or> n = 3"
  proof -
    have "unat n = 0 \<or> unat n = 1 \<or> unat n = 2 \<or> unat n = 3" using assms by arith
    then show ?thesis by (simp add: word_unat_eq_iff)
  qed
  then show ?thesis
    by (elim disjE; simp add: GetRootKeyNumber_def MakeRootSessionId_def session_id_constants)
qed

end
