(* ===== verification/Message_Keys.thy ===== *)
theory Message_Keys
  imports Message_Info
begin

text \<open>
  The keys: \<open>MessageEncryptionKey\<close> and its table (\<open>MessageEncryptionKey.h\<close>, \<open>.cpp\<close>), and the user's
  tables of keys and of node identifiers (\<open>UserEncryptionKeyPrefs\<close>, \<open>UserNodeIdPrefs\<close>).

  A pointer to a key is the list of keys from it along \<open>nextKey\<close>, the empty list for a null pointer: a key
  of the table is never changed once it is in, and new keys are put in front. The bytes of a key are an
  object of their own beside the length that goes with it; reading past the object is \<open>None\<close>. The host's
  tree, which \<open>Init\<close> makes before anything else is called, is the map from key identifiers to such lists.
\<close>

section \<open>Keys\<close>

record enc_key =
  keyId :: u16
  key_sessionType :: byte
  dataEncKey :: "byte list"
  dataEncKeyLen :: u32
  key_srcNodeId :: u64

definition kDataEncKeyLength_AES128CCM :: u32 where
  "kDataEncKeyLength_AES128CCM = 16"

definition zero_key :: enc_key where
  "zero_key = \<lparr>keyId = 0, key_sessionType = 0, dataEncKey = [], dataEncKeyLen = 0, key_srcNodeId = 0\<rparr>"

text \<open>\<open>memcmp\<close> of the first \<open>n\<close> bytes of two objects, as whether they are equal.\<close>

definition same_bytes :: "nat \<Rightarrow> byte list \<Rightarrow> byte list \<Rightarrow> bool option" where
  "same_bytes n a b =
     (case (load_bytes a 0 n, load_bytes b 0 n) of
        (Some x, Some y) \<Rightarrow> Some (x = y)
      | _ \<Rightarrow> None)"

definition IsSameKey :: "enc_key \<Rightarrow> enc_key \<Rightarrow> bool option" where
  "IsSameKey key otherKey =
     (if key_sessionType key \<noteq> key_sessionType otherKey then Some False
      else if dataEncKeyLen key \<noteq> dataEncKeyLen otherKey then Some False
      else same_bytes (unat (dataEncKeyLen key)) (dataEncKey key) (dataEncKey otherKey))"

section \<open>The key table\<close>

type_synonym key_table = "u16 \<Rightarrow> enc_key list"

definition KeyTable_Init :: key_table where
  "KeyTable_Init = (\<lambda>_. [])"

definition FindKeysById :: "u16 \<Rightarrow> key_table \<Rightarrow> enc_key list" where
  "FindKeysById kid sKeys = sKeys kid"

text \<open>The loop over the existing keys, from \<open>key\<close> on.\<close>

fun find_same :: "enc_key \<Rightarrow> enc_key list \<Rightarrow> enc_key list option" where
  "find_same keyData [] = Some []"
| "find_same keyData (key # rest) =
     (case IsSameKey key keyData of None \<Rightarrow> None
      | Some True \<Rightarrow> Some (key # rest)
      | Some False \<Rightarrow> find_same keyData rest)"

definition AddKey :: "enc_key \<Rightarrow> key_table \<Rightarrow> (enc_key list \<times> key_table) option" where
  "AddKey keyData sKeys =
     (let existingKeys = FindKeysById (keyId keyData) sKeys in
      case find_same keyData existingKeys of None \<Rightarrow> None
      | Some (key # rest) \<Rightarrow> Some (key # rest, sKeys)
      | Some [] \<Rightarrow>
          (case load_bytes (dataEncKey keyData) 0 (unat (dataEncKeyLen keyData)) of None \<Rightarrow> None
           | Some bytes \<Rightarrow>
              (let newKey = zero_key\<lparr>keyId := keyId keyData, key_sessionType := key_sessionType keyData,
                     dataEncKey := bytes, dataEncKeyLen := dataEncKeyLen keyData,
                     key_srcNodeId := key_srcNodeId keyData\<rparr>
               in Some (newKey # existingKeys, sKeys(keyId newKey := newKey # existingKeys)))))"

section \<open>The user's tables\<close>

text \<open>
  The callbacks of the table of keys: the check of a field, the copy of a record (fields that are not
  copied keep what \<open>dest\<close> held) and the update of an edited record.
\<close>

definition encKey_check_cb :: "u32 \<Rightarrow> bool" where
  "encKey_check_cb len = (if len \<noteq> kDataEncKeyLength_AES128CCM then False else True)"

definition MessageEncryptionKey_copy_cb :: "enc_key \<Rightarrow> enc_key \<Rightarrow> enc_key option" where
  "MessageEncryptionKey_copy_cb dest orig =
     map_option (\<lambda>bytes. dest\<lparr>keyId := keyId orig, key_sessionType := key_sessionType orig,
         dataEncKey := bytes, dataEncKeyLen := dataEncKeyLen orig\<rparr>)
       (load_bytes (dataEncKey orig) 0 (unat (dataEncKeyLen orig)))"

definition kNone :: u16 where
  "kNone = 0"

definition MessageEncryptionKey_update_cb :: "enc_key \<Rightarrow> enc_key" where
  "MessageEncryptionKey_update_cb r =
     r\<lparr>keyId := kNone, key_sessionType := kMatterEncryptionType_AES128CCM, key_srcNodeId := 0\<rparr>"

text \<open>The last loop of \<open>UserEncryptionKeyPrefs::Init\<close>, over the keys that were loaded.\<close>

definition UserKeys_Init :: "enc_key list \<Rightarrow> enc_key list" where
  "UserKeys_Init sKeyList = map (\<lambda>k. k\<lparr>keyId := kNone,
     key_sessionType := kMatterEncryptionType_AES128CCM, key_srcNodeId := 0\<rparr>) sKeyList"

definition GetKeyCount :: "enc_key list \<Rightarrow> nat" where
  "GetKeyCount sKeyList = length sKeyList"

definition GetKey :: "enc_key list \<Rightarrow> nat \<Rightarrow> enc_key option" where
  "GetKey sKeyList index = (if index < GetKeyCount sKeyList then Some (sKeyList ! index) else None)"

record node_id =
  dataNodeId :: "byte list"
  dataNodeIdLen :: u32
  NodeId :: u64

definition kNodeIdLength :: u32 where
  "kNodeIdLength = 8"

definition nodeId_check_cb :: "u32 \<Rightarrow> bool" where
  "nodeId_check_cb len = (if len \<noteq> kNodeIdLength then False else True)"

text \<open>The eight bytes are read one by one, the most significant first.\<close>

definition MessageNodeId_copy_cb :: "node_id \<Rightarrow> node_id \<Rightarrow> node_id option" where
  "MessageNodeId_copy_cb d src =
     (if dataNodeIdLen src \<noteq> 0 then
        (case (load_bytes (dataNodeId src) 0 (unat (dataNodeIdLen src)), dataNodeId src) of
           (Some bytes, b0 # b1 # b2 # b3 # b4 # b5 # b6 # b7 # _) \<Rightarrow>
             Some (d\<lparr>dataNodeId := bytes, dataNodeIdLen := dataNodeIdLen src,
               NodeId := push_bit 56 (ucast b0) OR push_bit 48 (ucast b1) OR push_bit 40 (ucast b2) OR
                 push_bit 32 (ucast b3) OR push_bit 24 (ucast b4) OR push_bit 16 (ucast b5) OR
                 push_bit 8 (ucast b6) OR ucast b7\<rparr>)
         | _ \<Rightarrow> None)
      else Some d)"

definition GetNodeIdCount :: "node_id list \<Rightarrow> nat" where
  "GetNodeIdCount sNodeIdList = length sNodeIdList"

definition GetNodeId :: "node_id list \<Rightarrow> nat \<Rightarrow> node_id option" where
  "GetNodeId sNodeIdList index =
     (if index < GetNodeIdCount sNodeIdList then Some (sNodeIdList ! index) else None)"

section \<open>The table as a set of keys\<close>

text \<open>
  A key is sound when its length is that of its bytes. The table holds sound keys, each under its own
  identifier, and no key twice.
\<close>

definition key_ok :: "enc_key \<Rightarrow> bool" where
  "key_ok k \<longleftrightarrow> length (dataEncKey k) = unat (dataEncKeyLen k)"

definition same_key :: "enc_key \<Rightarrow> enc_key \<Rightarrow> bool" where
  "same_key a b \<longleftrightarrow> key_sessionType a = key_sessionType b \<and> dataEncKey a = dataEncKey b"

definition key_table_inv :: "key_table \<Rightarrow> bool" where
  "key_table_inv T \<longleftrightarrow> (\<forall>i. \<forall>k \<in> set (FindKeysById i T). key_ok k \<and> keyId k = i) \<and>
     (\<forall>i. distinct (map (\<lambda>k. (key_sessionType k, dataEncKey k)) (FindKeysById i T)))"

lemma key_len_eq: "key_ok a \<Longrightarrow> key_ok b \<Longrightarrow> dataEncKeyLen a = dataEncKeyLen b \<longleftrightarrow> length (dataEncKey a) = length (dataEncKey b)"
  by (simp add: key_ok_def word_unat_eq_iff)

lemma IsSameKey_iff:
  assumes "key_ok a" and "key_ok b"
  shows "IsSameKey a b = Some (same_key a b)"
proof (cases "dataEncKeyLen a = dataEncKeyLen b")
  case True
  then have "length (dataEncKey a) = unat (dataEncKeyLen a)" "length (dataEncKey b) = unat (dataEncKeyLen a)"
    using assms by (simp_all add: key_ok_def)
  then show ?thesis using True by (simp add: IsSameKey_def same_key_def same_bytes_def load_bytes_def)
next
  case False
  then have "dataEncKey a \<noteq> dataEncKey b" using key_len_eq [OF assms] by auto
  then show ?thesis using False by (simp add: IsSameKey_def same_key_def)
qed

lemma find_same_Cons:
  "key_ok k \<Longrightarrow> key_ok key \<Longrightarrow>
     find_same k (key # keys) = (if same_key key k then Some (key # keys) else find_same k keys)"
  by (simp add: IsSameKey_iff)

lemma find_same_dropWhile:
  assumes "key_ok k" and "\<forall>key \<in> set keys. key_ok key"
  shows "find_same k keys = Some (dropWhile (\<lambda>key. \<not> same_key key k) keys)"
  using assms(2)
proof (induction keys)
  case Nil
  then show ?case by simp
next
  case (Cons key keys)
  then show ?case using find_same_Cons [OF assms(1), of key keys] by (simp del: find_same.simps)
qed

lemma KeyTable_Init_inv: "key_table_inv KeyTable_Init"
  by (simp add: key_table_inv_def KeyTable_Init_def FindKeysById_def)

text \<open>
  \<open>AddKey\<close> returns the key that is in the table under this identifier with the same session type and
  bytes, and changes nothing when there is one; otherwise it puts the key in front of its list.
\<close>

lemma AddKey_spec:
  assumes inv: "key_table_inv T" and k: "key_ok k"
  defines "old \<equiv> FindKeysById (keyId k) T"
  obtains key rest where "AddKey k T = Some (key # rest, T)" "key \<in> set old" "same_key key k"
  | T' where "AddKey k T = Some (k # old, T')" "\<forall>key \<in> set old. \<not> same_key key k"
      "key_table_inv T'" "\<And>i. FindKeysById i T' = (if i = keyId k then k # old else FindKeysById i T)"
proof -
  have ok: "\<forall>key \<in> set old. key_ok key" using inv by (simp add: key_table_inv_def old_def)
  have f: "find_same k old = Some (dropWhile (\<lambda>key. \<not> same_key key k) old)"
    by (rule find_same_dropWhile [OF k ok])
  show ?thesis
  proof (cases "dropWhile (\<lambda>key. \<not> same_key key k) old")
    case (Cons key rest)
    then have "same_key key k" using hd_dropWhile [of "\<lambda>key. \<not> same_key key k" old] by simp
    moreover have "key \<in> set old" using Cons set_dropWhileD [of key "\<lambda>key. \<not> same_key key k" old] by simp
    moreover have "AddKey k T = Some (key # rest, T)"
      using f Cons by (simp add: AddKey_def old_def [symmetric])
    ultimately show ?thesis by (intro that(1))
  next
    case Nil
    then have none: "\<forall>key \<in> set old. \<not> same_key key k" by simp
    let ?T = "T(keyId k := k # old)"
    have F: "FindKeysById i ?T = (if i = keyId k then k # old else FindKeysById i T)" for i
      by (simp add: FindKeysById_def)
    have "load_bytes (dataEncKey k) 0 (unat (dataEncKeyLen k)) = Some (dataEncKey k)"
      using k by (simp add: load_bytes_def key_ok_def)
    moreover have K: "zero_key\<lparr>keyId := keyId k, key_sessionType := key_sessionType k, dataEncKey := dataEncKey k,
        dataEncKeyLen := dataEncKeyLen k, key_srcNodeId := key_srcNodeId k\<rparr> = k"
      by (cases k) (simp add: zero_key_def)
    ultimately have a: "AddKey k T = Some (k # old, ?T)"
      using f Nil by (simp add: AddKey_def old_def [symmetric] Let_def K)
    have d: "distinct (map (\<lambda>k. (key_sessionType k, dataEncKey k)) (k # old))"
      using inv none by (auto simp: key_table_inv_def old_def same_key_def)
    have "key_table_inv ?T"
      unfolding key_table_inv_def F using inv k d ok
      by (auto simp: key_table_inv_def old_def)
    then show ?thesis using a none F by (intro that(2))
  qed
qed

text \<open>After \<open>AddKey\<close> the key is found, and every key that was found before still is, in the old order.\<close>

lemma AddKey_finds:
  assumes "key_table_inv T" and "key_ok k"
  obtains keys T' where "AddKey k T = Some (keys, T')" "key_table_inv T'"
    "\<exists>key \<in> set (FindKeysById (keyId k) T'). same_key key k"
    "\<And>i. \<exists>new. FindKeysById i T' = new @ FindKeysById i T \<and> set new \<subseteq> {k}"
  using assms
proof (cases rule: AddKey_spec [OF assms])
  case (1 key rest)
  then show ?thesis using assms by (intro that [of "key # rest" T]) auto
next
  case (2 T')
  then show ?thesis
  proof (intro that [of "k # FindKeysById (keyId k) T" T'])
    show "\<exists>key \<in> set (FindKeysById (keyId k) T'). same_key key k"
      using 2(4) by (simp add: same_key_def)
    show "\<exists>new. FindKeysById i T' = new @ FindKeysById i T \<and> set new \<subseteq> {k}" for i
      using 2(4) [of i] by (intro exI [of _ "if i = keyId k then [k] else []"]) simp
  qed simp_all
qed

text \<open>The identifier of a node that the user typed in is read most significant byte first.\<close>

lemma MessageNodeId_copy_BE:
  assumes "length bs = 8" and "dataNodeId src = bs" and "dataNodeIdLen src = 8"
  shows "map_option NodeId (MessageNodeId_copy_cb d src) = BE_Get64 bs"
proof -
  obtain b0 b1 b2 b3 b4 b5 b6 b7 where bs: "bs = [b0, b1, b2, b3, b4, b5, b6, b7]"
    using assms(1) bytes_cases_8 [of bs] by auto
  then show ?thesis using assms
    by (simp add: MessageNodeId_copy_cb_def load_bytes_def BE_Get64_def BE_Read64_def or.assoc)
qed

end
