(* ===== verification/Hint_Keys.thy ===== *)
theory Hint_Keys
  imports Message_Keys Text_Format
begin

text \<open>
  The key hints of \<open>packet-matter.cpp\<close>: text with one key per line, from a file or from a secrets block of
  the capture, parsed into \<open>MatterProxyHintKey\<close> records; hints that name a session are also put into the
  key table. A \<open>std::string\<close> is a list of characters. The functions of the C library (\<open>isspace\<close>,
  \<open>isxdigit\<close>, \<open>strtoull\<close>, \<open>fgets\<close>, \<open>getline\<close>, the stream extraction of words) are modelled in the first
  section; the file system is a parameter.
\<close>

section \<open>The C library\<close>

definition c_isspace :: "char \<Rightarrow> bool" where
  "c_isspace c \<longleftrightarrow> (of_char c :: nat) = 32 \<or> (9 \<le> (of_char c :: nat) \<and> (of_char c :: nat) \<le> 13)"

definition c_isxdigit :: "char \<Rightarrow> bool" where
  "c_isxdigit c \<longleftrightarrow> hex_value c \<noteq> None"

definition c_str :: "string \<Rightarrow> string" where
  "c_str s = takeWhile (\<lambda>c. (of_char c :: nat) \<noteq> 0) s"

definition digit_in :: "nat \<Rightarrow> char \<Rightarrow> bool" where
  "digit_in b c \<longleftrightarrow> (case hex_value c of None \<Rightarrow> False | Some v \<Rightarrow> v < b)"

definition digit_value :: "char \<Rightarrow> nat" where
  "digit_value c = (case hex_value c of None \<Rightarrow> 0 | Some v \<Rightarrow> v)"

text \<open>
  \<open>strtoull\<close> and, for 64-bit longs, \<open>strtoul\<close>, for the bases 0, 8, 10 and 16: the value, what is left of
  the text, and whether \<open>errno\<close> is set. Without digits nothing is consumed.
\<close>

definition strtoull :: "nat \<Rightarrow> string \<Rightarrow> nat \<times> string \<times> bool" where
  "strtoull base s =
     (let s1 = dropWhile c_isspace s;
          neg = (case s1 of c # _ \<Rightarrow> c = CHR ''-'' | [] \<Rightarrow> False);
          s2 = (case s1 of c # t \<Rightarrow> if c = CHR ''-'' \<or> c = CHR ''+'' then t else s1 | [] \<Rightarrow> s1);
          hex = (case s2 of z # x # d # _ \<Rightarrow>
                   z = CHR ''0'' \<and> (x = CHR ''x'' \<or> x = CHR ''X'') \<and> digit_in 16 d | _ \<Rightarrow> False);
          b = (if base = 0 then (if hex then 16 else if take 1 s2 = ''0'' then 8 else 10) else base);
          s3 = (if hex \<and> b = 16 then drop 2 s2 else s2);
          ds = takeWhile (digit_in b) s3;
          rest = dropWhile (digit_in b) s3;
          v = undigits b (map digit_value ds)
      in if ds = [] then (0, s, False)
         else if v \<ge> 2 ^ 64 then (2 ^ 64 - 1, rest, True)
         else (if neg then (2 ^ 64 - v) mod 2 ^ 64 else v, rest, False))"

text \<open>The words of a stream, and the lines that \<open>getline\<close> delivers.\<close>

fun words_of :: "string \<Rightarrow> string \<Rightarrow> string list" where
  "words_of w [] = (if w = [] then [] else [w])"
| "words_of w (c # s) =
     (if c_isspace c then (if w = [] then words_of [] s else w # words_of [] s) else words_of (w @ [c]) s)"

fun getlines :: "string \<Rightarrow> string \<Rightarrow> string list" where
  "getlines l [] = (if l = [] then [] else [l])"
| "getlines l (c # s) = (if c = CHR 0x0A then l # getlines [] s else getlines (l @ [c]) s)"

text \<open>What \<open>fgets\<close> delivers into a buffer of 1024 bytes: a line with its newline, or a piece of one.\<close>

definition fgets_len :: "byte list \<Rightarrow> nat" where
  "fgets_len data =
     (let n = length (takeWhile (\<lambda>b. b \<noteq> 10) (take 1023 data))
      in if n < length (take 1023 data) then n + 1 else n)"

lemma fgets_len_pos: "data \<noteq> [] \<Longrightarrow> 0 < fgets_len data"
  by (cases data) (auto simp: fgets_len_def Let_def)

function fgets_lines :: "byte list \<Rightarrow> string list" where
  "fgets_lines data =
     (if data = [] then [] else text_of (take (fgets_len data) data) # fgets_lines (drop (fgets_len data) data))"
  by auto
termination
proof (relation "measure length")
  fix data :: "byte list"
  assume "data \<noteq> []"
  then show "(drop (fgets_len data) data, data) \<in> measure length" using fgets_len_pos [of data] by auto
qed simp

declare fgets_lines.simps [simp del]

section \<open>Parsing\<close>

record hint_key =
  hasKeyId :: bool
  hint_keyId :: u16
  hasSrcNodeId :: bool
  hint_srcNodeId :: u64
  hint_key_bytes :: "byte list"

definition MatterProxyHintKey :: hint_key where
  "MatterProxyHintKey = \<lparr>hasKeyId = False, hint_keyId = 0, hasSrcNodeId = False, hint_srcNodeId = 0,
     hint_key_bytes = replicate 16 0\<rparr>"

definition TrimStr :: "string \<Rightarrow> string" where
  "TrimStr s = rev (dropWhile c_isspace (rev (dropWhile c_isspace s)))"

definition NormalizeHex :: "string \<Rightarrow> string" where
  "NormalizeHex s = filter c_isxdigit s"

definition ParseUIntAuto :: "string \<Rightarrow> u64 option" where
  "ParseUIntAuto s =
     (if s = [] then None
      else (case strtoull 0 (c_str s) of (v, end_text, erange) \<Rightarrow>
        if erange \<or> end_text = c_str s \<or> end_text \<noteq> [] then None else Some (of_nat v)))"

text \<open>The loop of \<open>ParseHexKeyBytes\<close> over pairs of digits.\<close>

fun hex_pairs :: "string \<Rightarrow> byte list option" where
  "hex_pairs (a # b # hex) =
     (case strtoull 16 [a, b] of (v, end_text, _) \<Rightarrow>
        if end_text = [a, b] \<or> end_text \<noteq> [] \<or> v > 0xFF then None
        else map_option (\<lambda>out. of_nat v # out) (hex_pairs hex))"
| "hex_pairs hex = Some []"

definition ParseHexKeyBytes :: "string \<Rightarrow> byte list option" where
  "ParseHexKeyBytes raw =
     (let hex = NormalizeHex raw in
      if length hex \<noteq> unat kDataEncKeyLength_AES128CCM * 2 then None else hex_pairs hex)"

text \<open>One word of a line, with the fields seen so far: key, session and source.\<close>

definition hint_token :: "string \<Rightarrow> string \<times> string \<times> string \<Rightarrow> string \<times> string \<times> string" where
  "hint_token tok seen =
     (case seen of (keyField, sessionField, srcField) \<Rightarrow>
        if CHR ''='' \<notin> set tok then
          ((if keyField = [] then tok else keyField), sessionField, srcField)
        else
          (let k = takeWhile (\<lambda>c. c \<noteq> CHR ''='') tok; v = drop (length k + 1) tok in
           if k = ''key'' \<or> k = ''key_hex'' \<or> k = ''enc_key'' then (v, sessionField, srcField)
           else if k = ''session'' \<or> k = ''session_id'' \<or> k = ''key_id'' then (keyField, v, srcField)
           else if k = ''src'' \<or> k = ''src_node'' \<or> k = ''src_node_id'' then (keyField, sessionField, v)
           else seen))"

definition blank_separators :: "string \<Rightarrow> string" where
  "blank_separators s =
     map (\<lambda>ch. if ch = CHR '','' \<or> ch = CHR '';'' \<or> ch = CHR 0x09 then CHR '' '' else ch) s"

definition ParseMatterProxyHintLine :: "string \<Rightarrow> hint_key \<Rightarrow> hint_key option" where
  "ParseMatterProxyHintLine lineRaw out =
     (let line = takeWhile (\<lambda>c. c \<noteq> CHR ''#'') lineRaw;
          line = TrimStr (blank_separators line)
      in if line = [] then None
         else
           (case fold hint_token (words_of [] line) ([], [], []) of (keyField, sessionField, srcField) \<Rightarrow>
              (case ParseHexKeyBytes keyField of None \<Rightarrow> None
               | Some key \<Rightarrow>
                  (let out = out\<lparr>hint_key_bytes := key\<rparr>;
                       out = (if sessionField \<noteq> [] then
                                (case ParseUIntAuto sessionField of
                                   Some parsed \<Rightarrow>
                                     if parsed \<le> 0xFFFF
                                     then out\<lparr>hasKeyId := True, hint_keyId := ucast parsed\<rparr> else out
                                 | None \<Rightarrow> out)
                              else out);
                       out = (if srcField \<noteq> [] then
                                (case ParseUIntAuto srcField of
                                   Some parsed \<Rightarrow> out\<lparr>hasSrcNodeId := True, hint_srcNodeId := parsed\<rparr>
                                 | None \<Rightarrow> out)
                              else out)
                   in Some out))))"

definition parse_lines :: "string list \<Rightarrow> hint_key list" where
  "parse_lines ls = List.map_filter (\<lambda>line. ParseMatterProxyHintLine line MatterProxyHintKey) ls"

text \<open>\<open>None\<close> is a null pointer.\<close>

definition ParseMatterProxyHintBlob :: "byte list option \<Rightarrow> hint_key list" where
  "ParseMatterProxyHintBlob data =
     (case data of None \<Rightarrow> []
      | Some bs \<Rightarrow> if bs = [] then [] else parse_lines (getlines [] (map (\<lambda>b. char_of (unat b)) bs)))"

section \<open>The lists of hints\<close>

record hint_state =
  HintKeysFromFile :: "hint_key list"
  HintKeysFromDSB :: "hint_key list"
  HintPath :: string
  HintMTime :: int

definition no_hints :: hint_state where
  "no_hints = \<lparr>HintKeysFromFile = [], HintKeysFromDSB = [], HintPath = [], HintMTime = 0\<rparr>"

definition hint_enc_key :: "u16 \<Rightarrow> u64 \<Rightarrow> hint_key \<Rightarrow> enc_key" where
  \<comment> \<open>the key that \<open>PreloadHintKeyBySessionId\<close> and \<open>TryDecryptMessage\<close> make of a hint\<close>
  "hint_enc_key kid src hint =
     zero_key\<lparr>keyId := kid, key_sessionType := kMatterEncryptionType_AES128CCM,
       dataEncKey := hint_key_bytes hint, dataEncKeyLen := kDataEncKeyLength_AES128CCM, key_srcNodeId := src\<rparr>"

definition PreloadHintKeyBySessionId :: "hint_key \<Rightarrow> key_table \<Rightarrow> key_table option" where
  "PreloadHintKeyBySessionId hint sKeys =
     (if \<not> hasKeyId hint then Some sKeys
      else map_option snd
        (AddKey (hint_enc_key (hint_keyId hint) (if hasSrcNodeId hint then hint_srcNodeId hint else 0) hint)
           sKeys))"

fun preload_all :: "hint_key list \<Rightarrow> key_table \<Rightarrow> key_table option" where
  "preload_all [] sKeys = Some sKeys"
| "preload_all (hint # hints) sKeys =
     (case PreloadHintKeyBySessionId hint sKeys of None \<Rightarrow> None | Some sKeys \<Rightarrow> preload_all hints sKeys)"

text \<open>\<open>stat_mtime\<close> and \<open>read_file\<close> are the file system: the time of a file and its bytes.\<close>

record file_system =
  stat_mtime :: "string \<Rightarrow> int option"
  read_file :: "string \<Rightarrow> byte list option"

definition RefreshMatterProxyHintKeys ::
  "file_system \<Rightarrow> string option \<Rightarrow> hint_state \<times> key_table \<Rightarrow> (hint_state \<times> key_table) option" where
  "RefreshMatterProxyHintKeys fs pref s =
     (case s of (h, sKeys) \<Rightarrow>
      let path = TrimStr (case pref of None \<Rightarrow> '''' | Some p \<Rightarrow> p) in
      if path = [] then Some (h\<lparr>HintKeysFromFile := [], HintPath := [], HintMTime := 0\<rparr>, sKeys)
      else (case stat_mtime fs path of
          None \<Rightarrow> Some (h\<lparr>HintKeysFromFile := [], HintPath := path, HintMTime := 0\<rparr>, sKeys)
        | Some mtime \<Rightarrow>
            if HintPath h = path \<and> HintMTime h = mtime then Some (h, sKeys)
            else
              (let parsed = (case read_file fs path of None \<Rightarrow> []
                             | Some data \<Rightarrow> parse_lines (fgets_lines data));
                   h = h\<lparr>HintKeysFromFile := parsed, HintPath := path, HintMTime := mtime\<rparr>
               in map_option (\<lambda>sKeys. (h, sKeys)) (preload_all parsed sKeys))))"

definition MatterProxyHintSecretsBlockCallback ::
  "byte list option \<Rightarrow> hint_state \<times> key_table \<Rightarrow> (hint_state \<times> key_table) option" where
  "MatterProxyHintSecretsBlockCallback secrets s =
     (case s of (h, sKeys) \<Rightarrow>
      let parsed = ParseMatterProxyHintBlob secrets
      in map_option (\<lambda>sKeys. (h\<lparr>HintKeysFromDSB := parsed\<rparr>, sKeys)) (preload_all parsed sKeys))"

end
