(* ===== verification/Hint_Keys_Spec.thy ===== *)
theory Hint_Keys_Spec
  imports Hint_Keys
begin

text \<open>
  Correctness of the hint parser: a key in any hexadecimal spelling is parsed to its bytes, and the line
  that describes a hint is parsed to the hint; preloading hints keeps the key table sound, and a hint for a
  session can be found there.
\<close>

section \<open>Characters\<close>

definition plain_char :: "char \<Rightarrow> bool" where
  "plain_char c \<longleftrightarrow> \<not> c_isspace c \<and> c \<noteq> CHR ''-'' \<and> c \<noteq> CHR ''+'' \<and> c \<noteq> CHR ''='' \<and> c \<noteq> CHR ''#'' \<and>
     c \<noteq> CHR '','' \<and> c \<noteq> CHR '';'' \<and> c \<noteq> CHR 0x09 \<and> (of_char c :: nat) \<noteq> 0 \<and> c \<noteq> CHR ''x'' \<and> c \<noteq> CHR ''X''"

lemma digit_lower_plain: "d < 16 \<Longrightarrow> plain_char (digit_lower d)"
proof -
  assume "d < 16"
  then have "d = 0 \<or> d = 1 \<or> d = 2 \<or> d = 3 \<or> d = 4 \<or> d = 5 \<or> d = 6 \<or> d = 7 \<or>
      d = 8 \<or> d = 9 \<or> d = 10 \<or> d = 11 \<or> d = 12 \<or> d = 13 \<or> d = 14 \<or> d = 15"
    by arith
  then show ?thesis
    by (elim disjE; simp add: digit_lower_def plain_char_def c_isspace_def)
qed

lemma digit_lower_0: "d < 16 \<Longrightarrow> digit_lower d = CHR ''0'' \<longleftrightarrow> d = 0"
  using hex_value_digit_lower [of d] hex_value_digit_lower [of 0]
  by (auto simp: digit_lower_def)

lemma plainD:
  assumes "plain_char c"
  shows "\<not> c_isspace c" "c \<noteq> CHR ''-''" "c \<noteq> CHR ''+''" "c \<noteq> CHR ''=''" "c \<noteq> CHR ''#''"
    "(of_char c :: nat) \<noteq> 0" "c \<noteq> CHR ''x''" "c \<noteq> CHR ''X''"
  using assms by (simp_all add: plain_char_def)

lemma digit_in_lower: "d < 16 \<Longrightarrow> digit_in b (digit_lower d) \<longleftrightarrow> d < b"
  by (simp add: digit_in_def hex_value_digit_lower)

lemma digit_value_lower: "d < 16 \<Longrightarrow> digit_value (digit_lower d) = d"
  by (simp add: digit_value_def hex_value_digit_lower)

section \<open>Numbers\<close>

text \<open>A text of digits below the base, not starting with a zero unless it is the only one, is its number.\<close>

lemma strtoull_digits:
  assumes ds: "ds \<noteq> []" "\<forall>d \<in> set ds. d < b" and b: "b \<le> 16" and v: "undigits b ds < 2 ^ 64"
    and base: "base = 0 \<and> b = 10 \<and> (hd ds \<noteq> 0 \<or> tl ds = []) \<or> base = b \<and> b = 16 \<and> length ds = 2"
  shows "strtoull base (map digit_lower ds) = (undigits b ds, [], False)"
proof -
  let ?s = "map digit_lower ds"
  obtain d ds' where d: "ds = d # ds'" using ds(1) by (cases ds) auto
  have lt: "d < 16" "\<forall>d \<in> set ds. d < 16" using ds(2) b d by auto
  note p = plainD [OF digit_lower_plain [OF lt(1)]]
  have s1: "dropWhile c_isspace ?s = ?s" using p(1) d by simp
  have all: "takeWhile (digit_in b') ?s = ?s" "dropWhile (digit_in b') ?s = []" if "b \<le> b'" for b'
    using ds(2) lt(2) that by (auto simp: takeWhile_eq_all_conv dropWhile_eq_Nil_conv digit_in_lower)
  have vals: "map digit_value ?s = ds" using lt(2) by (simp add: map_idI digit_value_lower)
  have nz: "digit_lower d = CHR ''0'' \<longleftrightarrow> d = 0" by (rule digit_lower_0 [OF lt(1)])
  have hex: "\<not> (case ?s of z # x # y # _ \<Rightarrow> z = CHR ''0'' \<and> (x = CHR ''x'' \<or> x = CHR ''X'') \<and> digit_in 16 y | _ \<Rightarrow> False)"
    using base d nz by (auto split: list.splits)
  show ?thesis
  proof (cases "base = 0")
    case False
    then have "base = b" "b = 16" using base by simp_all
    then show ?thesis using s1 all [of 16] vals v hex d p(2,3) by (simp add: strtoull_def Let_def)
  next
    case True
    then have bb: "b = 10" "d \<noteq> 0 \<or> ds' = []" using base d b by auto
    show ?thesis
    proof (cases "d = 0")
      case True
      then have "ds' = []" using bb by simp
      then show ?thesis using True \<open>base = 0\<close> d bb
        by (simp add: strtoull_def digit_lower_def c_isspace_def digit_in_def digit_value_def hex_value_def undigits_def)
    next
      case False
      then show ?thesis using \<open>base = 0\<close> s1 all [of 10] vals v hex d p(2,3) nz bb(1)
        by (simp add: strtoull_def Let_def)
    qed
  qed
qed

lemma hd_digits: "0 < n \<Longrightarrow> hd (digits b n) \<noteq> 0"
proof (induction b n rule: digits.induct)
  case (1 b n)
  show ?case
  proof (cases "b < 2 \<or> n < b")
    case True
    then show ?thesis using 1(2) by (subst digits.simps) simp
  next
    case False
    then have "0 < n div b" by (simp add: div_greater_zero_iff)
    then show ?thesis using 1(1) [OF False] False by (subst digits.simps) simp
  qed
qed

lemma dec_plain: "\<forall>c \<in> set (dec n). plain_char c"
proof
  fix c
  assume "c \<in> set (dec n)"
  then obtain d where d: "d \<in> set (digits 10 n)" "c = digit_lower d" by (auto simp: dec_def)
  then have "d < 16" using digits_bound [of 10 d n] by simp
  then show "plain_char c" using digit_lower_plain d(2) by simp
qed

lemma dec_not_Nil [simp]: "dec n \<noteq> []" "[] \<noteq> dec n"
  by (simp_all add: dec_def not_sym)

lemma c_str_plain: "\<forall>c \<in> set s. plain_char c \<Longrightarrow> c_str s = s"
  unfolding c_str_def takeWhile_eq_all_conv using plainD(6) by blast

lemma ParseUIntAuto_dec:
  assumes "n < 2 ^ 64"
  shows "ParseUIntAuto (dec n) = Some (of_nat n)"
proof -
  have ds: "digits 10 n \<noteq> []" "\<forall>d \<in> set (digits 10 n). d < 10" "undigits 10 (digits 10 n) < 2 ^ 64"
    using digits_bound [of 10 _ n] undigits_digits [of 10 n] assms by auto
  have "hd (digits 10 n) \<noteq> 0 \<or> tl (digits 10 n) = []"
    using hd_digits [of n 10] by (cases "n = 0") (simp_all add: digits.simps [of 10 0])
  then have "strtoull 0 (dec n) = (n, [], False)"
    using strtoull_digits [OF ds(1,2) _ ds(3), of 0] undigits_digits [of 10 n] by (simp add: dec_def)
  then show ?thesis using c_str_plain [OF dec_plain] by (simp add: ParseUIntAuto_def not_sym)
qed

section \<open>Keys in hexadecimal\<close>

definition hex_dump :: "byte list \<Rightarrow> string" where
  "hex_dump bs = concat (map (\<lambda>b. hex_lower 2 (unat b)) bs)"

lemma unat_byte_less: "unat (b :: byte) < 256"
  using unsigned_less [of b] by simp

lemma hex_lower_byte: "n < 256 \<Longrightarrow> hex_lower 2 n = [digit_lower (n div 16), digit_lower (n mod 16)]"
  by (cases "n < 16") (simp_all add: hex_lower_def pad_def digits.simps [of 16 n] digits.simps [of 16 "n div 16"])

lemma hex_dump_plain: "\<forall>c \<in> set (hex_dump bs). plain_char c \<and> c_isxdigit c"
proof
  fix c
  assume "c \<in> set (hex_dump bs)"
  then obtain b where "c \<in> set (hex_lower 2 (unat (b :: byte)))" by (auto simp: hex_dump_def)
  then have "c = digit_lower (unat b div 16) \<or> c = digit_lower (unat b mod 16)"
    using hex_lower_byte [OF unat_byte_less [of b]] by simp
  moreover have "unat b div 16 < 16" "unat b mod 16 < 16" using unat_byte_less [of b] by auto
  ultimately obtain d where "d < 16" "c = digit_lower d" by blast
  then show "plain_char c \<and> c_isxdigit c"
    using digit_lower_plain hex_value_digit_lower by (simp add: c_isxdigit_def)
qed

lemma length_hex_dump: "length (hex_dump bs) = 2 * length bs"
  by (induction bs) (simp_all add: hex_dump_def hex_lower_byte [OF unat_byte_less])

lemma NormalizeHex_dump: "NormalizeHex (hex_dump bs) = hex_dump bs"
  using hex_dump_plain by (simp add: NormalizeHex_def filter_id_conv)

lemma hex_pairs_dump: "hex_pairs (hex_dump bs) = Some bs"
proof (induction bs)
  case Nil
  then show ?case by (simp add: hex_dump_def)
next
  case (Cons b bs)
  let ?n = "unat b"
  have lt: "?n div 16 < 16" "?n mod 16 < 16" using unat_byte_less [of b] by auto
  have "strtoull 16 (map digit_lower [?n div 16, ?n mod 16]) = (undigits 16 [?n div 16, ?n mod 16], [], False)"
    by (rule strtoull_digits) (use lt in \<open>simp_all add: undigits_def\<close>)
  moreover have "undigits 16 [?n div 16, ?n mod 16] = ?n" by (simp add: undigits_def)
  ultimately show ?case using Cons unat_byte_less [of b]
    by (simp add: hex_dump_def hex_lower_byte)
qed

lemma ParseHexKeyBytes_dump:
  assumes "NormalizeHex raw = hex_dump bs" and "length bs = 16"
  shows "ParseHexKeyBytes raw = Some bs"
  using assms hex_pairs_dump [of bs] length_hex_dump [of bs]
  by (simp add: ParseHexKeyBytes_def kDataEncKeyLength_AES128CCM_def)

text \<open>Whatever is parsed is a key of 16 bytes.\<close>

lemma length_hex_pairs: "hex_pairs s = Some bs \<Longrightarrow> length bs = length s div 2"
  by (induction s arbitrary: bs rule: hex_pairs.induct) (auto split: prod.splits if_splits)

lemma ParseHexKeyBytes_length: "ParseHexKeyBytes raw = Some bs \<Longrightarrow> length bs = 16"
  using length_hex_pairs [of "NormalizeHex raw" bs]
  by (auto simp: ParseHexKeyBytes_def kDataEncKeyLength_AES128CCM_def Let_def split: if_splits)

section \<open>Lines\<close>

text \<open>
  A hint is written as the words \<open>key=<hexadecimal>\<close> and, where it names them, \<open>session=<number>\<close> and
  \<open>src=<number>\<close>, with a blank between two words.
\<close>

fun join_words :: "string list \<Rightarrow> string" where
  "join_words [] = []"
| "join_words [w] = w"
| "join_words (w # v # ws) = w @ CHR '' '' # join_words (v # ws)"

definition hint_words :: "hint_key \<Rightarrow> string list" where
  "hint_words h =
     (''key='' @ hex_dump (hint_key_bytes h)) #
     (if hasKeyId h then [''session='' @ dec (unat (hint_keyId h))] else []) @
     (if hasSrcNodeId h then [''src='' @ dec (unat (hint_srcNodeId h))] else [])"

definition show_hint :: "hint_key \<Rightarrow> string" where
  "show_hint h = join_words (hint_words h)"

text \<open>The characters of a word: no blank, no separator, no start of a comment.\<close>

definition neat :: "char \<Rightarrow> bool" where
  "neat c \<longleftrightarrow> \<not> c_isspace c \<and> c \<noteq> CHR ''#'' \<and> c \<noteq> CHR '','' \<and> c \<noteq> CHR '';''"

definition neat_word :: "string \<Rightarrow> bool" where
  "neat_word w \<longleftrightarrow> w \<noteq> [] \<and> (\<forall>c \<in> set w. neat c)"

lemma plain_neat: "plain_char c \<Longrightarrow> neat c"
  by (simp add: plain_char_def neat_def)

lemma space_not_neat: "c_isspace (CHR '' '')" "c_isspace (CHR 0x09)"
  by (simp_all add: c_isspace_def)

lemma words_of_word: "\<forall>c \<in> set u. neat c \<Longrightarrow> words_of w (u @ s) = words_of (w @ u) s"
  by (induction u arbitrary: w) (simp_all add: neat_def)

lemma words_of_join: "\<forall>w \<in> set ws. neat_word w \<Longrightarrow> words_of [] (join_words ws) = ws"
proof (induction ws rule: join_words.induct)
  case (2 w)
  then show ?case using words_of_word [of w "[]" "[]"] by (simp add: neat_word_def)
next
  case (3 w v ws)
  then show ?case
    using words_of_word [of w "[]" "CHR '' '' # join_words (v # ws)"] space_not_neat(1)
    by (simp add: neat_word_def)
qed simp

lemma set_join_words:
  "\<forall>w \<in> set ws. neat_word w \<Longrightarrow> c \<in> set (join_words ws) \<Longrightarrow> c = CHR '' '' \<or> neat c"
  by (induction ws rule: join_words.induct) (auto simp: neat_word_def)

lemma ends_join_words:
  assumes "\<forall>w \<in> set ws. neat_word w" and "ws \<noteq> []"
  shows "join_words ws \<noteq> [] \<and> neat (hd (join_words ws)) \<and> neat (last (join_words ws))"
  using assms
  by (induction ws rule: join_words.induct) (auto simp: neat_word_def)

lemma TrimStr_neat:
  assumes "s \<noteq> []" and "neat (hd s)" and "neat (last s)"
  shows "TrimStr s = s"
proof -
  have "dropWhile c_isspace s = s" using assms by (cases s) (simp_all add: neat_def)
  moreover have "dropWhile c_isspace (rev s) = rev s"
    using assms by (cases s rule: rev_cases) (simp_all add: neat_def)
  ultimately show ?thesis by (simp add: TrimStr_def)
qed

text \<open>The words of a line are what is left of it after comments, separators and blanks are gone.\<close>

lemma line_words:
  assumes neat: "\<forall>w \<in> set ws. neat_word w" and ws: "ws \<noteq> []"
  defines "s \<equiv> join_words ws"
  shows "TrimStr (blank_separators (takeWhile (\<lambda>c. c \<noteq> CHR ''#'') s)) = s" "s \<noteq> []" "words_of [] s = ws"
proof -
  have chars: "c = CHR '' '' \<or> neat c" if "c \<in> set s" for c
    using set_join_words [OF neat] that by (simp add: s_def)
  then have no_comment: "takeWhile (\<lambda>c. c \<noteq> CHR ''#'') s = s"
    by (auto simp: takeWhile_eq_all_conv neat_def)
  have "c \<noteq> CHR '','' \<and> c \<noteq> CHR '';'' \<and> c \<noteq> CHR 0x09" if "c \<in> set s" for c
    using chars [OF that] space_not_neat by (auto simp: neat_def)
  then have "blank_separators s = s" by (auto simp: blank_separators_def intro: map_idI)
  then show "TrimStr (blank_separators (takeWhile (\<lambda>c. c \<noteq> CHR ''#'') s)) = s" "s \<noteq> []"
    using ends_join_words [OF neat ws] TrimStr_neat [of s] unfolding no_comment by (simp_all add: s_def [symmetric])
  show "words_of [] s = ws" unfolding s_def by (rule words_of_join [OF neat])
qed

lemma hint_words_neat: "w \<in> set (hint_words h) \<Longrightarrow> neat_word w"
proof -
  assume w: "w \<in> set (hint_words h)"
  have "\<forall>c \<in> set (hex_dump (hint_key_bytes h)). neat c" "\<And>n. \<forall>c \<in> set (dec n). neat c"
    using hex_dump_plain dec_plain plain_neat by blast+
  moreover have "\<forall>c \<in> set ''key=''. neat c" "\<forall>c \<in> set ''session=''. neat c" "\<forall>c \<in> set ''src=''. neat c"
    by (simp_all add: neat_def c_isspace_def)
  ultimately show ?thesis using w
    by (auto simp: hint_words_def neat_word_def split: if_splits)
qed

lemma hint_token_key:
  "hint_token (''key='' @ v) (k, s, r) = (v, s, r)" "hint_token (''session='' @ v) (k, s, r) = (k, v, r)"
  "hint_token (''src='' @ v) (k, s, r) = (k, s, v)"
  by (simp_all add: hint_token_def)

lemma unat_ucast_16_64: "unat (ucast (x :: u16) :: u64) = unat x"
  by transfer (simp add: take_bit_eq_mod)

lemma ucast_16_64_16: "ucast (ucast (x :: u16) :: u64) = x"
  by transfer simp

theorem hint_line_roundtrip:
  assumes len: "length (hint_key_bytes h) = 16"
    and id: "\<not> hasKeyId h \<Longrightarrow> hint_keyId h = 0" and src: "\<not> hasSrcNodeId h \<Longrightarrow> hint_srcNodeId h = 0"
  shows "ParseMatterProxyHintLine (show_hint h) MatterProxyHintKey = Some h"
proof -
  let ?hex = "hex_dump (hint_key_bytes h)"
  let ?session = "if hasKeyId h then dec (unat (hint_keyId h)) else []"
  let ?src = "if hasSrcNodeId h then dec (unat (hint_srcNodeId h)) else []"
  have neat: "\<forall>w \<in> set (hint_words h). neat_word w" "hint_words h \<noteq> []"
    using hint_words_neat by (auto simp: hint_words_def)
  note l = line_words [OF neat, folded show_hint_def]
  have words: "fold hint_token (hint_words h) ([], [], []) = (?hex, ?session, ?src)"
    unfolding hint_words_def by (simp add: hint_token_key del: append_Cons)
  have key: "ParseHexKeyBytes ?hex = Some (hint_key_bytes h)"
    by (rule ParseHexKeyBytes_dump [OF NormalizeHex_dump len])
  have "unat (hint_keyId h) < 2 ^ LENGTH(16)" "unat (hint_srcNodeId h) < 2 ^ LENGTH(64)"
    by (rule unsigned_less)+
  then have "unat (hint_keyId h) < 2 ^ 16" "unat (hint_keyId h) < 2 ^ 64" "unat (hint_srcNodeId h) < 2 ^ 64"
    by simp_all
  then have parsed: "ParseUIntAuto (dec (unat (hint_keyId h))) = Some (ucast (hint_keyId h))"
      "ParseUIntAuto (dec (unat (hint_srcNodeId h))) = Some (hint_srcNodeId h)"
      "ucast (hint_keyId h) \<le> (0xFFFF :: u64)"
    using ParseUIntAuto_dec [of "unat (hint_keyId h)"] ParseUIntAuto_dec [of "unat (hint_srcNodeId h)"]
    by (simp_all add: word_le_nat_alt unat_ucast_16_64)
  show ?thesis
    unfolding ParseMatterProxyHintLine_def Let_def l(1,3) words prod.case key option.case
    using l(2) parsed id src ucast_16_64_16 [of "hint_keyId h"]
    by (cases h) (simp add: MatterProxyHintKey_def)
qed

section \<open>Preloading\<close>

lemma ParseMatterProxyHintLine_length:
  "ParseMatterProxyHintLine l h = Some h' \<Longrightarrow> length (hint_key_bytes h') = 16"
  using ParseHexKeyBytes_length
  by (auto simp: ParseMatterProxyHintLine_def Let_def split: if_splits prod.splits option.splits)

lemma parse_lines_length: "h \<in> set (parse_lines ls) \<Longrightarrow> length (hint_key_bytes h) = 16"
  using ParseMatterProxyHintLine_length by (auto simp: parse_lines_def map_filter_def)

lemma hint_enc_key_simps [simp]:
  "keyId (hint_enc_key i s h) = i" "dataEncKey (hint_enc_key i s h) = hint_key_bytes h"
  "key_sessionType (hint_enc_key i s h) = kMatterEncryptionType_AES128CCM"
  "dataEncKeyLen (hint_enc_key i s h) = kDataEncKeyLength_AES128CCM" "key_srcNodeId (hint_enc_key i s h) = s"
  by (simp_all add: hint_enc_key_def)

lemma hint_enc_key_ok: "length (hint_key_bytes h) = 16 \<Longrightarrow> key_ok (hint_enc_key i s h)"
  by (simp add: key_ok_def kDataEncKeyLength_AES128CCM_def)

text \<open>The hint's key can be found in the table under the session that the hint names.\<close>

definition hint_found :: "hint_key \<Rightarrow> key_table \<Rightarrow> bool" where
  "hint_found h T \<longleftrightarrow> (\<exists>key \<in> set (FindKeysById (hint_keyId h) T).
     key_sessionType key = kMatterEncryptionType_AES128CCM \<and> dataEncKey key = hint_key_bytes h)"

lemma hint_found_mono:
  assumes "hint_found h T" and "\<And>i. \<exists>new. FindKeysById i T' = new @ FindKeysById i T \<and> P new"
  shows "hint_found h T'"
  using assms(1) assms(2) [of "hint_keyId h"] by (auto simp: hint_found_def)

lemma PreloadHintKey_spec:
  assumes "key_table_inv T" and "length (hint_key_bytes h) = 16"
  obtains T' where "PreloadHintKeyBySessionId h T = Some T'" "key_table_inv T'"
    "hasKeyId h \<Longrightarrow> hint_found h T'" "\<And>g. hint_found g T \<Longrightarrow> hint_found g T'"
proof (cases "hasKeyId h")
  case False
  then show ?thesis using assms by (intro that [of T]) (simp_all add: PreloadHintKeyBySessionId_def)
next
  case True
  let ?k = "hint_enc_key (hint_keyId h) (if hasSrcNodeId h then hint_srcNodeId h else 0) h"
  obtain keys T' where T': "AddKey ?k T = Some (keys, T')" "key_table_inv T'"
    "\<exists>key \<in> set (FindKeysById (keyId ?k) T'). same_key key ?k"
    "\<And>i. \<exists>new. FindKeysById i T' = new @ FindKeysById i T \<and> set new \<subseteq> {?k}"
    using AddKey_finds [OF assms(1) hint_enc_key_ok [OF assms(2)]] by metis
  show ?thesis
    by (rule that [of T']) (use T' True hint_found_mono [OF _ T'(4)] in
      \<open>auto simp: PreloadHintKeyBySessionId_def hint_found_def same_key_def\<close>)
qed

lemma preload_all_spec:
  assumes "key_table_inv T" and "\<forall>h \<in> set hs. length (hint_key_bytes h) = 16"
  shows "\<exists>T'. preload_all hs T = Some T' \<and> key_table_inv T' \<and> (\<forall>g. hint_found g T \<longrightarrow> hint_found g T') \<and>
    (\<forall>h \<in> set hs. hasKeyId h \<longrightarrow> hint_found h T')"
  using assms
proof (induction hs arbitrary: T)
  case Nil
  then show ?case by simp
next
  case (Cons h hs)
  then obtain T1 where T1: "PreloadHintKeyBySessionId h T = Some T1" "key_table_inv T1"
    "hasKeyId h \<Longrightarrow> hint_found h T1" "\<And>g. hint_found g T \<Longrightarrow> hint_found g T1"
    using PreloadHintKey_spec [of T h] by (metis list.set_intros(1))
  from Cons.IH [OF T1(2)] Cons.prems(2) obtain T' where "preload_all hs T1 = Some T'" "key_table_inv T'"
    "\<forall>g. hint_found g T1 \<longrightarrow> hint_found g T'" "\<forall>h \<in> set hs. hasKeyId h \<longrightarrow> hint_found h T'"
    by auto
  then show ?case using T1 by auto
qed

text \<open>A refresh keeps the table sound and every key that could be found.\<close>

lemma RefreshMatterProxyHintKeys_spec:
  assumes "key_table_inv T" and "\<forall>g \<in> set (HintKeysFromFile h). length (hint_key_bytes g) = 16"
  shows "\<exists>h' T'. RefreshMatterProxyHintKeys fs pref (h, T) = Some (h', T') \<and> key_table_inv T' \<and>
    (\<forall>g \<in> set (HintKeysFromFile h'). length (hint_key_bytes g) = 16) \<and>
    HintKeysFromDSB h' = HintKeysFromDSB h \<and> (\<forall>g. hint_found g T \<longrightarrow> hint_found g T')"
  using assms preload_all_spec [OF assms(1), of "parse_lines ls" for ls] parse_lines_length
  by (auto simp: RefreshMatterProxyHintKeys_def Let_def split: option.splits) (metis empty_iff list.set(1) | fastforce)+

end
