(* ===== verification/Message_Decrypt.thy ===== *)
theory Message_Decrypt
  imports Hint_Keys_Spec
begin

text \<open>
  Decryption: \<open>AES_CCM_decrypt\<close> and \<open>TryDecryptMessage_AES128CCM\<close> (\<open>packet-matter-decrypt.cpp\<close>) and the
  search for a key, \<open>TryDecryptMessage\<close> (\<open>packet-matter.cpp\<close>). OpenSSL is a parameter, the record \<open>evp\<close>: what
  each call answers, and for the last one also the bytes it leaves in the output buffer.

  A pointer is an object and an offset into it, which may lie outside; \<open>nullptr\<close> is \<open>None\<close>. A result
  \<open>None\<close> is a read outside an object or the host's bounds exception.
\<close>

section \<open>The cipher\<close>

record evp =
  CTX_new :: bool
  Init_cipher :: "nat \<Rightarrow> bool"
  Set_ivlen :: "nat \<Rightarrow> bool"
  Set_tag :: "byte list \<Rightarrow> bool"
  Init_key :: "byte list \<Rightarrow> byte list \<Rightarrow> bool"
  Update_length :: "nat \<Rightarrow> bool"
  Update_aad :: "byte list \<Rightarrow> bool"
  Update_data :: "byte list \<Rightarrow> byte list \<Rightarrow> byte list \<Rightarrow> byte list \<Rightarrow> byte list \<Rightarrow> bool \<times> byte list"
    \<comment> \<open>key, nonce, tag, additional data and ciphertext\<close>

type_synonym ptr = "byte list \<times> int"

definition load_ptr :: "ptr \<Rightarrow> nat \<Rightarrow> byte list option" where
  "load_ptr p n = (case p of (obj, off) \<Rightarrow> if off < 0 then None else load_bytes obj (nat off) n)"

definition isValidTagLength :: "u64 \<Rightarrow> bool" where
  "isValidTagLength tag_length \<longleftrightarrow> tag_length = 16"

definition isValidKeyLength :: "u64 \<Rightarrow> bool" where
  "isValidKeyLength len \<longleftrightarrow> len = 16 \<or> len = 32"

definition CanCastTo_int :: "u64 \<Rightarrow> bool" where
  \<comment> \<open>\<open>CanCastTo<int>\<close> at \<open>size_t\<close>\<close>
  "CanCastTo_int arg \<longleftrightarrow> arg \<le> 0x7FFFFFFF"

text \<open>\<open>reading p n k\<close>: the \<open>n\<close> bytes at a pointer, as the argument of a library call.\<close>

definition reading :: "ptr option \<Rightarrow> nat \<Rightarrow> (byte list \<Rightarrow> 's result) \<Rightarrow> 's result" where
  "reading p n k = (case p of None \<Rightarrow> None
     | Some q \<Rightarrow> (case load_ptr q n of None \<Rightarrow> None | Some bs \<Rightarrow> k bs))"

definition AES_CCM_decrypt :: "evp \<Rightarrow> ptr option \<Rightarrow> u64 \<Rightarrow> ptr option \<Rightarrow> u64 \<Rightarrow> ptr option \<Rightarrow> u64 \<Rightarrow>
    ptr option \<Rightarrow> u64 \<Rightarrow> ptr option \<Rightarrow> u64 \<Rightarrow> byte list \<Rightarrow> byte list result" where
  "AES_CCM_decrypt e ciphertext ciphertext_length aad aad_length tag tag_length key key_length iv iv_length
       plaintext =
     VerifyOrExit (ciphertext \<noteq> None) MATTER_ERROR_INVALID_ARGUMENT plaintext (
     VerifyOrExit (ciphertext_length > 0) MATTER_ERROR_INVALID_ARGUMENT plaintext (
     VerifyOrExit (tag \<noteq> None) MATTER_ERROR_INVALID_ARGUMENT plaintext (
     VerifyOrExit (isValidTagLength tag_length) MATTER_ERROR_INVALID_ARGUMENT plaintext (
     VerifyOrExit (key \<noteq> None) MATTER_ERROR_INVALID_ARGUMENT plaintext (
     VerifyOrExit (isValidKeyLength key_length) MATTER_ERROR_INVALID_ARGUMENT plaintext (
     VerifyOrExit (iv \<noteq> None) MATTER_ERROR_INVALID_ARGUMENT plaintext (
     VerifyOrExit (iv_length > 0) MATTER_ERROR_INVALID_ARGUMENT plaintext (
     VerifyOrExit (CTX_new e) MATTER_ERROR_INTERNAL plaintext (
     VerifyOrExit (Init_cipher e (if key_length = 16 then 128 else 256)) MATTER_ERROR_INTERNAL plaintext (
     VerifyOrExit (CanCastTo_int iv_length) MATTER_ERROR_INVALID_ARGUMENT plaintext (
     VerifyOrExit (Set_ivlen e (unat iv_length)) MATTER_ERROR_INTERNAL plaintext (
     VerifyOrExit (CanCastTo_int tag_length) MATTER_ERROR_INVALID_ARGUMENT plaintext (
     reading tag (unat tag_length) (\<lambda>tag.
     VerifyOrExit (Set_tag e tag) MATTER_ERROR_INTERNAL plaintext (
     reading key (unat key_length) (\<lambda>key.
     reading iv (unat iv_length) (\<lambda>iv.
     VerifyOrExit (Init_key e key iv) MATTER_ERROR_INTERNAL plaintext (
     VerifyOrExit (CanCastTo_int ciphertext_length) MATTER_ERROR_INVALID_ARGUMENT plaintext (
     VerifyOrExit (Update_length e (unat ciphertext_length)) MATTER_ERROR_INTERNAL plaintext (
     let data = (\<lambda>aad.
           VerifyOrExit (CanCastTo_int ciphertext_length) MATTER_ERROR_INVALID_ARGUMENT plaintext (
           reading ciphertext (unat ciphertext_length) (\<lambda>ciphertext.
           case Update_data e key iv tag aad ciphertext of (result, bytes) \<Rightarrow>
             (let plaintext = bytes @ drop (length bytes) plaintext
              in VerifyOrExit result MATTER_ERROR_INTERNAL plaintext (Some (MATTER_NO_ERROR, plaintext))))))
     in if aad_length > 0 \<and> aad \<noteq> None then
          VerifyOrExit (CanCastTo_int aad_length) MATTER_ERROR_INVALID_ARGUMENT plaintext (
          reading aad (unat aad_length) (\<lambda>aad.
          VerifyOrExit (Update_aad e aad) MATTER_ERROR_INTERNAL plaintext (data aad)))
        else data []))))))))))))))))))))"

section \<open>One key\<close>

definition AES_BLOCK_SIZE :: u64 where "AES_BLOCK_SIZE = 16"
definition MATTER_MSG_NONCE_LENGTH :: u64 where "MATTER_MSG_NONCE_LENGTH = 13"

definition message_nonce :: "msg_info \<Rightarrow> byte list" where
  "message_nonce msgInfo =
     [mi_secFlags msgInfo,
      ucast (mi_msgId msgInfo), ucast (drop_bit (1 * 8) (mi_msgId msgInfo)),
      ucast (drop_bit (2 * 8) (mi_msgId msgInfo)), ucast (drop_bit (3 * 8) (mi_msgId msgInfo)),
      ucast (mi_srcNodeId msgInfo), ucast (drop_bit (1 * 8) (mi_srcNodeId msgInfo)),
      ucast (drop_bit (2 * 8) (mi_srcNodeId msgInfo)), ucast (drop_bit (3 * 8) (mi_srcNodeId msgInfo)),
      ucast (drop_bit (4 * 8) (mi_srcNodeId msgInfo)), ucast (drop_bit (5 * 8) (mi_srcNodeId msgInfo)),
      ucast (drop_bit (6 * 8) (mi_srcNodeId msgInfo)), ucast (drop_bit (7 * 8) (mi_srcNodeId msgInfo))]"

text \<open>The result says whether the key fits, beside the output buffer.\<close>

definition TryDecryptMessage_AES128CCM :: "evp \<Rightarrow> byte list \<Rightarrow> u32 \<Rightarrow> byte list \<Rightarrow> u32 \<Rightarrow> msg_info \<Rightarrow> enc_key \<Rightarrow>
    byte list \<Rightarrow> (bool \<times> byte list) option" where
  "TryDecryptMessage_AES128CCM e encData encDataLen aad aadLen msgInfo key unencData =
     (if dataEncKeyLen key \<noteq> kDataEncKeyLength_AES128CCM then Some (False, unencData)
      else
        (let tag = (encData, int (unat encDataLen) - int (unat AES_BLOCK_SIZE));
             encDataLen = encDataLen - ucast AES_BLOCK_SIZE
         in map_option (\<lambda>(err, unencData). (err = MATTER_NO_ERROR, unencData))
              (AES_CCM_decrypt e (Some (encData, 0)) (ucast encDataLen) (Some (aad, 0)) (ucast aadLen)
                 (Some tag) AES_BLOCK_SIZE (Some (dataEncKey key, 0)) (ucast (dataEncKeyLen key))
                 (Some (message_nonce msgInfo, 0)) MATTER_MSG_NONCE_LENGTH unencData)))"

section \<open>The search for a key\<close>

text \<open>
  The loops of \<open>TryDecryptMessage\<close>, over \<open>attempt\<close>, a call of \<open>TryDecryptMessage_AES128CCM\<close> on the
  message for a message information and a key. Each returns the output buffer and what was found: whether
  a key of the table fits, the node identifier that fits, the key to store.
\<close>

type_synonym attempts = "msg_info \<Rightarrow> enc_key \<Rightarrow> byte list \<Rightarrow> (bool \<times> byte list) option"

fun search_table :: "attempts \<Rightarrow> msg_info \<Rightarrow> enc_key list \<Rightarrow> byte list \<Rightarrow> (bool \<times> byte list) option" where
  "search_table attempt msgInfo [] buf = Some (False, buf)"
| "search_table attempt msgInfo (key # keys) buf =
     (case (if key_srcNodeId key \<noteq> 0 \<and> mi_srcNodeId msgInfo = 0
            then attempt (msgInfo\<lparr>mi_srcNodeId := key_srcNodeId key\<rparr>) key buf
            else attempt msgInfo key buf) of
        None \<Rightarrow> None
      | Some (success, buf) \<Rightarrow> if success then Some (True, buf) else search_table attempt msgInfo keys buf)"

fun search_nodes ::
  "attempts \<Rightarrow> msg_info \<Rightarrow> enc_key \<Rightarrow> node_id list \<Rightarrow> byte list \<Rightarrow> (u64 option \<times> byte list) option" where
  "search_nodes attempt msgInfo key [] buf = Some (None, buf)"
| "search_nodes attempt msgInfo key (node # nodes) buf =
     (case attempt (msgInfo\<lparr>mi_srcNodeId := NodeId node\<rparr>) key buf of
        None \<Rightarrow> None
      | Some (success, buf) \<Rightarrow>
          if success then Some (Some (NodeId node), buf) else search_nodes attempt msgInfo key nodes buf)"

fun search_user :: "attempts \<Rightarrow> msg_info \<Rightarrow> node_id list \<Rightarrow> enc_key list \<Rightarrow> byte list \<Rightarrow>
    (enc_key option \<times> byte list) option" where
  "search_user attempt msgInfo nodes [] buf = Some (None, buf)"
| "search_user attempt msgInfo nodes (key # keys) buf =
     (let userPrefKey = key\<lparr>key_srcNodeId := mi_srcNodeId msgInfo\<rparr> in
      case attempt msgInfo userPrefKey buf of
        None \<Rightarrow> None
      | Some (success, buf) \<Rightarrow>
          if success then Some (Some userPrefKey, buf)
          else if mi_srcNodeId msgInfo = 0 then
            (case search_nodes attempt msgInfo userPrefKey nodes buf of
               None \<Rightarrow> None
             | Some (Some nid, buf) \<Rightarrow> Some (Some (userPrefKey\<lparr>key_srcNodeId := nid\<rparr>), buf)
             | Some (None, buf) \<Rightarrow> search_user attempt msgInfo nodes keys buf)
          else search_user attempt msgInfo nodes keys buf)"

fun search_hints :: "attempts \<Rightarrow> msg_info \<Rightarrow> hint_key list \<Rightarrow> byte list \<Rightarrow> (enc_key option \<times> byte list) option" where
  "search_hints attempt msgInfo [] buf = Some (None, buf)"
| "search_hints attempt msgInfo (hint # hints) buf =
     (if hasKeyId hint \<and> hint_keyId hint \<noteq> mi_sessionId msgInfo then search_hints attempt msgInfo hints buf
      else
        (let hintKey = hint_enc_key (mi_sessionId msgInfo)
               (if hasSrcNodeId hint then hint_srcNodeId hint else mi_srcNodeId msgInfo) hint in
         case attempt msgInfo hintKey buf of
           None \<Rightarrow> None
         | Some (success, buf) \<Rightarrow>
             if success then Some (Some hintKey, buf)
             else if mi_srcNodeId msgInfo = 0 \<and> hasSrcNodeId hint then
               (case attempt (msgInfo\<lparr>mi_srcNodeId := hint_srcNodeId hint\<rparr>) hintKey buf of
                  None \<Rightarrow> None
                | Some (success, buf) \<Rightarrow>
                    if success then Some (Some hintKey, buf) else search_hints attempt msgInfo hints buf)
             else search_hints attempt msgInfo hints buf))"

text \<open>
  What the plugin is given from outside: OpenSSL, the file system and the file preference, the user's
  tables, and the bytes that a fresh allocation holds.
\<close>

record decrypt_env =
  env_evp :: evp
  env_fs :: file_system
  pref_MatterProxyKeyHintFile :: "string option"
  user_keys :: "enc_key list"
  user_nodes :: "node_id list"
  g_malloc :: "nat \<Rightarrow> byte list"

definition int_of_u32 :: "u32 \<Rightarrow> int" where
  "int_of_u32 n = sint n"

text \<open>A length of -1 stands for the rest of the buffer.\<close>

definition tvb_memdup :: "tvbuff \<Rightarrow> nat \<Rightarrow> int \<Rightarrow> byte list option" where
  "tvb_memdup tvb off len =
     (if len < -1 \<or> off > length tvb then None
      else if len = -1 then Some (drop off tvb)
      else load_bytes tvb off (nat len))"

definition TryDecryptMessage :: "decrypt_env \<Rightarrow> tvbuff \<Rightarrow> nat \<Rightarrow> msg_info \<Rightarrow> hint_state \<times> key_table \<Rightarrow>
    (tvbuff option \<times> hint_state \<times> key_table) option" where
  "TryDecryptMessage env tvb encDataOffset msgInfo s =
     (if \<not> MessageIsEncrypted msgInfo then Some (None, s)
      else (case RefreshMatterProxyHintKeys (env_fs env) (pref_MatterProxyKeyHintFile env) s of None \<Rightarrow> None
      | Some (hints, sKeys) \<Rightarrow>
        (let dataLen = (of_int (int (unat (mi_msgLen msgInfo)) - int encDataOffset) :: u32) in
         case tvb_memdup tvb encDataOffset (int_of_u32 dataLen) of None \<Rightarrow> None
         | Some encData \<Rightarrow>
         (case tvb_memdup tvb 0 (int encDataOffset) of None \<Rightarrow> None
         | Some aadData \<Rightarrow>
         (let unencData = g_malloc env (unat dataLen);
              attempt = TryDecryptMessage_AES128CCM (env_evp env) encData dataLen aadData (of_nat encDataOffset)
          in case search_table attempt msgInfo (FindKeysById (mi_sessionId msgInfo) sKeys) unencData of None \<Rightarrow> None
          | Some (True, unencData) \<Rightarrow> Some (Some unencData, hints, sKeys)
          | Some (False, unencData) \<Rightarrow>
          (case search_user attempt msgInfo (user_nodes env) (user_keys env) unencData of None \<Rightarrow> None
          | Some (Some userPrefKey, unencData) \<Rightarrow>
              map_option (\<lambda>(_, sKeys). (Some unencData, hints, sKeys))
                (AddKey (userPrefKey\<lparr>keyId := mi_sessionId msgInfo\<rparr>) sKeys)
          | Some (None, unencData) \<Rightarrow>
          (case search_hints attempt msgInfo (HintKeysFromFile hints @ HintKeysFromDSB hints) unencData of None \<Rightarrow> None
          | Some (Some hintKey, unencData) \<Rightarrow>
              map_option (\<lambda>(_, sKeys). (Some unencData, hints, sKeys)) (AddKey hintKey sKeys)
          | Some (None, unencData) \<Rightarrow> Some (None, hints, sKeys))))))))"

end
