(* ===== verification/Message_Decrypt_Spec.thy ===== *)
theory Message_Decrypt_Spec
  imports Message_Decrypt
begin

text \<open>
  Correctness of the search for a key: the nonce is the security flags, the message counter and the source in
  little endian; one attempt succeeds exactly when OpenSSL opens the message; the nested loops of
  \<open>TryDecryptMessage\<close> return what the first opening candidate of a flat list yields, and store that key.
\<close>

section \<open>The contract of OpenSSL\<close>

text \<open>
  The control calls accept the parameters that AES-128-CCM with a 13-byte nonce and a 16-byte tag allows; the
  last call writes no more than the length of the ciphertext, and exactly that when it succeeds.
\<close>

definition evp_accepts :: "evp \<Rightarrow> bool" where
  "evp_accepts e \<longleftrightarrow> CTX_new e \<and> Init_cipher e 128 \<and> Set_ivlen e 13 \<and>
     (\<forall>tag. length tag = 16 \<longrightarrow> Set_tag e tag) \<and>
     (\<forall>key iv. length key = 16 \<longrightarrow> length iv = 13 \<longrightarrow> Init_key e key iv) \<and>
     (\<forall>n. Update_length e n) \<and> (\<forall>aad. Update_aad e aad) \<and>
     (\<forall>key iv tag aad data ok out. Update_data e key iv tag aad data = (ok, out) \<longrightarrow>
        length out \<le> length data \<and> (ok \<longrightarrow> length out = length data))"

lemma evp_acceptsD:
  assumes "evp_accepts e"
  shows "CTX_new e" "Init_cipher e 128" "Set_ivlen e 13" "length tag = 16 \<Longrightarrow> Set_tag e tag"
    "length key = 16 \<Longrightarrow> length iv = 13 \<Longrightarrow> Init_key e key iv" "Update_length e n" "Update_aad e aad"
    "Update_data e key iv tag aad data = (ok, out) \<Longrightarrow> length out \<le> length data"
    "Update_data e key iv tag aad data = (True, out) \<Longrightarrow> length out = length data"
  using assms by (auto simp: evp_accepts_def)

lemma message_nonce_encoding:
  "message_nonce m = mi_secFlags m # LE_Write32 (mi_msgId m) @ LE_Write64 (mi_srcNodeId m)"
  by (simp add: message_nonce_def LE_Write32_def LE_Write64_def)

lemma length_message_nonce [simp]: "length (message_nonce m) = 13"
  by (simp add: message_nonce_def)

text \<open>Two messages use the same nonce only if their flags, counters and sources agree.\<close>

lemma message_nonce_inj:
  assumes "message_nonce m = message_nonce m'"
  shows "mi_secFlags m = mi_secFlags m' \<and> mi_msgId m = mi_msgId m' \<and> mi_srcNodeId m = mi_srcNodeId m'"
proof -
  have e: "mi_secFlags m = mi_secFlags m'"
    "LE_Write32 (mi_msgId m) @ LE_Write64 (mi_srcNodeId m) = LE_Write32 (mi_msgId m') @ LE_Write64 (mi_srcNodeId m')"
    using assms by (simp_all add: message_nonce_encoding)
  then have "LE_Write32 (mi_msgId m) = LE_Write32 (mi_msgId m')" "LE_Write64 (mi_srcNodeId m) = LE_Write64 (mi_srcNodeId m')"
    by (simp_all add: LE_Write32_def)
  then show ?thesis using e(1) by (metis le32.read_write le64.read_write option.inject prod.inject)
qed

section \<open>One attempt\<close>

text \<open>What a key opens: the plaintext, when OpenSSL accepts the message under the key and the nonce.\<close>

definition key_opens :: "evp \<Rightarrow> byte list \<Rightarrow> byte list \<Rightarrow> msg_info \<Rightarrow> enc_key \<Rightarrow> byte list option" where
  "key_opens e enc aad m k =
     (if dataEncKeyLen k \<noteq> 16 then None
      else (case Update_data e (dataEncKey k) (message_nonce m) (drop (length enc - 16) enc) aad
                   (take (length enc - 16) enc) of
              (ok, p) \<Rightarrow> if ok then Some p else None))"

definition attempt_law :: "attempts \<Rightarrow> (msg_info \<Rightarrow> enc_key \<Rightarrow> byte list option) \<Rightarrow> nat \<Rightarrow> bool" where
  "attempt_law attempt opens n \<longleftrightarrow>
     (\<forall>m k buf. key_ok k \<longrightarrow> n \<le> length buf \<longrightarrow>
        (\<exists>buf'. attempt m k buf = Some (opens m k \<noteq> None, buf') \<and>
           drop n buf' = drop n buf \<and> length buf' = length buf \<and> (\<forall>p. opens m k = Some p \<longrightarrow> take n buf' = p)))"

lemma size_of_length:
  assumes "n < 2 ^ 31"
  shows "unat (of_nat n :: u32) = n" "unat (ucast (of_nat n :: u32) :: u64) = n"
    "CanCastTo_int (ucast (of_nat n :: u32))" "0 < (ucast (of_nat n :: u32) :: u64) \<longleftrightarrow> 0 < n"
proof -
  show u: "unat (of_nat n :: u32) = n" using assms by (simp add: unat_of_nat_32)
  show v: "unat (ucast (of_nat n :: u32) :: u64) = n" by (simp only: unat_ucast_32_64 u)
  show "CanCastTo_int (ucast (of_nat n :: u32))"
    unfolding CanCastTo_int_def word_le_nat_alt v using assms by simp
  show "0 < (ucast (of_nat n :: u32) :: u64) \<longleftrightarrow> 0 < n"
    unfolding word_less_nat_alt v by simp
qed

lemma small_sizes [simp]:
  "CanCastTo_int 13" "CanCastTo_int 16" "isValidKeyLength 16" "isValidTagLength 16"
  "AES_BLOCK_SIZE = 16" "MATTER_MSG_NONCE_LENGTH = 13"
  by (simp_all add: CanCastTo_int_def isValidKeyLength_def isValidTagLength_def AES_BLOCK_SIZE_def
    MATTER_MSG_NONCE_LENGTH_def)

lemma reading_Some: "int n \<le> int (length obj) - off \<Longrightarrow> 0 \<le> off \<Longrightarrow>
    reading (Some (obj, off)) n k = k (take n (drop (nat off) obj))"
  by (simp add: reading_def load_ptr_def load_bytes_def nat_le_iff) linarith

lemma AES_CCM_decrypt_eq:
  assumes e: "evp_accepts e"
    and sizes: "CanCastTo_int cl" "0 < cl" "unat cl = length enc - 16" "16 \<le> length enc"
      "CanCastTo_int al" "0 < al" "unat al = length aad" "length key = 16" "length iv = 13"
    and u: "Update_data e key iv (drop (length enc - 16) enc) aad (take (length enc - 16) enc) = (ok, out)"
  shows "AES_CCM_decrypt e (Some (enc, 0)) cl (Some (aad, 0)) al (Some (enc, int (length enc) - 16)) 16
      (Some (key, 0)) 16 (Some (iv, 0)) 13 buf =
    Some (if ok then 0 else MATTER_ERROR_INTERNAL, out @ drop (length out) buf)"
proof -
  have tag: "reading (Some (enc, int (length enc) - 16)) 16 k = k (drop (length enc - 16) enc)"
    for k :: "byte list \<Rightarrow> byte list result"
    using sizes(4) by (subst reading_Some) (auto simp: nat_diff_distrib)
  have whole: "reading (Some (obj, 0)) (length obj) k = k obj" for obj and k :: "byte list \<Rightarrow> byte list result"
    by (subst reading_Some) simp_all
  have part: "reading (Some (enc, 0)) (length enc - 16) k = k (take (length enc - 16) enc)"
    for k :: "byte list \<Rightarrow> byte list result"
    by (subst reading_Some) simp_all
  have key: "reading (Some (key, 0)) 16 k = k key" for k :: "byte list \<Rightarrow> byte list result"
    using whole [of key k] sizes(8) by simp
  have iv: "reading (Some (iv, 0)) 13 k = k iv" for k :: "byte list \<Rightarrow> byte list result"
    using whole [of iv k] sizes(9) by simp
  have words: "unat (16 :: u64) = 16" "unat (13 :: u64) = 13" "0 < (13 :: u64)" by simp_all
  have accept: "CTX_new e" "Init_cipher e 128" "Set_ivlen e 13" "Set_tag e (drop (length enc - 16) enc)"
    "Init_key e key iv" "Update_length e n" "Update_aad e aad" for n
    using evp_acceptsD(1-7) [OF e] sizes by simp_all
  show ?thesis
    unfolding AES_CCM_decrypt_def words sizes(3,7) tag key iv part whole Let_def
    by (simp add: accept sizes u words VerifyOrExit_def del: zero_less_numeral)
qed

lemma overwrite: "length out \<le> n \<Longrightarrow> drop n (out @ drop (length out) buf) = drop n buf"
  by simp

lemma message_attempt_law:
  assumes e: "evp_accepts e" and enc: "16 < length enc" "length enc < 2 ^ 31" and aad: "aad \<noteq> []" "length aad < 2 ^ 31"
  shows "attempt_law (TryDecryptMessage_AES128CCM e enc (of_nat (length enc)) aad (of_nat (length aad)))
           (key_opens e enc aad) (length enc - 16)"
  unfolding attempt_law_def
proof (intro allI impI)
  fix m k and buf :: "byte list"
  assume k: "key_ok k" and buf: "length enc - 16 \<le> length buf"
  let ?n = "length enc - 16"
  show "\<exists>buf'. TryDecryptMessage_AES128CCM e enc (of_nat (length enc)) aad (of_nat (length aad)) m k buf =
      Some (key_opens e enc aad m k \<noteq> None, buf') \<and> drop ?n buf' = drop ?n buf \<and> length buf' = length buf \<and>
      (\<forall>p. key_opens e enc aad m k = Some p \<longrightarrow> take ?n buf' = p)"
  proof (cases "dataEncKeyLen k = 16")
    case False
    then show ?thesis by (simp add: TryDecryptMessage_AES128CCM_def key_opens_def kDataEncKeyLength_AES128CCM_def)
  next
    case True
    then have kl: "length (dataEncKey k) = 16" using k by (simp add: key_ok_def)
    obtain ok out where u: "Update_data e (dataEncKey k) (message_nonce m) (drop ?n enc) aad (take ?n enc) = (ok, out)"
      by fastforce
    have lt: "length (take ?n enc) = ?n" by simp
    have "length out \<le> length (take ?n enc)" by (rule evp_acceptsD(8) [OF e u])
    then have ol: "length out \<le> ?n" unfolding lt .
    have "ok \<Longrightarrow> length out = length (take ?n enc)" using evp_acceptsD(9) [OF e] u by metis
    then have ol2: "ok \<Longrightarrow> length out = ?n" unfolding lt .
    have minus: "of_nat (length enc) - (16 :: u32) = of_nat ?n" using enc by (simp add: of_nat_diff)
    have n: "?n < 2 ^ 31" "0 < ?n" "0 < length aad" using enc aad by auto
    have A: "AES_CCM_decrypt e (Some (enc, 0)) (ucast (of_nat ?n :: u32)) (Some (aad, 0))
        (ucast (of_nat (length aad) :: u32)) (Some (enc, int (length enc) - 16)) 16 (Some (dataEncKey k, 0)) 16
        (Some (message_nonce m, 0)) 13 buf = Some (if ok then 0 else MATTER_ERROR_INTERNAL, out @ drop (length out) buf)"
      by (rule AES_CCM_decrypt_eq [OF e size_of_length(3) [OF n(1)] iffD2 [OF size_of_length(4) [OF n(1)] n(2)]
          size_of_length(2) [OF n(1)] less_imp_le [OF enc(1)] size_of_length(3) [OF aad(2)]
          iffD2 [OF size_of_length(4) [OF aad(2)] n(3)] size_of_length(2) [OF aad(2)] kl length_message_nonce u])
    have numerals: "ucast (16 :: u64) = (16 :: u32)" "ucast (16 :: u32) = (16 :: u64)" "int (unat (16 :: u64)) = 16"
      by simp_all
    have "TryDecryptMessage_AES128CCM e enc (of_nat (length enc)) aad (of_nat (length aad)) m k buf =
        Some (ok, out @ drop (length out) buf)"
      unfolding TryDecryptMessage_AES128CCM_def Let_def True kDataEncKeyLength_AES128CCM_def small_sizes
        numerals minus size_of_length(1) [OF enc(2)] A
      by simp
    moreover have "key_opens e enc aad m k = (if ok then Some out else None)"
      using True u by (simp add: key_opens_def)
    ultimately show ?thesis using ol ol2 buf overwrite [OF ol, of buf]
      by (cases ok) simp_all
  qed
qed

section \<open>The search as a list of candidates\<close>

text \<open>
  A candidate is a message information (the source may be a guess), a key, and the key to store when it fits.
  The first candidate that opens the message decides.
\<close>

type_synonym candidate = "msg_info \<times> enc_key \<times> enc_key option"

fun first_open :: "(msg_info \<Rightarrow> enc_key \<Rightarrow> byte list option) \<Rightarrow> candidate list \<Rightarrow>
    (byte list \<times> enc_key option) option" where
  "first_open opens [] = None"
| "first_open opens ((m, k, st) # cs) =
     (case opens m k of Some p \<Rightarrow> Some (p, st) | None \<Rightarrow> first_open opens cs)"

lemma first_open_append:
  "first_open opens (cs @ ds) = (case first_open opens cs of None \<Rightarrow> first_open opens ds | r \<Rightarrow> r)"
  by (induction cs) (auto split: option.splits)

lemma first_open_Some:
  "first_open opens cs = Some (p, st) \<Longrightarrow> \<exists>m k. (m, k, st) \<in> set cs \<and> opens m k = Some p"
  by (induction cs) (force split: option.splits)+

lemma first_open_None: "first_open opens cs = None \<longleftrightarrow> (\<forall>(m, k, st) \<in> set cs. opens m k = None)"
  by (induction cs) (auto split: option.splits)

definition from_source :: "msg_info \<Rightarrow> u64 \<Rightarrow> msg_info" where
  "from_source m src = m\<lparr>mi_srcNodeId := src\<rparr>"

definition table_candidates :: "msg_info \<Rightarrow> enc_key list \<Rightarrow> candidate list" where
  "table_candidates m keys = map (\<lambda>k.
     (if key_srcNodeId k \<noteq> 0 \<and> mi_srcNodeId m = 0 then from_source m (key_srcNodeId k) else m, k, None)) keys"

definition user_candidates :: "msg_info \<Rightarrow> node_id list \<Rightarrow> enc_key list \<Rightarrow> candidate list" where
  "user_candidates m nodes keys = concat (map (\<lambda>k.
     let k = k\<lparr>key_srcNodeId := mi_srcNodeId m\<rparr> in
     (m, k, Some k) #
     (if mi_srcNodeId m = 0
      then map (\<lambda>node. (from_source m (NodeId node), k, Some (k\<lparr>key_srcNodeId := NodeId node\<rparr>))) nodes
      else [])) keys)"

definition hint_candidates :: "msg_info \<Rightarrow> hint_key list \<Rightarrow> candidate list" where
  "hint_candidates m hints = concat (map (\<lambda>h.
     if hasKeyId h \<and> hint_keyId h \<noteq> mi_sessionId m then []
     else
       (let k = hint_enc_key (mi_sessionId m) (if hasSrcNodeId h then hint_srcNodeId h else mi_srcNodeId m) h in
        (m, k, Some k) #
        (if mi_srcNodeId m = 0 \<and> hasSrcNodeId h then [(from_source m (hint_srcNodeId h), k, Some k)] else [])))
     hints)"

text \<open>\<open>leaves n buf r buf'\<close>: the search left \<open>buf'\<close>, which past \<open>n\<close> is still \<open>buf\<close> and before is the plaintext.\<close>

definition leaves :: "nat \<Rightarrow> byte list \<Rightarrow> (byte list \<times> enc_key option) option \<Rightarrow> byte list \<Rightarrow> bool" where
  "leaves n buf r buf' \<longleftrightarrow> drop n buf' = drop n buf \<and> length buf' = length buf \<and>
     (\<forall>p st. r = Some (p, st) \<longrightarrow> take n buf' = p)"

lemma leaves_trans: "leaves n buf None buf1 \<Longrightarrow> leaves n buf1 r buf2 \<Longrightarrow> leaves n buf r buf2"
  by (simp add: leaves_def)

lemma attempt_cases:
  assumes "attempt_law attempt opens n" and "key_ok k" and "n \<le> length buf"
  obtains (opens) p buf' where "opens m k = Some p" "attempt m k buf = Some (True, buf')"
      "\<And>st. leaves n buf (Some (p, st)) buf'"
  | (fails) buf' where "opens m k = None" "attempt m k buf = Some (False, buf')"
      "leaves n buf None buf'" "n \<le> length buf'"
proof -
  obtain buf' where b: "attempt m k buf = Some (opens m k \<noteq> None, buf')" "drop n buf' = drop n buf"
    "length buf' = length buf" "\<And>p. opens m k = Some p \<Longrightarrow> take n buf' = p"
    using assms unfolding attempt_law_def by blast
  show ?thesis
  proof (cases "opens m k")
    case None
    then show ?thesis using b assms(3) by (intro fails [of buf']) (simp_all add: leaves_def)
  next
    case (Some p)
    then show ?thesis using b by (intro opens [of p buf']) (simp_all add: leaves_def)
  qed
qed

lemma search_table_spec:
  assumes law: "attempt_law attempt opens n"
  shows "\<lbrakk>\<forall>k \<in> set keys. key_ok k; n \<le> length buf\<rbrakk> \<Longrightarrow>
    \<exists>buf'. search_table attempt m keys buf =
        Some (first_open opens (table_candidates m keys) \<noteq> None, buf') \<and>
      leaves n buf (first_open opens (table_candidates m keys)) buf'"
proof (induction keys arbitrary: buf)
  case Nil
  then show ?case by (simp add: table_candidates_def leaves_def)
next
  case (Cons k keys)
  let ?m = "if key_srcNodeId k \<noteq> 0 \<and> mi_srcNodeId m = 0 then from_source m (key_srcNodeId k) else m"
  have s: "search_table attempt m (k # keys) buf = (case attempt ?m k buf of None \<Rightarrow> None
      | Some (success, buf) \<Rightarrow> if success then Some (True, buf) else search_table attempt m keys buf)"
    by (simp add: from_source_def)
  have k: "key_ok k" using Cons.prems by simp
  show ?case
  proof (cases rule: attempt_cases [OF law k Cons.prems(2), of ?m])
    case opens: (1 p buf')
    then show ?thesis unfolding s by (simp add: table_candidates_def)
  next
    case fails: (2 buf')
    then show ?thesis unfolding s
      using Cons.IH [of buf'] Cons.prems(1) leaves_trans [OF fails(3)] by (auto simp: table_candidates_def)
  qed
qed

lemma search_nodes_spec:
  fixes m :: msg_info
  assumes law: "attempt_law attempt opens n" and k: "key_ok k"
  defines "cs nodes \<equiv> map (\<lambda>node. (from_source m (NodeId node), k, Some (k\<lparr>key_srcNodeId := NodeId node\<rparr>))) nodes"
  shows "n \<le> length buf \<Longrightarrow>
    \<exists>nid buf'. search_nodes attempt m k nodes buf = Some (nid, buf') \<and> leaves n buf (first_open opens (cs nodes)) buf' \<and>
      (case first_open opens (cs nodes) of None \<Rightarrow> nid = None
       | Some (p, st) \<Rightarrow> \<exists>i. nid = Some i \<and> st = Some (k\<lparr>key_srcNodeId := i\<rparr>))"
proof (induction nodes arbitrary: buf)
  case Nil
  then show ?case by (simp add: cs_def leaves_def)
next
  case (Cons node nodes)
  show ?case
  proof (cases rule: attempt_cases [OF law k Cons.prems(1), of "from_source m (NodeId node)"])
    case opens: (1 p buf')
    then show ?thesis by (simp add: cs_def from_source_def)
  next
    case fails: (2 buf')
    then show ?thesis using Cons.IH [of buf'] leaves_trans [OF fails(3)] by (auto simp: cs_def from_source_def)
  qed
qed

lemma search_user_spec:
  assumes law: "attempt_law attempt opens n"
  shows "\<lbrakk>\<forall>k \<in> set keys. key_ok k; n \<le> length buf\<rbrakk> \<Longrightarrow>
    \<exists>buf'. search_user attempt m nodes keys buf =
        Some (Option.bind (first_open opens (user_candidates m nodes keys)) snd, buf') \<and>
      leaves n buf (first_open opens (user_candidates m nodes keys)) buf'"
proof (induction keys arbitrary: buf)
  case Nil
  then show ?case by (simp add: user_candidates_def leaves_def)
next
  case (Cons k keys)
  let ?k = "k\<lparr>key_srcNodeId := mi_srcNodeId m\<rparr>"
  let ?nodes = "map (\<lambda>node. (from_source m (NodeId node), ?k, Some (?k\<lparr>key_srcNodeId := NodeId node\<rparr>))) nodes"
  have k: "key_ok ?k" using Cons.prems(1) by (simp add: key_ok_def)
  have cs: "user_candidates m nodes (k # keys) =
      (m, ?k, Some ?k) # (if mi_srcNodeId m = 0 then ?nodes else []) @ user_candidates m nodes keys"
    by (simp add: user_candidates_def Let_def)
  show ?case
  proof (cases rule: attempt_cases [OF law k Cons.prems(2), of m])
    case opens: (1 p buf')
    then show ?thesis by (simp add: cs Let_def)
  next
    case fails: (2 buf1)
    show ?thesis
    proof (cases "mi_srcNodeId m = 0")
      case False
      then show ?thesis using fails(1,2) Cons.IH [OF _ fails(4)] Cons.prems(1) leaves_trans [OF fails(3)]
        by (auto simp: cs Let_def)
    next
      case True
      obtain nid buf2 where n: "search_nodes attempt m ?k nodes buf1 = Some (nid, buf2)"
        "leaves n buf1 (first_open opens ?nodes) buf2"
        "case first_open opens ?nodes of None \<Rightarrow> nid = None
         | Some (p, st) \<Rightarrow> \<exists>i. nid = Some i \<and> st = Some (?k\<lparr>key_srcNodeId := i\<rparr>)"
        using search_nodes_spec [OF law k fails(4), of m nodes] by blast
      have len: "n \<le> length buf2" using n(2) fails(4) by (simp add: leaves_def)
      show ?thesis
      proof (cases "first_open opens ?nodes")
        case None
        then show ?thesis using n True fails(1,2) Cons.IH [OF _ len] Cons.prems(1)
            leaves_trans [OF leaves_trans [OF fails(3) n(2) [unfolded None]]]
          by (auto simp: cs Let_def first_open_append)
      next
        case (Some r)
        then show ?thesis using n True fails(1,2) leaves_trans [OF fails(3) n(2)]
          by (cases r) (auto simp: cs Let_def first_open_append)
      qed
    qed
  qed
qed

lemma search_hints_spec:
  assumes law: "attempt_law attempt opens n"
  shows "\<lbrakk>\<forall>h \<in> set hints. length (hint_key_bytes h) = 16; n \<le> length buf\<rbrakk> \<Longrightarrow>
    \<exists>buf'. search_hints attempt m hints buf =
        Some (Option.bind (first_open opens (hint_candidates m hints)) snd, buf') \<and>
      leaves n buf (first_open opens (hint_candidates m hints)) buf'"
proof (induction hints arbitrary: buf)
  case Nil
  then show ?case by (simp add: hint_candidates_def leaves_def)
next
  case (Cons h hints)
  let ?k = "hint_enc_key (mi_sessionId m) (if hasSrcNodeId h then hint_srcNodeId h else mi_srcNodeId m) h"
  have k: "key_ok ?k" using Cons.prems(1) by (intro hint_enc_key_ok) simp
  note IH = Cons.IH [rotated]
  show ?case
  proof (cases "hasKeyId h \<and> hint_keyId h \<noteq> mi_sessionId m")
    case True
    then show ?thesis using IH [OF Cons.prems(2)] Cons.prems(1) by (simp add: hint_candidates_def)
  next
    case False
    have cs: "hint_candidates m (h # hints) = (m, ?k, Some ?k) #
        (if mi_srcNodeId m = 0 \<and> hasSrcNodeId h then [(from_source m (hint_srcNodeId h), ?k, Some ?k)] else []) @
        hint_candidates m hints"
      using False by (simp add: hint_candidates_def Let_def)
    show ?thesis
    proof (cases rule: attempt_cases [OF law k Cons.prems(2), of m])
      case opens: (1 p buf')
      then show ?thesis using False by (auto simp: cs Let_def)
    next
      case fails: (2 buf1)
      note first = fails
      show ?thesis
      proof (cases "mi_srcNodeId m = 0 \<and> hasSrcNodeId h")
        case neither: False
        then show ?thesis using False first(1,2) IH [OF first(4)] Cons.prems(1) leaves_trans [OF first(3)]
          by (auto simp: cs Let_def)
      next
        case guess: True
        show ?thesis
        proof (cases rule: attempt_cases [OF law k first(4), of "from_source m (hint_srcNodeId h)"])
          case opens: (1 p buf')
          then show ?thesis using False guess first(1,2) leaves_trans [OF first(3)]
            by (auto simp: cs Let_def from_source_def)
        next
          case fails: (2 buf2)
          then show ?thesis using False guess first(1,2) IH [OF fails(4)] Cons.prems(1)
              leaves_trans [OF leaves_trans [OF first(3) fails(3)]]
            by (auto simp: cs Let_def from_source_def)
        qed
      qed
    qed
  qed
qed

section \<open>The whole search\<close>

definition under_session :: "msg_info \<Rightarrow> candidate \<Rightarrow> candidate" where
  "under_session m c = (case c of (m', k, st) \<Rightarrow> (m', k, map_option (\<lambda>k. k\<lparr>keyId := mi_sessionId m\<rparr>) st))"

definition all_candidates :: "decrypt_env \<Rightarrow> msg_info \<Rightarrow> hint_state \<Rightarrow> key_table \<Rightarrow> candidate list" where
  "all_candidates env m hints T =
     table_candidates m (FindKeysById (mi_sessionId m) T) @
     map (under_session m) (user_candidates m (user_nodes env) (user_keys env)) @
     hint_candidates m (HintKeysFromFile hints @ HintKeysFromDSB hints)"

definition store_key :: "enc_key option \<Rightarrow> key_table \<Rightarrow> key_table" where
  "store_key st T = (case st of None \<Rightarrow> T | Some k \<Rightarrow> (case AddKey k T of None \<Rightarrow> T | Some (_, T') \<Rightarrow> T'))"

definition hints_ok :: "hint_state \<Rightarrow> bool" where
  "hints_ok h \<longleftrightarrow> (\<forall>g \<in> set (HintKeysFromFile h @ HintKeysFromDSB h). length (hint_key_bytes g) = 16)"

definition env_ok :: "decrypt_env \<Rightarrow> bool" where
  "env_ok env \<longleftrightarrow> evp_accepts (env_evp env) \<and> (\<forall>n. length (g_malloc env n) = n) \<and> (\<forall>k \<in> set (user_keys env). key_ok k)"

lemma first_open_under_session:
  "first_open opens (map (under_session m) cs) =
     map_option (\<lambda>(p, st). (p, map_option (\<lambda>k. k\<lparr>keyId := mi_sessionId m\<rparr>) st)) (first_open opens cs)"
  by (induction cs) (auto simp: under_session_def split: option.splits)

lemma candidate_kinds:
  "(m', k, st) \<in> set (table_candidates m keys) \<Longrightarrow> st = None"
  "(m', k, st) \<in> set (user_candidates m nodes keys) \<Longrightarrow> \<exists>k'. st = Some k' \<and> key_sessionType k' = key_sessionType k \<and>
     dataEncKey k' = dataEncKey k \<and> (key_ok k \<longrightarrow> key_ok k')"
  "(m', k, st) \<in> set (hint_candidates m hints) \<Longrightarrow> st = Some k \<and> keyId k = mi_sessionId m"
  by (auto simp: table_candidates_def user_candidates_def hint_candidates_def key_ok_def Let_def split: if_splits)

lemma length_key_opens:
  assumes "evp_accepts e" and "key_opens e enc aad m k = Some p"
  shows "length p = length enc - 16"
proof -
  have "length p = length (take (length enc - 16) enc)"
    using assms(2) evp_acceptsD(9) [OF assms(1)] by (auto simp: key_opens_def split: if_splits prod.splits)
  then show ?thesis by simp
qed

lemma AddKey_total: "key_table_inv T \<Longrightarrow> key_ok k \<Longrightarrow> \<exists>keys. AddKey k T = Some (keys, store_key (Some k) T)"
  by (rule AddKey_finds [of T k]) (auto simp: store_key_def)

lemma first_open_key:
  assumes "first_open opens (user_candidates m nodes keys) = Some (p, st)" and "\<forall>k \<in> set keys. key_ok k"
  shows "\<exists>k. st = Some k \<and> key_ok k"
proof -
  obtain m' k where c: "(m', k, st) \<in> set (user_candidates m nodes keys)" using first_open_Some [OF assms(1)] by blast
  then have "key_ok k" using assms(2) by (auto simp: user_candidates_def key_ok_def Let_def split: if_splits)
  then show ?thesis using candidate_kinds(2) [OF c] by blast
qed

lemma leaves_result:
  "leaves n buf (Some (p, st)) buf' \<Longrightarrow> length p = n \<Longrightarrow> buf' = p @ drop n buf"
  by (metis append_take_drop_id leaves_def)

lemma tvb_memdup_Some: "off + n \<le> length tvb \<Longrightarrow> tvb_memdup tvb off (int n) = Some (take n (drop off tvb))"
  by (simp add: tvb_memdup_def load_bytes_def)

lemma sint_small: "n < 2 ^ 31 \<Longrightarrow> sint (of_nat n :: u32) = int n"
  by transfer (simp add: signed_take_bit_int_eq_self)

theorem TryDecryptMessage_first:
  fixes env :: decrypt_env and m :: msg_info
  assumes env: "env_ok env" and inv: "key_table_inv T'" and hints: "hints_ok h'"
    and refresh: "RefreshMatterProxyHintKeys (env_fs env) (pref_MatterProxyKeyHintFile env) (h, T) = Some (h', T')"
    and encrypted: "MessageIsEncrypted m"
    and len: "0 < off" "off + 16 < length tvb" "length tvb = unat (mi_msgLen m)"
  defines "opens \<equiv> key_opens (env_evp env) (drop off tvb) (take off tvb)"
  shows "TryDecryptMessage env tvb off m (h, T) =
    Some (case first_open opens (all_candidates env m h' T') of
        None \<Rightarrow> (None, h', T')
      | Some (p, st) \<Rightarrow> (Some (p @ drop (length p) (g_malloc env (length tvb - off))), h', store_key st T'))"
proof -
  let ?e = "env_evp env" and ?enc = "drop off tvb" and ?aad = "take off tvb" and ?n = "length tvb - off - 16"
  define attempt where "attempt = TryDecryptMessage_AES128CCM ?e ?enc (of_nat (length ?enc)) ?aad (of_nat (length ?aad))"
  let ?buf = "g_malloc env (length tvb - off)"
  let ?T = "table_candidates m (FindKeysById (mi_sessionId m) T')"
  let ?U = "user_candidates m (user_nodes env) (user_keys env)"
  let ?H = "hint_candidates m (HintKeysFromFile h' @ HintKeysFromDSB h')"
  have "unat (mi_msgLen m) < 2 ^ LENGTH(16)" by (rule unsigned_less)
  then have small: "length tvb < 2 ^ 16" using len(3) by simp
  have law: "attempt_law attempt opens ?n"
  proof -
    have "evp_accepts ?e" "16 < length ?enc" "length ?enc < 2 ^ 31" "?aad \<noteq> []" "length ?aad < 2 ^ 31"
      using env len(1,2) small by (auto simp: env_ok_def)
    from message_attempt_law [OF this] show ?thesis by (simp only: opens_def attempt_def length_drop)
  qed
  have buf: "length ?buf = length tvb - off" "?n \<le> length ?buf" using env by (simp_all add: env_ok_def)
  have keys: "\<forall>k \<in> set (FindKeysById (mi_sessionId m) T'). key_ok k" "\<forall>k \<in> set (user_keys env). key_ok k"
    using inv env by (auto simp: key_table_inv_def env_ok_def)
  have plen: "length p = ?n" if "first_open opens cs = Some (p, st)" for cs p st
    using first_open_Some [OF that] length_key_opens [of ?e] env unfolding opens_def
    by (fastforce simp: env_ok_def)
  obtain buf1 where t: "search_table attempt m (FindKeysById (mi_sessionId m) T') ?buf = Some (first_open opens ?T \<noteq> None, buf1)"
    "leaves ?n ?buf (first_open opens ?T) buf1"
    using search_table_spec [OF law keys(1) buf(2), of m] by blast
  then have len1: "?n \<le> length buf1" using buf by (simp add: leaves_def)
  obtain buf2 where u: "search_user attempt m (user_nodes env) (user_keys env) buf1 = Some (Option.bind (first_open opens ?U) snd, buf2)"
    "leaves ?n buf1 (first_open opens ?U) buf2"
    using search_user_spec [OF law keys(2) len1, of m "user_nodes env"] by blast
  then have len2: "?n \<le> length buf2" using len1 by (simp add: leaves_def)
  obtain buf3 where s: "search_hints attempt m (HintKeysFromFile h' @ HintKeysFromDSB h') buf2 = Some (Option.bind (first_open opens ?H) snd, buf3)"
    "leaves ?n buf2 (first_open opens ?H) buf3"
    using search_hints_spec [OF law _ len2, of _ m] hints unfolding hints_ok_def by blast
  have dl: "(of_int (int (unat (mi_msgLen m)) - int off) :: u32) = of_nat (length ?enc)"
    using len by (simp add: of_nat_diff)
  have si: "int_of_u32 (of_nat (length ?enc)) = int (length ?enc)"
    unfolding int_of_u32_def by (rule sint_small) (use small in simp)
  have aad: "of_nat (length ?aad) = (of_nat off :: u32)" using len by simp
  have un: "unat (of_nat (length ?enc) :: u32) = length tvb - off"
    using small by (subst size_of_length(1)) auto
  have data: "tvb_memdup tvb off (int (length ?enc)) = Some ?enc" "tvb_memdup tvb 0 (int off) = Some ?aad"
    using tvb_memdup_Some [of off "length ?enc" tvb] tvb_memdup_Some [of 0 off tvb] len(2) by simp_all
  have unfolded: "TryDecryptMessage env tvb off m (h, T) =
      (case search_table attempt m (FindKeysById (mi_sessionId m) T') ?buf of None \<Rightarrow> None
       | Some (True, unencData) \<Rightarrow> Some (Some unencData, h', T')
       | Some (False, unencData) \<Rightarrow>
       (case search_user attempt m (user_nodes env) (user_keys env) unencData of None \<Rightarrow> None
       | Some (Some userPrefKey, unencData) \<Rightarrow>
           map_option (\<lambda>(_, sKeys). (Some unencData, h', sKeys)) (AddKey (userPrefKey\<lparr>keyId := mi_sessionId m\<rparr>) T')
       | Some (None, unencData) \<Rightarrow>
       (case search_hints attempt m (HintKeysFromFile h' @ HintKeysFromDSB h') unencData of None \<Rightarrow> None
       | Some (Some hintKey, unencData) \<Rightarrow>
           map_option (\<lambda>(_, sKeys). (Some unencData, h', sKeys)) (AddKey hintKey T')
       | Some (None, unencData) \<Rightarrow> Some (None, h', T'))))"
    unfolding attempt_def TryDecryptMessage_def refresh Let_def dl si data aad un option.case prod.case
    by (simp only: encrypted not_True_eq_False if_False)
  note result = leaves_result [OF _ plen]
  show ?thesis
  proof (cases "first_open opens ?T")
    case (Some r)
    obtain p st where r: "r = (p, st)" by fastforce
    have "st = None" using first_open_Some [of opens ?T p st] candidate_kinds(1) Some r by blast
    moreover have "buf1 = p @ drop ?n ?buf" using result [of ?buf p st buf1] t(2) Some r by simp
    ultimately show ?thesis
      unfolding unfolded t(1) all_candidates_def first_open_append Some r
      using plen [of ?T p st] Some r by (simp add: store_key_def)
  next
    case None
    note T = None
    have b1: "leaves ?n ?buf None buf1" using t(2) None by simp
    show ?thesis
    proof (cases "first_open opens ?U")
      case (Some r)
      obtain p st where r: "r = (p, st)" by fastforce
      obtain k where k: "st = Some k" "key_ok k" using first_open_key [OF _ keys(2)] Some r by blast
      let ?k = "k\<lparr>keyId := mi_sessionId m\<rparr>"
      have "key_ok ?k" using k(2) by (simp add: key_ok_def)
      then obtain ks where add: "AddKey ?k T' = Some (ks, store_key (Some ?k) T')" using AddKey_total [OF inv] by blast
      have "leaves ?n ?buf (Some (p, st)) buf2" using leaves_trans [OF b1 u(2)] Some r by simp
      then have "buf2 = p @ drop ?n ?buf" using result [of ?buf p st buf2] Some r by simp
      then show ?thesis
        unfolding unfolded t(1) T all_candidates_def first_open_append first_open_under_session
        using plen [of ?U p st] Some r k(1) add u(1) by simp
    next
      case None
      note U = None
      have b2: "leaves ?n ?buf None buf2" using leaves_trans [OF b1] u(2) U by simp
      show ?thesis
      proof (cases "first_open opens ?H")
        case None
        then show ?thesis
          unfolding unfolded t(1) T all_candidates_def first_open_append first_open_under_session
          using u(1) U s(1) by simp
      next
        case (Some r)
        obtain p st where r: "r = (p, st)" by fastforce
        obtain m' k where c: "(m', k, st) \<in> set ?H" using first_open_Some [of opens ?H p st] Some r by blast
        have st: "st = Some k" using candidate_kinds(3) [OF c] by simp
        have "key_ok k" using c hints
          by (auto simp: hint_candidates_def hints_ok_def Let_def intro!: hint_enc_key_ok split: if_splits)
        then obtain ks where add: "AddKey k T' = Some (ks, store_key (Some k) T')" using AddKey_total [OF inv] by blast
        have "leaves ?n ?buf (Some (p, st)) buf3" using leaves_trans [OF b2 s(2)] Some r by simp
        then have "buf3 = p @ drop ?n ?buf" using result [of ?buf p st buf3] Some r by simp
        then show ?thesis
          unfolding unfolded t(1) T all_candidates_def first_open_append first_open_under_session
          using plen [of ?H p st] Some r add u(1) U s(1) st by simp
      qed
    qed
  qed
qed

section \<open>Consequences\<close>

lemma store_key_spec:
  assumes "key_table_inv T" and "key_ok k"
  shows "key_table_inv (store_key (Some k) T)"
    "\<exists>key \<in> set (FindKeysById (keyId k) (store_key (Some k) T)). same_key key k"
    "\<exists>new. FindKeysById i (store_key (Some k) T) = new @ FindKeysById i T \<and> set new \<subseteq> {k}"
  by (rule AddKey_finds [OF assms], auto simp: store_key_def)+

text \<open>
  A message that is shorter than an integrity check makes the code read the check in front of the copied
  data, as soon as there is one key of the right length to try.
\<close>

lemma short_message_attempt:
  assumes e: "evp_accepts e" and enc: "length enc < 16" and k: "dataEncKeyLen k = 16"
  shows "TryDecryptMessage_AES128CCM e enc (of_nat (length enc)) aad al m k buf = None"
proof -
  have u: "unat (of_nat (length enc) :: u32) = length enc" using enc by (intro size_of_length(1)) simp
  have "(of_nat (length enc) :: u32) \<noteq> 16"
  proof
    assume "(of_nat (length enc) :: u32) = 16"
    then have "unat (of_nat (length enc) :: u32) = unat (16 :: u32)" by (rule arg_cong)
    then show False using u enc by simp
  qed
  then have ne: "of_nat (length enc) - (16 :: u32) \<noteq> 0" by simp
  then have "unat (ucast (of_nat (length enc) - (16 :: u32)) :: u64) \<noteq> 0"
    by (simp only: unat_ucast_32_64 unat_eq_zero not_False_eq_True)
  then have pos: "0 < (ucast (of_nat (length enc) - (16 :: u32)) :: u64)" by (simp add: word_less_nat_alt)
  have numerals: "ucast (16 :: u64) = (16 :: u32)" "ucast (16 :: u32) = (16 :: u64)" "int (unat (16 :: u64)) = 16"
    "unat (13 :: u64) = 13" by simp_all
  have tag: "reading (Some (enc, int (length enc) - 16)) n c = None" for n and c :: "byte list \<Rightarrow> byte list result"
    using enc by (simp add: reading_def load_ptr_def)
  show ?thesis
    unfolding TryDecryptMessage_AES128CCM_def AES_CCM_decrypt_def Let_def k kDataEncKeyLength_AES128CCM_def
      small_sizes numerals u tag
    using pos evp_acceptsD(1-3) [OF e] by simp
qed

end
