(* ===== verification/Message_Tracker.thy ===== *)
theory Message_Tracker
  imports Message_Info
begin

text \<open>
  \<open>MatterMessageTracker\<close> (\<open>MatterMessageTracker.h\<close>, \<open>.cpp\<close>): the records of the messages of a capture,
  allocated in file scope, the tables that find them by message counter and by exchange, and the
  searches for retransmissions, reused counters, acknowledged messages and the start of an exchange.

  A record is its index in \<open>records\<close>. A table of the host (\<open>wmem_tree\<close>) maps the words of a key to a
  record; the six message tables and the exchange table are told apart by \<open>table_id\<close>. The data the host
  attaches to a packet is \<open>proto_data\<close>. The checksum of the host is a parameter. The chains are walked by
  \<^theory_text>\<open>partial_function\<close>s, which would not return on a cyclic chain; the theory \<open>Message_Tracker_Inv\<close>
  shows that the chains are not cyclic.
\<close>

section \<open>State\<close>

record msg_record =
  frameNum :: u32
  fingerprint :: u32
  isInitiator :: bool
  imSubscription :: u64
  ackedByMsgRec :: "rec_id option"
  nextByMsgCntr :: "rec_id option"
  prevByMsgCntr :: "rec_id option"
  nextByExchange :: "rec_id option"
  prevByExchange :: "rec_id option"
  caseExchangeRec :: "nat option"

definition zero_record :: msg_record where
  "zero_record = \<lparr>frameNum = 0, fingerprint = 0, isInitiator = False, imSubscription = 0,
     ackedByMsgRec = None, nextByMsgCntr = None, prevByMsgCntr = None, nextByExchange = None,
     prevByExchange = None, caseExchangeRec = None\<rparr>"

datatype table_id = UnencryptedUDP | SessionEncryptedUDP | GroupEncryptedUDP
  | UnencryptedTCP | SessionEncryptedTCP | GroupEncryptedTCP | ExchangeTable

type_synonym tree_key = "u32 list"

record tracker =
  records :: "msg_record list"
  tables :: "(table_id \<Rightarrow> tree_key \<Rightarrow> rec_id option) option"
  proto_data :: "u32 \<Rightarrow> rec_id option"

definition no_tracker :: tracker where
  "no_tracker = \<lparr>records = [], tables = None, proto_data = (\<lambda>_. None)\<rparr>"

definition InitTables :: "tracker \<Rightarrow> tracker" where
  "InitTables t = (if tables t = None then t\<lparr>tables := Some (\<lambda>_ _. None)\<rparr> else t)"

definition FindMessageRecord :: "packet_info \<Rightarrow> tracker \<Rightarrow> rec_id option" where
  "FindMessageRecord pinfo t = proto_data t (fd_num pinfo)"

definition update_record :: "rec_id \<Rightarrow> (msg_record \<Rightarrow> msg_record) \<Rightarrow> tracker \<Rightarrow> tracker" where
  "update_record i f t = t\<lparr>records := (records t)[i := f (records t ! i)]\<rparr>"

section \<open>Keys\<close>

text \<open>A 64-bit number in memory is two words, the low one first.\<close>

definition words64 :: "u64 \<Rightarrow> u32 list" where
  "words64 v = [ucast v, ucast (drop_bit 32 v)]"

definition GetMessageIdTableAndKey ::
  "u64 \<Rightarrow> u32 \<Rightarrow> byte \<Rightarrow> u32 \<Rightarrow> bool \<Rightarrow> u32 \<Rightarrow> table_id \<times> tree_key" where
  "GetMessageIdTableAndKey srcNodeId msgId msgEncType msgSessionId isTCP tcpStreamId =
     (let key = words64 srcNodeId @ [msgId] in
      if isTCP then
        (let key = key @ [tcpStreamId] in
         if msgEncType = kMatterEncryptionType_None then (UnencryptedTCP, key)
         else if SessionId_GetType msgSessionId = kType_Session
         then (SessionEncryptedTCP, key @ [msgSessionId])
         else (GroupEncryptedTCP, key))
      else
        (if msgEncType = kMatterEncryptionType_None then (UnencryptedUDP, key)
         else if SessionId_GetType msgSessionId = kType_Session
         then (SessionEncryptedUDP, key @ [msgSessionId])
         else (GroupEncryptedUDP, key)))"

definition exchange_key :: "u64 \<Rightarrow> u64 \<Rightarrow> u32 \<Rightarrow> tree_key" where
  "exchange_key initiatorNodeId respNodeId exchangeId =
     words64 initiatorNodeId @ words64 respNodeId @ [exchangeId]"

text \<open>\<open>wmem_tree_lookup32_array\<close> and \<open>wmem_tree_insert32_array\<close>.\<close>

definition tree_lookup :: "table_id \<Rightarrow> tree_key \<Rightarrow> tracker \<Rightarrow> rec_id option" where
  "tree_lookup tb key t = (case tables t of None \<Rightarrow> None | Some T \<Rightarrow> T tb key)"

definition tree_insert :: "table_id \<Rightarrow> tree_key \<Rightarrow> rec_id \<Rightarrow> tracker \<Rightarrow> tracker" where
  "tree_insert tb key i t =
     t\<lparr>tables := map_option (\<lambda>T. T(tb := (T tb)(key := Some i))) (tables t)\<rparr>"

section \<open>Adding a message\<close>

text \<open>\<open>for (p = head; p != NULL; p = p->next) last = p;\<close>\<close>

partial_function (option) last_of ::
  "(msg_record \<Rightarrow> rec_id option) \<Rightarrow> msg_record list \<Rightarrow> rec_id option \<Rightarrow> rec_id option \<Rightarrow> rec_id option option" where
  [code]: "last_of next_rec recs p lastMsgRec =
     (case p of None \<Rightarrow> Some lastMsgRec
      | Some i \<Rightarrow> if i < length recs then last_of next_rec recs (next_rec (recs ! i)) (Some i) else None)"

definition GetMessagesByMessageId ::
  "u64 \<Rightarrow> u32 \<Rightarrow> byte \<Rightarrow> u32 \<Rightarrow> bool \<Rightarrow> u32 \<Rightarrow> tracker \<Rightarrow> rec_id option" where
  "GetMessagesByMessageId srcNodeId msgId msgEncType msgSessionId isTCP tcpStreamId t =
     (let (msgIdTable, msgIdKey) =
        GetMessageIdTableAndKey srcNodeId msgId msgEncType msgSessionId isTCP tcpStreamId
      in tree_lookup msgIdTable msgIdKey t)"

definition AddMessageToMessageIdTable ::
  "u64 \<Rightarrow> u32 \<Rightarrow> byte \<Rightarrow> u32 \<Rightarrow> bool \<Rightarrow> u32 \<Rightarrow> rec_id \<Rightarrow> tracker \<Rightarrow> tracker option" where
  "AddMessageToMessageIdTable srcNodeId msgId msgEncType msgSessionId isTCP tcpStreamId msgRec t =
     (let (msgIdTable, msgIdKey) =
        GetMessageIdTableAndKey srcNodeId msgId msgEncType msgSessionId isTCP tcpStreamId;
          msgsByMsgCntr = tree_lookup msgIdTable msgIdKey t
      in case last_of nextByMsgCntr (records t) msgsByMsgCntr None of None \<Rightarrow> None
         | Some lastMsgRec \<Rightarrow>
             (case lastMsgRec of
                Some l \<Rightarrow>
                  Some (update_record msgRec (\<lambda>r. r\<lparr>prevByMsgCntr := Some l\<rparr>)
                    (update_record l (\<lambda>r. r\<lparr>nextByMsgCntr := Some msgRec\<rparr>) t))
              | None \<Rightarrow> Some (tree_insert msgIdTable msgIdKey msgRec t)))"

definition GetMessagesByExchange :: "u64 \<Rightarrow> u64 \<Rightarrow> u32 \<Rightarrow> tracker \<Rightarrow> rec_id option" where
  "GetMessagesByExchange initiatorNodeId respNodeId exchangeId t =
     tree_lookup ExchangeTable (exchange_key initiatorNodeId respNodeId exchangeId) t"

definition AddMessageToExchangeTable ::
  "u64 \<Rightarrow> u64 \<Rightarrow> u32 \<Rightarrow> rec_id \<Rightarrow> tracker \<Rightarrow> tracker option" where
  "AddMessageToExchangeTable initiatorNodeId respNodeId exchangeId msgRec t =
     (let exchangeKey = exchange_key initiatorNodeId respNodeId exchangeId;
          msgsByExchange = tree_lookup ExchangeTable exchangeKey t
      in case last_of nextByExchange (records t) msgsByExchange None of None \<Rightarrow> None
         | Some lastMsgRec \<Rightarrow>
             (case lastMsgRec of
                Some l \<Rightarrow>
                  Some (update_record msgRec (\<lambda>r. r\<lparr>prevByExchange := Some l\<rparr>)
                    (update_record l (\<lambda>r. r\<lparr>nextByExchange := Some msgRec\<rparr>) t))
              | None \<Rightarrow> Some (tree_insert ExchangeTable exchangeKey msgRec t)))"

text \<open>
  The object \<open>pseudoHeader\<close> in memory, its padding cleared: fields at offsets 0, 2, 4, 8, 16, 24, 32,
  34 and 35 of 40 bytes. \<open>crc32\<close> and \<open>crc32_seed\<close> are the host's checksum functions.
\<close>

definition pseudo_header :: "msg_info \<Rightarrow> byte list" where
  "pseudo_header msgInfo =
     [mi_msgFlags msgInfo, 0] @ LE_Write16 (mi_sessionId msgInfo) @
     [mi_secFlags msgInfo, 0, 0, 0] @ LE_Write32 (mi_msgId msgInfo) @ [0, 0, 0, 0] @
     LE_Write64 (mi_srcNodeId msgInfo) @ LE_Write64 (mi_destNodeId msgInfo) @
     LE_Write16 (mi_payloadLen msgInfo) @ [mi_msgVersion msgInfo, mi_sessionType msgInfo] @
     [0, 0, 0, 0]"

definition ComputeMessageFingerprint ::
  "(byte list \<Rightarrow> u32) \<Rightarrow> (byte list \<Rightarrow> u32 \<Rightarrow> u32) \<Rightarrow> tvbuff \<Rightarrow> msg_info \<Rightarrow> u32 option" where
  "ComputeMessageFingerprint crc32 crc32_seed tvb msgInfo =
     (let fingerprint = crc32 (pseudo_header msgInfo)
      in map_option (\<lambda>bs. crc32_seed bs (NOT fingerprint))
           (tvb_range tvb (uint (mi_headerLen msgInfo))
              (uint (mi_msgLen msgInfo) - uint (mi_headerLen msgInfo))))"

definition FindOrCreateMessageRecord ::
  "(byte list \<Rightarrow> u32) \<Rightarrow> (byte list \<Rightarrow> u32 \<Rightarrow> u32) \<Rightarrow> tvbuff \<Rightarrow> packet_info \<Rightarrow> msg_info \<Rightarrow> tracker \<Rightarrow>
   (rec_id \<times> tracker) option" where
  "FindOrCreateMessageRecord crc32 crc32_seed tvb pinfo msgInfo t =
     (let t = InitTables t in
      case proto_data t (fd_num pinfo) of
        Some msgRec \<Rightarrow> Some (msgRec, t)
      | None \<Rightarrow>
          (let msgRec = length (records t);
               initiator = mi_exchHeader msgInfo AND kMatterExchangeFlag_Initiator \<noteq> 0
           in case ComputeMessageFingerprint crc32 crc32_seed tvb msgInfo of None \<Rightarrow> None
              | Some fp \<Rightarrow>
                (let t = t\<lparr>records := records t @ [zero_record\<lparr>frameNum := fd_num pinfo,
                        isInitiator := initiator, fingerprint := fp\<rparr>]\<rparr>;
                     isTCP = (ptype pinfo = PT_TCP);
                     tcpStreamId = (if isTCP then tcp_stream pinfo else 0)
                 in case AddMessageToMessageIdTable (mi_srcNodeId msgInfo) (mi_msgId msgInfo)
                           (mi_sessionType msgInfo) (ucast (mi_sessionId msgInfo)) isTCP tcpStreamId
                           msgRec t of None \<Rightarrow> None
                    | Some t \<Rightarrow>
                      (let initiatorNodeId = (if initiator then mi_srcNodeId msgInfo
                                              else mi_destNodeId msgInfo);
                           respNodeId = (if initiator then mi_destNodeId msgInfo
                                         else mi_srcNodeId msgInfo)
                       in case AddMessageToExchangeTable initiatorNodeId respNodeId
                                 (ucast (mi_exchId msgInfo)) msgRec t of None \<Rightarrow> None
                          | Some t \<Rightarrow>
                              Some (msgRec, t\<lparr>proto_data := (proto_data t)(fd_num pinfo := Some msgRec)\<rparr>)))))"

section \<open>Searches\<close>

text \<open>A loop along a chain that folds a step over the records it visits.\<close>

partial_function (option) walk ::
  "(msg_record \<Rightarrow> rec_id option) \<Rightarrow> (rec_id \<Rightarrow> 's \<Rightarrow> 's) \<Rightarrow> msg_record list \<Rightarrow> rec_id option \<Rightarrow> 's \<Rightarrow> 's option" where
  [code]: "walk next_rec step recs p s =
     (case p of None \<Rightarrow> Some s
      | Some i \<Rightarrow>
          if i < length recs then walk next_rec step recs (next_rec (recs ! i)) (step i s) else None)"

text \<open>\<open>p->frameNum < best->frameNum\<close>, or there is no \<open>best\<close> yet.\<close>

definition earlier_frame :: "msg_record list \<Rightarrow> rec_id \<Rightarrow> rec_id option \<Rightarrow> bool" where
  "earlier_frame recs p best \<longleftrightarrow>
     (case best of None \<Rightarrow> True | Some b \<Rightarrow> frameNum (recs ! p) < frameNum (recs ! b))"

definition later_frame :: "msg_record list \<Rightarrow> rec_id \<Rightarrow> rec_id option \<Rightarrow> bool" where
  "later_frame recs p best \<longleftrightarrow>
     (case best of None \<Rightarrow> True | Some b \<Rightarrow> frameNum (recs ! p) > frameNum (recs ! b))"

definition retrans_before :: "msg_record list \<Rightarrow> u32 \<Rightarrow> rec_id \<Rightarrow> msg_info \<Rightarrow> msg_info" where
  "retrans_before recs msgFingerprint p mi =
     (if msgFingerprint = fingerprint (recs ! p) then
        (let mi = (if earlier_frame recs p (mi_retransOfMsg mi) then mi\<lparr>mi_retransOfMsg := Some p\<rparr> else mi)
         in mi\<lparr>mi_retransNum := mi_retransNum mi + 1, mi_totalRetrans := mi_totalRetrans mi + 1\<rparr>)
      else mi)"

definition retrans_after :: "msg_record list \<Rightarrow> u32 \<Rightarrow> rec_id \<Rightarrow> msg_info \<Rightarrow> msg_info" where
  "retrans_after recs msgFingerprint p mi =
     (if msgFingerprint = fingerprint (recs ! p)
      then mi\<lparr>mi_totalRetrans := mi_totalRetrans mi + 1\<rparr> else mi)"

definition FindRetransmissions :: "rec_id \<Rightarrow> msg_info \<Rightarrow> tracker \<Rightarrow> msg_info option" where
  "FindRetransmissions msgRec mi t =
     (let recs = records t;
          msgFingerprint = fingerprint (recs ! msgRec);
          mi = mi\<lparr>mi_retransOfMsg := None, mi_retransNum := 0, mi_totalRetrans := 0\<rparr>
      in case walk prevByMsgCntr (retrans_before recs msgFingerprint) recs
                (prevByMsgCntr (recs ! msgRec)) mi of None \<Rightarrow> None
         | Some mi \<Rightarrow> walk nextByMsgCntr (retrans_after recs msgFingerprint) recs
                        (nextByMsgCntr (recs ! msgRec)) mi)"

definition reused_before :: "msg_record list \<Rightarrow> u32 \<Rightarrow> rec_id \<Rightarrow> msg_info \<Rightarrow> msg_info" where
  "reused_before recs msgFingerprint p mi =
     (if msgFingerprint \<noteq> fingerprint (recs ! p) \<and> earlier_frame recs p (mi_reusesMsgCntrFrom mi)
      then mi\<lparr>mi_reusesMsgCntrFrom := Some p\<rparr> else mi)"

definition FindReusedMessageIds :: "rec_id \<Rightarrow> msg_info \<Rightarrow> tracker \<Rightarrow> msg_info option" where
  "FindReusedMessageIds msgRec mi t =
     (let recs = records t;
          msgFingerprint = fingerprint (recs ! msgRec);
          mi = mi\<lparr>mi_reusesMsgCntrFrom := None\<rparr>
      in walk prevByMsgCntr (reused_before recs msgFingerprint) recs (prevByMsgCntr (recs ! msgRec)) mi)"

text \<open>The acknowledged records are updated while the chain is walked; the chain itself is not.\<close>

definition acked_step ::
  "rec_id \<Rightarrow> rec_id \<Rightarrow> msg_record list \<times> rec_id option \<Rightarrow> msg_record list \<times> rec_id option" where
  "acked_step msgRec p s =
     (case s of (recs, acked) \<Rightarrow>
        if frameNum (recs ! p) < frameNum (recs ! msgRec) then
          ((if earlier_frame recs msgRec (ackedByMsgRec (recs ! p))
            then recs[p := (recs ! p)\<lparr>ackedByMsgRec := Some msgRec\<rparr>] else recs),
           (if later_frame recs p acked then Some p else acked))
        else (recs, acked))"

definition FindAckedMessages ::
  "packet_info \<Rightarrow> rec_id \<Rightarrow> msg_info \<Rightarrow> tracker \<Rightarrow> (msg_info \<times> tracker) option" where
  "FindAckedMessages pinfo msgRec mi t =
     (if ptype pinfo = PT_UDP \<and> mi_msgVersion mi > 1 \<and> mi_exchHeader mi AND kMatterExchangeFlag_AckId \<noteq> 0
      then
        (let ackMsgRecList = GetMessagesByMessageId (mi_destNodeId mi) (mi_ackMsgCntr mi)
               (mi_sessionType mi) (ucast (mi_sessionId mi)) False 0 t
         in map_option (\<lambda>(recs, acked). (mi\<lparr>mi_ackedMsg := acked\<rparr>, t\<lparr>records := recs\<rparr>))
              (walk nextByMsgCntr (acked_step msgRec) (records t) ackMsgRecList
                 (records t, mi_ackedMsg mi)))
      else Some (mi, t))"

partial_function (option) fold_start :: "msg_record list \<Rightarrow> rec_id \<Rightarrow> rec_id option" where
  \<comment> \<open>the inner loop of \<open>FindStartOfExchange\<close>\<close>
  [code]: "fold_start recs start =
     (case prevByExchange (recs ! start) of
        None \<Rightarrow> Some start
      | Some q \<Rightarrow>
          if q < length recs then
            (if isInitiator (recs ! q) \<and> fingerprint (recs ! q) = fingerprint (recs ! start)
             then fold_start recs q else Some start)
          else None)"

partial_function (option) start_of_exchange ::
  "msg_record list \<Rightarrow> rec_id option \<Rightarrow> rec_id option \<Rightarrow> rec_id option option" where
  [code]: "start_of_exchange recs p firstInChain =
     (case p of None \<Rightarrow> Some firstInChain
      | Some i \<Rightarrow>
          if i < length recs then
            (if isInitiator (recs ! i) then map_option Some (fold_start recs i)
             else start_of_exchange recs (prevByExchange (recs ! i)) (Some i))
          else None)"

definition FindStartOfExchange :: "rec_id option \<Rightarrow> tracker \<Rightarrow> rec_id option option" where
  "FindStartOfExchange msgRec t = start_of_exchange (records t) msgRec msgRec"

end
