(* ===== verification/Message_Tracker_Inv.thy ===== *)
theory Message_Tracker_Inv
  imports Message_Tracker
begin

text \<open>
  The tracker's tables as finite lists: each key of each table has the list of the messages that were
  added under it, in the order of their arrival, and the linked records implement those lists. Adding a
  message appends it to one list of the message tables and to one list of the exchange table; the searches
  are folds over the lists. The two doubly linked chains of a record are the two interpretations of the
  locale \<open>links\<close>.
\<close>

section \<open>Linked chains\<close>

fun is_chain ::
  "(msg_record \<Rightarrow> rec_id option) \<Rightarrow> (msg_record \<Rightarrow> rec_id option) \<Rightarrow> msg_record list \<Rightarrow>
   rec_id option \<Rightarrow> rec_id option \<Rightarrow> rec_id list \<Rightarrow> bool" where
  "is_chain nxt prv recs back p [] \<longleftrightarrow> p = None"
| "is_chain nxt prv recs back p (x # xs) \<longleftrightarrow>
     p = Some x \<and> x < length recs \<and> prv (recs ! x) = back \<and>
     is_chain nxt prv recs (Some x) (nxt (recs ! x)) xs"

lemma is_chain_less: "is_chain nxt prv recs b p xs \<Longrightarrow> x \<in> set xs \<Longrightarrow> x < length recs"
  by (induction xs arbitrary: b p) auto

lemma is_chain_head: "is_chain nxt prv recs b p xs \<Longrightarrow> p = (if xs = [] then None else Some (hd xs))"
  by (cases xs) auto

lemma last_of_chain:
  "is_chain nxt prv recs b p xs \<Longrightarrow> last_of nxt recs p l = Some (if xs = [] then l else Some (last xs))"
proof (induction xs arbitrary: b p l)
  case Nil
  then show ?case by (subst last_of.simps) simp
next
  case (Cons x xs)
  then show ?case by (subst last_of.simps) auto
qed

lemma walk_chain:
  "is_chain nxt prv recs b p xs \<Longrightarrow> walk nxt step recs p s = Some (fold step xs s)"
proof (induction xs arbitrary: b p s)
  case Nil
  then show ?case by (subst walk.simps) simp
next
  case (Cons x xs)
  then show ?case by (subst walk.simps) auto
qed

lemma is_chain_split:
  assumes "is_chain nxt prv recs b p (xs @ y # ys)"
  shows "is_chain nxt prv recs (Some y) (nxt (recs ! y)) ys" "y < length recs"
    "prv (recs ! y) = (if xs = [] then b else Some (last xs))"
proof -
  have "is_chain nxt prv recs (Some y) (nxt (recs ! y)) ys \<and> y < length recs \<and>
     prv (recs ! y) = (if xs = [] then b else Some (last xs))"
    using assms
  proof (induction xs arbitrary: b p)
    case Nil
    then show ?case by simp
  next
    case (Cons x xs)
    then have "is_chain nxt prv recs (Some x) (nxt (recs ! x)) (xs @ y # ys)" by simp
    from Cons.IH [OF this] show ?case by (cases "xs = []") simp_all
  qed
  then show "is_chain nxt prv recs (Some y) (nxt (recs ! y)) ys" "y < length recs"
    "prv (recs ! y) = (if xs = [] then b else Some (last xs))" by blast+
qed

lemma walk_back_chain:
  assumes "is_chain nxt prv recs None p (xs @ y # ys)"
  shows "walk prv step recs (prv (recs ! y)) s = Some (fold step (rev xs) s)"
  using assms
proof (induction xs arbitrary: y ys s rule: rev_induct)
  case Nil
  have "prv (recs ! y) = None" using is_chain_split(3) [OF Nil] by simp
  then show ?case using walk.simps [of prv step recs "prv (recs ! y)" s] by simp
next
  case (snoc x xs)
  have y: "prv (recs ! y) = Some x" using is_chain_split(3) [OF snoc.prems] by simp
  have c: "is_chain nxt prv recs None p (xs @ x # y # ys)" using snoc.prems by simp
  have "x < length recs" by (rule is_chain_split(2) [OF c])
  then have "walk prv step recs (prv (recs ! y)) s = walk prv step recs (prv (recs ! x)) (step x s)"
    using walk.simps [of prv step recs "prv (recs ! y)" s] y by simp
  also have "\<dots> = Some (fold step (rev xs) (step x s))" by (rule snoc.IH [OF c])
  finally show ?case by simp
qed

lemma is_chain_cong:
  assumes "is_chain nxt prv recs b p xs" and "length recs \<le> length recs'"
    and "\<And>x. x \<in> set xs \<Longrightarrow> nxt (recs' ! x) = nxt (recs ! x) \<and> prv (recs' ! x) = prv (recs ! x)"
  shows "is_chain nxt prv recs' b p xs"
  using assms by (induction xs arbitrary: b p) auto

text \<open>The last element's link can be set without touching the rest.\<close>

lemma is_chain_snoc:
  assumes "is_chain nxt prv recs b p xs" and "xs \<noteq> []" and "distinct (xs @ [n])"
    and "n < length recs'" and "length recs \<le> length recs'"
    and "\<And>x. x \<in> set xs \<Longrightarrow> prv (recs' ! x) = prv (recs ! x)"
    and "\<And>x. x \<in> set xs \<Longrightarrow> x \<noteq> last xs \<Longrightarrow> nxt (recs' ! x) = nxt (recs ! x)"
    and "nxt (recs' ! last xs) = Some n" and "prv (recs' ! n) = Some (last xs)" and "nxt (recs' ! n) = None"
  shows "is_chain nxt prv recs' b p (xs @ [n])"
  using assms
proof (induction xs arbitrary: b p)
  case Nil
  then show ?case by simp
next
  case (Cons x xs)
  show ?case
  proof (cases "xs = []")
    case True
    then show ?thesis using Cons.prems by auto
  next
    case False
    then have "x \<noteq> last xs" using Cons.prems(3) by (metis distinct.simps(2) last_in_set append_Cons Un_iff set_append)
    then show ?thesis using Cons False by auto
  qed
qed

section \<open>The interface of a pair of links\<close>

locale links =
  fixes nxt :: "msg_record \<Rightarrow> rec_id option"
    and prv :: "msg_record \<Rightarrow> rec_id option"
    and set_nxt :: "rec_id option \<Rightarrow> msg_record \<Rightarrow> msg_record"
    and set_prv :: "rec_id option \<Rightarrow> msg_record \<Rightarrow> msg_record"
  assumes nxt_set_nxt: "nxt (set_nxt v r) = v"
    and prv_set_nxt: "prv (set_nxt v r) = prv r"
    and nxt_set_prv: "nxt (set_prv v r) = nxt r"
    and prv_set_prv: "prv (set_prv v r) = v"
begin

text \<open>Linking the record \<open>n\<close> behind the last record of a chain.\<close>

definition link :: "rec_id \<Rightarrow> rec_id \<Rightarrow> msg_record list \<Rightarrow> msg_record list" where
  "link l n recs =
     (let recs = recs[l := set_nxt (Some n) (recs ! l)] in recs[n := set_prv (Some l) (recs ! n)])"

lemma link_nth:
  assumes "l < length recs" and "n < length recs" and "l \<noteq> n"
  shows "x \<noteq> l \<Longrightarrow> x \<noteq> n \<Longrightarrow> link l n recs ! x = recs ! x"
    and "link l n recs ! l = set_nxt (Some n) (recs ! l)"
    and "link l n recs ! n = set_prv (Some l) (recs ! n)"
    and "length (link l n recs) = length recs"
  using assms by (simp_all add: link_def Let_def)

lemma link_chain:
  assumes c: "is_chain nxt prv recs None p xs" and ne: "xs \<noteq> []" and d: "distinct (xs @ [n])"
    and n: "n < length recs" "nxt (recs ! n) = None"
  shows "is_chain nxt prv (link (last xs) n recs) None p (xs @ [n])"
proof -
  have l: "last xs < length recs" "last xs \<noteq> n" using is_chain_less [OF c, of "last xs"] ne d by auto
  note L = link_nth [OF l(1) n(1) l(2)]
  show ?thesis
  proof (rule is_chain_snoc [OF c ne d])
    fix x assume x: "x \<in> set xs"
    then have xn: "x \<noteq> n" using d by auto
    then show "prv (link (last xs) n recs ! x) = prv (recs ! x)"
      using L by (cases "x = last xs") (simp_all add: prv_set_nxt)
    show "nxt (link (last xs) n recs ! x) = nxt (recs ! x)" if "x \<noteq> last xs" using L(1) that xn by simp
  qed (use L n in \<open>simp_all add: nxt_set_nxt prv_set_prv nxt_set_prv\<close>)
qed

text \<open>A chain that has neither record stays.\<close>

lemma link_other_chain:
  assumes "is_chain nxt prv recs None p ys" and "l < length recs" "n < length recs" "l \<noteq> n"
    and "l \<notin> set ys" "n \<notin> set ys"
  shows "is_chain nxt prv (link l n recs) None p ys"
proof (rule is_chain_cong [OF assms(1)])
  fix x assume "x \<in> set ys"
  then have "x \<noteq> l" "x \<noteq> n" using assms(5,6) by auto
  then show "nxt (link l n recs ! x) = nxt (recs ! x) \<and> prv (link l n recs ! x) = prv (recs ! x)"
    using link_nth(1) [OF assms(2-4)] by simp
qed (simp add: link_nth(4) [OF assms(2-4)])

end

interpretation by_cntr: links nextByMsgCntr prevByMsgCntr
  "\<lambda>v r. r\<lparr>nextByMsgCntr := v\<rparr>" "\<lambda>v r. r\<lparr>prevByMsgCntr := v\<rparr>"
  by unfold_locales simp_all

interpretation by_exchange: links nextByExchange prevByExchange
  "\<lambda>v r. r\<lparr>nextByExchange := v\<rparr>" "\<lambda>v r. r\<lparr>prevByExchange := v\<rparr>"
  by unfold_locales simp_all

text \<open>Linking one pair does not touch the other.\<close>

lemma link_independent:
  assumes "l < length recs" "n < length recs" "l \<noteq> n"
  shows "is_chain nextByExchange prevByExchange recs b p ys \<Longrightarrow>
      is_chain nextByExchange prevByExchange (by_cntr.link l n recs) b p ys"
    and "is_chain nextByMsgCntr prevByMsgCntr recs b p ys \<Longrightarrow>
      is_chain nextByMsgCntr prevByMsgCntr (by_exchange.link l n recs) b p ys"
proof -
  have "nextByExchange (by_cntr.link l n recs ! x) = nextByExchange (recs ! x) \<and>
      prevByExchange (by_cntr.link l n recs ! x) = prevByExchange (recs ! x)" for x
  proof -
    note L = by_cntr.link_nth [OF assms]
    consider "x = l" | "x = n" | "x \<noteq> l" "x \<noteq> n" by blast
    then show ?thesis
    proof cases
      case 1 then show ?thesis by (simp only: L(2)) simp
    next
      case 2 then show ?thesis by (simp only: L(3)) simp
    next
      case 3 show ?thesis by (simp only: L(1) [OF 3])
    qed
  qed
  note ex = this
  have "nextByMsgCntr (by_exchange.link l n recs ! x) = nextByMsgCntr (recs ! x) \<and>
      prevByMsgCntr (by_exchange.link l n recs ! x) = prevByMsgCntr (recs ! x)" for x
  proof -
    note L = by_exchange.link_nth [OF assms]
    consider "x = l" | "x = n" | "x \<noteq> l" "x \<noteq> n" by blast
    then show ?thesis
    proof cases
      case 1 then show ?thesis by (simp only: L(2)) simp
    next
      case 2 then show ?thesis by (simp only: L(3)) simp
    next
      case 3 show ?thesis by (simp only: L(1) [OF 3])
    qed
  qed
  note cn = this
  show "is_chain nextByExchange prevByExchange (by_cntr.link l n recs) b p ys"
    if "is_chain nextByExchange prevByExchange recs b p ys"
    by (rule is_chain_cong [OF that]) (use ex in \<open>simp_all add: by_cntr.link_nth(4) [OF assms]\<close>)
  show "is_chain nextByMsgCntr prevByMsgCntr (by_exchange.link l n recs) b p ys"
    if "is_chain nextByMsgCntr prevByMsgCntr recs b p ys"
    by (rule is_chain_cong [OF that]) (use cn in \<open>simp_all add: by_exchange.link_nth(4) [OF assms]\<close>)
qed

section \<open>Tables of lists\<close>

context links
begin

text \<open>The table \<open>T\<close> of chain heads implements the table \<open>A\<close> of lists, no two of which share a record.\<close>

definition lists_ok :: "msg_record list \<Rightarrow> ('k \<Rightarrow> rec_id option) \<Rightarrow> ('k \<Rightarrow> rec_id list) \<Rightarrow> bool" where
  "lists_ok recs T A \<longleftrightarrow>
     (\<forall>k. is_chain nxt prv recs None (T k) (A k)) \<and> (\<forall>k. distinct (A k)) \<and>
     (\<forall>k k'. k \<noteq> k' \<longrightarrow> set (A k) \<inter> set (A k') = {})"

lemma lists_chain: "lists_ok recs T A \<Longrightarrow> is_chain nxt prv recs None (T k) (A k)"
  by (simp add: lists_ok_def)

lemma lists_less: "lists_ok recs T A \<Longrightarrow> x \<in> set (A k) \<Longrightarrow> x < length recs"
  using is_chain_less [OF lists_chain] .

lemma lists_insert:
  assumes ok: "lists_ok recs T A" and n: "n < length recs" "nxt (recs ! n) = None" "prv (recs ! n) = None"
    and fresh: "\<And>k. n \<notin> set (A k)" and empty: "A k = []"
  shows "lists_ok recs (T(k := Some n)) (A(k := A k @ [n]))"
  using ok n fresh empty unfolding lists_ok_def by (simp add: Int_commute)

lemma lists_link:
  assumes ok: "lists_ok recs T A" and n: "n < length recs" "nxt (recs ! n) = None"
    and fresh: "\<And>k. n \<notin> set (A k)" and ne: "A k \<noteq> []"
  shows "lists_ok (link (last (A k)) n recs) T (A(k := A k @ [n]))"
proof -
  let ?l = "last (A k)"
  have l: "?l < length recs" "?l \<noteq> n" using lists_less [OF ok, of ?l k] ne fresh [of k] by auto
  have d: "distinct (A k @ [n])" using ok fresh [of k] by (simp add: lists_ok_def)
  have "is_chain nxt prv (link ?l n recs) None (T j) ((A(k := A k @ [n])) j)" for j
  proof (cases "j = k")
    case True
    then show ?thesis using link_chain [OF lists_chain [OF ok] ne d n] by simp
  next
    case False
    then have "?l \<notin> set (A j)" using ok ne unfolding lists_ok_def by (metis disjoint_iff last_in_set)
    then show ?thesis using False link_other_chain [OF lists_chain [OF ok] l(1) n(1) l(2)] fresh by simp
  qed
  moreover have "\<forall>j. distinct ((A(k := A k @ [n])) j)" using ok d by (simp add: lists_ok_def)
  moreover have "\<forall>j j'. j \<noteq> j' \<longrightarrow> set ((A(k := A k @ [n])) j) \<inter> set ((A(k := A k @ [n])) j') = {}"
    using ok fresh by (auto simp: lists_ok_def)
  ultimately show ?thesis unfolding lists_ok_def by blast
qed

lemma lists_cong:
  assumes "lists_ok recs T A" and "length recs \<le> length recs'"
    and "\<And>x. x < length recs \<Longrightarrow> nxt (recs' ! x) = nxt (recs ! x) \<and> prv (recs' ! x) = prv (recs ! x)"
  shows "lists_ok recs' T A"
  using assms is_chain_cong [OF lists_chain [OF assms(1)] assms(2)] lists_less [OF assms(1)]
  unfolding lists_ok_def by blast

end

section \<open>The tracker's lists\<close>

definition message_table :: "tracker \<Rightarrow> table_id \<times> tree_key \<Rightarrow> rec_id option" where
  "message_table t k = (if fst k = ExchangeTable then None else tree_lookup (fst k) (snd k) t)"

definition exchange_table :: "tracker \<Rightarrow> tree_key \<Rightarrow> rec_id option" where
  "exchange_table t k = tree_lookup ExchangeTable k t"

text \<open>\<open>M\<close> are the messages under each message key, \<open>X\<close> those under each exchange key.\<close>

definition tracker_inv ::
  "tracker \<Rightarrow> (table_id \<times> tree_key \<Rightarrow> rec_id list) \<Rightarrow> (tree_key \<Rightarrow> rec_id list) \<Rightarrow> bool" where
  "tracker_inv t M X \<longleftrightarrow>
     by_cntr.lists_ok (records t) (message_table t) M \<and>
     by_exchange.lists_ok (records t) (exchange_table t) X \<and>
     (\<forall>f i. proto_data t f = Some i \<longrightarrow> i < length (records t))"

lemma no_tracker_inv: "tracker_inv no_tracker (\<lambda>_. []) (\<lambda>_. [])"
  by (simp add: tracker_inv_def no_tracker_def by_cntr.lists_ok_def by_exchange.lists_ok_def
      message_table_def exchange_table_def tree_lookup_def)

lemma InitTables_simps [simp]:
  "message_table (InitTables t) = message_table t" "exchange_table (InitTables t) = exchange_table t"
  "records (InitTables t) = records t" "proto_data (InitTables t) = proto_data t"
  by (simp_all add: InitTables_def message_table_def exchange_table_def tree_lookup_def fun_eq_iff)

lemma InitTables_tables [simp]: "\<exists>y. tables (InitTables t) = Some y"
  by (simp add: InitTables_def)

lemma InitTables_inv: "tracker_inv t M X \<Longrightarrow> tracker_inv (InitTables t) M X"
  by (simp add: tracker_inv_def)

lemma GetMessageIdTable_message: "fst (GetMessageIdTableAndKey s m e k tcp str) \<noteq> ExchangeTable"
  by (simp add: GetMessageIdTableAndKey_def Let_def)

lemma update_link:
  "update_record n (\<lambda>r. r\<lparr>prevByMsgCntr := Some l\<rparr>) (update_record l (\<lambda>r. r\<lparr>nextByMsgCntr := Some n\<rparr>) t) =
     t\<lparr>records := by_cntr.link l n (records t)\<rparr>"
  "update_record n (\<lambda>r. r\<lparr>prevByExchange := Some l\<rparr>) (update_record l (\<lambda>r. r\<lparr>nextByExchange := Some n\<rparr>) t) =
     t\<lparr>records := by_exchange.link l n (records t)\<rparr>"
  by (simp_all add: update_record_def by_cntr.link_def by_exchange.link_def Let_def)

lemma table_records [simp]:
  "message_table (t\<lparr>records := r\<rparr>) = message_table t" "exchange_table (t\<lparr>records := r\<rparr>) = exchange_table t"
  "message_table (t\<lparr>proto_data := p\<rparr>) = message_table t" "exchange_table (t\<lparr>proto_data := p\<rparr>) = exchange_table t"
  by (auto simp: message_table_def exchange_table_def tree_lookup_def)

lemma table_insert:
  assumes "tables t \<noteq> None"
  shows "tb \<noteq> ExchangeTable \<Longrightarrow> message_table (tree_insert tb k n t) = (message_table t)((tb, k) := Some n)"
    and "tb \<noteq> ExchangeTable \<Longrightarrow> exchange_table (tree_insert tb k n t) = exchange_table t"
    and "message_table (tree_insert ExchangeTable k n t) = message_table t"
    and "exchange_table (tree_insert ExchangeTable k n t) = (exchange_table t)(k := Some n)"
  using assms
  by (auto simp: fun_eq_iff message_table_def exchange_table_def tree_lookup_def tree_insert_def
      split: option.splits)

text \<open>Adding a fresh record appends it to its message list.\<close>

lemma AddMessageToMessageIdTable_spec:
  assumes inv: "tracker_inv t M X" and T: "tables t \<noteq> None" and n: "n < length (records t)"
    and unlinked: "nextByMsgCntr (records t ! n) = None" "prevByMsgCntr (records t ! n) = None"
    and fresh: "\<And>k. n \<notin> set (M k)"
    and k: "k = GetMessageIdTableAndKey s m e sid tcp str"
  obtains t' where "AddMessageToMessageIdTable s m e sid tcp str n t = Some t'"
    "tracker_inv t' (M(k := M k @ [n])) X" "tables t' \<noteq> None" "length (records t') = length (records t)"
    "proto_data t' = proto_data t"
    "\<And>x. nextByExchange (records t' ! x) = nextByExchange (records t ! x) \<and>
        prevByExchange (records t' ! x) = prevByExchange (records t ! x) \<and>
        frameNum (records t' ! x) = frameNum (records t ! x) \<and>
        fingerprint (records t' ! x) = fingerprint (records t ! x) \<and>
        isInitiator (records t' ! x) = isInitiator (records t ! x)"
proof -
  obtain tb key where tk: "GetMessageIdTableAndKey s m e sid tcp str = (tb, key)" by fastforce
  have tb: "tb \<noteq> ExchangeTable" using GetMessageIdTable_message [of s m e sid tcp str] tk by simp
  have C: "by_cntr.lists_ok (records t) (message_table t) M"
    and E: "by_exchange.lists_ok (records t) (exchange_table t) X" using inv by (simp_all add: tracker_inv_def)
  have hd: "tree_lookup tb key t = message_table t (tb, key)" using tb by (simp add: message_table_def)
  have lo: "last_of nextByMsgCntr (records t) (tree_lookup tb key t) None =
      Some (if M k = [] then None else Some (last (M k)))"
    unfolding hd using last_of_chain [OF by_cntr.lists_chain [OF C]] k tk by simp
  show ?thesis
  proof (cases "M k = []")
    case True
    let ?t = "tree_insert tb key n t"
    have r: "records ?t = records t" "proto_data ?t = proto_data t" by (simp_all add: tree_insert_def)
    show ?thesis
    proof (rule that [of ?t])
      show "AddMessageToMessageIdTable s m e sid tcp str n t = Some ?t"
        using lo True by (simp add: AddMessageToMessageIdTable_def tk)
      show "tracker_inv ?t (M(k := M k @ [n])) X"
        using by_cntr.lists_insert [OF C n unlinked fresh True] inv tb T
        by (simp add: tracker_inv_def r table_insert k tk)
      show "tables ?t \<noteq> None" using T by (simp add: tree_insert_def)
    qed (simp_all add: r)
  next
    case False
    let ?l = "last (M k)"
    let ?t = "t\<lparr>records := by_cntr.link ?l n (records t)\<rparr>"
    have l: "?l < length (records t)" "?l \<noteq> n"
      using by_cntr.lists_less [OF C, of ?l k] False fresh [of k] by auto
    note L = by_cntr.link_nth [OF l(1) n l(2)]
    have X: "by_exchange.lists_ok (by_cntr.link ?l n (records t)) (exchange_table t) X"
      using E link_independent(1) [OF l(1) n l(2)] unfolding by_exchange.lists_ok_def by blast
    show ?thesis
    proof (rule that [of ?t])
      show "AddMessageToMessageIdTable s m e sid tcp str n t = Some ?t"
        using lo False by (simp add: AddMessageToMessageIdTable_def tk update_link)
      show "tracker_inv ?t (M(k := M k @ [n])) X"
        using by_cntr.lists_link [OF C n unlinked(1) fresh False] X inv L(4)
        by (simp add: tracker_inv_def)
      fix x
      consider "x = ?l" | "x = n" | "x \<noteq> ?l" "x \<noteq> n" by blast
      then show "nextByExchange (records ?t ! x) = nextByExchange (records t ! x) \<and>
        prevByExchange (records ?t ! x) = prevByExchange (records t ! x) \<and>
        frameNum (records ?t ! x) = frameNum (records t ! x) \<and>
        fingerprint (records ?t ! x) = fingerprint (records t ! x) \<and>
        isInitiator (records ?t ! x) = isInitiator (records t ! x)"
        by cases (use L in simp_all)
    qed (use T L in simp_all)
  qed
qed

lemma AddMessageToExchangeTable_spec:
  assumes inv: "tracker_inv t M X" and T: "tables t \<noteq> None" and n: "n < length (records t)"
    and unlinked: "nextByExchange (records t ! n) = None" "prevByExchange (records t ! n) = None"
    and fresh: "\<And>k. n \<notin> set (X k)" and k: "k = exchange_key i r x"
  obtains t' where "AddMessageToExchangeTable i r x n t = Some t'"
    "tracker_inv t' M (X(k := X k @ [n]))" "length (records t') = length (records t)"
    "proto_data t' = proto_data t" "tables t' \<noteq> None"
    "\<And>x. frameNum (records t' ! x) = frameNum (records t ! x) \<and>
        fingerprint (records t' ! x) = fingerprint (records t ! x) \<and>
        isInitiator (records t' ! x) = isInitiator (records t ! x)"
proof -
  have C: "by_cntr.lists_ok (records t) (message_table t) M"
    and E: "by_exchange.lists_ok (records t) (exchange_table t) X" using inv by (simp_all add: tracker_inv_def)
  have lo: "last_of nextByExchange (records t) (tree_lookup ExchangeTable k t) None =
      Some (if X k = [] then None else Some (last (X k)))"
    using last_of_chain [OF by_exchange.lists_chain [OF E]] by (simp add: exchange_table_def)
  show ?thesis
  proof (cases "X k = []")
    case True
    let ?t = "tree_insert ExchangeTable k n t"
    have r: "records ?t = records t" "proto_data ?t = proto_data t" by (simp_all add: tree_insert_def)
    show ?thesis
    proof (rule that [of ?t])
      show "AddMessageToExchangeTable i r x n t = Some ?t"
        using lo True by (simp add: AddMessageToExchangeTable_def k)
      show "tracker_inv ?t M (X(k := X k @ [n]))"
        using by_exchange.lists_insert [OF E n unlinked fresh True] inv T
        by (simp add: tracker_inv_def r table_insert)
      show "tables ?t \<noteq> None" using T by (simp add: tree_insert_def)
    qed (simp_all add: r)
  next
    case False
    let ?l = "last (X k)"
    let ?t = "t\<lparr>records := by_exchange.link ?l n (records t)\<rparr>"
    have l: "?l < length (records t)" "?l \<noteq> n"
      using by_exchange.lists_less [OF E, of ?l k] False fresh [of k] by auto
    note L = by_exchange.link_nth [OF l(1) n l(2)]
    have X: "by_cntr.lists_ok (by_exchange.link ?l n (records t)) (message_table t) M"
      using C link_independent(2) [OF l(1) n l(2)] unfolding by_cntr.lists_ok_def by blast
    show ?thesis
    proof (rule that [of ?t])
      show "AddMessageToExchangeTable i r x n t = Some ?t"
        using lo False by (simp add: AddMessageToExchangeTable_def k update_link)
      show "tracker_inv ?t M (X(k := X k @ [n]))"
        using by_exchange.lists_link [OF E n unlinked(1) fresh False] X inv L(4)
        by (simp add: tracker_inv_def)
      fix x
      consider "x = ?l" | "x = n" | "x \<noteq> ?l" "x \<noteq> n" by blast
      then show "frameNum (records ?t ! x) = frameNum (records t ! x) \<and>
        fingerprint (records ?t ! x) = fingerprint (records t ! x) \<and>
        isInitiator (records ?t ! x) = isInitiator (records t ! x)"
        by cases (use L in simp_all)
    qed (use T L in simp_all)
  qed
qed

text \<open>
  The effect of a call for a packet that has no record yet: one new record, behind the records of its
  message key and behind those of its exchange key. What the searches read of the older records is kept.
\<close>

definition same_facts :: "msg_record \<Rightarrow> msg_record \<Rightarrow> bool" where
  "same_facts r r' \<longleftrightarrow>
     frameNum r' = frameNum r \<and> fingerprint r' = fingerprint r \<and> isInitiator r' = isInitiator r"

definition message_key :: "packet_info \<Rightarrow> msg_info \<Rightarrow> table_id \<times> tree_key" where
  "message_key pinfo msgInfo = GetMessageIdTableAndKey (mi_srcNodeId msgInfo) (mi_msgId msgInfo)
     (mi_sessionType msgInfo) (ucast (mi_sessionId msgInfo)) (ptype pinfo = PT_TCP)
     (if ptype pinfo = PT_TCP then tcp_stream pinfo else 0)"

definition is_initiator :: "msg_info \<Rightarrow> bool" where
  "is_initiator msgInfo \<longleftrightarrow> mi_exchHeader msgInfo AND kMatterExchangeFlag_Initiator \<noteq> 0"

definition message_exchange :: "msg_info \<Rightarrow> tree_key" where
  "message_exchange msgInfo =
     (if is_initiator msgInfo
      then exchange_key (mi_srcNodeId msgInfo) (mi_destNodeId msgInfo) (ucast (mi_exchId msgInfo))
      else exchange_key (mi_destNodeId msgInfo) (mi_srcNodeId msgInfo) (ucast (mi_exchId msgInfo)))"

lemma append_record_inv:
  assumes "tracker_inv t M X"
  shows "tracker_inv (t\<lparr>records := records t @ [r]\<rparr>) M X"
proof -
  have "by_cntr.lists_ok (records t @ [r]) (message_table t) M"
    by (rule by_cntr.lists_cong [of "records t"]) (use assms in \<open>simp_all add: tracker_inv_def nth_append\<close>)
  moreover have "by_exchange.lists_ok (records t @ [r]) (exchange_table t) X"
    by (rule by_exchange.lists_cong [of "records t"]) (use assms in \<open>simp_all add: tracker_inv_def nth_append\<close>)
  ultimately show ?thesis using assms by (auto simp: tracker_inv_def intro: less_SucI)
qed

lemma tracker_fresh:
  assumes "tracker_inv t M X"
  shows "length (records t) \<notin> set (M k)" "length (records t) \<notin> set (X k')"
  using by_cntr.lists_less [of "records t" "message_table t" M "length (records t)" k]
    by_exchange.lists_less [of "records t" "exchange_table t" X "length (records t)" k'] assms
  by (auto simp: tracker_inv_def)

lemma FindOrCreateMessageRecord_known:
  "proto_data t (fd_num pinfo) = Some i \<Longrightarrow>
     FindOrCreateMessageRecord crc32 crc32_seed tvb pinfo msgInfo t = Some (i, InitTables t)"
  by (simp add: FindOrCreateMessageRecord_def)

lemma FindOrCreateMessageRecord_new:
  assumes inv: "tracker_inv t M X" and new: "proto_data t (fd_num pinfo) = None"
    and fp: "ComputeMessageFingerprint crc32 crc32_seed tvb msgInfo = Some fp"
  defines "n \<equiv> length (records t)" and "k \<equiv> message_key pinfo msgInfo" and "k' \<equiv> message_exchange msgInfo"
  obtains t' where "FindOrCreateMessageRecord crc32 crc32_seed tvb pinfo msgInfo t = Some (n, t')"
    "tracker_inv t' (M(k := M k @ [n])) (X(k' := X k' @ [n]))"
    "proto_data t' = (proto_data t)(fd_num pinfo := Some n)" "length (records t') = Suc n"
    "frameNum (records t' ! n) = fd_num pinfo" "fingerprint (records t' ! n) = fp"
    "isInitiator (records t' ! n) = is_initiator msgInfo"
    "\<And>x. x < n \<Longrightarrow> same_facts (records t ! x) (records t' ! x)"
proof -
  let ?r = "zero_record\<lparr>frameNum := fd_num pinfo, isInitiator := is_initiator msgInfo, fingerprint := fp\<rparr>"
  let ?t1 = "(InitTables t)\<lparr>records := records t @ [?r]\<rparr>"
  have i1: "tracker_inv ?t1 M X" using append_record_inv [OF InitTables_inv [OF inv], of ?r] by simp
  have T1: "tables ?t1 \<noteq> None" using InitTables_tables [of t] by auto
  have n1: "n < length (records ?t1)" by (simp add: n_def)
  have r1: "records ?t1 ! n = ?r" by (simp add: n_def)
  have fM: "\<And>k. n \<notin> set (M k)" and fX: "\<And>k. n \<notin> set (X k)" using tracker_fresh [OF inv] by (simp_all add: n_def)
  note K = message_key_def [of pinfo msgInfo, folded k_def]
  have u1: "nextByMsgCntr (records ?t1 ! n) = None" "prevByMsgCntr (records ?t1 ! n) = None"
    unfolding r1 by (simp_all add: zero_record_def)
  obtain t2 where t2: "AddMessageToMessageIdTable (mi_srcNodeId msgInfo) (mi_msgId msgInfo)
      (mi_sessionType msgInfo) (ucast (mi_sessionId msgInfo)) (ptype pinfo = PT_TCP)
      (if ptype pinfo = PT_TCP then tcp_stream pinfo else 0) n ?t1 = Some t2"
    and i2: "tracker_inv t2 (M(k := M k @ [n])) X" and T2: "tables t2 \<noteq> None"
    and l2: "length (records t2) = length (records ?t1)" and p2: "proto_data t2 = proto_data ?t1"
    and s2: "\<And>x. nextByExchange (records t2 ! x) = nextByExchange (records ?t1 ! x) \<and>
        prevByExchange (records t2 ! x) = prevByExchange (records ?t1 ! x) \<and>
        frameNum (records t2 ! x) = frameNum (records ?t1 ! x) \<and>
        fingerprint (records t2 ! x) = fingerprint (records ?t1 ! x) \<and>
        isInitiator (records t2 ! x) = isInitiator (records ?t1 ! x)"
    by (rule AddMessageToMessageIdTable_spec [OF i1 T1 n1 u1 fM K]) blast
  have u2: "nextByExchange (records t2 ! n) = None" "prevByExchange (records t2 ! n) = None"
    using s2 [of n] unfolding r1 by (simp_all add: zero_record_def)
  have n2: "n < length (records t2)" using l2 n1 by simp
  let ?i = "if is_initiator msgInfo then mi_srcNodeId msgInfo else mi_destNodeId msgInfo"
  let ?s = "if is_initiator msgInfo then mi_destNodeId msgInfo else mi_srcNodeId msgInfo"
  have K': "k' = exchange_key ?i ?s (ucast (mi_exchId msgInfo))" by (simp add: k'_def message_exchange_def)
  obtain t3 where t3: "AddMessageToExchangeTable ?i ?s (ucast (mi_exchId msgInfo)) n t2 = Some t3"
    and i3: "tracker_inv t3 (M(k := M k @ [n])) (X(k' := X k' @ [n]))"
    and l3: "length (records t3) = length (records t2)" and p3: "proto_data t3 = proto_data t2"
    and s3: "\<And>x. frameNum (records t3 ! x) = frameNum (records t2 ! x) \<and>
        fingerprint (records t3 ! x) = fingerprint (records t2 ! x) \<and>
        isInitiator (records t3 ! x) = isInitiator (records t2 ! x)"
    by (rule AddMessageToExchangeTable_spec [OF i2 T2 n2 u2 fX K']) blast
  let ?t = "t3\<lparr>proto_data := (proto_data t3)(fd_num pinfo := Some n)\<rparr>"
  have len: "length (records t3) = Suc n" using l2 l3 by (simp add: n_def)
  show ?thesis
  proof (rule that [of ?t])
    have "proto_data (InitTables t) (fd_num pinfo) = None" using new by simp
    then show "FindOrCreateMessageRecord crc32 crc32_seed tvb pinfo msgInfo t = Some (n, ?t)"
      using t2 t3 fp
      unfolding FindOrCreateMessageRecord_def Let_def is_initiator_def [symmetric] InitTables_simps(3) n_def
      by simp
    show "tracker_inv ?t (M(k := M k @ [n])) (X(k' := X k' @ [n]))"
      using i3 len by (simp add: tracker_inv_def)
    show "proto_data ?t = (proto_data t)(fd_num pinfo := Some n)" using p2 p3 by simp
    show "frameNum (records ?t ! n) = fd_num pinfo" "fingerprint (records ?t ! n) = fp"
      "isInitiator (records ?t ! n) = is_initiator msgInfo"
      using s3 [of n] s2 [of n] unfolding r1 by simp_all
    show "same_facts (records t ! x) (records ?t ! x)" if "x < n" for x
      using s3 [of x] s2 [of x] that by (simp add: same_facts_def nth_append n_def)
  qed (use len in simp)
qed

section \<open>The searches\<close>

text \<open>The records of a list with a fingerprint, and the one of the lowest frame number.\<close>

definition copies :: "msg_record list \<Rightarrow> u32 \<Rightarrow> rec_id list \<Rightarrow> rec_id list" where
  "copies recs fp ps = filter (\<lambda>p. fp = fingerprint (recs ! p)) ps"

definition others :: "msg_record list \<Rightarrow> u32 \<Rightarrow> rec_id list \<Rightarrow> rec_id list" where
  "others recs fp ps = filter (\<lambda>p. fp \<noteq> fingerprint (recs ! p)) ps"

definition earliest :: "msg_record list \<Rightarrow> rec_id list \<Rightarrow> rec_id option \<Rightarrow> rec_id option" where
  "earliest recs ps = fold (\<lambda>p b. if earlier_frame recs p b then Some p else b) ps"

definition is_earliest :: "msg_record list \<Rightarrow> rec_id set \<Rightarrow> rec_id option \<Rightarrow> bool" where
  "is_earliest recs A b \<longleftrightarrow>
     (case b of None \<Rightarrow> A = {} | Some b \<Rightarrow> b \<in> A \<and> (\<forall>p \<in> A. frameNum (recs ! b) \<le> frameNum (recs ! p)))"

lemma earliest_step:
  "is_earliest recs A b \<Longrightarrow>
     is_earliest recs (insert p A) (if earlier_frame recs p b then Some p else b)"
  by (auto simp: is_earliest_def earlier_frame_def not_less split: option.splits)

lemma is_earliest_fold: "is_earliest recs A b \<Longrightarrow> is_earliest recs (set ps \<union> A) (earliest recs ps b)"
proof (induction ps arbitrary: A b)
  case Nil
  then show ?case by (simp add: earliest_def)
next
  case (Cons p ps)
  from Cons.IH [OF earliest_step [OF Cons.prems, of p]] show ?case by (simp add: earliest_def)
qed

lemma is_earliest: "is_earliest recs (set ps) (earliest recs ps None)"
  using is_earliest_fold [of recs "{}" None ps] by (simp add: is_earliest_def)

lemma fold_retrans_before:
  "fold (retrans_before recs fp) ps mi =
     mi\<lparr>mi_retransOfMsg := earliest recs (copies recs fp ps) (mi_retransOfMsg mi),
        mi_retransNum := mi_retransNum mi + of_nat (length (copies recs fp ps)),
        mi_totalRetrans := mi_totalRetrans mi + of_nat (length (copies recs fp ps))\<rparr>"
  by (induction ps arbitrary: mi)
    (simp_all add: retrans_before_def copies_def earliest_def Let_def algebra_simps)

lemma fold_retrans_after:
  "fold (retrans_after recs fp) ps mi =
     mi\<lparr>mi_totalRetrans := mi_totalRetrans mi + of_nat (length (copies recs fp ps))\<rparr>"
  by (induction ps arbitrary: mi) (simp_all add: retrans_after_def copies_def algebra_simps)

lemma fold_reused_before:
  "fold (reused_before recs fp) ps mi =
     mi\<lparr>mi_reusesMsgCntrFrom := earliest recs (others recs fp ps) (mi_reusesMsgCntrFrom mi)\<rparr>"
  by (induction ps arbitrary: mi) (simp_all add: reused_before_def others_def earliest_def)

lemma FindRetransmissions_spec:
  assumes inv: "tracker_inv t M X" and m: "M k = xs @ m # ys"
  defines "dup \<equiv> copies (records t) (fingerprint (records t ! m))"
  obtains first where
    "FindRetransmissions m mi t = Some (mi\<lparr>mi_retransOfMsg := first,
        mi_retransNum := of_nat (length (dup xs)), mi_totalRetrans := of_nat (length (dup (xs @ ys)))\<rparr>)"
    "is_earliest (records t) (set (dup xs)) first"
proof -
  let ?r = "records t"
  have c: "is_chain nextByMsgCntr prevByMsgCntr ?r None (message_table t k) (xs @ m # ys)"
    using by_cntr.lists_chain [of ?r "message_table t" M k] inv m by (simp add: tracker_inv_def)
  note backwards = walk_back_chain [OF c] and forth = walk_chain [OF is_chain_split(1) [OF c]]
  have rv: "length (dup (rev xs)) = length (dup xs)" "set (dup (rev xs)) = set (dup xs)"
    by (simp_all add: dup_def copies_def rev_filter [symmetric])
  show ?thesis
  proof (rule that [of "earliest ?r (dup (rev xs)) None"])
    show "FindRetransmissions m mi t = Some (mi\<lparr>mi_retransOfMsg := earliest ?r (dup (rev xs)) None,
        mi_retransNum := of_nat (length (dup xs)), mi_totalRetrans := of_nat (length (dup (xs @ ys)))\<rparr>)"
      using rv(1) by (simp add: FindRetransmissions_def Let_def backwards forth fold_retrans_before
          fold_retrans_after dup_def copies_def)
    show "is_earliest ?r (set (dup xs)) (earliest ?r (dup (rev xs)) None)"
      using is_earliest [of ?r "dup (rev xs)"] rv(2) by simp
  qed
qed

lemma FindReusedMessageIds_spec:
  assumes inv: "tracker_inv t M X" and m: "M k = xs @ m # ys"
  obtains first where
    "FindReusedMessageIds m mi t = Some (mi\<lparr>mi_reusesMsgCntrFrom := first\<rparr>)"
    "is_earliest (records t) {p \<in> set xs. fingerprint (records t ! p) \<noteq> fingerprint (records t ! m)} first"
proof -
  let ?r = "records t" and ?o = "others (records t) (fingerprint (records t ! m)) (rev xs)"
  have c: "is_chain nextByMsgCntr prevByMsgCntr ?r None (message_table t k) (xs @ m # ys)"
    using by_cntr.lists_chain [of ?r "message_table t" M k] inv m by (simp add: tracker_inv_def)
  show ?thesis
  proof (rule that [of "earliest ?r ?o None"])
    show "FindReusedMessageIds m mi t = Some (mi\<lparr>mi_reusesMsgCntrFrom := earliest ?r ?o None\<rparr>)"
      by (simp add: FindReusedMessageIds_def Let_def walk_back_chain [OF c] fold_reused_before)
    have "set ?o = {p \<in> set xs. fingerprint (?r ! p) \<noteq> fingerprint (?r ! m)}" by (auto simp: others_def)
    then show "is_earliest ?r {p \<in> set xs. fingerprint (?r ! p) \<noteq> fingerprint (?r ! m)} (earliest ?r ?o None)"
      using is_earliest [of ?r ?o] by simp
  qed
qed

text \<open>
  The start of an exchange: behind the last message of the initiator stand only messages of the responder;
  the start is the first of the run of copies of that message.
\<close>

lemma fold_start_chain:
  assumes "is_chain nextByExchange prevByExchange recs None p (zs @ y # ys)" and "isInitiator (recs ! y)"
  shows "\<exists>as bs. zs @ [y] = as @ bs \<and> bs \<noteq> [] \<and> fold_start recs y = Some (hd bs) \<and>
     (\<forall>b \<in> set bs. isInitiator (recs ! b) \<and> fingerprint (recs ! b) = fingerprint (recs ! y)) \<and>
     (as = [] \<or> \<not> (isInitiator (recs ! last as) \<and> fingerprint (recs ! last as) = fingerprint (recs ! y)))"
  using assms
proof (induction zs arbitrary: y ys rule: rev_induct)
  case Nil
  have "prevByExchange (recs ! y) = None" using is_chain_split(3) [OF Nil(1)] by simp
  then have "fold_start recs y = Some y" by (subst fold_start.simps) simp
  then show ?case using Nil(2) by (intro exI [of _ "[]"] exI [of _ "[y]"]) simp
next
  case (snoc x zs)
  have y: "prevByExchange (recs ! y) = Some x" using is_chain_split(3) [OF snoc.prems(1)] by simp
  have c: "is_chain nextByExchange prevByExchange recs None p (zs @ x # y # ys)" using snoc.prems(1) by simp
  have x: "x < length recs" by (rule is_chain_split(2) [OF c])
  show ?case
  proof (cases "isInitiator (recs ! x) \<and> fingerprint (recs ! x) = fingerprint (recs ! y)")
    case True
    then have "fold_start recs y = fold_start recs x" using y x by (subst fold_start.simps) simp
    moreover obtain as bs where ab: "zs @ [x] = as @ bs" "bs \<noteq> []" "fold_start recs x = Some (hd bs)"
      "\<forall>b \<in> set bs. isInitiator (recs ! b) \<and> fingerprint (recs ! b) = fingerprint (recs ! x)"
      "as = [] \<or> \<not> (isInitiator (recs ! last as) \<and> fingerprint (recs ! last as) = fingerprint (recs ! x))"
      using snoc.IH [OF c conjunct1 [OF True]] by blast
    ultimately show ?thesis using True snoc.prems(2)
      by (intro exI [of _ as] exI [of _ "bs @ [y]"]) auto
  next
    case False
    then have "fold_start recs y = Some y" using y x by (subst fold_start.simps) auto
    then show ?thesis using False snoc.prems(2)
      by (intro exI [of _ "zs @ [x]"] exI [of _ "[y]"]) auto
  qed
qed

definition run_start ::
  "msg_record list \<Rightarrow> rec_id list \<Rightarrow> rec_id list \<Rightarrow> rec_id list \<Rightarrow> rec_id \<Rightarrow> bool" where
  "run_start recs as bs cs r \<longleftrightarrow>
     (\<forall>c \<in> set cs. \<not> isInitiator (recs ! c)) \<and>
     (if bs = [] then as = [] \<and> cs \<noteq> [] \<and> r = hd cs
      else r = hd bs \<and> isInitiator (recs ! r) \<and>
        (\<forall>b \<in> set bs. isInitiator (recs ! b) \<and> fingerprint (recs ! b) = fingerprint (recs ! r)) \<and>
        (as = [] \<or> \<not> (isInitiator (recs ! last as) \<and> fingerprint (recs ! last as) = fingerprint (recs ! r))))"

lemma run_start_snoc:
  assumes "run_start recs as bs cs r" and "\<not> isInitiator (recs ! y)"
  shows "run_start recs as bs (cs @ [y]) r"
proof (cases "bs = []")
  case True
  then show ?thesis using assms by (simp add: run_start_def)
next
  case False
  have "\<forall>c \<in> set (cs @ [y]). \<not> isInitiator (recs ! c)" using assms by (simp add: run_start_def)
  then show ?thesis using assms(1) unfolding run_start_def if_not_P [OF False] by (intro conjI) (elim conjE, assumption)+
qed

lemma start_of_exchange_chain:
  assumes "is_chain nextByExchange prevByExchange recs None p (zs @ y # ys)"
  shows "\<exists>as bs cs r. zs @ [y] = as @ bs @ cs \<and> start_of_exchange recs (Some y) first = Some (Some r) \<and>
     run_start recs as bs cs r"
  using assms
proof (induction zs arbitrary: y ys first rule: rev_induct)
  case Nil
  have y: "prevByExchange (recs ! y) = None" "y < length recs"
    using is_chain_split(2,3) [OF Nil] by simp_all
  show ?case
  proof (cases "isInitiator (recs ! y)")
    case True
    have "fold_start recs y = Some y" using y by (subst fold_start.simps) simp
    then have "start_of_exchange recs (Some y) first = Some (Some y)"
      using y True by (subst start_of_exchange.simps) simp
    then show ?thesis using True
      by (intro exI [of _ "[]"] exI [of _ "[y]"] exI [of _ y]) (simp add: run_start_def)
  next
    case False
    have "start_of_exchange recs None (Some y) = Some (Some y)" by (subst start_of_exchange.simps) simp
    then have "start_of_exchange recs (Some y) first = Some (Some y)"
      using y False by (subst start_of_exchange.simps) simp
    then show ?thesis using False
      by (intro exI [of _ "[]"] exI [of _ "[y]"] exI [of _ y]) (simp add: run_start_def)
  qed
next
  case (snoc x zs)
  have y: "prevByExchange (recs ! y) = Some x" "y < length recs"
    using is_chain_split(2,3) [OF snoc.prems(1)] by simp_all
  have c: "is_chain nextByExchange prevByExchange recs None p (zs @ x # y # ys)" using snoc.prems(1) by simp
  show ?case
  proof (cases "isInitiator (recs ! y)")
    case True
    obtain as bs where ab: "(zs @ [x]) @ [y] = as @ bs" "bs \<noteq> []" "fold_start recs y = Some (hd bs)"
      "\<forall>b \<in> set bs. isInitiator (recs ! b) \<and> fingerprint (recs ! b) = fingerprint (recs ! y)"
      "as = [] \<or> \<not> (isInitiator (recs ! last as) \<and> fingerprint (recs ! last as) = fingerprint (recs ! y))"
      using fold_start_chain [OF snoc.prems(1) True] by blast
    have "start_of_exchange recs (Some y) first = Some (Some (hd bs))"
      using y True ab(3) by (subst start_of_exchange.simps) simp
    moreover have "hd bs \<in> set bs" using ab(2) by simp
    then have h: "isInitiator (recs ! hd bs)" "fingerprint (recs ! hd bs) = fingerprint (recs ! y)"
      using ab(4) by blast+
    then have "run_start recs as bs [] (hd bs)" using ab(2,4,5) by (simp add: run_start_def)
    moreover have "(zs @ [x]) @ [y] = as @ bs @ []" using ab(1) by simp
    ultimately show ?thesis by blast
  next
    case False
    obtain as bs cs r where IH: "zs @ [x] = as @ bs @ cs"
      "start_of_exchange recs (Some x) (Some y) = Some (Some r)" "run_start recs as bs cs r"
      using snoc.IH [OF c, of "Some y"] by blast
    have "start_of_exchange recs (Some y) first = Some (Some r)"
      using y False IH(2) by (subst start_of_exchange.simps) simp
    moreover have "(zs @ [x]) @ [y] = as @ bs @ cs @ [y]" using IH(1) by simp
    ultimately show ?thesis using run_start_snoc [OF IH(3) False] by blast
  qed
qed

lemma FindStartOfExchange_spec:
  assumes inv: "tracker_inv t M X" and m: "X k = xs @ m # ys"
  obtains as bs cs r where "xs @ [m] = as @ bs @ cs" "FindStartOfExchange (Some m) t = Some (Some r)"
    "run_start (records t) as bs cs r"
proof -
  have c: "is_chain nextByExchange prevByExchange (records t) None (exchange_table t k) (xs @ m # ys)"
    using by_exchange.lists_chain [of "records t" "exchange_table t" X k] inv m by (simp add: tracker_inv_def)
  from start_of_exchange_chain [OF c, of "Some m"] that show ?thesis
    unfolding FindStartOfExchange_def by blast
qed

text \<open>
  The acknowledged messages. The step changes no link and none of the facts; the message named is the
  latest of the acknowledged ones that came before the acknowledging message.
\<close>

definition is_latest :: "msg_record list \<Rightarrow> rec_id set \<Rightarrow> rec_id option \<Rightarrow> bool" where
  "is_latest recs A b \<longleftrightarrow>
     (case b of None \<Rightarrow> A = {} | Some b \<Rightarrow> b \<in> A \<and> (\<forall>p \<in> A. frameNum (recs ! p) \<le> frameNum (recs ! b)))"

definition same_but_acks :: "msg_record list \<Rightarrow> msg_record list \<Rightarrow> bool" where
  "same_but_acks recs recs' \<longleftrightarrow> length recs' = length recs \<and>
     (\<forall>x. \<exists>a. recs' ! x = (recs ! x)\<lparr>ackedByMsgRec := a\<rparr>)"

lemma same_but_acks_refl: "same_but_acks recs recs"
proof -
  have "recs ! x = (recs ! x)\<lparr>ackedByMsgRec := ackedByMsgRec (recs ! x)\<rparr>" for x by simp
  then show ?thesis unfolding same_but_acks_def by blast
qed

lemma same_but_acks_trans: "same_but_acks a b \<Longrightarrow> same_but_acks b c \<Longrightarrow> same_but_acks a c"
proof -
  assume ab: "same_but_acks a b" and bc: "same_but_acks b c"
  have "\<exists>v. c ! x = (a ! x)\<lparr>ackedByMsgRec := v\<rparr>" for x
  proof -
    obtain v where "b ! x = (a ! x)\<lparr>ackedByMsgRec := v\<rparr>" using ab unfolding same_but_acks_def by blast
    moreover obtain w where "c ! x = (b ! x)\<lparr>ackedByMsgRec := w\<rparr>" using bc unfolding same_but_acks_def by blast
    ultimately show ?thesis by (intro exI [of _ w]) simp
  qed
  then show ?thesis using ab bc unfolding same_but_acks_def by simp
qed

lemma same_but_acks_nth:
  assumes "same_but_acks recs recs'"
  shows "frameNum (recs' ! x) = frameNum (recs ! x)" "fingerprint (recs' ! x) = fingerprint (recs ! x)"
    "isInitiator (recs' ! x) = isInitiator (recs ! x)"
    "nextByMsgCntr (recs' ! x) = nextByMsgCntr (recs ! x)" "prevByMsgCntr (recs' ! x) = prevByMsgCntr (recs ! x)"
    "nextByExchange (recs' ! x) = nextByExchange (recs ! x)" "prevByExchange (recs' ! x) = prevByExchange (recs ! x)"
proof -
  obtain v where "recs' ! x = (recs ! x)\<lparr>ackedByMsgRec := v\<rparr>"
    using assms unfolding same_but_acks_def by blast
  then show "frameNum (recs' ! x) = frameNum (recs ! x)" "fingerprint (recs' ! x) = fingerprint (recs ! x)"
    "isInitiator (recs' ! x) = isInitiator (recs ! x)"
    "nextByMsgCntr (recs' ! x) = nextByMsgCntr (recs ! x)" "prevByMsgCntr (recs' ! x) = prevByMsgCntr (recs ! x)"
    "nextByExchange (recs' ! x) = nextByExchange (recs ! x)" "prevByExchange (recs' ! x) = prevByExchange (recs ! x)"
    by simp_all
qed

lemma acked_step_same: "same_but_acks recs (fst (acked_step m p (recs, a)))"
proof -
  have "same_but_acks recs (recs[p := (recs ! p)\<lparr>ackedByMsgRec := v\<rparr>])" for v
  proof -
    have "\<exists>w. recs[p := (recs ! p)\<lparr>ackedByMsgRec := v\<rparr>] ! x = (recs ! x)\<lparr>ackedByMsgRec := w\<rparr>" for x
    proof (cases "x = p \<and> p < length recs")
      case True
      then show ?thesis by (intro exI [of _ v]) simp
    next
      case False
      then have "recs[p := (recs ! p)\<lparr>ackedByMsgRec := v\<rparr>] ! x = recs ! x" by (cases "x = p") (simp_all add: list_update_beyond)
      then show ?thesis by (intro exI [of _ "ackedByMsgRec (recs ! x)"]) simp
    qed
    then show ?thesis by (simp add: same_but_acks_def)
  qed
  then show ?thesis by (simp add: acked_step_def same_but_acks_refl)
qed

lemma acked_step_latest:
  assumes "is_latest recs A a"
  shows "is_latest recs (if frameNum (recs ! p) < frameNum (recs ! m) then insert p A else A)
     (snd (acked_step m p (recs, a)))"
  using assms by (auto simp: acked_step_def is_latest_def later_frame_def not_less split: option.splits)

lemma is_latest_cong:
  "same_but_acks recs recs' \<Longrightarrow> is_latest recs' A a = is_latest recs A a"
  by (simp add: is_latest_def same_but_acks_nth split: option.splits)

lemma acked_fold:
  assumes "is_latest recs A a"
  shows "same_but_acks recs (fst (fold (acked_step m) ps (recs, a))) \<and>
    is_latest recs ({p \<in> set ps. frameNum (recs ! p) < frameNum (recs ! m)} \<union> A)
      (snd (fold (acked_step m) ps (recs, a)))"
  using assms
proof (induction ps arbitrary: recs A a)
  case Nil
  then show ?case by (simp add: same_but_acks_refl)
next
  case (Cons p ps)
  obtain recs1 a1 where s: "acked_step m p (recs, a) = (recs1, a1)" by fastforce
  let ?A = "if frameNum (recs ! p) < frameNum (recs ! m) then insert p A else A"
  have same: "same_but_acks recs recs1" using acked_step_same [of recs m p a] s by simp
  have "is_latest recs1 ?A a1"
    using acked_step_latest [OF Cons.prems, of p m] s is_latest_cong [OF same] by simp
  from Cons.IH [OF this]
  have IH: "same_but_acks recs1 (fst (fold (acked_step m) ps (recs1, a1)))"
    "is_latest recs1 ({p \<in> set ps. frameNum (recs1 ! p) < frameNum (recs1 ! m)} \<union> ?A)
      (snd (fold (acked_step m) ps (recs1, a1)))" by simp_all
  have "{p \<in> set ps. frameNum (recs1 ! p) < frameNum (recs1 ! m)} \<union> ?A =
      {q \<in> set (p # ps). frameNum (recs ! q) < frameNum (recs ! m)} \<union> A"
    by (auto simp: same_but_acks_nth [OF same])
  then show ?case using IH(2) same_but_acks_trans [OF same IH(1)] s is_latest_cong [OF same] by simp
qed

lemma same_but_acks_inv:
  assumes inv: "tracker_inv t M X" and same: "same_but_acks (records t) recs"
  shows "tracker_inv (t\<lparr>records := recs\<rparr>) M X"
proof -
  have l: "length recs = length (records t)" using same by (simp add: same_but_acks_def)
  have "by_cntr.lists_ok recs (message_table t) M"
    by (rule by_cntr.lists_cong [of "records t"])
      (use inv l same_but_acks_nth [OF same] in \<open>simp_all add: tracker_inv_def\<close>)
  moreover have "by_exchange.lists_ok recs (exchange_table t) X"
    by (rule by_exchange.lists_cong [of "records t"])
      (use inv l same_but_acks_nth [OF same] in \<open>simp_all add: tracker_inv_def\<close>)
  ultimately show ?thesis using inv l by (simp add: tracker_inv_def)
qed

definition acked_key :: "msg_info \<Rightarrow> table_id \<times> tree_key" where
  "acked_key mi = GetMessageIdTableAndKey (mi_destNodeId mi) (mi_ackMsgCntr mi) (mi_sessionType mi)
     (ucast (mi_sessionId mi)) False 0"

lemma FindAckedMessages_spec:
  assumes inv: "tracker_inv t M X" and none: "mi_ackedMsg mi = None"
  obtains a recs where
    "FindAckedMessages pinfo m mi t = Some (mi\<lparr>mi_ackedMsg := a\<rparr>, t\<lparr>records := recs\<rparr>)"
    "tracker_inv (t\<lparr>records := recs\<rparr>) M X" "same_but_acks (records t) recs"
    "is_latest (records t)
       (if ptype pinfo = PT_UDP \<and> mi_msgVersion mi > 1 \<and> mi_exchHeader mi AND kMatterExchangeFlag_AckId \<noteq> 0
        then {p \<in> set (M (acked_key mi)). frameNum (records t ! p) < frameNum (records t ! m)} else {}) a"
proof (cases "ptype pinfo = PT_UDP \<and> mi_msgVersion mi > 1 \<and>
    mi_exchHeader mi AND kMatterExchangeFlag_AckId \<noteq> 0")
  case False
  have "FindAckedMessages pinfo m mi t = Some (mi\<lparr>mi_ackedMsg := None\<rparr>, t\<lparr>records := records t\<rparr>)"
    unfolding FindAckedMessages_def if_not_P [OF False] using none by simp
  then show ?thesis
    by (rule that) (use inv in \<open>simp_all only: if_not_P [OF False] same_but_acks_refl, simp_all add: is_latest_def\<close>)
next
  case True
  obtain tb key where k: "acked_key mi = (tb, key)" by fastforce
  have tb: "tb \<noteq> ExchangeTable"
    using GetMessageIdTable_message [of "mi_destNodeId mi" "mi_ackMsgCntr mi" "mi_sessionType mi"
        "ucast (mi_sessionId mi)" False 0] k by (simp add: acked_key_def)
  have c: "is_chain nextByMsgCntr prevByMsgCntr (records t) None (tree_lookup tb key t) (M (tb, key))"
    using by_cntr.lists_chain [of "records t" "message_table t" M "(tb, key)"] inv tb
    by (simp add: tracker_inv_def message_table_def)
  obtain recs a where f: "fold (acked_step m) (M (tb, key)) (records t, None) = (recs, a)" by fastforce
  have "is_latest (records t) {} None" by (simp add: is_latest_def)
  note F = acked_fold [OF this, of m "M (tb, key)", unfolded f]
  have "FindAckedMessages pinfo m mi t = Some (mi\<lparr>mi_ackedMsg := a\<rparr>, t\<lparr>records := recs\<rparr>)"
    unfolding FindAckedMessages_def if_P [OF True]
    using k f none by (simp add: GetMessagesByMessageId_def acked_key_def walk_chain [OF c])
  then show ?thesis
    by (rule that) (use True F k same_but_acks_inv [OF inv] in simp_all)
qed

end
