(* ===== verification/CASE_Records.thy ===== *)
theory CASE_Records
  imports Message_Tracker Message_Keys
begin

text \<open>
  \<open>CASEExchangeRecord\<close> (\<open>packet-matter-security.cpp\<close>): what the dissector of the security protocol remembers of a
  session establishment. The objects are allocated in file scope and shared: a message record points to one by
  its index in the list of all of them. A pointer to bytes is the list of the bytes, empty for a null pointer;
  the recovered key is a pointer into the key table.
\<close>

record case_exchange =
  beginReqMsg :: "rec_id option"
  beginRespMsg :: "rec_id option"
  keyConfirmMsg :: "rec_id option"
  case_config :: u32
  case_curveId :: u32
  case_keyId :: u16
  case_sessionType :: byte
  reqECDHPublicKey :: "byte list"
  reqECDHPublicKeyLen :: nat
  respECDHPublicKey :: "byte list"
  respECDHPublicKeyLen :: nat
  reqMsgHash :: "byte list"
  respMsgHash :: "byte list"
  recoveredSessionKey :: "enc_key list"

definition CASE_MAX_HASH_SIZE :: nat where
  "CASE_MAX_HASH_SIZE = 32"

text \<open>\<open>memset(caseExchangeRec, 0, sizeof(*caseExchangeRec))\<close>.\<close>

definition zero_case :: case_exchange where
  "zero_case = \<lparr>beginReqMsg = None, beginRespMsg = None, keyConfirmMsg = None, case_config = 0, case_curveId = 0,
     case_keyId = 0, case_sessionType = 0, reqECDHPublicKey = [], reqECDHPublicKeyLen = 0,
     respECDHPublicKey = [], respECDHPublicKeyLen = 0, reqMsgHash = replicate CASE_MAX_HASH_SIZE 0,
     respMsgHash = replicate CASE_MAX_HASH_SIZE 0, recoveredSessionKey = []\<rparr>"

end
