(* ===== verification/Matter_Message.thy ===== *)
theory Matter_Message
  imports Matter_Names Message_Decrypt_Spec Message_Tracker_Inv CASE_Records TLV_Dissector "HOL-Library.Monad_Syntax"
begin

text \<open>
  The message dissector \<open>DissectMatter\<close> of \<open>packet-matter.cpp\<close>, which reads the message header, decrypts,
  reads the exchange header, asks the tracker about the message and hands the payload to the dissector of
  its protocol. The protocol tree is the list of items that are added to it, the information column a
  string; the dissectors of the protocols add their own calls, \<open>view_calls\<close>. Those dissectors, which the
  host calls through a table, are the parameter \<open>subdissect\<close>, whose result 0 means that there is none;
  \<open>Protocol_Table\<close> has the table that this program registers.
\<close>

section \<open>The view\<close>

datatype matter_field = hf_Matter_MsgFlags | hf_Matter_Version | hf_Matter_SFlag | hf_Matter_DSIZ
  | hf_Matter_SessionId | hf_Matter_SecFlags | hf_Matter_PFlag | hf_Matter_CFlag | hf_Matter_MXFlag
  | hf_Matter_EncType | hf_Matter_MsgCntr | hf_Matter_SourceNodeId | hf_Matter_DestNodeId
  | hf_Matter_ExchangeHeader | hf_Matter_VFlag | hf_Matter_SXFlag | hf_Matter_RFlag | hf_Matter_AFlag
  | hf_Matter_IFlag | hf_Matter_ProtocolOpcode | hf_Matter_ExchangeId | hf_Matter_ExchangeStartFrameNum
  | hf_Matter_ProtocolId | hf_Matter_ProtocolVendorId | hf_Matter_AckMsgCntr | hf_Matter_AckMsgFrameNum
  | hf_Matter_AckedByFrameNum | hf_Matter_RetransFrameNum | hf_Matter_MsgCntrReuseFrameNum
  | hf_Matter_Payload | hf_Matter_EncData | hf_Matter_IntegrityCheck

text \<open>
  An item shows bytes of the packet or of the plaintext: as they are, as a number, as a number with its
  own text, or as a text that replaces the name too.
\<close>

datatype item_buffer = PacketData | Plaintext
datatype item_content = Raw | Number u64 | NumberAs u64 string | Label u64 string
datatype matter_item = MatterItem item_buffer matter_field nat nat item_content

record view =
  view_items :: "matter_item list"
  info_column :: string
  view_calls :: "proto_call list"

definition show_item :: "item_buffer \<Rightarrow> matter_field \<Rightarrow> nat \<Rightarrow> nat \<Rightarrow> item_content \<Rightarrow> view \<Rightarrow> view" where
  "show_item b hf off len c v = v\<lparr>view_items := view_items v @ [MatterItem b hf off len c]\<rparr>"

definition show_items :: "item_buffer \<Rightarrow> matter_field list \<Rightarrow> nat \<Rightarrow> nat \<Rightarrow> view \<Rightarrow> view" where
  "show_items b hfs off len v = fold (\<lambda>hf. show_item b hf off len Raw) hfs v"

text \<open>\<open>proto_tree_add_bytes_item\<close>, which reads the bytes.\<close>

definition show_bytes :: "item_buffer \<Rightarrow> matter_field \<Rightarrow> tvbuff \<Rightarrow> nat \<Rightarrow> nat \<Rightarrow> view \<Rightarrow> view option" where
  "show_bytes b hf tvb off len v = map_option (\<lambda>_. show_item b hf off len Raw v) (load_bytes tvb off len)"

definition col_append :: "string \<Rightarrow> view \<Rightarrow> view" where
  "col_append s v = v\<lparr>info_column := info_column v @ s\<rparr>"

definition col_prepend :: "string \<Rightarrow> view \<Rightarrow> view" where
  "col_prepend s v = v\<lparr>info_column := s @ info_column v\<rparr>"

section \<open>The message header\<close>

definition kMatterTCPMessageLengthFieldSize :: nat where
  "kMatterTCPMessageLengthFieldSize = 2"

definition GetMessageSessionTypeDescription :: "byte \<Rightarrow> string" where
  "GetMessageSessionTypeDescription secureFlags =
     (let sessionType = secureFlags AND ucast kMask_SessionType in
      if sessionType = kMatterSessionType_Unicast then ''Unicast''
      else if sessionType = kMatterSessionType_Group then ''Group'' else '''')"

definition node_id_text :: "u64 \<Rightarrow> string" where
  "node_id_text n = ''0x'' @ hex_upper (if n < 65536 then 1 else 16) (unat n)"

definition header_text :: "bool \<Rightarrow> msg_info \<Rightarrow> string" where
  "header_text showNodeIds mi =
     (if showNodeIds
      then ''Src='' @ hex_upper 1 (unat (mi_srcNodeId mi)) @ '' Dest='' @ hex_upper 1 (unat (mi_destNodeId mi)) @
        '' MsgCntr='' @ hex_upper 8 (unat (mi_msgId mi))
      else ''MsgCntr='' @ hex_upper 8 (unat (mi_msgId mi)))"

text \<open>
  The first part of \<open>DissectMatter\<close>, up to the decryption. The result has the message information, the
  buffer behind the length field of TCP, and \<open>parsePoint\<close>.
\<close>

definition DissectMatter_header ::
  "bool \<Rightarrow> packet_info \<Rightarrow> tvbuff \<Rightarrow> nat \<Rightarrow> (msg_info \<times> tvbuff \<times> nat \<times> view) option" where
  "DissectMatter_header pref_ShowNodeIds pinfo tvb reported_length =
   do {
     (msgLen, tvb) \<leftarrow>
       (if ptype pinfo = PT_TCP
        then map_option (\<lambda>l. (l, drop kMatterTCPMessageLengthFieldSize tvb)) (tvb_get_letohs tvb 0)
        else Some (of_nat reported_length, tvb));
     msgFlags \<leftarrow> tvb_get_guint8 tvb 0;
     let v = \<lparr>view_items = [], info_column = '''', view_calls = []\<rparr>;
     let v = show_items PacketData
               [hf_Matter_MsgFlags, hf_Matter_Version, hf_Matter_SFlag, hf_Matter_DSIZ] 0 1 v;
     sessionId \<leftarrow> tvb_get_letohs tvb 1;
     let v = show_item PacketData hf_Matter_SessionId 1 2 Raw v;
     secFlags \<leftarrow> tvb_get_guint8 tvb 3;
     let desc = GetMessageSessionTypeDescription secFlags;
     let v = show_item PacketData hf_Matter_SecFlags 3 1 (NumberAs (ucast sessionId)
               (hex_upper 2 (unat secFlags) @ (if desc \<noteq> [] then '' ('' @ desc @ '')'' else []))) v;
     let v = show_items PacketData [hf_Matter_PFlag, hf_Matter_CFlag, hf_Matter_MXFlag, hf_Matter_EncType] 3 1 v;
     msgId \<leftarrow> tvb_get_letohl tvb 4;
     let v = show_item PacketData hf_Matter_MsgCntr 4 4 (Number (ucast msgId)) v;
     (srcNodeId, srcLen) \<leftarrow>
       (if msgFlags AND kMatterMessageFlag_SourceNodeId \<noteq> 0
        then map_option (\<lambda>n. (n, 8)) (tvb_get_letoh64 tvb 8) else Some (0, 0));
     let v = show_item PacketData hf_Matter_SourceNodeId 8 srcLen (NumberAs srcNodeId (node_id_text srcNodeId)) v;
     let parsePoint = 8 + srcLen;
     (destNodeId, destLen) \<leftarrow>
       (if msgFlags AND kMatterMessageFlag_DestNodeId \<noteq> 0
        then map_option (\<lambda>n. (n, 8)) (tvb_get_letoh64 tvb parsePoint) else Some (0, 0));
     let v = show_item PacketData hf_Matter_DestNodeId parsePoint destLen
               (NumberAs destNodeId (node_id_text destNodeId)) v;
     let parsePoint = parsePoint + destLen;
     let mi = MatterMessageInfo\<lparr>mi_msgLen := msgLen, mi_msgFlags := msgFlags,
       mi_msgVersion := drop_bit kMsgHeaderField_MessageVersionShift (msgFlags AND kMsgHeaderField_MessageVersionMask),
       mi_sessionId := sessionId, mi_secFlags := secFlags,
       mi_sessionType := drop_bit kMsgHeaderField_EncryptionTypeShift (secFlags AND kMsgHeaderField_EncryptionTypeMask),
       mi_msgId := msgId, mi_srcNodeId := srcNodeId, mi_destNodeId := destNodeId,
       mi_headerLen := of_nat parsePoint\<rparr>;
     Some (mi, tvb, parsePoint, col_append (header_text pref_ShowNodeIds mi) v)
   }"

section \<open>The exchange header\<close>

text \<open>The protocol of the payload: the identifier itself, or with its bytes swapped if only that one has a name.\<close>

definition dispatch_protocol :: "u16 \<Rightarrow> u16 \<times> string option" where
  "dispatch_protocol msgProtocolId =
     (case GetProtocolName (ucast msgProtocolId) of
        Some name \<Rightarrow> (msgProtocolId, Some name)
      | None \<Rightarrow>
          (let swappedProtocolId = push_bit 8 msgProtocolId OR drop_bit 8 msgProtocolId in
           case GetProtocolName (ucast swappedProtocolId) of
             Some swappedName \<Rightarrow> (swappedProtocolId, Some swappedName)
           | None \<Rightarrow> (msgProtocolId, None)))"

definition with_name :: "string \<Rightarrow> string option \<Rightarrow> string" where
  "with_name s name = (case name of None \<Rightarrow> s | Some n \<Rightarrow> s @ '' ('' @ n @ '')'')"

text \<open>The second part: the result has the protocol to dispatch to and the offset of the payload.\<close>

definition DissectMatter_exchange ::
  "msg_info \<Rightarrow> tvbuff \<Rightarrow> view \<Rightarrow> (msg_info \<times> u16 \<times> nat \<times> view) option" where
  "DissectMatter_exchange mi unencMsgTVB v =
   do {
     exchHeader \<leftarrow> tvb_get_guint8 unencMsgTVB 0;
     let v = show_items Plaintext [hf_Matter_ExchangeHeader, hf_Matter_VFlag, hf_Matter_SXFlag, hf_Matter_RFlag,
               hf_Matter_AFlag, hf_Matter_IFlag] 0 1 v;
     msgType \<leftarrow> tvb_get_guint8 unencMsgTVB 1;
     exchId \<leftarrow> tvb_get_letohs unencMsgTVB 2;
     msgProtocolId \<leftarrow> tvb_get_letohs unencMsgTVB 4;
     let (dispatchProtocolId, profileName) = dispatch_protocol msgProtocolId;
     (vendorId, vendorLen) \<leftarrow>
       (if exchHeader AND kMatterExchangeFlag_VendorProtocol \<noteq> 0
        then map_option (\<lambda>i. (i, 2)) (tvb_get_letohs unencMsgTVB 6) else Some (0, 0));
     let typeName = GetMessageName (ucast dispatchProtocolId) msgType;
     let v = show_item Plaintext hf_Matter_ProtocolOpcode 1 1
               (NumberAs (ucast msgType) (with_name (dec (unat msgType)) typeName)) v;
     let v = show_item Plaintext hf_Matter_ExchangeId 2 2 Raw v;
     let v = show_item Plaintext hf_Matter_ProtocolId 4 2
               (NumberAs (ucast msgProtocolId) (with_name (''0x'' @ hex_upper 4 (unat msgProtocolId)) profileName)) v;
     let v = (if vendorLen \<noteq> 0 then show_item Plaintext hf_Matter_ProtocolVendorId 6 2
               (NumberAs (ucast vendorId) (''0x'' @ hex_upper 4 (unat vendorId))) v else v);
     let v = col_append ('' ExchId='' @ hex_upper 2 (unat exchId)) v;
     let parsePoint = 6 + vendorLen;
     (ackMsgCntr, ackLen, v) \<leftarrow>
       (if exchHeader AND kMatterExchangeFlag_AckId \<noteq> 0
        then map_option (\<lambda>a. (a, 4, col_append ('' AckMsgCntr='' @ hex_upper 8 (unat a))
               (show_item Plaintext hf_Matter_AckMsgCntr parsePoint 4 (Number (ucast a)) v)))
             (tvb_get_letohl unencMsgTVB parsePoint)
        else Some (0, 0, v));
     let payloadOffset = parsePoint + ackLen;
     let payloadLen = (of_nat (length unencMsgTVB) - (of_nat payloadOffset + mi_trailerLen mi) :: u16);
     Some (mi\<lparr>mi_exchHeader := exchHeader, mi_msgType := msgType, mi_exchId := exchId,
             mi_msgProtocolId := msgProtocolId, mi_msgProfileName := profileName,
             mi_msgProtocolVendorId := vendorId, mi_msgTypeName := typeName, mi_ackMsgCntr := ackMsgCntr,
             mi_payloadLen := payloadLen\<rparr>,
           dispatchProtocolId, payloadOffset, v)
   }"

text \<open>The payload and, of a decrypted message, the integrity check behind it.\<close>

definition DissectMatter_show_payload :: "msg_info \<Rightarrow> tvbuff \<Rightarrow> nat \<Rightarrow> view \<Rightarrow> view option" where
  "DissectMatter_show_payload mi unencMsgTVB parsePoint v =
   do {
     let payloadLen = unat (mi_payloadLen mi);
     v \<leftarrow> (if payloadLen \<noteq> 0
           then show_bytes Plaintext hf_Matter_Payload unencMsgTVB parsePoint payloadLen v else Some v);
     if MessageIsEncrypted mi
     then show_bytes Plaintext hf_Matter_IntegrityCheck unencMsgTVB (parsePoint + payloadLen)
            (unat MATTER_CRYPTO_TAG_LENGTH) v
     else Some v
   }"

section \<open>The tracker and the dispatch\<close>

text \<open>What the program keeps from one packet to the next; the dissectors of the protocols work on it too.\<close>

record matter_state =
  ms_tracker :: tracker
  ms_hints :: hint_state
  ms_keys :: key_table
  ms_cases :: "case_exchange list"

record matter_host =
  host_crc32 :: "byte list \<Rightarrow> u32"
  host_crc32_seed :: "byte list \<Rightarrow> u32 \<Rightarrow> u32"
  pref_ShowNodeIds :: bool
  decrypt_env :: decrypt_env
  subdissect :: "u16 \<Rightarrow> tvbuff \<Rightarrow> msg_info \<Rightarrow> view \<times> matter_state \<Rightarrow> (int \<times> view \<times> matter_state) option"

definition frame_of :: "tracker \<Rightarrow> rec_id \<Rightarrow> u32" where
  "frame_of t i = frameNum (records t ! i)"

definition show_frame :: "matter_field \<Rightarrow> tracker \<Rightarrow> rec_id option \<Rightarrow> view \<Rightarrow> view" where
  "show_frame hf t r v =
     (case r of None \<Rightarrow> v | Some i \<Rightarrow> show_item Plaintext hf 0 0 (Number (ucast (frame_of t i))) v)"

text \<open>The third part: the record of the message and what the tracker says of it.\<close>

definition DissectMatter_track ::
  "matter_host \<Rightarrow> packet_info \<Rightarrow> tvbuff \<Rightarrow> msg_info \<Rightarrow> view \<Rightarrow> tracker \<Rightarrow> (msg_info \<times> view \<times> tracker) option" where
  "DissectMatter_track host pinfo tvb mi v t =
   do {
     (msgRec, t) \<leftarrow> FindOrCreateMessageRecord (host_crc32 host) (host_crc32_seed host) tvb pinfo mi t;
     let mi = mi\<lparr>mi_msgRec := Some msgRec\<rparr>;
     start \<leftarrow> FindStartOfExchange (Some msgRec) t;
     let mi = mi\<lparr>mi_exchangeStartMsg := start\<rparr>;
     let v = (case start of None \<Rightarrow> v
              | Some s \<Rightarrow> show_item Plaintext hf_Matter_ExchangeStartFrameNum 0 0
                  (if s = msgRec then Label (ucast (frame_of t s)) ''Start of exchange in this frame''
                   else Number (ucast (frame_of t s))) v);
     mi \<leftarrow> FindRetransmissions msgRec mi t;
     let v = (case mi_retransOfMsg mi of None \<Rightarrow> v
              | Some r \<Rightarrow> show_item Plaintext hf_Matter_RetransFrameNum 0 0
                  (NumberAs (ucast (frame_of t r))
                    (sdec (sint (frame_of t r)) @ '' (retransmission '' @ sdec (sint (mi_retransNum mi)) @ '' of '' @
                     sdec (sint (mi_totalRetrans mi)) @ '')'')) v);
     mi \<leftarrow> FindReusedMessageIds msgRec mi t;
     let v = show_frame hf_Matter_MsgCntrReuseFrameNum t (mi_reusesMsgCntrFrom mi) v;
     (mi, t) \<leftarrow> FindAckedMessages pinfo msgRec mi t;
     let v = show_frame hf_Matter_AckMsgFrameNum t (mi_ackedMsg mi) v;
     let v = show_frame hf_Matter_AckedByFrameNum t (ackedByMsgRec (records t ! msgRec)) v;
     Some (mi, v, t)
   }"

definition AddMessageTypeToInfoColumn :: "msg_info \<Rightarrow> view \<Rightarrow> view option" where
  "AddMessageTypeToInfoColumn mi v =
     (case mi_msgTypeName mi of
        Some typeName \<Rightarrow>
          map_option (\<lambda>profileName. col_prepend (profileName @ '':'' @ typeName @ '' '') v) (mi_msgProfileName mi)
      | None \<Rightarrow> Some (col_prepend (hex_upper 4 (unat (mi_msgProtocolId mi)) @ '':'' @ dec (unat (mi_msgType mi)) @ '' '') v))"

text \<open>\<open>tvb_new_subset_length\<close>: at most what is left from the offset on.\<close>

definition tvb_new_subset_length :: "tvbuff \<Rightarrow> nat \<Rightarrow> nat \<Rightarrow> tvbuff option" where
  "tvb_new_subset_length tvb off len = (if off \<le> length tvb then Some (take len (drop off tvb)) else None)"

definition DissectMatter_payload ::
  "matter_host \<Rightarrow> packet_info \<Rightarrow> tvbuff \<Rightarrow> tvbuff \<Rightarrow> msg_info \<Rightarrow> view \<Rightarrow> matter_state \<Rightarrow> (view \<times> matter_state) option" where
  "DissectMatter_payload host pinfo tvb unencMsgTVB mi v s =
   do {
     (mi, dispatchProtocolId, payloadOffset, v) \<leftarrow> DissectMatter_exchange mi unencMsgTVB v;
     v \<leftarrow> DissectMatter_show_payload mi unencMsgTVB payloadOffset v;
     (mi, v, t) \<leftarrow> DissectMatter_track host pinfo tvb mi v (ms_tracker s);
     payloadTVB \<leftarrow> tvb_new_subset_length unencMsgTVB payloadOffset (unat (mi_payloadLen mi));
     (profileDissectorRes, v, s) \<leftarrow> subdissect host dispatchProtocolId payloadTVB mi (v, s\<lparr>ms_tracker := t\<rparr>);
     v \<leftarrow> (if profileDissectorRes = 0 then AddMessageTypeToInfoColumn mi v else Some v);
     Some (v, s)
   }"

text \<open>The result is the length of the buffer, as the number of bytes dissected.\<close>

definition DissectMatter ::
  "matter_host \<Rightarrow> packet_info \<Rightarrow> tvbuff \<Rightarrow> nat \<Rightarrow> matter_state \<Rightarrow> (nat \<times> view \<times> matter_state) option" where
  "DissectMatter host pinfo tvb reported_length s =
   do {
     (mi, tvb, parsePoint, v) \<leftarrow> DissectMatter_header (pref_ShowNodeIds host) pinfo tvb reported_length;
     (unencMsgTVB, mi, hints, sKeys) \<leftarrow>
       (if \<not> MessageIsEncrypted mi then Some (Some (drop parsePoint tvb), mi, ms_hints s, ms_keys s)
        else do {
          (plain, hints, sKeys) \<leftarrow> TryDecryptMessage (decrypt_env host) tvb parsePoint mi (ms_hints s, ms_keys s);
          Some (plain,
            if plain \<noteq> None then mi\<lparr>mi_trailerLen := mi_trailerLen mi + MATTER_CRYPTO_TAG_LENGTH\<rparr> else mi,
            hints, sKeys)
        });
     let s = s\<lparr>ms_hints := hints, ms_keys := sKeys\<rparr>;
     (v, s) \<leftarrow>
       (case unencMsgTVB of
          Some plain \<Rightarrow> DissectMatter_payload host pinfo tvb plain mi v s
        | None \<Rightarrow>
            map_option (\<lambda>v. (v, s))
              (show_bytes PacketData hf_Matter_EncData tvb parsePoint
                 (unat (mi_msgLen mi - of_nat parsePoint)) v));
     Some (length tvb, v, s)
   }"

section \<open>TCP and the conversation filter\<close>

text \<open>The host asks for the length of the message at an offset.\<close>

definition GetMatterTCPMessageLength :: "tvbuff \<Rightarrow> nat \<Rightarrow> nat option" where
  "GetMatterTCPMessageLength tvb offset =
     map_option (\<lambda>l. unat l + kMatterTCPMessageLengthFieldSize) (tvb_get_letohs tvb 0)"

text \<open>
  \<open>layers\<close> are the names of the protocols of a packet; this dissector is registered under
  \<open>proto_matter_filter_name\<close>.
\<close>

definition proto_matter_filter_name :: string where
  "proto_matter_filter_name = ''matter-chip''"

definition MatterExchangeFilter_IsValid :: "string list \<Rightarrow> packet_info \<Rightarrow> tracker \<Rightarrow> bool" where
  "MatterExchangeFilter_IsValid layers pinfo t \<longleftrightarrow>
     ''matter'' \<in> set layers \<and> FindMessageRecord pinfo t \<noteq> None"

definition MatterExchangeFilter_BuildFilterString :: "packet_info \<Rightarrow> tracker \<Rightarrow> string option" where
  "MatterExchangeFilter_BuildFilterString pinfo t =
     (case FindStartOfExchange (FindMessageRecord pinfo t) t of
        Some (Some start) \<Rightarrow> Some (''matter.exchange_start_frame eq '' @ sdec (sint (frame_of t start)))
      | _ \<Rightarrow> None)"

end
