(* ===== verification/Sub_Dissector.thy ===== *)
theory Sub_Dissector
  imports TLV_Text Matter_Message
begin

text \<open>
  What the dissectors of the protocols share: the numbers that the host gave to fields, subtrees and
  protocols when they were registered, additions to the tree that do not come from an element, and the
  shape of the functions that show a structure: enter it, take each element by its context tag, leave it.
  A dissector of a protocol maps the payload and the message information to its result, which the host
  takes for the number of bytes dissected, and the view.
\<close>

section \<open>The host\<close>

text \<open>
  \<open>reg_hf\<close>, \<open>reg_ett\<close> and \<open>reg_proto\<close> are the values of the variables of that name after registration;
  \<open>raw_object\<close> is what the memory of a \<open>TLVDissector\<close> on the stack holds before its constructor runs.
\<close>

record registry =
  reg_env :: env
  reg_hf :: "string \<Rightarrow> int"
  reg_ett :: "string \<Rightarrow> int"
  reg_proto :: "string \<Rightarrow> int"
  raw_object :: dissector

definition add_call :: "proto_call \<Rightarrow> view \<Rightarrow> view" where
  "add_call c v = v\<lparr>view_calls := view_calls v @ [c]\<rparr>"

text \<open>An item over bytes of the payload; bytes that are not there raise the exception of the host.\<close>

definition add_tvb_item :: "proto_tree \<Rightarrow> int \<Rightarrow> tvbuff \<Rightarrow> int \<Rightarrow> int \<Rightarrow> item_value \<Rightarrow> view \<Rightarrow> view option" where
  "add_tvb_item tree hfindex tvb off len val v =
     map_option (\<lambda>_. add_call (ProtoAdd tree hfindex (of_int off) (of_int len) val) v) (tvb_range tvb off len)"

text \<open>
  The first lines of every dissector: an item for the whole payload (the length -1) and its subtree, of
  which \<open>proto_tree_get_parent\<close> is the item.
\<close>

definition protocol_tree :: "registry \<Rightarrow> string \<Rightarrow> string \<Rightarrow> view \<Rightarrow> proto_tree \<times> view" where
  "protocol_tree R proto_var ett_var v =
     (let item = Some (length (view_calls v));
          v = add_call (ProtoAdd None (reg_proto R proto_var) 0 (- 1) AddItem) v
      in (item, add_call (ProtoSubtree item (reg_ett R ett_var)) v))"

definition append_text :: "proto_tree \<Rightarrow> string \<Rightarrow> view \<Rightarrow> view" where
  "append_text tree s v = add_call (ProtoAppendText tree s) v"

section \<open>Elements by their context tag\<close>

type_synonym elem_handler = "dissector \<Rightarrow> dissector result"

text \<open>
  \<open>VerifyOrExit(IsContextTag(tag), \<dots>); switch (TagNumFromTag(tag)) { \<dots> }\<close>. The cases are an association
  list, the default is the last argument.
\<close>

definition tag_switch :: "(u32 \<times> elem_handler) list \<Rightarrow> elem_handler \<Rightarrow> elem_handler" where
  "tag_switch cases dflt d =
     (case map_of cases (TagNumFromTag (GetTag d)) of Some h \<Rightarrow> h d | None \<Rightarrow> dflt d)"

definition context_switch :: "(u32 \<times> elem_handler) list \<Rightarrow> elem_handler \<Rightarrow> elem_handler" where
  "context_switch cases dflt d =
     VerifyOrExit (IsContextTag (GetTag d)) MATTER_ERROR_UNEXPECTED_TLV_ELEMENT d (tag_switch cases dflt d)"

text \<open>\<open>VerifyOrExit(type == \<dots>, err = MATTER_ERROR_UNEXPECTED_TLV_ELEMENT)\<close> before the handler.\<close>

definition of_types :: "TLVType list \<Rightarrow> elem_handler \<Rightarrow> elem_handler" where
  "of_types types h d =
     VerifyOrExit (GetType d \<in> set types) MATTER_ERROR_UNEXPECTED_TLV_ELEMENT d (h d)"

definition unexpected :: elem_handler where
  "unexpected d = Some (MATTER_ERROR_UNEXPECTED_TLV_ELEMENT, d)"

text \<open>\<open>AddTypedItem\<close> and \<open>AddGenericTLVItem\<close> on a registered field.\<close>

definition typed :: "registry \<Rightarrow> string \<Rightarrow> ListElemHandler" where
  "typed R hf_var tree d = AddTypedItem (reg_env R) tree (reg_hf R hf_var) d"

definition generic :: "registry \<Rightarrow> string \<Rightarrow> bool \<Rightarrow> ListElemHandler" where
  "generic R hf_var suppressTag tree d = AddGenericTLVItem (reg_env R) tree (reg_hf R hf_var) suppressTag d"

section \<open>Structures\<close>

text \<open>Entering a container, a handler for each of its elements, and leaving it.\<close>

definition members :: "registry \<Rightarrow> elem_handler \<Rightarrow> elem_handler" where
  "members R h d =
     map_option (\<lambda>(err, _, d). (err, d))
       (in_container (reg_env R) (\<lambda>(_, d). with_locals () (h d)) ((), d))"

text \<open>The same under a subtree of its own, which the handler of the elements gets.\<close>

definition subtree_members :: "registry \<Rightarrow> int \<Rightarrow> int \<Rightarrow> ListElemHandler \<Rightarrow> ListElemHandler" where
  "subtree_members R hfindex ettindex h tree d =
     (case AddSubTreeItem tree hfindex ettindex None d of (err, subTree, d) \<Rightarrow>
        if err \<noteq> MATTER_NO_ERROR then Some (err, d) else members R (h subTree) d)"

definition struct_item :: "registry \<Rightarrow> int \<Rightarrow> string \<Rightarrow> ListElemHandler \<Rightarrow> ListElemHandler" where
  "struct_item R hfindex ett_var h tree =
     of_types [kTLVType_Structure] (subtree_members R hfindex (reg_ett R ett_var) h tree)"

section \<open>Messages\<close>

text \<open>\<open>TLVDissector tlvDissector; tlvDissector.Init(data, dataLen, base); tlvDissector.ImplicitProfileId = \<dots>\<close>.\<close>

definition start_dissector :: "registry \<Rightarrow> u32 \<Rightarrow> byte list \<Rightarrow> u32 \<Rightarrow> u32 \<Rightarrow> view \<Rightarrow> dissector" where
  "start_dissector R profile data dataLen base v =
     (Dissector_Init data dataLen base (TLVDissector (raw_object R)))
       \<lparr>ImplicitProfileId := profile, trace := view_calls v\<rparr>"

text \<open>
  A dissector that works on a copy of the payload from \<open>parsePoint\<close> on, with a result of its own. The calls
  it made are in the view whatever its result.
\<close>

definition run_tlv ::
  "registry \<Rightarrow> u32 \<Rightarrow> tvbuff \<Rightarrow> nat \<Rightarrow> nat \<Rightarrow> (dissector \<Rightarrow> ('r \<times> dissector) option) \<Rightarrow> view \<Rightarrow> ('r \<times> view) option" where
  "run_tlv R profile tvb parsePoint payloadLen body v =
     do {
       msgData \<leftarrow> tvb_memdup tvb parsePoint (int payloadLen - int parsePoint);
       (res, d) \<leftarrow> body (start_dissector R profile msgData (of_nat (payloadLen - parsePoint)) (of_nat parsePoint) v);
       Some (res, v\<lparr>view_calls := trace d\<rparr>)
     }"

section \<open>Recursion through the loops\<close>

text \<open>A handler may call itself for an element of the container it is in; the loops are monotone in their body.\<close>

lemma mono_optionI:
  fixes A :: "('a \<Rightarrow> 'b option) \<Rightarrow> 'c option"
  assumes "\<And>f g y. fun_ord option_ord f g \<Longrightarrow> A f = Some y \<Longrightarrow> A g = Some y"
  shows "mono_option A"
proof (rule monotoneI)
  fix f g :: "'a \<Rightarrow> 'b option" assume "fun_ord option_ord f g"
  from assms [OF this] show "option_ord (A f) (A g)" by (cases "A f") (auto simp: flat_ord_def)
qed

lemma mono_optionD:
  "mono_option A \<Longrightarrow> fun_ord option_ord f g \<Longrightarrow> A f = Some y \<Longrightarrow> A g = Some y"
  by (metis monotoneD flat_ord_def option.distinct(1))

lemma each_elem_more:
  assumes "each_elem b s = Some y" and "\<And>s y. b s = Some y \<Longrightarrow> b' s = Some y"
  shows "each_elem b' s = Some y"
  using assms
proof (induction rule: each_elem.raw_induct [rotated, consumes 1, case_names step])
  case (step each b s y)
  then show ?case
    by (cases y, subst each_elem.simps) (auto simp: SuccessOrExit_eq_Some split: option.splits if_splits)
qed

lemma each_elem_mono [partial_function_mono]:
  assumes "\<And>s. mono_option (\<lambda>f. body f s)"
  shows "mono_option (\<lambda>f. each_elem (body f) s)"
  by (rule mono_optionI) (blast intro: each_elem_more mono_optionD [OF assms])

lemma map_option_mono [partial_function_mono]:
  "mono_option m \<Longrightarrow> mono_option (\<lambda>f. map_option g (m f))"
  by (rule mono_optionI) (auto dest: mono_optionD)

lemma with_locals_mono [partial_function_mono]:
  "mono_option m \<Longrightarrow> mono_option (\<lambda>f. with_locals l (m f))"
  unfolding with_locals_def by (rule map_option_mono)

lemma in_container_mono [partial_function_mono]:
  assumes "\<And>s. mono_option (\<lambda>f. body f s)"
  shows "mono_option (\<lambda>f. in_container E (body f) s)"
  unfolding in_container_def by (intro partial_function_mono assms)

lemma members_mono [partial_function_mono]:
  assumes "\<And>d. mono_option (\<lambda>f. h f d)"
  shows "mono_option (\<lambda>f. members R (h f) d)"
  unfolding members_def by (rule map_option_mono, rule in_container_mono) (auto intro: with_locals_mono assms)

end
