(* ===== verification/IM_Subscription.thy ===== *)
theory IM_Subscription
  imports Sub_Dissector
begin

text \<open>
  The subscription of an exchange (\<open>packet-matter-im.cpp\<close>): \<open>AssociateWithIMSubscription\<close>, which status reports and
  acknowledgements call, and the conversation filter on it.
\<close>

text \<open>\<open>for (p = first; p != NULL; p = p->next) if (p->imSubscription != 0) { \<dots>; break; }\<close>, 0 if there is none.\<close>

partial_function (option) subscription_along ::
  "(msg_record \<Rightarrow> rec_id option) \<Rightarrow> msg_record list \<Rightarrow> rec_id option \<Rightarrow> u64 option" where
  [code]: "subscription_along next_rec recs p =
     (case p of None \<Rightarrow> Some 0
      | Some i \<Rightarrow>
          if i < length recs
          then (if imSubscription (recs ! i) \<noteq> 0 then Some (imSubscription (recs ! i))
                else subscription_along next_rec recs (next_rec (recs ! i)))
          else None)"

definition adopt_subscription ::
  "rec_id \<Rightarrow> (msg_record \<Rightarrow> rec_id option) \<Rightarrow> rec_id option \<Rightarrow> tracker \<Rightarrow> tracker option" where
  "adopt_subscription msgRec next_rec first t =
     (if imSubscription (records t ! msgRec) = 0 then
        map_option (\<lambda>s. if s \<noteq> 0 then update_record msgRec (\<lambda>r. r\<lparr>imSubscription := s\<rparr>) t else t)
          (subscription_along next_rec (records t) first)
      else Some t)"

definition AssociateWithIMSubscription ::
  "registry \<Rightarrow> proto_tree \<Rightarrow> rec_id option \<Rightarrow> view \<times> tracker \<Rightarrow> (view \<times> tracker) option" where
  "AssociateWithIMSubscription R tree msgRec s =
     (case s of (v, t) \<Rightarrow>
      case msgRec of None \<Rightarrow> None
      | Some i \<Rightarrow>
          if i < length (records t) then
            do {
              t \<leftarrow> adopt_subscription i prevByExchange (Some i) t;
              t \<leftarrow> adopt_subscription i nextByExchange (nextByExchange (records t ! i)) t;
              let item = Some (length (view_calls v));
              let v = add_call (ProtoAdd tree (reg_hf R ''IM_SubscriptionId'') 0 0 (AddUint64 (imSubscription (records t ! i)))) v;
              Some (add_call (ProtoSetHidden item) v, t)
            }
          else None)"

section \<open>The conversation filter\<close>

definition IMSubscriptionFilter_IsValid :: "packet_info \<Rightarrow> tracker \<Rightarrow> bool" where
  "IMSubscriptionFilter_IsValid pinfo t \<longleftrightarrow>
     (case FindMessageRecord pinfo t of None \<Rightarrow> False | Some i \<Rightarrow> imSubscription (records t ! i) \<noteq> 0)"

definition IMSubscriptionFilter_BuildFilterString :: "packet_info \<Rightarrow> tracker \<Rightarrow> string option" where
  "IMSubscriptionFilter_BuildFilterString pinfo t =
     map_option (\<lambda>i. ''im.subscription_id eq 0x'' @ hex_upper 16 (unat (imSubscription (records t ! i))))
       (FindMessageRecord pinfo t)"

end
