(* ===== verification/Status_Text.thy ===== *)
theory Status_Text
  imports Matter_Names Text_Format
begin

text \<open>
  The text of a status report (\<open>StatusReportStr.cpp\<close>): for a known profile its name, its number, the status code
  and, for a known code, what it says; else the two numbers. The \<open>switch\<close> of a profile is the list of its
  cases. The text is written into a static buffer of 1024 bytes.
\<close>

named_theorems status_codes \<open>status codes\<close>

section \<open>Codes\<close>

definition BulkDataTransfer_kStatus_Overflow :: u16 where [status_codes]: "BulkDataTransfer_kStatus_Overflow = 0x0011"
definition BulkDataTransfer_kStatus_LengthTooShort :: u16 where [status_codes]: "BulkDataTransfer_kStatus_LengthTooShort = 0x0013"
definition BulkDataTransfer_kStatus_XferFailedUnknownErr :: u16 where [status_codes]: "BulkDataTransfer_kStatus_XferFailedUnknownErr = 0x001F"
definition BulkDataTransfer_kStatus_XferMethodNotSupported :: u16 where [status_codes]: "BulkDataTransfer_kStatus_XferMethodNotSupported = 0x0050"
definition BulkDataTransfer_kStatus_UnknownFile :: u16 where [status_codes]: "BulkDataTransfer_kStatus_UnknownFile = 0x0051"
definition BulkDataTransfer_kStatus_StartOffsetNotSupported :: u16 where [status_codes]: "BulkDataTransfer_kStatus_StartOffsetNotSupported = 0x0052"
definition BulkDataTransfer_kStatus_Unknown :: u16 where [status_codes]: "BulkDataTransfer_kStatus_Unknown = 0x005F"
definition kMatterProfile_General :: u32 where [profile_ids]: "kMatterProfile_General = 0xFFFF"
definition General_kStatus_SUCCESS :: u16 where [status_codes]: "General_kStatus_SUCCESS = 0"
definition General_kStatus_FAILURE :: u16 where [status_codes]: "General_kStatus_FAILURE = 1"
definition General_kStatus_BAD_PRECONDITION :: u16 where [status_codes]: "General_kStatus_BAD_PRECONDITION = 2"
definition General_kStatus_OUT_OF_RANGE :: u16 where [status_codes]: "General_kStatus_OUT_OF_RANGE = 3"
definition General_kStatus_BAD_REQUEST :: u16 where [status_codes]: "General_kStatus_BAD_REQUEST = 4"
definition General_kStatus_UNSUPPORTED :: u16 where [status_codes]: "General_kStatus_UNSUPPORTED = 5"
definition General_kStatus_UNEXPECTED :: u16 where [status_codes]: "General_kStatus_UNEXPECTED = 6"
definition General_kStatus_RESOURCE_EXHAUSTED :: u16 where [status_codes]: "General_kStatus_RESOURCE_EXHAUSTED = 7"
definition General_kStatus_BUSY :: u16 where [status_codes]: "General_kStatus_BUSY = 8"
definition General_kStatus_TIMEOUT :: u16 where [status_codes]: "General_kStatus_TIMEOUT = 9"
definition General_kStatus_CONTINUE :: u16 where [status_codes]: "General_kStatus_CONTINUE = 10"
definition General_kStatus_ABORTED :: u16 where [status_codes]: "General_kStatus_ABORTED = 11"
definition General_kStatus_INVALID_ARGUMENT :: u16 where [status_codes]: "General_kStatus_INVALID_ARGUMENT = 12"
definition General_kStatus_NOT_FOUND :: u16 where [status_codes]: "General_kStatus_NOT_FOUND = 13"
definition General_kStatus_ALREADY_EXISTS :: u16 where [status_codes]: "General_kStatus_ALREADY_EXISTS = 14"
definition General_kStatus_PERMISSION_DENIED :: u16 where [status_codes]: "General_kStatus_PERMISSION_DENIED = 15"
definition General_kStatus_DATA_LOSS :: u16 where [status_codes]: "General_kStatus_DATA_LOSS = 16"
definition Common_kStatus_SESSION_ESTABLISHMENT_SUCCESS :: u16 where [status_codes]: "Common_kStatus_SESSION_ESTABLISHMENT_SUCCESS = 0"
definition Common_kStatus_NO_SHARED_TRUST_ROOTS :: u16 where [status_codes]: "Common_kStatus_NO_SHARED_TRUST_ROOTS = 1"
definition Common_kStatus_INVALID_PARAMETER :: u16 where [status_codes]: "Common_kStatus_INVALID_PARAMETER = 2"
definition Common_kStatus_CLOSE_SESSION :: u16 where [status_codes]: "Common_kStatus_CLOSE_SESSION = 3"
definition Common_kStatus_BUSY :: u16 where [status_codes]: "Common_kStatus_BUSY = 4"
definition Common_kStatus_SESSION_NOT_FOUND :: u16 where [status_codes]: "Common_kStatus_SESSION_NOT_FOUND = 5"
definition InteractionModel_kStatus_InvalidValueInNotification :: u16 where [status_codes]: "InteractionModel_kStatus_InvalidValueInNotification = 0x20"
definition InteractionModel_kStatus_InvalidPath :: u16 where [status_codes]: "InteractionModel_kStatus_InvalidPath = 0x21"
definition InteractionModel_kStatus_ExpiryTimeNotSupported :: u16 where [status_codes]: "InteractionModel_kStatus_ExpiryTimeNotSupported = 0x22"
definition InteractionModel_kStatus_NotTimeSyncedYet :: u16 where [status_codes]: "InteractionModel_kStatus_NotTimeSyncedYet = 0x23"
definition InteractionModel_kStatus_RequestExpiredInTime :: u16 where [status_codes]: "InteractionModel_kStatus_RequestExpiredInTime = 0x24"
definition InteractionModel_kStatus_VersionMismatch :: u16 where [status_codes]: "InteractionModel_kStatus_VersionMismatch = 0x25"
definition InteractionModel_kStatus_GeneralProtocolError :: u16 where [status_codes]: "InteractionModel_kStatus_GeneralProtocolError = 0x26"
definition InteractionModel_kStatus_SecurityError :: u16 where [status_codes]: "InteractionModel_kStatus_SecurityError = 0x27"
definition InteractionModel_kStatus_InvalidSubscriptionID :: u16 where [status_codes]: "InteractionModel_kStatus_InvalidSubscriptionID = 0x28"
definition InteractionModel_kStatus_GeneralSchemaViolation :: u16 where [status_codes]: "InteractionModel_kStatus_GeneralSchemaViolation = 0x29"
definition DeviceControl_kStatusCode_FailSafeAlreadyActive :: u16 where [status_codes]: "DeviceControl_kStatusCode_FailSafeAlreadyActive = 1"
definition DeviceControl_kStatusCode_NoFailSafeActive :: u16 where [status_codes]: "DeviceControl_kStatusCode_NoFailSafeActive = 2"
definition DeviceControl_kStatusCode_NoMatchingFailSafeActive :: u16 where [status_codes]: "DeviceControl_kStatusCode_NoMatchingFailSafeActive = 3"
definition DeviceControl_kStatusCode_UnsupportedFailSafeMode :: u16 where [status_codes]: "DeviceControl_kStatusCode_UnsupportedFailSafeMode = 4"
definition FabricProvisioning_kStatusCode_AlreadyMemberOfFabric :: u16 where [status_codes]: "FabricProvisioning_kStatusCode_AlreadyMemberOfFabric = 1"
definition FabricProvisioning_kStatusCode_NotMemberOfFabric :: u16 where [status_codes]: "FabricProvisioning_kStatusCode_NotMemberOfFabric = 2"
definition FabricProvisioning_kStatusCode_InvalidFabricConfig :: u16 where [status_codes]: "FabricProvisioning_kStatusCode_InvalidFabricConfig = 3"
definition NetworkProvisioning_kStatusCode_UnknownNetwork :: u16 where [status_codes]: "NetworkProvisioning_kStatusCode_UnknownNetwork = 1"
definition NetworkProvisioning_kStatusCode_TooManyNetworks :: u16 where [status_codes]: "NetworkProvisioning_kStatusCode_TooManyNetworks = 2"
definition NetworkProvisioning_kStatusCode_InvalidNetworkConfiguration :: u16 where [status_codes]: "NetworkProvisioning_kStatusCode_InvalidNetworkConfiguration = 3"
definition NetworkProvisioning_kStatusCode_UnsupportedNetworkType :: u16 where [status_codes]: "NetworkProvisioning_kStatusCode_UnsupportedNetworkType = 4"
definition NetworkProvisioning_kStatusCode_UnsupportedWiFiMode :: u16 where [status_codes]: "NetworkProvisioning_kStatusCode_UnsupportedWiFiMode = 5"
definition NetworkProvisioning_kStatusCode_UnsupportedWiFiRole :: u16 where [status_codes]: "NetworkProvisioning_kStatusCode_UnsupportedWiFiRole = 6"
definition NetworkProvisioning_kStatusCode_UnsupportedWiFiSecurityType :: u16 where [status_codes]: "NetworkProvisioning_kStatusCode_UnsupportedWiFiSecurityType = 7"
definition NetworkProvisioning_kStatusCode_InvalidState :: u16 where [status_codes]: "NetworkProvisioning_kStatusCode_InvalidState = 8"
definition NetworkProvisioning_kStatusCode_TestNetworkFailed :: u16 where [status_codes]: "NetworkProvisioning_kStatusCode_TestNetworkFailed = 9"
definition Security_kStatusCode_SessionAborted :: u16 where [status_codes]: "Security_kStatusCode_SessionAborted = 1"
definition Security_kStatusCode_PASESupportsOnlyConfig1 :: u16 where [status_codes]: "Security_kStatusCode_PASESupportsOnlyConfig1 = 2"
definition Security_kStatusCode_UnsupportedEncryptionType :: u16 where [status_codes]: "Security_kStatusCode_UnsupportedEncryptionType = 3"
definition Security_kStatusCode_InvalidSessionId :: u16 where [status_codes]: "Security_kStatusCode_InvalidSessionId = 4"
definition Security_kStatusCode_DuplicateSessionId :: u16 where [status_codes]: "Security_kStatusCode_DuplicateSessionId = 5"
definition Security_kStatusCode_KeyConfirmationFailed :: u16 where [status_codes]: "Security_kStatusCode_KeyConfirmationFailed = 6"
definition Security_kStatusCode_InternalError :: u16 where [status_codes]: "Security_kStatusCode_InternalError = 7"
definition Security_kStatusCode_AuthenticationFailed :: u16 where [status_codes]: "Security_kStatusCode_AuthenticationFailed = 8"
definition Security_kStatusCode_UnsupportedCASEConfiguration :: u16 where [status_codes]: "Security_kStatusCode_UnsupportedCASEConfiguration = 9"
definition Security_kStatusCode_UnsupportedCertificate :: u16 where [status_codes]: "Security_kStatusCode_UnsupportedCertificate = 10"
definition Security_kStatusCode_NoCommonPASEConfigurations :: u16 where [status_codes]: "Security_kStatusCode_NoCommonPASEConfigurations = 11"
definition Security_kStatusCode_KeyNotFound :: u16 where [status_codes]: "Security_kStatusCode_KeyNotFound = 12"
definition Security_kStatusCode_WrongEncryptionType :: u16 where [status_codes]: "Security_kStatusCode_WrongEncryptionType = 13"
definition Security_kStatusCode_UnknownSessionType :: u16 where [status_codes]: "Security_kStatusCode_UnknownSessionType = 14"
definition Security_kStatusCode_InvalidUseOfSessionKey :: u16 where [status_codes]: "Security_kStatusCode_InvalidUseOfSessionKey = 15"
definition Security_kStatusCode_InternalKeyError :: u16 where [status_codes]: "Security_kStatusCode_InternalKeyError = 16"
definition Security_kStatusCode_NoCommonKeyExportConfiguration :: u16 where [status_codes]: "Security_kStatusCode_NoCommonKeyExportConfiguration = 17"
definition Security_kStatusCode_UnathorizedKeyExportRequest :: u16 where [status_codes]: "Security_kStatusCode_UnathorizedKeyExportRequest = 18"
definition ServiceProvisioning_kStatusCode_TooManyServices :: u16 where [status_codes]: "ServiceProvisioning_kStatusCode_TooManyServices = 1"
definition ServiceProvisioning_kStatusCode_ServiceAlreadyRegistered :: u16 where [status_codes]: "ServiceProvisioning_kStatusCode_ServiceAlreadyRegistered = 2"
definition ServiceProvisioning_kStatusCode_InvalidServiceConfig :: u16 where [status_codes]: "ServiceProvisioning_kStatusCode_InvalidServiceConfig = 3"
definition ServiceProvisioning_kStatusCode_NoSuchService :: u16 where [status_codes]: "ServiceProvisioning_kStatusCode_NoSuchService = 4"
definition ServiceProvisioning_kStatusCode_PairingServerError :: u16 where [status_codes]: "ServiceProvisioning_kStatusCode_PairingServerError = 5"
definition ServiceProvisioning_kStatusCode_InvalidPairingToken :: u16 where [status_codes]: "ServiceProvisioning_kStatusCode_InvalidPairingToken = 6"
definition ServiceProvisioning_kStatusCode_PairingTokenOld :: u16 where [status_codes]: "ServiceProvisioning_kStatusCode_PairingTokenOld = 7"
definition ServiceProvisioning_kStatusCode_ServiceCommuncationError :: u16 where [status_codes]: "ServiceProvisioning_kStatusCode_ServiceCommuncationError = 8"
definition ServiceProvisioning_kStatusCode_ServiceConfigTooLarge :: u16 where [status_codes]: "ServiceProvisioning_kStatusCode_ServiceConfigTooLarge = 9"
definition SoftwareUpdate_kStatus_NoUpdateAvailable :: u16 where [status_codes]: "SoftwareUpdate_kStatus_NoUpdateAvailable = 0x0001"
definition SoftwareUpdate_kStatus_UpdateFailed :: u16 where [status_codes]: "SoftwareUpdate_kStatus_UpdateFailed = 0x0010"
definition SoftwareUpdate_kStatus_InvalidInstructions :: u16 where [status_codes]: "SoftwareUpdate_kStatus_InvalidInstructions = 0x0050"
definition SoftwareUpdate_kStatus_DownloadFailed :: u16 where [status_codes]: "SoftwareUpdate_kStatus_DownloadFailed = 0x0051"
definition SoftwareUpdate_kStatus_IntegrityCheckFailed :: u16 where [status_codes]: "SoftwareUpdate_kStatus_IntegrityCheckFailed = 0x0052"
definition SoftwareUpdate_kStatus_Abort :: u16 where [status_codes]: "SoftwareUpdate_kStatus_Abort = 0x0053"
definition SoftwareUpdate_kStatus_Retry :: u16 where [status_codes]: "SoftwareUpdate_kStatus_Retry = 0x0091"

section \<open>Texts\<close>

text \<open>
  A profile has a name, whether its number is shown (the formats that start with \<open>%08" PRIX32\<close>; the others
  use \<open>%2$\<close>), and the texts of its codes.
\<close>

definition status_text_BDX :: "(u16 \<times> string) list" where
  "status_text_BDX = [(BulkDataTransfer_kStatus_Overflow, '' Overflow''),
     (BulkDataTransfer_kStatus_LengthTooShort, '' Length too short''),
     (BulkDataTransfer_kStatus_XferFailedUnknownErr, '' Transfer failed for unknown reason''),
     (BulkDataTransfer_kStatus_XferMethodNotSupported, '' Transfer method not supported''),
     (BulkDataTransfer_kStatus_UnknownFile, '' Unknown file''),
     (BulkDataTransfer_kStatus_StartOffsetNotSupported, '' Start offset not support''),
     (BulkDataTransfer_kStatus_Unknown, '' Unknown error'')]"

definition status_text_General :: "(u16 \<times> string) list" where
  "status_text_General = [(General_kStatus_SUCCESS, '' Success''),
     (General_kStatus_FAILURE, '' Failure''),
     (General_kStatus_BAD_PRECONDITION, '' Bad Precondition''),
     (General_kStatus_OUT_OF_RANGE, '' Out of Range''),
     (General_kStatus_BAD_REQUEST, '' Bad Request''),
     (General_kStatus_UNSUPPORTED, '' Unsupported''),
     (General_kStatus_UNEXPECTED, '' Unexpected''),
     (General_kStatus_RESOURCE_EXHAUSTED, '' Resource Exhausted''),
     (General_kStatus_BUSY, '' Busy''),
     (General_kStatus_TIMEOUT, '' Timeout''),
     (General_kStatus_CONTINUE, '' Continue''),
     (General_kStatus_ABORTED, '' Aborted''),
     (General_kStatus_INVALID_ARGUMENT, '' Invalid Argument''),
     (General_kStatus_NOT_FOUND, '' Not Found''),
     (General_kStatus_ALREADY_EXISTS, '' Already Exists''),
     (General_kStatus_PERMISSION_DENIED, '' Permission Denied''),
     (General_kStatus_DATA_LOSS, '' Data Loss'')]"

definition status_text_Common :: "(u16 \<times> string) list" where
  "status_text_Common = [(Common_kStatus_SESSION_ESTABLISHMENT_SUCCESS, '' Session Establishment Success''),
     (Common_kStatus_NO_SHARED_TRUST_ROOTS, '' No Shared Trust Roots''),
     (Common_kStatus_INVALID_PARAMETER, '' Invalid Parameter''),
     (Common_kStatus_CLOSE_SESSION, '' Close Session''),
     (Common_kStatus_BUSY, '' Busy''),
     (Common_kStatus_SESSION_NOT_FOUND, '' Session Not Found'')]"

definition status_text_IM :: "(u16 \<times> string) list" where
  "status_text_IM = [(InteractionModel_kStatus_InvalidValueInNotification, '' Invalid valid in notification''),
     (InteractionModel_kStatus_InvalidPath, '' Invalid path''),
     (InteractionModel_kStatus_ExpiryTimeNotSupported, '' Expiry time not supported''),
     (InteractionModel_kStatus_NotTimeSyncedYet, '' Time not synchronized''),
     (InteractionModel_kStatus_RequestExpiredInTime, '' Request expired''),
     (InteractionModel_kStatus_VersionMismatch, '' Version mismatch''),
     (InteractionModel_kStatus_GeneralProtocolError, '' General protocol error''),
     (InteractionModel_kStatus_SecurityError, '' Security error''),
     (InteractionModel_kStatus_InvalidSubscriptionID, '' Invalid subscription ID''),
     (InteractionModel_kStatus_GeneralSchemaViolation, '' General schema violation'')]"

definition status_text_DeviceControl :: "(u16 \<times> string) list" where
  "status_text_DeviceControl = [(DeviceControl_kStatusCode_FailSafeAlreadyActive, '' Fail-safe already active''),
     (DeviceControl_kStatusCode_NoFailSafeActive, '' No fail-safe active''),
     (DeviceControl_kStatusCode_NoMatchingFailSafeActive, '' No matching fail-safe active''),
     (DeviceControl_kStatusCode_UnsupportedFailSafeMode, '' Unsupported fail-safe mode'')]"

definition status_text_DeviceDescription :: "(u16 \<times> string) list" where
  "status_text_DeviceDescription = []"

definition status_text_Echo :: "(u16 \<times> string) list" where
  "status_text_Echo = []"

definition status_text_FabricProvisioning :: "(u16 \<times> string) list" where
  "status_text_FabricProvisioning = [(FabricProvisioning_kStatusCode_AlreadyMemberOfFabric, '' Already member of fabric''),
     (FabricProvisioning_kStatusCode_NotMemberOfFabric, '' Not member of fabric''),
     (FabricProvisioning_kStatusCode_InvalidFabricConfig, '' Invalid fabric config'')]"

definition status_text_NetworkProvisioning :: "(u16 \<times> string) list" where
  "status_text_NetworkProvisioning = [(NetworkProvisioning_kStatusCode_UnknownNetwork, '' Unknown network''),
     (NetworkProvisioning_kStatusCode_TooManyNetworks, '' Too many networks''),
     (NetworkProvisioning_kStatusCode_InvalidNetworkConfiguration, '' Invalid network configuration''),
     (NetworkProvisioning_kStatusCode_UnsupportedNetworkType, '' Unsupported network configuration''),
     (NetworkProvisioning_kStatusCode_UnsupportedWiFiMode, '' Unsupported WiFi mode''),
     (NetworkProvisioning_kStatusCode_UnsupportedWiFiRole, '' Unsupported WiFi role''),
     (NetworkProvisioning_kStatusCode_UnsupportedWiFiSecurityType, '' Unsupported WiFi security type''),
     (NetworkProvisioning_kStatusCode_InvalidState, '' Invalid state''),
     (NetworkProvisioning_kStatusCode_TestNetworkFailed, '' Test network failed'')]"

definition status_text_Security :: "(u16 \<times> string) list" where
  "status_text_Security = [(Security_kStatusCode_SessionAborted, '' Session aborted''),
     (Security_kStatusCode_PASESupportsOnlyConfig1, '' PASE Engine only supports Config1''),
     (Security_kStatusCode_UnsupportedEncryptionType, '' Unsupported encryption type''),
     (Security_kStatusCode_InvalidSessionId, '' Invalid key id''),
     (Security_kStatusCode_DuplicateSessionId, '' Duplicate key id''),
     (Security_kStatusCode_KeyConfirmationFailed, '' Key confirmation failed''),
     (Security_kStatusCode_InternalError, '' Internal error''),
     (Security_kStatusCode_AuthenticationFailed, '' Authentication failed''),
     (Security_kStatusCode_UnsupportedCASEConfiguration, '' Unsupported CASE configuration''),
     (Security_kStatusCode_UnsupportedCertificate, '' Unsupported certificate''),
     (Security_kStatusCode_NoCommonPASEConfigurations, '' No supported PASE configurations in common''),
     (Security_kStatusCode_KeyNotFound, '' Key not found''),
     (Security_kStatusCode_WrongEncryptionType, '' Wrong encryption type''),
     (Security_kStatusCode_UnknownSessionType, '' Unknown key type''),
     (Security_kStatusCode_InvalidUseOfSessionKey, '' Invalid use of session key''),
     (Security_kStatusCode_InternalKeyError, '' Internal key error''),
     (Security_kStatusCode_NoCommonKeyExportConfiguration, '' No common key export configuration''),
     (Security_kStatusCode_UnathorizedKeyExportRequest, '' Unauthorized key export request'')]"

definition status_text_ServiceProvisioning :: "(u16 \<times> string) list" where
  "status_text_ServiceProvisioning = [(ServiceProvisioning_kStatusCode_TooManyServices, '' Too many services''),
     (ServiceProvisioning_kStatusCode_ServiceAlreadyRegistered, '' Service already registered''),
     (ServiceProvisioning_kStatusCode_InvalidServiceConfig, '' Invalid service configuration''),
     (ServiceProvisioning_kStatusCode_NoSuchService, '' No such service''),
     (ServiceProvisioning_kStatusCode_PairingServerError, '' Error talking to pairing server''),
     (ServiceProvisioning_kStatusCode_InvalidPairingToken, '' Invalid pairing token''),
     (ServiceProvisioning_kStatusCode_PairingTokenOld, '' Pairing token no longer valid''),
     (ServiceProvisioning_kStatusCode_ServiceCommuncationError, '' Service communication error''),
     (ServiceProvisioning_kStatusCode_ServiceConfigTooLarge, '' Service configuration too large'')]"

definition status_text_SWU :: "(u16 \<times> string) list" where
  "status_text_SWU = [(SoftwareUpdate_kStatus_NoUpdateAvailable, '' No software update available''),
     (SoftwareUpdate_kStatus_UpdateFailed, '' Software update failed''),
     (SoftwareUpdate_kStatus_InvalidInstructions, '' Invalid software image download instructions''),
     (SoftwareUpdate_kStatus_DownloadFailed, '' Software image download failed''),
     (SoftwareUpdate_kStatus_IntegrityCheckFailed, '' Software image integrity check failed''),
     (SoftwareUpdate_kStatus_Abort, '' Software image query aborted''),
     (SoftwareUpdate_kStatus_Retry, '' Retry software image query'')]"

definition status_profiles :: "(u32 \<times> string \<times> bool \<times> (u16 \<times> string) list) list" where
  "status_profiles =
    [(kMatterProfile_BDX, ''BDX'', True, status_text_BDX),
     (kMatterProfile_General, ''General'', False, status_text_General),
     (kMatterProfile_Common, ''Session'', False, status_text_Common),
     (kMatterProfile_IM, ''IM'', True, status_text_IM),
     (kMatterProfile_DeviceControl, ''DeviceControl'', True, status_text_DeviceControl),
     (kMatterProfile_DeviceDescription, ''DeviceDescription'', True, status_text_DeviceDescription),
     (kMatterProfile_Echo, ''Echo'', True, status_text_Echo),
     (kMatterProfile_FabricProvisioning, ''FabricProvisioning'', True, status_text_FabricProvisioning),
     (kMatterProfile_NetworkProvisioning, ''NetworkProvisioning'', True, status_text_NetworkProvisioning),
     (kMatterProfile_Security, ''Security'', True, status_text_Security),
     (kMatterProfile_ServiceProvisioning, ''ServiceProvisioning'', True, status_text_ServiceProvisioning),
     (kMatterProfile_SWU, ''SWU'', True, status_text_SWU)]"

definition status_format :: "u32 \<Rightarrow> u16 \<Rightarrow> string" where
  "status_format profileId statusCode =
     (case map_of status_profiles profileId of
        None \<Rightarrow> ''[ '' @ hex_upper 8 (unat profileId) @ '':'' @ dec (unat statusCode) @ '' ]''
      | Some (name, showId, texts) \<Rightarrow>
          ''[ '' @ name @ (if showId then ''('' @ hex_upper 8 (unat profileId) @ '')'' else '''') @ '':'' @
          dec (unat statusCode) @ '' ]'' @
          (case map_of texts statusCode of None \<Rightarrow> '''' | Some t \<Rightarrow> t))"

text \<open>\<open>snprintf\<close> into the buffer of which it gets all but two bytes.\<close>

definition sErrorStr_size :: nat where "sErrorStr_size = 1024"

definition StatusReportStr :: "u32 \<Rightarrow> u16 \<Rightarrow> string" where
  "StatusReportStr profileId statusCode = take (sErrorStr_size - 2 - 1) (status_format profileId statusCode)"

section \<open>The text identifies the report\<close>

definition profile_text :: "u32 \<Rightarrow> string" where
  "profile_text profileId =
     (case map_of status_profiles profileId of
        None \<Rightarrow> hex_upper 8 (unat profileId)
      | Some (name, showId, texts) \<Rightarrow>
          name @ (if showId then ''('' @ hex_upper 8 (unat profileId) @ '')'' else ''''))"

lemma status_format_split:
  "\<exists>t. status_format p s = ''[ '' @ profile_text p @ '':'' @ dec (unat s) @ '' ]'' @ t \<and> length t < 900"
proof (cases "map_of status_profiles p")
  case None
  then show ?thesis by (simp add: status_format_def profile_text_def)
next
  case (Some row)
  obtain name showId texts where row: "row = (name, showId, texts)" by (cases row)
  have "list_all (\<lambda>(p, n, i, texts). list_all (\<lambda>(c, t). length t < 900) texts) status_profiles"
    by (simp add: status_profiles_def status_text_BDX_def status_text_General_def status_text_Common_def
      status_text_IM_def status_text_DeviceControl_def status_text_DeviceDescription_def status_text_Echo_def
      status_text_FabricProvisioning_def status_text_NetworkProvisioning_def status_text_Security_def
      status_text_ServiceProvisioning_def status_text_SWU_def)
  then have "list_all (\<lambda>(c, t). length t < 900) texts"
    using Some map_of_SomeD [of status_profiles p row] row by (auto simp: list_all_iff)
  then have "length (case map_of texts s of None \<Rightarrow> '''' | Some t \<Rightarrow> t) < 900"
    by (auto simp: list_all_iff split: option.splits dest!: map_of_SomeD)
  then show ?thesis using Some row by (auto simp: status_format_def profile_text_def)
qed

lemma status_name_short: "map_of status_profiles p = Some (n, i, t) \<Longrightarrow> length n < 30 \<and> CHR '':'' \<notin> set n"
proof -
  assume "map_of status_profiles p = Some (n, i, t)"
  then have "(p, n, i, t) \<in> set status_profiles" by (rule map_of_SomeD)
  moreover have "list_all (\<lambda>(p, n, i, t). length n < 30 \<and> CHR '':'' \<notin> set n) status_profiles"
    by (simp add: status_profiles_def)
  ultimately show ?thesis by (auto simp: list_all_iff)
qed

lemma hex8 [simp]: "length (hex_upper 8 (unat (p :: u32))) = 8"
  using length_digits [of 16 "unat p" 8] unsigned_less [of p, where ?'a = nat] by (simp add: hex_upper_def pad_def)

lemma profile_text_short: "length (profile_text p) < 50"
proof (cases "map_of status_profiles p")
  case (Some row)
  obtain n i t where "row = (n, i, t)" by (cases row)
  then show ?thesis using Some status_name_short [of p n i t] by (simp add: profile_text_def)
qed (simp add: profile_text_def)

lemma digit_upper_inj: "d < 16 \<Longrightarrow> e < 16 \<Longrightarrow> digit_upper d = digit_upper e \<Longrightarrow> d = e"
proof -
  have "distinct ''0123456789ABCDEF''" by simp
  then show "d < 16 \<Longrightarrow> e < 16 \<Longrightarrow> digit_upper d = digit_upper e \<Longrightarrow> d = e"
    unfolding digit_upper_def by (subst (asm) nth_eq_iff_index_eq) simp_all
qed

lemma digit_lower_inj: "d < 16 \<Longrightarrow> e < 16 \<Longrightarrow> digit_lower d = digit_lower e \<Longrightarrow> d = e"
proof -
  have "distinct ''0123456789abcdef''" by simp
  then show "d < 16 \<Longrightarrow> e < 16 \<Longrightarrow> digit_lower d = digit_lower e \<Longrightarrow> d = e"
    unfolding digit_lower_def by (subst (asm) nth_eq_iff_index_eq) simp_all
qed

lemma pad_bound: "d \<in> set (pad w (digits 16 n)) \<Longrightarrow> d < 16"
  using digits_bound [of 16 d n] by (auto simp: pad_def)

lemma hex_upper_inj: "hex_upper w m = hex_upper w n \<Longrightarrow> m = n"
proof -
  assume "hex_upper w m = hex_upper w n"
  then have "pad w (digits 16 m) = pad w (digits 16 n)"
    unfolding hex_upper_def
    by (rule map_inj_on) (rule inj_onI, rule digit_upper_inj, auto dest: pad_bound)
  from arg_cong [where f = "undigits 16", OF this] show "m = n" by (simp only: undigits_pad undigits_digits)
qed

lemma dec_inj: "dec m = dec n \<Longrightarrow> m = n"
proof -
  have b: "d \<in> set (digits 10 k) \<Longrightarrow> d < 16" for d k using digits_bound [of 10 d k] by simp
  assume "dec m = dec n"
  then have "digits 10 m = digits 10 n"
    unfolding dec_def by (rule map_inj_on) (rule inj_onI, rule digit_lower_inj, auto dest: b)
  then show "m = n" using undigits_digits by metis
qed

lemma hex_upper_chars: "c \<in> set (hex_upper w n) \<Longrightarrow> c \<in> set ''0123456789ABCDEF''"
proof -
  assume "c \<in> set (hex_upper w n)"
  then obtain d where "d < 16" "c = digit_upper d" by (auto simp: hex_upper_def dest: pad_bound)
  then show ?thesis unfolding digit_upper_def by (simp only:) (rule nth_mem, simp)
qed

lemma dec_chars: "c \<in> set (dec n) \<Longrightarrow> c \<in> set ''0123456789abcdef''"
proof -
  assume "c \<in> set (dec n)"
  then obtain d where "d \<in> set (digits 10 n)" "c = digit_lower d" by (auto simp: dec_def)
  moreover from this have "d < 16" using digits_bound [of 10 d n] by simp
  ultimately show ?thesis unfolding digit_lower_def by (simp only:) (rule nth_mem, simp)
qed

lemma length_dec_word: "length (dec (unat (s :: u16))) < 6"
  using length_digits [of 10 "unat s" 5] unsigned_less [of s, where ?'a = nat] by (simp add: dec_def)

lemma profile_text_no_colon: "CHR '':'' \<notin> set (profile_text p)"
proof (cases "map_of status_profiles p")
  case (Some row)
  obtain n i t where "row = (n, i, t)" by (cases row)
  then show ?thesis
    using Some status_name_short [of p n i t] by (auto simp: profile_text_def dest!: hex_upper_chars)
qed (auto simp: profile_text_def dest!: hex_upper_chars)

text \<open>The three kinds of a profile's text: a number, a name with the number, one of two names.\<close>

lemma profile_text_cases:
  obtains (number) "profile_text p = hex_upper 8 (unat p)"
    | (named) n where "profile_text p = n @ ''('' @ hex_upper 8 (unat p) @ '')''"
    | (general) "profile_text p = ''General''" "p = kMatterProfile_General"
    | (session) "profile_text p = ''Session''" "p = kMatterProfile_Common"
proof (cases "map_of status_profiles p")
  case None
  then show ?thesis using number by (simp add: profile_text_def)
next
  case (Some row)
  obtain n i t where row: "row = (n, i, t)" by (cases row)
  then have mem: "(p, n, i, t) \<in> set status_profiles" using Some map_of_SomeD by fastforce
  have "list_all (\<lambda>(p, n, i, t). i \<or> n = ''General'' \<and> p = kMatterProfile_General \<or>
      n = ''Session'' \<and> p = kMatterProfile_Common) status_profiles"
    by (simp add: status_profiles_def)
  then have k: "i \<or> n = ''General'' \<and> p = kMatterProfile_General \<or> n = ''Session'' \<and> p = kMatterProfile_Common"
    using mem by (auto simp: list_all_iff)
  show ?thesis
  proof (cases i)
    case True
    then have "profile_text p = n @ ''('' @ hex_upper 8 (unat p) @ '')''" using Some row by (simp add: profile_text_def)
    then show ?thesis by (rule named)
  next
    case False
    then have "profile_text p = n" using Some row by (simp add: profile_text_def)
    then show ?thesis using k False general session by blast
  qed
qed

lemma profile_text_inj:
  assumes eq: "profile_text p = profile_text q"
  shows "p = q"
proof -
  have hex: "hex_upper 8 (unat p) = hex_upper 8 (unat q) \<Longrightarrow> p = q"
    by (drule hex_upper_inj) (simp add: word_unat_eq_iff)
  have paren: "CHR '')'' \<notin> set (hex_upper 8 m)" for m using hex_upper_chars [of "CHR '')''" 8 m] by auto
  show ?thesis
  proof (rule profile_text_cases [of p]; rule profile_text_cases [of q])
    fix n m
    assume "profile_text p = n @ ''('' @ hex_upper 8 (unat p) @ '')''" "profile_text q = m @ ''('' @ hex_upper 8 (unat q) @ '')''"
    then have "(n @ ''('') @ (hex_upper 8 (unat p) @ '')'') = (m @ ''('') @ (hex_upper 8 (unat q) @ '')'')" using eq by simp
    then have "hex_upper 8 (unat p) @ '')'' = hex_upper 8 (unat q) @ '')''" by (subst (asm) append_eq_append_conv) simp_all
    then show ?thesis using hex by simp
  qed (use eq hex in \<open>auto dest: arg_cong [where f = set] arg_cong [where f = length] simp: paren\<close>)
qed

lemma split_at_char:
  assumes "xs @ c # ys = xs' @ c # ys'" and "c \<notin> set xs" and "c \<notin> set xs'"
  shows "xs = xs' \<and> ys = ys'"
proof -
  have "takeWhile (\<lambda>a. a \<noteq> c) (xs @ c # ys) = xs" "takeWhile (\<lambda>a. a \<noteq> c) (xs' @ c # ys') = xs'"
    using assms(2,3) by (simp_all add: takeWhile_append takeWhile_eq_all_conv)
  then have "xs = xs'" using assms(1) by simp
  then show ?thesis using assms(1) by simp
qed

lemma StatusReportStr_format: "StatusReportStr p s = status_format p s"
proof -
  obtain t where "status_format p s = ''[ '' @ profile_text p @ '':'' @ dec (unat s) @ '' ]'' @ t" "length t < 900"
    using status_format_split by blast
  then show ?thesis
    using profile_text_short [of p] length_dec_word [of s] by (simp add: StatusReportStr_def sErrorStr_size_def)
qed

lemma status_format_inj:
  assumes "status_format p s = status_format q r"
  shows "p = q \<and> s = r"
proof -
  obtain t u where t: "status_format p s = ''[ '' @ profile_text p @ '':'' @ dec (unat s) @ '' ]'' @ t"
    "status_format q r = ''[ '' @ profile_text q @ '':'' @ dec (unat r) @ '' ]'' @ u"
    using status_format_split by blast
  then have "profile_text p @ CHR '':'' # dec (unat s) @ '' ]'' @ t = profile_text q @ CHR '':'' # dec (unat r) @ '' ]'' @ u"
    using assms by simp
  from split_at_char [OF this profile_text_no_colon profile_text_no_colon]
  have e: "profile_text p = profile_text q" "dec (unat s) @ CHR '' '' # '']'' @ t = dec (unat r) @ CHR '' '' # '']'' @ u"
    by simp_all
  have sp: "CHR '' '' \<notin> set (dec n)" for n using dec_chars [of "CHR '' ''" n] by auto
  from split_at_char [OF e(2) sp sp] have "dec (unat s) = dec (unat r)" by simp
  then have "s = r" using dec_inj by (simp add: word_unat_eq_iff)
  then show ?thesis using profile_text_inj [OF e(1)] by simp
qed

end
