(* ===== verification/Protocol_Tags.thy ===== *)
theory Protocol_Tags
  imports Matter_Prelude
begin

text \<open>
  The tag numbers of the messages that the dissectors of the protocols take apart, each under the name of its
  namespace.
\<close>

named_theorems tag_numbers \<open>tag numbers\<close>

text \<open>CASE messages (\<open>MatterCASE.h\<close>).\<close>

definition Sigma1_kTag_InitiatorRandom :: u32 where [tag_numbers]: "Sigma1_kTag_InitiatorRandom = 1"
definition Sigma1_kTag_InitiatorSessionId :: u32 where [tag_numbers]: "Sigma1_kTag_InitiatorSessionId = 2"
definition Sigma1_kTag_DestinationId :: u32 where [tag_numbers]: "Sigma1_kTag_DestinationId = 3"
definition Sigma1_kTag_InitiatorEphPubKey :: u32 where [tag_numbers]: "Sigma1_kTag_InitiatorEphPubKey = 4"
definition Sigma1_kTag_InitiatorSleepyParams :: u32 where [tag_numbers]: "Sigma1_kTag_InitiatorSleepyParams = 5"
definition Sigma1_kTag_ResumptionId :: u32 where [tag_numbers]: "Sigma1_kTag_ResumptionId = 6"
definition Sigma1_kTag_InitiatorResumeMic :: u32 where [tag_numbers]: "Sigma1_kTag_InitiatorResumeMic = 7"
definition Sigma2_kTag_ResponderRandom :: u32 where [tag_numbers]: "Sigma2_kTag_ResponderRandom = 1"
definition Sigma2_kTag_ResponderSessionId :: u32 where [tag_numbers]: "Sigma2_kTag_ResponderSessionId = 2"
definition Sigma2_kTag_ResponderEphPubKey :: u32 where [tag_numbers]: "Sigma2_kTag_ResponderEphPubKey = 3"
definition Sigma2_kTag_Encrypted2 :: u32 where [tag_numbers]: "Sigma2_kTag_Encrypted2 = 4"
definition Sigma2_kTag_ResponderSleepyParams :: u32 where [tag_numbers]: "Sigma2_kTag_ResponderSleepyParams = 5"
definition Sigma3_kTag_Encrypted3 :: u32 where [tag_numbers]: "Sigma3_kTag_Encrypted3 = 1"
definition Sigma2_Resume_kTag_ResumptionId :: u32 where [tag_numbers]: "Sigma2_Resume_kTag_ResumptionId = 1"
definition Sigma2_Resume_kTag_ResumeMic :: u32 where [tag_numbers]: "Sigma2_Resume_kTag_ResumeMic = 2"
definition Sigma2_Resume_kTag_ResponderSessionId :: u32 where [tag_numbers]: "Sigma2_Resume_kTag_ResponderSessionId = 3"
definition Sigma2_Resume_kTag_ResponderSleepyParams :: u32 where [tag_numbers]: "Sigma2_Resume_kTag_ResponderSleepyParams = 4"

text \<open>Session parameters (\<open>packet-matter-common.cpp\<close>).\<close>

definition kSessionIdleInterval :: u32 where [tag_numbers]: "kSessionIdleInterval = 1"
definition kSessionActiveInterval :: u32 where [tag_numbers]: "kSessionActiveInterval = 2"
definition kSessionActiveThreshold :: u32 where [tag_numbers]: "kSessionActiveThreshold = 3"
definition kDataModelRevision :: u32 where [tag_numbers]: "kDataModelRevision = 4"
definition kInteractionModelRevision :: u32 where [tag_numbers]: "kInteractionModelRevision = 5"
definition kSpecificationVersion :: u32 where [tag_numbers]: "kSpecificationVersion = 6"
definition kMaxPathsPerInvoke :: u32 where [tag_numbers]: "kMaxPathsPerInvoke = 7"

text \<open>User directed commissioning (\<open>packet-matter-udc.cpp\<close>).\<close>

definition UDC_kVendorIdTag :: u32 where [tag_numbers]: "UDC_kVendorIdTag = 1"
definition UDC_kProductIdTag :: u32 where [tag_numbers]: "UDC_kProductIdTag = 2"
definition UDC_kDeviceNameTag :: u32 where [tag_numbers]: "UDC_kDeviceNameTag = 3"
definition UDC_kDeviceTypeTag :: u32 where [tag_numbers]: "UDC_kDeviceTypeTag = 4"
definition UDC_kPairingInstTag :: u32 where [tag_numbers]: "UDC_kPairingInstTag = 5"
definition UDC_kPairingHintTag :: u32 where [tag_numbers]: "UDC_kPairingHintTag = 6"
definition UDC_kRotatingIdTag :: u32 where [tag_numbers]: "UDC_kRotatingIdTag = 7"
definition UDC_kCdPortTag :: u32 where [tag_numbers]: "UDC_kCdPortTag = 8"
definition UDC_kTargetAppListTag :: u32 where [tag_numbers]: "UDC_kTargetAppListTag = 9"
definition UDC_kTargetAppTag :: u32 where [tag_numbers]: "UDC_kTargetAppTag = 10"
definition UDC_kAppVendorIdTag :: u32 where [tag_numbers]: "UDC_kAppVendorIdTag = 11"
definition UDC_kAppProductIdTag :: u32 where [tag_numbers]: "UDC_kAppProductIdTag = 12"
definition UDC_kNoPasscodeTag :: u32 where [tag_numbers]: "UDC_kNoPasscodeTag = 13"
definition UDC_kCdUponPasscodeDialogTag :: u32 where [tag_numbers]: "UDC_kCdUponPasscodeDialogTag = 14"
definition UDC_kCommissionerPasscodeTag :: u32 where [tag_numbers]: "UDC_kCommissionerPasscodeTag = 15"
definition UDC_kCommissionerPasscodeReadyTag :: u32 where [tag_numbers]: "UDC_kCommissionerPasscodeReadyTag = 16"
definition UDC_kCancelPasscodeTag :: u32 where [tag_numbers]: "UDC_kCancelPasscodeTag = 17"
definition UDC_kPasscodeLengthTag :: u32 where [tag_numbers]: "UDC_kPasscodeLengthTag = 18"

text \<open>The interaction model (\<open>MessageDef.h\<close>).\<close>

definition CommonActionInfo_kTag_InteractionModelRevision :: u32 where [tag_numbers]: "CommonActionInfo_kTag_InteractionModelRevision = 0xFF"
definition Event_kTag_Data :: u32 where [tag_numbers]: "Event_kTag_Data = 50"
definition StatusResponse_kTag_Status :: u32 where [tag_numbers]: "StatusResponse_kTag_Status = 0"
definition ReadRequest_kTag_AttributeRequests :: u32 where [tag_numbers]: "ReadRequest_kTag_AttributeRequests = 0"
definition ReadRequest_kTag_EventRequests :: u32 where [tag_numbers]: "ReadRequest_kTag_EventRequests = 1"
definition ReadRequest_kTag_EventFilters :: u32 where [tag_numbers]: "ReadRequest_kTag_EventFilters = 2"
definition ReadRequest_kTag_IsFabricFiltered :: u32 where [tag_numbers]: "ReadRequest_kTag_IsFabricFiltered = 3"
definition ReadRequest_kTag_DataVersionFilters :: u32 where [tag_numbers]: "ReadRequest_kTag_DataVersionFilters = 4"
definition ReportData_kTag_SubscriptionID :: u32 where [tag_numbers]: "ReportData_kTag_SubscriptionID = 0"
definition ReportData_kTag_AttributeReports :: u32 where [tag_numbers]: "ReportData_kTag_AttributeReports = 1"
definition ReportData_kTag_EventReports :: u32 where [tag_numbers]: "ReportData_kTag_EventReports = 2"
definition ReportData_kTag_MoreChunkedMessages :: u32 where [tag_numbers]: "ReportData_kTag_MoreChunkedMessages = 3"
definition ReportData_kTag_SuppressResponse :: u32 where [tag_numbers]: "ReportData_kTag_SuppressResponse = 4"
definition SubscribeRequest_kTag_KeepSubscriptions :: u32 where [tag_numbers]: "SubscribeRequest_kTag_KeepSubscriptions = 0"
definition SubscribeRequest_kTag_MinIntervalFloor :: u32 where [tag_numbers]: "SubscribeRequest_kTag_MinIntervalFloor = 1"
definition SubscribeRequest_kTag_MaxIntervalCeiling :: u32 where [tag_numbers]: "SubscribeRequest_kTag_MaxIntervalCeiling = 2"
definition SubscribeRequest_kTag_AttributeRequests :: u32 where [tag_numbers]: "SubscribeRequest_kTag_AttributeRequests = 3"
definition SubscribeRequest_kTag_EventRequests :: u32 where [tag_numbers]: "SubscribeRequest_kTag_EventRequests = 4"
definition SubscribeRequest_kTag_EventFilters :: u32 where [tag_numbers]: "SubscribeRequest_kTag_EventFilters = 5"
definition SubscribeRequest_kTag_IsFabricFiltered :: u32 where [tag_numbers]: "SubscribeRequest_kTag_IsFabricFiltered = 7"
definition SubscribeRequest_kTag_DataVersionFilters :: u32 where [tag_numbers]: "SubscribeRequest_kTag_DataVersionFilters = 8"
definition SubscribeResponse_kTag_SubscriptionID :: u32 where [tag_numbers]: "SubscribeResponse_kTag_SubscriptionID = 0"
definition SubscribeResponse_kTag_MaxInterval :: u32 where [tag_numbers]: "SubscribeResponse_kTag_MaxInterval = 2"
definition WriteRequest_kTag_SuppressResponse :: u32 where [tag_numbers]: "WriteRequest_kTag_SuppressResponse = 0"
definition WriteRequest_kTag_TimedRequest :: u32 where [tag_numbers]: "WriteRequest_kTag_TimedRequest = 1"
definition WriteRequest_kTag_WriteRequests :: u32 where [tag_numbers]: "WriteRequest_kTag_WriteRequests = 2"
definition WriteRequest_kTag_MoreChunkedMessages :: u32 where [tag_numbers]: "WriteRequest_kTag_MoreChunkedMessages = 3"
definition WriteResponse_kTag_WriteResponses :: u32 where [tag_numbers]: "WriteResponse_kTag_WriteResponses = 0"
definition InvokeCommandRequest_kTag_SuppressResponse :: u32 where [tag_numbers]: "InvokeCommandRequest_kTag_SuppressResponse = 0"
definition InvokeCommandRequest_kTag_TimedRequest :: u32 where [tag_numbers]: "InvokeCommandRequest_kTag_TimedRequest = 1"
definition InvokeCommandRequest_kTag_CommandList :: u32 where [tag_numbers]: "InvokeCommandRequest_kTag_CommandList = 2"
definition InvokeCommandResponse_kTag_SuppressResponse :: u32 where [tag_numbers]: "InvokeCommandResponse_kTag_SuppressResponse = 0"
definition InvokeCommandResponse_kTag_InvokeResponses :: u32 where [tag_numbers]: "InvokeCommandResponse_kTag_InvokeResponses = 1"
definition CommandDataIB_kTag_Path :: u32 where [tag_numbers]: "CommandDataIB_kTag_Path = 0"
definition CommandDataIB_kTag_Data :: u32 where [tag_numbers]: "CommandDataIB_kTag_Data = 1"
definition InvokeResponseIB_kTag_Command :: u32 where [tag_numbers]: "InvokeResponseIB_kTag_Command = 0"
definition InvokeResponseIB_kTag_Status :: u32 where [tag_numbers]: "InvokeResponseIB_kTag_Status = 1"
definition CommandStatusIB_kTag_Path :: u32 where [tag_numbers]: "CommandStatusIB_kTag_Path = 0"
definition CommandStatusIB_kTag_Status :: u32 where [tag_numbers]: "CommandStatusIB_kTag_Status = 1"
definition CommandStatusIB_kTag_Ref :: u32 where [tag_numbers]: "CommandStatusIB_kTag_Ref = 2"
definition StatusIB_kTag_Status :: u32 where [tag_numbers]: "StatusIB_kTag_Status = 0"
definition StatusIB_kTag_ClusterStatus :: u32 where [tag_numbers]: "StatusIB_kTag_ClusterStatus = 1"
definition TimedRequest_kTag_TimeoutMs :: u32 where [tag_numbers]: "TimedRequest_kTag_TimeoutMs = 0"

text \<open>Certificates and the security protocol (\<open>MatterSecurity.h\<close>).\<close>

definition Security_kTag_MatterCertificate :: u32 where [tag_numbers]: "Security_kTag_MatterCertificate = 1"
definition Security_kTag_EllipticCurvePrivateKey :: u32 where [tag_numbers]: "Security_kTag_EllipticCurvePrivateKey = 2"
definition Security_kTag_RSAPrivateKey :: u32 where [tag_numbers]: "Security_kTag_RSAPrivateKey = 3"
definition Security_kTag_MatterCertificateList :: u32 where [tag_numbers]: "Security_kTag_MatterCertificateList = 4"
definition Security_kTag_MatterSignature :: u32 where [tag_numbers]: "Security_kTag_MatterSignature = 5"
definition Security_kTag_MatterCertificateReference :: u32 where [tag_numbers]: "Security_kTag_MatterCertificateReference = 6"
definition Security_kTag_MatterCASECertificateInformation :: u32 where [tag_numbers]: "Security_kTag_MatterCASECertificateInformation = 7"
definition Security_kTag_MatterCASESignature :: u32 where [tag_numbers]: "Security_kTag_MatterCASESignature = 8"
definition Security_kTag_MatterAccessToken :: u32 where [tag_numbers]: "Security_kTag_MatterAccessToken = 9"
definition Security_kTag_GroupKeySignature :: u32 where [tag_numbers]: "Security_kTag_GroupKeySignature = 10"
definition Security_kTag_SerialNumber :: u32 where [tag_numbers]: "Security_kTag_SerialNumber = 1"
definition Security_kTag_SignatureAlgorithm :: u32 where [tag_numbers]: "Security_kTag_SignatureAlgorithm = 2"
definition Security_kTag_Issuer :: u32 where [tag_numbers]: "Security_kTag_Issuer = 3"
definition Security_kTag_NotBefore :: u32 where [tag_numbers]: "Security_kTag_NotBefore = 4"
definition Security_kTag_NotAfter :: u32 where [tag_numbers]: "Security_kTag_NotAfter = 5"
definition Security_kTag_Subject :: u32 where [tag_numbers]: "Security_kTag_Subject = 6"
definition Security_kTag_PublicKeyAlgorithm :: u32 where [tag_numbers]: "Security_kTag_PublicKeyAlgorithm = 7"
definition Security_kTag_EllipticCurveIdentifier :: u32 where [tag_numbers]: "Security_kTag_EllipticCurveIdentifier = 8"
definition Security_kTag_RSAPublicKey :: u32 where [tag_numbers]: "Security_kTag_RSAPublicKey = 9"
definition Security_kTag_EllipticCurvePublicKey :: u32 where [tag_numbers]: "Security_kTag_EllipticCurvePublicKey = 10"
definition Security_kTag_RSASignature :: u32 where [tag_numbers]: "Security_kTag_RSASignature = 11"
definition Security_kTag_ECDSASignature :: u32 where [tag_numbers]: "Security_kTag_ECDSASignature = 12"
definition Security_kTag_AuthoritySessionIdentifier :: u32 where [tag_numbers]: "Security_kTag_AuthoritySessionIdentifier = 128"
definition Security_kTag_SubjectSessionIdentifier :: u32 where [tag_numbers]: "Security_kTag_SubjectSessionIdentifier = 129"
definition Security_kTag_KeyUsage :: u32 where [tag_numbers]: "Security_kTag_KeyUsage = 130"
definition Security_kTag_BasicConstraints :: u32 where [tag_numbers]: "Security_kTag_BasicConstraints = 131"
definition Security_kTag_ExtendedKeyUsage :: u32 where [tag_numbers]: "Security_kTag_ExtendedKeyUsage = 132"
definition Security_kTag_RSAPublicKey_Modulus :: u32 where [tag_numbers]: "Security_kTag_RSAPublicKey_Modulus = 1"
definition Security_kTag_RSAPublicKey_PublicExponent :: u32 where [tag_numbers]: "Security_kTag_RSAPublicKey_PublicExponent = 2"
definition Security_kTag_ECDSASignature_r :: u32 where [tag_numbers]: "Security_kTag_ECDSASignature_r = 1"
definition Security_kTag_ECDSASignature_s :: u32 where [tag_numbers]: "Security_kTag_ECDSASignature_s = 2"
definition Security_kTag_AuthoritySessionIdentifier_Critical :: u32 where [tag_numbers]: "Security_kTag_AuthoritySessionIdentifier_Critical = 1"
definition Security_kTag_AuthoritySessionIdentifier_SessionIdentifier :: u32 where [tag_numbers]: "Security_kTag_AuthoritySessionIdentifier_SessionIdentifier = 2"
definition Security_kTag_AuthoritySessionIdentifier_Issuer :: u32 where [tag_numbers]: "Security_kTag_AuthoritySessionIdentifier_Issuer = 3"
definition Security_kTag_AuthoritySessionIdentifier_SerialNumber :: u32 where [tag_numbers]: "Security_kTag_AuthoritySessionIdentifier_SerialNumber = 4"
definition Security_kTag_SubjectSessionIdentifier_Critical :: u32 where [tag_numbers]: "Security_kTag_SubjectSessionIdentifier_Critical = 1"
definition Security_kTag_SubjectSessionIdentifier_SessionIdentifier :: u32 where [tag_numbers]: "Security_kTag_SubjectSessionIdentifier_SessionIdentifier = 2"
definition Security_kTag_KeyUsage_Critical :: u32 where [tag_numbers]: "Security_kTag_KeyUsage_Critical = 1"
definition Security_kTag_KeyUsage_KeyUsage :: u32 where [tag_numbers]: "Security_kTag_KeyUsage_KeyUsage = 2"
definition Security_kTag_BasicConstraints_Critical :: u32 where [tag_numbers]: "Security_kTag_BasicConstraints_Critical = 1"
definition Security_kTag_BasicConstraints_IsCA :: u32 where [tag_numbers]: "Security_kTag_BasicConstraints_IsCA = 2"
definition Security_kTag_BasicConstraints_PathLenConstraint :: u32 where [tag_numbers]: "Security_kTag_BasicConstraints_PathLenConstraint = 3"
definition Security_kTag_ExtendedKeyUsage_Critical :: u32 where [tag_numbers]: "Security_kTag_ExtendedKeyUsage_Critical = 1"
definition Security_kTag_ExtendedKeyUsage_KeyPurposes :: u32 where [tag_numbers]: "Security_kTag_ExtendedKeyUsage_KeyPurposes = 2"
definition Security_kTag_EllipticCurvePrivateKey_CurveIdentifier :: u32 where [tag_numbers]: "Security_kTag_EllipticCurvePrivateKey_CurveIdentifier = 1"
definition Security_kTag_EllipticCurvePrivateKey_PrivateKey :: u32 where [tag_numbers]: "Security_kTag_EllipticCurvePrivateKey_PrivateKey = 2"
definition Security_kTag_EllipticCurvePrivateKey_PublicKey :: u32 where [tag_numbers]: "Security_kTag_EllipticCurvePrivateKey_PublicKey = 3"
definition Security_kTag_MatterSignature_ECDSASignature :: u32 where [tag_numbers]: "Security_kTag_MatterSignature_ECDSASignature = 1"
definition Security_kTag_MatterSignature_RSASignature :: u32 where [tag_numbers]: "Security_kTag_MatterSignature_RSASignature = 2"
definition Security_kTag_MatterSignature_SigningCertificateRef :: u32 where [tag_numbers]: "Security_kTag_MatterSignature_SigningCertificateRef = 3"
definition Security_kTag_MatterSignature_RelatedCertificates :: u32 where [tag_numbers]: "Security_kTag_MatterSignature_RelatedCertificates = 4"
definition Security_kTag_MatterSignature_SignatureAlgorithm :: u32 where [tag_numbers]: "Security_kTag_MatterSignature_SignatureAlgorithm = 5"
definition Security_kTag_MatterCertificateRef_Subject :: u32 where [tag_numbers]: "Security_kTag_MatterCertificateRef_Subject = 1"
definition Security_kTag_MatterCertificateRef_PublicSessionId :: u32 where [tag_numbers]: "Security_kTag_MatterCertificateRef_PublicSessionId = 2"
definition Security_kTag_CASECertificateInfo_EntityCertificate :: u32 where [tag_numbers]: "Security_kTag_CASECertificateInfo_EntityCertificate = 1"
definition Security_kTag_CASECertificateInfo_EntityCertificateRef :: u32 where [tag_numbers]: "Security_kTag_CASECertificateInfo_EntityCertificateRef = 2"
definition Security_kTag_CASECertificateInfo_RelatedCertificates :: u32 where [tag_numbers]: "Security_kTag_CASECertificateInfo_RelatedCertificates = 3"
definition Security_kTag_CASECertificateInfo_TrustAnchors :: u32 where [tag_numbers]: "Security_kTag_CASECertificateInfo_TrustAnchors = 4"
definition Security_kTag_AccessToken_Certificate :: u32 where [tag_numbers]: "Security_kTag_AccessToken_Certificate = 1"
definition Security_kTag_AccessToken_PrivateKey :: u32 where [tag_numbers]: "Security_kTag_AccessToken_PrivateKey = 2"
definition Security_kTag_AccessToken_RelatedCertificates :: u32 where [tag_numbers]: "Security_kTag_AccessToken_RelatedCertificates = 3"
definition Security_kTag_GroupKeySignature_SignatureAlgorithm :: u32 where [tag_numbers]: "Security_kTag_GroupKeySignature_SignatureAlgorithm = 1"
definition Security_kTag_GroupKeySignature_SessionId :: u32 where [tag_numbers]: "Security_kTag_GroupKeySignature_SessionId = 2"
definition Security_kTag_GroupKeySignature_Signature :: u32 where [tag_numbers]: "Security_kTag_GroupKeySignature_Signature = 3"
definition Security_kTag_DNAttrType_CommonName :: u32 where [tag_numbers]: "Security_kTag_DNAttrType_CommonName = 1"
definition Security_kTag_DNAttrType_Surname :: u32 where [tag_numbers]: "Security_kTag_DNAttrType_Surname = 2"
definition Security_kTag_DNAttrType_SerialNumber :: u32 where [tag_numbers]: "Security_kTag_DNAttrType_SerialNumber = 3"
definition Security_kTag_DNAttrType_CountryName :: u32 where [tag_numbers]: "Security_kTag_DNAttrType_CountryName = 4"
definition Security_kTag_DNAttrType_LocalityName :: u32 where [tag_numbers]: "Security_kTag_DNAttrType_LocalityName = 5"
definition Security_kTag_DNAttrType_StateOrProvinceName :: u32 where [tag_numbers]: "Security_kTag_DNAttrType_StateOrProvinceName = 6"
definition Security_kTag_DNAttrType_OrganizationName :: u32 where [tag_numbers]: "Security_kTag_DNAttrType_OrganizationName = 7"
definition Security_kTag_DNAttrType_OrganizationalUnitName :: u32 where [tag_numbers]: "Security_kTag_DNAttrType_OrganizationalUnitName = 8"
definition Security_kTag_DNAttrType_Title :: u32 where [tag_numbers]: "Security_kTag_DNAttrType_Title = 9"
definition Security_kTag_DNAttrType_Name :: u32 where [tag_numbers]: "Security_kTag_DNAttrType_Name = 10"
definition Security_kTag_DNAttrType_GivenName :: u32 where [tag_numbers]: "Security_kTag_DNAttrType_GivenName = 11"
definition Security_kTag_DNAttrType_Initials :: u32 where [tag_numbers]: "Security_kTag_DNAttrType_Initials = 12"
definition Security_kTag_DNAttrType_GenerationQualifier :: u32 where [tag_numbers]: "Security_kTag_DNAttrType_GenerationQualifier = 13"
definition Security_kTag_DNAttrType_DNQualifier :: u32 where [tag_numbers]: "Security_kTag_DNAttrType_DNQualifier = 14"
definition Security_kTag_DNAttrType_Pseudonym :: u32 where [tag_numbers]: "Security_kTag_DNAttrType_Pseudonym = 15"
definition Security_kTag_DNAttrType_DomainComponent :: u32 where [tag_numbers]: "Security_kTag_DNAttrType_DomainComponent = 16"
definition Security_kTag_DNAttrType_MatterDeviceId :: u32 where [tag_numbers]: "Security_kTag_DNAttrType_MatterDeviceId = 17"
definition Security_kTag_DNAttrType_MatterServiceEndpointId :: u32 where [tag_numbers]: "Security_kTag_DNAttrType_MatterServiceEndpointId = 18"
definition Security_kTag_DNAttrType_MatterCAId :: u32 where [tag_numbers]: "Security_kTag_DNAttrType_MatterCAId = 19"
definition Security_kTag_DNAttrType_MatterSoftwarePublisherId :: u32 where [tag_numbers]: "Security_kTag_DNAttrType_MatterSoftwarePublisherId = 20"

end
