(* ===== verification/Protocol_Common.thy ===== *)
theory Protocol_Common
  imports IM_Subscription Status_Text Protocol_Tags
begin

text \<open>
  The dissector of the secure channel protocol (\<open>packet-matter-common.cpp\<close>): status reports,
  acknowledgements, and the messages that establish a session with a passcode (PASE) or with certificates
  (CASE). Each of the latter is one structure; the list of cases of its \<open>switch\<close> is a definition of its own.
  Their dissectors return the error code where the host expects the number of bytes dissected.
\<close>

section \<open>Parts of messages\<close>

definition session_parameter :: "registry \<Rightarrow> ListElemHandler" where
  "session_parameter R paramsTree = context_switch
     [(kSessionIdleInterval, typed R ''Session_idleRetransTimeout'' paramsTree),
      (kSessionActiveInterval, typed R ''Session_activeRetransTimeout'' paramsTree),
      (kSessionActiveThreshold, typed R ''Session_activeThreshold'' paramsTree),
      (kDataModelRevision, typed R ''Session_dataModelRevision'' paramsTree),
      (kInteractionModelRevision, typed R ''Session_interactionModelRevision'' paramsTree),
      (kSpecificationVersion, typed R ''Session_specificationVersion'' paramsTree),
      (kMaxPathsPerInvoke, typed R ''Session_maxPathsPerInvoke'' paramsTree)]
     (generic R ''Session_unknownParam'' False paramsTree)"

definition AddSessionParameters :: "registry \<Rightarrow> string \<Rightarrow> ListElemHandler" where
  "AddSessionParameters R containerHf =
     struct_item R (reg_hf R containerHf) ''SessionParameters'' (session_parameter R)"

definition pbkdf_parameter :: "registry \<Rightarrow> ListElemHandler" where
  "pbkdf_parameter R pbkdfTree = context_switch
     [(1, typed R ''PBKDFParamResponse_pbkdfIterationCount'' pbkdfTree),
      (2, typed R ''PBKDFParamResponse_pbkdfSalt'' pbkdfTree)]
     (generic R ''Session_unknownParam'' False pbkdfTree)"

definition AddPBKDFParameterSet :: "registry \<Rightarrow> ListElemHandler" where
  "AddPBKDFParameterSet R =
     struct_item R (reg_hf R ''PBKDFParamResponse_pbkdfParameters'') ''PBKDFParameters'' (pbkdf_parameter R)"

text \<open>
  The ciphertext and the 16 bytes of its authentication tag, or the tag alone when there is no more. The
  pointer \<open>valuePtr - msgData\<close> is an index into the copy of the payload, so it is not negative.
\<close>

definition AddEncryptedField :: "registry \<Rightarrow> string \<Rightarrow> ListElemHandler" where
  "AddEncryptedField R containerHf tree d =
     (let valueLen = GetLength d;
          hf_ciphertext = reg_hf R ''Session_encryptedCiphertext'';
          hf_mic = reg_hf R ''Session_encryptedMic'' in
      case AddSubTreeItem tree (reg_hf R containerHf) (reg_ett R ''SessionEncrypted'') None d of (err, encryptedTree, d) \<Rightarrow>
        if err \<noteq> MATTER_NO_ERROR then Some (err, d)
        else
          (case GetDataPtr d of (err, valuePtr, d) \<Rightarrow>
             if err \<noteq> MATTER_NO_ERROR then Some (err, d)
             else if valueLen = 0 then Some (MATTER_NO_ERROR, d)
             else
               (case valuePtr of None \<Rightarrow> None
                | Some p \<Rightarrow>
                    (let valueOffset = (of_nat p :: u32) in
                     if valueLen > 16 then
                       Some (MATTER_NO_ERROR,
                         emit (ProtoAdd encryptedTree hf_mic (valueOffset + (valueLen - 16)) 16 AddItem)
                           (emit (ProtoAdd encryptedTree hf_ciphertext valueOffset (valueLen - 16) AddItem) d))
                     else
                       Some (MATTER_NO_ERROR, emit (ProtoAdd encryptedTree hf_mic valueOffset valueLen AddItem) d)))))"

section \<open>Messages that are not TLV\<close>

definition DissectStatusReport ::
  "registry \<Rightarrow> tvbuff \<Rightarrow> msg_info \<Rightarrow> proto_tree \<Rightarrow> view \<times> tracker \<Rightarrow> (int \<times> view \<times> tracker) option" where
  "DissectStatusReport R tvb mi tree s =
     (case s of (v, t) \<Rightarrow>
      do {
        let payloadLen = unat (mi_payloadLen mi);
        let v = append_text tree '': Status Report'' v;
        generalCode \<leftarrow> tvb_get_letohs tvb 0;
        v \<leftarrow> add_tvb_item tree (reg_hf R ''StatusReport_StatusCode'') tvb 0 2
               (AddUintFormatValue (ucast generalCode) (StatusReportStr kMatterProfile_General generalCode)) v;
        profileId \<leftarrow> tvb_get_letohl tvb 2;
        v \<leftarrow> add_tvb_item tree (reg_hf R ''StatusReport_ProfileId'') tvb 2 4
               (AddUintFormatValue profileId (hex_upper 8 (unat profileId) @
                 (case GetProtocolName profileId of None \<Rightarrow> '''' | Some n \<Rightarrow> '' ('' @ n @ '')''))) v;
        statusCode \<leftarrow> tvb_get_letohs tvb 6;
        v \<leftarrow> add_tvb_item tree (reg_hf R ''StatusReport_StatusCode'') tvb 6 2
               (AddUintFormatValue (ucast statusCode) (StatusReportStr profileId statusCode)) v;
        let isError = (statusCode \<noteq> General_kStatus_SUCCESS);
        let v = col_prepend (''StatusReport ('' @ (if isError then ''ERROR'' else ''SUCCESS'') @ '') '') v;
        (err, v) \<leftarrow>
          (if 8 < payloadLen
           then run_tlv R kProfileIdNotSpecified tvb 8 payloadLen
                  (\<lambda>d. SuccessOrExit (Dissector_Next d) (generic R ''StatusReport_TLV'' False tree)) v
           else Some (MATTER_NO_ERROR, v));
        if err \<noteq> MATTER_NO_ERROR then Some (int payloadLen, v, t)
        else do {
          let isErrorItem = Some (length (view_calls v));
          v \<leftarrow> add_tvb_item tree (reg_hf R ''StatusReport_IsError'') tvb 0 0 (AddBoolean isError) v;
          let v = add_call (ProtoSetHidden isErrorItem) v;
          (v, t) \<leftarrow> AssociateWithIMSubscription R tree (mi_msgRec mi) (v, t);
          Some (int payloadLen, v, t)
        }
      })"

definition DissectStandaloneAck ::
  "registry \<Rightarrow> msg_info \<Rightarrow> proto_tree \<Rightarrow> view \<times> tracker \<Rightarrow> (int \<times> view \<times> tracker) option" where
  "DissectStandaloneAck R mi tree s =
     (case s of (v, t) \<Rightarrow>
      do {
        let v = append_text tree '': StandaloneAck'' v;
        let v = col_prepend (if mi_exchHeader mi AND kMatterExchangeFlag_AckId \<noteq> 0 then ''StandAloneACK '' else ''Null '') v;
        (v, t) \<leftarrow> AssociateWithIMSubscription R tree (mi_msgRec mi) (v, t);
        Some (1, v, t)
      })"

definition kPaseErrorCodeNames :: "(byte \<times> string) list" where
  "kPaseErrorCodeNames = [(0x01, ''NoSharedTrustRoots''), (0x02, ''InvalidParameter'')]"

definition DissectPasePakeError :: "registry \<Rightarrow> tvbuff \<Rightarrow> msg_info \<Rightarrow> proto_tree \<Rightarrow> view \<Rightarrow> (int \<times> view) option" where
  "DissectPasePakeError R tvb mi tree v =
     do {
       let payloadLen = int (unat (mi_payloadLen mi));
       let v = append_text tree '': PASE Spake2 Error'' (col_prepend ''PASE Spake2 Err '' v);
       v \<leftarrow>
         (if payloadLen \<ge> 1 then
            do {
              errorCode \<leftarrow> tvb_get_guint8 tvb 0;
              let codeName = (case map_of kPaseErrorCodeNames errorCode of None \<Rightarrow> ''Unknown'' | Some n \<Rightarrow> n);
              v \<leftarrow> add_tvb_item tree (reg_hf R ''PakeError_Code'') tvb 0 1
                     (AddUintFormatValue (ucast errorCode) (''0x'' @ hex_upper 2 (unat errorCode) @ '' ('' @ codeName @ '')'')) v;
              let v = col_append ('' ['' @ codeName @ '']'') v;
              (if payloadLen > 1
               then add_tvb_item tree (reg_hf R ''PakeError_UnknownData'') tvb 1 (payloadLen - 1) AddItem v
               else Some v)
            }
          else Some v);
       Some (payloadLen, v)
     }"

definition DissectICDCheckIn :: "registry \<Rightarrow> tvbuff \<Rightarrow> msg_info \<Rightarrow> proto_tree \<Rightarrow> view \<Rightarrow> (int \<times> view) option" where
  "DissectICDCheckIn R tvb mi tree v =
     do {
       let payloadLen = int (unat (mi_payloadLen mi));
       let v = col_prepend ''ICD_CheckIn '' (append_text tree '': ICD Check-In'' v);
       v \<leftarrow> (if payloadLen > 0 then add_tvb_item tree (reg_hf R ''CheckIn_Payload'') tvb 0 payloadLen AddItem v
             else Some v);
       Some (payloadLen, v)
     }"

section \<open>Messages of one structure\<close>

text \<open>What the dissectors of PASE and CASE messages do, with the title and the handler of their elements.\<close>

definition session_message ::
  "registry \<Rightarrow> tvbuff \<Rightarrow> msg_info \<Rightarrow> string \<Rightarrow> ListElemHandler \<Rightarrow> proto_tree \<Rightarrow> view \<Rightarrow> (int \<times> view) option" where
  "session_message R tvb mi title member tree v =
     run_tlv R kMatterProfile_Common tvb 0 (unat (mi_payloadLen mi))
       (\<lambda>d. SuccessOrExit (Dissector_Next d) (members R (member tree)))
       (append_text tree title v)"

abbreviation bytes_field :: "registry \<Rightarrow> string \<Rightarrow> ListElemHandler" where
  "bytes_field R hf_var tree \<equiv> of_types [kTLVType_ByteString] (typed R hf_var tree)"

abbreviation uint_field :: "registry \<Rightarrow> string \<Rightarrow> ListElemHandler" where
  "uint_field R hf_var tree \<equiv> of_types [kTLVType_UnsignedInteger] (typed R hf_var tree)"

abbreviation bool_field :: "registry \<Rightarrow> string \<Rightarrow> ListElemHandler" where
  "bool_field R hf_var tree \<equiv> of_types [kTLVType_Boolean] (typed R hf_var tree)"

definition pbkdf_request_member :: "registry \<Rightarrow> ListElemHandler" where
  "pbkdf_request_member R tree = context_switch
     [(1, bytes_field R ''PBKDFParamRequest_initiatorRandom'' tree),
      (2, uint_field R ''PBKDFParamRequest_localSessionId'' tree),
      (3, uint_field R ''PBKDFParamRequest_passcodeId'' tree),
      (4, bool_field R ''PBKDFParamRequest_hasPbkdfParams'' tree),
      (5, AddSessionParameters R ''PBKDFParamRequest_mrpParams'' tree)]
     unexpected"

definition DissectPBKDFParamRequest :: "registry \<Rightarrow> tvbuff \<Rightarrow> msg_info \<Rightarrow> proto_tree \<Rightarrow> view \<Rightarrow> (int \<times> view) option" where
  "DissectPBKDFParamRequest R tvb mi = session_message R tvb mi '': PASE PBKDF Param Request'' (pbkdf_request_member R)"

definition pbkdf_response_member :: "registry \<Rightarrow> ListElemHandler" where
  "pbkdf_response_member R tree = context_switch
     [(1, bytes_field R ''PBKDFParamRequest_initiatorRandom'' tree),
      (2, bytes_field R ''PBKDFParamResponse_responderRandom'' tree),
      (3, uint_field R ''PBKDFParamResponse_responderSessionId'' tree),
      (4, AddPBKDFParameterSet R tree),
      (5, AddSessionParameters R ''PBKDFParamResponse_mrpParams'' tree)]
     unexpected"

definition DissectPBKDFParamResponse :: "registry \<Rightarrow> tvbuff \<Rightarrow> msg_info \<Rightarrow> proto_tree \<Rightarrow> view \<Rightarrow> (int \<times> view) option" where
  "DissectPBKDFParamResponse R tvb mi = session_message R tvb mi '': PASE PBKDF Param Response'' (pbkdf_response_member R)"

definition pake1_member :: "registry \<Rightarrow> ListElemHandler" where
  "pake1_member R tree = context_switch [(1, bytes_field R ''Pake1_pA'' tree)] unexpected"

definition DissectPasePake1 :: "registry \<Rightarrow> tvbuff \<Rightarrow> msg_info \<Rightarrow> proto_tree \<Rightarrow> view \<Rightarrow> (int \<times> view) option" where
  "DissectPasePake1 R tvb mi = session_message R tvb mi '': PASE Pake1'' (pake1_member R)"

definition pake2_member :: "registry \<Rightarrow> ListElemHandler" where
  "pake2_member R tree = context_switch
     [(1, bytes_field R ''Pake2_pB'' tree), (2, bytes_field R ''Pake2_cB'' tree)] unexpected"

definition DissectPasePake2 :: "registry \<Rightarrow> tvbuff \<Rightarrow> msg_info \<Rightarrow> proto_tree \<Rightarrow> view \<Rightarrow> (int \<times> view) option" where
  "DissectPasePake2 R tvb mi = session_message R tvb mi '': PASE Pake2'' (pake2_member R)"

definition pake3_member :: "registry \<Rightarrow> ListElemHandler" where
  "pake3_member R tree = context_switch [(1, bytes_field R ''Pake3_cA'' tree)] unexpected"

definition DissectPasePake3 :: "registry \<Rightarrow> tvbuff \<Rightarrow> msg_info \<Rightarrow> proto_tree \<Rightarrow> view \<Rightarrow> (int \<times> view) option" where
  "DissectPasePake3 R tvb mi = session_message R tvb mi '': PASE Pake3'' (pake3_member R)"

definition sigma1_member :: "registry \<Rightarrow> ListElemHandler" where
  "sigma1_member R tree = context_switch
     [(Sigma1_kTag_InitiatorRandom, bytes_field R ''PBKDFParamRequest_initiatorRandom'' tree),
      (Sigma1_kTag_InitiatorSessionId, uint_field R ''PBKDFParamRequest_localSessionId'' tree),
      (Sigma1_kTag_DestinationId, bytes_field R ''Session_destinationId'' tree),
      (Sigma1_kTag_InitiatorEphPubKey, bytes_field R ''Session_ephPublicKey'' tree),
      (Sigma1_kTag_InitiatorSleepyParams, AddSessionParameters R ''Session_sleepyParams'' tree),
      (Sigma1_kTag_ResumptionId, bytes_field R ''Session_resumptionId'' tree),
      (Sigma1_kTag_InitiatorResumeMic, bytes_field R ''Session_resumeMic'' tree)]
     unexpected"

definition DissectCaseSigma1 :: "registry \<Rightarrow> tvbuff \<Rightarrow> msg_info \<Rightarrow> proto_tree \<Rightarrow> view \<Rightarrow> (int \<times> view) option" where
  "DissectCaseSigma1 R tvb mi = session_message R tvb mi '': CASE Sigma1'' (sigma1_member R)"

definition sigma2_member :: "registry \<Rightarrow> ListElemHandler" where
  "sigma2_member R tree = context_switch
     [(Sigma2_kTag_ResponderRandom, bytes_field R ''PBKDFParamResponse_responderRandom'' tree),
      (Sigma2_kTag_ResponderSessionId, uint_field R ''PBKDFParamRequest_localSessionId'' tree),
      (Sigma2_kTag_ResponderEphPubKey, bytes_field R ''Session_ephPublicKey'' tree),
      (Sigma2_kTag_Encrypted2, of_types [kTLVType_ByteString] (AddEncryptedField R ''Session_encrypted2'' tree)),
      (Sigma2_kTag_ResponderSleepyParams, AddSessionParameters R ''Session_sleepyParams'' tree)]
     unexpected"

definition DissectCaseSigma2 :: "registry \<Rightarrow> tvbuff \<Rightarrow> msg_info \<Rightarrow> proto_tree \<Rightarrow> view \<Rightarrow> (int \<times> view) option" where
  "DissectCaseSigma2 R tvb mi = session_message R tvb mi '': CASE Sigma2'' (sigma2_member R)"

definition sigma3_member :: "registry \<Rightarrow> ListElemHandler" where
  "sigma3_member R tree = context_switch
     [(Sigma3_kTag_Encrypted3, of_types [kTLVType_ByteString] (AddEncryptedField R ''Session_encrypted3'' tree))]
     unexpected"

definition DissectCaseSigma3 :: "registry \<Rightarrow> tvbuff \<Rightarrow> msg_info \<Rightarrow> proto_tree \<Rightarrow> view \<Rightarrow> (int \<times> view) option" where
  "DissectCaseSigma3 R tvb mi = session_message R tvb mi '': CASE Sigma3'' (sigma3_member R)"

definition sigma2_resume_member :: "registry \<Rightarrow> ListElemHandler" where
  "sigma2_resume_member R tree = context_switch
     [(Sigma2_Resume_kTag_ResumptionId, bytes_field R ''Session_resumptionId'' tree),
      (Sigma2_Resume_kTag_ResumeMic, bytes_field R ''Session_resumeMic'' tree),
      (Sigma2_Resume_kTag_ResponderSessionId, uint_field R ''PBKDFParamRequest_localSessionId'' tree),
      (Sigma2_Resume_kTag_ResponderSleepyParams, AddSessionParameters R ''Session_sleepyParams'' tree)]
     unexpected"

definition DissectCaseSigma2Resume :: "registry \<Rightarrow> tvbuff \<Rightarrow> msg_info \<Rightarrow> proto_tree \<Rightarrow> view \<Rightarrow> (int \<times> view) option" where
  "DissectCaseSigma2Resume R tvb mi = session_message R tvb mi '': CASE Sigma2 Resume'' (sigma2_resume_member R)"

section \<open>Dispatch\<close>

text \<open>A dissector that does not touch the tracker.\<close>

definition without_tracker ::
  "(view \<Rightarrow> (int \<times> view) option) \<Rightarrow> view \<times> tracker \<Rightarrow> (int \<times> view \<times> tracker) option" where
  "without_tracker f s = map_option (\<lambda>(res, v). (res, v, snd s)) (f (fst s))"

definition common_messages ::
  "registry \<Rightarrow> tvbuff \<Rightarrow> msg_info \<Rightarrow> proto_tree \<Rightarrow>
   (byte \<times> (view \<times> tracker \<Rightarrow> (int \<times> view \<times> tracker) option)) list" where
  "common_messages R tvb mi tree =
     [(Common_kMsgType_StatusReport, DissectStatusReport R tvb mi tree),
      (Common_kMsgType_StandaloneAck, DissectStandaloneAck R mi tree),
      (Common_kMsgType_ICD_CheckIn, without_tracker (DissectICDCheckIn R tvb mi tree)),
      (Common_kMsgType_PBKDFParamRequest, without_tracker (DissectPBKDFParamRequest R tvb mi tree)),
      (Common_kMsgType_PBKDFParamResponse, without_tracker (DissectPBKDFParamResponse R tvb mi tree)),
      (Common_kMsgType_PASE_Spake2p1, without_tracker (DissectPasePake1 R tvb mi tree)),
      (Common_kMsgType_PASE_Spake2p2, without_tracker (DissectPasePake2 R tvb mi tree)),
      (Common_kMsgType_PASE_Spake2p3, without_tracker (DissectPasePake3 R tvb mi tree)),
      (Common_kMsgType_PASE_Spake2pError, without_tracker (DissectPasePakeError R tvb mi tree)),
      (Common_kMsgType_CASE_Sigma1, without_tracker (DissectCaseSigma1 R tvb mi tree)),
      (Common_kMsgType_CASE_Sigma2, without_tracker (DissectCaseSigma2 R tvb mi tree)),
      (Common_kMsgType_CASE_Sigma3, without_tracker (DissectCaseSigma3 R tvb mi tree)),
      (Common_kMsgType_CASE_Sigma2_Resume, without_tracker (DissectCaseSigma2Resume R tvb mi tree))]"

definition DissectMatterCommon ::
  "registry \<Rightarrow> tvbuff \<Rightarrow> msg_info \<Rightarrow> view \<times> tracker \<Rightarrow> (int \<times> view \<times> tracker) option" where
  "DissectMatterCommon R tvb mi s =
     (case s of (v, t) \<Rightarrow>
      case protocol_tree R ''MatterCommon'' ''MatterCommon'' v of (common_tree, v) \<Rightarrow>
        (case map_of (common_messages R tvb mi common_tree) (mi_msgType mi) of
           Some dissect \<Rightarrow> dissect (v, t)
         | None \<Rightarrow> Some (0, v, t)))"

end
