(* ===== verification/Protocol_UDC.thy ===== *)
theory Protocol_UDC
  imports Sub_Dissector Protocol_Tags
begin

text \<open>
  The dissector of user directed commissioning (\<open>packet-matter-udc.cpp\<close>). An identification declaration is an
  instance name up to a newline, one byte that is ignored, and a structure.
\<close>

definition kUDCMsgType_IdentificationDeclaration :: byte where
  "kUDCMsgType_IdentificationDeclaration = 0x00"

definition target_app_member :: "registry \<Rightarrow> ListElemHandler" where
  "target_app_member R targetAppTree = context_switch
     [(UDC_kAppVendorIdTag, typed R ''UDC_AppVendorId'' targetAppTree),
      (UDC_kAppProductIdTag, typed R ''UDC_AppProductId'' targetAppTree)]
     (generic R ''UDC_UnknownTag'' False targetAppTree)"

definition AddUDCTargetApp :: "registry \<Rightarrow> ListElemHandler" where
  "AddUDCTargetApp R = struct_item R (reg_hf R ''UDC_TargetApp'') ''udc_target_app'' (target_app_member R)"

definition udc_target_app_list :: "registry \<Rightarrow> ListElemHandler" where
  "udc_target_app_list R tree d =
     (if GetType d = kTLVType_Array
      then AddListItem (reg_env R) tree (reg_hf R ''UDC_TargetAppList'') (reg_ett R ''udc_target_app_list'')
             (AddUDCTargetApp R) d
      else generic R ''UDC_UnknownTag'' False tree d)"

definition udc_member :: "registry \<Rightarrow> ListElemHandler" where
  "udc_member R tree = context_switch
     [(UDC_kVendorIdTag, typed R ''UDC_VendorId'' tree),
      (UDC_kProductIdTag, typed R ''UDC_ProductId'' tree),
      (UDC_kDeviceNameTag, typed R ''UDC_DeviceName'' tree),
      (UDC_kDeviceTypeTag, typed R ''UDC_DeviceType'' tree),
      (UDC_kPairingInstTag, typed R ''UDC_PairingInst'' tree),
      (UDC_kPairingHintTag, typed R ''UDC_PairingHint'' tree),
      (UDC_kRotatingIdTag, typed R ''UDC_RotatingId'' tree),
      (UDC_kCdPortTag, typed R ''UDC_CdPort'' tree),
      (UDC_kTargetAppListTag, udc_target_app_list R tree),
      (UDC_kNoPasscodeTag, typed R ''UDC_NoPasscode'' tree),
      (UDC_kCdUponPasscodeDialogTag, typed R ''UDC_CdUponPasscodeDialog'' tree),
      (UDC_kCommissionerPasscodeTag, typed R ''UDC_CommissionerPasscode'' tree),
      (UDC_kCommissionerPasscodeReadyTag, typed R ''UDC_CommissionerPasscodeReady'' tree),
      (UDC_kCancelPasscodeTag, typed R ''UDC_CancelPasscode'' tree),
      (UDC_kPasscodeLengthTag, typed R ''UDC_PasscodeLength'' tree)]
     (generic R ''UDC_UnknownTag'' False tree)"

text \<open>
  The structure of a declaration. The result says whether the loop left with \<open>SuccessOrExit\<close>, which skips the
  information column; the errors before and after the loop do not.
\<close>

definition udc_declaration :: "registry \<Rightarrow> proto_tree \<Rightarrow> dissector \<Rightarrow> (bool \<times> dissector) option" where
  "udc_declaration R tree d =
     (case Dissector_Next_expect kTLVType_Structure AnonymousTag d of None \<Rightarrow> None
      | Some (err, d) \<Rightarrow>
          if err \<noteq> MATTER_NO_ERROR then Some (False, d)
          else
            (case Dissector_EnterContainer (reg_env R) d of None \<Rightarrow> None
             | Some (err, d) \<Rightarrow>
                 if err \<noteq> MATTER_NO_ERROR then Some (False, d)
                 else
                   (case each_elem (\<lambda>(_, d). with_locals () (udc_member R tree d)) ((), d) of None \<Rightarrow> None
                    | Some (err, _, d) \<Rightarrow>
                        if err \<noteq> MATTER_NO_ERROR then Some (True, d)
                        else map_option (\<lambda>(err, d). (False, d)) (Dissector_ExitContainer d))))"

text \<open>\<open>tvb_find_uint8\<close>: the offset of the first such byte among the first \<open>len\<close> bytes.\<close>

definition tvb_find_uint8 :: "tvbuff \<Rightarrow> nat \<Rightarrow> byte \<Rightarrow> nat option" where
  "tvb_find_uint8 tvb len b =
     (let before = length (takeWhile (\<lambda>x. x \<noteq> b) (take len tvb))
      in if before < length (take len tvb) then Some before else None)"

definition DissectUDCIdentificationDeclaration ::
  "registry \<Rightarrow> tvbuff \<Rightarrow> msg_info \<Rightarrow> proto_tree \<Rightarrow> view \<Rightarrow> (int \<times> view) option" where
  "DissectUDCIdentificationDeclaration R tvb mi tree v =
     (let payloadLen = unat (mi_payloadLen mi);
          v = append_text tree '': IdentificationDeclaration'' v in
      if payloadLen = 0 then Some (0, v)
      else do {
        (jumped, v) \<leftarrow>
          (case tvb_find_uint8 tvb payloadLen 0x0A of
             Some newlinePos \<Rightarrow>
               do {
                 v \<leftarrow> (if newlinePos > 0
                       then add_tvb_item tree (reg_hf R ''UDC_InstanceName'') tvb 0 (int newlinePos) AddItem v
                       else add_tvb_item tree (reg_hf R ''UDC_InstanceName'') tvb 0 0 (AddString []) v);
                 let cursor = newlinePos + 1;
                 (cursor, v) \<leftarrow>
                   (if cursor < payloadLen
                    then map_option (\<lambda>v. (cursor + 1, v))
                           (add_tvb_item tree (reg_hf R ''UDC_IgnoreByte'') tvb (int cursor) 1 AddItem v)
                    else Some (cursor, v));
                 (if cursor < payloadLen then
                    do {
                      v \<leftarrow> add_tvb_item tree (reg_hf R ''UDC_TLVData'') tvb (int cursor) (int (payloadLen - cursor)) AddItem v;
                      run_tlv R kMatterProfile_UDC tvb cursor payloadLen (udc_declaration R tree) v
                    }
                  else Some (False, v))
               }
           | None \<Rightarrow>
               map_option (\<lambda>v. (False, v))
                 (add_tvb_item tree (reg_hf R ''UDC_RawPayload'') tvb 0 (int payloadLen) AddItem v));
        Some (int payloadLen, if jumped then v else col_prepend ''UDC:IdentificationDeclaration '' v)
      })"

definition DissectUDC :: "registry \<Rightarrow> tvbuff \<Rightarrow> msg_info \<Rightarrow> view \<Rightarrow> (int \<times> view) option" where
  "DissectUDC R tvb mi v =
     do {
       v \<leftarrow> AddMessageTypeToInfoColumn mi v;
       (case protocol_tree R ''udc'' ''udc'' v of (udcTree, v) \<Rightarrow>
          let payloadLen = int (unat (mi_payloadLen mi)) in
          if mi_msgType mi = kUDCMsgType_IdentificationDeclaration
          then DissectUDCIdentificationDeclaration R tvb mi udcTree v
          else if payloadLen > 0
          then map_option (\<lambda>v. (payloadLen, v)) (add_tvb_item udcTree (reg_hf R ''UDC_RawPayload'') tvb 0 payloadLen AddItem v)
          else Some (payloadLen, v))
     }"

end
