(* ===== verification/Sub_Dissector_Inv.thy ===== *)
theory Sub_Dissector_Inv
  imports Sub_Dissector TLV_Text_Inv
begin

text \<open>
  The dissectors of the protocols return on every payload: each handler of an element has the contract
  \<open>element_handler\<close>, given that the handlers it is made of have it, and a message runs its handler on an object that
  satisfies the invariant.
\<close>

section \<open>Handlers\<close>

text \<open>\<open>handles h\<close> is the contract for one tree; \<open>handles_context\<close> is the contract on elements with a context tag.\<close>

definition handles_context :: "elem_handler \<Rightarrow> bool" where
  "handles_context h \<longleftrightarrow>
     (\<forall>d. dissector_inv d \<and> IsContextTag (GetTag d) \<longrightarrow> returns (h d) (\<lambda>err d'. err = 0 \<longrightarrow> keeps d d'))"

definition handles_all :: "elem_handler \<Rightarrow> bool" where
  "handles_all h \<longleftrightarrow> (\<forall>d. dissector_inv d \<longrightarrow> returns (h d) (\<lambda>err d'. err = 0 \<longrightarrow> keeps d d'))"

named_theorems handler_intros \<open>contracts of element handlers\<close>

lemma handles_allD: "handles_all h \<Longrightarrow> dissector_inv d \<Longrightarrow> returns (h d) (\<lambda>err d'. err = 0 \<longrightarrow> keeps d d')"
  by (simp add: handles_all_def)

lemma handles_all_context [handler_intros]: "handles_all h \<Longrightarrow> handles_context h"
  by (simp add: handles_all_def handles_context_def)

lemma element_handler_iff: "element_handler h \<longleftrightarrow> (\<forall>tree. handles_all (h tree))"
  by (auto simp: element_handler_def handles_all_def)

lemma typed_handles [handler_intros]: "handles_all (typed R hf_var tree)"
  unfolding handles_all_def typed_def by (auto intro: returns_mono [OF AddTypedItem_keeps])

lemma generic_handles [handler_intros]: "handles_context (generic R hf_var False tree)"
  unfolding handles_context_def generic_def
  by (auto intro!: AddGenericTLVItem_keeps simp: tag_text_def GetTag_def)

lemma unexpected_handles [handler_intros]: "handles_all unexpected"
  by (simp add: handles_all_def unexpected_def)

lemma of_types_handles [handler_intros]: "handles_all h \<Longrightarrow> handles_all (of_types types h)"
  by (auto simp: handles_all_def of_types_def VerifyOrExit_def)

lemma tag_switch_handles:
  assumes "\<forall>(n, h) \<in> set cases. handles_context h" and "handles_context dflt"
  shows "handles_context (tag_switch cases dflt)"
  using assms by (auto simp: handles_context_def tag_switch_def split: option.splits dest!: map_of_SomeD)

lemma context_switch_handles [handler_intros]:
  assumes "\<forall>(n, h) \<in> set cases. handles_context h" and "handles_context dflt"
  shows "handles_all (context_switch cases dflt)"
  using tag_switch_handles [OF assms]
  by (auto simp: handles_all_def handles_context_def context_switch_def VerifyOrExit_def)

text \<open>Entering, the loop and leaving.\<close>

lemma members_keeps:
  assumes "handles_all h" and "dissector_inv d"
  shows "returns (members R h d) (\<lambda>err d'. err = 0 \<longrightarrow> keeps d d')"
proof -
  have "returns (in_container (reg_env R) (\<lambda>(_, d). with_locals () (h d)) ((), d))
      (\<lambda>err s. err = 0 \<longrightarrow> keeps d (snd s) \<and>
        ElementType (snd s) = kTLVElementType_NotSpecified \<and> mLastItem (snd s) = mLastItem d \<and>
        mElemStart (snd s) = mElemStart d \<and> mElemLen (snd s) = mElemLen d)"
    by (rule in_container_keeps [OF assms(2)]) (use handles_allD [OF assms(1)] in simp)
  then show ?thesis unfolding members_def by (auto simp: returns_def)
qed

lemma members_handles [handler_intros]: "handles_all h \<Longrightarrow> handles_all (members R h)"
  by (simp add: handles_all_def [of "members R h"] members_keeps)

lemma subtree_members_handles [handler_intros]:
  assumes "\<And>sub. handles_all (h sub)"
  shows "handles_all (subtree_members R hfi etti h tree)"
proof (unfold handles_all_def, intro allI impI)
  fix d assume inv: "dissector_inv d"
  obtain err sub d1 where s: "AddSubTreeItem tree hfi etti None d = (err, sub, d1)" by (metis prod_cases3)
  note S = AddSubTreeItem_keeps [OF s inv]
  have "returns (members R (h sub) d1) (\<lambda>err d'. err = 0 \<longrightarrow> keeps d d')"
    by (rule returns_mono [OF members_keeps [OF assms keeps_inv [OF S(1)]]]) (use keeps_trans [OF S(1)] in blast)
  then show "returns (subtree_members R hfi etti h tree d) (\<lambda>err d'. err = 0 \<longrightarrow> keeps d d')"
    using s S(1) by (simp add: subtree_members_def)
qed

lemma struct_item_handles [handler_intros]:
  "(\<And>sub. handles_all (h sub)) \<Longrightarrow> handles_all (struct_item R hfi ett_var h tree)"
  by (simp add: struct_item_def handler_intros)

lemma AddListItem_handles [handler_intros]:
  assumes "\<And>tree. handles_all (h tree)"
  shows "handles_all (AddListItem E tree hfi etti h)"
proof -
  have "element_handler h" using assms by (simp add: element_handler_iff)
  then show ?thesis unfolding handles_all_def by (simp add: element_handler.AddListItem_keeps)
qed

section \<open>Messages\<close>

lemma start_dissector_fields:
  "trace (start_dissector R profile data len base v) = view_calls v"
  "ImplicitProfileId (start_dissector R profile data len base v) = profile"
  by (simp_all add: start_dissector_def)

lemma profile_inv [simp]: "dissector_inv (d\<lparr>ImplicitProfileId := p\<rparr>) = dissector_inv d"
proof -
  have [simp]: "elem8 (d\<lparr>ImplicitProfileId := p\<rparr>) = elem8 d" "frames (d\<lparr>ImplicitProfileId := p\<rparr>) = frames d"
    "entries (d\<lparr>ImplicitProfileId := p\<rparr>) = entries d" "depth_room (d\<lparr>ImplicitProfileId := p\<rparr>) = depth_room d"
    "reader_inv (d\<lparr>ImplicitProfileId := p\<rparr>) = reader_inv d"
    by (simp_all add: elem8_def ElementType_def frames_def entries_def depth_room_def remaining_def reader_inv_def)
  show ?thesis by (simp add: dissector_inv_def between_inv_def stack_inv_def)
qed

lemma start_dissector_inv:
  assumes "unat len \<le> length data" and "unat len < 65536"
  shows "dissector_inv (start_dissector R profile data len base v)"
proof -
  have "dissector_inv (Dissector_Init data len base (TLVDissector (raw_object R)))"
    by (rule Dissector_Init_inv) (use assms in \<open>simp_all add: TLVDissector_def\<close>)
  then show ?thesis by (simp add: start_dissector_def)
qed

text \<open>\<open>Next\<close> and then the members of the element.\<close>

lemma next_members_total:
  assumes "handles_all h" and "between_inv d" and "nxt = Dissector_Next \<or> nxt = Dissector_Next_expect ty tag"
  shows "returns (SuccessOrExit (nxt d) (members R h)) (\<lambda>err d'. err = 0 \<longrightarrow> (\<exists>calls. trace d' = trace d @ calls))"
proof -
  have "returns (nxt d) (\<lambda>err d'. next_post d err d')"
    using assms(3) Dissector_Next_total [OF assms(2)]
      returns_mono [OF Dissector_Next_expect_total [OF assms(2), of ty tag], of "next_post d"] by auto
  then show ?thesis
  proof (rule returns_SuccessOrExit, simp)
    fix d1 assume n: "next_post d 0 d1"
    then have "dissector_inv d1" "trace d1 = trace d" by (simp_all add: next_post_def)
    then show "returns (members R h d1) (\<lambda>err d'. err = 0 \<longrightarrow> (\<exists>calls. trace d' = trace d @ calls))"
      by (intro returns_mono [OF members_keeps [OF assms(1)]]) (auto simp: keeps_def)
  qed
qed

lemma run_tlv_total:
  assumes body: "\<And>d. dissector_inv d \<Longrightarrow> returns (body d) (\<lambda>err d'. err = 0 \<longrightarrow> (\<exists>calls. trace d' = trace d @ calls))"
    and len: "off \<le> len" "len \<le> length tvb" "len < 65536"
  shows "\<exists>err v'. run_tlv R profile tvb off len body v = Some (err, v') \<and> info_column v' = info_column v \<and>
    view_items v' = view_items v \<and> (err = 0 \<longrightarrow> (\<exists>calls. view_calls v' = view_calls v @ calls))"
proof -
  have l: "load_bytes tvb off (len - off) = Some (take (len - off) (drop off tvb))"
    using len by (simp add: load_bytes_def)
  have m: "tvb_memdup tvb off (int len - int off) = Some (take (len - off) (drop off tvb))"
    using len l by (simp add: tvb_memdup_def flip: of_nat_diff)
  have u: "unat (of_nat (len - off) :: u32) = len - off"
    using len by (simp add: unat_of_nat take_bit_nat_eq_self del: of_nat_diff)
  have "dissector_inv (start_dissector R profile (take (len - off) (drop off tvb)) (of_nat (len - off)) (of_nat off) v)"
    by (rule start_dissector_inv) (use len u in simp_all)
  from body [OF this] m show ?thesis by (auto simp: run_tlv_def returns_def start_dissector_fields)
qed

end
