(* ===== verification/Protocol_Common_Inv.thy ===== *)
theory Protocol_Common_Inv
  imports Protocol_Common Protocol_UDC Sub_Dissector_Inv
begin

text \<open>
  The handlers of the secure channel protocol and of user directed commissioning satisfy the contract of an
  element handler, so the session messages and declarations are dissected to the end on every payload.
\<close>

lemma AddSessionParameters_handles [handler_intros]: "handles_all (AddSessionParameters R hf_var tree)"
  unfolding AddSessionParameters_def session_parameter_def
  by (rule struct_item_handles, rule context_switch_handles) (simp_all add: handler_intros)

lemma AddPBKDFParameterSet_handles [handler_intros]: "handles_all (AddPBKDFParameterSet R tree)"
  unfolding AddPBKDFParameterSet_def pbkdf_parameter_def
  by (rule struct_item_handles, rule context_switch_handles) (simp_all add: handler_intros)

lemma AddEncryptedField_handles [handler_intros]: "handles_all (AddEncryptedField R hf_var tree)"
proof (unfold handles_all_def, intro allI impI)
  fix d assume inv: "dissector_inv d"
  obtain err sub d1 where s: "AddSubTreeItem tree (reg_hf R hf_var) (reg_ett R ''SessionEncrypted'') None d = (err, sub, d1)"
    by (metis prod_cases3)
  note S = AddSubTreeItem_keeps [OF s inv]
  obtain err2 ptr d2 where g: "GetDataPtr d1 = (err2, ptr, d2)" by (metis prod_cases3)
  note G = GetDataPtr_spec [OF g dissector_invD(2) [OF keeps_inv [OF S(1)]]]
  have "keeps d1 d2"
    by (rule stays_keeps [OF G(1) keeps_inv [OF S(1)]]) (simp_all add: moved_fields [OF G(2)] moved_elem8 [OF G(2)])
  then have k: "keeps d d2" by (rule keeps_trans [OF S(1)])
  have "ptr \<noteq> None" if "err2 = 0" using G(3) [OF that] by auto
  then show "returns (AddEncryptedField R hf_var tree d) (\<lambda>err d'. err = 0 \<longrightarrow> keeps d d')"
    using s g S(1) k by (auto simp: AddEncryptedField_def Let_def)
qed

interpretation session_parameters: element_handler "AddSessionParameters R hf_var" for R hf_var
  by (simp add: element_handler_iff handler_intros)

interpretation pbkdf_parameter_set: element_handler "AddPBKDFParameterSet R" for R
  by (simp add: element_handler_iff handler_intros)

interpretation encrypted_field: element_handler "AddEncryptedField R hf_var" for R hf_var
  by (simp add: element_handler_iff handler_intros)

section \<open>Session establishment\<close>

lemma session_members_handle [handler_intros]:
  "handles_all (pbkdf_request_member R tree)" "handles_all (pbkdf_response_member R tree)"
  "handles_all (pake1_member R tree)" "handles_all (pake2_member R tree)" "handles_all (pake3_member R tree)"
  "handles_all (sigma1_member R tree)" "handles_all (sigma2_member R tree)" "handles_all (sigma3_member R tree)"
  "handles_all (sigma2_resume_member R tree)"
  unfolding pbkdf_request_member_def pbkdf_response_member_def pake1_member_def pake2_member_def pake3_member_def
    sigma1_member_def sigma2_member_def sigma3_member_def sigma2_resume_member_def
  by (rule context_switch_handles; simp add: handler_intros)+

lemma append_text_fields [simp]:
  "view_items (append_text tree s v) = view_items v" "info_column (append_text tree s v) = info_column v"
  "view_calls (append_text tree s v) = view_calls v @ [ProtoAppendText tree s]"
  by (simp_all add: append_text_def add_call_def)

lemma session_message_total:
  assumes "\<And>tree. handles_all (member tree)" and "unat (mi_payloadLen mi) \<le> length tvb"
  shows "\<exists>err v'. session_message R tvb mi title member tree v = Some (err, v') \<and> info_column v' = info_column v \<and>
    view_items v' = view_items v \<and> (err = 0 \<longrightarrow> (\<exists>calls. view_calls v' = view_calls v @ calls))"
proof -
  have "\<exists>err v'. session_message R tvb mi title member tree v = Some (err, v') \<and>
      info_column v' = info_column (append_text tree title v) \<and> view_items v' = view_items (append_text tree title v) \<and>
      (err = 0 \<longrightarrow> (\<exists>calls. view_calls v' = view_calls (append_text tree title v) @ calls))"
    unfolding session_message_def
  proof (rule run_tlv_total)
    fix d assume "dissector_inv d"
    then show "returns (SuccessOrExit (Dissector_Next d) (members R (member tree)))
        (\<lambda>err d'. err = 0 \<longrightarrow> (\<exists>calls. trace d' = trace d @ calls))"
      using next_members_total [OF assms(1) dissector_invD(1), of d Dissector_Next] by blast
  qed (use assms(2) unsigned_less [of "mi_payloadLen mi", where ?'a = nat] in simp_all)
  then show ?thesis by force
qed

text \<open>The message types of PASE and CASE.\<close>

definition session_types :: "byte set" where
  "session_types = {0x20, 0x21, 0x22, 0x23, 0x24, 0x30, 0x31, 0x32, 0x33}"

lemma protocol_tree_fields:
  assumes "protocol_tree R p e v = (tree, v1)"
  shows "tree = Some (length (view_calls v))" "view_items v1 = view_items v" "info_column v1 = info_column v"
    "view_calls v1 = view_calls v @ [ProtoAdd None (reg_proto R p) 0 (- 1) AddItem, ProtoSubtree tree (reg_ett R e)]"
  using assms by (auto simp: protocol_tree_def Let_def add_call_def)

lemma DissectMatterCommon_session:
  assumes "unat (mi_payloadLen mi) \<le> length tvb" and "mi_msgType mi \<in> session_types"
  shows "\<exists>res v'. DissectMatterCommon R tvb mi (v, t) = Some (res, v', t) \<and> info_column v' = info_column v \<and>
    view_items v' = view_items v \<and> (res = 0 \<longrightarrow> (\<exists>calls. view_calls v' = view_calls v @ calls))"
proof -
  obtain tree v1 where p: "protocol_tree R ''MatterCommon'' ''MatterCommon'' v = (tree, v1)" by fastforce
  note P = protocol_tree_fields [OF p]
  have m: "\<exists>title member. (\<forall>tree. handles_all (member tree)) \<and>
      map_of (common_messages R tvb mi tree) (mi_msgType mi) =
        Some (without_tracker (session_message R tvb mi title member tree))"
    using assms(2) unfolding session_types_def common_messages_def message_types
      DissectPBKDFParamRequest_def DissectPBKDFParamResponse_def DissectPasePake1_def DissectPasePake2_def
      DissectPasePake3_def DissectCaseSigma1_def DissectCaseSigma2_def DissectCaseSigma3_def DissectCaseSigma2Resume_def
    by (elim insertE emptyE; simp; use session_members_handle in blast)
  then obtain title member where "\<And>tree. handles_all (member tree)"
    and eq: "map_of (common_messages R tvb mi tree) (mi_msgType mi) =
        Some (without_tracker (session_message R tvb mi title member tree))" by blast
  from session_message_total [where member = member and R = R and title = title and tree = tree and v = v1, OF this(1) assms(1)]
  show ?thesis using P eq p by (fastforce simp: DissectMatterCommon_def without_tracker_def)
qed

section \<open>User directed commissioning\<close>

lemma AddUDCTargetApp_handles [handler_intros]: "handles_all (AddUDCTargetApp R tree)"
  unfolding AddUDCTargetApp_def target_app_member_def
  by (rule struct_item_handles, rule context_switch_handles) (simp_all add: handler_intros)

interpretation udc_target_app: element_handler "AddUDCTargetApp R" for R
  by (simp add: element_handler_iff handler_intros)

lemma udc_target_app_list_handles [handler_intros]: "handles_context (udc_target_app_list R tree)"
  using udc_target_app.AddListItem_keeps [of _ "reg_env R"] generic_handles [of R "''UDC_UnknownTag''" tree]
  by (simp add: handles_context_def udc_target_app_list_def)

lemma udc_member_handles [handler_intros]: "handles_all (udc_member R tree)"
  unfolding udc_member_def by (rule context_switch_handles) (simp_all add: handler_intros)

lemma udc_declaration_total:
  assumes "dissector_inv d"
  shows "\<exists>jumped d'. udc_declaration R tree d = Some (jumped, d')"
proof -
  obtain err d1 where n: "Dissector_Next_expect kTLVType_Structure AnonymousTag d = Some (err, d1)" "next_post d err d1"
    using Dissector_Next_expect_total [OF dissector_invD(1) [OF assms], of kTLVType_Structure AnonymousTag]
    by (elim returnsE) blast
  obtain err2 d2 where e: "err = 0 \<Longrightarrow> Dissector_EnterContainer (reg_env R) d1 = Some (err2, d2)"
    "err = 0 \<Longrightarrow> err2 = 0 \<Longrightarrow> dissector_inv d2 \<and> (\<exists>fs c. frames d2 = fs @ [Some c])"
    using n(2) Dissector_EnterContainer_spec [of d1 "reg_env R"]
    by (cases "err = 0") (auto simp: next_post_def elim!: returnsE)
  let ?body = "\<lambda>(_, d). with_locals () (udc_member R tree d)"
  obtain err3 u d3 where l: "err = 0 \<Longrightarrow> err2 = 0 \<Longrightarrow> each_elem ?body ((), d2) = Some (err3, u, d3)"
    "err = 0 \<Longrightarrow> err2 = 0 \<Longrightarrow> err3 = 0 \<Longrightarrow> loop_post d2 d3"
  proof (cases "err = 0 \<and> err2 = 0")
    case True
    have "returns (each_elem ?body ((), d2)) (\<lambda>err s'. err = 0 \<longrightarrow> loop_post (snd ((), d2)) (snd s'))"
      by (rule each_elem_total) (use handles_allD [OF udc_member_handles] e True dissector_invD(1) in auto)
    then show ?thesis using that by (auto elim!: returnsE)
  qed (use that in blast)
  show ?thesis
  proof (cases "err = 0 \<and> err2 = 0 \<and> err3 = 0")
    case True
    then obtain fs c where "frames d3 = fs @ [Some c]" "between_inv d3"
      using e(2) l(2) by (auto simp: loop_post_def)
    then obtain err4 d4 where "Dissector_ExitContainer d3 = Some (err4, d4)"
      using Dissector_ExitContainer_spec [of d3 fs c] by (auto elim!: returnsE)
    then show ?thesis using True n(1) e(1) l(1) by (auto simp: udc_declaration_def)
  next
    case False
    then show ?thesis using n(1) e(1) l(1) by (cases "err = 0"; cases "err2 = 0") (auto simp: udc_declaration_def)
  qed
qed

lemma take_find: "tvb_find_uint8 tvb len b = Some n \<Longrightarrow> n < len \<and> n < length tvb"
  by (auto simp: tvb_find_uint8_def Let_def split: if_splits)

lemma add_tvb_item_total:
  "0 \<le> off \<Longrightarrow> 0 \<le> n \<Longrightarrow> off + n \<le> int (length tvb) \<Longrightarrow>
   \<exists>c. add_tvb_item tree h tvb off n val v = Some (add_call c v)"
  by (auto simp: add_tvb_item_def tvb_range_def load_bytes_def nat_add_distrib [symmetric])

lemma run_tlv_returns:
  assumes body: "\<And>d. dissector_inv d \<Longrightarrow> \<exists>r d'. body d = Some (r, d')"
    and len: "off \<le> len" "len \<le> length tvb" "len < 65536"
  shows "\<exists>r v'. run_tlv R profile tvb off len body v = Some (r, v')"
proof -
  let ?data = "take (len - off) (drop off tvb)"
  have m: "tvb_memdup tvb off (int len - int off) = Some ?data"
    using len by (simp add: tvb_memdup_def load_bytes_def flip: of_nat_diff)
  have u: "unat (of_nat (len - off) :: u32) = len - off"
    using len by (simp add: unat_of_nat take_bit_nat_eq_self del: of_nat_diff)
  have "dissector_inv (start_dissector R profile ?data (of_nat (len - off)) (of_nat off) v)"
    by (rule start_dissector_inv) (use len u in simp_all)
  from body [OF this] m show ?thesis by (auto simp: run_tlv_def)
qed

lemma add_tvb_item_some:
  assumes "P \<Longrightarrow> 0 \<le> off \<and> 0 \<le> n \<and> off + n \<le> int (length tvb)"
  shows "\<exists>v'. P \<longrightarrow> add_tvb_item tree h tvb off n val v = Some v'"
  using add_tvb_item_total [of off n tvb tree h val v] assms by blast

lemma DissectUDCIdentificationDeclaration_total:
  assumes "unat (mi_payloadLen mi) \<le> length tvb"
  shows "\<exists>v'. DissectUDCIdentificationDeclaration R tvb mi tree v = Some (int (unat (mi_payloadLen mi)), v')"
proof -
  obtain m where m: "unat (mi_payloadLen mi) = m" by blast
  have lt: "m < 65536" using unsigned_less [of "mi_payloadLen mi", where ?'a = nat] m by simp
  have le: "m \<le> length tvb" using assms m by simp
  have run: "\<exists>r v'. run_tlv R kMatterProfile_UDC tvb off m (udc_declaration R tree) v = Some (r, v')"
    if "off \<le> m" for off v
    by (rule run_tlv_returns [OF udc_declaration_total that le lt])
  let ?v = "append_text tree '': IdentificationDeclaration'' v"
  show ?thesis
  proof (cases "tvb_find_uint8 tvb m 0x0A")
    case None
    obtain v1 where "add_tvb_item tree (reg_hf R ''UDC_RawPayload'') tvb 0 (int m) AddItem ?v = Some v1"
      using add_tvb_item_some [of True 0 "int m" tvb] le by force
    then show ?thesis
      using None unfolding DissectUDCIdentificationDeclaration_def Let_def m by (cases "m = 0") simp_all
  next
    case (Some n)
    note n = take_find [OF Some]
    obtain v1 where v1: "(if n > 0 then add_tvb_item tree (reg_hf R ''UDC_InstanceName'') tvb 0 (int n) AddItem ?v
        else add_tvb_item tree (reg_hf R ''UDC_InstanceName'') tvb 0 0 (AddString []) ?v) = Some v1"
      using add_tvb_item_some [of "n > 0" 0 "int n" tvb tree "reg_hf R ''UDC_InstanceName''" AddItem ?v]
        add_tvb_item_some [of "n = 0" 0 0 tvb tree "reg_hf R ''UDC_InstanceName''" "AddString []" ?v] n
      by (cases "n = 0") auto
    obtain v2 where v2: "n + 1 < m \<longrightarrow> add_tvb_item tree (reg_hf R ''UDC_IgnoreByte'') tvb (int (n + 1)) 1 AddItem v1 = Some v2"
      using add_tvb_item_some [of "n + 1 < m" "int (n + 1)" 1 tvb] le by force
    obtain v3 where v3: "n + 2 < m \<longrightarrow> add_tvb_item tree (reg_hf R ''UDC_TLVData'') tvb (int (n + 2)) (int (m - (n + 2))) AddItem v2 = Some v3"
      using add_tvb_item_some [of "n + 2 < m" "int (n + 2)" "int (m - (n + 2))" tvb] le by force
    obtain r v4 where "n + 2 < m \<Longrightarrow> run_tlv R kMatterProfile_UDC tvb (n + 2) m (udc_declaration R tree) v3 = Some (r, v4)"
      using run [of "n + 2" v3] by (cases "n + 2 < m") auto
    then show ?thesis
      using Some n v1 v2 v3 unfolding DissectUDCIdentificationDeclaration_def Let_def m
      by (cases "n + 1 < m"; cases "n + 2 < m") (auto simp: Suc_diff_Suc)
  qed
qed

end
