(* ===== verification/Sub_Layout.thy ===== *)
theory Sub_Layout
  imports Sub_Dissector_Inv TLV_Layout
begin

text \<open>
  What the handlers of the sub-dissectors show for an element of an encoding. \<open>prints h e f\<close>: on the element \<open>e\<close>, \<open>h\<close>
  succeeds, ends behind \<open>e\<close> and makes the calls \<open>f\<close>, which depend on the place of the element. The rules follow the
  combinators that the handlers are made of, so that what a message shows is computed from its elements.
\<close>

section \<open>Places\<close>

text \<open>The base of offsets, the implicit profile, the offset of the element and the number of calls before it.\<close>

record place =
  pl_base :: u32
  pl_imp :: u32
  pl_start :: nat
  pl_calls :: nat

type_synonym shown = "place \<Rightarrow> proto_call list"

definition place_of :: "dissector \<Rightarrow> tlv \<Rightarrow> byte list \<Rightarrow> place" where
  "place_of d e p = \<lparr>pl_base = mSourceBufBaseOffset d, pl_imp = ImplicitProfileId d,
     pl_start = unat (mMaxLen d) - length (encode e @ p), pl_calls = length (trace d)\<rparr>"

definition item_at :: "proto_tree \<Rightarrow> int \<Rightarrow> item_value \<Rightarrow> tlv \<Rightarrow> place \<Rightarrow> proto_call" where
  "item_at tree hf v e s = line tree hf (pl_base s) (pl_start s) (length (encode e)) v"

definition move :: "nat \<Rightarrow> nat \<Rightarrow> place \<Rightarrow> place" where
  "move n calls s = s\<lparr>pl_start := pl_start s + n, pl_calls := pl_calls s + calls\<rparr>"

lemma move_fields [simp]:
  "pl_base (move n k s) = pl_base s" "pl_imp (move n k s) = pl_imp s" "pl_start (move n k s) = pl_start s + n"
  "pl_calls (move n k s) = pl_calls s + k"
  by (simp_all add: move_def)

lemma place_of_fields [simp]:
  "pl_base (place_of d e p) = mSourceBufBaseOffset d" "pl_imp (place_of d e p) = ImplicitProfileId d"
  "pl_start (place_of d e p) = unat (mMaxLen d) - length (encode e @ p)" "pl_calls (place_of d e p) = length (trace d)"
  by (simp_all add: place_of_def)

section \<open>The elements of a container\<close>

text \<open>The calls for a sequence of elements; \<open>step\<close> is what an element does to the local variables of the loop.\<close>

fun all_shown :: "(tlv \<Rightarrow> 'l \<Rightarrow> 'l) \<Rightarrow> (tlv \<Rightarrow> 'l \<Rightarrow> shown) \<Rightarrow> tlv list \<Rightarrow> 'l \<Rightarrow> shown" where
  "all_shown step f [] l s = []"
| "all_shown step f (e # es) l s =
     f e l s @ all_shown step f es (step e l) (move (length (encode e)) (length (f e l s)) s)"

text \<open>A handler with local variables on one element.\<close>

definition prints_with ::
  "('l \<times> dissector \<Rightarrow> ('l \<times> dissector) result) \<Rightarrow> tlv \<Rightarrow> 'l \<Rightarrow> 'l \<Rightarrow> shown \<Rightarrow> bool" where
  "prints_with b e l l' f \<longleftrightarrow> (\<forall>d p. on_elem d e p \<and> p \<noteq> [] \<longrightarrow>
     (\<exists>d'. b (l, d) = Some (MATTER_NO_ERROR, l', d') \<and> keeps d d' \<and> behind d' p \<and> same_config d d' \<and>
        trace d' = trace d @ f (place_of d e p)))"

definition prints_on :: "elem_handler \<Rightarrow> tlv \<Rightarrow> byte list \<Rightarrow> shown \<Rightarrow> dissector \<Rightarrow> bool" where
  "prints_on h e p f d \<longleftrightarrow> (\<exists>d'. h d = Some (MATTER_NO_ERROR, d') \<and> keeps d d' \<and> behind d' p \<and> same_config d d' \<and>
     trace d' = trace d @ f (place_of d e p))"

definition prints :: "elem_handler \<Rightarrow> tlv \<Rightarrow> shown \<Rightarrow> bool" where
  "prints h e f \<longleftrightarrow> (\<forall>d p. on_elem d e p \<and> p \<noteq> [] \<longrightarrow> prints_on h e p f d)"

lemma prints_with_locals:
  "prints h e f \<Longrightarrow> prints_with (\<lambda>(l, d). with_locals l (h d)) e l l f"
  by (fastforce simp: prints_def prints_on_def prints_with_def with_locals_def)

lemma ahead_not_Nil: "encodes es @ end_of_container # p \<noteq> []"
  by simp

text \<open>The loop.\<close>

lemma each_elem_prints:
  assumes "behind d (encodes es @ end_of_container # p)" and "between_inv d"
    and "\<forall>e \<in> set es. wf_tlv (ImplicitProfileId d) (mContainerType d) e"
    and "mContainerType d \<noteq> kTLVType_NotSpecified"
    and "\<And>e l. e \<in> set es \<Longrightarrow> prints_with b e l (step e l) (f e l)"
  shows "\<exists>d'. each_elem b (l, d) = Some (MATTER_NO_ERROR, fold step es l, d') \<and> loop_post d d' \<and>
    trace d' = trace d @ all_shown step f es l \<lparr>pl_base = mSourceBufBaseOffset d, pl_imp = ImplicitProfileId d,
      pl_start = unat (mMaxLen d) - length (encodes es @ end_of_container # p), pl_calls = length (trace d)\<rparr> \<and>
    ElementType d' = kTLVElementType_EndOfContainer \<and> ahead d' p \<and> same_config d d'"
  using assms
proof (induction es arbitrary: d l)
  case Nil
  obtain d' where d': "Dissector_Next d = Some (MATTER_END_OF_TLV, d')" "trace d' = trace d"
    "ElementType d' = kTLVElementType_EndOfContainer" "ahead d' p" "same_config d d'"
    using Dissector_Next_end [of d p] Nil.prems(1,4) by auto
  have "next_post d MATTER_END_OF_TLV d'" using Dissector_Next_total [OF Nil.prems(2)] d'(1) by simp
  then have "loop_post d d'" by (auto simp: next_post_def loop_post_def same_frames_def frames_def entries_def)
  then show ?case using d' by (subst each_elem.simps) simp
next
  case (Cons e es)
  let ?q = "encodes es @ end_of_container # p"
  have b: "behind d (encode e @ ?q)" using Cons.prems(1) by simp
  obtain d1 where d1: "Dissector_Next d = Some (MATTER_NO_ERROR, d1)" "on_elem d1 e ?q"
    "same_config d d1" "same_frames d d1" "trace d1 = trace d"
    using Dissector_Next_on_elem [OF b Cons.prems(2)] Cons.prems(3) by auto
  have np: "next_post d 0 d1" using Dissector_Next_total [OF Cons.prems(2)] d1(1) by simp
  obtain d2 where d2: "b (l, d1) = Some (MATTER_NO_ERROR, step e l, d2)" "keeps d1 d2" "behind d2 ?q"
    "same_config d1 d2" "trace d2 = trace d1 @ f e l (place_of d1 e ?q)"
    using Cons.prems(5) [of e l] d1(2) unfolding prints_with_def by fastforce
  have cfg: "same_config d d2" by (rule same_config_trans [OF d1(3) d2(4)])
  have "\<exists>d'. each_elem b (step e l, d2) = Some (MATTER_NO_ERROR, fold step es (step e l), d') \<and> loop_post d2 d' \<and>
    trace d' = trace d2 @ all_shown step f es (step e l) \<lparr>pl_base = mSourceBufBaseOffset d2, pl_imp = ImplicitProfileId d2,
      pl_start = unat (mMaxLen d2) - length ?q, pl_calls = length (trace d2)\<rparr> \<and>
    ElementType d' = kTLVElementType_EndOfContainer \<and> ahead d' p \<and> same_config d2 d'"
  proof (rule Cons.IH [OF d2(3)])
    show "between_inv d2" using d2(2) by (simp add: keeps_def dissector_invD(1))
  qed (use Cons.prems cfg in \<open>simp_all add: same_config_def\<close>)
  then obtain d' where d': "each_elem b (step e l, d2) = Some (MATTER_NO_ERROR, fold step es (step e l), d')"
    "loop_post d2 d'" "trace d' = trace d2 @ all_shown step f es (step e l) \<lparr>pl_base = mSourceBufBaseOffset d2,
      pl_imp = ImplicitProfileId d2, pl_start = unat (mMaxLen d2) - length ?q, pl_calls = length (trace d2)\<rparr>"
    "ElementType d' = kTLVElementType_EndOfContainer" "ahead d' p" "same_config d2 d'" by blast
  have len: "length (encode e @ ?q) \<le> unat (mMaxLen d)"
    using d1(2,3) by (simp add: on_elem_def same_config_def)
  let ?s = "\<lparr>pl_base = mSourceBufBaseOffset d, pl_imp = ImplicitProfileId d,
      pl_start = unat (mMaxLen d) - length (encode e @ ?q), pl_calls = length (trace d)\<rparr>"
  have s1: "place_of d1 e ?q = ?s" using d1(3,5) by (simp add: place_of_def same_config_def)
  have s2: "\<lparr>pl_base = mSourceBufBaseOffset d2, pl_imp = ImplicitProfileId d2,
      pl_start = unat (mMaxLen d2) - length ?q, pl_calls = length (trace d2)\<rparr> =
    move (length (encode e)) (length (f e l ?s)) ?s"
    using cfg d2(5) d1(5) len s1 by (simp add: move_def same_config_def)
  have lp: "loop_post d d'"
    using np d2(2) d'(2) by (auto simp: loop_post_def next_post_def keeps_def same_frames_def frames_def entries_def)
  have "each_elem b (l, d) = Some (MATTER_NO_ERROR, fold step (e # es) l, d')"
    using d1(1) d2(1) d'(1) by (subst each_elem.simps) simp
  moreover have "trace d' = trace d @ all_shown step f (e # es) l ?s"
    using d'(3) d2(5) d1(5) unfolding s2 s1 by simp
  ultimately show ?case using d'(4,5) lp same_config_trans [OF cfg d'(6)] by auto
qed

text \<open>Entering, the loop and leaving.\<close>

lemma in_container_prints:
  fixes b :: "'l \<times> dissector \<Rightarrow> ('l \<times> dissector) result"
  assumes on: "on_elem d (Node t ty es) p" and E: "memory_ok E"
    and elem: "\<And>e l. e \<in> set es \<Longrightarrow> prints_with b e l (step e l) (f e l)"
  shows "\<exists>d'. in_container E b (l, d) = Some (MATTER_NO_ERROR, fold step es l, d') \<and> keeps d d' \<and> behind d' p \<and>
    same_config d d' \<and> mLastItem d' = mLastItem d \<and> mElemStart d' = mElemStart d \<and> mElemLen d' = mElemLen d \<and>
    trace d' = trace d @ all_shown step f es l (move (length (enc_head t ty 0)) 0 (place_of d (Node t ty es) p))"
proof -
  let ?e = "Node t ty es" and ?q = "encodes es @ end_of_container # p"
  have et: "ElementType d = uint ty" "elem8 d = ty" "TLVTypeIsContainer ty" "dissector_inv d" "ahead d ?q"
    "\<forall>e \<in> set es. wf_tlv (ImplicitProfileId d) (uint ty) e" "length (encode ?e @ p) \<le> unat (mMaxLen d)"
    using on by (simp_all add: on_elem_def elem_body_def)
  obtain d3 where d3: "Dissector_EnterContainer E d = Some (MATTER_NO_ERROR, d3)" "ahead d3 ?q"
    "ImplicitProfileId d3 = ImplicitProfileId d" "mMaxLen d3 = mMaxLen d" "mSourceBufBaseOffset d3 = mSourceBufBaseOffset d"
    by (rule Enter_ahead [OF et(4) _ E et(5)]) (use et(2,3) in simp)
  let ?c = "\<lparr>ContainerType = mContainerType d, ContainerItem = mLastItem d, CtxElemStart = mElemStart d,
      CtxElemLen = mElemLen d\<rparr>"
  have d3': "dissector_inv d3" "mContainerType d3 = uint ty" "ElementType d3 = kTLVElementType_NotSpecified"
    "trace d3 = trace d" "frames d3 = frames d @ [Some ?c]" "remaining d3 \<le> remaining d"
    using Dissector_EnterContainer_spec [OF et(4), of E] d3(1) et(1) by simp_all
  obtain d4 where d4: "each_elem b (l, d3) = Some (MATTER_NO_ERROR, fold step es l, d4)" "loop_post d3 d4"
    "trace d4 = trace d3 @ all_shown step f es l \<lparr>pl_base = mSourceBufBaseOffset d3, pl_imp = ImplicitProfileId d3,
      pl_start = unat (mMaxLen d3) - length ?q, pl_calls = length (trace d3)\<rparr>"
    "ElementType d4 = kTLVElementType_EndOfContainer" "ahead d4 p" "same_config d3 d4"
    using each_elem_prints [where d = d3 and es = es and p = p and b = b and step = step and f = f and l = l]
      behind_clear [OF d3(2) d3'(3)] dissector_invD(1) [OF d3'(1)] et(3,6) d3(3) d3'(2) elem
    by (auto simp: TLVTypeIsContainer_def)
  have fr4: "frames d4 = frames d @ [Some ?c]" "between_inv d4" using d4(2) d3'(5) by (simp_all add: loop_post_def)
  obtain d5 where d5: "Dissector_ExitContainer d4 = Some (MATTER_NO_ERROR, d5)" "behind d5 p"
    "mElemStart d5 = CtxElemStart ?c" "mElemLen d5 = CtxElemLen ?c" "mContainerType d5 = ContainerType ?c"
    "trace d5 = trace d4" "ImplicitProfileId d5 = ImplicitProfileId d4" "mMaxLen d5 = mMaxLen d4"
    "mSourceBufBaseOffset d5 = mSourceBufBaseOffset d4"
    by (rule Exit_at_end [OF fr4(2,1) d4(4,5)])
  have x: "dissector_inv d5" "frames d5 = frames d" "remaining d5 \<le> remaining d4" "mLastItem d5 = mLastItem d"
    using Dissector_ExitContainer_spec [OF fr4(2,1)] d5(1) by simp_all
  have "remaining d4 \<le> remaining d3" using d4(2) by (simp add: loop_post_def)
  then have r: "remaining d5 \<le> remaining d" using x(3) d3'(6) by simp
  let ?s = "move (length (enc_head t ty 0)) 0 (place_of d ?e p)"
  have s: "\<lparr>pl_base = mSourceBufBaseOffset d3, pl_imp = ImplicitProfileId d3,
      pl_start = unat (mMaxLen d3) - length ?q, pl_calls = length (trace d3)\<rparr> = ?s"
    using d3(3-5) d3'(4) et(7) by (simp add: move_def place_of_def encode_Node)
  have "in_container E b (l, d) = Some (MATTER_NO_ERROR, fold step es l, d5)"
    using d3(1) d4(1) d5(1) by (simp add: in_container_def with_locals_def)
  moreover have tr: "trace d5 = trace d @ all_shown step f es l ?s" using d5(6) d4(3) d3'(4) s by simp
  moreover have "keeps d d5" using x(1,2) r d5(5) tr by (auto simp: keeps_def)
  moreover have "same_config d d5" using d5(5,7-9) d4(6) d3(3-5) by (simp add: same_config_def)
  ultimately show ?thesis using d5(2-4) x(4) by simp
qed

section \<open>Handlers of one element\<close>

text \<open>The type that \<open>GetType\<close> gives for an element type.\<close>

definition kind_of :: "byte \<Rightarrow> TLVType" where
  "kind_of ty =
     (let k = uint ty in
      if k \<le> 3 then kTLVType_SignedInteger else if k \<le> 7 then kTLVType_UnsignedInteger
      else if k \<le> 9 then kTLVType_Boolean else if k \<le> 11 then kTLVType_FloatingPointNumber
      else if k \<le> 15 then kTLVType_UTF8String else if k \<le> 19 then kTLVType_ByteString
      else if k = 20 then kTLVType_Null else k)"

lemma elem_type_cases:
  assumes "wf_tlv imp ct e"
  shows "uint (elem_type e) \<le> 20 \<or> TLVTypeIsContainer (elem_type e)"
  using assms by (cases e) (auto simp: TLVTypeIsContainer_def)

lemma on_elem_type: "on_elem d e p \<Longrightarrow> GetType d = kind_of (elem_type e)"
  using elem_type_cases [of "ImplicitProfileId d" "mContainerType d" e] GetType_leaf [of d "uint (elem_type e)"]
    GetType_node [of "elem_type e" d]
  by (auto simp: on_elem_def kind_of_def Let_def TLVTypeIsContainer_def)

lemma kind_of_container: "TLVTypeIsContainer ty \<Longrightarrow> kind_of ty = uint ty"
  by (auto simp: kind_of_def TLVTypeIsContainer_def)

lemma on_elem_tag: "on_elem d e p \<Longrightarrow> GetTag d = tag_value (ImplicitProfileId d) (elem_tag e)"
  by (simp add: on_elem_def GetTag_def)

lemma on_elem_add_item [simp]: "on_elem d e p \<Longrightarrow> on_elem (add_item tree hf v d) e p"
  and on_elem_emit [simp]: "on_elem d e p \<Longrightarrow> on_elem (emit c d) e p"
  by (simp_all add: on_elem_def) (simp_all add: add_item_def emit_def)

lemma on_elem_leaf_behind: "on_elem d (Leaf t ty v bs) p \<Longrightarrow> behind d p"
  unfolding behind_def by (intro exI [of _ bs]) (auto simp: on_elem_def elem_body_def)

lemma add_item_at:
  assumes "on_elem d e p"
  shows "trace (add_item tree hf v d) = trace d @ [item_at tree hf v e (place_of d e p)]"
  using assms add_item_line [of d "unat (mMaxLen d) - length (encode e @ p)" "length (encode e)" tree hf v]
  by (simp add: item_at_def on_elem_def)

text \<open>A line for a leaf whose value was read without moving.\<close>

lemma prints_line:
  assumes "\<And>d p. on_elem d (Leaf t ty v bs) p \<Longrightarrow> p \<noteq> [] \<Longrightarrow> h d = Some (MATTER_NO_ERROR, add_item tree hf val d)"
  shows "prints h (Leaf t ty v bs) (\<lambda>s. [item_at tree hf val (Leaf t ty v bs) s])"
  unfolding prints_def
proof (intro allI impI, elim conjE)
  fix d p assume on: "on_elem d (Leaf t ty v bs) p" and p: "p \<noteq> []"
  have "keeps d d" using on by (simp add: keeps_refl on_elem_def)
  then show "prints_on h (Leaf t ty v bs) p (\<lambda>s. [item_at tree hf val (Leaf t ty v bs) s]) d"
    using assms [OF on p] add_item_at [OF on] on_elem_leaf_behind [OF on]
    by (simp add: prints_on_def)
qed

text \<open>A string that was copied.\<close>

lemma DupString_on_elem:
  assumes on: "on_elem d (Leaf t ty v bs) p" and "12 \<le> uint ty" and "uint ty \<le> 19"
  obtains d' where "DupString (\<lambda>_. True) d = Some (MATTER_NO_ERROR, Some bs, d')" "behind d' p" "keeps d d'"
    "same_config d d'" "mElemStart d' = mElemStart d" "mElemLen d' = mElemLen d" "trace d' = trace d"
proof -
  have wf: "\<not> TLVTypeIsContainer ty" "uint ty < 24" "if TLVTypeHasLength ty then unat v = length bs else bs = []"
    and a: "ahead d (bs @ p)" and e: "ElementType d = uint ty" "elem8 d = ty" "mElemLenOrVal d = v" "dissector_inv d"
    using on by (simp_all add: on_elem_def elem_body_def)
  have s: "TLVTypeIsString (elem8 d)" "unat (mElemLenOrVal d) = length bs"
    using assms(2,3) wf e by (simp_all add: TLVTypeIsString_def TLVTypeHasLength_def)
  let ?d = "(advance (length bs) d)\<lparr>mElemLenOrVal := 0\<rparr>"
  have D: "DupString (\<lambda>_. True) d = Some (MATTER_NO_ERROR, Some bs, ?d)" by (rule DupString_ahead [OF a s])
  obtain err buf d' where "DupString (\<lambda>_. True) d = Some (err, buf, d')" "stays d d'"
    by (rule DupString_total [OF dissector_invD(2) [OF e(4)]]) (use s(2) ahead_length(2) [OF a] in auto)
  then have st: "stays d ?d" using D by simp
  have f: "elem8 ?d = elem8 d" "mElemLenOrVal ?d = 0" "mContainerType ?d = mContainerType d" by simp_all
  show ?thesis
  proof (rule that [OF D])
    show "behind ?d p"
      using ahead_advance [OF a] wf(1,2) e unfolding behind_def by (intro exI [of _ "[]"]) simp
    show "keeps d ?d" by (rule stays_keeps [OF st e(4) f(1) _ f(3)]) (simp add: f(2))
  qed (use more_eq [of ?d d] in \<open>simp_all add: same_config_def\<close>)
qed

text \<open>The value \<open>AddTypedItem\<close> gives the host, if the field has a type for it.\<close>

definition typed_value :: "ftenum \<Rightarrow> byte \<Rightarrow> u64 \<Rightarrow> byte list \<Rightarrow> item_value option" where
  "typed_value T ty v bs =
     (let k = uint ty; n = (if k = 0 then scast (ucast v :: byte) else if k = 1 then scast (ucast v :: u16)
        else if k = 2 then scast (ucast v :: u32) else v :: u64) in
      if k \<le> 3 then (if T \<in> {FT_INT8, FT_INT16, FT_INT24, FT_INT32} then Some (AddInt (ucast n))
        else if T \<in> {FT_INT40, FT_INT48, FT_INT56, FT_INT64} then Some (AddInt64 n) else None)
      else if k \<le> 7 then (if T \<in> {FT_UINT8, FT_UINT16, FT_UINT24, FT_UINT32} then Some (AddUint (ucast v))
        else if T \<in> {FT_UINT40, FT_UINT48, FT_UINT56, FT_UINT64} then Some (AddUint64 v) else None)
      else if k \<le> 9 then Some (AddBoolean (k = 9))
      else if k = 10 then Some (AddDouble (OfFloat (ucast v))) else if k = 11 then Some (AddDouble (OfDouble v))
      else if k \<le> 15 then Some (AddString (cstr bs))
      else if k \<le> 19 then Some (AddBytes bs)
      else Some (AddNone ''null''))"

lemma typed_prints:
  assumes "memory_ok (reg_env R)"
    and "typed_value (proto_registrar_get_ftype (reg_env R) (reg_hf R hf)) ty v bs = Some val"
  shows "prints (typed R hf tree) (Leaf t ty v bs) (\<lambda>s. [item_at tree (reg_hf R hf) val (Leaf t ty v bs) s])"
  unfolding prints_def
proof (intro allI impI, elim conjE)
  fix d p assume on: "on_elem d (Leaf t ty v bs) p" and p: "p \<noteq> []"
  let ?e = "Leaf t ty v bs"
  have wf: "\<not> TLVTypeIsContainer ty" "uint ty < 24" "if TLVTypeHasLength ty then unat v = length bs else bs = []"
    and a: "ahead d (bs @ p)" and et: "ElementType d = uint ty" "elem8 d = ty" "mElemLenOrVal d = v" "dissector_inv d"
    using on by (simp_all add: on_elem_def elem_body_def)
  have ty: "0 \<le> uint ty" "uint ty \<le> 20" using wf(1,2) by (auto simp: TLVTypeIsContainer_def)
  note T = GetType_leaf [OF et(1) ty]
  have k: "keeps d d" using et(4) by (rule keeps_refl)
  note line = add_item_at [OF on, of tree "reg_hf R hf"] and bh = on_elem_leaf_behind [OF on]
  consider (num) "uint ty \<le> 11 \<or> uint ty = 20" | (str) "12 \<le> uint ty" "uint ty \<le> 15"
    | (bytes) "16 \<le> uint ty" "uint ty \<le> 19" using ty(2) by linarith
  then show "prints_on (typed R hf tree) ?e p (\<lambda>s. [item_at tree (reg_hf R hf) val ?e s]) d"
  proof cases
    case num
    then have "uint ty = 0 \<or> uint ty = 1 \<or> uint ty = 2 \<or> uint ty = 3 \<or> uint ty = 4 \<or> uint ty = 5 \<or>
        uint ty = 6 \<or> uint ty = 7 \<or> uint ty = 8 \<or> uint ty = 9 \<or> uint ty = 10 \<or> uint ty = 11 \<or> uint ty = 20"
      using ty(1) by presburger
    then have "typed R hf tree d = Some (MATTER_NO_ERROR, add_item tree (reg_hf R hf) val d)"
      using assms(2)
      by (elim disjE; cases "proto_registrar_get_ftype (reg_env R) (reg_hf R hf)";
          simp add: typed_def AddTypedItem_def T typed_value_def Get_i64_def Get_u64_def Get_bool_def
          Get_double_def Let_def et(1,3))
    then show ?thesis using line bh k by (simp add: prints_on_def)
  next
    case str
    obtain d' where d': "DupString (\<lambda>_. True) d = Some (MATTER_NO_ERROR, Some bs, d')" "behind d' p" "keeps d d'"
      "same_config d d'" "mElemStart d' = mElemStart d" "mElemLen d' = mElemLen d" "trace d' = trace d"
      using DupString_on_elem [OF on] str by force
    have v: "val = AddString (cstr bs)" using str assms(2) by (simp add: typed_value_def)
    have "typed R hf tree d = Some (MATTER_NO_ERROR, add_item tree (reg_hf R hf) val d')"
      using str d'(1) assms(1) v by (simp add: typed_def AddTypedItem_def T memory_ok_def)
    moreover have "trace (add_item tree (reg_hf R hf) val d') = trace (add_item tree (reg_hf R hf) val d)"
      using d'(4-7) by (simp add: add_item_def emit_def same_config_def)
    ultimately show ?thesis using d'(2-4) line by (simp add: prints_on_def)
  next
    case bytes
    have s: "TLVTypeIsString (elem8 d)" "unat (mElemLenOrVal d) = length bs"
      using bytes wf et by (simp_all add: TLVTypeIsString_def TLVTypeHasLength_def)
    have "bs @ p \<noteq> []" using p by simp
    note G = GetDataPtr_ahead [OF a s this]
    have "typed R hf tree d = Some (MATTER_NO_ERROR, add_item tree (reg_hf R hf) val d)"
      using bytes G assms(2) by (simp add: typed_def AddTypedItem_def T typed_value_def)
    then show ?thesis using line bh k by (simp add: prints_on_def)
  qed
qed

section \<open>Combinators\<close>

lemma prints_of_types:
  assumes "prints h e f" and "kind_of (elem_type e) \<in> set types"
  shows "prints (of_types types h) e f"
  unfolding prints_def
proof (intro allI impI, elim conjE)
  fix d p assume on: "on_elem d e p" and "p \<noteq> []"
  then have "prints_on h e p f d" using assms(1) by (simp add: prints_def)
  moreover have "of_types types h d = h d" using on_elem_type [OF on] assms(2) by (simp add: of_types_def VerifyOrExit_def)
  ultimately show "prints_on (of_types types h) e p f d" by (simp add: prints_on_def)
qed

text \<open>A \<open>switch\<close> over context tags takes the case of the tag of the element.\<close>

lemma prints_context_switch:
  assumes "elem_tag e = TContext n"
    and "prints (case map_of cases (ucast n) of Some h \<Rightarrow> h | None \<Rightarrow> dflt) e f"
  shows "prints (context_switch cases dflt) e f"
  unfolding prints_def
proof (intro allI impI, elim conjE)
  fix d p assume on: "on_elem d e p" and "p \<noteq> []"
  then have "prints_on (case map_of cases (ucast n) of Some h \<Rightarrow> h | None \<Rightarrow> dflt) e p f d"
    using assms(2) by (simp add: prints_def)
  moreover have "context_switch cases dflt d = (case map_of cases (ucast n) of Some h \<Rightarrow> h | None \<Rightarrow> dflt) d"
    using on_elem_tag [OF on] assms(1)
    by (simp add: context_switch_def tag_switch_def VerifyOrExit_def split: option.split)
  ultimately show "prints_on (context_switch cases dflt) e p f d" by (simp add: prints_on_def)
qed

lemma members_prints_on:
  assumes on: "on_elem d (Node t ty es) p" and E: "memory_ok (reg_env R)"
    and elem: "\<And>e. e \<in> set es \<Longrightarrow> prints h e (f e)"
  shows "prints_on (members R h) (Node t ty es) p
    (\<lambda>s. all_shown (\<lambda>_ l. l) (\<lambda>e _. f e) es () (move (length (enc_head t ty 0)) 0 s)) d"
proof -
  have "prints_with (\<lambda>(_ :: unit, d). with_locals () (h d)) e l l (f e)" if "e \<in> set es" for e l
    using elem [OF that] by (fastforce simp: prints_def prints_on_def prints_with_def with_locals_def)
  then obtain d' where "in_container (reg_env R) (\<lambda>(_, d). with_locals () (h d)) ((), d) = Some (MATTER_NO_ERROR, (), d')"
    "keeps d d'" "behind d' p" "same_config d d'" "trace d' = trace d @ all_shown (\<lambda>_ l. l) (\<lambda>e _. f e) es ()
       (move (length (enc_head t ty 0)) 0 (place_of d (Node t ty es) p))"
    using in_container_prints [OF on E, where b = "\<lambda>(_, d). with_locals () (h d)" and step = "\<lambda>_ l. l" and f = "\<lambda>e _. f e" and l = "()"] by auto
  then show ?thesis by (auto simp: prints_on_def members_def)
qed

text \<open>\<open>AddSubTreeItem\<close>: an item for the element and a subtree, whose handle is the number of the item.\<close>

definition tree_item :: "proto_tree \<Rightarrow> int \<Rightarrow> int \<Rightarrow> tlv \<Rightarrow> shown" where
  "tree_item tree hf ett e s = [item_at tree hf AddItem e s, ProtoSubtree (Some (pl_calls s)) ett]"

lemma kind_not_NotSpecified: "wf_tlv imp ct e \<Longrightarrow> kind_of (elem_type e) \<noteq> kTLVType_NotSpecified"
  using elem_type_cases [of imp ct e] by (auto simp: kind_of_def Let_def TLVTypeIsContainer_def)

lemma AddSubTreeItem_on_elem:
  assumes on: "on_elem d e p"
  obtains d' where "AddSubTreeItem tree hf ett sub d = (MATTER_NO_ERROR, Some (length (trace d)), d')" "on_elem d' e p"
    "keeps d d'" "same_config d d'" "mLastItem d' = Some (length (trace d))"
    "trace d' = trace d @ tree_item tree hf ett e (place_of d e p)"
    "place_of d' e p = move 0 2 (place_of d e p)"
proof -
  let ?d1 = "add_item tree hf AddItem d"
  let ?d' = "emit (ProtoSubtree (mLastItem ?d1) ett) ?d1"
  have inv: "dissector_inv d" and wf: "wf_tlv (ImplicitProfileId d) (mContainerType d) e"
    using on by (simp_all add: on_elem_def)
  have l: "mLastItem ?d1 = Some (length (trace d))" by (simp add: add_item_def)
  have t: "GetType d \<noteq> kTLVType_NotSpecified" using on_elem_type [OF on] kind_not_NotSpecified [OF wf] by simp
  have tr: "trace ?d' = trace d @ tree_item tree hf ett e (place_of d e p)"
    using add_item_at [OF on, of tree hf AddItem] l by (simp add: emit_def tree_item_def)
  show ?thesis
  proof (rule that)
    show "AddSubTreeItem tree hf ett sub d = (MATTER_NO_ERROR, Some (length (trace d)), ?d')"
      using t by (simp add: AddSubTreeItem_def Let_def l)
    show "on_elem ?d' e p" using on by simp
    show "keeps d ?d'" using keeps_refl [OF inv] by simp
    show "same_config d ?d'" by simp
    show "mLastItem ?d' = Some (length (trace d))" by (simp add: emit_def l)
    show "place_of ?d' e p = move 0 2 (place_of d e p)"
      using tr by (simp add: place_of_def move_def tree_item_def) (simp add: add_item_def emit_def)
  qed (fact tr)
qed

text \<open>A structure under a subtree of its own.\<close>

definition members_shown :: "(tlv \<Rightarrow> shown) \<Rightarrow> tlv \<Rightarrow> shown" where
  "members_shown f e s =
     (case e of Node t ty es \<Rightarrow> all_shown (\<lambda>_ l. l) (\<lambda>e _. f e) es () (move (length (enc_head t ty 0)) 0 s)
      | Leaf t ty v bs \<Rightarrow> [])"

definition subtree_shown :: "proto_tree \<Rightarrow> int \<Rightarrow> int \<Rightarrow> (proto_tree \<Rightarrow> tlv \<Rightarrow> shown) \<Rightarrow> tlv \<Rightarrow> shown" where
  "subtree_shown tree hf ett f e s =
     tree_item tree hf ett e s @ members_shown (f (Some (pl_calls s))) e (move 0 2 s)"

lemma prints_on_keeps_end: "prints_on h e p f d \<Longrightarrow> \<exists>d'. h d = Some (MATTER_NO_ERROR, d')"
  by (auto simp: prints_on_def)

lemma subtree_members_prints_on:
  assumes on: "on_elem d (Node t ty es) p" and E: "memory_ok (reg_env R)"
    and elem: "\<And>sub e. e \<in> set es \<Longrightarrow> prints (h sub) e (f sub e)"
  shows "prints_on (subtree_members R hf ett h tree) (Node t ty es) p (subtree_shown tree hf ett f (Node t ty es)) d"
proof -
  let ?e = "Node t ty es"
  obtain d1 where d1: "AddSubTreeItem tree hf ett None d = (MATTER_NO_ERROR, Some (length (trace d)), d1)" "on_elem d1 ?e p"
    "keeps d d1" "same_config d d1" "mLastItem d1 = Some (length (trace d))"
    "trace d1 = trace d @ tree_item tree hf ett ?e (place_of d ?e p)" "place_of d1 ?e p = move 0 2 (place_of d ?e p)"
    by (rule AddSubTreeItem_on_elem [OF on])
  have "prints_on (members R (h (Some (length (trace d))))) ?e p
      (\<lambda>s. all_shown (\<lambda>_ l. l) (\<lambda>e _. f (Some (length (trace d))) e) es () (move (length (enc_head t ty 0)) 0 s)) d1"
    by (rule members_prints_on [OF d1(2) E elem])
  then obtain d2 where "members R (h (Some (length (trace d)))) d1 = Some (MATTER_NO_ERROR, d2)" "keeps d1 d2"
    "behind d2 p" "same_config d1 d2" "trace d2 = trace d1 @ all_shown (\<lambda>_ l. l) (\<lambda>e _. f (Some (length (trace d))) e) es ()
       (move (length (enc_head t ty 0)) 0 (move 0 2 (place_of d ?e p)))"
    unfolding prints_on_def d1(7) by blast
  then show ?thesis
    using d1(1,6) keeps_trans [OF d1(3)] same_config_trans [OF d1(4)]
    by (simp add: prints_on_def subtree_members_def subtree_shown_def members_shown_def)
qed

lemma prints_subtree_members:
  assumes "memory_ok (reg_env R)" and "\<And>sub e. e \<in> set es \<Longrightarrow> prints (h sub) e (f sub e)"
  shows "prints (subtree_members R hf ett h tree) (Node t ty es) (subtree_shown tree hf ett f (Node t ty es))"
  unfolding prints_def by (intro allI impI, elim conjE) (rule subtree_members_prints_on [OF _ assms])

lemma prints_struct_item:
  assumes "memory_ok (reg_env R)" and "\<And>sub e. e \<in> set es \<Longrightarrow> prints (h sub) e (f sub e)"
  shows "prints (struct_item R hf ett_var h tree) (Node t 0x15 es)
    (subtree_shown tree hf (reg_ett R ett_var) f (Node t 0x15 es))"
  unfolding struct_item_def
  by (rule prints_of_types [OF prints_subtree_members [OF assms]]) (simp_all add: kind_of_def)

text \<open>A list: its item, what the handler shows for the elements, and the number of the elements behind the item.\<close>

definition list_shown :: "proto_tree \<Rightarrow> int \<Rightarrow> int \<Rightarrow> (proto_tree \<Rightarrow> tlv \<Rightarrow> shown) \<Rightarrow> tlv \<Rightarrow> shown" where
  "list_shown tree hf ett f e s =
     subtree_shown tree hf ett f e s @
     [ProtoAppendText (Some (pl_calls s)) ('' (len = '' @
        dec (case e of Node t ty es \<Rightarrow> length es | Leaf t ty v bs \<Rightarrow> 0) @ '')'')]"

lemma all_shown_no_locals:
  "all_shown step (\<lambda>e _. f e) es l s = all_shown (\<lambda>_ l. l) (\<lambda>e _. f e) es () s"
  by (induction es arbitrary: l s) simp_all

lemma fold_count: "fold (\<lambda>_ n. n + 1) es (n :: u32) = n + of_nat (length es)"
  by (induction es arbitrary: n) (simp_all add: add_ac)

lemma length_le_encodes: "length es \<le> length (encodes es)"
proof (induction es)
  case (Cons e es)
  have "0 < length (encode e)" by (cases e) (simp_all add: enc_head_def encode_Node)
  then have "Suc (length es) \<le> length (encode e) + length (encodes es)" using Cons.IH by linarith
  then show ?case by simp
qed simp

lemma prints_AddListItem:
  assumes E: "memory_ok (reg_env R)" and ty: "ty = 0x16 \<or> ty = 0x17"
    and elem: "\<And>sub e. e \<in> set es \<Longrightarrow> prints (h sub) e (f sub e)"
  shows "prints (AddListItem (reg_env R) tree hf ett h) (Node t ty es) (list_shown tree hf ett f (Node t ty es))"
  unfolding prints_def
proof (intro allI impI, elim conjE)
  fix d p assume on: "on_elem d (Node t ty es) p"
  let ?e = "Node t ty es" and ?sub = "Some (length (trace d))"
  obtain d1 where d1: "AddSubTreeItem tree hf ett None d = (MATTER_NO_ERROR, ?sub, d1)" "on_elem d1 ?e p"
    "keeps d d1" "same_config d d1" "mLastItem d1 = ?sub"
    "trace d1 = trace d @ tree_item tree hf ett ?e (place_of d ?e p)" "place_of d1 ?e p = move 0 2 (place_of d ?e p)"
    by (rule AddSubTreeItem_on_elem [OF on])
  have step: "prints_with (AddListItem_body h ?sub) e l (l + 1) (f ?sub e)" if "e \<in> set es" for e and l :: u32
    using elem [OF that, of ?sub]
    by (fastforce simp: prints_def prints_on_def prints_with_def AddListItem_body_def with_locals_def)
  obtain d2 where d2: "in_container (reg_env R) (AddListItem_body h ?sub) (0, d1) =
      Some (MATTER_NO_ERROR, fold (\<lambda>_ n. n + 1) es 0, d2)" "keeps d1 d2" "behind d2 p" "same_config d1 d2"
    "trace d2 = trace d1 @ all_shown (\<lambda>_ n. n + 1) (\<lambda>e _. f ?sub e) es (0 :: u32)
       (move (length (enc_head t ty 0)) 0 (place_of d1 ?e p))"
    using in_container_prints [OF d1(2) E, where b = "AddListItem_body h ?sub" and step = "\<lambda>_ n. n + 1" and
        f = "\<lambda>e _. f ?sub e" and l = 0] step by auto
  have "length (encode ?e) \<le> unat (mMaxLen d)" using on by (simp add: on_elem_def)
  then have n: "unat (of_nat (length es) :: u32) = length es"
    using length_le_encodes [of es] unsigned_less [of "mMaxLen d", where ?'a = nat]
    by (simp add: encode_Node unat_of_nat take_bit_nat_eq_self)
  have T: "GetType d = kTLVType_Array \<or> GetType d = kTLVType_Path"
    using on_elem_type [OF on] ty by (auto simp: kind_of_def)
  let ?c = "ProtoAppendText ?sub ('' (len = '' @ dec (length es) @ '')'')"
  have "AddListItem (reg_env R) tree hf ett h d = Some (MATTER_NO_ERROR, emit ?c d2)"
    using T d1(1,5) d2(1) n by (simp add: AddListItem_def VerifyOrExit_def LastItem_def fold_count Let_def)
  moreover have "trace (emit ?c d2) = trace d @ list_shown tree hf ett f ?e (place_of d ?e p)"
    using d2(5) d1(6) unfolding d1(7)
    by (simp add: emit_def list_shown_def subtree_shown_def members_shown_def all_shown_no_locals [of "\<lambda>_ n. n + 1"])
  ultimately show "prints_on (AddListItem (reg_env R) tree hf ett h) ?e p (list_shown tree hf ett f ?e) d"
    using keeps_trans [OF d1(3) d2(2)] same_config_trans [OF d1(4) d2(4)] d2(3) by (simp add: prints_on_def)
qed

text \<open>The generic form of an element with a context tag.\<close>

lemma prints_generic:
  assumes "memory_ok (reg_env R)" and "elem_tag e = TContext n"
  shows "prints (generic R hf False tree) e
    (\<lambda>s. layout (reg_env R) tree (reg_hf R hf) (pl_base s) (pl_imp s) False False 0 (pl_start s) e)"
  unfolding prints_def
proof (intro allI impI, elim conjE)
  fix d p assume on: "on_elem d e p" and p: "p \<noteq> []"
  have inv: "dissector_inv d" and tag: "mElemTag d = ContextTag n" using on assms(2) by (simp_all add: on_elem_def)
  have t: "tag_text (ContextTag n) \<noteq> None" by (simp add: tag_text_def)
  have "header_text False False 0 (ContextTag n) \<noteq> ''''" by (simp add: header_text_def tag_text_def)
  then have "body_ok False False 0 (ImplicitProfileId d) p e"
    using p assms(2) by (cases e) (auto simp: body_ok_def)
  from AddGenericTLV_layout [OF on assms(1) this, of tree "reg_hf R hf"]
  obtain d' where d': "AddGenericTLVItem (reg_env R) tree (reg_hf R hf) False d = Some (MATTER_NO_ERROR, d')"
    "trace d' = trace d @ layout (reg_env R) tree (reg_hf R hf) (mSourceBufBaseOffset d) (ImplicitProfileId d) False False 0
       (unat (mMaxLen d) - length (encode e @ p)) e" "behind d' p" "same_config d d'"
    by (auto simp: item_shows_def AddGenericTLVItem_def)
  have "returns (AddGenericTLVItem (reg_env R) tree (reg_hf R hf) False d) (\<lambda>err d'. err = 0 \<longrightarrow> keeps d d')"
    by (rule AddGenericTLVItem_keeps [OF inv]) (simp add: tag t)
  then have "keeps d d'" using d'(1) by simp
  then show "prints_on (generic R hf False tree) e p
      (\<lambda>s. layout (reg_env R) tree (reg_hf R hf) (pl_base s) (pl_imp s) False False 0 (pl_start s) e) d"
    using d' by (simp add: prints_on_def generic_def)
qed

section \<open>Messages\<close>

text \<open>\<open>Next\<close> with an expectation that the element it finds meets.\<close>

lemma Dissector_Next_expected:
  assumes "Dissector_Next d = Some (MATTER_NO_ERROR, d1)" and "GetType d1 = ty" and "mElemTag d1 = tag"
  shows "Dissector_Next_expect ty tag d = Some (MATTER_NO_ERROR, d1)"
proof -
  obtain da db dc where s: "Skip (d\<lparr>mLastItem := None\<rparr>) = Some (MATTER_NO_ERROR, da)"
    "MarkElemStart da = Some (MATTER_NO_ERROR, db)" "Next db = Some (MATTER_NO_ERROR, dc)"
    "MarkElemLength dc = Some (MATTER_NO_ERROR, d1)"
    using assms(1) by (auto simp: Dissector_Next_def Let_def SuccessOrExit_eq_Some split: if_splits)
  then have "GetType dc = ty" "mElemTag dc = tag"
    using assms(2,3) by (auto simp: MarkElemLength_def Let_def GetType_def ElementType_def split: option.splits if_splits)
  then show ?thesis using s by (simp add: Dissector_Next_expect_def Let_def Next_expect_def)
qed

definition first_place :: "u32 \<Rightarrow> u32 \<Rightarrow> view \<Rightarrow> place" where
  "first_place base profile v = \<lparr>pl_base = base, pl_imp = profile, pl_start = 0, pl_calls = length (view_calls v)\<rparr>"

lemma start_dissector_next:
  assumes wf: "wf_tlv profile kTLVType_NotSpecified e" and len: "unat dataLen = length (encode e)" "unat dataLen < 65536"
  obtains d where "Dissector_Next (start_dissector R profile (encode e) dataLen base v) = Some (MATTER_NO_ERROR, d)"
    "on_elem d e []" "trace d = view_calls v" "ImplicitProfileId d = profile"
    "place_of d e [] = first_place base profile v"
proof -
  let ?o = "TLVDissector (raw_object R)" and ?d = "start_dissector R profile (encode e) dataLen base v"
  note I = Init_buf_ahead [of dataLen "encode e" "[]" ?o, OF len(1)]
  have f: "ElementType ?d = kTLVElementType_NotSpecified" "ImplicitProfileId ?d = profile"
    "mContainerType ?d = kTLVType_NotSpecified" "mMaxLen ?d = dataLen" "mSourceBufBaseOffset ?d = base"
    "trace ?d = view_calls v"
    using I by (simp_all add: start_dissector_def Dissector_Init_def)
      (simp_all add: Init_buf_def Let_def ClearElementState_def SetContainerOpen_def ElementType_def)
  have "ahead ?d (encode e @ [])"
    using I(1) by (simp add: start_dissector_def Dissector_Init_def ahead_def remaining_def reader_inv_def elem8_def ElementType_def)
  then have b: "behind ?d (encode e @ [])" by (rule behind_clear [OF _ f(1)])
  have inv: "between_inv ?d"
    by (rule dissector_invD(1) [OF start_dissector_inv]) (use len in simp_all)
  obtain d1 where d1: "Dissector_Next ?d = Some (MATTER_NO_ERROR, d1)" "on_elem d1 e []" "same_config ?d d1"
    "trace d1 = trace ?d"
    using Dissector_Next_on_elem [OF b inv] wf f(2,3) by auto
  show ?thesis
    by (rule that [OF d1(1,2)])
      (use d1(3,4) f len(1) in \<open>simp_all add: same_config_def place_of_def first_place_def\<close>)
qed

text \<open>A dissector of its own for a part of the payload that is the encoding of an element.\<close>

lemma run_tlv_prints:
  assumes wf: "wf_tlv profile kTLVType_NotSpecified e" and len: "length (pre @ encode e) < 65536"
    and nxt: "nxt = Dissector_Next \<or> nxt = Dissector_Next_expect (kind_of (elem_type e)) (tag_value profile (elem_tag e))"
    and h: "\<And>d. on_elem d e [] \<Longrightarrow> prints_on h e [] f d"
  shows "run_tlv R profile (pre @ encode e @ post) (length pre) (length pre + length (encode e)) (\<lambda>d. SuccessOrExit (nxt d) h) v =
    Some (MATTER_NO_ERROR, v\<lparr>view_calls := view_calls v @ f (first_place (of_nat (length pre)) profile v)\<rparr>)"
proof -
  let ?n = "length (encode e)"
  have n: "unat (of_nat ?n :: u32) = ?n" using len by (simp add: unat_of_nat take_bit_nat_eq_self)
  obtain d where d: "Dissector_Next (start_dissector R profile (encode e) (of_nat ?n) (of_nat (length pre)) v) =
      Some (MATTER_NO_ERROR, d)" "on_elem d e []" "trace d = view_calls v" "ImplicitProfileId d = profile"
    "place_of d e [] = first_place (of_nat (length pre)) profile v"
    by (rule start_dissector_next [OF wf, of "of_nat ?n"]) (use n len in simp_all)
  have "GetType d = kind_of (elem_type e)" "mElemTag d = tag_value profile (elem_tag e)"
    using on_elem_type [OF d(2)] on_elem_tag [OF d(2)] d(4) by (simp_all add: GetTag_def)
  then have N: "nxt (start_dissector R profile (encode e) (of_nat ?n) (of_nat (length pre)) v) = Some (MATTER_NO_ERROR, d)"
    using nxt d(1) Dissector_Next_expected [OF d(1)] by auto
  obtain d' where "h d = Some (MATTER_NO_ERROR, d')" "trace d' = view_calls v @ f (first_place (of_nat (length pre)) profile v)"
    using h [OF d(2)] d(3,5) by (auto simp: prints_on_def)
  moreover have "tvb_memdup (pre @ encode e @ post) (length pre) (int (length pre + ?n) - int (length pre)) = Some (encode e)"
    by (simp add: tvb_memdup_def load_bytes_def)
  ultimately show ?thesis using N by (simp add: run_tlv_def)
qed

end
