(* ===== verification/Empty_Bytes.thy ===== *)
theory Empty_Bytes
  imports Protocol_Common_Inv Sub_Layout
begin

text \<open>
  The crash of the generic printer on an empty byte string without a tag to show, and how a packet reaches it: such a
  string as the data of a status report, which is a message that needs no session.
\<close>

lemma generic_empty_bytes:
  assumes "on_elem d (Leaf t 0x10 0 []) (b # rest)" and "suppressTag \<or> tag_text (mElemTag d) = None"
  shows "AddGenericTLVItem E tree hf suppressTag d = None"
proof -
  have a: "ahead d (b # rest)" and et: "ElementType d = 0x10" "elem8 d = 0x10" "mElemLenOrVal d = 0"
    using assms(1) by (simp_all add: on_elem_def elem_body_def)
  have ty: "GetType d = kTLVType_ByteString" using et by (simp add: GetType_def)
  have n: "GetLength d = 0" using et(2,3) by (simp add: GetLength_def TLVTypeHasLength_def)
  have "GetDataPtr d = (MATTER_NO_ERROR, Some (mReadPoint d), d)"
    using GetDataPtr_ahead [of d "[]" "b # rest"] a et
    by (simp add: TLVTypeIsString_def)
  moreover have "load_bytes (mBuf d) (mReadPoint d) 0 = Some []"
    using a by (simp add: load_bytes_def ahead_def reader_inv_def)
  ultimately show ?thesis using assms(2) ty n
    by (subst AddGenericTLVItem_def, subst AddGenericTLV_run.simps)
      (auto simp: GenericHeader_def GenericValue_def GetTag_def)
qed

text \<open>The first element of data that go on behind it.\<close>

lemma start_dissector_first:
  assumes wf: "wf_tlv profile kTLVType_NotSpecified e" and len: "unat dataLen = length (encode e @ p)" "unat dataLen < 65536"
  obtains d where "Dissector_Next (start_dissector R profile (encode e @ p) dataLen base v) = Some (MATTER_NO_ERROR, d)"
    "on_elem d e p" "ImplicitProfileId d = profile"
proof -
  let ?o = "TLVDissector (raw_object R)" and ?d = "start_dissector R profile (encode e @ p) dataLen base v"
  note I = Init_buf_ahead [of dataLen "encode e @ p" "[]" ?o, OF len(1)]
  have f: "ElementType ?d = kTLVElementType_NotSpecified" "ImplicitProfileId ?d = profile" "mContainerType ?d = kTLVType_NotSpecified"
    using I by (simp_all add: start_dissector_def Dissector_Init_def)
      (simp_all add: Init_buf_def Let_def ClearElementState_def SetContainerOpen_def ElementType_def)
  have "ahead ?d (encode e @ p)"
    using I(1) by (simp add: start_dissector_def Dissector_Init_def ahead_def remaining_def reader_inv_def elem8_def ElementType_def)
  then have b: "behind ?d (encode e @ p)" by (rule behind_clear [OF _ f(1)])
  have inv: "between_inv ?d"
    by (rule dissector_invD(1) [OF start_dissector_inv]) (use len in simp_all)
  obtain d1 where d1: "Dissector_Next ?d = Some (MATTER_NO_ERROR, d1)" "on_elem d1 e p" "same_config ?d d1"
    using Dissector_Next_on_elem [OF b inv] wf f(2,3) by auto
  show ?thesis by (rule that [OF d1(1,2)]) (use d1(3) f in \<open>simp add: same_config_def\<close>)
qed

lemma empty_bytes_data:
  assumes "length rest < 60000"
  shows "run_tlv R kProfileIdNotSpecified (pre @ [0x10, 0] @ b # rest) (length pre) (length pre + 3 + length rest)
    (\<lambda>d. SuccessOrExit (Dissector_Next d) (generic R hf_var False tree)) v = None"
proof -
  let ?e = "Leaf TAnonymous 0x10 0 []"
  have enc: "encode ?e = [0x10, 0]" by code_simp
  have wf: "wf_tlv kProfileIdNotSpecified kTLVType_NotSpecified ?e" by code_simp
  have n: "unat (of_nat (3 + length rest) :: u32) = length (encode ?e @ b # rest)" "unat (of_nat (3 + length rest) :: u32) < 65536"
    unfolding enc using assms by (simp_all add: unat_of_nat take_bit_nat_eq_self del: of_nat_add)
  obtain d where d: "Dissector_Next (start_dissector R kProfileIdNotSpecified ([0x10, 0] @ b # rest) (of_nat (3 + length rest)) (of_nat (length pre)) v)
      = Some (MATTER_NO_ERROR, d)" "on_elem d ?e (b # rest)" "ImplicitProfileId d = kProfileIdNotSpecified"
    using start_dissector_first [OF wf n] unfolding enc by metis
  have "tag_text (tag_value kProfileIdNotSpecified TAnonymous) = None" by code_simp
  then have "tag_text (mElemTag d) = None" using on_elem_tag [OF d(2)] d(3) by (simp add: GetTag_def)
  then have g: "AddGenericTLVItem E tree hf False d = None" for E tree hf using generic_empty_bytes [OF d(2)] by simp
  have m: "tvb_memdup (pre @ [0x10, 0] @ b # rest) (length pre) (int (length pre + 3 + length rest) - int (length pre)) = Some ([0x10, 0] @ b # rest)"
    by (simp add: tvb_memdup_def load_bytes_def nat_add_distrib)
  have k: "length pre + 3 + length rest - length pre = 3 + length rest" by simp
  show ?thesis unfolding run_tlv_def m k using d(1) g by (simp add: generic_def)
qed

lemma status_report_crash:
  assumes "length pre = 8" "length rest < 60000" and "mi_payloadLen mi = of_nat (11 + length rest)"
  shows "DissectStatusReport R (pre @ [0x10, 0] @ b # rest) mi tree (v, t) = None"
proof -
  have n: "unat (mi_payloadLen mi) = 11 + length rest"
    using assms(2,3) by (simp add: unat_of_nat take_bit_nat_eq_self del: of_nat_add)
  have run: "run_tlv R kProfileIdNotSpecified (pre @ [0x10, 0] @ b # rest) 8 (11 + length rest)
      (\<lambda>d. SuccessOrExit (Dissector_Next d) (generic R hf_var False tree)) v = None" for hf_var v
    using empty_bytes_data [OF assms(2), of R pre b hf_var tree v] assms(1) by (simp add: add.commute)
  show ?thesis
    unfolding DissectStatusReport_def prod.case Let_def n
    using run by (auto simp: bind_eq_None_conv split: prod.splits)
qed

end
