(* ===== verification/Matter_Message_Spec.thy ===== *)
theory Matter_Message_Spec
  imports Matter_Message
begin

text \<open>
  Correctness of the message dissector. An encoder for message and exchange headers is the specification of
  the format; the dissector reads back what it wrote, hands exactly the payload to the dissector of the
  protocol, in the clear and after decryption, and keeps the tracker sound. A destination that is a group
  is the exception: the dissector does not read it.
\<close>

section \<open>Headers as bytes\<close>

record message_header =
  hd_flags :: byte
  hd_sessionId :: u16
  hd_secFlags :: byte
  hd_counter :: u32
  hd_source :: "u64 option"
  hd_dest :: "u64 option"
  hd_group :: "u16 option"

definition encode_opt :: "('a \<Rightarrow> byte list) \<Rightarrow> 'a option \<Rightarrow> byte list" where
  "encode_opt wr x = (case x of None \<Rightarrow> [] | Some v \<Rightarrow> wr v)"

definition encode_header :: "message_header \<Rightarrow> byte list" where
  "encode_header h = hd_flags h # LE_Write16 (hd_sessionId h) @ hd_secFlags h # LE_Write32 (hd_counter h) @
     encode_opt LE_Write64 (hd_source h) @ encode_opt LE_Write64 (hd_dest h) @ encode_opt LE_Write16 (hd_group h)"

text \<open>The flags say which identifiers are there; the destination is a node, a group or neither.\<close>

definition header_ok :: "message_header \<Rightarrow> bool" where
  "header_ok h \<longleftrightarrow> (hd_flags h AND kMatterMessageFlag_SourceNodeId \<noteq> 0) = (hd_source h \<noteq> None) \<and>
     (hd_flags h AND kMatterMessageFlag_DestNodeId \<noteq> 0) = (hd_dest h \<noteq> None) \<and>
     (hd_flags h AND kMatterMessageFlag_DestGroupId \<noteq> 0) = (hd_group h \<noteq> None) \<and>
     (hd_dest h = None \<or> hd_group h = None)"

record exchange_header =
  ex_flags :: byte
  ex_type :: byte
  ex_id :: u16
  ex_protocol :: u16
  ex_vendor :: "u16 option"
  ex_ack :: "u32 option"

definition encode_exchange :: "exchange_header \<Rightarrow> byte list" where
  "encode_exchange x = ex_flags x # ex_type x # LE_Write16 (ex_id x) @ LE_Write16 (ex_protocol x) @
     encode_opt LE_Write16 (ex_vendor x) @ encode_opt LE_Write32 (ex_ack x)"

definition exchange_ok :: "exchange_header \<Rightarrow> bool" where
  "exchange_ok x \<longleftrightarrow> (ex_flags x AND kMatterExchangeFlag_VendorProtocol \<noteq> 0) = (ex_vendor x \<noteq> None) \<and>
     (ex_flags x AND kMatterExchangeFlag_AckId \<noteq> 0) = (ex_ack x \<noteq> None)"

text \<open>What the dissector reads from them.\<close>

definition header_info :: "message_header \<Rightarrow> u16 \<Rightarrow> u16 \<Rightarrow> msg_info" where
  "header_info h len headerLen = MatterMessageInfo\<lparr>mi_msgLen := len, mi_msgFlags := hd_flags h,
     mi_msgVersion := drop_bit 4 (hd_flags h AND 0xF0), mi_sessionId := hd_sessionId h, mi_secFlags := hd_secFlags h,
     mi_sessionType := hd_secFlags h AND 3, mi_msgId := hd_counter h,
     mi_srcNodeId := (case hd_source h of None \<Rightarrow> 0 | Some n \<Rightarrow> n),
     mi_destNodeId := (case hd_dest h of None \<Rightarrow> 0 | Some n \<Rightarrow> n), mi_headerLen := headerLen\<rparr>"

definition exchange_info :: "exchange_header \<Rightarrow> u16 \<Rightarrow> msg_info \<Rightarrow> msg_info" where
  "exchange_info x len mi = mi\<lparr>mi_exchHeader := ex_flags x, mi_msgType := ex_type x, mi_exchId := ex_id x,
     mi_msgProtocolId := ex_protocol x, mi_msgProfileName := snd (dispatch_protocol (ex_protocol x)),
     mi_msgProtocolVendorId := (case ex_vendor x of None \<Rightarrow> 0 | Some v \<Rightarrow> v),
     mi_msgTypeName := GetMessageName (ucast (fst (dispatch_protocol (ex_protocol x)))) (ex_type x),
     mi_ackMsgCntr := (case ex_ack x of None \<Rightarrow> 0 | Some a \<Rightarrow> a), mi_payloadLen := len\<rparr>"

section \<open>Reading headers back\<close>

lemma get_encoded:
  "tvb_get_letohs tvb off = Some v" if "drop off tvb = LE_Write16 v @ rest"
  for v :: u16
  using that le16.read_write by (simp add: tvb_get_letohs_def)

lemma get_encoded32: "drop off tvb = LE_Write32 v @ rest \<Longrightarrow> tvb_get_letohl tvb off = Some v"
  using le32.read_write by (simp add: tvb_get_letohl_def)

lemma get_encoded64: "drop off tvb = LE_Write64 v @ rest \<Longrightarrow> tvb_get_letoh64 tvb off = Some v"
  using le64.read_write by (simp add: tvb_get_letoh64_def)

lemma get_byte: "drop off tvb = b # rest \<Longrightarrow> tvb_get_guint8 tvb off = Some b"
  by (simp add: tvb_get_guint8_def Read8_def)

lemmas write_lengths [simp] = le16.length_write le32.length_write le64.length_write

lemma length_encode_opt [simp]:
  "length (encode_opt LE_Write64 n) = (if n = None then 0 else 8)"
  "length (encode_opt LE_Write16 v) = (if v = None then 0 else 2)"
  "length (encode_opt LE_Write32 a) = (if a = None then 0 else 4)"
  by (auto simp: encode_opt_def split: option.splits)

definition node_header_len :: "message_header \<Rightarrow> nat" where
  "node_header_len h = 8 + (if hd_source h = None then 0 else 8) + (if hd_dest h = None then 0 else 8)"

lemma length_encode_header:
  "length (encode_header h) = node_header_len h + (if hd_group h = None then 0 else 2)"
  by (simp add: encode_header_def node_header_len_def)

lemma length_encode_exchange:
  "length (encode_exchange x) = 6 + (if ex_vendor x = None then 0 else 2) + (if ex_ack x = None then 0 else 4)"
  by (simp add: encode_exchange_def)

text \<open>The header is read back, except that \<open>parsePoint\<close> does not count a group identifier.\<close>

lemma header_bytes:
  fixes h :: message_header and rest :: "byte list"
  defines "tvb \<equiv> encode_header h @ rest"
  shows "tvb_get_guint8 tvb 0 = Some (hd_flags h)" "tvb_get_letohs tvb 1 = Some (hd_sessionId h)"
    "tvb_get_guint8 tvb 3 = Some (hd_secFlags h)" "tvb_get_letohl tvb 4 = Some (hd_counter h)"
    "hd_source h = Some s \<Longrightarrow> tvb_get_letoh64 tvb 8 = Some s"
    "hd_source h = None \<Longrightarrow> hd_dest h = Some d \<Longrightarrow> tvb_get_letoh64 tvb 8 = Some d"
    "hd_source h = Some s \<Longrightarrow> hd_dest h = Some d \<Longrightarrow> tvb_get_letoh64 tvb 16 = Some d"
  by (rule get_byte get_encoded get_encoded32 get_encoded64, simp add: tvb_def encode_header_def encode_opt_def)+

lemma DissectMatter_header_udp:
  assumes h: "header_ok h" and p: "ptype pinfo \<noteq> PT_TCP"
  shows "\<exists>v. DissectMatter_header show pinfo (encode_header h @ rest) n =
    Some (header_info h (of_nat n) (of_nat (node_header_len h)), encode_header h @ rest, node_header_len h, v)"
proof -
  note reads = header_bytes [where h = h and rest = rest, unfolded One_nat_def]
  note flags = h [unfolded header_ok_def]
  show ?thesis
  proof (cases "hd_source h"; cases "hd_dest h")
    assume "hd_source h = None" "hd_dest h = None"
    then show ?thesis using flags p
      by (simp add: DissectMatter_header_def Let_def reads(1-4) header_info_def header_constants node_header_len_def)
  next
    fix d assume "hd_source h = None" "hd_dest h = Some d"
    then show ?thesis using flags p
      by (simp add: DissectMatter_header_def Let_def reads(1-4) reads(6) header_info_def header_constants node_header_len_def)
  next
    fix s assume "hd_source h = Some s" "hd_dest h = None"
    then show ?thesis using flags p
      by (simp add: DissectMatter_header_def Let_def reads(1-4) reads(5) header_info_def header_constants node_header_len_def)
  next
    fix s d assume "hd_source h = Some s" "hd_dest h = Some d"
    then show ?thesis using flags p
      by (simp add: DissectMatter_header_def Let_def reads(1-4) reads(5) reads(7) header_info_def header_constants node_header_len_def)
  qed
qed

lemma DissectMatter_header_tcp:
  assumes h: "header_ok h" and p: "ptype pinfo = PT_TCP"
  shows "\<exists>v. DissectMatter_header show pinfo (LE_Write16 len @ encode_header h @ rest) n =
    Some (header_info h len (of_nat (node_header_len h)), encode_header h @ rest, node_header_len h, v)"
proof -
  have l: "tvb_get_letohs (LE_Write16 len @ encode_header h @ rest) 0 = Some len" by (rule get_encoded) simp
  have "DissectMatter_header show pinfo (LE_Write16 len @ encode_header h @ rest) n =
      DissectMatter_header show (pinfo\<lparr>ptype := PT_UDP\<rparr>) (encode_header h @ rest) (unat len)"
    using p by (simp add: DissectMatter_header_def l kMatterTCPMessageLengthFieldSize_def del: append_assoc)
  then show ?thesis using DissectMatter_header_udp [OF h, of "pinfo\<lparr>ptype := PT_UDP\<rparr>" "show" rest "unat len"] by simp
qed

section \<open>The exchange header\<close>

lemma exchange_bytes:
  fixes x :: exchange_header and rest :: "byte list"
  defines "tvb \<equiv> encode_exchange x @ rest"
  shows "tvb_get_guint8 tvb 0 = Some (ex_flags x)" "tvb_get_guint8 tvb 1 = Some (ex_type x)"
    "tvb_get_letohs tvb 2 = Some (ex_id x)" "tvb_get_letohs tvb 4 = Some (ex_protocol x)"
    "ex_vendor x = Some vendor \<Longrightarrow> tvb_get_letohs tvb 6 = Some vendor"
    "ex_vendor x = None \<Longrightarrow> ex_ack x = Some a \<Longrightarrow> tvb_get_letohl tvb 6 = Some a"
    "ex_vendor x = Some vendor \<Longrightarrow> ex_ack x = Some a \<Longrightarrow> tvb_get_letohl tvb 8 = Some a"
  by (rule get_byte get_encoded get_encoded32 get_encoded64, simp add: tvb_def encode_exchange_def encode_opt_def)+

text \<open>
  The payload is what is left between the exchange header and the integrity check, whose length is the
  trailer length: 16 for a decrypted message, 0 otherwise.
\<close>

lemma payload_length:
  assumes "a + b + c < 65536" and "c = unat (t :: u16)"
  shows "(of_nat (a + (b + c)) - (of_nat a + t) :: u16) = of_nat b"
proof -
  have "t = of_nat c" using assms(2) by simp
  then show ?thesis by (simp add: algebra_simps)
qed

lemma DissectMatter_exchange_encode:
  assumes x: "exchange_ok x"
    and len: "length (encode_exchange x) + length payload + length tail < 65536"
    and tail: "length tail = unat (mi_trailerLen mi)"
  shows "\<exists>v'. DissectMatter_exchange mi (encode_exchange x @ payload @ tail) v =
    Some (exchange_info x (of_nat (length payload)) mi, fst (dispatch_protocol (ex_protocol x)),
          length (encode_exchange x), v')"
proof -
  note reads = exchange_bytes [where x = x and rest = "payload @ tail", unfolded One_nat_def]
  note flags = x [unfolded exchange_ok_def]
  note xlen = length_encode_exchange [of x]
  obtain dp pn where dp: "dispatch_protocol (ex_protocol x) = (dp, pn)" by fastforce
  have plen: "(of_nat (length (encode_exchange x @ payload @ tail)) -
      (of_nat (length (encode_exchange x)) + mi_trailerLen mi) :: u16) = of_nat (length payload)"
    using payload_length [OF len tail] by simp
  show ?thesis
  proof (cases "ex_vendor x"; cases "ex_ack x")
    assume n: "ex_vendor x = None" "ex_ack x = None"
    then show ?thesis using flags plen xlen
      by (simp add: DissectMatter_exchange_def Let_def reads(1-4) dp header_constants exchange_info_def)
  next
    fix a assume n: "ex_vendor x = None" "ex_ack x = Some a"
    then show ?thesis using flags plen xlen
      by (simp add: DissectMatter_exchange_def Let_def reads(1-4) reads(6) dp header_constants exchange_info_def)
  next
    fix vendor assume n: "ex_vendor x = Some vendor" "ex_ack x = None"
    then show ?thesis using flags plen xlen
      by (simp add: DissectMatter_exchange_def Let_def reads(1-4) reads(5) dp header_constants exchange_info_def)
  next
    fix vendor a assume n: "ex_vendor x = Some vendor" "ex_ack x = Some a"
    then show ?thesis using flags plen xlen
      by (simp add: DissectMatter_exchange_def Let_def reads(1-4) reads(5) reads(7) dp header_constants exchange_info_def)
  qed
qed

lemma DissectMatter_show_payload_encode:
  assumes "unat (mi_payloadLen mi) = length payload" and "MessageIsEncrypted mi \<Longrightarrow> length tail = 16"
  shows "\<exists>v'. DissectMatter_show_payload mi (pre @ payload @ tail) (length pre) v = Some v'"
  using assms by (simp add: DissectMatter_show_payload_def Let_def show_bytes_def load_bytes_def MATTER_CRYPTO_TAG_LENGTH_def)

section \<open>The tracker\<close>

text \<open>A sound tracker in which the record of every packet is in a list of each kind.\<close>

definition tracked ::
  "tracker \<Rightarrow> (table_id \<times> tree_key \<Rightarrow> rec_id list) \<Rightarrow> (tree_key \<Rightarrow> rec_id list) \<Rightarrow> bool" where
  "tracked t M X \<longleftrightarrow> tracker_inv t M X \<and>
     (\<forall>f i. proto_data t f = Some i \<longrightarrow> (\<exists>k. i \<in> set (M k)) \<and> (\<exists>k. i \<in> set (X k)))"

lemma no_tracker_tracked: "tracked no_tracker (\<lambda>_. []) (\<lambda>_. [])"
  by (simp add: tracked_def no_tracker_inv) (simp add: no_tracker_def)

text \<open>The message information without what the tracker adds to it.\<close>

definition message_facts :: "msg_info \<Rightarrow> msg_info" where
  "message_facts mi = mi\<lparr>mi_msgRec := None, mi_exchangeStartMsg := None, mi_retransOfMsg := None, mi_retransNum := 0,
     mi_totalRetrans := 0, mi_reusesMsgCntrFrom := None, mi_ackedMsg := None\<rparr>"

lemma message_facts_simps [simp]:
  "message_facts (mi\<lparr>mi_msgRec := r\<rparr>) = message_facts mi"
  "message_facts (mi\<lparr>mi_exchangeStartMsg := r\<rparr>) = message_facts mi"
  "message_facts (mi\<lparr>mi_retransOfMsg := r, mi_retransNum := n, mi_totalRetrans := m\<rparr>) = message_facts mi"
  "message_facts (mi\<lparr>mi_reusesMsgCntrFrom := r\<rparr>) = message_facts mi"
  "message_facts (mi\<lparr>mi_ackedMsg := r\<rparr>) = message_facts mi"
  by (simp_all add: message_facts_def)

text \<open>The record of a packet, new or found again, is in the lists.\<close>

lemma tvb_range_nat:
  "h \<le> l \<Longrightarrow> l \<le> length tvb \<Longrightarrow> tvb_range tvb (int h) (int l - int h) = Some (take (l - h) (drop h tvb))"
  by (auto simp: tvb_range_def load_bytes_def nat_diff_distrib)

lemma FindOrCreate_tracked:
  assumes t: "tracked t M X" and f: "FindOrCreateMessageRecord crc32 crc32_seed tvb pinfo mi t = Some (i, t')"
  shows "\<exists>M' X'. tracked t' M' X' \<and> (\<exists>k. i \<in> set (M' k)) \<and> (\<exists>k. i \<in> set (X' k)) \<and> proto_data t' (fd_num pinfo) = Some i"
proof (cases "proto_data t (fd_num pinfo)")
  case (Some n)
  have r: "i = n" "t' = InitTables t" using f unfolding FindOrCreateMessageRecord_known [OF Some] by simp_all
  have "tracked (InitTables t) M X" using t InitTables_inv by (simp add: tracked_def)
  moreover have "(\<exists>k. i \<in> set (M k)) \<and> (\<exists>k. i \<in> set (X k))" using t Some r unfolding tracked_def by blast
  ultimately show ?thesis using Some r by (intro exI [of _ M] exI [of _ X] conjI) simp_all
next
  case None
  let ?n = "length (records t)"
  obtain fp where fp: "ComputeMessageFingerprint crc32 crc32_seed tvb mi = Some fp"
    using f None by (auto simp: FindOrCreateMessageRecord_def Let_def split: option.splits)
  obtain t1 where "FindOrCreateMessageRecord crc32 crc32_seed tvb pinfo mi t = Some (?n, t1)"
    "tracker_inv t1 (M(message_key pinfo mi := M (message_key pinfo mi) @ [?n]))
       (X(message_exchange mi := X (message_exchange mi) @ [?n]))"
    "proto_data t1 = (proto_data t)(fd_num pinfo := Some ?n)"
    using FindOrCreateMessageRecord_new [OF _ None fp, of M X] t unfolding tracked_def by metis
  note t' = this [unfolded f option.inject prod.inject]
  let ?M = "M(message_key pinfo mi := M (message_key pinfo mi) @ [?n])"
  let ?X = "X(message_exchange mi := X (message_exchange mi) @ [?n])"
  have m: "?n \<in> set (?M (message_key pinfo mi))" "?n \<in> set (?X (message_exchange mi))" by simp_all
  have old: "i \<in> set (M k) \<Longrightarrow> i \<in> set (?M k)" "i \<in> set (X k') \<Longrightarrow> i \<in> set (?X k')" for i k k' by auto
  have pd: "proto_data t' = (proto_data t)(fd_num pinfo := Some ?n)" using t' by simp
  have "tracked t' ?M ?X" unfolding tracked_def
  proof (intro conjI allI impI)
    fix f i
    assume "proto_data t' f = Some i"
    then have "(if f = fd_num pinfo then Some ?n else proto_data t f) = Some i"
      unfolding pd fun_upd_def by (simp only: eq_commute)
    then have "i = ?n \<or> proto_data t f = Some i" by (cases "f = fd_num pinfo") simp_all
    then show "\<exists>k. i \<in> set (?M k)" "\<exists>k. i \<in> set (?X k)"
      using m old t unfolding tracked_def by blast+
  qed (use t' in simp)
  moreover have "proto_data t' (fd_num pinfo) = Some i" using t' by simp
  moreover have "\<exists>k. i \<in> set (?M k)" "\<exists>k. i \<in> set (?X k)" using m t'(1) by blast+
  ultimately show ?thesis by blast
qed

lemma FindOrCreate_returns:
  assumes t: "tracked t M X" and len: "unat (mi_headerLen mi) \<le> unat (mi_msgLen mi)" "unat (mi_msgLen mi) \<le> length tvb"
  shows "\<exists>i t'. FindOrCreateMessageRecord crc32 crc32_seed tvb pinfo mi t = Some (i, t')"
proof (cases "proto_data t (fd_num pinfo)")
  case (Some i)
  then show ?thesis by (simp add: FindOrCreateMessageRecord_known)
next
  case None
  let ?h = "unat (mi_headerLen mi)" and ?l = "unat (mi_msgLen mi)"
  have u: "uint (mi_headerLen mi) = int ?h" "uint (mi_msgLen mi) = int ?l" by simp_all
  have "tvb_range tvb (int ?h) (int ?l - int ?h) = Some (take (?l - ?h) (drop ?h tvb))"
    by (rule tvb_range_nat [OF len])
  then obtain fp where fp: "ComputeMessageFingerprint crc32 crc32_seed tvb mi = Some fp"
    unfolding ComputeMessageFingerprint_def u Let_def by simp
  show ?thesis using FindOrCreateMessageRecord_new [OF _ None fp, of M X] t unfolding tracked_def by metis
qed

text \<open>What the tracker does once the record is there; no record is added, and only acknowledgements are noted.\<close>

lemma DissectMatter_track_after:
  assumes t: "tracked t M X" and f: "FindOrCreateMessageRecord (host_crc32 host) (host_crc32_seed host) tvb pinfo mi t = Some (i, t1)"
    and new: "mi_ackedMsg mi = None"
  shows "\<exists>mi' v' recs M' X'. DissectMatter_track host pinfo tvb mi v t = Some (mi', v', t1\<lparr>records := recs\<rparr>) \<and>
    same_but_acks (records t1) recs \<and> tracked (t1\<lparr>records := recs\<rparr>) M' X' \<and> message_facts mi' = message_facts mi \<and>
    mi_msgRec mi' = Some i \<and> proto_data t1 (fd_num pinfo) = Some i"
proof -
  obtain M1 X1 k kx where t1: "tracked t1 M1 X1" and k: "i \<in> set (M1 k)" and kx: "i \<in> set (X1 kx)"
    and pd: "proto_data t1 (fd_num pinfo) = Some i"
    using FindOrCreate_tracked [OF t f] by metis
  have inv: "tracker_inv t1 M1 X1" using t1 by (simp add: tracked_def)
  obtain xs ys where m: "M1 k = xs @ i # ys" using k by (meson split_list)
  obtain xs' ys' where mx: "X1 kx = xs' @ i # ys'" using kx by (meson split_list)
  obtain r where s: "FindStartOfExchange (Some i) t1 = Some (Some r)"
    using FindStartOfExchange_spec [OF inv mx] by metis
  obtain a n1 n2 where a: "FindRetransmissions i (mi\<lparr>mi_msgRec := Some i, mi_exchangeStartMsg := Some r\<rparr>) t1 =
      Some (mi\<lparr>mi_msgRec := Some i, mi_exchangeStartMsg := Some r, mi_retransOfMsg := a, mi_retransNum := n1, mi_totalRetrans := n2\<rparr>)"
    using FindRetransmissions_spec [OF inv m, of "mi\<lparr>mi_msgRec := Some i, mi_exchangeStartMsg := Some r\<rparr>"] by metis
  define mi2 where "mi2 = mi\<lparr>mi_msgRec := Some i, mi_exchangeStartMsg := Some r, mi_retransOfMsg := a, mi_retransNum := n1, mi_totalRetrans := n2\<rparr>"
  obtain b where b: "FindReusedMessageIds i mi2 t1 = Some (mi2\<lparr>mi_reusesMsgCntrFrom := b\<rparr>)"
    using FindReusedMessageIds_spec [OF inv m, of mi2] by metis
  have none: "mi_ackedMsg (mi2\<lparr>mi_reusesMsgCntrFrom := b\<rparr>) = None" using new by (simp add: mi2_def)
  obtain c recs where c: "FindAckedMessages pinfo i (mi2\<lparr>mi_reusesMsgCntrFrom := b\<rparr>) t1 =
      Some (mi2\<lparr>mi_reusesMsgCntrFrom := b, mi_ackedMsg := c\<rparr>, t1\<lparr>records := recs\<rparr>)"
    and inv2: "tracker_inv (t1\<lparr>records := recs\<rparr>) M1 X1" and acks: "same_but_acks (records t1) recs"
    using FindAckedMessages_spec [OF inv none, of pinfo i] by metis
  have "tracked (t1\<lparr>records := recs\<rparr>) M1 X1" using t1 inv2 by (simp add: tracked_def)
  moreover have "message_facts (mi2\<lparr>mi_reusesMsgCntrFrom := b, mi_ackedMsg := c\<rparr>) = message_facts mi"
    by (simp add: mi2_def message_facts_def)
  moreover have "mi_msgRec (mi2\<lparr>mi_reusesMsgCntrFrom := b, mi_ackedMsg := c\<rparr>) = Some i" by (simp add: mi2_def)
  moreover have "\<exists>v'. DissectMatter_track host pinfo tvb mi v t =
      Some (mi2\<lparr>mi_reusesMsgCntrFrom := b, mi_ackedMsg := c\<rparr>, v', t1\<lparr>records := recs\<rparr>)"
    by (simp add: DissectMatter_track_def f s Let_def a [folded mi2_def] b c)
  ultimately show ?thesis using pd acks by blast
qed

lemma DissectMatter_track_spec:
  assumes t: "tracked t M X" and len: "unat (mi_headerLen mi) \<le> unat (mi_msgLen mi)" "unat (mi_msgLen mi) \<le> length tvb"
    and new: "mi_ackedMsg mi = None"
  shows "\<exists>mi' v' t' M' X'. DissectMatter_track host pinfo tvb mi v t = Some (mi', v', t') \<and>
    tracked t' M' X' \<and> message_facts mi' = message_facts mi \<and> mi_msgRec mi' = proto_data t' (fd_num pinfo)"
proof -
  obtain i t1 where f: "FindOrCreateMessageRecord (host_crc32 host) (host_crc32_seed host) tvb pinfo mi t = Some (i, t1)"
    using FindOrCreate_returns [OF t len] by metis
  show ?thesis using DissectMatter_track_after [OF t f new, of v] by fastforce
qed

section \<open>Whole messages\<close>

text \<open>What remains after the dissector of the protocol: a message that none took gets its name in the column.\<close>

definition finish :: "(int \<times> view \<times> matter_state) option \<Rightarrow> msg_info \<Rightarrow> (view \<times> matter_state) option" where
  "finish r mi = (case r of None \<Rightarrow> None
     | Some (res, v, t) \<Rightarrow> if res = 0 then map_option (\<lambda>v. (v, t)) (AddMessageTypeToInfoColumn mi v) else Some (v, t))"

lemma dispatch_named:
  assumes "dispatch_protocol p = (dp, name)"
  shows "name = GetProtocolName (ucast dp)"
  using assms by (auto simp: dispatch_protocol_def Let_def split: option.splits)

text \<open>A message type that has a name belongs to a protocol that has one: the two names are shown together.\<close>

lemma AddMessageType_total:
  assumes "message_facts mi = message_facts (exchange_info x len mi0)"
  shows "\<exists>v'. AddMessageTypeToInfoColumn mi v = Some v'"
proof -
  obtain dp name where dp: "dispatch_protocol (ex_protocol x) = (dp, name)" by fastforce
  have eq: "mi_msgTypeName mi = GetMessageName (ucast dp) (ex_type x)" "mi_msgProfileName mi = name"
    using arg_cong [OF assms, of mi_msgTypeName] arg_cong [OF assms, of mi_msgProfileName] dp
    by (simp_all add: message_facts_def exchange_info_def)
  show ?thesis
  proof (cases "mi_msgTypeName mi")
    case None
    then show ?thesis by (simp add: AddMessageTypeToInfoColumn_def)
  next
    case (Some n)
    then have "name \<noteq> None" using eq(1) GetMessageName_known [of "ucast dp" "ex_type x" n] dispatch_named [OF dp] by simp
    then show ?thesis using Some eq(2) by (auto simp: AddMessageTypeToInfoColumn_def)
  qed
qed

text \<open>
  The plaintext of a message is handed on as its payload, under the protocol of its exchange header, with
  the fields of both headers in the message information; the tracker is sound then and has a record of it.
\<close>

definition hands_on ::
  "matter_host \<Rightarrow> packet_info \<Rightarrow> exchange_header \<Rightarrow> byte list \<Rightarrow> msg_info \<Rightarrow> matter_state \<Rightarrow>
   (view \<times> matter_state) option \<Rightarrow> bool" where
  "hands_on host pinfo x payload mi s r \<longleftrightarrow>
     (\<exists>mi' v t' M' X'. tracked t' M' X' \<and> mi_msgRec mi' = proto_data t' (fd_num pinfo) \<and>
        message_facts mi' = message_facts (exchange_info x (of_nat (length payload)) mi) \<and>
        r = finish (subdissect host (fst (dispatch_protocol (ex_protocol x))) payload mi' (v, s\<lparr>ms_tracker := t'\<rparr>)) mi')"

lemma bind_Some_map: "m \<bind> (\<lambda>x. Some (f x)) = map_option f m"
  by (cases m) simp_all

lemma bind_Some_map2: "m \<bind> (\<lambda>(x, y). Some (f x y)) = map_option (\<lambda>(x, y). f x y) m"
  by (cases m) auto

lemma DissectMatter_payload_spec:
  assumes t: "tracked (ms_tracker s) M X"
    and hl: "unat (mi_headerLen mi) \<le> unat (mi_msgLen mi)" "unat (mi_msgLen mi) \<le> length tvb"
    and new: "mi_ackedMsg mi = None" and x: "exchange_ok x"
    and len: "length (encode_exchange x) + length payload + length tail < 65536"
    and tail: "length tail = unat (mi_trailerLen mi)" "MessageIsEncrypted mi \<Longrightarrow> length tail = 16"
  shows "hands_on host pinfo x payload mi s
    (DissectMatter_payload host pinfo tvb (encode_exchange x @ payload @ tail) mi v s)"
proof -
  let ?plain = "encode_exchange x @ payload @ tail" and ?off = "length (encode_exchange x)"
  let ?mi = "exchange_info x (of_nat (length payload)) mi"
  obtain v1 where e: "DissectMatter_exchange mi ?plain v = Some (?mi, fst (dispatch_protocol (ex_protocol x)), ?off, v1)"
    using DissectMatter_exchange_encode [OF x len tail(1)] by blast
  have un: "unat (of_nat (length payload) :: u16) = length payload"
    using len by (simp add: unat_of_nat take_bit_nat_eq_self)
  have enc: "MessageIsEncrypted ?mi = MessageIsEncrypted mi"
    by (simp add: MessageIsEncrypted_def exchange_info_def)
  have plen: "unat (mi_payloadLen ?mi) = length payload" using un by (simp add: exchange_info_def)
  obtain v2 where p: "DissectMatter_show_payload ?mi ?plain ?off v1 = Some v2"
    using DissectMatter_show_payload_encode [of ?mi payload tail, OF plen] tail(2) enc by metis
  have lens: "unat (mi_headerLen ?mi) \<le> unat (mi_msgLen ?mi)" "unat (mi_msgLen ?mi) \<le> length tvb" "mi_ackedMsg ?mi = None"
    using hl new by (simp_all add: exchange_info_def)
  obtain mi' v3 t' M' X' where tr: "DissectMatter_track host pinfo tvb ?mi v2 (ms_tracker s) = Some (mi', v3, t')"
    "tracked t' M' X'" "message_facts mi' = message_facts ?mi" "mi_msgRec mi' = proto_data t' (fd_num pinfo)"
    using DissectMatter_track_spec [OF t lens] by blast
  have "mi_payloadLen mi' = of_nat (length payload)"
    using arg_cong [OF tr(3), of mi_payloadLen] by (simp add: message_facts_def exchange_info_def)
  then have sub: "tvb_new_subset_length ?plain ?off (unat (mi_payloadLen mi')) = Some payload"
    by (simp add: tvb_new_subset_length_def un)
  have "DissectMatter_payload host pinfo tvb ?plain mi v s =
      finish (subdissect host (fst (dispatch_protocol (ex_protocol x))) payload mi' (v3, s\<lparr>ms_tracker := t'\<rparr>)) mi'"
    unfolding DissectMatter_payload_def e tr(1) p
    by (simp add: p tr(1) sub finish_def bind_Some_map split: option.splits)
  then show ?thesis unfolding hands_on_def using tr(2-4) by blast
qed

text \<open>A message in the clear.\<close>

lemma unat_of_nat_16: "n < 65536 \<Longrightarrow> unat (of_nat n :: u16) = n"
  by (simp add: unat_of_nat take_bit_nat_eq_self)

theorem DissectMatter_clear:
  assumes t: "tracked (ms_tracker s) M X" and h: "header_ok h" "hd_group h = None" and x: "exchange_ok x"
    and clear: "hd_sessionId h = 0" "hd_secFlags h AND 3 = 0" and udp: "ptype pinfo \<noteq> PT_TCP"
    and len: "length (encode_header h @ encode_exchange x @ payload) < 65536"
  defines "tvb \<equiv> encode_header h @ encode_exchange x @ payload"
  defines "mi \<equiv> header_info h (of_nat (length tvb)) (of_nat (length (encode_header h)))"
  shows "\<exists>r. hands_on host pinfo x payload mi s r \<and>
    DissectMatter host pinfo tvb (length tvb) s = map_option (\<lambda>(v, s'). (length tvb, v, s')) r"
proof -
  have hl: "node_header_len h = length (encode_header h)" using h(2) by (simp add: length_encode_header)
  obtain v where hd: "DissectMatter_header (pref_ShowNodeIds host) pinfo tvb (length tvb) =
      Some (mi, tvb, length (encode_header h), v)"
    using DissectMatter_header_udp [OF h(1) udp] unfolding tvb_def mi_def hl by blast
  have plain: "\<not> MessageIsEncrypted mi"
    using clear by (simp add: MessageIsEncrypted_def mi_def header_info_def header_constants)
  have L: "length tvb < 65536" using len by (simp add: tvb_def)
  have un: "unat (of_nat (length tvb) :: u16) = length tvb"
    "unat (of_nat (length (encode_header h)) :: u16) = length (encode_header h)"
    using unat_of_nat_16 [OF L] unat_of_nat_16 [of "length (encode_header h)"] L by (simp_all add: tvb_def)
  have r: "hands_on host pinfo x payload mi s
      (DissectMatter_payload host pinfo tvb (encode_exchange x @ payload @ []) mi v s)"
  proof (rule DissectMatter_payload_spec [OF t _ _ _ x])
    show "unat (mi_headerLen mi) \<le> unat (mi_msgLen mi)" "unat (mi_msgLen mi) \<le> length tvb"
      using un by (simp_all add: mi_def header_info_def tvb_def)
    show "mi_ackedMsg mi = None" "length [] = unat (mi_trailerLen mi)"
      by (simp_all add: mi_def header_info_def MatterMessageInfo_def)
  qed (use plain L in \<open>simp_all add: tvb_def\<close>)
  have d: "drop (length (encode_header h)) tvb = encode_exchange x @ payload" by (simp add: tvb_def)
  have "DissectMatter host pinfo tvb (length tvb) s = map_option (\<lambda>(v, s'). (length tvb, v, s'))
      (DissectMatter_payload host pinfo tvb (encode_exchange x @ payload @ []) mi v s)"
    unfolding DissectMatter_def hd using plain d
    by (cases s) (simp add: bind_Some_map2)
  then show ?thesis using r by auto
qed

text \<open>A message that some key opens: the search decides, and what it opens is handed on.\<close>

theorem DissectMatter_encrypted:
  fixes h :: message_header and host :: matter_host
  assumes t: "tracked (ms_tracker s) M X" and h: "header_ok h" "hd_group h = None" and x: "exchange_ok x"
    and udp: "ptype pinfo \<noteq> PT_TCP" and len: "16 < length enc" "length (encode_header h @ enc) < 65536"
    and env: "env_ok (decrypt_env host)" "key_table_inv T'" "hints_ok h'"
    and refresh: "RefreshMatterProxyHintKeys (env_fs (decrypt_env host))
      (pref_MatterProxyKeyHintFile (decrypt_env host)) (ms_hints s, ms_keys s) = Some (h', T')"
  defines "tvb \<equiv> encode_header h @ enc"
  defines "mi \<equiv> header_info h (of_nat (length tvb)) (of_nat (length (encode_header h)))"
  defines "found \<equiv> first_open (key_opens (env_evp (decrypt_env host)) enc (encode_header h))
      (all_candidates (decrypt_env host) mi h' T')"
  assumes encrypted: "MessageIsEncrypted mi"
  shows "found = Some (encode_exchange x @ payload, st) \<Longrightarrow>
      \<exists>r. hands_on host pinfo x payload (mi\<lparr>mi_trailerLen := 16\<rparr>) (s\<lparr>ms_hints := h', ms_keys := store_key st T'\<rparr>) r \<and>
        DissectMatter host pinfo tvb (length tvb) s = map_option (\<lambda>(v, s'). (length tvb, v, s')) r"
    and "found = None \<Longrightarrow>
      \<exists>v. DissectMatter host pinfo tvb (length tvb) s =
        Some (length tvb, v, s\<lparr>ms_hints := h', ms_keys := T'\<rparr>)"
proof -
  let ?off = "length (encode_header h)" and ?env = "decrypt_env host"
  have hl: "node_header_len h = ?off" using h(2) by (simp add: length_encode_header)
  have L: "length tvb < 65536" "length tvb = ?off + length enc" using len by (simp_all add: tvb_def)
  have un: "unat (of_nat (length tvb) :: u16) = length tvb" "unat (of_nat ?off :: u16) = ?off"
    using unat_of_nat_16 [OF L(1)] unat_of_nat_16 [of ?off] L by (simp_all del: of_nat_add)
  have ml: "mi_msgLen mi = of_nat (length tvb)" "mi_headerLen mi = of_nat ?off" "mi_trailerLen mi = 0" "mi_ackedMsg mi = None"
    by (simp_all add: mi_def header_info_def MatterMessageInfo_def)
  have lens: "0 < ?off" "?off + 16 < length tvb" "length tvb = unat (mi_msgLen mi)"
    using len(1) L(2) un(1) ml(1) by (simp_all add: length_encode_header node_header_len_def)
  have parts: "drop ?off tvb = enc" "take ?off tvb = encode_header h" by (simp_all add: tvb_def)
  obtain v where hd: "DissectMatter_header (pref_ShowNodeIds host) pinfo tvb (length tvb) = Some (mi, tvb, ?off, v)"
    using DissectMatter_header_udp [OF h(1) udp] unfolding tvb_def mi_def hl by blast
  note dec = TryDecryptMessage_first [OF env refresh encrypted lens, unfolded parts, folded found_def]
  {
    assume f: "found = Some (encode_exchange x @ payload, st)"
    let ?tail = "drop (length (encode_exchange x @ payload)) (g_malloc ?env (length tvb - ?off))"
    let ?mi = "mi\<lparr>mi_trailerLen := 16\<rparr>" and ?s = "s\<lparr>ms_hints := h', ms_keys := store_key st T'\<rparr>"
    obtain m' k where "key_opens (env_evp ?env) enc (encode_header h) m' k = Some (encode_exchange x @ payload)"
      using first_open_Some f unfolding found_def by blast
    then have pl: "length (encode_exchange x @ payload) = length enc - 16"
      using length_key_opens env(1) by (metis env_ok_def)
    then have tl: "length ?tail = 16" using env(1) L(2) len(1) by (simp add: env_ok_def)
    have "length (encode_exchange x) + length payload + length ?tail < 65536"
      using pl tl L len(1) by simp
    moreover have "MessageIsEncrypted ?mi = MessageIsEncrypted mi" by (simp add: MessageIsEncrypted_def)
    ultimately have r: "hands_on host pinfo x payload ?mi ?s
        (DissectMatter_payload host pinfo tvb (encode_exchange x @ payload @ ?tail) ?mi v ?s)"
      by (intro DissectMatter_payload_spec [OF _ _ _ _ x]) (use t ml un L tl in simp_all)
    have "DissectMatter host pinfo tvb (length tvb) s = map_option (\<lambda>(v, s'). (length tvb, v, s'))
        (DissectMatter_payload host pinfo tvb (encode_exchange x @ payload @ ?tail) ?mi v ?s)"
      unfolding DissectMatter_def hd using encrypted dec f ml(3)
      by (simp add: bind_Some_map2 MATTER_CRYPTO_TAG_LENGTH_def)
    then show "\<exists>r. hands_on host pinfo x payload ?mi ?s r \<and>
        DissectMatter host pinfo tvb (length tvb) s = map_option (\<lambda>(v, s'). (length tvb, v, s')) r"
      using r by auto
  next
    assume f: "found = None"
    have "unat (mi_msgLen mi - of_nat ?off) = length enc"
      unfolding ml(1) L(2) using unat_of_nat_16 [of "length enc"] L by simp
    then have "show_bytes PacketData hf_Matter_EncData tvb ?off (unat (mi_msgLen mi - of_nat ?off)) v =
        Some (show_item PacketData hf_Matter_EncData ?off (length enc) Raw v)"
      using L(2) by (simp add: show_bytes_def load_bytes_def)
    then show "\<exists>v. DissectMatter host pinfo tvb (length tvb) s =
        Some (length tvb, v, s\<lparr>ms_hints := h', ms_keys := T'\<rparr>)"
      unfolding DissectMatter_def hd using encrypted dec f by (simp add: bind_Some_map2)
  }
qed

text \<open>
  A message to a group: its header ends with the group identifier, but the dissector takes what follows the
  node identifiers as the (encrypted) payload, so it ends two bytes short of the header.
\<close>

lemma DissectMatter_header_group:
  assumes "header_ok h" and "ptype pinfo \<noteq> PT_TCP" and "hd_group h = Some g"
  shows "\<exists>v mi. DissectMatter_header show pinfo (encode_header h @ rest) n =
      Some (mi, encode_header h @ rest, length (encode_header h) - 2, v) \<and>
    drop (length (encode_header h) - 2) (encode_header h @ rest) = LE_Write16 g @ rest"
proof -
  have len: "node_header_len h = length (encode_header h) - 2" using assms(3) by (simp add: length_encode_header)
  have "drop (node_header_len h) (encode_header h) = LE_Write16 g"
    using assms(3) by (simp add: encode_header_def node_header_len_def encode_opt_def split: option.splits)
  moreover have "node_header_len h \<le> length (encode_header h)" by (simp add: length_encode_header)
  ultimately have "drop (node_header_len h) (encode_header h @ rest) = LE_Write16 g @ rest" by simp
  then show ?thesis
    using DissectMatter_header_udp [OF assms(1,2), of "show" rest n] unfolding len [symmetric] by blast
qed

end
