(* ===== verification/Message_Properties.thy ===== *)
theory Message_Properties
  imports Matter_Message_Spec
begin

text \<open>
  The properties of the message layer: key hints, the key table, decryption, and whole messages, each with
  a witness at a concrete input.
\<close>

section \<open>Keys\<close>

text \<open>
  C19. Hints: the line that describes a hint (its key in hexadecimal, its session and its source in decimal)
  is parsed to that hint.
\<close>

theorem hint_roundtrip:
  assumes "length (hint_key_bytes h) = 16"
    and "\<not> hasKeyId h \<Longrightarrow> hint_keyId h = 0" and "\<not> hasSrcNodeId h \<Longrightarrow> hint_srcNodeId h = 0"
  shows "ParseMatterProxyHintLine (show_hint h) MatterProxyHintKey = Some h"
  by (rule hint_line_roundtrip [OF assms])

definition sample_hint :: hint_key where
  "sample_hint = \<lparr>hasKeyId = True, hint_keyId = 300, hasSrcNodeId = False, hint_srcNodeId = 0,
     hint_key_bytes = replicate 16 0xA5\<rparr>"

theorem hint_roundtrip_witness:
  "ParseMatterProxyHintLine (show_hint sample_hint) MatterProxyHintKey = Some sample_hint"
  by (rule hint_roundtrip) (simp_all add: sample_hint_def)

text \<open>
  C20. The key table: \<open>AddKey\<close> keeps every key under its own identifier and none twice; afterwards a key with
  the same bytes and type is found under the identifier, and the keys that were found before are found in
  the same order, behind at most the new one.
\<close>

theorem key_table_add:
  assumes "key_table_inv T" and "key_ok k"
  shows "\<exists>keys T'. AddKey k T = Some (keys, T') \<and> key_table_inv T' \<and>
    (\<exists>key \<in> set (FindKeysById (keyId k) T'). same_key key k) \<and>
    (\<forall>i. \<exists>new. FindKeysById i T' = new @ FindKeysById i T \<and> set new \<subseteq> {k})"
  by (rule AddKey_finds [OF assms]) blast

definition sample_key :: enc_key where
  "sample_key = zero_key\<lparr>key_sessionType := kMatterEncryptionType_AES128CCM, dataEncKey := replicate 16 7,
     dataEncKeyLen := 16\<rparr>"

lemma sample_key_ok: "key_ok sample_key"
  by (simp add: key_ok_def sample_key_def zero_key_def)

theorem key_table_add_witness:
  "\<exists>keys T'. AddKey sample_key KeyTable_Init = Some (keys, T') \<and> key_table_inv T' \<and>
    (\<exists>key \<in> set (FindKeysById (keyId sample_key) T'). same_key key sample_key) \<and>
    (\<forall>i. \<exists>new. FindKeysById i T' = new @ FindKeysById i KeyTable_Init \<and> set new \<subseteq> {sample_key})"
  by (rule key_table_add [OF KeyTable_Init_inv sample_key_ok])



section \<open>Decryption\<close>

text \<open>
  C22. Nonces: the nonce of an attempt is the security flags, the message counter and the source in little
  endian, so two attempts use the same nonce only when these three agree.
\<close>

theorem nonce_unique:
  assumes "message_nonce m = message_nonce m'"
  shows "mi_secFlags m = mi_secFlags m' \<and> mi_msgId m = mi_msgId m' \<and> mi_srcNodeId m = mi_srcNodeId m' \<and>
    message_nonce m = mi_secFlags m # LE_Write32 (mi_msgId m) @ LE_Write64 (mi_srcNodeId m)"
  using message_nonce_inj [OF assms] message_nonce_encoding by simp

theorem nonce_unique_witness:
  "mi_secFlags (MatterMessageInfo\<lparr>mi_msgLen := 5\<rparr>) = mi_secFlags MatterMessageInfo \<and>
   mi_msgId (MatterMessageInfo\<lparr>mi_msgLen := 5\<rparr>) = mi_msgId MatterMessageInfo \<and>
   mi_srcNodeId (MatterMessageInfo\<lparr>mi_msgLen := 5\<rparr>) = mi_srcNodeId MatterMessageInfo \<and>
   message_nonce (MatterMessageInfo\<lparr>mi_msgLen := 5\<rparr>) = mi_secFlags (MatterMessageInfo\<lparr>mi_msgLen := 5\<rparr>) #
     LE_Write32 (mi_msgId (MatterMessageInfo\<lparr>mi_msgLen := 5\<rparr>)) @ LE_Write64 (mi_srcNodeId (MatterMessageInfo\<lparr>mi_msgLen := 5\<rparr>))"
  by (rule nonce_unique) (simp add: message_nonce_def MatterMessageInfo_def)

text \<open>
  C23. The search for a key is a search in one list of candidates: the keys of the table under the session
  (with the source that was stored with them when the message names none), then the user's keys, each with
  the source of the message and then with the user's node identifiers, then the hints of the file and of the
  capture. The first candidate under which OpenSSL opens the message gives the plaintext, followed by 16
  bytes that are whatever the allocation held, and its key is stored; without one nothing is returned and
  no key is stored.
\<close>

theorem decrypt_search:
  fixes env :: decrypt_env and m :: msg_info
  assumes "env_ok env" and "key_table_inv T'" and "hints_ok h'"
    and "RefreshMatterProxyHintKeys (env_fs env) (pref_MatterProxyKeyHintFile env) (h, T) = Some (h', T')"
    and "MessageIsEncrypted m" and "0 < off" and "off + 16 < length tvb" and "length tvb = unat (mi_msgLen m)"
  shows "TryDecryptMessage env tvb off m (h, T) =
    Some (case first_open (key_opens (env_evp env) (drop off tvb) (take off tvb)) (all_candidates env m h' T') of
        None \<Rightarrow> (None, h', T')
      | Some (p, st) \<Rightarrow> (Some (p @ drop (length p) (g_malloc env (length tvb - off))), h', store_key st T'))"
  by (rule TryDecryptMessage_first [OF assms])

text \<open>A cipher for the witnesses: the tag is the key, the plaintext the ciphertext.\<close>

definition clear_evp :: evp where
  "clear_evp = \<lparr>CTX_new = True, Init_cipher = (\<lambda>_. True), Set_ivlen = (\<lambda>_. True), Set_tag = (\<lambda>_. True),
     Init_key = (\<lambda>_ _. True), Update_length = (\<lambda>_. True), Update_aad = (\<lambda>_. True),
     Update_data = (\<lambda>key iv tag aad data. (tag = key, data))\<rparr>"

definition sample_env :: decrypt_env where
  "sample_env = \<lparr>env_evp = clear_evp, env_fs = \<lparr>stat_mtime = (\<lambda>_. None), read_file = (\<lambda>_. None)\<rparr>,
     pref_MatterProxyKeyHintFile = None,
     user_keys = [sample_key\<lparr>dataEncKey := replicate 16 9\<rparr>, sample_key], user_nodes = [],
     g_malloc = (\<lambda>n. replicate n 0xEE)\<rparr>"

lemma sample_env_ok: "env_ok sample_env"
  by (simp add: env_ok_def sample_env_def evp_accepts_def clear_evp_def sample_key_def key_ok_def zero_key_def)

lemma sample_env_refresh:
  "RefreshMatterProxyHintKeys (env_fs sample_env) (pref_MatterProxyKeyHintFile sample_env) (no_hints, KeyTable_Init) =
     Some (no_hints, KeyTable_Init)"
  by (simp add: RefreshMatterProxyHintKeys_def sample_env_def TrimStr_def no_hints_def)

lemma no_hints_ok: "hints_ok no_hints"
  by (simp add: hints_ok_def no_hints_def)

definition sealed_info :: msg_info where
  "sealed_info = MatterMessageInfo\<lparr>mi_sessionId := 5, mi_msgLen := 27\<rparr>"

definition sealed_packet :: "byte list" where
  "sealed_packet = [0, 5, 0, 0, 1, 0, 0, 0] @ [1, 2, 3] @ replicate 16 7"

lemma sealed_found:
  "first_open (key_opens (env_evp sample_env) (drop 8 sealed_packet) (take 8 sealed_packet))
     (all_candidates sample_env sealed_info no_hints KeyTable_Init) =
   Some ([1, 2, 3], Some (sample_key\<lparr>keyId := 5\<rparr>))"
  by (simp add: all_candidates_def table_candidates_def user_candidates_def hint_candidates_def sample_env_def
      clear_evp_def key_opens_def sealed_packet_def sealed_info_def MatterMessageInfo_def no_hints_def KeyTable_Init_def
      FindKeysById_def under_session_def sample_key_def zero_key_def numeral_eq_Suc Let_def)

theorem decrypt_search_witness:
  "TryDecryptMessage sample_env sealed_packet 8 sealed_info (no_hints, KeyTable_Init) =
     Some (Some ([1, 2, 3] @ replicate 16 0xEE), no_hints, store_key (Some (sample_key\<lparr>keyId := 5\<rparr>)) KeyTable_Init)"
proof -
  have l: "length sealed_packet = 27" by (simp add: sealed_packet_def)
  have g: "drop (length [1, 2, 3 :: byte]) (g_malloc sample_env (length sealed_packet - 8)) = replicate 16 0xEE"
    unfolding l by (simp add: sample_env_def)
  have e: "MessageIsEncrypted sealed_info"
    by (simp add: MessageIsEncrypted_def sealed_info_def header_constants MatterMessageInfo_def)
  have m: "length sealed_packet = unat (mi_msgLen sealed_info)" unfolding l by (simp add: sealed_info_def)
  show ?thesis
    using decrypt_search [OF sample_env_ok KeyTable_Init_inv no_hints_ok sample_env_refresh e _ _ m, of 8]
    unfolding sealed_found option.case prod.case g by (simp add: l)
qed

text \<open>
  C24. A message that is too short for an integrity check: an attempt with any key of the right length reads
  the check in front of the copy of the message.
\<close>

theorem decrypt_short_message:
  assumes "evp_accepts e" and "length enc < 16" and "dataEncKeyLen k = 16"
  shows "TryDecryptMessage_AES128CCM e enc (of_nat (length enc)) aad al m k buf = None"
  by (rule short_message_attempt [OF assms])

theorem decrypt_short_message_witness:
  "TryDecryptMessage_AES128CCM clear_evp [1, 2] (of_nat (length [1 :: byte, 2])) [0] 1 sealed_info sample_key [] = None"
  by (rule decrypt_short_message)
    (simp_all add: evp_accepts_def clear_evp_def sample_key_def)



section \<open>Messages\<close>


definition clear_header :: message_header where
  "clear_header = \<lparr>hd_flags = 4, hd_sessionId = 0, hd_secFlags = 0, hd_counter = 77, hd_source = Some 9,
     hd_dest = None, hd_group = None\<rparr>"

definition read_exchange :: exchange_header where
  "read_exchange = \<lparr>ex_flags = 5, ex_type = 2, ex_id = 3, ex_protocol = 1, ex_vendor = None, ex_ack = None\<rparr>"

definition sample_host :: matter_host where
  "sample_host = \<lparr>host_crc32 = (\<lambda>bs. of_nat (length bs)), host_crc32_seed = (\<lambda>bs n. n), pref_ShowNodeIds = True,
     decrypt_env = sample_env, subdissect = (\<lambda>p payload mi vt. Some (int (length payload), vt))\<rparr>"

definition no_messages :: matter_state where
  "no_messages = \<lparr>ms_tracker = no_tracker, ms_hints = no_hints, ms_keys = KeyTable_Init, ms_cases = []\<rparr>"

definition udp_packet :: packet_info where
  "udp_packet = \<lparr>fd_num = 5, ptype = PT_UDP, tcp_stream = 0\<rparr>"

lemmas sample_message_defs = clear_header_def read_exchange_def udp_packet_def no_messages_def
  header_ok_def exchange_ok_def header_constants



definition sealed_header :: message_header where
  "sealed_header = \<lparr>hd_flags = 0, hd_sessionId = 5, hd_secFlags = 0, hd_counter = 1, hd_source = None,
     hd_dest = None, hd_group = None\<rparr>"

lemma sealed_message_found:
  "first_open (key_opens (env_evp sample_env) (encode_exchange read_exchange @ [0x15, 0x18] @ replicate 16 7) aad)
     (all_candidates sample_env (header_info sealed_header len hl) no_hints KeyTable_Init) =
   Some (encode_exchange read_exchange @ [0x15, 0x18], Some (sample_key\<lparr>keyId := 5\<rparr>))"
proof -
  have "encode_exchange read_exchange = [5, 2, 3, 0, 1, 0]" by code_simp
  then show ?thesis
    by (simp add: all_candidates_def table_candidates_def user_candidates_def hint_candidates_def sample_env_def
      clear_evp_def key_opens_def header_info_def sealed_header_def MatterMessageInfo_def no_hints_def KeyTable_Init_def
      FindKeysById_def under_session_def sample_key_def zero_key_def numeral_eq_Suc Let_def)
qed


text \<open>
  C28. A message to a group: the dissector does not read the group identifier, so the header it finds ends two
  bytes early and the identifier is taken for the beginning of the message data.
\<close>

theorem group_destination_not_read:
  assumes "header_ok h" and "ptype pinfo \<noteq> PT_TCP" and "hd_group h = Some g"
  shows "\<exists>v mi. DissectMatter_header show_ids pinfo (encode_header h @ rest) n =
      Some (mi, encode_header h @ rest, length (encode_header h) - 2, v) \<and>
    drop (length (encode_header h) - 2) (encode_header h @ rest) = LE_Write16 g @ rest"
  by (rule DissectMatter_header_group [OF assms])

theorem group_destination_not_read_witness:
  "\<exists>v mi. DissectMatter_header True udp_packet
      (encode_header (clear_header\<lparr>hd_flags := 6, hd_secFlags := 1, hd_group := Some 0x102\<rparr>) @ [1, 2, 3]) 21 =
      Some (mi, encode_header (clear_header\<lparr>hd_flags := 6, hd_secFlags := 1, hd_group := Some 0x102\<rparr>) @ [1, 2, 3],
        length (encode_header (clear_header\<lparr>hd_flags := 6, hd_secFlags := 1, hd_group := Some 0x102\<rparr>)) - 2, v) \<and>
    drop (length (encode_header (clear_header\<lparr>hd_flags := 6, hd_secFlags := 1, hd_group := Some 0x102\<rparr>)) - 2)
      (encode_header (clear_header\<lparr>hd_flags := 6, hd_secFlags := 1, hd_group := Some 0x102\<rparr>) @ [1, 2, 3]) =
      LE_Write16 0x102 @ [1, 2, 3]"
  by (rule group_destination_not_read) (simp_all add: sample_message_defs)

end
