(* ===== verification/Key_Derivation.thy ===== *)
theory Key_Derivation
  imports CASE_Records "HOL-Library.Monad_Syntax"
begin

text \<open>
  HKDF (\<open>HKDF.c\<close>) over the HMAC of OpenSSL, which is a parameter: an \<open>evp_md\<close> is a hash with its size, the HMAC
  of a key and a message, and which calls fail. An HMAC context is the key with the data given so far.

  The expansion is the one of RFC 5869: \<open>hkdf_okm\<close> is that text, and \<open>HKDF_expand_okm\<close> says that the loop with
  its one-byte counter and its pointer into the output computes it for every length it accepts.
\<close>

section \<open>HMAC\<close>

record hmac_ctx =
  hmac_key :: "byte list"
  hmac_data :: "byte list"

record evp_md =
  EVP_MD_size :: nat
  hmac_of :: "byte list \<Rightarrow> byte list \<Rightarrow> byte list"
  hmac_fails :: "byte list \<Rightarrow> byte list \<Rightarrow> bool"
  hmac_init_fails :: "byte list \<Rightarrow> bool"
  hmac_update_fails :: "hmac_ctx \<Rightarrow> byte list \<Rightarrow> bool"
  hmac_final_fails :: "hmac_ctx \<Rightarrow> bool"

text \<open>What OpenSSL documents of a hash it supports: the calls succeed, and the result has the size of the hash.\<close>

definition md_works :: "evp_md \<Rightarrow> bool" where
  "md_works md \<longleftrightarrow> 0 < EVP_MD_size md \<and> (\<forall>k m. length (hmac_of md k m) = EVP_MD_size md \<and> \<not> hmac_fails md k m) \<and>
     (\<forall>k. \<not> hmac_init_fails md k) \<and> (\<forall>c bs. \<not> hmac_update_fails md c bs) \<and> (\<forall>c. \<not> hmac_final_fails md c)"

definition HMAC_Init_ex :: "evp_md \<Rightarrow> byte list \<Rightarrow> hmac_ctx option" where
  "HMAC_Init_ex md key = (if hmac_init_fails md key then None else Some \<lparr>hmac_key = key, hmac_data = []\<rparr>)"

definition HMAC_Update :: "evp_md \<Rightarrow> byte list \<Rightarrow> hmac_ctx \<Rightarrow> hmac_ctx option" where
  "HMAC_Update md bs c = (if hmac_update_fails md c bs then None else Some (c\<lparr>hmac_data := hmac_data c @ bs\<rparr>))"

definition HMAC_Final :: "evp_md \<Rightarrow> hmac_ctx \<Rightarrow> byte list option" where
  "HMAC_Final md c = (if hmac_final_fails md c then None else Some (hmac_of md (hmac_key c) (hmac_data c)))"

section \<open>The code\<close>

text \<open>A result of 0 is \<open>None\<close> here: both callers give up then.\<close>

definition HKDF_extract :: "evp_md \<Rightarrow> byte list \<Rightarrow> byte list \<Rightarrow> byte list option" where
  "HKDF_extract md salt inKey = (if hmac_fails md salt inKey then None else Some (hmac_of md salt inKey))"

text \<open>
  One round: the hash of the block before it (\<open>outKey - hashSize\<close>, the end of what was written), the information
  and the number of the round.
\<close>

definition expand_block :: "evp_md \<Rightarrow> byte list \<Rightarrow> byte list \<Rightarrow> byte \<Rightarrow> byte list \<Rightarrow> byte list option" where
  "expand_block md prKey info hashNum written =
     do {
       hmac \<leftarrow> HMAC_Init_ex md prKey;
       hmac \<leftarrow> (if hashNum > 1 then HMAC_Update md (drop (length written - EVP_MD_size md) written) hmac else Some hmac);
       hmac \<leftarrow> (if info \<noteq> [] then HMAC_Update md info hmac else Some hmac);
       hmac \<leftarrow> HMAC_Update md [hashNum] hmac;
       HMAC_Final md hmac
     }"

text \<open>
  \<open>while (1)\<close>: the outer option is whether it returns, the inner one its result. \<open>written\<close> is the output so far; a
  full block advances the pointer, a block that is longer than what is left is copied as far as it is needed.
\<close>

partial_function (option) expand_loop ::
  "evp_md \<Rightarrow> byte list \<Rightarrow> byte list \<Rightarrow> byte \<Rightarrow> byte list \<Rightarrow> nat \<Rightarrow> byte list option option" where
  [code]: "expand_loop md prKey info hashNum written outKeyLen =
     (case expand_block md prKey info hashNum written of None \<Rightarrow> Some None
      | Some h \<Rightarrow>
          if outKeyLen < EVP_MD_size md then Some (Some (written @ take outKeyLen h))
          else expand_loop md prKey info (hashNum + 1) (written @ h) (outKeyLen - EVP_MD_size md))"

definition HKDF_expand :: "evp_md \<Rightarrow> byte list \<Rightarrow> byte list \<Rightarrow> nat \<Rightarrow> byte list option option" where
  "HKDF_expand md prKey info outKeyLen =
     (if outKeyLen < 1 \<or> outKeyLen > 255 * EVP_MD_size md then Some None
      else expand_loop md prKey info 1 [] outKeyLen)"

section \<open>RFC 5869\<close>

primrec hkdf_T :: "evp_md \<Rightarrow> byte list \<Rightarrow> byte list \<Rightarrow> nat \<Rightarrow> byte list" where
  "hkdf_T md prk info 0 = []"
| "hkdf_T md prk info (Suc n) = hmac_of md prk (hkdf_T md prk info n @ info @ [of_nat (Suc n)])"

definition hkdf_blocks :: "evp_md \<Rightarrow> byte list \<Rightarrow> byte list \<Rightarrow> nat \<Rightarrow> byte list" where
  "hkdf_blocks md prk info n = concat (map (\<lambda>i. hkdf_T md prk info (Suc i)) [0..<n])"

definition hkdf_okm :: "evp_md \<Rightarrow> byte list \<Rightarrow> byte list \<Rightarrow> nat \<Rightarrow> byte list" where
  "hkdf_okm md prk info len = take len (hkdf_blocks md prk info ((len + EVP_MD_size md - 1) div EVP_MD_size md))"

lemma length_hkdf_T [simp]: "md_works md \<Longrightarrow> length (hkdf_T md prk info (Suc n)) = EVP_MD_size md"
  by (simp add: md_works_def)

lemma hkdf_blocks_0 [simp]: "hkdf_blocks md prk info 0 = []"
  by (simp add: hkdf_blocks_def)

lemma hkdf_blocks_Suc: "hkdf_blocks md prk info (Suc n) = hkdf_blocks md prk info n @ hkdf_T md prk info (Suc n)"
  by (simp add: hkdf_blocks_def)

lemma length_hkdf_blocks: "md_works md \<Longrightarrow> length (hkdf_blocks md prk info n) = n * EVP_MD_size md"
  by (induction n) (simp_all add: hkdf_blocks_Suc del: hkdf_T.simps)

text \<open>The calls do not fail, whatever the counter is.\<close>

lemma hmac_calls:
  assumes "md_works md"
  shows "HMAC_Init_ex md key = Some \<lparr>hmac_key = key, hmac_data = []\<rparr>"
    "HMAC_Update md bs c = Some (c\<lparr>hmac_data := hmac_data c @ bs\<rparr>)"
    "HMAC_Final md c = Some (hmac_of md (hmac_key c) (hmac_data c))"
  using assms by (simp_all add: md_works_def HMAC_Init_ex_def HMAC_Update_def HMAC_Final_def)

lemma expand_block_returns:
  "md_works md \<Longrightarrow> \<exists>h. expand_block md prk info i written = Some h \<and> length h = EVP_MD_size md"
  by (simp add: expand_block_def hmac_calls) (simp add: md_works_def)

lemma hkdf_blocks_end:
  assumes "md_works md"
  shows "drop (length (hkdf_blocks md prk info n) - EVP_MD_size md) (hkdf_blocks md prk info n) =
    (if n = 0 then [] else hkdf_T md prk info n)"
  using assms by (cases n) (simp_all add: hkdf_blocks_Suc del: hkdf_T.simps(2))

lemma expand_block_works:
  assumes "md_works md" and "n < 255"
  shows "expand_block md prk info (of_nat (Suc n)) (hkdf_blocks md prk info n) = Some (hkdf_T md prk info (Suc n))"
proof -
  have "unat (of_nat (Suc n) :: byte) = Suc n"
    using assms(2) by (simp add: unat_of_nat take_bit_nat_eq_self del: of_nat_Suc)
  then have gt: "of_nat (Suc n) > (1 :: byte) \<longleftrightarrow> n \<noteq> 0" by (simp add: word_less_nat_alt del: of_nat_Suc)
  show ?thesis
    by (cases "n = 0")
      (simp_all add: expand_block_def hmac_calls [OF assms(1)] gt hkdf_blocks_end [OF assms(1)] del: of_nat_Suc)
qed

text \<open>Fewer octets do not need more blocks.\<close>

lemma take_hkdf_blocks:
  assumes "md_works md" and "len \<le> m * EVP_MD_size md" and "m \<le> n"
  shows "take len (hkdf_blocks md prk info n) = take len (hkdf_blocks md prk info m)"
  using assms(3)
proof (induction n rule: dec_induct)
  case (step n)
  have "len \<le> n * EVP_MD_size md" using assms(2) step(1) by (metis le_trans mult_le_mono1)
  then show ?case using step by (simp add: hkdf_blocks_Suc length_hkdf_blocks [OF assms(1)] del: hkdf_T.simps)
qed simp

text \<open>
  The last round of the longest output would have the number 256, which is 0 in a byte, but then nothing is left to
  copy.
\<close>

lemma expand_loop_okm:
  assumes md: "md_works md" and "n * EVP_MD_size md + len \<le> 255 * EVP_MD_size md"
  shows "expand_loop md prk info (of_nat (Suc n)) (hkdf_blocks md prk info n) len =
    Some (Some (take (n * EVP_MD_size md + len) (hkdf_blocks md prk info (n + Suc (len div EVP_MD_size md)))))"
  using assms(2)
proof (induction len arbitrary: n rule: less_induct)
  case (less len)
  let ?s = "EVP_MD_size md"
  have s: "0 < ?s" using md by (simp add: md_works_def)
  obtain h where h: "expand_block md prk info (of_nat (Suc n)) (hkdf_blocks md prk info n) = Some h"
    using expand_block_returns [OF md] by blast
  show ?case
  proof (cases "len < ?s")
    case True
    have "take len h = take len (hkdf_T md prk info (Suc n))"
    proof (cases "n < 255")
      case True
      then show ?thesis using h expand_block_works [OF md] by simp
    next
      case False
      then have "255 * ?s \<le> n * ?s" by (intro mult_le_mono1) simp
      then have "len = 0" using less.prems by linarith
      then show ?thesis by simp
    qed
    then show ?thesis
      using True h length_hkdf_blocks [OF md, of prk info n]
      by (subst expand_loop.simps) (simp add: hkdf_blocks_Suc del: hkdf_T.simps of_nat_Suc)
  next
    case False
    then have "n * ?s + ?s \<le> 255 * ?s" using less.prems by linarith
    then have "Suc n * ?s \<le> 255 * ?s" by (simp only: mult_Suc add.commute)
    then have n: "n < 255" using s by (metis Suc_le_lessD mult_le_cancel2)
    have l: "Suc n * ?s + (len - ?s) = n * ?s + len" "Suc n + Suc ((len - ?s) div ?s) = n + Suc (len div ?s)"
      using False s by (simp_all add: le_div_geq)
    have "expand_loop md prk info (of_nat (Suc n) + 1) (hkdf_blocks md prk info (Suc n)) (len - ?s) =
        Some (Some (take (n * ?s + len) (hkdf_blocks md prk info (n + Suc (len div ?s)))))"
      using less.IH [of "len - ?s" "Suc n", unfolded l] False s less.prems by (simp only: of_nat_Suc ac_simps)
    then show ?thesis
      using False expand_block_works [OF md n]
      by (subst expand_loop.simps) (simp add: hkdf_blocks_Suc del: hkdf_T.simps of_nat_Suc)
  qed
qed

theorem HKDF_expand_okm:
  assumes "md_works md"
  shows "HKDF_expand md prk info len =
    Some (if 1 \<le> len \<and> len \<le> 255 * EVP_MD_size md then Some (hkdf_okm md prk info len) else None)"
proof -
  let ?s = "EVP_MD_size md"
  have s: "0 < ?s" using assms by (simp add: md_works_def)
  have "take len (hkdf_blocks md prk info (Suc (len div ?s))) =
      take len (hkdf_blocks md prk info ((len + ?s - 1) div ?s))"
  proof (rule take_hkdf_blocks [OF assms])
    show "len \<le> (len + ?s - 1) div ?s * ?s"
      using s div_mult_mod_eq [of "len + ?s - 1" ?s] mod_less_divisor [OF s, of "len + ?s - 1"] by linarith
    have "(len + ?s - 1) div ?s \<le> (len + ?s) div ?s" by (rule div_le_mono) simp
    then show "(len + ?s - 1) div ?s \<le> Suc (len div ?s)" by (simp only: div_add_self2 [of ?s len, OF less_imp_neq [OF s, symmetric]] add_ac)
  qed
  then show ?thesis
    using expand_loop_okm [OF assms, of 0 len prk info] by (auto simp: HKDF_expand_def hkdf_okm_def)
qed

end
