(* ===== verification/Protocol_Security.thy ===== *)
theory Protocol_Security
  imports Key_Derivation Sub_Dissector Status_Text Protocol_Tags
begin

text \<open>
  The dissector of the older security protocol (\<open>packet-matter-security.cpp\<close>): session establishment with
  certificates, counter synchronisation and key errors. What it remembers of a session establishment is
  one object for all messages of the exchange; when the second message arrives and one party has used the generator of
  the curve as its public key, it derives the session key and stores it in the key table.

  The hashes are a parameter. A dissector changes the view and the state of the program; bytes of the payload that are not there
  raise the exception of the host, \<open>None\<close>.
\<close>

section \<open>Constants\<close>

definition kCASEConfig_Config1 :: u32 where "kCASEConfig_Config1 = push_bit 16 (ucast kMatterVendor_NestLabs) OR 1"
definition kCASEConfig_Config2 :: u32 where "kCASEConfig_Config2 = push_bit 16 (ucast kMatterVendor_NestLabs) OR 2"
definition kCASEKeyConfirmHashLength_0Bytes :: byte where "kCASEKeyConfirmHashLength_0Bytes = 0x00"
definition kCASEKeyConfirmHashLength_32Bytes :: byte where "kCASEKeyConfirmHashLength_32Bytes = 0x40"
definition kCASEKeyConfirmHashLength_20Bytes :: byte where "kCASEKeyConfirmHashLength_20Bytes = 0x80"
definition kCASEHeader_EncryptionTypeMask :: byte where "kCASEHeader_EncryptionTypeMask = 0x0F"
definition kCASEHeader_KeyConfirmHashLengthMask :: byte where "kCASEHeader_KeyConfirmHashLengthMask = 0xC0"
definition kMatterCurveId_prime192v1 :: u32 where
  "kMatterCurveId_prime192v1 = push_bit 16 (ucast kMatterVendor_NestLabs) OR 0x0015"
definition kMatterCurveId_secp224r1 :: u32 where
  "kMatterCurveId_secp224r1 = push_bit 16 (ucast kMatterVendor_NestLabs) OR 0x0025"
definition kMatterCurveId_prime256v1 :: u32 where
  "kMatterCurveId_prime256v1 = push_bit 16 (ucast kMatterVendor_NestLabs) OR 0x001B"

lemmas case_constants = kCASEConfig_Config1_def kCASEConfig_Config2_def kCASEKeyConfirmHashLength_0Bytes_def
  kCASEKeyConfirmHashLength_32Bytes_def kCASEKeyConfirmHashLength_20Bytes_def kCASEHeader_EncryptionTypeMask_def
  kCASEHeader_KeyConfirmHashLengthMask_def kMatterCurveId_prime192v1_def kMatterCurveId_secp224r1_def
  kMatterCurveId_prime256v1_def kMatterVendor_NestLabs_def

section \<open>Session keys\<close>

record case_crypto =
  SHA1 :: "byte list \<Rightarrow> byte list"
  SHA256 :: "byte list \<Rightarrow> byte list"
  EVP_sha1 :: evp_md
  EVP_sha256 :: evp_md

text \<open>The hash is written over the beginning of the buffer.\<close>

definition ComputeCASEMessageHash :: "case_crypto \<Rightarrow> tvbuff \<Rightarrow> nat \<Rightarrow> u32 \<Rightarrow> byte list \<Rightarrow> byte list option" where
  "ComputeCASEMessageHash C tvb msgLenWithoutSig config hashBuf =
     do {
       msgWithoutSig \<leftarrow> tvb_memdup tvb 0 (int msgLenWithoutSig);
       let hash = (if config = kCASEConfig_Config1 then SHA1 C msgWithoutSig else SHA256 C msgWithoutSig);
       (if length hash \<le> length hashBuf then Some (hash @ drop (length hash) hashBuf) else None)
     }"

definition prime192v1_G :: "byte list" where
  "prime192v1_G =
     [0x04,
      0x18, 0x8d, 0xa8, 0x0e, 0xb0, 0x30, 0x90, 0xf6, 0x7c, 0xbf, 0x20, 0xeb, 0x43, 0xa1, 0x88, 0x00,
      0xf4, 0xff, 0x0a, 0xfd, 0x82, 0xff, 0x10, 0x12,
      0x07, 0x19, 0x2b, 0x95, 0xff, 0xc8, 0xda, 0x78, 0x63, 0x10, 0x11, 0xed, 0x6b, 0x24, 0xcd, 0xd5,
      0x73, 0xf9, 0x77, 0xa1, 0x1e, 0x79, 0x48, 0x11]"

definition secp224r1_G :: "byte list" where
  "secp224r1_G =
     [0x04,
      0xb7, 0x0e, 0x0c, 0xbd, 0x6b, 0xb4, 0xbf, 0x7f, 0x32, 0x13, 0x90, 0xb9, 0x4a, 0x03, 0xc1, 0xd3,
      0x56, 0xc2, 0x11, 0x22, 0x34, 0x32, 0x80, 0xd6, 0x11, 0x5c, 0x1d, 0x21,
      0xbd, 0x37, 0x63, 0x88, 0xb5, 0xf7, 0x23, 0xfb, 0x4c, 0x22, 0xdf, 0xe6, 0xcd, 0x43, 0x75, 0xa0,
      0x5a, 0x07, 0x47, 0x64, 0x44, 0xd5, 0x81, 0x99, 0x85, 0x00, 0x7e, 0x34]"

definition prime256v1_G :: "byte list" where
  "prime256v1_G =
     [0x04,
      0x6b, 0x17, 0xd1, 0xf2, 0xe1, 0x2c, 0x42, 0x47, 0xf8, 0xbc, 0xe6, 0xe5, 0x63, 0xa4, 0x40, 0xf2,
      0x77, 0x03, 0x7d, 0x81, 0x2d, 0xeb, 0x33, 0xa0, 0xf4, 0xa1, 0x39, 0x45, 0xd8, 0x98, 0xc2, 0x96,
      0x4f, 0xe3, 0x42, 0xe2, 0xfe, 0x1a, 0x7f, 0x9b, 0x8e, 0xe7, 0xeb, 0x4a, 0x7c, 0x0f, 0x9e, 0x16,
      0x2b, 0xce, 0x33, 0x57, 0x6b, 0x31, 0x5e, 0xce, 0xcb, 0xb6, 0x40, 0x68, 0x37, 0xbf, 0x51, 0xf5]"

definition curve_generators :: "(u32 \<times> byte list) list" where
  "curve_generators =
     [(kMatterCurveId_prime192v1, prime192v1_G), (kMatterCurveId_secp224r1, secp224r1_G),
      (kMatterCurveId_prime256v1, prime256v1_G)]"

definition IsCurveGenerator :: "u32 \<Rightarrow> byte list \<Rightarrow> nat \<Rightarrow> bool option" where
  "IsCurveGenerator curveId encodedPoint encodedPointLen =
     (case map_of curve_generators curveId of
        Some G \<Rightarrow> if encodedPointLen = length G then same_bytes (length G) encodedPoint G else Some False
      | None \<Rightarrow> Some False)"

partial_function (option) FindCASEExchangeRecord :: "msg_record list \<Rightarrow> rec_id option \<Rightarrow> nat option option" where
  [code]: "FindCASEExchangeRecord recs msg =
     (case msg of None \<Rightarrow> Some None
      | Some i \<Rightarrow>
          if i < length recs
          then (if caseExchangeRec (recs ! i) \<noteq> None then Some (caseExchangeRec (recs ! i))
                else FindCASEExchangeRecord recs (prevByExchange (recs ! i)))
          else None)"

text \<open>A null pointer and a key table that stays as it is when the key cannot be derived.\<close>

definition DeriveCASESessionKey ::
  "case_crypto \<Rightarrow> case_exchange \<Rightarrow> byte list \<Rightarrow> key_table \<Rightarrow> (enc_key list \<times> key_table) option" where
  "DeriveCASESessionKey C caseRec sharedSecret sKeys =
     (if case_sessionType caseRec \<noteq> kMatterEncryptionType_AES128CCM then Some ([], sKeys)
      else do {
        let hashAlgo = (if case_config caseRec = kCASEConfig_Config1 then EVP_sha1 C else EVP_sha256 C);
        let hashLen = EVP_MD_size hashAlgo;
        reqHash \<leftarrow> load_bytes (reqMsgHash caseRec) 0 hashLen;
        respHash \<leftarrow> load_bytes (respMsgHash caseRec) 0 hashLen;
        (case HKDF_extract hashAlgo (reqHash @ respHash) sharedSecret of None \<Rightarrow> Some ([], sKeys)
         | Some masterKey \<Rightarrow>
             if length masterKey > CASE_MAX_HASH_SIZE then None
             else do {
               expanded \<leftarrow> HKDF_expand hashAlgo masterKey [] (unat kDataEncKeyLength_AES128CCM + CASE_MAX_HASH_SIZE);
               (case expanded of None \<Rightarrow> Some ([], sKeys)
                | Some sessionKeyData \<Rightarrow>
                    AddKey (zero_key\<lparr>keyId := case_keyId caseRec, key_sessionType := case_sessionType caseRec,
                      dataEncKey := sessionKeyData, dataEncKeyLen := kDataEncKeyLength_AES128CCM\<rparr>) sKeys)
             })
      })"

text \<open>\<open>respECDHPublicKey + 1\<close> with \<open>(reqECDHPublicKeyLen - 1) / 2\<close> bytes.\<close>

definition x_coordinate :: "byte list \<Rightarrow> nat \<Rightarrow> byte list option" where
  "x_coordinate publicKey publicKeyLen = load_bytes publicKey 1 ((publicKeyLen - 1) div 2)"

definition RecoverCASESessionKey ::
  "case_crypto \<Rightarrow> case_exchange \<times> key_table \<Rightarrow> (case_exchange \<times> key_table) option" where
  "RecoverCASESessionKey C s =
     (case s of (c, sKeys) \<Rightarrow>
        if case_config c \<noteq> kCASEConfig_Config1 \<and> case_config c \<noteq> kCASEConfig_Config2 then Some (c, sKeys)
        else if case_curveId c \<noteq> kMatterCurveId_prime192v1 \<and> case_curveId c \<noteq> kMatterCurveId_secp224r1 \<and>
          case_curveId c \<noteq> kMatterCurveId_prime256v1 then Some (c, sKeys)
        else if reqECDHPublicKeyLen c \<noteq> respECDHPublicKeyLen c then Some (c, sKeys)
        else do {
          reqG \<leftarrow> IsCurveGenerator (case_curveId c) (reqECDHPublicKey c) (reqECDHPublicKeyLen c);
          respG \<leftarrow> (if reqG then Some False
                   else IsCurveGenerator (case_curveId c) (respECDHPublicKey c) (respECDHPublicKeyLen c));
          (if \<not> reqG \<and> \<not> respG then Some (c, sKeys)
           else do {
             sharedSecret \<leftarrow> x_coordinate (if reqG then respECDHPublicKey c else reqECDHPublicKey c) (reqECDHPublicKeyLen c);
             (key, sKeys) \<leftarrow> DeriveCASESessionKey C c sharedSecret sKeys;
             Some (c\<lparr>recoveredSessionKey := key\<rparr>, sKeys)
           })
        })"

section \<open>Certificates\<close>

definition security_dn_names :: "(u32 \<times> string) list" where
  "security_dn_names =
     [(Security_kTag_DNAttrType_CommonName, ''CommonName''),
      (Security_kTag_DNAttrType_Surname, ''Surname''),
      (Security_kTag_DNAttrType_SerialNumber, ''SerialNumber''),
      (Security_kTag_DNAttrType_CountryName, ''CountryName''),
      (Security_kTag_DNAttrType_LocalityName, ''LocalityName''),
      (Security_kTag_DNAttrType_StateOrProvinceName, ''StateOrProvinceName''),
      (Security_kTag_DNAttrType_OrganizationName, ''OrganizationName''),
      (Security_kTag_DNAttrType_OrganizationalUnitName, ''OrganizationalUnitName''),
      (Security_kTag_DNAttrType_Title, ''Title''),
      (Security_kTag_DNAttrType_Name, ''Name''),
      (Security_kTag_DNAttrType_GivenName, ''GivenName''),
      (Security_kTag_DNAttrType_Initials, ''Initials''),
      (Security_kTag_DNAttrType_GenerationQualifier, ''GenerationQualifier''),
      (Security_kTag_DNAttrType_DNQualifier, ''DNQualifier''),
      (Security_kTag_DNAttrType_Pseudonym, ''Pseudonym''),
      (Security_kTag_DNAttrType_DomainComponent, ''DomainComponent''),
      (Security_kTag_DNAttrType_MatterDeviceId, ''NodeId''),
      (Security_kTag_DNAttrType_MatterServiceEndpointId, ''ServiceEndpointId''),
      (Security_kTag_DNAttrType_MatterCAId, ''FabricId''),
      (Security_kTag_DNAttrType_MatterSoftwarePublisherId, ''SoftwarePublisherId'')]"

definition GetCertDNAttrName :: "u32 \<Rightarrow> string" where
  "GetCertDNAttrName attrTag =
     (case map_of security_dn_names attrTag of Some n \<Rightarrow> n | None \<Rightarrow> ''UnknownAttr'')"

text \<open>A null pointer from \<open>DupString\<close> is shown as nothing.\<close>

definition cert_dn_attribute :: "registry \<Rightarrow> string \<Rightarrow> ListElemHandler" where
  "cert_dn_attribute R hfAttr dnTree d =
     (let attrName = GetCertDNAttrName (TagNumFromTag (GetTag d)); type = GetType d in
      if type = kTLVType_UTF8String then
        (case DupString (malloc_ok (reg_env R)) d of None \<Rightarrow> None
         | Some (err, val, d) \<Rightarrow>
             if err \<noteq> MATTER_NO_ERROR then Some (err, d)
             else Some (MATTER_NO_ERROR, AddStringItemF dnTree (reg_hf R hfAttr)
               (attrName @ '': '' @ (case val of None \<Rightarrow> '''' | Some v \<Rightarrow> text_of v)) d))
      else if type = kTLVType_UnsignedInteger then
        (case Get_u64 d 0 of (err, val) \<Rightarrow>
           if err \<noteq> MATTER_NO_ERROR then Some (err, d)
           else Some (MATTER_NO_ERROR, AddStringItemF dnTree (reg_hf R hfAttr)
             (attrName @ '': 0x'' @ hex_upper 1 (unat val) @ '' ('' @ dec (unat val) @ '')'') d))
      else generic R ''Cert_Unknown'' False dnTree d)"

definition AddCertDN :: "registry \<Rightarrow> string \<Rightarrow> string \<Rightarrow> ListElemHandler" where
  "AddCertDN R hfContainer hfAttr tree = of_types [kTLVType_Path, kTLVType_Structure]
     (subtree_members R (reg_hf R hfContainer) (reg_ett R ''CertDN'') (cert_dn_attribute R hfAttr) tree)"

definition cert_member :: "registry \<Rightarrow> ListElemHandler" where
  "cert_member R certTree = context_switch
     [(Security_kTag_SerialNumber, typed R ''Cert_SerialNumber'' certTree),
      (Security_kTag_Issuer, AddCertDN R ''Cert_Issuer'' ''Cert_IssuerAttribute'' certTree),
      (Security_kTag_Subject, AddCertDN R ''Cert_Subject'' ''Cert_SubjectAttribute'' certTree),
      (Security_kTag_NotBefore, typed R ''Cert_NotBefore'' certTree),
      (Security_kTag_NotAfter, typed R ''Cert_NotAfter'' certTree),
      (Security_kTag_PublicKeyAlgorithm, typed R ''Cert_PublicKeyAlgorithm'' certTree),
      (Security_kTag_EllipticCurveIdentifier, typed R ''Cert_EllipticCurveIdentifier'' certTree),
      (Security_kTag_EllipticCurvePublicKey, typed R ''Cert_EllipticCurvePublicKey'' certTree),
      (Security_kTag_ECDSASignature, of_types [kTLVType_Structure] (generic R ''Cert_Signature'' False certTree))]
     (generic R ''Cert_Unknown'' False certTree)"

definition AddCert_as :: "registry \<Rightarrow> string \<Rightarrow> ListElemHandler" where
  "AddCert_as R hfindex = struct_item R (reg_hf R hfindex) ''Cert'' (cert_member R)"

definition AddCert :: "registry \<Rightarrow> ListElemHandler" where
  "AddCert R = AddCert_as R ''Cert''"

definition cert_ref_member :: "registry \<Rightarrow> ListElemHandler" where
  "cert_ref_member R certRefTree = context_switch
     [(Security_kTag_MatterCertificateRef_Subject,
        of_types [kTLVType_Path, kTLVType_Structure] (AddCertDN R ''CertRef_Subject'' ''Cert_SubjectAttribute'' certRefTree)),
      (Security_kTag_MatterCertificateRef_PublicSessionId,
        of_types [kTLVType_ByteString] (typed R ''CertRef_PublicSessionId'' certRefTree))]
     (generic R ''Cert_Unknown'' False certRefTree)"

definition AddCertRef_as :: "registry \<Rightarrow> string \<Rightarrow> ListElemHandler" where
  "AddCertRef_as R hfindex = struct_item R (reg_hf R hfindex) ''CertRef'' (cert_ref_member R)"

definition AddCertRef :: "registry \<Rightarrow> ListElemHandler" where
  "AddCertRef R = AddCertRef_as R ''CertRef''"

definition cert_info_member :: "registry \<Rightarrow> ListElemHandler" where
  "cert_info_member R certInfoTree = context_switch
     [(Security_kTag_CASECertificateInfo_EntityCertificate,
        of_types [kTLVType_Structure] (AddCert_as R ''CertInfo_EntityCert'' certInfoTree)),
      (Security_kTag_CASECertificateInfo_EntityCertificateRef,
        of_types [kTLVType_Structure] (AddCertRef_as R ''CertInfo_EntityCertRef'' certInfoTree)),
      (Security_kTag_CASECertificateInfo_RelatedCertificates,
        of_types [kTLVType_Path] (AddListItem (reg_env R) certInfoTree (reg_hf R ''CertInfo_RelatedCertsList'')
          (reg_ett R ''CertInfo_RelatedCertsList'') (AddCert R))),
      (Security_kTag_CASECertificateInfo_TrustAnchors,
        of_types [kTLVType_Path] (AddListItem (reg_env R) certInfoTree (reg_hf R ''CertInfo_TrustAnchorsList'')
          (reg_ett R ''CertInfo_TrustAnchorsList'') (AddCertRef R)))]
     unexpected"

definition ecdsa_member :: "registry \<Rightarrow> ListElemHandler" where
  "ecdsa_member R sigTree = context_switch
     [(Security_kTag_ECDSASignature_r, of_types [kTLVType_ByteString] (typed R ''ECDSASig_r'' sigTree)),
      (Security_kTag_ECDSASignature_s, of_types [kTLVType_ByteString] (typed R ''ECDSASig_s'' sigTree))]
     unexpected"

text \<open>A structure of the security profile in a part of the payload, with a dissector of its own.\<close>

definition security_structure ::
  "registry \<Rightarrow> u32 \<Rightarrow> ListElemHandler \<Rightarrow> proto_tree \<Rightarrow> tvbuff \<Rightarrow> nat \<Rightarrow> nat \<Rightarrow> string \<Rightarrow> string \<Rightarrow> view \<Rightarrow>
   (MATTER_ERROR \<times> view) option" where
  "security_structure R tagNum member tree tvb off len hfindex ett v =
     run_tlv R kMatterProfile_Security tvb off (off + len)
       (\<lambda>d. SuccessOrExit (Dissector_Next_expect kTLVType_Structure (ProfileTag kMatterProfile_Security tagNum) d)
         (subtree_members R (reg_hf R hfindex) (reg_ett R ett) member tree)) v"

definition AddCertInfo ::
  "registry \<Rightarrow> proto_tree \<Rightarrow> tvbuff \<Rightarrow> nat \<Rightarrow> nat \<Rightarrow> string \<Rightarrow> string \<Rightarrow> view \<Rightarrow> (MATTER_ERROR \<times> view) option" where
  "AddCertInfo R = security_structure R Security_kTag_MatterCASECertificateInformation (cert_info_member R)"

definition AddECDSASig ::
  "registry \<Rightarrow> proto_tree \<Rightarrow> tvbuff \<Rightarrow> nat \<Rightarrow> nat \<Rightarrow> string \<Rightarrow> string \<Rightarrow> view \<Rightarrow> (MATTER_ERROR \<times> view) option" where
  "AddECDSASig R = security_structure R Security_kTag_MatterCASESignature (ecdsa_member R)"

end
