(* ===== verification/Security_Messages.thy ===== *)
theory Security_Messages
  imports Protocol_Security
begin

text \<open>
  The messages of the security protocol. A dissector reports the whole payload as dissected, whether or not it came to
  the end; \<open>done_with\<close> is that \<open>return\<close>. Lengths are 16-bit sums that wrap, as in the code.
\<close>

type_synonym message_dissector = "view \<times> matter_state \<Rightarrow> (int \<times> view \<times> matter_state) option"

definition done_with :: "msg_info \<Rightarrow> view \<Rightarrow> matter_state \<Rightarrow> (int \<times> view \<times> matter_state) option" where
  "done_with mi v s = Some (int (unat (mi_payloadLen mi)), v, s)"

section \<open>Parts of messages\<close>

text \<open>\<open>n\<close> items of four bytes each.\<close>

primrec add_words :: "registry \<Rightarrow> proto_tree \<Rightarrow> string \<Rightarrow> tvbuff \<Rightarrow> nat \<Rightarrow> nat \<Rightarrow> view \<Rightarrow> view option" where
  "add_words R tree hf_var tvb off 0 v = Some v"
| "add_words R tree hf_var tvb off (Suc n) v =
     do {
       v \<leftarrow> add_tvb_item tree (reg_hf R hf_var) tvb (int off) 4 AddItem v;
       add_words R tree hf_var tvb (off + 4) n v
     }"

text \<open>An item for the list, its subtree, the items of the list, and their number behind the item.\<close>

definition add_word_list ::
  "registry \<Rightarrow> proto_tree \<Rightarrow> string \<Rightarrow> string \<Rightarrow> string \<Rightarrow> tvbuff \<Rightarrow> nat \<Rightarrow> nat \<Rightarrow> nat \<Rightarrow> view \<Rightarrow> view option" where
  "add_word_list R tree hf_list ett_list hf_elem tvb off listLen n v =
     do {
       let list = Some (length (view_calls v));
       v \<leftarrow> add_tvb_item tree (reg_hf R hf_list) tvb (int off) (int listLen) AddItem v;
       let v = add_call (ProtoSubtree list (reg_ett R ett_list)) v;
       v \<leftarrow> add_words R list hf_elem tvb off n v;
       Some (append_text list ('' ('' @ dec n @ '')'') v)
     }"

text \<open>A part that is only there if its length is not 0.\<close>

definition optional_item ::
  "registry \<Rightarrow> proto_tree \<Rightarrow> string \<Rightarrow> tvbuff \<Rightarrow> nat \<Rightarrow> nat \<Rightarrow> view \<Rightarrow> view option" where
  "optional_item R tree hf_var tvb off len v =
     (if len > 0 then add_tvb_item tree (reg_hf R hf_var) tvb (int off) (int len) AddItem v else Some v)"

definition optional_cert_info ::
  "registry \<Rightarrow> proto_tree \<Rightarrow> tvbuff \<Rightarrow> nat \<Rightarrow> nat \<Rightarrow> string \<Rightarrow> view \<Rightarrow> (MATTER_ERROR \<times> view) option" where
  "optional_cert_info R tree tvb off len hfindex v =
     (if len > 0 then AddCertInfo R tree tvb off len hfindex ''CASEBeginSessionRequest_CertInfo'' v
      else Some (MATTER_NO_ERROR, v))"

definition optional_signature ::
  "registry \<Rightarrow> proto_tree \<Rightarrow> tvbuff \<Rightarrow> nat \<Rightarrow> nat \<Rightarrow> string \<Rightarrow> view \<Rightarrow> (MATTER_ERROR \<times> view) option" where
  "optional_signature R tree tvb off len hfindex v =
     (if len > 0 then AddECDSASig R tree tvb off len hfindex ''CASEBeginSessionRequest_Signature'' v
      else Some (MATTER_NO_ERROR, v))"

section \<open>The exchange of a session establishment\<close>

text \<open>\<open>msgRec->caseExchangeRec = c\<close> and a change of the object that \<open>c\<close> points to.\<close>

definition attach_case :: "rec_id \<Rightarrow> nat \<Rightarrow> matter_state \<Rightarrow> matter_state" where
  "attach_case i c s = s\<lparr>ms_tracker := update_record i (\<lambda>r. r\<lparr>caseExchangeRec := Some c\<rparr>) (ms_tracker s)\<rparr>"

definition update_case :: "nat \<Rightarrow> (case_exchange \<Rightarrow> case_exchange) \<Rightarrow> matter_state \<Rightarrow> matter_state" where
  "update_case c f s = s\<lparr>ms_cases := (ms_cases s)[c := f (ms_cases s ! c)]\<rparr>"

definition record_request ::
  "case_crypto \<Rightarrow> tvbuff \<Rightarrow> rec_id \<Rightarrow> byte \<Rightarrow> u32 \<Rightarrow> u32 \<Rightarrow> u16 \<Rightarrow> nat \<Rightarrow> nat \<Rightarrow> nat \<Rightarrow> matter_state \<Rightarrow> matter_state option" where
  "record_request C tvb i encType config curveId sessionId keyOffset keyLen msgLenWithoutSig s =
     (if caseExchangeRec (records (ms_tracker s) ! i) = None then
        do {
          let c = length (ms_cases s);
          publicKey \<leftarrow> tvb_memdup tvb keyOffset (int keyLen);
          hash \<leftarrow> ComputeCASEMessageHash C tvb msgLenWithoutSig config (reqMsgHash zero_case);
          Some (attach_case i c (s\<lparr>ms_cases := ms_cases s @
            [zero_case\<lparr>beginReqMsg := Some i, case_config := config, case_curveId := curveId,
               case_sessionType := encType, case_keyId := sessionId, reqECDHPublicKey := publicKey,
               reqECDHPublicKeyLen := keyLen, reqMsgHash := hash\<rparr>]\<rparr>))
        }
      else Some s)"

definition record_response ::
  "case_crypto \<Rightarrow> tvbuff \<Rightarrow> rec_id \<Rightarrow> nat \<Rightarrow> nat \<Rightarrow> nat \<Rightarrow> matter_state \<Rightarrow> matter_state option" where
  "record_response C tvb i keyOffset keyLen signedMsgLen s =
     (if caseExchangeRec (records (ms_tracker s) ! i) = None then
        do {
          found \<leftarrow> FindCASEExchangeRecord (records (ms_tracker s)) (Some i);
          (case found of None \<Rightarrow> Some s
           | Some c \<Rightarrow>
               do {
                 publicKey \<leftarrow> tvb_memdup tvb keyOffset (int keyLen);
                 let r = (ms_cases s ! c)\<lparr>beginRespMsg := Some i, respECDHPublicKey := publicKey, respECDHPublicKeyLen := keyLen\<rparr>;
                 hash \<leftarrow> ComputeCASEMessageHash C tvb signedMsgLen (case_config r) (respMsgHash r);
                 (r, sKeys) \<leftarrow> RecoverCASESessionKey C (r\<lparr>respMsgHash := hash\<rparr>, ms_keys s);
                 Some ((update_case c (\<lambda>_. r) (attach_case i c s))\<lparr>ms_keys := sKeys\<rparr>)
               })
        }
      else Some s)"

definition record_key_confirm :: "rec_id \<Rightarrow> matter_state \<Rightarrow> matter_state option" where
  "record_key_confirm i s =
     (if caseExchangeRec (records (ms_tracker s) ! i) = None then
        map_option (\<lambda>found. case found of None \<Rightarrow> s
            | Some c \<Rightarrow> update_case c (\<lambda>r. r\<lparr>keyConfirmMsg := Some i\<rparr>) (attach_case i c s))
          (FindCASEExchangeRecord (records (ms_tracker s)) (Some i))
      else Some s)"

text \<open>\<open>msgInfo.msgRec\<close>, which is not null when a protocol is dissected.\<close>

definition with_record :: "msg_info \<Rightarrow> matter_state \<Rightarrow> (rec_id \<Rightarrow> matter_state option) \<Rightarrow> matter_state option" where
  "with_record mi s f =
     (case mi_msgRec mi of None \<Rightarrow> None
      | Some i \<Rightarrow> if i < length (records (ms_tracker s)) then f i else None)"

section \<open>Messages\<close>

definition DissectCASEBeginSessionRequest ::
  "case_crypto \<Rightarrow> registry \<Rightarrow> tvbuff \<Rightarrow> msg_info \<Rightarrow> proto_tree \<Rightarrow> message_dissector" where
  "DissectCASEBeginSessionRequest C R tvb mi tree vs =
     (case vs of (v, s) \<Rightarrow>
      let v = append_text tree '': CASE Begin Session Request'' v in
      if \<not> mi_payloadLen mi > 18 then done_with mi v s
      else do {
        controlHeader \<leftarrow> tvb_get_guint8 tvb 0;
        let proposedEncType = controlHeader AND kCASEHeader_EncryptionTypeMask;
        v \<leftarrow> add_tvb_item tree (reg_hf R ''CASEBeginSessionRequest_ControlHeader'') tvb 0 1 AddItem v;
        v \<leftarrow> add_tvb_item tree (reg_hf R ''CASEBeginSessionRequest_EncType'') tvb 0 1 AddItem v;
        v \<leftarrow> add_tvb_item tree (reg_hf R ''CASEBeginSessionRequest_PerformKeyConfirmFlag'') tvb 0 1 AddItem v;
        altConfigCount \<leftarrow> tvb_get_guint8 tvb 1;
        altCurveCount \<leftarrow> tvb_get_guint8 tvb 2;
        ecdhPublicKeyLen \<leftarrow> tvb_get_guint8 tvb 3;
        certInfoLen \<leftarrow> tvb_get_letohs tvb 4;
        payloadLen \<leftarrow> tvb_get_letohs tvb 6;
        proposedConfig \<leftarrow> tvb_get_letohl tvb 8;
        v \<leftarrow> add_tvb_item tree (reg_hf R ''CASEBeginSessionRequest_ProposedConfig'') tvb 8 4 AddItem v;
        proposedCurveId \<leftarrow> tvb_get_letohl tvb 12;
        v \<leftarrow> add_tvb_item tree (reg_hf R ''CASEBeginSessionRequest_ProposedCurve'') tvb 12 4 AddItem v;
        proposedSessionId \<leftarrow> tvb_get_letohs tvb 16;
        v \<leftarrow> add_tvb_item tree (reg_hf R ''CASEBeginSessionRequest_ProposedSessionId'') tvb 16 2 AddItem v;
        let msgLenWithoutSig = (18 + ucast altConfigCount * 4 + ucast altCurveCount * 4 + ucast ecdhPublicKeyLen +
              certInfoLen + payloadLen :: u16);
        (if \<not> mi_payloadLen mi > msgLenWithoutSig then done_with mi v s
         else do {
           let sigLen = mi_payloadLen mi - msgLenWithoutSig;
           v \<leftarrow> add_word_list R tree ''CASEBeginSessionRequest_AltConfigList'' ''CASEBeginSessionRequest_AltConfigList''
                 ''CASEBeginSessionRequest_AltConfigListElem'' tvb 18 (unat altConfigCount * 4) (unat altConfigCount) v;
           let parsePoint = 18 + unat altConfigCount * 4;
           v \<leftarrow> add_word_list R tree ''CASEBeginSessionRequest_AltCurveList'' ''CASEBeginSessionRequest_AltCurveList''
                 ''CASEBeginSessionRequest_AltCurveListElem'' tvb parsePoint (unat altConfigCount * 4) (unat altCurveCount) v;
           let ecdhPublicKeyOffset = parsePoint + unat altCurveCount * 4;
           v \<leftarrow> add_tvb_item tree (reg_hf R ''CASEBeginSessionRequest_ECDHPublicKey'') tvb (int ecdhPublicKeyOffset)
                 (int (unat ecdhPublicKeyLen)) AddItem v;
           let parsePoint = ecdhPublicKeyOffset + unat ecdhPublicKeyLen;
           (err, v) \<leftarrow> optional_cert_info R tree tvb parsePoint (unat certInfoLen) ''CASEBeginSessionRequest_CertInfo'' v;
           (if err \<noteq> MATTER_NO_ERROR then done_with mi v s
            else do {
              let parsePoint = parsePoint + unat certInfoLen;
              v \<leftarrow> optional_item R tree ''CASEBeginSessionRequest_Payload'' tvb parsePoint (unat payloadLen) v;
              let parsePoint = parsePoint + unat payloadLen;
              (err, v) \<leftarrow> optional_signature R tree tvb parsePoint (unat sigLen) ''CASEBeginSessionRequest_Signature'' v;
              (if err \<noteq> MATTER_NO_ERROR then done_with mi v s
               else do {
                 s \<leftarrow> with_record mi s (\<lambda>i. record_request C tvb i proposedEncType proposedConfig proposedCurveId
                        proposedSessionId ecdhPublicKeyOffset (unat ecdhPublicKeyLen) (unat msgLenWithoutSig) s);
                 done_with mi v s
               })
            })
         })
      })"

definition key_confirm_hash_lengths :: "(byte \<times> u16) list" where
  "key_confirm_hash_lengths =
     [(kCASEKeyConfirmHashLength_0Bytes, 0), (kCASEKeyConfirmHashLength_20Bytes, 20),
      (kCASEKeyConfirmHashLength_32Bytes, 32)]"

definition DissectCASEBeginSessionResponse ::
  "case_crypto \<Rightarrow> registry \<Rightarrow> tvbuff \<Rightarrow> msg_info \<Rightarrow> proto_tree \<Rightarrow> message_dissector" where
  "DissectCASEBeginSessionResponse C R tvb mi tree vs =
     (case vs of (v, s) \<Rightarrow>
      let v = append_text tree '': CASE Begin Session Response'' v in
      if \<not> mi_payloadLen mi > 6 then done_with mi v s
      else do {
        controlHeader \<leftarrow> tvb_get_guint8 tvb 0;
        (case map_of key_confirm_hash_lengths (controlHeader AND kCASEHeader_KeyConfirmHashLengthMask) of
           None \<Rightarrow> done_with mi v s
         | Some keyConfirmHashLen \<Rightarrow>
           do {
             v \<leftarrow> add_tvb_item tree (reg_hf R ''CASEBeginSessionRequest_ControlHeader'') tvb 0 1 AddItem v;
             v \<leftarrow> add_tvb_item tree (reg_hf R ''CASEBeginSessionResponse_KeyConfirmHashLength'') tvb 0 1
                   (AddUintFormatValue (ucast (controlHeader AND kCASEHeader_KeyConfirmHashLengthMask))
                     (dec (unat keyConfirmHashLen))) v;
             ecdhPublicKeyLen \<leftarrow> tvb_get_guint8 tvb 1;
             certInfoLen \<leftarrow> tvb_get_letohs tvb 2;
             payloadLen \<leftarrow> tvb_get_letohs tvb 4;
             let signedMsgLen = (6 + ucast ecdhPublicKeyLen + certInfoLen + payloadLen :: u16);
             let msgLenWithoutSig = signedMsgLen + keyConfirmHashLen;
             (if \<not> mi_payloadLen mi > msgLenWithoutSig then done_with mi v s
              else do {
                let sigLen = mi_payloadLen mi - msgLenWithoutSig;
                v \<leftarrow> add_tvb_item tree (reg_hf R ''CASEBeginSessionResponse_ECDHPublicKey'') tvb 6
                      (int (unat ecdhPublicKeyLen)) AddItem v;
                let parsePoint = 6 + unat ecdhPublicKeyLen;
                (err, v) \<leftarrow> optional_cert_info R tree tvb parsePoint (unat certInfoLen) ''CASEBeginSessionResponse_CertInfo'' v;
                (if err \<noteq> MATTER_NO_ERROR then done_with mi v s
                 else do {
                   let parsePoint = parsePoint + unat certInfoLen;
                   v \<leftarrow> optional_item R tree ''CASEBeginSessionResponse_Payload'' tvb parsePoint (unat payloadLen) v;
                   let parsePoint = parsePoint + unat payloadLen;
                   (err, v) \<leftarrow> optional_signature R tree tvb parsePoint (unat sigLen) ''CASEBeginSessionResponse_Signature'' v;
                   (if err \<noteq> MATTER_NO_ERROR then done_with mi v s
                    else do {
                      v \<leftarrow> optional_item R tree ''CASEBeginSessionResponse_KeyConfirmHash'' tvb (parsePoint + unat sigLen)
                            (unat keyConfirmHashLen) v;
                      s \<leftarrow> with_record mi s (\<lambda>i. record_response C tvb i 6 (unat ecdhPublicKeyLen) (unat signedMsgLen) s);
                      done_with mi v s
                    })
                 })
              })
           })
      })"

definition DissectCASEInitiatorKeyConfirm :: "registry \<Rightarrow> tvbuff \<Rightarrow> msg_info \<Rightarrow> proto_tree \<Rightarrow> message_dissector" where
  "DissectCASEInitiatorKeyConfirm R tvb mi tree vs =
     (case vs of (v, s) \<Rightarrow>
      let v = append_text tree '': CASE Initiator Key Confirm'' v in
      if \<not> mi_payloadLen mi \<ge> 20 then done_with mi v s
      else do {
        v \<leftarrow> add_tvb_item tree (reg_hf R ''CASEBeginSessionResponse_KeyConfirmHash'') tvb 0
              (int (unat (mi_payloadLen mi))) AddItem v;
        s \<leftarrow> with_record mi s (\<lambda>i. record_key_confirm i s);
        done_with mi v s
      })"

definition DissectCASEReconfigure :: "registry \<Rightarrow> tvbuff \<Rightarrow> msg_info \<Rightarrow> proto_tree \<Rightarrow> message_dissector" where
  "DissectCASEReconfigure R tvb mi tree vs =
     (case vs of (v, s) \<Rightarrow>
      let v = append_text tree '': CASE Reconfigure'' v in
      if mi_payloadLen mi \<noteq> 8 then done_with mi v s
      else do {
        v \<leftarrow> add_tvb_item tree (reg_hf R ''CASEReconfigure_ProposedAltConfig'') tvb 0 4 AddItem v;
        v \<leftarrow> add_tvb_item tree (reg_hf R ''CASEReconfigure_ProposedAltCurve'') tvb 4 4 AddItem v;
        done_with mi v s
      })"

definition DissectMessageCounterSyncResp :: "registry \<Rightarrow> tvbuff \<Rightarrow> msg_info \<Rightarrow> proto_tree \<Rightarrow> message_dissector" where
  "DissectMessageCounterSyncResp R tvb mi tree vs =
     (case vs of (v, s) \<Rightarrow>
      let v = append_text tree '': Message Counter Sync Response'' v in
      if mi_payloadLen mi \<noteq> 4 then done_with mi v s
      else do {
        v \<leftarrow> add_tvb_item tree (reg_hf R ''MessageCounterSyncResp_RequestMessageId'') tvb 0 4 AddItem v;
        done_with mi v s
      })"

definition DissectKeyError :: "registry \<Rightarrow> tvbuff \<Rightarrow> msg_info \<Rightarrow> proto_tree \<Rightarrow> message_dissector" where
  "DissectKeyError R tvb mi tree vs =
     (case vs of (v, s) \<Rightarrow>
      let v = append_text tree '': Key Error'' v in
      if mi_payloadLen mi \<noteq> 9 then done_with mi v s
      else do {
        v \<leftarrow> add_tvb_item tree (reg_hf R ''KeyError_SessionId'') tvb 0 2 AddItem v;
        v \<leftarrow> add_tvb_item tree (reg_hf R ''KeyError_EncType'') tvb 2 1 AddItem v;
        v \<leftarrow> add_tvb_item tree (reg_hf R ''KeyError_MsgCntr'') tvb 3 4 AddItem v;
        statusCode \<leftarrow> tvb_get_letohs tvb 7;
        v \<leftarrow> add_tvb_item tree (reg_hf R ''KeyError_StatusCode'') tvb 7 2
              (AddUintFormatValue (ucast statusCode) (StatusReportStr kMatterProfile_Security statusCode)) v;
        done_with mi v s
      })"

definition security_messages ::
  "case_crypto \<Rightarrow> registry \<Rightarrow> tvbuff \<Rightarrow> msg_info \<Rightarrow> proto_tree \<Rightarrow> (byte \<times> message_dissector) list" where
  "security_messages C R tvb mi tree =
     [(Security_kMsgType_CASEBeginSessionRequest, DissectCASEBeginSessionRequest C R tvb mi tree),
      (Security_kMsgType_CASEBeginSessionResponse, DissectCASEBeginSessionResponse C R tvb mi tree),
      (Security_kMsgType_CASEInitiatorKeyConfirm, DissectCASEInitiatorKeyConfirm R tvb mi tree),
      (Security_kMsgType_CASEReconfigure, DissectCASEReconfigure R tvb mi tree),
      (Security_kMsgType_MsgCounterSyncResp, DissectMessageCounterSyncResp R tvb mi tree),
      (Security_kMsgType_KeyError, DissectKeyError R tvb mi tree)]"

definition DissectMatterSecurity ::
  "case_crypto \<Rightarrow> registry \<Rightarrow> tvbuff \<Rightarrow> msg_info \<Rightarrow> message_dissector" where
  "DissectMatterSecurity C R tvb mi vs =
     (case vs of (v, s) \<Rightarrow>
      do {
        v \<leftarrow> AddMessageTypeToInfoColumn mi v;
        (case protocol_tree R ''matter_security'' ''matter_security'' v of (security_tree, v) \<Rightarrow>
           (case map_of (security_messages C R tvb mi security_tree) (mi_msgType mi) of
              Some dissect \<Rightarrow> dissect (v, s)
            | None \<Rightarrow> Some (0, v, s)))
      })"

end
