(* ===== verification/Security_Spec.thy ===== *)
theory Security_Spec
  imports Security_Messages Sub_Layout Message_Tracker_Inv
begin

text \<open>
  What session establishment leaves behind: which session key the security protocol's dissector derives from the
  two messages of an exchange, when it does so, and how the second message finds the first.
\<close>

section \<open>Keys with more bytes than they need\<close>

text \<open>The key table gets a pointer to a longer object and the length of the key in it.\<close>

definition trim_key :: "enc_key \<Rightarrow> enc_key" where
  "trim_key k = k\<lparr>dataEncKey := take (unat (dataEncKeyLen k)) (dataEncKey k)\<rparr>"

lemma trim_key_ok: "unat (dataEncKeyLen k) \<le> length (dataEncKey k) \<Longrightarrow> key_ok (trim_key k)"
  by (simp add: trim_key_def key_ok_def)

lemma IsSameKey_trim: "IsSameKey a (trim_key k) = IsSameKey a k"
  by (auto simp: IsSameKey_def trim_key_def same_bytes_def load_bytes_def)

lemma find_same_trim: "find_same (trim_key k) ks = find_same k ks"
  by (induction ks) (simp_all add: IsSameKey_trim split: option.splits bool.splits)

lemma AddKey_trim: "AddKey (trim_key k) T = AddKey k T"
proof -
  have l: "load_bytes (dataEncKey (trim_key k)) 0 (unat (dataEncKeyLen k)) =
      load_bytes (dataEncKey k) 0 (unat (dataEncKeyLen k))"
    by (simp add: trim_key_def load_bytes_def)
  have s: "keyId (trim_key k) = keyId k" "key_sessionType (trim_key k) = key_sessionType k"
      "dataEncKeyLen (trim_key k) = dataEncKeyLen k" "key_srcNodeId (trim_key k) = key_srcNodeId k"
    by (simp_all add: trim_key_def)
  show ?thesis by (simp only: AddKey_def s l find_same_trim)
qed

section \<open>The session key of an exchange\<close>

text \<open>The hashes have the sizes that OpenSSL documents, and its calls succeed.\<close>

definition case_crypto_works :: "case_crypto \<Rightarrow> bool" where
  "case_crypto_works C \<longleftrightarrow> md_works (EVP_sha1 C) \<and> EVP_MD_size (EVP_sha1 C) = 20 \<and>
     md_works (EVP_sha256 C) \<and> EVP_MD_size (EVP_sha256 C) = 32 \<and>
     (\<forall>m. length (SHA1 C m) = 20 \<and> length (SHA256 C m) = 32)"

definition case_md :: "case_crypto \<Rightarrow> case_exchange \<Rightarrow> evp_md" where
  "case_md C c = (if case_config c = kCASEConfig_Config1 then EVP_sha1 C else EVP_sha256 C)"

text \<open>An object as the dissector makes it: lengths that are true and buffers for the hashes.\<close>

definition case_inv :: "case_exchange \<Rightarrow> bool" where
  "case_inv c \<longleftrightarrow> length (reqECDHPublicKey c) = reqECDHPublicKeyLen c \<and>
     length (respECDHPublicKey c) = respECDHPublicKeyLen c \<and>
     length (reqMsgHash c) = CASE_MAX_HASH_SIZE \<and> length (respMsgHash c) = CASE_MAX_HASH_SIZE"

definition x_of_point :: "byte list \<Rightarrow> byte list" where
  "x_of_point P = take ((length P - 1) div 2) (drop 1 P)"

text \<open>
  The shared secret of a key agreement in which one private key is 1, so that its public key is the generator: the
  other party's point. It can be told if configuration and curve are known ones.
\<close>

definition case_secret :: "case_exchange \<Rightarrow> byte list option" where
  "case_secret c =
     (if case_config c \<in> {kCASEConfig_Config1, kCASEConfig_Config2} \<and>
         length (reqECDHPublicKey c) = length (respECDHPublicKey c) then
        (case map_of curve_generators (case_curveId c) of None \<Rightarrow> None
         | Some G \<Rightarrow>
             if reqECDHPublicKey c = G then Some (x_of_point (respECDHPublicKey c))
             else if respECDHPublicKey c = G then Some (x_of_point (reqECDHPublicKey c))
             else None)
      else None)"

text \<open>HKDF over the secret with both message hashes as the salt; the first 16 octets are the encryption key.\<close>

definition case_session_key :: "case_crypto \<Rightarrow> case_exchange \<Rightarrow> byte list \<Rightarrow> enc_key" where
  "case_session_key C c secret =
     (let md = case_md C c; n = EVP_MD_size md;
          prk = hmac_of md (take n (reqMsgHash c) @ take n (respMsgHash c)) secret
      in zero_key\<lparr>keyId := case_keyId c, key_sessionType := kMatterEncryptionType_AES128CCM,
           dataEncKey := take 16 (hkdf_okm md prk [] 48), dataEncKeyLen := kDataEncKeyLength_AES128CCM\<rparr>)"

lemma curve_generators_cases:
  "map_of curve_generators i = Some G \<Longrightarrow>
     (i = kMatterCurveId_prime192v1 \<and> G = prime192v1_G) \<or> (i = kMatterCurveId_secp224r1 \<and> G = secp224r1_G) \<or>
     (i = kMatterCurveId_prime256v1 \<and> G = prime256v1_G)"
  by (auto simp: curve_generators_def split: if_splits)

lemma known_curve:
  "map_of curve_generators i = None \<longleftrightarrow>
     i \<noteq> kMatterCurveId_prime192v1 \<and> i \<noteq> kMatterCurveId_secp224r1 \<and> i \<noteq> kMatterCurveId_prime256v1"
  by (auto simp: curve_generators_def split: if_splits)

lemma IsCurveGenerator_iff:
  "map_of curve_generators i = Some G \<Longrightarrow> IsCurveGenerator i P (length P) = Some (P = G)"
  by (auto simp: IsCurveGenerator_def same_bytes_def load_bytes_def)

lemma generator_length: "map_of curve_generators i = Some G \<Longrightarrow> 1 + (length G - 1) div 2 \<le> length G"
  by (auto dest!: curve_generators_cases simp: prime192v1_G_def secp224r1_G_def prime256v1_G_def)

lemma x_coordinate_of_point:
  "1 + (length P - 1) div 2 \<le> length P \<Longrightarrow> x_coordinate P (length P) = Some (x_of_point P)"
  by (simp add: x_coordinate_def x_of_point_def load_bytes_def)

lemma length_hkdf_okm: "md_works md \<Longrightarrow> length (hkdf_okm md prk info len) = len"
proof -
  assume md: "md_works md"
  let ?s = "EVP_MD_size md"
  have s: "0 < ?s" using md by (simp add: md_works_def)
  have "len \<le> (len + ?s - 1) div ?s * ?s"
    using s div_mult_mod_eq [of "len + ?s - 1" ?s] mod_less_divisor [OF s, of "len + ?s - 1"] by linarith
  then show ?thesis by (simp add: hkdf_okm_def length_hkdf_blocks [OF md])
qed

lemma case_md_works:
  "case_crypto_works C \<Longrightarrow> md_works (case_md C c) \<and> (EVP_MD_size (case_md C c) = 20 \<or> EVP_MD_size (case_md C c) = 32)"
  by (simp add: case_crypto_works_def case_md_def)

lemma DeriveCASESessionKey_spec:
  assumes C: "case_crypto_works C" and c: "case_inv c"
  shows "DeriveCASESessionKey C c secret T =
    (if case_sessionType c = kMatterEncryptionType_AES128CCM then AddKey (case_session_key C c secret) T
     else Some ([], T))"
proof (cases "case_sessionType c = kMatterEncryptionType_AES128CCM")
  case True
  let ?md = "case_md C c"
  note md = case_md_works [OF C, of c, THEN conjunct1]
  have n: "EVP_MD_size ?md \<le> 32" "1 \<le> EVP_MD_size ?md" using case_md_works [OF C, of c] by auto
  have h: "load_bytes (reqMsgHash c) 0 (EVP_MD_size ?md) = Some (take (EVP_MD_size ?md) (reqMsgHash c))"
      "load_bytes (respMsgHash c) 0 (EVP_MD_size ?md) = Some (take (EVP_MD_size ?md) (respMsgHash c))"
    using c n by (simp_all add: load_bytes_def case_inv_def CASE_MAX_HASH_SIZE_def)
  let ?prk = "hmac_of ?md (take (EVP_MD_size ?md) (reqMsgHash c) @ take (EVP_MD_size ?md) (respMsgHash c)) secret"
  have e: "HKDF_extract ?md (take (EVP_MD_size ?md) (reqMsgHash c) @ take (EVP_MD_size ?md) (respMsgHash c)) secret = Some ?prk"
    using md by (simp add: HKDF_extract_def md_works_def)
  have l: "length ?prk \<le> CASE_MAX_HASH_SIZE" using md n by (simp add: md_works_def CASE_MAX_HASH_SIZE_def)
  have "unat kDataEncKeyLength_AES128CCM + CASE_MAX_HASH_SIZE = 48"
    by (simp add: kDataEncKeyLength_AES128CCM_def CASE_MAX_HASH_SIZE_def)
  then have x: "HKDF_expand ?md ?prk [] (unat kDataEncKeyLength_AES128CCM + CASE_MAX_HASH_SIZE) = Some (Some (hkdf_okm ?md ?prk [] 48))"
    using n by (simp add: HKDF_expand_okm [OF md])
  have k: "case_session_key C c secret = trim_key (zero_key\<lparr>keyId := case_keyId c, key_sessionType := case_sessionType c,
      dataEncKey := hkdf_okm ?md ?prk [] 48, dataEncKeyLen := kDataEncKeyLength_AES128CCM\<rparr>)"
    by (simp add: case_session_key_def trim_key_def Let_def True kDataEncKeyLength_AES128CCM_def)
  show ?thesis
    using True e l x
    by (simp add: DeriveCASESessionKey_def case_md_def [symmetric] h k AddKey_trim Let_def)
next
  case False
  then show ?thesis by (simp add: DeriveCASESessionKey_def)
qed
lemma RecoverCASESessionKey_spec:
  assumes C: "case_crypto_works C" and c: "case_inv c"
  shows "RecoverCASESessionKey C (c, T) =
    (case case_secret c of None \<Rightarrow> Some (c, T)
     | Some secret \<Rightarrow>
         map_option (\<lambda>(key, T). (c\<lparr>recoveredSessionKey := key\<rparr>, T))
           (if case_sessionType c = kMatterEncryptionType_AES128CCM then AddKey (case_session_key C c secret) T
            else Some ([], T)))"
proof -
  have len: "reqECDHPublicKeyLen c = length (reqECDHPublicKey c)" "respECDHPublicKeyLen c = length (respECDHPublicKey c)"
    using c by (simp_all add: case_inv_def)
  show ?thesis
  proof (cases "map_of curve_generators (case_curveId c)")
    case None
    then have "case_secret c = None" by (simp add: case_secret_def)
    then show ?thesis using None by (simp add: RecoverCASESessionKey_def known_curve)
  next
    case (Some G)
    then have curve: "\<not> (case_curveId c \<noteq> kMatterCurveId_prime192v1 \<and> case_curveId c \<noteq> kMatterCurveId_secp224r1 \<and>
        case_curveId c \<noteq> kMatterCurveId_prime256v1)"
      using known_curve [of "case_curveId c"] by auto
    show ?thesis
    proof (cases "case_config c \<in> {kCASEConfig_Config1, kCASEConfig_Config2} \<and> reqECDHPublicKeyLen c = respECDHPublicKeyLen c")
      case False
      then have "case_secret c = None" by (auto simp: case_secret_def len)
      then show ?thesis using False by (auto simp: RecoverCASESessionKey_def)
    next
      case True
      let ?n = "respECDHPublicKeyLen c"
      have G: "IsCurveGenerator (case_curveId c) (reqECDHPublicKey c) ?n = Some (reqECDHPublicKey c = G)"
          "IsCurveGenerator (case_curveId c) (respECDHPublicKey c) ?n = Some (respECDHPublicKey c = G)"
        using IsCurveGenerator_iff [OF Some, of "reqECDHPublicKey c"] IsCurveGenerator_iff [OF Some, of "respECDHPublicKey c"]
          True len by simp_all
      have x: "x_coordinate P ?n = Some (x_of_point P)"
        if "length P = ?n" and "reqECDHPublicKey c = G \<or> respECDHPublicKey c = G" for P
        using x_coordinate_of_point [of P] generator_length [OF Some] True len that by auto
      have x': "reqECDHPublicKey c = G \<Longrightarrow> x_coordinate (respECDHPublicKey c) ?n = Some (x_of_point (respECDHPublicKey c))"
          "respECDHPublicKey c = G \<Longrightarrow> x_coordinate (reqECDHPublicKey c) ?n = Some (x_of_point (reqECDHPublicKey c))"
          "reqECDHPublicKey c = G \<Longrightarrow> respECDHPublicKey c = G \<Longrightarrow> x_coordinate G ?n = Some (x_of_point G)"
        using x True len by auto
      have b: "m \<bind> (\<lambda>(key, sKeys). Some (c\<lparr>recoveredSessionKey := key\<rparr>, sKeys)) =
          map_option (\<lambda>(key, T). (c\<lparr>recoveredSessionKey := key\<rparr>, T)) m" for m :: "(enc_key list \<times> key_table) option"
        by (cases m) auto
      have s: "case_secret c = (if reqECDHPublicKey c = G then Some (x_of_point (respECDHPublicKey c))
          else if respECDHPublicKey c = G then Some (x_of_point (reqECDHPublicKey c)) else None)"
        using Some True by (simp add: case_secret_def len)
      have r: "RecoverCASESessionKey C (c, T) =
          (if reqECDHPublicKey c \<noteq> G \<and> respECDHPublicKey c \<noteq> G then Some (c, T)
           else map_option (\<lambda>(key, T). (c\<lparr>recoveredSessionKey := key\<rparr>, T))
             (DeriveCASESessionKey C c (x_of_point (if reqECDHPublicKey c = G then respECDHPublicKey c else reqECDHPublicKey c)) T))"
      proof -
        have cfg: "\<not> (case_config c \<noteq> kCASEConfig_Config1 \<and> case_config c \<noteq> kCASEConfig_Config2)" using True by auto
        have l: "reqECDHPublicKeyLen c = ?n" using True by simp
        show ?thesis
          unfolding RecoverCASESessionKey_def prod.case if_not_P [OF cfg] if_not_P [OF curve] l G
          by (cases "reqECDHPublicKey c = G"; cases "respECDHPublicKey c = G") (simp_all only: b x' simp_thms if_True if_False bind.bind_lunit)
      qed
      show ?thesis unfolding s r by (simp add: DeriveCASESessionKey_spec [OF C c])
    qed
  qed
qed

text \<open>
  The table after a key that can be told was derived: the key is under the identifier that the initiator proposed, and
  every key that was there before still is.
\<close>

definition key_learned :: "enc_key \<Rightarrow> key_table \<Rightarrow> key_table \<Rightarrow> bool" where
  "key_learned k T T' \<longleftrightarrow> key_table_inv T' \<and> (\<exists>key \<in> set (FindKeysById (keyId k) T'). same_key key k) \<and>
     (\<forall>i. \<exists>new. FindKeysById i T' = new @ FindKeysById i T \<and> set new \<subseteq> {k})"

lemma case_session_key_ok: "case_crypto_works C \<Longrightarrow> key_ok (case_session_key C c secret)"
  using case_md_works [of C c]
  by (simp add: case_session_key_def key_ok_def Let_def length_hkdf_okm kDataEncKeyLength_AES128CCM_def)

lemma RecoverCASESessionKey_learns:
  assumes "case_crypto_works C" and "case_inv c" and "key_table_inv T"
    and "case_secret c = Some secret" and "case_sessionType c = kMatterEncryptionType_AES128CCM"
  obtains c' T' where "RecoverCASESessionKey C (c, T) = Some (c', T')" "key_learned (case_session_key C c secret) T T'"
    "\<exists>keys. c' = c\<lparr>recoveredSessionKey := keys\<rparr>"
proof -
  obtain keys T' where a: "AddKey (case_session_key C c secret) T = Some (keys, T')"
    and l: "key_learned (case_session_key C c secret) T T'"
    using AddKey_finds [OF assms(3) case_session_key_ok [OF assms(1), of c secret]] unfolding key_learned_def by metis
  show thesis
    by (rule that [of "c\<lparr>recoveredSessionKey := keys\<rparr>" T'])
      (use assms a l in \<open>auto simp: RecoverCASESessionKey_spec\<close>)
qed

lemma RecoverCASESessionKey_returns:
  assumes "case_crypto_works C" and "case_inv c" and "key_table_inv T"
  shows "\<exists>keys T'. RecoverCASESessionKey C (c, T) = Some (c\<lparr>recoveredSessionKey := keys\<rparr>, T') \<and> key_table_inv T'"
proof (cases "case_secret c")
  case None
  have "c\<lparr>recoveredSessionKey := recoveredSessionKey c\<rparr> = c" by simp
  then show ?thesis using None assms by (auto simp: RecoverCASESessionKey_spec intro!: exI [of _ "recoveredSessionKey c"])
next
  case (Some secret)
  show ?thesis
  proof (cases "case_sessionType c = kMatterEncryptionType_AES128CCM")
    case True
    show ?thesis using RecoverCASESessionKey_learns [OF assms Some True] unfolding key_learned_def by metis
  next
    case False
    then show ?thesis using Some assms by (auto simp: RecoverCASESessionKey_spec)
  qed
qed

section \<open>The object of an exchange\<close>

text \<open>\<open>FindCASEExchangeRecord\<close>: the nearest message at or before this one in the exchange that has an object.\<close>

definition nearest_case :: "msg_record list \<Rightarrow> rec_id list \<Rightarrow> nat option" where
  "nearest_case recs ids = Option.bind (List.find (\<lambda>i. caseExchangeRec (recs ! i) \<noteq> None) ids) (\<lambda>i. caseExchangeRec (recs ! i))"

lemma FindCASEExchangeRecord_chain:
  assumes "is_chain nextByExchange prevByExchange recs None p (xs @ y # ys)"
  shows "FindCASEExchangeRecord recs (Some y) = Some (nearest_case recs (y # rev xs))"
  using assms
proof (induction xs arbitrary: y ys rule: rev_induct)
  case Nil
  have y: "prevByExchange (recs ! y) = None" "y < length recs"
    using is_chain_split(2,3) [OF Nil] by simp_all
  show ?case
    by (subst FindCASEExchangeRecord.simps)
      (auto simp: y nearest_case_def FindCASEExchangeRecord.simps [of recs None])
next
  case (snoc x xs)
  have y: "prevByExchange (recs ! y) = Some x" "y < length recs" using is_chain_split(2,3) [OF snoc.prems] by simp_all
  have "is_chain nextByExchange prevByExchange recs None p (xs @ x # y # ys)" using snoc.prems by simp
  note IH = snoc.IH [OF this]
  show ?case
    by (subst FindCASEExchangeRecord.simps) (auto simp: y IH nearest_case_def)
qed

end
