(* ===== verification/Security_Exchange.thy ===== *)
theory Security_Exchange
  imports Security_Spec Matter_Message_Spec Protocol_Common_Inv
begin

text \<open>
  Session establishment on encoded messages: what the dissectors of the two messages leave in the state for the bytes
  of \<open>encode_request\<close> and \<open>encode_response\<close>, the documented layout of the messages.
\<close>

section \<open>Total additions\<close>

text \<open>A step that only adds to the view, as a function on views.\<close>

definition adds :: "(view \<Rightarrow> view option) \<Rightarrow> bool" where
  "adds f \<longleftrightarrow> (\<exists>g. \<forall>v. f v = Some (g v))"

lemma addsI: "(\<And>v. \<exists>v'. f v = Some v') \<Longrightarrow> adds f"
  unfolding adds_def by metis

lemma addsE: "adds f \<Longrightarrow> (\<And>g. (\<And>v. f v = Some (g v)) \<Longrightarrow> thesis) \<Longrightarrow> thesis"
  unfolding adds_def by metis

lemma add_tvb_item_here:
  "off + n \<le> length tvb \<Longrightarrow> add_tvb_item tree h tvb (int off) (int n) val v =
     Some (add_call (ProtoAdd tree h (of_nat off) (of_nat n) val) v)"
  by (simp add: add_tvb_item_def tvb_range_def load_bytes_def)

lemma add_tvb_item_fixed:
  assumes "2 \<le> length tvb"
  shows "add_tvb_item tree h tvb 0 1 val v = Some (add_call (ProtoAdd tree h 0 1 val) v)"
  using add_tvb_item_here [of 0 1 tvb] assms by simp

lemma add_words_here: "off + 4 * n \<le> length tvb \<Longrightarrow> \<exists>v'. add_words R tree h tvb off n v = Some v'"
proof (induction n arbitrary: off v)
  case (Suc n)
  then show ?case using add_tvb_item_here [of off 4 tvb tree] Suc.IH [of "off + 4"] by simp
qed simp

lemma add_word_list_adds:
  assumes "off + listLen \<le> length tvb" and "off + 4 * n \<le> length tvb"
  shows "adds (add_word_list R tree h e w tvb off listLen n)"
proof (rule addsI)
  fix v
  show "\<exists>v'. add_word_list R tree h e w tvb off listLen n v = Some v'"
    using add_words_here [OF assms(2), of R "Some (length (view_calls v))" w]
    by (simp add: add_word_list_def add_tvb_item_here [OF assms(1)] Let_def) (metis bind.bind_lunit)
qed

lemma optional_item_adds: "off + n \<le> length tvb \<Longrightarrow> adds (optional_item R tree h tvb off n)"
  by (auto simp: optional_item_def add_tvb_item_here intro!: addsI)

section \<open>Structures of the security profile\<close>

text \<open>
  An element that the dissector of a part accepts: the structure with the part's profile tag, whose elements the
  handler of the part shows.
\<close>

definition security_part :: "u32 \<Rightarrow> ListElemHandler \<Rightarrow> tlv \<Rightarrow> bool" where
  "security_part tagNum member e \<longleftrightarrow>
     (\<exists>t es. e = Node t 0x15 es \<and> wf_tlv kMatterProfile_Security kTLVType_NotSpecified e \<and>
        tag_value kMatterProfile_Security t = ProfileTag kMatterProfile_Security tagNum \<and>
        (\<forall>sub x. x \<in> set es \<longrightarrow> (\<exists>f. prints (member sub) x f)))"

lemma security_structure_part:
  assumes e: "security_part tagNum member e" and E: "memory_ok (reg_env R)" and len: "length (pre @ encode e) < 65536"
  shows "\<exists>v'. security_structure R tagNum member tree (pre @ encode e @ post) (length pre) (length (encode e)) h ett v =
    Some (MATTER_NO_ERROR, v')"
proof -
  obtain t es where n: "e = Node t 0x15 es" "wf_tlv kMatterProfile_Security kTLVType_NotSpecified e"
      "tag_value kMatterProfile_Security t = ProfileTag kMatterProfile_Security tagNum"
      "\<forall>sub x. x \<in> set es \<longrightarrow> (\<exists>f. prints (member sub) x f)"
    using e by (auto simp: security_part_def)
  from n(4) obtain f where f: "\<And>sub x. x \<in> set es \<Longrightarrow> prints (member sub) x (f sub x)" by metis
  have k: "kind_of (elem_type e) = kTLVType_Structure" by (simp add: n(1) kind_of_def)
  have "run_tlv R kMatterProfile_Security (pre @ encode e @ post) (length pre) (length pre + length (encode e))
      (\<lambda>d. SuccessOrExit (Dissector_Next_expect kTLVType_Structure (ProfileTag kMatterProfile_Security tagNum) d)
        (subtree_members R (reg_hf R h) (reg_ett R ett) member tree)) v =
    Some (MATTER_NO_ERROR, v\<lparr>view_calls := view_calls v @
      subtree_shown tree (reg_hf R h) (reg_ett R ett) f e (first_place (of_nat (length pre)) kMatterProfile_Security v)\<rparr>)"
    by (rule run_tlv_prints [OF n(2) len]) (use k n(1,3) in \<open>auto intro: subtree_members_prints_on [OF _ E f]\<close>)
  then show ?thesis by (simp add: security_structure_def)
qed
section \<open>The messages\<close>

record case_request =
  rq_control :: byte
  rq_configs :: "u32 list"
  rq_curves :: "u32 list"
  rq_config :: u32
  rq_curve :: u32
  rq_session :: u16
  rq_key :: "byte list"
  rq_certs :: "tlv option"
  rq_payload :: "byte list"
  rq_signature :: tlv

definition encode_part :: "tlv option \<Rightarrow> byte list" where
  "encode_part e = (case e of None \<Rightarrow> [] | Some e \<Rightarrow> encode e)"

definition request_fixed :: "case_request \<Rightarrow> byte list" where
  "request_fixed q = [rq_control q, of_nat (length (rq_configs q)), of_nat (length (rq_curves q)), of_nat (length (rq_key q))] @
     LE_Write16 (of_nat (length (encode_part (rq_certs q)))) @ LE_Write16 (of_nat (length (rq_payload q))) @
     LE_Write32 (rq_config q) @ LE_Write32 (rq_curve q) @ LE_Write16 (rq_session q)"

definition request_lists :: "case_request \<Rightarrow> byte list" where
  "request_lists q = concat (map LE_Write32 (rq_configs q)) @ concat (map LE_Write32 (rq_curves q))"

text \<open>The bytes that are signed and hashed, and the message.\<close>

definition request_signed :: "case_request \<Rightarrow> byte list" where
  "request_signed q = request_fixed q @ request_lists q @ rq_key q @ encode_part (rq_certs q) @ rq_payload q"

definition encode_request :: "case_request \<Rightarrow> byte list" where
  "encode_request q = request_signed q @ encode (rq_signature q)"

text \<open>
  The item of the second list is given the length of the first one (\<open>altConfigCount * 4\<close>), so that many bytes have to
  follow.
\<close>

definition request_ok :: "registry \<Rightarrow> case_request \<Rightarrow> bool" where
  "request_ok R q \<longleftrightarrow> memory_ok (reg_env R) \<and> length (rq_configs q) < 256 \<and> length (rq_curves q) < 256 \<and>
     length (rq_key q) < 256 \<and> length (encode_request q) < 65536 \<and>
     (\<forall>e. rq_certs q = Some e \<longrightarrow> security_part Security_kTag_MatterCASECertificateInformation (cert_info_member R) e) \<and>
     security_part Security_kTag_MatterCASESignature (ecdsa_member R) (rq_signature q) \<and>
     18 + 8 * length (rq_configs q) \<le> length (encode_request q)"

definition case_hash :: "case_crypto \<Rightarrow> u32 \<Rightarrow> byte list \<Rightarrow> byte list \<Rightarrow> byte list" where
  "case_hash C config m buf =
     (let h = (if config = kCASEConfig_Config1 then SHA1 C m else SHA256 C m) in h @ drop (length h) buf)"

definition case_of_request :: "case_crypto \<Rightarrow> rec_id \<Rightarrow> case_request \<Rightarrow> case_exchange" where
  "case_of_request C i q = zero_case\<lparr>beginReqMsg := Some i, case_config := rq_config q, case_curveId := rq_curve q,
     case_sessionType := rq_control q AND 0x0F, case_keyId := rq_session q, reqECDHPublicKey := rq_key q,
     reqECDHPublicKeyLen := length (rq_key q),
     reqMsgHash := case_hash C (rq_config q) (request_signed q) (replicate CASE_MAX_HASH_SIZE 0)\<rparr>"

lemma length_words [simp]: "length (concat (map LE_Write32 ws)) = 4 * length ws"
  by (induction ws) simp_all

lemma length_request_fixed [simp]: "length (request_fixed q) = 18"
  by (simp add: request_fixed_def)

lemma request_bytes:
  fixes q :: case_request and rest :: "byte list"
  defines "tvb \<equiv> request_fixed q @ rest"
  shows "tvb_get_guint8 tvb 0 = Some (rq_control q)" "tvb_get_guint8 tvb 1 = Some (of_nat (length (rq_configs q)))"
    "tvb_get_guint8 tvb 2 = Some (of_nat (length (rq_curves q)))" "tvb_get_guint8 tvb 3 = Some (of_nat (length (rq_key q)))"
    "tvb_get_letohs tvb 4 = Some (of_nat (length (encode_part (rq_certs q))))"
    "tvb_get_letohs tvb 6 = Some (of_nat (length (rq_payload q)))"
    "tvb_get_letohl tvb 8 = Some (rq_config q)" "tvb_get_letohl tvb 12 = Some (rq_curve q)"
    "tvb_get_letohs tvb 16 = Some (rq_session q)"
  by (rule get_byte get_encoded get_encoded32, simp add: tvb_def request_fixed_def)+

lemma case_hash_length:
  "case_crypto_works C \<Longrightarrow> length buf = CASE_MAX_HASH_SIZE \<Longrightarrow> length (case_hash C config m buf) = CASE_MAX_HASH_SIZE"
  by (simp add: case_hash_def case_crypto_works_def CASE_MAX_HASH_SIZE_def Let_def)

lemma ComputeCASEMessageHash_prefix:
  assumes "case_crypto_works C" and "length buf = CASE_MAX_HASH_SIZE"
  shows "ComputeCASEMessageHash C (m @ rest) (length m) config buf = Some (case_hash C config m buf)"
  using assms
  by (simp add: ComputeCASEMessageHash_def case_hash_def tvb_memdup_Some case_crypto_works_def CASE_MAX_HASH_SIZE_def Let_def)

lemma case_of_request_inv: "case_crypto_works C \<Longrightarrow> case_inv ((case_of_request C i q)\<lparr>respECDHPublicKey := k,
    respECDHPublicKeyLen := length k, respMsgHash := h\<rparr>) \<longleftrightarrow> length h = CASE_MAX_HASH_SIZE"
  by (simp add: case_inv_def case_of_request_def case_hash_length)

text \<open>What \<open>record_request\<close> does on the bytes.\<close>

lemma record_request_encoded:
  fixes q :: case_request
  assumes C: "case_crypto_works C" and i: "caseExchangeRec (records (ms_tracker s) ! i) = None"
  defines "pre \<equiv> request_fixed q @ request_lists q"
  shows "record_request C (encode_request q) i (rq_control q AND kCASEHeader_EncryptionTypeMask) (rq_config q) (rq_curve q)
      (rq_session q) (length pre) (length (rq_key q)) (length (request_signed q)) s =
    Some (attach_case i (length (ms_cases s)) (s\<lparr>ms_cases := ms_cases s @ [case_of_request C i q]\<rparr>))"
proof -
  have k: "tvb_memdup (encode_request q) (length pre) (int (length (rq_key q))) = Some (rq_key q)"
    by (simp add: tvb_memdup_Some encode_request_def request_signed_def pre_def)
  have h: "ComputeCASEMessageHash C (encode_request q) (length (request_signed q)) (rq_config q) (reqMsgHash zero_case) =
      Some (case_hash C (rq_config q) (request_signed q) (replicate CASE_MAX_HASH_SIZE 0))"
    unfolding encode_request_def by (subst ComputeCASEMessageHash_prefix [OF C]) (simp_all add: zero_case_def)
  show ?thesis
    by (simp add: record_request_def i k h case_of_request_def kCASEHeader_EncryptionTypeMask_def Let_def)
qed

text \<open>Optional parts of a message that are there, or not.\<close>

lemma optional_cert_info_part:
  assumes E: "memory_ok (reg_env R)" and len: "length (pre @ encode_part e) < 65536"
    and e: "\<And>x. e = Some x \<Longrightarrow> security_part Security_kTag_MatterCASECertificateInformation (cert_info_member R) x"
  shows "\<exists>v'. optional_cert_info R tree (pre @ encode_part e @ post) (length pre) (length (encode_part e)) h v = Some (MATTER_NO_ERROR, v')"
proof (cases e)
  case None
  then show ?thesis by (simp add: optional_cert_info_def encode_part_def)
next
  case (Some x)
  show ?thesis
    using security_structure_part [OF e [OF Some] E, of pre tree post h "''CASEBeginSessionRequest_CertInfo''" v] len Some
    by (auto simp: optional_cert_info_def encode_part_def AddCertInfo_def)
qed

lemma optional_signature_part:
  assumes E: "memory_ok (reg_env R)" and len: "length (pre @ encode e) < 65536"
    and e: "security_part Security_kTag_MatterCASESignature (ecdsa_member R) e"
  shows "\<exists>v'. optional_signature R tree (pre @ encode e @ post) (length pre) (length (encode e)) h v = Some (MATTER_NO_ERROR, v')"
  using security_structure_part [OF e E len, of tree post h "''CASEBeginSessionRequest_Signature''" v]
  by (auto simp: optional_signature_def AddECDSASig_def)

lemma encode_not_empty: "0 < length (encode e)"
  by (cases e) (simp_all add: enc_head_def encode_Node)

lemma ucast_of_nat_byte: "n < 256 \<Longrightarrow> (ucast (of_nat n :: byte) :: u16) = of_nat n"
  by (simp add: word_unat_eq_iff unat_of_nat unsigned_ucast_eq take_bit_nat_eq_self)

lemma unat_of_nat_byte: "n < 256 \<Longrightarrow> unat (of_nat n :: byte) = n"
  by (simp add: unat_of_nat take_bit_nat_eq_self)

theorem DissectCASEBeginSessionRequest_encoded:
  assumes C: "case_crypto_works C" and q: "request_ok R q"
    and i: "i < length (records (ms_tracker s))" "caseExchangeRec (records (ms_tracker s) ! i) = None" "mi_msgRec mi = Some i"
    and len: "unat (mi_payloadLen mi) = length (encode_request q)"
  shows "\<exists>v'. DissectCASEBeginSessionRequest C R (encode_request q) mi tree (v, s) =
    Some (int (length (encode_request q)), v', attach_case i (length (ms_cases s)) (s\<lparr>ms_cases := ms_cases s @ [case_of_request C i q]\<rparr>))"
proof -
  let ?tvb = "encode_request q" and ?n = "length (rq_configs q)" and ?c = "length (rq_curves q)" and ?k = "length (rq_key q)"
  let ?e = "length (encode_part (rq_certs q))" and ?p = "length (rq_payload q)" and ?g = "length (encode (rq_signature q))"
  have lt: "?n < 256" "?c < 256" "?k < 256" and E: "memory_ok (reg_env R)" and over: "18 + 8 * ?n \<le> length ?tvb"
    and certs: "\<And>e. rq_certs q = Some e \<Longrightarrow> security_part Security_kTag_MatterCASECertificateInformation (cert_info_member R) e"
    and sig: "security_part Security_kTag_MatterCASESignature (ecdsa_member R) (rq_signature q)"
    and max: "length ?tvb < 65536"
    using q by (simp_all add: request_ok_def)
  have l: "length (request_signed q) = 18 + ?n * 4 + ?c * 4 + ?k + ?e + ?p" "length ?tvb = length (request_signed q) + ?g"
    by (simp_all add: request_signed_def request_lists_def encode_request_def)
  have g: "0 < ?g" by (rule encode_not_empty)
  have small: "?e < 65536" "?p < 65536" "?g < 65536" using max l by linarith+
  have tvb: "?tvb = request_fixed q @ (request_lists q @ rq_key q @ encode_part (rq_certs q) @ rq_payload q @ encode (rq_signature q))"
    by (simp add: encode_request_def request_signed_def)
  note reads = request_bytes [of q "request_lists q @ rq_key q @ encode_part (rq_certs q) @ rq_payload q @ encode (rq_signature q)",
      folded tvb, unfolded One_nat_def]
  have u: "unat (of_nat ?e :: u16) = ?e" "unat (of_nat ?p :: u16) = ?p"
    using small by (simp_all add: unat_of_nat_16)
  have signed: "18 + ucast (of_nat ?n :: byte) * 4 + ucast (of_nat ?c :: byte) * 4 + ucast (of_nat ?k :: byte) +
      of_nat ?e + of_nat ?p = (of_nat (length (request_signed q)) :: u16)"
    using lt by (simp add: ucast_of_nat_byte l)
  have us: "unat (of_nat (length (request_signed q)) :: u16) = length (request_signed q)"
    by (rule unat_of_nat_16) (use max l in linarith)
  have mi: "mi_payloadLen mi = of_nat (length ?tvb)" by (simp only: word_unat_eq_iff len unat_of_nat_16 [OF max])
  have gt: "mi_payloadLen mi > 18" "mi_payloadLen mi > of_nat (length (request_signed q))"
    using len l g us by (simp_all add: word_less_nat_alt)
  have gl: "mi_payloadLen mi - of_nat (length (request_signed q)) = (of_nat ?g :: u16)"
    by (simp add: mi l)
  have ug: "unat (of_nat ?g :: u16) = ?g" using small by (simp add: unat_of_nat_16)
  have item: "\<And>n h val v. off + n \<le> length ?tvb \<Longrightarrow> add_tvb_item tree h ?tvb (int off) (int n) val v =
      Some (add_call (ProtoAdd tree h (of_nat off) (of_nat n) val) v)" for off
    by (rule add_tvb_item_here)
  have fixed: "\<And>h val v. add_tvb_item tree h ?tvb 0 1 val v = Some (add_call (ProtoAdd tree h 0 1 val) v)"
    "\<And>h val v. add_tvb_item tree h ?tvb 8 4 val v = Some (add_call (ProtoAdd tree h 8 4 val) v)"
    "\<And>h val v. add_tvb_item tree h ?tvb 12 4 val v = Some (add_call (ProtoAdd tree h 12 4 val) v)"
    "\<And>h val v. add_tvb_item tree h ?tvb 16 2 val v = Some (add_call (ProtoAdd tree h 16 2 val) v)"
    using item [of 0 1] item [of 8 4] item [of 12 4] item [of 16 2] l by simp_all
  obtain W where W: "\<And>v. add_word_list R tree ''CASEBeginSessionRequest_AltConfigList'' ''CASEBeginSessionRequest_AltConfigList''
      ''CASEBeginSessionRequest_AltConfigListElem'' ?tvb 18 (?n * 4) ?n v = Some (W v)"
    by (rule addsE [OF add_word_list_adds [of 18 "?n * 4" ?tvb ?n R tree "''CASEBeginSessionRequest_AltConfigList''" "''CASEBeginSessionRequest_AltConfigList''" "''CASEBeginSessionRequest_AltConfigListElem''"]]) (use l in simp_all)
  obtain V where V: "\<And>v. add_word_list R tree ''CASEBeginSessionRequest_AltCurveList'' ''CASEBeginSessionRequest_AltCurveList''
      ''CASEBeginSessionRequest_AltCurveListElem'' ?tvb (18 + ?n * 4) (?n * 4) ?c v = Some (V v)"
    by (rule addsE [OF add_word_list_adds [of "18 + ?n * 4" "?n * 4" ?tvb ?c R tree "''CASEBeginSessionRequest_AltCurveList''" "''CASEBeginSessionRequest_AltCurveList''" "''CASEBeginSessionRequest_AltCurveListElem''"]]) (use l over in simp_all)
  have "\<forall>v. \<exists>v'. optional_cert_info R tree ?tvb (18 + ?n * 4 + ?c * 4 + ?k) ?e ''CASEBeginSessionRequest_CertInfo'' v = Some (MATTER_NO_ERROR, v')"
    using optional_cert_info_part [OF E _ certs, of "request_fixed q @ request_lists q @ rq_key q" "rq_certs q" tree "rq_payload q @ encode (rq_signature q)"
        "''CASEBeginSessionRequest_CertInfo''"] max l
    by (simp add: tvb request_lists_def ac_simps)
  then obtain I where I: "\<And>v. optional_cert_info R tree ?tvb (18 + ?n * 4 + ?c * 4 + ?k) ?e ''CASEBeginSessionRequest_CertInfo'' v =
      Some (MATTER_NO_ERROR, I v)" by metis
  obtain P where P: "\<And>v. optional_item R tree ''CASEBeginSessionRequest_Payload'' ?tvb (18 + ?n * 4 + ?c * 4 + ?k + ?e) ?p v = Some (P v)"
    by (rule addsE [OF optional_item_adds [of "18 + ?n * 4 + ?c * 4 + ?k + ?e" ?p ?tvb R tree "''CASEBeginSessionRequest_Payload''"]]) (use l in simp_all)
  have "\<forall>v. \<exists>v'. optional_signature R tree ?tvb (length (request_signed q)) ?g ''CASEBeginSessionRequest_Signature'' v = Some (MATTER_NO_ERROR, v')"
    using optional_signature_part [OF E _ sig, of "request_signed q" tree "[]"] max l by (simp add: encode_request_def)
  then obtain S where S: "\<And>v. optional_signature R tree ?tvb (18 + ?n * 4 + ?c * 4 + ?k + ?e + ?p) ?g ''CASEBeginSessionRequest_Signature'' v =
      Some (MATTER_NO_ERROR, S v)" unfolding l by metis
  have key: "add_tvb_item tree h ?tvb (int (18 + ?n * 4 + ?c * 4)) (int ?k) val v =
      Some (add_call (ProtoAdd tree h (of_nat (18 + ?n * 4 + ?c * 4)) (of_nat ?k) val) v)" for h val v
    by (rule add_tvb_item_here) (use l in simp)
  have rec: "with_record mi s (\<lambda>i. record_request C ?tvb i (rq_control q AND kCASEHeader_EncryptionTypeMask) (rq_config q) (rq_curve q)
      (rq_session q) (18 + ?n * 4 + ?c * 4) ?k (length (request_signed q)) s) =
    Some (attach_case i (length (ms_cases s)) (s\<lparr>ms_cases := ms_cases s @ [case_of_request C i q]\<rparr>))"
    using record_request_encoded [OF C i(2), of q] i by (simp add: with_record_def request_lists_def ac_simps)
  show ?thesis
    unfolding DissectCASEBeginSessionRequest_def prod.case Let_def
    using gt by (simp add: reads fixed signed us unat_of_nat_byte lt u W V I P S key rec gl ug done_with_def len del: of_nat_add)
qed

record case_response =
  rs_control :: byte
  rs_key :: "byte list"
  rs_certs :: "tlv option"
  rs_payload :: "byte list"
  rs_signature :: tlv
  rs_confirm :: "byte list"

definition response_fixed :: "case_response \<Rightarrow> byte list" where
  "response_fixed r = [rs_control r, of_nat (length (rs_key r))] @
     LE_Write16 (of_nat (length (encode_part (rs_certs r)))) @ LE_Write16 (of_nat (length (rs_payload r)))"

definition response_signed :: "case_response \<Rightarrow> byte list" where
  "response_signed r = response_fixed r @ rs_key r @ encode_part (rs_certs r) @ rs_payload r"

definition encode_response :: "case_response \<Rightarrow> byte list" where
  "encode_response r = response_signed r @ encode (rs_signature r) @ rs_confirm r"

text \<open>The two upper bits of the control byte say how long the hash at the end is.\<close>

definition response_ok :: "registry \<Rightarrow> case_response \<Rightarrow> bool" where
  "response_ok R r \<longleftrightarrow> memory_ok (reg_env R) \<and> length (rs_key r) < 256 \<and> length (encode_response r) < 65536 \<and>
     (\<forall>e. rs_certs r = Some e \<longrightarrow> security_part Security_kTag_MatterCASECertificateInformation (cert_info_member R) e) \<and>
     security_part Security_kTag_MatterCASESignature (ecdsa_member R) (rs_signature r) \<and>
     map_of key_confirm_hash_lengths (rs_control r AND kCASEHeader_KeyConfirmHashLengthMask) = Some (of_nat (length (rs_confirm r)))"

text \<open>The object of the exchange when the response is there too.\<close>

definition case_answered :: "case_crypto \<Rightarrow> rec_id \<Rightarrow> case_response \<Rightarrow> case_exchange \<Rightarrow> case_exchange" where
  "case_answered C i r c = c\<lparr>beginRespMsg := Some i, respECDHPublicKey := rs_key r, respECDHPublicKeyLen := length (rs_key r),
     respMsgHash := case_hash C (case_config c) (response_signed r) (respMsgHash c)\<rparr>"

lemma length_response_fixed [simp]: "length (response_fixed r) = 6"
  by (simp add: response_fixed_def)

lemma response_bytes:
  fixes r :: case_response and rest :: "byte list"
  defines "tvb \<equiv> response_fixed r @ rest"
  shows "tvb_get_guint8 tvb 0 = Some (rs_control r)" "tvb_get_guint8 tvb 1 = Some (of_nat (length (rs_key r)))"
    "tvb_get_letohs tvb 2 = Some (of_nat (length (encode_part (rs_certs r))))"
    "tvb_get_letohs tvb 4 = Some (of_nat (length (rs_payload r)))"
  by (rule get_byte get_encoded get_encoded32, simp add: tvb_def response_fixed_def)+

lemma case_answered_inv:
  "case_crypto_works C \<Longrightarrow> case_inv c \<Longrightarrow> case_inv (case_answered C i r c)"
  by (simp add: case_inv_def case_answered_def case_hash_length)

text \<open>The chain of the exchange leads to the object; deriving a key always returns.\<close>

lemma record_response_encoded:
  assumes C: "case_crypto_works C" and i: "caseExchangeRec (records (ms_tracker s) ! i) = None"
    and chain: "is_chain nextByExchange prevByExchange (records (ms_tracker s)) None p (xs @ i # ys)"
    and c: "nearest_case (records (ms_tracker s)) (rev xs) = Some c" "case_inv (ms_cases s ! c)"
  shows "record_response C (encode_response r) i 6 (length (rs_key r)) (length (response_signed r)) s =
    map_option (\<lambda>(x, T). (update_case c (\<lambda>_. x) (attach_case i c s))\<lparr>ms_keys := T\<rparr>)
      (RecoverCASESessionKey C (case_answered C i r (ms_cases s ! c), ms_keys s))"
proof -
  have f: "FindCASEExchangeRecord (records (ms_tracker s)) (Some i) = Some (Some c)"
    using FindCASEExchangeRecord_chain [OF chain] c(1) i by (simp add: nearest_case_def)
  have k: "tvb_memdup (encode_response r) 6 (int (length (rs_key r))) = Some (rs_key r)"
    by (simp add: tvb_memdup_Some encode_response_def response_signed_def)
  have h: "ComputeCASEMessageHash C (encode_response r) (length (response_signed r)) config buf =
      Some (case_hash C config (response_signed r) buf)" if "length buf = CASE_MAX_HASH_SIZE" for config buf
    unfolding encode_response_def by (rule ComputeCASEMessageHash_prefix [OF C that])
  have l: "length (respMsgHash (ms_cases s ! c)) = CASE_MAX_HASH_SIZE" using c(2) by (simp add: case_inv_def)
  have b: "m \<bind> (\<lambda>(x, T). Some (g x T)) = map_option (\<lambda>(x, T). g x T) m" for m :: "('a \<times> 'b) option" and g :: "'a \<Rightarrow> 'b \<Rightarrow> 'c"
    by (cases m) auto
  show ?thesis
    by (simp add: record_response_def i f k h l case_answered_def b Let_def)
qed

theorem DissectCASEBeginSessionResponse_encoded:
  assumes C: "case_crypto_works C" and r: "response_ok R r"
    and i: "i < length (records (ms_tracker s))" "caseExchangeRec (records (ms_tracker s) ! i) = None" "mi_msgRec mi = Some i"
    and len: "unat (mi_payloadLen mi) = length (encode_response r)"
    and chain: "is_chain nextByExchange prevByExchange (records (ms_tracker s)) None p (xs @ i # ys)"
    and c: "nearest_case (records (ms_tracker s)) (rev xs) = Some c" "case_inv (ms_cases s ! c)"
  shows "\<exists>v'. DissectCASEBeginSessionResponse C R (encode_response r) mi tree (v, s) =
    map_option (\<lambda>(x, T). (int (length (encode_response r)), v', (update_case c (\<lambda>_. x) (attach_case i c s))\<lparr>ms_keys := T\<rparr>))
      (RecoverCASESessionKey C (case_answered C i r (ms_cases s ! c), ms_keys s))"
proof -
  let ?tvb = "encode_response r" and ?k = "length (rs_key r)" and ?h = "length (rs_confirm r)"
  let ?e = "length (encode_part (rs_certs r))" and ?p = "length (rs_payload r)" and ?g = "length (encode (rs_signature r))"
  have lt: "?k < 256" and E: "memory_ok (reg_env R)"
    and certs: "\<And>e. rs_certs r = Some e \<Longrightarrow> security_part Security_kTag_MatterCASECertificateInformation (cert_info_member R) e"
    and sig: "security_part Security_kTag_MatterCASESignature (ecdsa_member R) (rs_signature r)"
    and max: "length ?tvb < 65536"
    and conf: "map_of key_confirm_hash_lengths (rs_control r AND kCASEHeader_KeyConfirmHashLengthMask) = Some (of_nat ?h)"
    using r by (simp_all add: response_ok_def)
  have l: "length (response_signed r) = 6 + ?k + ?e + ?p" "length ?tvb = length (response_signed r) + ?g + ?h"
    by (simp_all add: response_signed_def encode_response_def)
  have g: "0 < ?g" by (rule encode_not_empty)
  have small: "?e < 65536" "?p < 65536" "?g < 65536" "?h < 65536" using max l by linarith+
  have tvb: "?tvb = response_fixed r @ (rs_key r @ encode_part (rs_certs r) @ rs_payload r @ encode (rs_signature r) @ rs_confirm r)"
    by (simp add: encode_response_def response_signed_def)
  note reads = response_bytes [of r "rs_key r @ encode_part (rs_certs r) @ rs_payload r @ encode (rs_signature r) @ rs_confirm r",
      folded tvb, unfolded One_nat_def]
  have u: "unat (of_nat ?e :: u16) = ?e" "unat (of_nat ?p :: u16) = ?p" "unat (of_nat ?g :: u16) = ?g" "unat (of_nat ?h :: u16) = ?h"
    using small by (simp_all add: unat_of_nat_16)
  have signed: "6 + ucast (of_nat ?k :: byte) + of_nat ?e + of_nat ?p = (of_nat (length (response_signed r)) :: u16)"
    using lt by (simp add: ucast_of_nat_byte l)
  have us: "unat (of_nat (length (response_signed r)) :: u16) = length (response_signed r)"
    by (rule unat_of_nat_16) (use max l in linarith)
  have mi: "mi_payloadLen mi = of_nat (length ?tvb)" by (simp only: word_unat_eq_iff len unat_of_nat_16 [OF max])
  have "unat (of_nat (length (response_signed r) + ?h) :: u16) = length (response_signed r) + ?h"
    by (rule unat_of_nat_16) (use max l in linarith)
  then have gt: "mi_payloadLen mi > 6" "mi_payloadLen mi > of_nat (length (response_signed r)) + of_nat ?h"
    using len l g by (simp_all add: word_less_nat_alt)
  have gl: "mi_payloadLen mi - (of_nat (length (response_signed r)) + of_nat ?h) = (of_nat ?g :: u16)"
    by (simp add: mi l)
  have fixed: "add_tvb_item tree h ?tvb 0 1 val v = Some (add_call (ProtoAdd tree h 0 1 val) v)" for h val v
    using add_tvb_item_here [of 0 1 ?tvb] l by simp
  have key: "add_tvb_item tree h ?tvb 6 (int ?k) val v = Some (add_call (ProtoAdd tree h 6 (of_nat ?k) val) v)" for h val v
    using add_tvb_item_here [of 6 ?k ?tvb] l by simp
  have "\<forall>v. \<exists>v'. optional_cert_info R tree ?tvb (6 + ?k) ?e ''CASEBeginSessionResponse_CertInfo'' v = Some (MATTER_NO_ERROR, v')"
    using optional_cert_info_part [OF E _ certs, of "response_fixed r @ rs_key r" "rs_certs r" tree
        "rs_payload r @ encode (rs_signature r) @ rs_confirm r" "''CASEBeginSessionResponse_CertInfo''"] max l
    by (simp add: tvb)
  then obtain I where I: "\<And>v. optional_cert_info R tree ?tvb (6 + ?k) ?e ''CASEBeginSessionResponse_CertInfo'' v =
      Some (MATTER_NO_ERROR, I v)" by metis
  obtain P where P: "\<And>v. optional_item R tree ''CASEBeginSessionResponse_Payload'' ?tvb (6 + ?k + ?e) ?p v = Some (P v)"
    by (rule addsE [OF optional_item_adds [of "6 + ?k + ?e" ?p ?tvb R tree "''CASEBeginSessionResponse_Payload''"]]) (use l in simp_all)
  have "\<forall>v. \<exists>v'. optional_signature R tree ?tvb (length (response_signed r)) ?g ''CASEBeginSessionResponse_Signature'' v = Some (MATTER_NO_ERROR, v')"
    using optional_signature_part [OF E _ sig, of "response_signed r" tree "rs_confirm r"] max l by (simp add: encode_response_def)
  then obtain S where S: "\<And>v. optional_signature R tree ?tvb (6 + ?k + ?e + ?p) ?g ''CASEBeginSessionResponse_Signature'' v =
      Some (MATTER_NO_ERROR, S v)" unfolding l by metis
  obtain H where H: "\<And>v. optional_item R tree ''CASEBeginSessionResponse_KeyConfirmHash'' ?tvb (6 + ?k + ?e + ?p + ?g) ?h v = Some (H v)"
    by (rule addsE [OF optional_item_adds [of "6 + ?k + ?e + ?p + ?g" ?h ?tvb R tree "''CASEBeginSessionResponse_KeyConfirmHash''"]])
      (use l in simp_all)
  have rec: "with_record mi s (\<lambda>i. record_response C ?tvb i 6 ?k (length (response_signed r)) s) =
      map_option (\<lambda>(x, T). (update_case c (\<lambda>_. x) (attach_case i c s))\<lparr>ms_keys := T\<rparr>)
        (RecoverCASESessionKey C (case_answered C i r (ms_cases s ! c), ms_keys s))"
    using record_response_encoded [OF C i(2) chain c] i by (simp add: with_record_def)
  have m: "map_option f m \<bind> done_with mi v = map_option (\<lambda>x. (int (length ?tvb), v, f x)) m" for f and m :: "'a option" and v
    by (cases m) (simp_all add: done_with_def len)
  show ?thesis
    unfolding DissectCASEBeginSessionResponse_def prod.case Let_def
    using gt by (simp add: reads fixed conf signed us unat_of_nat_byte lt u I P S H key rec gl m case_prod_unfold del: of_nat_add)
      (rule exI, rule refl)
qed

section \<open>The exchange\<close>

lemma attach_case_records:
  "i < length (records (ms_tracker s)) \<Longrightarrow>
   records (ms_tracker (attach_case i c s)) ! k =
     (if k = i then (records (ms_tracker s) ! i)\<lparr>caseExchangeRec := Some c\<rparr> else records (ms_tracker s) ! k)"
  "length (records (ms_tracker (attach_case i c s))) = length (records (ms_tracker s))"
  by (simp_all add: attach_case_def update_record_def nth_list_update)

lemma attach_case_chain:
  assumes "is_chain nextByExchange prevByExchange (records (ms_tracker s)) b p xs" and "i < length (records (ms_tracker s))"
  shows "is_chain nextByExchange prevByExchange (records (ms_tracker (attach_case i c s))) b p xs"
  by (rule is_chain_cong [OF assms(1)]) (simp_all add: attach_case_records assms(2))

lemma nearest_case_skip:
  "\<forall>y \<in> set ys. caseExchangeRec (recs ! y) = None \<Longrightarrow> nearest_case recs (ys @ zs) = nearest_case recs zs"
  by (induction ys) (simp_all add: nearest_case_def)

lemma attach_case_nearest:
  assumes "i < length (records (ms_tracker s))" and "i \<notin> set ys"
    and "\<forall>y \<in> set ys. caseExchangeRec (records (ms_tracker s) ! y) = None"
  shows "nearest_case (records (ms_tracker (attach_case i c s))) (rev (xs @ i # ys)) = Some c"
proof -
  have "\<forall>y \<in> set (rev ys). caseExchangeRec (records (ms_tracker (attach_case i c s)) ! y) = None"
    using assms by (auto simp: attach_case_records assms(1))
  then show ?thesis
    by (simp add: nearest_case_skip) (simp add: nearest_case_def attach_case_records assms(1))
qed

text \<open>The object and the keys of the state after the request.\<close>

lemma attach_case_state [simp]:
  "ms_cases (attach_case i c s) = ms_cases s" "ms_keys (attach_case i c s) = ms_keys s"
  by (simp_all add: attach_case_def)

definition case_complete :: "case_crypto \<Rightarrow> rec_id \<Rightarrow> case_request \<Rightarrow> rec_id \<Rightarrow> case_response \<Rightarrow> case_exchange" where
  "case_complete C i q j r = case_answered C j r (case_of_request C i q)"

lemma case_of_request_inv0: "case_crypto_works C \<Longrightarrow> case_inv (case_of_request C i q)"
  by (simp add: case_inv_def case_of_request_def case_hash_length zero_case_def)

theorem case_exchange_keys:
  assumes C: "case_crypto_works C" and ok: "request_ok R q" "response_ok R r" and T: "key_table_inv (ms_keys s)"
    and chain: "is_chain nextByExchange prevByExchange (records (ms_tracker s)) None p (xs @ i # ys @ j # zs)"
    and new: "\<forall>x \<in> set (i # ys @ [j]). caseExchangeRec (records (ms_tracker s) ! x) = None" "i \<notin> set (ys @ [j])"
    and mi: "mi_msgRec mi = Some i" "unat (mi_payloadLen mi) = length (encode_request q)"
    and mj: "mi_msgRec mj = Some j" "unat (mi_payloadLen mj) = length (encode_response r)"
    and secret: "case_secret (case_complete C i q j r) = Some secret"
    and cipher: "rq_control q AND 0x0F = kMatterEncryptionType_AES128CCM"
  shows "\<exists>v1 s1 v2 s2. DissectCASEBeginSessionRequest C R (encode_request q) mi tree (v, s) = Some (int (length (encode_request q)), v1, s1) \<and>
    DissectCASEBeginSessionResponse C R (encode_response r) mj tree' (v1, s1) = Some (int (length (encode_response r)), v2, s2) \<and>
    key_learned (case_session_key C (case_complete C i q j r) secret) (ms_keys s) (ms_keys s2)"
proof -
  let ?c = "length (ms_cases s)" and ?q = "case_of_request C i q"
  let ?s0 = "s\<lparr>ms_cases := ms_cases s @ [?q]\<rparr>"
  let ?s1 = "attach_case i ?c ?s0"
  have i: "i < length (records (ms_tracker s))" and j: "j < length (records (ms_tracker s))" "j \<noteq> i"
    using is_chain_less [OF chain] new by auto
  have none: "caseExchangeRec (records (ms_tracker s) ! i) = None" "caseExchangeRec (records (ms_tracker s) ! j) = None"
    using new by auto
  obtain v1 where v1: "DissectCASEBeginSessionRequest C R (encode_request q) mi tree (v, s) =
      Some (int (length (encode_request q)), v1, ?s1)"
    using DissectCASEBeginSessionRequest_encoded [OF C ok(1) i none(1) mi] by blast
  have i0: "i < length (records (ms_tracker ?s0))" using i by simp
  have chain1: "is_chain nextByExchange prevByExchange (records (ms_tracker ?s1)) None p ((xs @ i # ys) @ j # zs)"
    using attach_case_chain [OF _ i0] chain by simp
  have near: "nearest_case (records (ms_tracker ?s1)) (rev (xs @ i # ys)) = Some ?c"
    by (rule attach_case_nearest [OF i0]) (use new in simp_all)
  have j1: "j < length (records (ms_tracker ?s1))" "caseExchangeRec (records (ms_tracker ?s1) ! j) = None"
    using j none i by (simp_all add: attach_case_records)
  have q: "ms_cases ?s1 ! ?c = ?q" by simp
  have inv: "case_inv (ms_cases ?s1 ! ?c)" using case_of_request_inv0 [OF C] by simp
  obtain v2 where v2: "DissectCASEBeginSessionResponse C R (encode_response r) mj tree' (v1, ?s1) =
      map_option (\<lambda>(x, T). (int (length (encode_response r)), v2, (update_case ?c (\<lambda>_. x) (attach_case j ?c ?s1))\<lparr>ms_keys := T\<rparr>))
        (RecoverCASESessionKey C (case_complete C i q j r, ms_keys s))"
    using DissectCASEBeginSessionResponse_encoded [OF C ok(2) j1 mj chain1 near inv]
    unfolding q by (auto simp: case_complete_def)
  have inv2: "case_inv (case_complete C i q j r)"
    unfolding case_complete_def by (rule case_answered_inv [OF C case_of_request_inv0 [OF C]])
  have ty: "case_sessionType (case_complete C i q j r) = kMatterEncryptionType_AES128CCM"
    using cipher by (simp add: case_complete_def case_answered_def case_of_request_def)
  show ?thesis
    using RecoverCASESessionKey_learns [OF C inv2 T secret ty] v1 v2 by fastforce
qed

end
