(* ===== verification/Protocol_Registration.thy ===== *)
theory Protocol_Registration
  imports Sub_Dissector
begin

text \<open>
  What the dissectors register with the host: the fields of each (\<open>hf_register_info hf[]\<close>) with their filter names,
  types and bit masks, and the subtrees. The host numbers them; \<open>knows_fields\<close> is what it promises, and
  \<open>plain_registry\<close> is a host that numbers them in the order of registration.
\<close>

text \<open>The variable, the name, the filter name, the type, the display, the value strings and the bit mask.\<close>

datatype field = Field (field_var: string) (field_name: string) (field_abbrev: string) (field_type: ftenum)
  (field_display: string) (field_strings: string) (field_mask: u64)

definition matter_fields :: "field list" where
  "matter_fields =
    [Field ''Matter_MsgFlags'' ''Message Flags'' ''matter.msg_flags'' FT_UINT8 ''BASE_HEX'' '''' 0,
     Field ''Matter_Version'' ''Message Version'' ''matter.msg_flags.version'' FT_UINT8 ''BASE_DEC'' '''' 240,
     Field ''Matter_SFlag'' ''S Flag - Source Node Id Present'' ''matter.msg_flags.flags.s'' FT_BOOLEAN ''8'' '''' 4,
     Field ''Matter_DSIZ'' ''Destination Size'' ''matter.msg_flags.dest_size'' FT_UINT8 ''BASE_DEC'' ''VALS(dsizTypeNames)'' 3,
     Field ''Matter_SessionId'' ''Session Id'' ''matter.session_id'' FT_UINT16 ''BASE_HEX'' '''' 0,
     Field ''Matter_SecFlags'' ''Security Flags'' ''matter.sec_flags'' FT_UINT8 ''BASE_HEX'' '''' 0,
     Field ''Matter_PFlag'' ''P Flag - Message Privacy Enabled'' ''matter.sec_flags.flags.p'' FT_BOOLEAN ''8'' '''' 128,
     Field ''Matter_CFlag'' ''C Flag - Message Control Message'' ''matter.sec_flags.flags.c'' FT_BOOLEAN ''8'' '''' 64,
     Field ''Matter_MXFlag'' ''MX Flag- Message Extensions'' ''matter.header.flags.mx'' FT_BOOLEAN ''8'' '''' 32,
     Field ''Matter_EncType'' ''Session Type'' ''matter.sec_flags.enc_type'' FT_UINT8 ''BASE_DEC'' ''VALS(sessionTypeNames)'' 3,
     Field ''Matter_MsgCntr'' ''Message Counter'' ''matter.message_id'' FT_UINT32 ''BASE_HEX'' '''' 0,
     Field ''Matter_SourceNodeId'' ''Source Node Id'' ''matter.source_node_id'' FT_UINT64 ''BASE_HEX'' '''' 0,
     Field ''Matter_DestNodeId'' ''Destination Node Id'' ''matter.dest_node_id'' FT_UINT64 ''BASE_HEX'' '''' 0,
     Field ''Matter_ExchangeHeader'' ''Exchange Header'' ''matter.exchange_header'' FT_UINT8 ''BASE_HEX'' '''' 0,
     Field ''Matter_VFlag'' ''V Flag - Vendor Protocol'' ''matter.header.flags.v'' FT_BOOLEAN ''8'' '''' 16,
     Field ''Matter_SXFlag'' ''SX Flag- Secure Extensions'' ''matter.header.flags.sx'' FT_BOOLEAN ''8'' '''' 8,
     Field ''Matter_RFlag'' ''R Flag - Ack Requested'' ''matter.header.flags.r'' FT_BOOLEAN ''8'' '''' 4,
     Field ''Matter_AFlag'' ''A Flag - Contains Ack'' ''matter.header.flags.a'' FT_BOOLEAN ''8'' '''' 2,
     Field ''Matter_IFlag'' ''I Flag - From Initiator'' ''matter.header.flags.i'' FT_BOOLEAN ''8'' '''' 1,
     Field ''Matter_ProtocolOpcode'' ''Protocol Opcode'' ''matter.protocol_opcode'' FT_UINT8 ''BASE_HEX'' '''' 0,
     Field ''Matter_ExchangeId'' ''Exchange Id'' ''matter.exchange_id'' FT_UINT16 ''BASE_HEX'' '''' 0,
     Field ''Matter_ExchangeStartFrameNum'' ''Start of exchange in frame'' ''matter.exchange_start_frame'' FT_FRAMENUM ''BASE_NONE'' ''FRAMENUM_TYPE(FT_FRAMENUM_NONE)'' 0,
     Field ''Matter_ProtocolId'' ''Protocol Id'' ''matter.protocol_id'' FT_UINT16 ''BASE_HEX'' '''' 0,
     Field ''Matter_ProtocolVendorId'' ''Protocol Vendor Id'' ''matter.protocol_vendor_id'' FT_UINT16 ''BASE_HEX'' '''' 0,
     Field ''Matter_AckMsgCntr'' ''Acknowledged Message Counter'' ''matter.ack_counter'' FT_UINT32 ''BASE_HEX'' '''' 0,
     Field ''Matter_AckMsgFrameNum'' ''Acknowledges message in frame'' ''matter.ack_frame'' FT_FRAMENUM ''BASE_NONE'' ''FRAMENUM_TYPE(FT_FRAMENUM_ACK)'' 0,
     Field ''Matter_AckedByFrameNum'' ''Acknowledged by message in frame'' ''matter.acked_by_frame'' FT_FRAMENUM ''BASE_NONE'' ''FRAMENUM_TYPE(FT_FRAMENUM_NONE)'' 0,
     Field ''Matter_RetransFrameNum'' ''Retransmission of message in frame'' ''matter.retrans_frame'' FT_FRAMENUM ''BASE_NONE'' ''FRAMENUM_TYPE(FT_FRAMENUM_NONE)'' 0,
     Field ''Matter_MsgCntrReuseFrameNum'' ''Reuses message counter of message in frame'' ''matter.message_id_reuse_frame'' FT_FRAMENUM ''BASE_NONE'' ''FRAMENUM_TYPE(FT_FRAMENUM_NONE)'' 0,
     Field ''Matter_Payload'' ''Payload'' ''matter.payload'' FT_BYTES ''SEP_SPACE'' '''' 0,
     Field ''Matter_EncData'' ''Encrypted Data'' ''matter.enc_data'' FT_BYTES ''SEP_SPACE'' '''' 0,
     Field ''Matter_IntegrityCheck'' ''Integrity Check'' ''matter.integ_check'' FT_BYTES ''SEP_SPACE'' '''' 0]"

definition matter_subtrees :: "string list" where
  "matter_subtrees =
    [''matter'']"

definition common_fields_1 :: "field list" where
  "common_fields_1 =
    [Field ''StatusReport_ProfileId'' ''Status Profile Id'' ''matter.status_report.profile_id'' FT_UINT32 ''BASE_HEX'' '''' 0,
     Field ''StatusReport_StatusCode'' ''Status Code'' ''matter.status_report.status_code'' FT_UINT16 ''BASE_HEX'' '''' 0,
     Field ''StatusReport_TLV'' ''TLV'' ''matter.status_report.tlv'' FT_STRING ''BASE_NONE'' '''' 0,
     Field ''StatusReport_IsError'' ''Is Error'' ''matter.status_report.is_error'' FT_BOOLEAN ''BASE_NONE'' '''' 0,
     Field ''CheckIn_Payload'' ''ICD Check-In Payload'' ''matter.checkin.payload'' FT_BYTES ''SEP_SPACE'' '''' 0,
     Field ''PBKDFParamRequest'' ''PASE PBKDF Param Request'' ''matter.pase.pbkdf_param_req'' FT_NONE ''BASE_NONE'' '''' 0,
     Field ''PBKDFParamRequest_initiatorRandom'' ''Initiator Random'' ''matter.pase.initiator_random'' FT_BYTES ''BASE_NONE'' '''' 0,
     Field ''PBKDFParamRequest_localSessionId'' ''Local Session ID'' ''matter.pase.local_session_id'' FT_UINT16 ''BASE_DEC'' '''' 0,
     Field ''PBKDFParamRequest_passcodeId'' ''Passcode ID'' ''matter.pase.passcode_id'' FT_UINT16 ''BASE_DEC'' '''' 0,
     Field ''PBKDFParamRequest_hasPbkdfParams'' ''Has PBKDF Parameters'' ''matter.pase.has_pbkdf_params'' FT_BOOLEAN ''BASE_NONE'' '''' 0,
     Field ''PBKDFParamRequest_mrpParams'' ''Initiator Session Parameters'' ''matter.pase.initiator_session_params'' FT_NONE ''BASE_NONE'' '''' 0,
     Field ''PBKDFParamResponse_responderRandom'' ''Responder Random'' ''matter.pase.responder_random'' FT_BYTES ''BASE_NONE'' '''' 0,
     Field ''PBKDFParamResponse_responderSessionId'' ''Responder Session ID'' ''matter.pase.responder_session_id'' FT_UINT16 ''BASE_DEC'' '''' 0,
     Field ''PBKDFParamResponse_pbkdfParameters'' ''PBKDF Parameters'' ''matter.pase.pbkdf_params'' FT_NONE ''BASE_NONE'' '''' 0,
     Field ''PBKDFParamResponse_mrpParams'' ''Responder Session Parameters'' ''matter.pase.responder_session_params'' FT_NONE ''BASE_NONE'' '''' 0,
     Field ''PBKDFParamResponse_pbkdfIterationCount'' ''PBKDF Iterations'' ''matter.pase.pbkdf_interation_count'' FT_UINT64 ''BASE_DEC'' '''' 0,
     Field ''PBKDFParamResponse_pbkdfSaltLength'' ''PBKDF Salt Length'' ''matter.pase.pbkdf_salt_length'' FT_UINT32 ''BASE_DEC'' '''' 0,
     Field ''PBKDFParamResponse_pbkdfSalt'' ''PBKDF Salt'' ''matter.pase.salt'' FT_BYTES ''BASE_NONE'' '''' 0,
     Field ''Pake1_pA'' ''pA'' ''matter.pase.pake1.pA'' FT_BYTES ''BASE_NONE'' '''' 0,
     Field ''Pake2_pB'' ''pB'' ''matter.pase.pake2.pB'' FT_BYTES ''BASE_NONE'' '''' 0,
     Field ''Pake2_cB'' ''cB'' ''matter.pase.pake2.cB'' FT_BYTES ''BASE_NONE'' '''' 0]"

definition common_fields_2 :: "field list" where
  "common_fields_2 =
    [Field ''Pake3_cA'' ''cA'' ''matter.pase.pake3.cA'' FT_BYTES ''BASE_NONE'' '''' 0,
     Field ''PakeError_Code'' ''PASE Error Code'' ''matter.pase.error.code'' FT_UINT8 ''BASE_HEX'' ''VALS(kPaseErrorCodeNames)'' 0,
     Field ''PakeError_UnknownData'' ''PASE Error Additional Data'' ''matter.pase.error.additional_data'' FT_BYTES ''BASE_NONE'' '''' 0,
     Field ''Session_destinationId'' ''Destination Node ID'' ''matter.session.destination_id'' FT_BYTES ''BASE_NONE'' '''' 0,
     Field ''Session_ephPublicKey'' ''Ephemeral public key'' ''matter.session.eph_public_key'' FT_BYTES ''BASE_NONE'' '''' 0,
     Field ''Session_encrypted'' ''Encrypted'' ''matter.session.encrypted'' FT_BYTES ''BASE_NONE'' '''' 0,
     Field ''Session_encrypted2'' ''Encrypted2'' ''matter.session.encrypted2'' FT_NONE ''BASE_NONE'' '''' 0,
     Field ''Session_encrypted3'' ''Encrypted3'' ''matter.session.encrypted3'' FT_NONE ''BASE_NONE'' '''' 0,
     Field ''Session_encryptedCiphertext'' ''Ciphertext'' ''matter.session.encrypted.ciphertext'' FT_BYTES ''BASE_NONE'' '''' 0,
     Field ''Session_encryptedMic'' ''Auth Tag (MIC)'' ''matter.session.encrypted.mic'' FT_BYTES ''BASE_NONE'' '''' 0,
     Field ''Session_resumptionId'' ''Resumption ID'' ''matter.session.resumption_id'' FT_BYTES ''BASE_NONE'' '''' 0,
     Field ''Session_resumeMic'' ''Resume MIC'' ''matter.session.resume_mic'' FT_BYTES ''BASE_NONE'' '''' 0,
     Field ''Session_sleepyParams'' ''Sleepy Params'' ''matter.session.sleepy_params'' FT_NONE ''BASE_NONE'' '''' 0,
     Field ''Session_idleRetransTimeout'' ''Idle Retrans Timeout (ms)'' ''matter.session.idle_retrans_timeout_ms'' FT_UINT32 ''BASE_DEC'' '''' 0,
     Field ''Session_activeRetransTimeout'' ''Active Retrans Timeout (ms)'' ''matter.session.active_retrans_timeout_ms'' FT_UINT32 ''BASE_DEC'' '''' 0,
     Field ''Session_activeThreshold'' ''Active Threshold (ms)'' ''matter.session.active_threshold_ms'' FT_UINT16 ''BASE_DEC'' '''' 0,
     Field ''Session_dataModelRevision'' ''Data Model Revision'' ''matter.session.data_model_revision'' FT_UINT16 ''BASE_DEC'' '''' 0,
     Field ''Session_interactionModelRevision'' ''Interaction Model Revision'' ''matter.session.interaction_model_revision'' FT_UINT16 ''BASE_DEC'' '''' 0,
     Field ''Session_specificationVersion'' ''Specification Version'' ''matter.session.specification_version'' FT_UINT32 ''BASE_HEX'' '''' 0,
     Field ''Session_maxPathsPerInvoke'' ''Max Paths Per Invoke'' ''matter.session.max_paths_per_invoke'' FT_UINT16 ''BASE_DEC'' '''' 0,
     Field ''Session_unknownParam'' ''Unknown Session Parameter'' ''matter.session.unknown_param'' FT_STRING ''BASE_NONE'' '''' 0]"

definition common_subtrees :: "string list" where
  "common_subtrees =
    [''MatterCommon'', ''SessionParameters'', ''PBKDFParameters'', ''SessionEncrypted'']"

definition im_fields_1 :: "field list" where
  "im_fields_1 =
    [Field ''IM_SubscriptionId'' ''Subscription Id'' ''im.struct.subscription_id'' FT_UINT64 ''BASE_HEX'' '''' 0,
     Field ''ImCommon_Version'' ''InteractionModelRevision'' ''im.common.revision'' FT_STRING ''BASE_NONE'' '''' 0,
     Field ''ImCommon_Unknown'' ''Unknown'' ''im.unknown'' FT_STRING ''BASE_NONE'' '''' 0,
     Field ''ImCommon_Field'' ''Field'' ''im.field'' FT_STRING ''BASE_NONE'' '''' 0,
     Field ''TimedRequest_TimeoutMs'' ''TimeoutMs'' ''im.timed_req.timeout_ms'' FT_UINT16 ''BASE_DEC'' '''' 0,
     Field ''StatusResponse_Status'' ''Status'' ''im.status_rsp.status'' FT_STRING ''BASE_NONE'' '''' 0,
     Field ''ReadRequest_AttributeRequests'' ''AttributeRequests'' ''im.read_req.attr_reqs'' FT_NONE ''BASE_NONE'' '''' 0,
     Field ''ReadRequest_EventRequests'' ''EventRequests'' ''im.read_req.event_reqs'' FT_NONE ''BASE_NONE'' '''' 0,
     Field ''ReadRequest_EventFilters'' ''EventFilters'' ''im.read_req.event_filters'' FT_NONE ''BASE_NONE'' '''' 0,
     Field ''ReadRequest_IsFabricFiltered'' ''IsFabricFiltered'' ''im.read_req.is_fabric_filtered'' FT_STRING ''BASE_NONE'' '''' 0,
     Field ''ReadRequest_DataVersionFilters'' ''DataVersionFilters'' ''im.read_req.data_version_filters'' FT_NONE ''BASE_NONE'' '''' 0,
     Field ''ReportData_SubscriptionID'' ''SubscriptionID'' ''im.report_data.SubscriptionID'' FT_STRING ''BASE_NONE'' '''' 0,
     Field ''ReportData_AttributeReports'' ''AttributeReports'' ''im.report_data.AttributeReports'' FT_NONE ''BASE_NONE'' '''' 0,
     Field ''ReportData_EventReports'' ''EventReports'' ''im.report_data.EventReports'' FT_NONE ''BASE_NONE'' '''' 0,
     Field ''ReportData_MoreChunkedMessages'' ''MoreChunkedMessages'' ''im.report_data.MoreChunkedMessages'' FT_STRING ''BASE_NONE'' '''' 0,
     Field ''ReportData_SuppressResponse'' ''SuppressResponse'' ''im.report_data.SuppressResponse'' FT_STRING ''BASE_NONE'' '''' 0,
     Field ''WriteRequest_SuppressResponse'' ''SuppressResponse'' ''im.write_req.SuppressResponse'' FT_STRING ''BASE_NONE'' '''' 0,
     Field ''WriteRequest_TimedRequest'' ''TimedRequest'' ''im.write_req.TimedRequest'' FT_STRING ''BASE_NONE'' '''' 0,
     Field ''WriteRequest_WriteRequests'' ''WriteRequests'' ''im.write_req.WriteRequests'' FT_NONE ''BASE_NONE'' '''' 0,
     Field ''WriteRequest_MoreChunkedMessages'' ''MoreChunkedMessages'' ''im.write_req.MoreChunkedMessages'' FT_STRING ''BASE_NONE'' '''' 0,
     Field ''WriteResponse_WriteResponses'' ''WriteResponses'' ''im.write_rsp.WriteResponses'' FT_NONE ''BASE_NONE'' '''' 0,
     Field ''SubscribeRequest_KeepSubscriptions'' ''KeepSubscriptions'' ''im.sub_req.KeepSubscriptions'' FT_STRING ''BASE_NONE'' '''' 0,
     Field ''SubscribeRequest_MinIntervalFloor'' ''MinIntervalFloor'' ''im.sub_req.MinIntervalFloor'' FT_STRING ''BASE_NONE'' '''' 0,
     Field ''SubscribeRequest_MaxIntervalCeiling'' ''MaxIntervalCeiling'' ''im.sub_req.MaxIntervalCeiling'' FT_STRING ''BASE_NONE'' '''' 0,
     Field ''SubscribeRequest_AttributeRequests'' ''AttributeRequests'' ''im.sub_req.AttributeRequests'' FT_NONE ''BASE_NONE'' '''' 0,
     Field ''SubscribeRequest_EventRequests'' ''EventRequests'' ''im.sub_req.EventRequests'' FT_NONE ''BASE_NONE'' '''' 0]"

definition im_fields_2 :: "field list" where
  "im_fields_2 =
    [Field ''SubscribeRequest_EventFilters'' ''EventFilters'' ''im.sub_req.EventFilters'' FT_NONE ''BASE_NONE'' '''' 0,
     Field ''SubscribeRequest_IsFabricFiltered'' ''IsFabricFiltered'' ''im.sub_req.IsFabricFiltered'' FT_STRING ''BASE_NONE'' '''' 0,
     Field ''SubscribeRequest_DataVersionFilters'' ''DataVersionFilters'' ''im.sub_req.DataVersionFilters'' FT_NONE ''BASE_NONE'' '''' 0,
     Field ''SubscribeResponse_SubscriptionID'' ''SubscriptionID'' ''im.sub_rsp.SubscriptionID'' FT_STRING ''BASE_NONE'' '''' 0,
     Field ''SubscribeResponse_MaxInterval'' ''MaxInterval'' ''im.sub_rsp.MaxInterval'' FT_STRING ''BASE_NONE'' '''' 0,
     Field ''CommandRequest_SuppressResponse'' ''Suppress Response'' ''im.cmd_req.suppress_response'' FT_BOOLEAN ''1'' '''' 0,
     Field ''CommandRequest_TimedRequest'' ''Timed Request'' ''im.cmd_req.timed_request'' FT_BOOLEAN ''1'' '''' 0,
     Field ''CommandRequest_CommandList'' ''Command List'' ''im.cmd_req.command_list'' FT_NONE ''BASE_NONE'' '''' 0,
     Field ''CommandRequest_Path'' ''Property Path'' ''im.cmd_req.path'' FT_STRING ''BASE_NONE'' '''' 0,
     Field ''CommandRequest_ExpiryTime'' ''Expiry Time'' ''im.cmd_req.expiry_time'' FT_UINT64 ''BASE_DEC'' '''' 0,
     Field ''CommandRequest_CommandType'' ''Command Type'' ''im.cmd_req.type'' FT_UINT64 ''BASE_DEC'' '''' 0,
     Field ''CommandRequest_RequiredVersion'' ''Required Version'' ''im.cmd_req.required_version'' FT_UINT64 ''BASE_DEC'' '''' 0,
     Field ''CommandRequest_Argument'' ''Command Argument'' ''im.cmd_req.argument'' FT_NONE ''BASE_NONE'' '''' 0,
     Field ''CommandResponse_SuppressResponse'' ''SuppressResponse'' ''im.cmd_rsp.SuppressResponse'' FT_STRING ''BASE_NONE'' '''' 0,
     Field ''CommandResponse_InvokeResponses'' ''InvokeResponses'' ''im.cmd_rsp.InvokeResponses'' FT_STRING ''BASE_NONE'' '''' 0,
     Field ''CommandResponse_InvokeResponsesDetail'' ''InvokeResponses'' ''im.cmd_rsp.invoke_responses'' FT_NONE ''BASE_NONE'' '''' 0,
     Field ''CommandResponse_Version'' ''Version'' ''im.cmd_rsp.version'' FT_UINT64 ''BASE_DEC'' '''' 0,
     Field ''CommandResponse_Result'' ''Result'' ''im.cmd_rsp.result'' FT_STRING ''BASE_NONE'' '''' 0,
     Field ''CommandDataIB'' ''CommandDataIB'' ''im.struct.CommandDataIB'' FT_NONE ''BASE_NONE'' '''' 0,
     Field ''CommandStatusIB'' ''CommandStatusIB'' ''im.struct.CommandStatusIB'' FT_NONE ''BASE_NONE'' '''' 0,
     Field ''StatusIB'' ''StatusIB'' ''im.struct.StatusIB'' FT_NONE ''BASE_NONE'' '''' 0,
     Field ''CommandStatus_Status'' ''StatusIB Status'' ''im.struct.StatusIB.status'' FT_UINT16 ''BASE_DEC'' '''' 0,
     Field ''CommandStatus_ClusterStatus'' ''StatusIB ClusterStatus'' ''im.struct.StatusIB.cluster_status'' FT_UINT16 ''BASE_DEC'' '''' 0,
     Field ''CommandStatus_Ref'' ''Command Ref'' ''im.struct.CommandStatusIB.ref'' FT_UINT16 ''BASE_DEC'' '''' 0,
     Field ''DataElem_PropertyPath'' ''Property Path'' ''im.struct.CommandPathIB'' FT_STRING ''BASE_NONE'' '''' 0,
     Field ''DataElem_PropertyData'' ''Property Data'' ''im.struct.CommandDataIB'' FT_NONE ''BASE_NONE'' '''' 0]"

definition im_subtrees :: "string list" where
  "im_subtrees =
    [''im'', ''im_message_container'', ''SubscribeRequest_PathList'', ''SubscribeRequest_LastObservedEventList'', ''SubscribeRequest_VersionList'', ''SubscribeResponse_LastVendedEventList'', ''CommandRequest_CommandList'', ''CommandResponse_InvokeResponseList'', ''CommandElem'', ''DataElem'', ''StatusIB'']"

definition security_fields_1 :: "field list" where
  "security_fields_1 =
    [Field ''CASEBeginSessionRequest_ControlHeader'' ''Control Header'' ''matter.case.begin_session_request.control_header'' FT_UINT8 ''BASE_HEX'' '''' 0,
     Field ''CASEBeginSessionRequest_EncType'' ''Proposed Session Type'' ''matter.case.begin_session_request.enc_type'' FT_UINT8 ''BASE_DEC'' ''VALS(sessionTypeNames)'' 15,
     Field ''CASEBeginSessionRequest_PerformKeyConfirmFlag'' ''Perform Key Confirmation'' ''matter.case.begin_session_request.perform_key_confirm'' FT_BOOLEAN ''8'' '''' 128,
     Field ''CASEBeginSessionRequest_ProposedConfig'' ''Proposed Config'' ''matter.case.begin_session_request.proposed_config'' FT_UINT16 ''BASE_HEX'' ''VALS(caseConfigNames)'' 0,
     Field ''CASEBeginSessionRequest_ProposedCurve'' ''Proposed ECDH Curve'' ''matter.case.begin_session_request.proposed_curve'' FT_UINT16 ''BASE_HEX'' ''VALS(matterCurveNames)'' 0,
     Field ''CASEBeginSessionRequest_ProposedSessionId'' ''Proposed Session Id'' ''matter.case.begin_session_request.proposed_key_id'' FT_UINT16 ''BASE_HEX'' '''' 0,
     Field ''CASEBeginSessionRequest_AltConfigList'' ''Alternate Config List'' ''matter.case.begin_session_request.alt_config_list'' FT_NONE ''BASE_NONE'' '''' 0,
     Field ''CASEBeginSessionRequest_AltConfigListElem'' ''Config'' ''matter.case.begin_session_request.alt_config_list.config'' FT_UINT16 ''BASE_HEX'' ''VALS(caseConfigNames)'' 0,
     Field ''CASEBeginSessionRequest_AltCurveList'' ''Alternate ECDH Curve List'' ''matter.case.begin_session_request.alt_curve_list'' FT_NONE ''BASE_NONE'' '''' 0,
     Field ''CASEBeginSessionRequest_AltCurveListElem'' ''Curve'' ''matter.case.begin_session_request.alt_curve_list.curve'' FT_UINT16 ''BASE_HEX'' ''VALS(matterCurveNames)'' 0,
     Field ''CASEBeginSessionRequest_ECDHPublicKey'' ''ECDH Public Key'' ''matter.case.begin_session_request.ecdh_public_key'' FT_BYTES ''SEP_SPACE'' '''' 0,
     Field ''CASEBeginSessionRequest_CertInfo'' ''Certificate Info'' ''matter.case.begin_session_request.cert_info'' FT_NONE ''BASE_NONE'' '''' 0,
     Field ''CASEBeginSessionRequest_Payload'' ''Payload'' ''matter.case.begin_session_request.payload'' FT_BYTES ''SEP_SPACE'' '''' 0,
     Field ''CASEBeginSessionRequest_Signature'' ''Signature'' ''matter.case.begin_session_request.signature'' FT_NONE ''BASE_NONE'' '''' 0,
     Field ''ECDSASig_r'' ''R'' ''matter.ecdsa_signature.r'' FT_BYTES ''SEP_SPACE'' '''' 0,
     Field ''ECDSASig_s'' ''S'' ''matter.ecdsa_signature.s'' FT_BYTES ''SEP_SPACE'' '''' 0,
     Field ''CertInfo_EntityCert'' ''Entity Certificate'' ''matter.cert_info.entity_certificate'' FT_NONE ''BASE_NONE'' '''' 0,
     Field ''CertInfo_EntityCertRef'' ''Entity Certificate Reference'' ''matter.cert_info.entity_certificate_ref'' FT_NONE ''BASE_NONE'' '''' 0,
     Field ''CertInfo_RelatedCertsList'' ''Related Certificates'' ''matter.cert_info.related_certificates'' FT_NONE ''BASE_NONE'' '''' 0,
     Field ''CertInfo_TrustAnchorsList'' ''Trust Anchors'' ''matter.cert_info.trust_anchors'' FT_NONE ''BASE_NONE'' '''' 0,
     Field ''Cert'' ''Certificate'' ''matter.cert'' FT_NONE ''BASE_NONE'' '''' 0,
     Field ''Cert_SerialNumber'' ''Serial Number'' ''matter.cert.serial_number'' FT_BYTES ''SEP_SPACE'' '''' 0,
     Field ''Cert_Issuer'' ''Issuer'' ''matter.cert.issuer'' FT_NONE ''BASE_NONE'' '''' 0,
     Field ''Cert_IssuerAttribute'' ''Issuer Attribute'' ''matter.cert.issuer.attr'' FT_STRING ''BASE_NONE'' '''' 0,
     Field ''Cert_Subject'' ''Subject'' ''matter.cert.subject'' FT_NONE ''BASE_NONE'' '''' 0,
     Field ''Cert_SubjectAttribute'' ''Subject Attribute'' ''matter.cert.subject.attr'' FT_STRING ''BASE_NONE'' '''' 0]"

definition security_fields_2 :: "field list" where
  "security_fields_2 =
    [Field ''Cert_NotBefore'' ''Not Before'' ''matter.cert.not_before'' FT_UINT64 ''BASE_DEC'' '''' 0,
     Field ''Cert_NotAfter'' ''Not After'' ''matter.cert.not_after'' FT_UINT64 ''BASE_DEC'' '''' 0,
     Field ''Cert_PublicKeyAlgorithm'' ''Public Key Algorithm'' ''matter.cert.public_key_algorithm'' FT_UINT32 ''BASE_HEX'' '''' 0,
     Field ''Cert_EllipticCurveIdentifier'' ''Elliptic Curve Identifier'' ''matter.cert.curve_id'' FT_UINT32 ''BASE_HEX'' ''VALS(matterCurveNames)'' 0,
     Field ''Cert_EllipticCurvePublicKey'' ''Elliptic Curve Public Key'' ''matter.cert.public_key'' FT_BYTES ''SEP_SPACE'' '''' 0,
     Field ''Cert_Signature'' ''Certificate Signature'' ''matter.cert.signature'' FT_STRING ''BASE_NONE'' '''' 0,
     Field ''Cert_Unknown'' ''Unknown Certificate Field'' ''matter.cert.unknown'' FT_STRING ''BASE_NONE'' '''' 0,
     Field ''CertRef'' ''Certificate Reference'' ''matter.cert_ref'' FT_NONE ''BASE_NONE'' '''' 0,
     Field ''CertRef_Subject'' ''Subject'' ''matter.cert_ref.subject'' FT_NONE ''BASE_NONE'' '''' 0,
     Field ''CertRef_PublicSessionId'' ''Public Key Session ID'' ''matter.cert_ref.public_session_id'' FT_BYTES ''SEP_SPACE'' '''' 0,
     Field ''CASEBeginSessionResponse_ControlHeader'' ''Control Header'' ''matter.case.begin_session_response.control_header'' FT_UINT8 ''BASE_HEX'' '''' 0,
     Field ''CASEBeginSessionResponse_KeyConfirmHashLength'' ''Key Confirmation Hash Length'' ''matter.case.begin_session_response.key_confirm_hash_len'' FT_UINT8 ''BASE_DEC'' '''' 192,
     Field ''CASEBeginSessionResponse_ECDHPublicKey'' ''ECDH Public Key'' ''matter.case.begin_session_response.ecdh_public_key'' FT_BYTES ''SEP_SPACE'' '''' 0,
     Field ''CASEBeginSessionResponse_CertInfo'' ''Certificate Info'' ''matter.case.begin_session_response.cert_info'' FT_NONE ''BASE_NONE'' '''' 0,
     Field ''CASEBeginSessionResponse_Payload'' ''Payload'' ''matter.case.begin_session_response.payload'' FT_BYTES ''SEP_SPACE'' '''' 0,
     Field ''CASEBeginSessionResponse_KeyConfirmHash'' ''Key Confirmation Hash'' ''matter.case.begin_session_response.key_confirm_hash'' FT_BYTES ''SEP_SPACE'' '''' 0,
     Field ''CASEBeginSessionResponse_Signature'' ''Signature'' ''matter.case.begin_session_response.signature'' FT_NONE ''BASE_NONE'' '''' 0,
     Field ''CASEInitiatorKeyConfirm_KeyConfirmHash'' ''Key Confirmation Hash'' ''matter.case.initiator_key_confirm.key_confirm_hash'' FT_BYTES ''SEP_SPACE'' '''' 0,
     Field ''CASEReconfigure_ProposedAltConfig'' ''Proposed Alternate Config'' ''matter.case.reconfigure.proposed_alt_config'' FT_UINT16 ''BASE_HEX'' ''VALS(caseConfigNames)'' 0,
     Field ''CASEReconfigure_ProposedAltCurve'' ''Proposed Alternate ECDH Curve'' ''matter.case.begin_session_request.proposed_alt_curve'' FT_UINT16 ''BASE_HEX'' ''VALS(matterCurveNames)'' 0,
     Field ''MessageCounterSyncResp_RequestMessageId'' ''Request Message Counter'' ''matter.message_counter_sync_response.request_message_id'' FT_UINT32 ''BASE_HEX'' '''' 0,
     Field ''KeyError_SessionId'' ''Session Id'' ''matter.key_error.key_id'' FT_UINT16 ''BASE_HEX'' '''' 0,
     Field ''KeyError_EncType'' ''Session Type'' ''matter.key_error.enc_type'' FT_UINT8 ''BASE_DEC'' ''VALS(sessionTypeNames)'' 0,
     Field ''KeyError_MsgCntr'' ''Message Counter'' ''matter.key_error.message_id'' FT_UINT32 ''BASE_HEX'' '''' 0,
     Field ''KeyError_StatusCode'' ''Status Code'' ''matter.key_error.status_code'' FT_UINT16 ''BASE_HEX'' '''' 0]"

definition security_subtrees :: "string list" where
  "security_subtrees =
    [''matter_security'', ''CASEBeginSessionRequest_AltConfigList'', ''CASEBeginSessionRequest_AltCurveList'', ''CASEBeginSessionRequest_CertInfo'', ''CASEBeginSessionRequest_Signature'', ''CertInfo_RelatedCertsList'', ''CertInfo_TrustAnchorsList'', ''Cert'', ''CertDN'', ''CertRef'']"

definition udc_fields :: "field list" where
  "udc_fields =
    [Field ''UDC_InstanceName'' ''Instance Name'' ''matter.udc.instance_name'' FT_STRING ''BASE_NONE'' '''' 0,
     Field ''UDC_IgnoreByte'' ''Ignore Byte'' ''matter.udc.ignore'' FT_UINT8 ''BASE_HEX'' '''' 0,
     Field ''UDC_TLVData'' ''UDC TLV Data'' ''matter.udc.tlv_data'' FT_BYTES ''SEP_SPACE'' '''' 0,
     Field ''UDC_RawPayload'' ''UDC Payload'' ''matter.udc.payload'' FT_BYTES ''SEP_SPACE'' '''' 0,
     Field ''UDC_VendorId'' ''Vendor ID'' ''matter.udc.vendor_id'' FT_UINT16 ''BASE_DEC'' '''' 0,
     Field ''UDC_ProductId'' ''Product ID'' ''matter.udc.product_id'' FT_UINT16 ''BASE_DEC'' '''' 0,
     Field ''UDC_DeviceName'' ''Device Name'' ''matter.udc.device_name'' FT_STRING ''BASE_NONE'' '''' 0,
     Field ''UDC_DeviceType'' ''Device Type'' ''matter.udc.device_type'' FT_UINT16 ''BASE_DEC'' '''' 0,
     Field ''UDC_PairingInst'' ''Pairing Instruction'' ''matter.udc.pairing_instruction'' FT_STRING ''BASE_NONE'' '''' 0,
     Field ''UDC_PairingHint'' ''Pairing Hint'' ''matter.udc.pairing_hint'' FT_UINT16 ''BASE_DEC'' '''' 0,
     Field ''UDC_RotatingId'' ''Rotating ID'' ''matter.udc.rotating_id'' FT_BYTES ''SEP_SPACE'' '''' 0,
     Field ''UDC_CdPort'' ''CD Port'' ''matter.udc.cd_port'' FT_UINT16 ''BASE_DEC'' '''' 0,
     Field ''UDC_TargetAppList'' ''Target App List'' ''matter.udc.target_app_list'' FT_NONE ''BASE_NONE'' '''' 0,
     Field ''UDC_TargetApp'' ''Target App'' ''matter.udc.target_app'' FT_NONE ''BASE_NONE'' '''' 0,
     Field ''UDC_AppVendorId'' ''App Vendor ID'' ''matter.udc.target_app.vendor_id'' FT_UINT16 ''BASE_DEC'' '''' 0,
     Field ''UDC_AppProductId'' ''App Product ID'' ''matter.udc.target_app.product_id'' FT_UINT16 ''BASE_DEC'' '''' 0,
     Field ''UDC_NoPasscode'' ''No Passcode'' ''matter.udc.no_passcode'' FT_BOOLEAN ''8'' '''' 0,
     Field ''UDC_CdUponPasscodeDialog'' ''CD Upon Passcode Dialog'' ''matter.udc.cd_upon_passcode_dialog'' FT_BOOLEAN ''8'' '''' 0,
     Field ''UDC_CommissionerPasscode'' ''Commissioner Passcode'' ''matter.udc.commissioner_passcode'' FT_BOOLEAN ''8'' '''' 0,
     Field ''UDC_CommissionerPasscodeReady'' ''Commissioner Passcode Ready'' ''matter.udc.commissioner_passcode_ready'' FT_BOOLEAN ''8'' '''' 0,
     Field ''UDC_CancelPasscode'' ''Cancel Passcode'' ''matter.udc.cancel_passcode'' FT_BOOLEAN ''8'' '''' 0,
     Field ''UDC_PasscodeLength'' ''Passcode Length'' ''matter.udc.passcode_length'' FT_UINT8 ''BASE_DEC'' '''' 0,
     Field ''UDC_UnknownTag'' ''Unknown Tag'' ''matter.udc.unknown'' FT_STRING ''BASE_NONE'' '''' 0]"

definition udc_subtrees :: "string list" where
  "udc_subtrees =
    [''udc'', ''udc_target_app'', ''udc_target_app_list'']"

definition echo_fields :: "field list" where
  "echo_fields =
    [Field ''echo_payload'' ''Payload'' ''matter_echo.payload'' FT_BYTES ''SEP_SPACE'' '''' 0]"

definition echo_subtrees :: "string list" where
  "echo_subtrees =
    [''matter_echo'']"

definition sub_fields :: "field list" where
  "sub_fields = common_fields_1 @ common_fields_2 @ im_fields_1 @ im_fields_2 @ security_fields_1 @ security_fields_2 @ udc_fields @ echo_fields"

definition all_fields :: "field list" where
  "all_fields = matter_fields @ sub_fields"

text \<open>
  The host gives different numbers to different variables and answers with the type that was registered.
\<close>

definition knows_fields :: "registry \<Rightarrow> field list \<Rightarrow> bool" where
  "knows_fields R fs \<longleftrightarrow> inj_on (reg_hf R) (set (map field_var fs)) \<and>
     (\<forall>f \<in> set fs. proto_registrar_get_ftype (reg_env R) (reg_hf R (field_var f)) = field_type f)"

text \<open>A host that numbers the fields in order.\<close>

fun index_of :: "string \<Rightarrow> string list \<Rightarrow> int option" where
  "index_of x [] = None"
| "index_of x (y # ys) = (if x = y then Some 0 else map_option (\<lambda>i. i + 1) (index_of x ys))"

definition number_of :: "string list \<Rightarrow> string \<Rightarrow> int" where
  "number_of xs x = (case index_of x xs of Some i \<Rightarrow> i | None \<Rightarrow> - 1)"

definition field_types :: "field list \<Rightarrow> int \<Rightarrow> ftenum" where
  "field_types fs i = (if 0 \<le> i \<and> i < int (length fs) then field_type (fs ! nat i) else FT_OTHER)"

text \<open>No two fields of a dissector share a variable.\<close>

text \<open>The variables of the fields of all dissectors are pairwise distinct; those of different files differ in their first letters.\<close>

lemma distinct_apart:
  assumes "distinct xs" "distinct ys" "list_all P xs" "list_all (\<lambda>y. \<not> P y) ys"
  shows "distinct (xs @ ys)"
  using assms by (auto simp: list_all_iff)

lemma sub_fields_distinct: "distinct (map field_var sub_fields)"
proof -
  let ?c = "map field_var (common_fields_1 @ common_fields_2)"
  let ?i = "map field_var (im_fields_1 @ im_fields_2)"
  let ?s = "map field_var (security_fields_1 @ security_fields_2)"
  let ?u = "map field_var udc_fields" and ?e = "map field_var echo_fields"
  have d: "distinct ?c" "distinct ?i" "distinct ?s" "distinct ?u" "distinct ?e" by code_simp+
  have ue: "distinct (?u @ ?e)"
    by (rule distinct_apart [OF d(4,5), of "\<lambda>x. hd x = CHR ''U''"]) code_simp+
  have sue: "distinct (?s @ ?u @ ?e)"
    by (rule distinct_apart [OF d(3) ue, of "\<lambda>x. hd x \<in> set ''CEKM''"]) code_simp+
  have isue: "distinct (?i @ ?s @ ?u @ ?e)"
    by (rule distinct_apart [OF d(2) sue, of "\<lambda>x. take 2 x \<in> set [''Co'', ''Da'', ''IM'', ''Im'', ''Re'', ''St'', ''Su'', ''Ti'', ''Wr'']"])
      code_simp+
  have "distinct (?c @ ?i @ ?s @ ?u @ ?e)"
    by (rule distinct_apart [OF d(1) isue, of "\<lambda>x. take 2 x \<in> set [''Ch'', ''PB'', ''Pa'', ''Se''] \<or> take 9 x = ''StatusRep''"])
      code_simp+
  then show ?thesis unfolding sub_fields_def map_append append_assoc .
qed

lemma index_of_nth: "distinct xs \<Longrightarrow> i < length xs \<Longrightarrow> index_of (xs ! i) xs = Some (int i)"
proof (induction xs arbitrary: i)
  case (Cons y ys)
  then show ?case by (cases i) auto
qed simp

lemma number_of_nth: "distinct xs \<Longrightarrow> i < length xs \<Longrightarrow> number_of xs (xs ! i) = int i"
  by (simp add: number_of_def index_of_nth)

lemma numbered_types:
  assumes "distinct (map field_var fs)" and "f \<in> set fs"
  shows "field_types fs (number_of (map field_var fs) (field_var f)) = field_type f"
proof -
  obtain i where "i < length fs" "f = fs ! i" using assms(2) by (auto simp: in_set_conv_nth)
  then show ?thesis using number_of_nth [OF assms(1), of i] by (simp add: field_types_def)
qed

lemma number_of_inj: "distinct xs \<Longrightarrow> inj_on (number_of xs) (set xs)"
  by (auto simp: inj_on_def in_set_conv_nth number_of_nth)

text \<open>The host that gives the fields these numbers, and every allocation succeeds.\<close>

definition plain_registry :: "dissector \<Rightarrow> field list \<Rightarrow> registry" where
  "plain_registry raw fs =
     \<lparr>reg_env = \<lparr>proto_registrar_get_ftype = field_types fs, malloc_ok = (\<lambda>_. True), realloc_ok = (\<lambda>_. True),
        ws_escape_string = text_of, fmt_17g = (\<lambda>_. ''1'')\<rparr>,
      reg_hf = number_of (map field_var fs), reg_ett = (\<lambda>_. 0), reg_proto = (\<lambda>_. 0), raw_object = raw\<rparr>"

lemma plain_registry_knows: "distinct (map field_var fs) \<Longrightarrow> knows_fields (plain_registry raw fs) fs"
  using number_of_inj [of "map field_var fs"] by (simp add: knows_fields_def plain_registry_def numbered_types)

end
