(* ===== verification/Item_Types.thy ===== *)
theory Item_Types
  imports Protocol_Common Protocol_Registration
begin

text \<open>
  Types of items. The host stops on an item whose value does not have the type with which its field was registered
  (an integer for a byte string, a string for a number). \<open>items_fit\<close> is the judgement on the calls a dissector
  makes, \<open>adds_fitting\<close> on a handler, with rules for the ways in which handlers are put together; no
  invariant is needed, since reading does not touch the tree, whatever its result.
\<close>

section \<open>Reading adds no items\<close>

named_theorems same_trace \<open>operations of the reader leave the calls as they are\<close>

lemma SuccessOrExit_cases:
  assumes "SuccessOrExit m k = Some (err, d')"
  obtains "m = Some (err, d')" "err \<noteq> 0" | d where "m = Some (0, d)" "k d = Some (err, d')"
  using assms by (auto simp: SuccessOrExit_def split: option.splits if_splits)

lemma EnsureData_trace [same_trace]: "EnsureData e d = (err, d') \<Longrightarrow> trace d' = trace d"
  by (auto simp: EnsureData_def Let_def split: if_splits option.splits prod.splits)

lemma ReadData_loop_trace: "ReadData_loop cap acc len d = Some (err, bs, d') \<Longrightarrow> trace d' = trace d"
proof (induction cap acc len d "(err, bs, d')" rule: ReadData_loop.raw_induct [rotated, consumes 1, case_names step])
  case (step loop cap acc len d)
  then show ?case
    by (auto simp: Let_def split: if_splits option.splits prod.splits dest!: EnsureData_trace)
qed

lemma ReadData_trace [same_trace]: "ReadData cap len d = Some (err, bs, d') \<Longrightarrow> trace d' = trace d"
  by (simp add: ReadData_def ReadData_loop_trace)

lemma ReadElement_trace [same_trace]: "ReadElement d = Some (err, d') \<Longrightarrow> trace d' = trace d"
  by (auto simp: ReadElement_def ReadElementHead_def ReadElementFields_def Let_def
      split: if_splits option.splits prod.splits dest!: same_trace)

lemma SkipData_trace [same_trace]: "SkipData d = Some (err, d') \<Longrightarrow> trace d' = trace d"
  by (auto simp: SkipData_def split: if_splits option.splits prod.splits dest!: same_trace)

lemma SkipToEnd_enter_trace: "SkipToEnd_enter n t d = (n', d') \<Longrightarrow> trace d' = trace d"
  by (auto simp: SkipToEnd_enter_def Let_def split: if_splits)

lemma SkipToEnd_loop_trace: "SkipToEnd_loop n t d = Some (err, d') \<Longrightarrow> trace d' = trace d"
proof (induction n t d "(err, d')" rule: SkipToEnd_loop.raw_induct [rotated, consumes 1, case_names step])
  case (step loop n t d)
  obtain n1 d1 where e: "SkipToEnd_enter n t d = (n1, d1)" by fastforce
  have "trace d1 = trace d" by (rule SkipToEnd_enter_trace [OF e])
  then show ?case
    using step(2) e by (auto split: if_splits elim!: SuccessOrExit_cases dest!: same_trace step(1))
qed
lemma SkipToEndOfContainer_trace [same_trace]: "SkipToEndOfContainer d = Some (err, d') \<Longrightarrow> trace d' = trace d"
  by (auto simp: SkipToEndOfContainer_def SetContainerOpen_def Let_def dest!: SkipToEnd_loop_trace)

lemma EnterContainer_trace [same_trace]: "EnterContainer d t = (err, ct, d') \<Longrightarrow> trace d' = trace d"
  by (auto simp: EnterContainer_def ClearElementState_def SetContainerOpen_def Let_def split: if_splits)

lemma ExitContainer_trace [same_trace]: "ExitContainer t d = Some (err, d') \<Longrightarrow> trace d' = trace d"
  by (auto simp: ExitContainer_def ClearElementState_def elim!: SuccessOrExit_cases dest!: same_trace)

lemma Skip_trace [same_trace]: "Skip d = Some (err, d') \<Longrightarrow> trace d' = trace d"
  by (auto simp: Skip_def ClearElementState_def elim!: SuccessOrExit_cases split: if_splits prod.splits dest!: same_trace)

lemma Next_trace [same_trace]: "Next d = Some (err, d') \<Longrightarrow> trace d' = trace d"
  by (auto simp: Next_def elim!: SuccessOrExit_cases split: if_splits dest!: same_trace)

lemma DupString_trace [same_trace]: "DupString ok d = Some (err, s, d') \<Longrightarrow> trace d' = trace d"
  by (auto simp: DupString_def split: if_splits option.splits prod.splits dest!: same_trace)

lemma GetDataPtr_trace [same_trace]: "GetDataPtr d = (err, p, d') \<Longrightarrow> trace d' = trace d"
  by (auto simp: GetDataPtr_def Let_def split: if_splits prod.splits dest!: same_trace)

lemma MarkElem_trace [same_trace]:
  "MarkElemStart d = Some (err, d') \<Longrightarrow> trace d' = trace d"
  "MarkElemLength d = Some (err, d') \<Longrightarrow> trace d' = trace d"
  by (auto simp: MarkElemStart_def MarkElemLength_def VerifyOrExit_def Let_def split: if_splits option.splits)

lemma Dissector_Next_trace [same_trace]: "Dissector_Next d = Some (err, d') \<Longrightarrow> trace d' = trace d"
  by (auto simp: Dissector_Next_def Let_def elim!: SuccessOrExit_cases dest!: same_trace)

lemma PushContainer_trace [same_trace]: "PushContainer E t d = Some (err, d') \<Longrightarrow> trace d' = trace d"
  by (auto simp: PushContainer_def Let_def VerifyOrExit_def elim!: SuccessOrExit_cases split: if_splits option.splits)

lemma PopContainer_trace [same_trace]: "PopContainer d = Some (t, d') \<Longrightarrow> trace d' = trace d"
  by (auto simp: PopContainer_def Let_def split: if_splits option.splits)

lemma Dissector_EnterContainer_trace [same_trace]: "Dissector_EnterContainer E d = Some (err, d') \<Longrightarrow> trace d' = trace d"
  by (auto simp: Dissector_EnterContainer_def elim!: SuccessOrExit_cases split: if_splits prod.splits dest!: same_trace)

lemma Dissector_ExitContainer_trace [same_trace]: "Dissector_ExitContainer d = Some (err, d') \<Longrightarrow> trace d' = trace d"
  by (auto simp: Dissector_ExitContainer_def elim!: SuccessOrExit_cases split: option.splits dest!: same_trace)

section \<open>The judgement\<close>

fun fits :: "ftenum \<Rightarrow> item_value \<Rightarrow> bool" where
  "fits T (AddInt v) \<longleftrightarrow> T \<in> {FT_INT8, FT_INT16, FT_INT24, FT_INT32}"
| "fits T (AddInt64 v) \<longleftrightarrow> T \<in> {FT_INT40, FT_INT48, FT_INT56, FT_INT64}"
| "fits T (AddUint v) \<longleftrightarrow> T \<in> {FT_UINT8, FT_UINT16, FT_UINT24, FT_UINT32, FT_FRAMENUM}"
| "fits T (AddUint64 v) \<longleftrightarrow> T \<in> {FT_UINT40, FT_UINT48, FT_UINT56, FT_UINT64}"
| "fits T (AddBoolean b) \<longleftrightarrow> T = FT_BOOLEAN"
| "fits T (AddDouble x) \<longleftrightarrow> T = FT_DOUBLE"
| "fits T (AddString s) \<longleftrightarrow> T = FT_STRING"
| "fits T (AddBytes bs) \<longleftrightarrow> T = FT_BYTES"
| "fits T (AddNone s) \<longleftrightarrow> T = FT_NONE"
| "fits T AddItem \<longleftrightarrow> True"
| "fits T (AddStringFormatValue s) \<longleftrightarrow> T = FT_STRING"
| "fits T (AddStringFormat s) \<longleftrightarrow> T = FT_STRING"
| "fits T (AddUintFormatValue v s) \<longleftrightarrow> T \<in> {FT_UINT8, FT_UINT16, FT_UINT24, FT_UINT32, FT_FRAMENUM}"

text \<open>The fields in \<open>U\<close> are exempt.\<close>

definition call_fits :: "registry \<Rightarrow> int set \<Rightarrow> proto_call \<Rightarrow> bool" where
  "call_fits R U c \<longleftrightarrow>
     (case c of ProtoAdd tree hf off len v \<Rightarrow> hf \<in> U \<or> fits (proto_registrar_get_ftype (reg_env R) hf) v | _ \<Rightarrow> True)"

definition items_fit :: "registry \<Rightarrow> int set \<Rightarrow> proto_call list \<Rightarrow> bool" where
  "items_fit R U cs \<longleftrightarrow> (\<forall>c \<in> set cs. call_fits R U c)"

definition more_fit :: "registry \<Rightarrow> int set \<Rightarrow> dissector \<Rightarrow> dissector \<Rightarrow> bool" where
  "more_fit R U d d' \<longleftrightarrow> (\<exists>cs. trace d' = trace d @ cs \<and> items_fit R U cs)"

definition adds_fitting :: "registry \<Rightarrow> int set \<Rightarrow> elem_handler \<Rightarrow> bool" where
  "adds_fitting R U h \<longleftrightarrow> (\<forall>d err d'. h d = Some (err, d') \<longrightarrow> more_fit R U d d')"

named_theorems fitting_intros \<open>typing of handlers\<close>

lemma items_fit_simps [simp]:
  "items_fit R U []" "items_fit R U (c # cs) \<longleftrightarrow> call_fits R U c \<and> items_fit R U cs"
  "items_fit R U (cs @ ds) \<longleftrightarrow> items_fit R U cs \<and> items_fit R U ds"
  by (auto simp: items_fit_def)

lemma more_fit_refl: "trace d' = trace d \<Longrightarrow> more_fit R U d d'"
  by (simp add: more_fit_def)

lemma more_fit_trans [trans]: "more_fit R U d d1 \<Longrightarrow> more_fit R U d1 d2 \<Longrightarrow> more_fit R U d d2"
  by (auto simp: more_fit_def)

lemma more_fit_same: "trace d1 = trace d \<Longrightarrow> more_fit R U d1 d2 \<Longrightarrow> more_fit R U d d2"
  by (simp add: more_fit_def)

lemma more_fit_item:
  "hf \<in> U \<or> fits (proto_registrar_get_ftype (reg_env R) hf) v \<Longrightarrow> more_fit R U d (add_item tree hf v d)"
  by (simp add: more_fit_def add_item_def emit_def call_fits_def)

lemma more_fit_emit: "call_fits R U c \<Longrightarrow> more_fit R U d (emit c d)"
  by (simp add: more_fit_def emit_def)

lemma adds_fittingD: "adds_fitting R U h \<Longrightarrow> h d = Some (err, d') \<Longrightarrow> more_fit R U d d'"
  by (auto simp: adds_fitting_def)

section \<open>Rules\<close>

lemma SuccessOrExit_fits:
  assumes "SuccessOrExit m k = Some y" and "\<And>err d'. m = Some (err, d') \<Longrightarrow> more_fit R U d d'"
    and "\<And>d' z. m = Some (0, d') \<Longrightarrow> k d' = Some z \<Longrightarrow> more_fit R U d' (snd z)"
  shows "more_fit R U d (snd y)"
proof -
  have "SuccessOrExit m k = Some (fst y, snd y)" using assms(1) by simp
  then show ?thesis
  proof (rule SuccessOrExit_cases)
    assume "m = Some (fst y, snd y)"
    then show ?thesis by (rule assms(2))
  next
    fix d1 assume a: "m = Some (0, d1)" "k d1 = Some (fst y, snd y)"
    show ?thesis using more_fit_trans [OF assms(2) [OF a(1)] assms(3) [OF a]] by simp
  qed
qed

lemma unexpected_fits [fitting_intros]: "adds_fitting R U unexpected"
  by (simp add: adds_fitting_def unexpected_def more_fit_refl)

lemma of_types_fits:
  assumes "\<And>d err d'. GetType d \<in> set types \<Longrightarrow> h d = Some (err, d') \<Longrightarrow> more_fit R U d d'"
  shows "adds_fitting R U (of_types types h)"
  using assms by (auto simp: adds_fitting_def of_types_def VerifyOrExit_def more_fit_refl split: if_splits)

lemma of_types_fits_any [fitting_intros]: "adds_fitting R U h \<Longrightarrow> adds_fitting R U (of_types types h)"
  by (rule of_types_fits) (rule adds_fittingD)

lemma context_switch_fits [fitting_intros]:
  assumes "\<forall>(n, h) \<in> set cases. adds_fitting R U h" and "adds_fitting R U dflt"
  shows "adds_fitting R U (context_switch cases dflt)"
  unfolding adds_fitting_def
proof (intro allI impI)
  fix d err d' assume c: "context_switch cases dflt d = Some (err, d')"
  show "more_fit R U d d'"
  proof (cases "IsContextTag (GetTag d)")
    case False
    then show ?thesis using c by (simp add: context_switch_def more_fit_refl)
  next
    case True
    then show ?thesis using c assms
      by (auto simp: context_switch_def tag_switch_def split: option.splits dest!: map_of_SomeD intro: adds_fittingD)
  qed
qed

text \<open>The loop and its frame.\<close>

lemma each_elem_fits:
  assumes "each_elem b s = Some y" and "\<And>l d err l' d'. b (l, d) = Some (err, l', d') \<Longrightarrow> more_fit R U d d'"
  shows "more_fit R U (snd s) (snd (snd y))"
  using assms
proof (induction rule: each_elem.raw_induct [rotated, consumes 1, case_names step])
  case (step each b s y)
  note IH = step(1) and eq = step(2) and body = step(3)
  obtain err d where n: "Dissector_Next (snd s) = Some (err, d)" using eq by (auto split: option.splits)
  have t: "trace d = trace (snd s)" by (rule Dissector_Next_trace [OF n])
  show ?case
  proof (cases "err = 0")
    case False
    then show ?thesis using eq n t by (auto split: if_splits intro: more_fit_refl)
  next
    case True
    then have b: "SuccessOrExit (b (fst s, d)) (each b) = Some (fst y, snd y)" using eq n by simp
    show ?thesis using b
    proof (rule SuccessOrExit_cases)
      assume "b (fst s, d) = Some (fst y, snd y)"
      then show ?thesis using more_fit_same [OF t body [of "fst s" d "fst y" "fst (snd y)" "snd (snd y)"]] by simp
    next
      fix s1 assume "b (fst s, d) = Some (0, s1)" and e: "each b s1 = Some (fst y, snd y)"
      then have "more_fit R U (snd s) (snd s1)"
        using more_fit_same [OF t body [of "fst s" d 0 "fst s1" "snd s1"]] by simp
      also have "more_fit R U (snd s1) (snd (snd y))" by (rule IH [of b s1 y]) (use e body in simp_all)
      finally show ?thesis .
    qed
  qed
qed

lemma in_container_fits:
  assumes "in_container E b (l, d) = Some (err, l', d')"
    and b: "\<And>l d err l' d'. b (l, d) = Some (err, l', d') \<Longrightarrow> more_fit R U d d'"
  shows "more_fit R U d d'"
proof -
  have loop: "more_fit R U d1 d2" if "each_elem b (l1, d1) = Some (err, l2, d2)" for l1 d1 err l2 d2
    using each_elem_fits [OF that b] by simp
  obtain err1 d1 where e: "Dissector_EnterContainer E d = Some (err1, d1)"
    using assms(1) by (auto simp: in_container_def with_locals_def elim!: SuccessOrExit_cases)
  note t = Dissector_EnterContainer_trace [OF e]
  show ?thesis
  proof (cases "err1 = 0")
    case False
    then show ?thesis using assms(1) e t by (simp add: in_container_def with_locals_def more_fit_refl)
  next
    case True
    then have s: "SuccessOrExit (each_elem b (l, d1)) (\<lambda>s. with_locals (fst s) (Dissector_ExitContainer (snd s))) = Some (err, l', d')"
      using assms(1) e by (simp add: in_container_def with_locals_def)
    show ?thesis using s
    proof (rule SuccessOrExit_cases)
      assume "each_elem b (l, d1) = Some (err, l', d')"
      from more_fit_same [OF t loop [OF this]] show ?thesis .
    next
      fix s2 assume l: "each_elem b (l, d1) = Some (0, s2)" and x: "with_locals (fst s2) (Dissector_ExitContainer (snd s2)) = Some (err, l', d')"
      have "more_fit R U d (snd s2)" using more_fit_same [OF t loop [of l d1 0 "fst s2" "snd s2"]] l by simp
      also have "more_fit R U (snd s2) d'"
        using x by (auto simp: with_locals_def intro!: more_fit_refl dest: Dissector_ExitContainer_trace)
      finally show ?thesis .
    qed
  qed
qed

lemma members_fits [fitting_intros]: "adds_fitting R U h \<Longrightarrow> adds_fitting R U (members R h)"
  unfolding adds_fitting_def [of R U "members R h"]
proof (intro allI impI)
  fix d err d' assume h: "adds_fitting R U h" and m: "members R h d = Some (err, d')"
  let ?b = "\<lambda>(_ :: unit, d). with_locals () (h d)"
  obtain l where c: "in_container (reg_env R) ?b ((), d) = Some (err, l, d')" using m by (auto simp: members_def)
  show "more_fit R U d d'"
    by (rule in_container_fits [OF c]) (use adds_fittingD [OF h] in \<open>auto simp: with_locals_def\<close>)
qed

lemma AddSubTreeItem_fits: "AddSubTreeItem tree hf ett sub d = (err, sub', d') \<Longrightarrow> more_fit R U d d'"
proof -
  assume a: "AddSubTreeItem tree hf ett sub d = (err, sub', d')"
  have "more_fit R U d (add_item tree hf AddItem d)" by (rule more_fit_item) simp
  then have "more_fit R U d (emit (ProtoSubtree (mLastItem (add_item tree hf AddItem d)) ett) (add_item tree hf AddItem d))"
    by (rule more_fit_trans) (simp add: more_fit_emit call_fits_def)
  then show ?thesis using a by (auto simp: AddSubTreeItem_def Let_def more_fit_refl split: if_splits)
qed

lemma subtree_members_fits [fitting_intros]:
  assumes "\<And>sub. adds_fitting R U (h sub)"
  shows "adds_fitting R U (subtree_members R hf ett h tree)"
  unfolding adds_fitting_def
proof (intro allI impI)
  fix d err d' assume s: "subtree_members R hf ett h tree d = Some (err, d')"
  obtain err1 sub d1 where a: "AddSubTreeItem tree hf ett None d = (err1, sub, d1)" by (metis prod_cases3)
  note f = AddSubTreeItem_fits [OF a, of R U]
  show "more_fit R U d d'"
  proof (cases "err1 = 0")
    case True
    then have "members R (h sub) d1 = Some (err, d')" using s a by (simp add: subtree_members_def)
    then show ?thesis using more_fit_trans [OF f adds_fittingD [OF members_fits [OF assms]]] by blast
  next
    case False
    then show ?thesis using s a f by (simp add: subtree_members_def)
  qed
qed

lemma struct_item_fits [fitting_intros]:
  "(\<And>sub. adds_fitting R U (h sub)) \<Longrightarrow> adds_fitting R U (struct_item R hf ett h tree)"
  by (simp add: struct_item_def fitting_intros)

text \<open>
  Numbers are checked against the type of the field; for the other elements nothing is, so the handler has to.
\<close>

fun type_of_field :: "ftenum \<Rightarrow> TLVType option" where
  "type_of_field FT_BOOLEAN = Some kTLVType_Boolean"
| "type_of_field FT_DOUBLE = Some kTLVType_FloatingPointNumber"
| "type_of_field FT_STRING = Some kTLVType_UTF8String"
| "type_of_field FT_BYTES = Some kTLVType_ByteString"
| "type_of_field FT_NONE = Some kTLVType_Null"
| "type_of_field _ = None"

lemma AddTypedItem_fits:
  assumes a: "AddTypedItem (reg_env R) tree hf d = Some (err, d')"
    and ty: "GetType d \<in> {kTLVType_SignedInteger, kTLVType_UnsignedInteger} \<or> hf \<in> U \<or>
      type_of_field (proto_registrar_get_ftype (reg_env R) hf) = Some (GetType d)"
  shows "more_fit R U d d'"
proof -
  have item: "more_fit R U d (add_item tree hf v d1)"
    if "trace d1 = trace d" and "hf \<in> U \<or> fits (proto_registrar_get_ftype (reg_env R) hf) v" for v d1
    by (rule more_fit_same [OF that(1) more_fit_item [OF that(2)]])
  show ?thesis
  proof (cases "GetType d \<in> {kTLVType_SignedInteger, kTLVType_UnsignedInteger}")
    case True
    then show ?thesis
      using a by (auto simp: AddTypedItem_def Let_def split: if_splits prod.splits intro!: item intro: more_fit_refl)
  next
    case False
    have ok: "type_of_field T = Some kTLVType_Boolean \<Longrightarrow> T = FT_BOOLEAN" 
      "type_of_field T = Some kTLVType_FloatingPointNumber \<Longrightarrow> T = FT_DOUBLE"
      "type_of_field T = Some kTLVType_UTF8String \<Longrightarrow> T = FT_STRING"
      "type_of_field T = Some kTLVType_ByteString \<Longrightarrow> T = FT_BYTES"
      "type_of_field T = Some kTLVType_Null \<Longrightarrow> T = FT_NONE" for T
      by (cases T; simp)+
    show ?thesis
    proof (cases "hf \<in> U")
      case True
      then show ?thesis using a False
        by (auto simp: AddTypedItem_def Let_def split: if_splits prod.splits option.splits dest!: same_trace intro!: item intro: more_fit_refl)
    next
      case U: False
      then show ?thesis using a False ty ok [of "proto_registrar_get_ftype (reg_env R) hf"]
        by (auto simp: AddTypedItem_def Let_def split: if_splits prod.splits option.splits dest!: same_trace intro!: item intro: more_fit_refl)
    qed
  qed
qed

lemma typed_fits [fitting_intros]: "reg_hf R hf_var \<in> U \<Longrightarrow> adds_fitting R U (typed R hf_var tree)"
  unfolding adds_fitting_def typed_def by (blast intro: AddTypedItem_fits)

lemma typed_field_fits [fitting_intros]:
  assumes "\<forall>ty \<in> set types. ty \<in> {kTLVType_SignedInteger, kTLVType_UnsignedInteger} \<or>
      type_of_field (proto_registrar_get_ftype (reg_env R) (reg_hf R hf_var)) = Some ty"
  shows "adds_fitting R U (of_types types (typed R hf_var tree))"
proof (rule of_types_fits)
  fix d err d' assume "GetType d \<in> set types" and "typed R hf_var tree d = Some (err, d')"
  then show "more_fit R U d d'" using assms unfolding typed_def by (intro AddTypedItem_fits) auto
qed

text \<open>The generic printer adds strings only.\<close>

lemma GenericHeader_Value_trace: "GenericValue E sb d = Some (err, sb', d') \<Longrightarrow> trace d' = trace d"
  by (auto simp: GenericValue_def Let_def split: if_splits option.splits prod.splits dest!: same_trace)

lemma AddGenericTLV_fits:
  assumes "AddGenericTLV_run E tree hf pc d = Some y"
    and "hf \<in> U \<or> proto_registrar_get_ftype (reg_env R) hf = FT_STRING"
  shows "more_fit R U d (snd y)"
  using assms
proof (induction rule: AddGenericTLV_run.raw_induct [rotated, consumes 1, case_names step])
  case (step run E tree hf pc d y)
  note IH = step(1) and eq = step(2) and str = step(3)
  have item: "more_fit R U d1 (AddStringItemF tree hf s d1)" "more_fit R U d1 (AddStringItemWithHeaderF tree hf s d1)" for s d1
    using str by (auto simp: AddStringItemF_def AddStringItemWithHeaderF_def intro!: more_fit_item)
  have close: "more_fit R U d1 d2" if "GenericClose tree hf i ty n d1 = Some (err, d2)" for i ty n d1 err d2
    using that item by (auto simp: GenericClose_def split: option.splits)
  show ?case
  proof (cases pc)
    case (GMembers i)
    obtain err d1 where n: "Dissector_Next d = Some (err, d1)" using eq GMembers by (auto split: option.splits)
    note t = Dissector_Next_trace [OF n]
    show ?thesis
    proof (cases "err = 0")
      case False
      then show ?thesis using eq n t GMembers by (auto split: if_splits intro: more_fit_refl)
    next
      case True
      then have "SuccessOrExit (run E tree hf (GItem False True (i + 1)) d1) (\<lambda>d. run E tree hf (GMembers i) d) = Some (fst y, snd y)"
        using eq n GMembers by simp
      then show ?thesis
      proof (rule SuccessOrExit_cases)
        assume "run E tree hf (GItem False True (i + 1)) d1 = Some (fst y, snd y)"
        then show ?thesis using more_fit_same [OF t IH [OF _ str]] by simp
      next
        fix d2 assume a: "run E tree hf (GItem False True (i + 1)) d1 = Some (0, d2)" "run E tree hf (GMembers i) d2 = Some (fst y, snd y)"
        have "more_fit R U d d2" using more_fit_same [OF t IH [OF a(1) str]] by simp
        also have "more_fit R U d2 (snd y)" using IH [OF a(2) str] by simp
        finally show ?thesis .
      qed
    qed
  next
    case (GItem st sh i)
    obtain sb err sb' d1 where g: "GenericHeader st sh i d = Some sb" "GenericValue E sb d = Some (err, sb', d1)"
      using eq GItem by (auto simp: Let_def split: option.splits)
    note t = GenericHeader_Value_trace [OF g(2)]
    show ?thesis
    proof (cases "err = 0")
      case False
      then show ?thesis using eq g t GItem by (cases sb') (auto intro: more_fit_refl)
    next
      case True
      then obtain s n where s: "sb' = (Some s, n)" using eq g GItem by (cases sb') (auto simp: Let_def split: option.splits)
      define d2 where "d2 = (if \<not> sh then AddStringItemF tree hf s d1 else AddStringItemWithHeaderF tree hf s d1)"
      have d2: "more_fit R U d d2" by (rule more_fit_same [OF t]) (simp add: d2_def item)
      have "(if GetType d = kTLVType_Structure \<or> GetType d = kTLVType_Array \<or> GetType d = kTLVType_Path then
          SuccessOrExit (Dissector_EnterContainer E d2) (\<lambda>d'.
          SuccessOrExit (run E tree hf (GMembers i) d') (\<lambda>d'.
          SuccessOrExit (Dissector_ExitContainer d') (\<lambda>d'. GenericClose tree hf i (GetType d) n d')))
        else Some (MATTER_NO_ERROR, d2)) = Some (fst y, snd y)"
        unfolding d2_def using eq g True s GItem by (simp add: Let_def split del: if_split)
      then have "more_fit R U d2 (snd y)"
      proof (cases "GetType d = kTLVType_Structure \<or> GetType d = kTLVType_Array \<or> GetType d = kTLVType_Path")
        case True
        then have "SuccessOrExit (Dissector_EnterContainer E d2) (\<lambda>d'.
            SuccessOrExit (run E tree hf (GMembers i) d') (\<lambda>d'.
            SuccessOrExit (Dissector_ExitContainer d') (\<lambda>d'. GenericClose tree hf i (GetType d) n d'))) = Some y"
          using \<open>_ = Some (fst y, snd y)\<close> by simp
        then show ?thesis
          by (elim SuccessOrExit_fits)
            (auto dest!: same_trace intro: more_fit_refl dest: IH [OF _ str] close)
      next
        case False
        then show ?thesis using \<open>_ = Some (fst y, snd y)\<close> by (auto intro: more_fit_refl)
      qed
      then show ?thesis by (rule more_fit_trans [OF d2])
    qed
  qed
qed

lemma generic_fits [fitting_intros]:
  "proto_registrar_get_ftype (reg_env R) (reg_hf R hf_var) = FT_STRING \<Longrightarrow> adds_fitting R U (generic R hf_var suppressTag tree)"
  unfolding adds_fitting_def generic_def AddGenericTLVItem_def by (auto dest: AddGenericTLV_fits)

lemma AddEncryptedField_fits [fitting_intros]: "adds_fitting R U (AddEncryptedField R hf_var tree)"
  unfolding adds_fitting_def
proof (intro allI impI)
  fix d err d' assume e: "AddEncryptedField R hf_var tree d = Some (err, d')"
  obtain err1 sub d1 where a: "AddSubTreeItem tree (reg_hf R hf_var) (reg_ett R ''SessionEncrypted'') None d = (err1, sub, d1)"
    by (metis prod_cases3)
  note f = AddSubTreeItem_fits [OF a, of R U]
  obtain err2 p d2 where g: "GetDataPtr d1 = (err2, p, d2)" by (metis prod_cases3)
  have f2: "more_fit R U d d2" by (rule more_fit_trans [OF f more_fit_refl [OF GetDataPtr_trace [OF g]]])
  have item: "more_fit R U d3 (emit (ProtoAdd t h off len AddItem) d3)" for t h off len d3
    by (rule more_fit_emit) (simp add: call_fits_def)
  show "more_fit R U d d'"
    using e a g f f2 more_fit_trans [OF f2 item] more_fit_trans [OF f2 more_fit_trans [OF item item]]
    by (auto simp: AddEncryptedField_def Let_def split: if_splits option.splits)
qed

section \<open>Session establishment\<close>

text \<open>The fields that are shown without a look at the element.\<close>

definition unchecked_fields :: "string list" where
  "unchecked_fields = [''Session_idleRetransTimeout'', ''Session_activeRetransTimeout'', ''Session_activeThreshold'',
     ''Session_dataModelRevision'', ''Session_interactionModelRevision'', ''Session_specificationVersion'',
     ''Session_maxPathsPerInvoke'', ''PBKDFParamResponse_pbkdfIterationCount'', ''PBKDFParamResponse_pbkdfSalt'']"

abbreviation unchecked_hf :: "registry \<Rightarrow> int set" where
  "unchecked_hf R \<equiv> reg_hf R ` set unchecked_fields"

lemma AddSessionParameters_fits [fitting_intros]:
  assumes "proto_registrar_get_ftype (reg_env R) (reg_hf R ''Session_unknownParam'') = FT_STRING"
  shows "adds_fitting R (unchecked_hf R) (AddSessionParameters R hf_var tree)"
  unfolding AddSessionParameters_def session_parameter_def
  by (rule struct_item_fits, rule context_switch_fits)
    (simp_all add: generic_fits [OF assms] typed_fits unchecked_fields_def)

lemma AddPBKDFParameterSet_fits [fitting_intros]:
  assumes "proto_registrar_get_ftype (reg_env R) (reg_hf R ''Session_unknownParam'') = FT_STRING"
  shows "adds_fitting R (unchecked_hf R) (AddPBKDFParameterSet R tree)"
  unfolding AddPBKDFParameterSet_def pbkdf_parameter_def
  by (rule struct_item_fits, rule context_switch_fits)
    (simp_all add: generic_fits [OF assms] typed_fits unchecked_fields_def)

abbreviation common_fields :: "field list" where
  "common_fields \<equiv> common_fields_1 @ common_fields_2"

lemma known_type:
  "knows_fields R fs \<Longrightarrow> Field v n a ty x y z \<in> set fs \<Longrightarrow> proto_registrar_get_ftype (reg_env R) (reg_hf R v) = ty"
  by (force simp: knows_fields_def)

lemma session_field_types:
  assumes "knows_fields R common_fields"
  defines "type \<equiv> \<lambda>v. proto_registrar_get_ftype (reg_env R) (reg_hf R v)"
  shows "type ''Session_unknownParam'' = FT_STRING"
    "type ''PBKDFParamRequest_initiatorRandom'' = FT_BYTES" "type ''PBKDFParamResponse_responderRandom'' = FT_BYTES"
    "type ''PBKDFParamRequest_hasPbkdfParams'' = FT_BOOLEAN"
    "type ''Pake1_pA'' = FT_BYTES" "type ''Pake2_pB'' = FT_BYTES" "type ''Pake2_cB'' = FT_BYTES" "type ''Pake3_cA'' = FT_BYTES"
    "type ''Session_destinationId'' = FT_BYTES" "type ''Session_ephPublicKey'' = FT_BYTES"
    "type ''Session_resumptionId'' = FT_BYTES" "type ''Session_resumeMic'' = FT_BYTES"
  unfolding type_def by (rule known_type [OF assms(1)]; simp add: common_fields_1_def common_fields_2_def)+

lemma session_members_fit:
  assumes "knows_fields R common_fields"
  shows "adds_fitting R (unchecked_hf R) (pbkdf_request_member R tree)" "adds_fitting R (unchecked_hf R) (pbkdf_response_member R tree)"
    "adds_fitting R (unchecked_hf R) (pake1_member R tree)" "adds_fitting R (unchecked_hf R) (pake2_member R tree)"
    "adds_fitting R (unchecked_hf R) (pake3_member R tree)" "adds_fitting R (unchecked_hf R) (sigma1_member R tree)"
    "adds_fitting R (unchecked_hf R) (sigma2_member R tree)" "adds_fitting R (unchecked_hf R) (sigma3_member R tree)"
    "adds_fitting R (unchecked_hf R) (sigma2_resume_member R tree)"
  unfolding pbkdf_request_member_def pbkdf_response_member_def pake1_member_def pake2_member_def pake3_member_def
    sigma1_member_def sigma2_member_def sigma3_member_def sigma2_resume_member_def
  by (rule context_switch_fits; simp add: typed_field_fits session_field_types [OF assms] AddSessionParameters_fits
      AddPBKDFParameterSet_fits AddEncryptedField_fits of_types_fits_any unexpected_fits)+

lemma session_message_fits:
  assumes "\<And>tree. adds_fitting R U (member tree)"
    and "session_message R tvb mi title member tree v = Some (res, v')"
  shows "\<exists>cs. view_calls v' = view_calls v @ cs \<and> items_fit R U cs"
proof -
  obtain msgData d where m: "SuccessOrExit (Dissector_Next (start_dissector R kMatterProfile_Common msgData
        (of_nat (unat (mi_payloadLen mi))) 0 (append_text tree title v))) (members R (member tree)) = Some (res, d)"
    and v': "view_calls v' = trace d"
    using assms(2) by (auto simp: session_message_def run_tlv_def bind_eq_Some_conv)
  let ?d = "start_dissector R kMatterProfile_Common msgData (of_nat (unat (mi_payloadLen mi))) 0 (append_text tree title v)"
  have "more_fit R U ?d (snd (res, d))"
    by (rule SuccessOrExit_fits [OF m])
      (auto dest!: Dissector_Next_trace intro: more_fit_refl adds_fittingD [OF members_fits [OF assms(1)]])
  moreover have "trace ?d = view_calls v @ [ProtoAppendText tree title]"
    by (simp add: start_dissector_def append_text_def add_call_def)
  ultimately show ?thesis using v' by (auto simp: more_fit_def call_fits_def)
qed

end
