(* ===== verification/IM_Names.thy ===== *)
theory IM_Names
  imports IM_Subscription Protocol_Tags
begin

text \<open>
  The dissector of the interaction model (\<open>packet-matter-im.cpp\<close>), first part: names of clusters, attributes, commands, events
  and their fields, and paths. The tables of names are generated into \<open>im_name_tables.inc\<close>, and OpenSSL reads
  certificates; both are fields of the record \<open>im_host\<close>.
\<close>

section \<open>The parameters\<close>

text \<open>
  What OpenSSL says of a certificate or a signing request: the texts it prints (\<open>None\<close> where it returns a null
  pointer or fails) and the type and size of the public key.
\<close>

record x509 =
  x509_subject :: "string option"
  x509_issuer :: "string option"
  x509_serial :: "string option"
  x509_not_before :: "string option"
  x509_not_after :: "string option"
  x509_sig_alg :: "string option"
  x509_pubkey :: "(string option \<times> int) option"

record x509_req =
  req_subject :: "string option"
  req_pubkey :: "(string option \<times> int) option"
  req_sig_alg :: "string option"

text \<open>A signed message: its first signer, if there is one, has an algorithm and an identifier of the key.\<close>

record cms_signer =
  signer_sig_alg :: "string option"
  signer_key_id :: "byte list option"

record cms =
  cms_type :: "string option"
  cms_signers :: "cms_signer option list"
  cms_certs :: "x509 list"
  cms_content :: "byte list option"

record im_host =
  im_registry :: registry
  kClusterNameTable :: "(u32 \<times> string) list"
  kAttributeNameTable :: "((u32 \<times> u32) \<times> string) list"
  kCommandNameTable :: "((u32 \<times> u32) \<times> string) list"
  kEventNameTable :: "((u32 \<times> u32) \<times> string) list"
  kCommandFieldNameTable :: "((u32 \<times> u32 \<times> u32 \<times> bool) \<times> string) list"
  kEventFieldNameTable :: "((u32 \<times> u32 \<times> u32) \<times> string) list"
  kAttributeStructFieldNameTable :: "((u32 \<times> u32 \<times> u32) \<times> string) list"
  kAttributeEnumValueNameTable :: "((u32 \<times> u32 \<times> u64) \<times> string) list"
  fmt_g :: "cdouble \<Rightarrow> string"
  d2i_X509 :: "byte list \<Rightarrow> x509 option"
  d2i_X509_REQ :: "byte list \<Rightarrow> x509_req option"
  d2i_CMS_ContentInfo :: "byte list \<Rightarrow> cms option"

section \<open>Names\<close>

definition GetClusterNameById :: "im_host \<Rightarrow> u32 \<Rightarrow> string option" where
  "GetClusterNameById H clusterId = map_of (kClusterNameTable H) clusterId"

definition FindScopedName :: "((u32 \<times> u32) \<times> string) list \<Rightarrow> u32 \<Rightarrow> u32 \<Rightarrow> string option" where
  "FindScopedName table clusterId i = map_of table (clusterId, i)"

definition GetCommandNameById :: "im_host \<Rightarrow> u32 \<Rightarrow> u32 \<Rightarrow> string option" where
  "GetCommandNameById H clusterId commandId = FindScopedName (kCommandNameTable H) clusterId commandId"

definition GetAttributeNameById :: "im_host \<Rightarrow> u32 \<Rightarrow> u32 \<Rightarrow> string option" where
  "GetAttributeNameById H clusterId attributeId = FindScopedName (kAttributeNameTable H) clusterId attributeId"

definition GetEventNameById :: "im_host \<Rightarrow> u32 \<Rightarrow> u32 \<Rightarrow> string option" where
  "GetEventNameById H clusterId eventId = FindScopedName (kEventNameTable H) clusterId eventId"

definition GetCommandFieldNameByTag :: "im_host \<Rightarrow> u32 \<Rightarrow> u32 \<Rightarrow> u32 \<Rightarrow> bool \<Rightarrow> string option" where
  "GetCommandFieldNameByTag H clusterId commandId tag isRequest =
     map_of (kCommandFieldNameTable H) (clusterId, commandId, tag, isRequest)"

definition GetEventFieldNameByTag :: "im_host \<Rightarrow> u32 \<Rightarrow> u32 \<Rightarrow> u32 \<Rightarrow> string option" where
  "GetEventFieldNameByTag H clusterId eventId tag = map_of (kEventFieldNameTable H) (clusterId, eventId, tag)"

definition GetAttributeStructFieldNameByTag :: "im_host \<Rightarrow> u32 \<Rightarrow> u32 \<Rightarrow> u32 \<Rightarrow> string option" where
  "GetAttributeStructFieldNameByTag H clusterId attributeId tag =
     map_of (kAttributeStructFieldNameTable H) (clusterId, attributeId, tag)"

definition GetAttributeEnumValueName :: "im_host \<Rightarrow> u32 \<Rightarrow> u32 \<Rightarrow> u64 \<Rightarrow> string option" where
  "GetAttributeEnumValueName H clusterId attributeId value =
     map_of (kAttributeEnumValueNameTable H) (clusterId, attributeId, value)"

section \<open>Handlers\<close>

abbreviation im_env :: "im_host \<Rightarrow> env" where
  "im_env H \<equiv> reg_env (im_registry H)"

abbreviation im_hf :: "im_host \<Rightarrow> string \<Rightarrow> int" where
  "im_hf H \<equiv> reg_hf (im_registry H)"

abbreviation im_ett :: "im_host \<Rightarrow> string \<Rightarrow> int" where
  "im_ett H \<equiv> reg_ett (im_registry H)"

text \<open>\<open>AddGenericTLVItem(tree, hf_ImCommon_Unknown, tvb, false)\<close>.\<close>

definition unknown :: "im_host \<Rightarrow> ListElemHandler" where
  "unknown H = generic (im_registry H) ''ImCommon_Unknown'' False"

text \<open>A line of text for the current element.\<close>

definition text_item :: "im_host \<Rightarrow> string \<Rightarrow> proto_tree \<Rightarrow> string \<Rightarrow> elem_handler" where
  "text_item H hf_var tree msg d = Some (MATTER_NO_ERROR, AddStringItemF tree (im_hf H hf_var) msg d)"

abbreviation field_line :: "im_host \<Rightarrow> proto_tree \<Rightarrow> string \<Rightarrow> elem_handler" where
  "field_line H \<equiv> text_item H ''ImCommon_Field''"

text \<open>Another handler when one fails; the error is dropped, the state it left is not.\<close>

definition or_else :: "dissector result \<Rightarrow> elem_handler \<Rightarrow> dissector result" where
  "or_else m h =
     (case m of None \<Rightarrow> None
      | Some (err, d) \<Rightarrow> if err \<noteq> MATTER_NO_ERROR then h d else Some (MATTER_NO_ERROR, d))"

text \<open>\<open>if (!IsContextTag(tag)) { AddGenericTLVItem(\<dots>); continue; }\<close>.\<close>

definition context_or_unknown :: "im_host \<Rightarrow> proto_tree \<Rightarrow> elem_handler \<Rightarrow> elem_handler" where
  "context_or_unknown H tree h d = (if \<not> IsContextTag (GetTag d) then unknown H tree d else h d)"

text \<open>A subtree with a text of its own and a handler for what is in the container.\<close>

definition titled_members ::
  "im_host \<Rightarrow> string \<Rightarrow> string \<Rightarrow> ListElemHandler \<Rightarrow> ListElemHandler" where
  "titled_members H hf_var title h tree d =
     (case AddSubTreeItemF tree (im_hf H hf_var) (im_ett H ''DataElem'') None title d of (err, subTree, d) \<Rightarrow>
        if err \<noteq> MATTER_NO_ERROR then Some (err, d) else members (im_registry H) (h subTree) d)"

section \<open>Paths\<close>

datatype PathKind = Command | Attribute | Event | Cluster

record path_ids =
  endpointId :: "u32 option"
  clusterId :: "u32 option"
  itemId :: "u32 option"

definition no_ids :: path_ids where
  "no_ids = \<lparr>endpointId = None, clusterId = None, itemId = None\<rparr>"

text \<open>\<open>snprintf\<close> into a buffer of \<open>n\<close> bytes.\<close>

definition snprintf :: "nat \<Rightarrow> string \<Rightarrow> string" where
  "snprintf n s = take (n - 1) s"

text \<open>An identifier in hexadecimal with the name it has, which is cut at the size of the buffer.\<close>

definition named_id :: "nat \<Rightarrow> string \<Rightarrow> string \<Rightarrow> u32 \<Rightarrow> string option \<Rightarrow> string" where
  "named_id capacity out label i name =
     snprintf capacity ((if out = [] then '''' else '', '') @ label @ ''=0x'' @ hex_upper 1 (unat i) @
       (case name of None \<Rightarrow> '''' | Some n \<Rightarrow> '' ('' @ n)) @ (if name = None then '''' else '')'')"

definition path_text :: "im_host \<Rightarrow> string \<Rightarrow> (u32 \<Rightarrow> u32 \<Rightarrow> string option) \<Rightarrow> path_ids \<Rightarrow> string" where
  "path_text H itemLabel itemName ids =
     (let out = (case endpointId ids of None \<Rightarrow> '''' | Some e \<Rightarrow> snprintf 48 (''Endpoint=0x'' @ hex_upper 1 (unat e)));
          out = (case clusterId ids of None \<Rightarrow> out
            | Some c \<Rightarrow> out @ named_id 96 out ''Cluster'' c (GetClusterNameById H c));
          cluster = (case clusterId ids of None \<Rightarrow> 0 | Some c \<Rightarrow> c)
      in (case itemId ids of None \<Rightarrow> out
          | Some i \<Rightarrow> out @ named_id 128 out itemLabel i (itemName cluster i)))"

text \<open>
  The loop over a path: identifiers are unsigned integers with a context tag, everything else is passed over.
  \<open>take_id\<close> is what is done with one.
\<close>

definition path_elem :: "(u32 \<Rightarrow> u32 \<Rightarrow> path_ids \<Rightarrow> path_ids) \<Rightarrow> path_ids \<times> dissector \<Rightarrow> (path_ids \<times> dissector) result" where
  "path_elem take_id s =
     (case s of (ids, d) \<Rightarrow>
        if \<not> IsContextTag (GetTag d) \<or> GetType d \<noteq> kTLVType_UnsignedInteger then Some (MATTER_NO_ERROR, ids, d)
        else
          (case Get_u64 d 0 of (err, value) \<Rightarrow>
             if err \<noteq> MATTER_NO_ERROR then Some (err, ids, d)
             else Some (MATTER_NO_ERROR, take_id (TagNumFromTag (GetTag d)) (ucast value) ids, d)))"

definition path_members ::
  "im_host \<Rightarrow> (u32 \<Rightarrow> u32 \<Rightarrow> path_ids \<Rightarrow> path_ids) \<Rightarrow> dissector \<Rightarrow> (path_ids \<times> dissector) result" where
  "path_members H take_id d =
     VerifyOrExit (GetType d = kTLVType_Path \<or> GetType d = kTLVType_Structure) MATTER_ERROR_UNEXPECTED_TLV_ELEMENT
       (no_ids, d) (in_container (im_env H) (path_elem take_id) (no_ids, d))"

text \<open>The line for a path, when it has an identifier.\<close>

definition show_path ::
  "im_host \<Rightarrow> string \<Rightarrow> (u32 \<Rightarrow> u32 \<Rightarrow> string option) \<Rightarrow> proto_tree \<Rightarrow> path_ids \<Rightarrow> elem_handler" where
  "show_path H itemLabel itemName tree ids d =
     (if ids = no_ids then Some (MATTER_ERROR_UNEXPECTED_TLV_ELEMENT, d)
      else text_item H ''DataElem_PropertyPath'' tree (path_text H itemLabel itemName ids) d)"

text \<open>\<open>AddNamedPathItem\<close> keeps the first value of each tag.\<close>

definition path_tags :: "PathKind \<Rightarrow> u32 \<times> u32 \<times> u32" where
  "path_tags kind =
     (case kind of Command \<Rightarrow> (0, 1, 2) | Attribute \<Rightarrow> (2, 3, 4) | Event \<Rightarrow> (1, 2, 3) | Cluster \<Rightarrow> (1, 2, 0xFFFFFFFF))"

definition path_label :: "PathKind \<Rightarrow> string" where
  "path_label kind =
     (case kind of Command \<Rightarrow> ''Command'' | Attribute \<Rightarrow> ''Attribute'' | Event \<Rightarrow> ''Event'' | Cluster \<Rightarrow> ''Cluster'')"

definition path_item_name :: "im_host \<Rightarrow> PathKind \<Rightarrow> u32 \<Rightarrow> u32 \<Rightarrow> string option" where
  "path_item_name H kind =
     (if kind = Command then GetCommandNameById H else if kind = Attribute then GetAttributeNameById H
      else GetEventNameById H)"

definition take_first_id :: "PathKind \<Rightarrow> u32 \<Rightarrow> u32 \<Rightarrow> path_ids \<Rightarrow> path_ids" where
  "take_first_id kind tagNum value ids =
     (case path_tags kind of (endpointTag, clusterTag, itemTag) \<Rightarrow>
        if endpointId ids = None \<and> tagNum = endpointTag then ids\<lparr>endpointId := Some value\<rparr>
        else if clusterId ids = None \<and> tagNum = clusterTag then ids\<lparr>clusterId := Some value\<rparr>
        else if itemId ids = None \<and> itemTag \<noteq> 0xFFFFFFFF \<and> tagNum = itemTag then ids\<lparr>itemId := Some value\<rparr>
        else ids)"

definition AddNamedPathItem :: "im_host \<Rightarrow> PathKind \<Rightarrow> ListElemHandler" where
  "AddNamedPathItem H kind tree d =
     (case path_members H (take_first_id kind) d of None \<Rightarrow> None
      | Some (err, ids, d) \<Rightarrow>
          if err \<noteq> MATTER_NO_ERROR then Some (err, d)
          else show_path H (path_label kind) (path_item_name H kind) tree ids d)"

definition AddAttributePathItem :: "im_host \<Rightarrow> ListElemHandler" where
  "AddAttributePathItem H = AddNamedPathItem H Attribute"

definition AddEventPathItem :: "im_host \<Rightarrow> ListElemHandler" where
  "AddEventPathItem H = AddNamedPathItem H Event"

definition AddClusterPathItem :: "im_host \<Rightarrow> ListElemHandler" where
  "AddClusterPathItem H = AddNamedPathItem H Cluster"

text \<open>
  The other two path printers keep the last value of each tag, and give the cluster and the item to the caller,
  whose variables stay as they are (\<open>found\<close>) when one of the two is missing.
\<close>

definition take_last_id :: "u32 \<times> u32 \<times> u32 \<Rightarrow> u32 \<Rightarrow> u32 \<Rightarrow> path_ids \<Rightarrow> path_ids" where
  "take_last_id tags tagNum value ids =
     (case tags of (endpointTag, clusterTag, itemTag) \<Rightarrow>
        if tagNum = endpointTag then ids\<lparr>endpointId := Some value\<rparr>
        else if tagNum = clusterTag then ids\<lparr>clusterId := Some value\<rparr>
        else if tagNum = itemTag then ids\<lparr>itemId := Some value\<rparr>
        else ids)"

definition extract_ids :: "path_ids \<Rightarrow> (u32 \<times> u32) option \<Rightarrow> (u32 \<times> u32) option" where
  "extract_ids ids found =
     (case (clusterId ids, itemId ids) of (Some c, Some i) \<Rightarrow> Some (c, i) | _ \<Rightarrow> found)"

definition AddAttributePathItemAndExtractIds ::
  "im_host \<Rightarrow> proto_tree \<Rightarrow> (u32 \<times> u32) option \<times> dissector \<Rightarrow> ((u32 \<times> u32) option \<times> dissector) result" where
  "AddAttributePathItemAndExtractIds H tree s =
     (case s of (found, d) \<Rightarrow>
      case path_members H (take_last_id (2, 3, 4)) d of None \<Rightarrow> None
      | Some (err, ids, d) \<Rightarrow>
          if err \<noteq> MATTER_NO_ERROR then Some (err, found, d)
          else SuccessOrExit (with_locals found (show_path H ''Attribute'' (GetAttributeNameById H) tree ids d))
            (\<lambda>(found, d). Some (MATTER_NO_ERROR, extract_ids ids found, d)))"

definition AddCommandPathItemAndExtractIds ::
  "im_host \<Rightarrow> proto_tree \<Rightarrow> (u32 \<times> u32) option \<times> dissector \<Rightarrow> ((u32 \<times> u32) option \<times> dissector) result" where
  "AddCommandPathItemAndExtractIds H tree s =
     (case s of (found, d) \<Rightarrow>
      case path_members H (take_last_id (0, 1, 2)) d of None \<Rightarrow> None
      | Some (err, ids, d) \<Rightarrow>
          if err \<noteq> MATTER_NO_ERROR then Some (err, found, d)
          else SuccessOrExit (with_locals found (show_path H ''Command'' (GetCommandNameById H) tree ids d))
            (\<lambda>(found, d). Some (MATTER_NO_ERROR, extract_ids ids found, d)))"

end
