(* ===== verification/IM_Certificates.thy ===== *)
theory IM_Certificates
  imports IM_Names
begin

text \<open>
  The interaction model, second part: certificates and attestation data inside byte strings. The printers call
  \<open>AddNamedCommandValue\<close>, which calls them for byte strings of certain names; here it is the argument \<open>named\<close>.
  A printer that reads a byte string has a \<open>TLVDissector\<close> of its own; the tree it adds items to is the same, so
  the trace of calls is handed over (\<open>nested\<close>, \<open>through\<close>).
\<close>

section \<open>Names\<close>

fun starts_with :: "string \<Rightarrow> string \<Rightarrow> bool" where
  "starts_with [] s = True"
| "starts_with (p # ps) [] = False"
| "starts_with (p # ps) (c # s) = (p = c \<and> starts_with ps s)"

fun contains :: "string \<Rightarrow> string \<Rightarrow> bool" where
  "contains p [] = (p = [])"
| "contains p (c # s) = (starts_with p (c # s) \<or> contains p s)"

definition IsMatterCertificateLikeFieldName :: "string \<Rightarrow> bool" where
  "IsMatterCertificateLikeFieldName name \<longleftrightarrow>
     name \<noteq> ''CertificationDeclaration'' \<and>
     (contains ''Certificate'' name \<or> name = ''NOCValue'' \<or> name = ''ICACValue'' \<or> name = ''RCACValue'')"

definition LookupMatterCertSignatureAlgorithmName :: "u64 \<Rightarrow> string option" where
  "LookupMatterCertSignatureAlgorithmName value = map_of [(1, ''ECDSAWithSHA256'')] value"

definition LookupMatterCertPublicKeyAlgorithmName :: "u64 \<Rightarrow> string option" where
  "LookupMatterCertPublicKeyAlgorithmName value = map_of [(1, ''ECPublicKey'')] value"

definition LookupMatterCertCurveName :: "u64 \<Rightarrow> string option" where
  "LookupMatterCertCurveName value = map_of [(1, ''prime256v1'')] value"

definition LookupMatterCertExtendedKeyUsageName :: "u64 \<Rightarrow> string option" where
  "LookupMatterCertExtendedKeyUsageName value = map_of
     [(1, ''ServerAuth''), (2, ''ClientAuth''), (3, ''CodeSigning''), (4, ''EmailProtection''),
      (5, ''TimeStamping''), (6, ''OCSPSigning'')] value"

definition dn_attr_names :: "(u32 \<times> string) list" where
  "dn_attr_names =
     [(0, ''Unspecified''),
      (Security_kTag_DNAttrType_CommonName, ''CommonName''),
      (Security_kTag_DNAttrType_Surname, ''Surname''),
      (Security_kTag_DNAttrType_SerialNumber, ''SerialNumber''),
      (Security_kTag_DNAttrType_CountryName, ''CountryName''),
      (Security_kTag_DNAttrType_LocalityName, ''LocalityName''),
      (Security_kTag_DNAttrType_StateOrProvinceName, ''StateOrProvinceName''),
      (Security_kTag_DNAttrType_OrganizationName, ''OrganizationName''),
      (Security_kTag_DNAttrType_OrganizationalUnitName, ''OrganizationalUnitName''),
      (Security_kTag_DNAttrType_Title, ''Title''),
      (Security_kTag_DNAttrType_Name, ''Name''),
      (Security_kTag_DNAttrType_GivenName, ''GivenName''),
      (Security_kTag_DNAttrType_Initials, ''Initials''),
      (Security_kTag_DNAttrType_GenerationQualifier, ''GenerationQualifier''),
      (Security_kTag_DNAttrType_DNQualifier, ''DNQualifier''),
      (Security_kTag_DNAttrType_Pseudonym, ''Pseudonym''),
      (Security_kTag_DNAttrType_DomainComponent, ''DomainComponent''),
      (Security_kTag_DNAttrType_MatterDeviceId, ''NodeId''),
      (Security_kTag_DNAttrType_MatterServiceEndpointId, ''ServiceEndpointId''),
      (Security_kTag_DNAttrType_MatterCAId, ''FabricId''),
      (Security_kTag_DNAttrType_MatterSoftwarePublisherId, ''SoftwarePublisherId''),
      (21, ''CASEAuthTag'')]"

definition GetCertDNAttrNameForIM :: "u32 \<Rightarrow> string option" where
  "GetCertDNAttrNameForIM attrTag = map_of dn_attr_names attrTag"

definition LookupCertificationTypeName :: "u64 \<Rightarrow> string option" where
  "LookupCertificationTypeName value = map_of
     [(0, ''DevelopmentAndTest''), (1, ''Provisional''), (2, ''Official''), (3, ''Reserved'')] value"

text \<open>The bytes of \<open>data\<close> are what is readable from the pointer on.\<close>

definition BytesToHex :: "byte list \<Rightarrow> nat \<Rightarrow> nat \<Rightarrow> string option" where
  "BytesToHex data len maxLen =
     map_option (\<lambda>bs. concat (map (\<lambda>b. hex_upper 2 (unat b)) bs) @ (if len > maxLen then ''...'' else ''''))
       (load_bytes data 0 (min len maxLen))"

section \<open>Members of a certificate\<close>

type_synonym value_printer = "string \<Rightarrow> ListElemHandler"

definition context_or_profile :: "im_host \<Rightarrow> proto_tree \<Rightarrow> elem_handler \<Rightarrow> elem_handler" where
  "context_or_profile H tree h d =
     (if \<not> IsContextTag (GetTag d) \<and> \<not> IsProfileTag (GetTag d) then unknown H tree d else h d)"

text \<open>\<open>name=value\<close>, with the name of the value if it has one.\<close>

definition labelled_value :: "string \<Rightarrow> string \<Rightarrow> string option \<Rightarrow> string" where
  "labelled_value fieldName value name =
     fieldName @ ''='' @ value @ (case name of None \<Rightarrow> '''' | Some n \<Rightarrow> '' ('' @ n @ '')'')"

definition AddMatterCertEnumOrRaw ::
  "im_host \<Rightarrow> value_printer \<Rightarrow> string \<Rightarrow> (u64 \<Rightarrow> string option) \<Rightarrow> ListElemHandler" where
  "AddMatterCertEnumOrRaw H named fieldName lookupName tree d =
     (if GetType d = kTLVType_UnsignedInteger then
        (case Get_u64 d 0 of (err, value) \<Rightarrow>
           if err \<noteq> MATTER_NO_ERROR then Some (err, d)
           else field_line H tree (labelled_value fieldName (dec (unat value)) (lookupName value)) d)
      else if GetType d = kTLVType_SignedInteger then
        (case Get_i64 d of (err, signedValue) \<Rightarrow>
           if err \<noteq> MATTER_NO_ERROR then Some (err, d)
           else if sint signedValue < 0 then field_line H tree (labelled_value fieldName (sdec (sint signedValue)) None) d
           else field_line H tree (labelled_value fieldName (dec (unat signedValue)) (lookupName signedValue)) d)
      else named fieldName tree d)"

definition key_usage_names :: "(u64 \<times> string) list" where
  "key_usage_names =
     [(0x01, ''digitalSignature''), (0x02, ''nonRepudiation''), (0x04, ''keyEncipherment''), (0x08, ''dataEncipherment''),
      (0x10, ''keyAgreement''), (0x20, ''keyCertSign''), (0x40, ''cRLSign''), (0x80, ''encipherOnly''),
      (0x100, ''decipherOnly'')]"

definition key_usage_labels :: "u64 \<Rightarrow> string" where
  "key_usage_labels value =
     foldl (\<lambda>labels (mask, name). if value AND mask \<noteq> 0 then labels @ (if labels = [] then name else ''|'' @ name) else labels)
       [] key_usage_names"

definition key_usage_line :: "im_host \<Rightarrow> proto_tree \<Rightarrow> u64 \<Rightarrow> elem_handler" where
  "key_usage_line H tree value =
     field_line H tree (labelled_value ''KeyUsage'' (dec (unat value))
       (if key_usage_labels value \<noteq> [] then Some (key_usage_labels value) else None))"

definition AddMatterCertKeyUsage :: "im_host \<Rightarrow> value_printer \<Rightarrow> ListElemHandler" where
  "AddMatterCertKeyUsage H named tree d =
     (if GetType d = kTLVType_UnsignedInteger then
        (case Get_u64 d 0 of (err, value) \<Rightarrow>
           if err \<noteq> MATTER_NO_ERROR then Some (err, d) else key_usage_line H tree value d)
      else if GetType d = kTLVType_SignedInteger then
        (case Get_i64 d of (err, signedValue) \<Rightarrow>
           if err \<noteq> MATTER_NO_ERROR then Some (err, d)
           else if sint signedValue < 0 then field_line H tree (labelled_value ''KeyUsage'' (sdec (sint signedValue)) None) d
           else key_usage_line H tree signedValue d)
      else named ''KeyUsage'' tree d)"

definition dn_attr_name :: "u32 \<Rightarrow> string" where
  "dn_attr_name attrTagBase =
     (case GetCertDNAttrNameForIM attrTagBase of Some n \<Rightarrow> n
      | None \<Rightarrow> snprintf 32 (''DNAttr_'' @ dec (unat attrTagBase)))"

definition certificate_dn_member :: "im_host \<Rightarrow> value_printer \<Rightarrow> ListElemHandler" where
  "certificate_dn_member H named dnTree = context_or_unknown H dnTree
     (\<lambda>d. or_else (named (dn_attr_name (TagNumFromTag (GetTag d) AND 0x7F)) dnTree d) (unknown H dnTree))"

definition AddDecodedMatterCertificateDN :: "im_host \<Rightarrow> value_printer \<Rightarrow> string \<Rightarrow> ListElemHandler" where
  "AddDecodedMatterCertificateDN H named label tree =
     of_types [kTLVType_Path, kTLVType_Structure]
       (titled_members H ''DataElem_PropertyData'' label (certificate_dn_member H named) tree)"

definition ecdsa_signature_member :: "im_host \<Rightarrow> value_printer \<Rightarrow> ListElemHandler" where
  "ecdsa_signature_member H named sigTree = context_or_unknown H sigTree
     (tag_switch
       [(Security_kTag_ECDSASignature_r, \<lambda>d. or_else (named ''r'' sigTree d) (unknown H sigTree)),
        (Security_kTag_ECDSASignature_s, \<lambda>d. or_else (named ''s'' sigTree d) (unknown H sigTree))]
       (unknown H sigTree))"

definition AddDecodedMatterECDSASignature :: "im_host \<Rightarrow> value_printer \<Rightarrow> ListElemHandler" where
  "AddDecodedMatterECDSASignature H named tree =
     of_types [kTLVType_Structure]
       (titled_members H ''DataElem_PropertyData'' ''Signature'' (ecdsa_signature_member H named) tree)"

section \<open>Extensions\<close>

definition basic_constraints_member :: "im_host \<Rightarrow> value_printer \<Rightarrow> ListElemHandler" where
  "basic_constraints_member H named bcTree = context_or_profile H bcTree
     (tag_switch [(1, named ''IsCA'' bcTree), (2, named ''PathLenConstraint'' bcTree)] (unknown H bcTree))"

definition extended_key_usage_member :: "im_host \<Rightarrow> ListElemHandler" where
  "extended_key_usage_member H ekuTree d =
     (if GetType d = kTLVType_UnsignedInteger then
        (case Get_u64 d 0 of (err, usage) \<Rightarrow>
           if err \<noteq> MATTER_NO_ERROR then Some (err, d)
           else field_line H ekuTree (labelled_value ''Usage'' (dec (unat usage)) (LookupMatterCertExtendedKeyUsageName usage)) d)
      else if GetType d = kTLVType_SignedInteger then
        (case Get_i64 d of (err, usage) \<Rightarrow>
           if err \<noteq> MATTER_NO_ERROR then Some (err, d)
           else field_line H ekuTree (labelled_value ''Usage'' (sdec (sint usage))
             (if sint usage \<ge> 0 then LookupMatterCertExtendedKeyUsageName usage else None)) d)
      else unknown H ekuTree d)"

definition certificate_extension :: "im_host \<Rightarrow> value_printer \<Rightarrow> ListElemHandler" where
  "certificate_extension H named extTree = context_or_profile H extTree
     (tag_switch
       [(1, \<lambda>d. if GetType d = kTLVType_Structure
           then titled_members H ''DataElem_PropertyData'' ''BasicConstraints'' (basic_constraints_member H named) extTree d
           else named ''BasicConstraints'' extTree d),
        (2, AddMatterCertKeyUsage H named extTree),
        (3, \<lambda>d. if GetType d = kTLVType_Array \<or> GetType d = kTLVType_Path
           then titled_members H ''DataElem_PropertyData'' ''ExtendedKeyUsage'' (extended_key_usage_member H) extTree d
           else named ''ExtendedKeyUsage'' extTree d),
        (4, named ''AuthorityKeyIdentifier'' extTree),
        (5, named ''SubjectKeyIdentifier'' extTree)]
       (unknown H extTree))"

definition AddDecodedMatterCertificateExtensions :: "im_host \<Rightarrow> value_printer \<Rightarrow> ListElemHandler" where
  "AddDecodedMatterCertificateExtensions H named tree =
     of_types [kTLVType_Path, kTLVType_Structure]
       (titled_members H ''DataElem_PropertyData'' ''Extensions'' (certificate_extension H named) tree)"

section \<open>Dissectors inside a byte string\<close>

text \<open>A new object on the bytes \<open>value\<close>, which the host sees at \<open>valueOffset\<close>.\<close>

definition nested :: "im_host \<Rightarrow> byte list \<Rightarrow> u32 \<Rightarrow> u32 \<Rightarrow> dissector \<Rightarrow> dissector" where
  "nested H value valueLen valueOffset d =
     (Dissector_Init value valueLen valueOffset (TLVDissector (raw_object (im_registry H))))\<lparr>trace := trace d\<rparr>"

definition back_to :: "dissector \<Rightarrow> dissector \<Rightarrow> dissector" where
  "back_to parent inner = parent\<lparr>trace := trace inner\<rparr>"

text \<open>A call of the parent's while the inner object reads; \<open>s\<close> is the parent and the inner object.\<close>

definition through :: "elem_handler \<Rightarrow> dissector \<times> dissector \<Rightarrow> (dissector \<times> dissector) result" where
  "through h s =
     (case s of (parent, inner) \<Rightarrow>
        map_option (\<lambda>(err, parent). (err, parent, back_to inner parent)) (h (back_to parent inner)))"

section \<open>Certificates in the format of Matter\<close>

definition certificate_member :: "im_host \<Rightarrow> value_printer \<Rightarrow> ListElemHandler" where
  "certificate_member H named certTree = context_or_profile H certTree
     (tag_switch
       [(1, named ''SerialNumber'' certTree),
        (2, AddMatterCertEnumOrRaw H named ''SignatureAlgorithm'' LookupMatterCertSignatureAlgorithmName certTree),
        (3, AddDecodedMatterCertificateDN H named ''Issuer'' certTree),
        (4, named ''NotBefore'' certTree),
        (5, named ''NotAfter'' certTree),
        (6, AddDecodedMatterCertificateDN H named ''Subject'' certTree),
        (7, AddMatterCertEnumOrRaw H named ''PublicKeyAlgorithm'' LookupMatterCertPublicKeyAlgorithmName certTree),
        (8, AddMatterCertEnumOrRaw H named ''EllipticCurveIdentifier'' LookupMatterCertCurveName certTree),
        (9, named ''PublicKey'' certTree),
        (10, AddDecodedMatterCertificateExtensions H named certTree),
        (11, \<lambda>d. if GetType d = kTLVType_Structure then AddDecodedMatterECDSASignature H named certTree d
           else named ''Signature'' certTree d)]
       (unknown H certTree))"

text \<open>The result is the error and the dissector \<open>d\<close> of the caller, with the calls added.\<close>

definition AddDecodedMatterCertificate ::
  "im_host \<Rightarrow> value_printer \<Rightarrow> string \<Rightarrow> byte list \<Rightarrow> u32 \<Rightarrow> u32 \<Rightarrow> proto_tree \<Rightarrow> dissector \<Rightarrow> dissector result" where
  "AddDecodedMatterCertificate H named fieldName value valueLen valueOffset tree d =
     (let cert = (nested H value valueLen valueOffset d)\<lparr>ImplicitProfileId := kMatterProfile_Security\<rparr> in
      map_option (\<lambda>(err, cert). (err, back_to d cert))
       (case Dissector_Next_expect kTLVType_Structure
            (ProfileTag kMatterProfile_Security Security_kTag_MatterCertificate) cert of None \<Rightarrow> None
        | Some (err, cert) \<Rightarrow>
            SuccessOrExit
              (if err \<noteq> MATTER_NO_ERROR
               then Dissector_Next_expect kTLVType_Structure AnonymousTag
                 ((Dissector_Init value valueLen valueOffset cert)\<lparr>ImplicitProfileId := kMatterProfile_Security\<rparr>)
               else Some (MATTER_NO_ERROR, cert))
              (titled_members H ''DataElem_PropertyData'' (fieldName @ '' Decoded'') (certificate_member H named) tree)))"

end
