(* ===== verification/IM_Values.thy ===== *)
theory IM_Values
  imports IM_Certificates
begin

text \<open>
  The interaction model, third part: \<open>AddNamedCommandValue\<close>, and what it takes apart when a byte string has one of
  the names it knows: certificates and signing requests (with OpenSSL), attestation elements, NOCSR elements and the
  certification declaration, a signed message with TLV inside.
\<close>

section \<open>Certificates in the format of X.509\<close>

definition lines :: "im_host \<Rightarrow> proto_tree \<Rightarrow> string list \<Rightarrow> dissector \<Rightarrow> dissector" where
  "lines H tree msgs d = foldl (\<lambda>d msg. AddStringItemF tree (im_hf H ''ImCommon_Field'') msg d) d msgs"

definition text_line :: "string \<Rightarrow> string option \<Rightarrow> string list" where
  "text_line label x = (case x of None \<Rightarrow> [] | Some s \<Rightarrow> [label @ ''='' @ s])"

text \<open>The text that \<open>ASN1_TIME_print\<close> wrote, read back into a buffer of 128 bytes.\<close>

definition FormatASN1Time :: "string option \<Rightarrow> string option" where
  "FormatASN1Time printed =
     (case printed of None \<Rightarrow> None | Some s \<Rightarrow> if take 127 s = [] then None else Some (take 127 s))"

definition public_key_lines :: "(string option \<times> int) option \<Rightarrow> string list" where
  "public_key_lines key =
     (case key of None \<Rightarrow> []
      | Some (keyTypeName, bits) \<Rightarrow> text_line ''PublicKeyType'' keyTypeName @ [''PublicKeyBits='' @ sdec bits])"

definition x509_lines :: "x509 \<Rightarrow> string list" where
  "x509_lines c =
     text_line ''Subject'' (x509_subject c) @ text_line ''Issuer'' (x509_issuer c) @
     text_line ''SerialNumber'' (x509_serial c) @
     text_line ''NotBefore'' (FormatASN1Time (x509_not_before c)) @
     text_line ''NotAfter'' (FormatASN1Time (x509_not_after c)) @
     text_line ''SignatureAlgorithm'' (x509_sig_alg c) @ public_key_lines (x509_pubkey c)"

text \<open>A subtree of the current element with lines for a value that OpenSSL read, an error if it did not.\<close>

definition titled_lines :: "im_host \<Rightarrow> string \<Rightarrow> string list option \<Rightarrow> ListElemHandler" where
  "titled_lines H title msgs tree d =
     (case msgs of None \<Rightarrow> Some (MATTER_ERROR_UNEXPECTED_TLV_ELEMENT, d)
      | Some msgs \<Rightarrow>
          (case AddSubTreeItemF tree (im_hf H ''DataElem_PropertyData'') (im_ett H ''DataElem'') None title d of
             (err, subTree, d) \<Rightarrow>
               if err \<noteq> MATTER_NO_ERROR then Some (err, d) else Some (MATTER_NO_ERROR, lines H subTree msgs d)))"

definition AddDecodedX509Certificate :: "im_host \<Rightarrow> string \<Rightarrow> byte list \<Rightarrow> ListElemHandler" where
  "AddDecodedX509Certificate H fieldName value =
     titled_lines H (fieldName @ '' Decoded (X.509)'') (map_option x509_lines (d2i_X509 H value))"

definition x509_req_lines :: "x509_req \<Rightarrow> string list" where
  "x509_req_lines req =
     text_line ''Subject'' (req_subject req) @ public_key_lines (req_pubkey req) @
     text_line ''SignatureAlgorithm'' (req_sig_alg req)"

definition AddDecodedX509CSR :: "im_host \<Rightarrow> string \<Rightarrow> byte list \<Rightarrow> ListElemHandler" where
  "AddDecodedX509CSR H fieldName value =
     titled_lines H (fieldName @ '' Decoded (X.509 CSR)'') (map_option x509_req_lines (d2i_X509_REQ H value))"

section \<open>Structures inside a byte string\<close>

definition ignoring :: "'s result \<Rightarrow> 's result" where
  "ignoring m = map_option (\<lambda>(err, s). (MATTER_NO_ERROR, s)) m"

text \<open>
  The frame of the three decoders: the inner object must find an anonymous structure, the caller's object adds
  the subtree, and the body runs on the members with both objects at hand.
\<close>

definition decoded_structure ::
  "im_host \<Rightarrow> string \<Rightarrow> (proto_tree \<Rightarrow> dissector \<times> dissector \<Rightarrow> (dissector \<times> dissector) result) \<Rightarrow>
   byte list \<Rightarrow> u32 \<Rightarrow> u32 \<Rightarrow> ListElemHandler" where
  "decoded_structure H title member value valueLen valueOffset tree d =
     (case Dissector_Next_expect kTLVType_Structure AnonymousTag (nested H value valueLen valueOffset d) of None \<Rightarrow> None
      | Some (err, inner) \<Rightarrow>
          if err \<noteq> MATTER_NO_ERROR then Some (MATTER_ERROR_UNEXPECTED_TLV_ELEMENT, back_to d inner)
          else
            (case AddSubTreeItemF tree (im_hf H ''DataElem_PropertyData'') (im_ett H ''DataElem'') None title (back_to d inner) of
               (err, elementsTree, d) \<Rightarrow>
                 if err \<noteq> MATTER_NO_ERROR then Some (err, d)
                 else map_option (\<lambda>(err, d, inner). (err, back_to d inner))
                        (in_container (im_env H) (member elementsTree) (d, back_to inner d))))"

text \<open>A member that only the inner object is needed for.\<close>

definition inner_only :: "elem_handler \<Rightarrow> dissector \<times> dissector \<Rightarrow> (dissector \<times> dissector) result" where
  "inner_only h s = with_locals (fst s) (h (snd s))"

text \<open>The bytes a pointer from \<open>GetDataPtr\<close> points to.\<close>

definition value_bytes :: "dissector \<Rightarrow> nat option \<Rightarrow> u32 \<Rightarrow> byte list option" where
  "value_bytes d ptr valueLen = (case ptr of None \<Rightarrow> None | Some p \<Rightarrow> load_bytes (mBuf d) p (unat valueLen))"

definition attestation_element ::
  "im_host \<Rightarrow> value_printer \<Rightarrow> proto_tree \<Rightarrow> dissector \<times> dissector \<Rightarrow> (dissector \<times> dissector) result" where
  "attestation_element H named elementsTree = inner_only (\<lambda>inner.
     if IsContextTag (GetTag inner) then
       tag_switch
         [(1, named ''CertificationDeclaration'' elementsTree), (2, named ''AttestationNonce'' elementsTree),
          (3, named ''Timestamp'' elementsTree), (4, named ''FirmwareInfo'' elementsTree)]
         (unknown H elementsTree) inner
     else if IsProfileTag (GetTag inner) then
       field_line H elementsTree
         (''VendorReserved Profile=0x'' @ hex_upper 8 (unat (ProfileIdFromTag (GetTag inner))) @
          '' Tag='' @ dec (unat (TagNumFromTag (GetTag inner))) @
          (if GetType inner = kTLVType_ByteString then '' ['' @ dec (unat (GetLength inner)) @ '' bytes]'' else '''')) inner
     else unknown H elementsTree inner)"

definition AddDecodedAttestationElements ::
  "im_host \<Rightarrow> value_printer \<Rightarrow> byte list \<Rightarrow> u32 \<Rightarrow> u32 \<Rightarrow> ListElemHandler" where
  "AddDecodedAttestationElements H named =
     decoded_structure H ''AttestationElements Decoded'' (attestation_element H named)"

text \<open>The signing request is shown once more by OpenSSL, on the object of the caller.\<close>

definition nocsr_csr ::
  "im_host \<Rightarrow> value_printer \<Rightarrow> proto_tree \<Rightarrow> dissector \<times> dissector \<Rightarrow> (dissector \<times> dissector) result" where
  "nocsr_csr H named elementsTree s =
     SuccessOrExit (inner_only (named ''CSR'' elementsTree) s) (\<lambda>(parent, inner).
       if GetType inner = kTLVType_ByteString \<and> mElemLen inner \<ge> GetLength inner then
         (case GetDataPtr inner of (err, csrValue, inner) \<Rightarrow>
            if err \<noteq> MATTER_NO_ERROR then Some (err, parent, inner)
            else
              (case value_bytes inner csrValue (GetLength inner) of None \<Rightarrow> None
               | Some csr \<Rightarrow> ignoring (through (AddDecodedX509CSR H ''CSR'' csr elementsTree) (parent, inner))))
       else Some (MATTER_NO_ERROR, parent, inner))"

definition nocsr_element ::
  "im_host \<Rightarrow> value_printer \<Rightarrow> proto_tree \<Rightarrow> dissector \<times> dissector \<Rightarrow> (dissector \<times> dissector) result" where
  "nocsr_element H named elementsTree s =
     (if \<not> IsContextTag (GetTag (snd s)) then inner_only (unknown H elementsTree) s
      else if TagNumFromTag (GetTag (snd s)) = 1 then nocsr_csr H named elementsTree s
      else inner_only
        (tag_switch
          [(2, named ''CSRNonce'' elementsTree), (3, named ''VendorReserved1'' elementsTree),
           (4, named ''VendorReserved2'' elementsTree), (5, named ''VendorReserved3'' elementsTree)]
          (unknown H elementsTree)) s)"

definition AddDecodedNOCSRElements ::
  "im_host \<Rightarrow> value_printer \<Rightarrow> byte list \<Rightarrow> u32 \<Rightarrow> u32 \<Rightarrow> ListElemHandler" where
  "AddDecodedNOCSRElements H named = decoded_structure H ''NOCSRElements Decoded'' (nocsr_element H named)"

section \<open>The certification declaration\<close>

text \<open>
  An array read in a loop of its own, whose error does not end the decoder; the array is left whatever
  happened in it.
\<close>

definition array_loop ::
  "im_host \<Rightarrow> ('l \<times> dissector \<Rightarrow> ('l \<times> dissector) result) \<Rightarrow> 'l \<times> dissector \<Rightarrow> ('l \<times> dissector) result" where
  "array_loop H body s =
     (case s of (l, reader) \<Rightarrow>
      case Dissector_EnterContainer (im_env H) reader of None \<Rightarrow> None
      | Some (arrErr, reader) \<Rightarrow>
          if arrErr \<noteq> MATTER_NO_ERROR then Some (arrErr, l, reader)
          else
            (case each_elem body (l, reader) of None \<Rightarrow> None
             | Some (arrErr, l, reader) \<Rightarrow>
                 map_option (\<lambda>(_, reader). (arrErr, l, reader)) (Dissector_ExitContainer reader)))"

definition product_id :: "string \<times> dissector \<Rightarrow> (string \<times> dissector) result" where
  "product_id s =
     (case s of (products, reader) \<Rightarrow>
        if GetType reader = kTLVType_UnsignedInteger then
          (case Get_u64 reader 0 of (err, productId) \<Rightarrow>
             Some (MATTER_NO_ERROR,
               if err = MATTER_NO_ERROR
               then products @ snprintf 24 ((if products = [] then '''' else '','') @ dec (unat productId)) else products,
               reader))
        else Some (MATTER_NO_ERROR, products, reader))"

definition cd_product_ids ::
  "im_host \<Rightarrow> proto_tree \<Rightarrow> dissector \<times> dissector \<Rightarrow> (dissector \<times> dissector) result" where
  "cd_product_ids H cdTree s =
     (case s of (parent, reader) \<Rightarrow>
      case array_loop H product_id ('''', reader) of None \<Rightarrow> None
      | Some (arrErr, products, reader) \<Rightarrow>
          through (field_line H cdTree
            (''ProductIds=['' @ (if arrErr = MATTER_NO_ERROR then products else ''decode error'') @ '']'')) (parent, reader))"

definition cd_certification_type ::
  "im_host \<Rightarrow> value_printer \<Rightarrow> proto_tree \<Rightarrow> dissector \<times> dissector \<Rightarrow> (dissector \<times> dissector) result" where
  "cd_certification_type H named cdTree s =
     (let reader = snd s; (err, v) = Get_u64 reader 0 in
      if GetType reader = kTLVType_UnsignedInteger \<and> err = MATTER_NO_ERROR
      then through (field_line H cdTree (labelled_value ''CertificationType'' (dec (unat v)) (LookupCertificationTypeName v))) s
      else inner_only (named ''CertificationType'' cdTree) s)"

text \<open>The keys of the authorities, with their index.\<close>

definition cd_authority ::
  "im_host \<Rightarrow> proto_tree \<Rightarrow> (u32 \<times> dissector) \<times> dissector \<Rightarrow> ((u32 \<times> dissector) \<times> dissector) result" where
  "cd_authority H paaTree s =
     (case s of ((index, parent), reader) \<Rightarrow>
        if GetType reader = kTLVType_ByteString then
          (case GetDataPtr reader of (err, item, reader) \<Rightarrow>
             if err = MATTER_NO_ERROR then
               (case item of None \<Rightarrow> None
                | Some p \<Rightarrow>
                    (case BytesToHex (drop p (mBuf reader)) (unat (GetLength reader)) 20 of None \<Rightarrow> None
                     | Some hex \<Rightarrow>
                         map_option (\<lambda>(err, parent, reader). (err, (index + 1, parent), reader))
                           (through (field_line H paaTree (''PAA['' @ dec (unat index) @ '']='' @ hex)) (parent, reader))))
             else Some (MATTER_NO_ERROR, (index, parent), reader))
        else Some (MATTER_NO_ERROR, (index, parent), reader))"

definition cd_authorities ::
  "im_host \<Rightarrow> proto_tree \<Rightarrow> dissector \<times> dissector \<Rightarrow> (dissector \<times> dissector) result" where
  "cd_authorities H cdTree s =
     (case s of (parent, reader) \<Rightarrow>
      case AddSubTreeItemF cdTree (im_hf H ''DataElem_PropertyData'') (im_ett H ''DataElem'') None ''AuthorizedPAAList''
          (back_to parent reader) of
        (err, paaTree, parent) \<Rightarrow>
          if err \<noteq> MATTER_NO_ERROR then Some (err, parent, back_to reader parent)
          else
            (case array_loop H (cd_authority H paaTree) ((0, parent), back_to reader parent) of None \<Rightarrow> None
             | Some (arrErr, (_, parent), reader) \<Rightarrow>
                 if arrErr \<noteq> MATTER_NO_ERROR
                 then through (field_line H paaTree ''AuthorizedPAAList decode failed'') (parent, reader)
                 else Some (MATTER_NO_ERROR, parent, reader)))"

definition cd_names :: "(u32 \<times> string) list" where
  "cd_names =
     [(0, ''FormatVersion''), (1, ''VendorId''), (2, ''ProductIds''), (3, ''DeviceTypeId''), (4, ''CertificateId''),
      (5, ''SecurityLevel''), (6, ''SecurityInformation''), (7, ''VersionNumber''), (9, ''DACOriginVendorId''),
      (10, ''DACOriginProductId''), (11, ''AuthorizedPAAList'')]"

definition cd_element ::
  "im_host \<Rightarrow> value_printer \<Rightarrow> proto_tree \<Rightarrow> dissector \<times> dissector \<Rightarrow> (dissector \<times> dissector) result" where
  "cd_element H named cdTree s =
     (let reader = snd s; tagNum = TagNumFromTag (GetTag reader) in
      if \<not> IsContextTag (GetTag reader) then Some (MATTER_NO_ERROR, s)
      else if tagNum = 2 \<and> GetType reader = kTLVType_Array then cd_product_ids H cdTree s
      else if tagNum = 8 then cd_certification_type H named cdTree s
      else if tagNum = 11 \<and> GetType reader = kTLVType_Array then cd_authorities H cdTree s
      else
        (case map_of cd_names tagNum of
           Some name \<Rightarrow> inner_only (named name cdTree) s
         | None \<Rightarrow> through (field_line H cdTree (''UnknownTag['' @ dec (unat tagNum) @ '']'')) s))"

definition AddDecodedCertificationDeclarationTLV :: "im_host \<Rightarrow> value_printer \<Rightarrow> byte list \<Rightarrow> ListElemHandler" where
  "AddDecodedCertificationDeclarationTLV H named content =
     decoded_structure H ''CertificationDeclaration Content'' (cd_element H named) content (of_nat (length content)) 0"

definition signer_lines :: "cms_signer option \<Rightarrow> string list option" where
  "signer_lines si =
     (case si of None \<Rightarrow> Some []
      | Some s \<Rightarrow>
          map_option (\<lambda>hex. text_line ''SignerSignatureAlgorithm'' (signer_sig_alg s) @ hex)
            (case signer_key_id s of None \<Rightarrow> Some []
             | Some k \<Rightarrow> if k = [] then Some [] else map_option (\<lambda>h. [''SignerKeyId='' @ h]) (BytesToHex k (length k) 20)))"

definition cms_lines :: "cms \<Rightarrow> string list option" where
  "cms_lines c =
     map_option (\<lambda>signer. text_line ''ContentTypeOID'' (map_option (snprintf 96) (cms_type c)) @
         [''SignerCount='' @ dec (length (cms_signers c))] @ signer @
         [''EmbeddedCertificateCount='' @ dec (length (cms_certs c))])
       (case cms_signers c of [] \<Rightarrow> Some [] | si # _ \<Rightarrow> signer_lines si)"

definition AddDecodedCertificationDeclarationCMS :: "im_host \<Rightarrow> value_printer \<Rightarrow> byte list \<Rightarrow> ListElemHandler" where
  "AddDecodedCertificationDeclarationCMS H named value tree d =
     (case d2i_CMS_ContentInfo H value of None \<Rightarrow> Some (MATTER_ERROR_UNEXPECTED_TLV_ELEMENT, d)
      | Some c \<Rightarrow>
          (case AddSubTreeItemF tree (im_hf H ''DataElem_PropertyData'') (im_ett H ''DataElem'') None
                ''CertificationDeclaration Decoded (CMS)'' d of
             (err, cmsTree, d) \<Rightarrow>
               if err \<noteq> MATTER_NO_ERROR then Some (err, d)
               else
                 (case cms_lines c of None \<Rightarrow> None
                  | Some msgs \<Rightarrow>
                      (let d = lines H cmsTree msgs d in
                       case cms_content c of None \<Rightarrow> Some (MATTER_NO_ERROR, d)
                       | Some content \<Rightarrow>
                           if content = [] then Some (MATTER_NO_ERROR, d)
                           else ignoring (AddDecodedCertificationDeclarationTLV H named content cmsTree
                             (lines H cmsTree [''ContentLength='' @ dec (unat (of_nat (length content) :: u32))] d))))))"

section \<open>Named values\<close>

text \<open>What is shown below the line of a byte string, by its name.\<close>

definition decode_bytes :: "im_host \<Rightarrow> value_printer \<Rightarrow> string \<Rightarrow> byte list \<Rightarrow> u32 \<Rightarrow> ListElemHandler" where
  "decode_bytes H named fieldName value valueLen tree d =
     (let valueOffset = mElemStart d + (mElemLen d - valueLen) in
      if valueLen = 0 then Some (MATTER_NO_ERROR, d)
      else if fieldName = ''CertificationDeclaration''
      then ignoring (AddDecodedCertificationDeclarationCMS H named value tree d)
      else if \<not> mElemLen d \<ge> valueLen then Some (MATTER_NO_ERROR, d)
      else if IsMatterCertificateLikeFieldName fieldName then
        (case AddDecodedX509Certificate H fieldName value tree d of None \<Rightarrow> None
         | Some (err, d) \<Rightarrow>
             if err = MATTER_NO_ERROR then Some (MATTER_NO_ERROR, d)
             else ignoring (AddDecodedMatterCertificate H named fieldName value valueLen valueOffset tree d))
      else if fieldName = ''AttestationElements''
      then ignoring (AddDecodedAttestationElements H named value valueLen valueOffset tree d)
      else if fieldName = ''NOCSRElements''
      then ignoring (AddDecodedNOCSRElements H named value valueLen valueOffset tree d)
      else Some (MATTER_NO_ERROR, d))"

definition named_value_step :: "im_host \<Rightarrow> value_printer \<Rightarrow> value_printer" where
  "named_value_step H named fieldName tree d =
     (let type = GetType d; put = (\<lambda>value d. field_line H tree (fieldName @ ''='' @ value) d) in
      if type = kTLVType_SignedInteger then
        (case Get_i64 d of (err, value) \<Rightarrow> if err \<noteq> MATTER_NO_ERROR then Some (err, d) else put (sdec (sint value)) d)
      else if type = kTLVType_UnsignedInteger then
        (case Get_u64 d 0 of (err, value) \<Rightarrow> if err \<noteq> MATTER_NO_ERROR then Some (err, d) else put (dec (unat value)) d)
      else if type = kTLVType_Boolean then
        (case Get_bool d False of (err, value) \<Rightarrow>
           if err \<noteq> MATTER_NO_ERROR then Some (err, d) else put (if value then ''true'' else ''false'') d)
      else if type = kTLVType_FloatingPointNumber then
        (case Get_double d (OfDouble 0) of (err, value) \<Rightarrow>
           if err \<noteq> MATTER_NO_ERROR then Some (err, d) else put (fmt_g H value) d)
      else if type = kTLVType_UTF8String then
        (case DupString (malloc_ok (im_env H)) d of None \<Rightarrow> None
         | Some (err, value, d) \<Rightarrow>
             if err \<noteq> MATTER_NO_ERROR then Some (err, d)
             else (case value of None \<Rightarrow> None
               | Some value \<Rightarrow> put (''\"'' @ text_of value @ ''\"'') d))
      else if type = kTLVType_ByteString then
        (let valueLen = GetLength d in
         case GetDataPtr d of (err, value, d) \<Rightarrow>
           if err \<noteq> MATTER_NO_ERROR then Some (err, d)
           else SuccessOrExit (put (''['' @ dec (unat valueLen) @ '' bytes]'') d) (\<lambda>d.
             if fieldName \<noteq> ''CertificationDeclaration'' \<and> \<not> IsMatterCertificateLikeFieldName fieldName \<and>
                fieldName \<noteq> ''AttestationElements'' \<and> fieldName \<noteq> ''NOCSRElements'' \<or> valueLen = 0
             then Some (MATTER_NO_ERROR, d)
             else (case value_bytes d value valueLen of None \<Rightarrow> None
               | Some bs \<Rightarrow> decode_bytes H named fieldName bs valueLen tree d)))
      else if type = kTLVType_Null then put ''null'' d
      else if type = kTLVType_Structure \<or> type = kTLVType_Array \<or> type = kTLVType_Path
      then SuccessOrExit (put '''' d) (generic (im_registry H) ''ImCommon_Unknown'' True tree)
      else Some (MATTER_ERROR_UNEXPECTED_TLV_ELEMENT, d))"

text \<open>
  A name that is known leads to other names: \<open>AttestationElements\<close> to \<open>CertificationDeclaration\<close>, that to
  \<open>CertificateId\<close>, which is taken for a certificate, and that to names that lead nowhere. Four levels are enough
  for every name (\<open>AddNamedCommandValue_unfold\<close>).
\<close>

primrec named_value :: "nat \<Rightarrow> im_host \<Rightarrow> value_printer" where
  "named_value 0 H = (\<lambda>fieldName tree d. None)"
| "named_value (Suc n) H = named_value_step H (named_value n H)"

definition AddNamedCommandValue :: "im_host \<Rightarrow> value_printer" where
  "AddNamedCommandValue = named_value 4"

end
