(* ===== verification/IM_Elements.thy ===== *)
theory IM_Elements
  imports IM_Values
begin

text \<open>
  The interaction model, fourth part: the information blocks that the messages are lists of. Variables that a loop
  assigns are the first component of its state; the identifiers of a path are there once the path was read (the
  flag \<open>haveAttributePath\<close> and the two numbers, as an option).
\<close>

section \<open>Fields with names\<close>

definition field_or_unknown :: "im_host \<Rightarrow> (u32 \<Rightarrow> string option) \<Rightarrow> ListElemHandler" where
  "field_or_unknown H name_of tree = context_or_unknown H tree
     (\<lambda>d. case name_of (TagNumFromTag (GetTag d)) of
        Some fieldName \<Rightarrow> AddNamedCommandValue H fieldName tree d
      | None \<Rightarrow> unknown H tree d)"

definition AddNamedCommandPayload :: "im_host \<Rightarrow> u32 \<Rightarrow> u32 \<Rightarrow> bool \<Rightarrow> ListElemHandler" where
  "AddNamedCommandPayload H cluster commandId isRequest tree = of_types [kTLVType_Structure]
     (titled_members H ''CommandRequest_Argument'' ''Command Argument''
       (field_or_unknown H (\<lambda>tag. GetCommandFieldNameByTag H cluster commandId tag isRequest)) tree)"

definition AddNamedAttributeStructValue :: "im_host \<Rightarrow> u32 \<Rightarrow> u32 \<Rightarrow> ListElemHandler" where
  "AddNamedAttributeStructValue H cluster attributeId tree = of_types [kTLVType_Structure]
     (titled_members H ''DataElem_PropertyData'' ''Value''
       (field_or_unknown H (GetAttributeStructFieldNameByTag H cluster attributeId)) tree)"

abbreviation im_subtree :: "im_host \<Rightarrow> string \<Rightarrow> string \<Rightarrow> ListElemHandler \<Rightarrow> ListElemHandler" where
  "im_subtree H hf_var ett_var \<equiv> subtree_members (im_registry H) (im_hf H hf_var) (im_ett H ett_var)"

text \<open>An unsigned integer in a line, anything else in the generic form.\<close>

definition uint_line :: "im_host \<Rightarrow> string \<Rightarrow> (u64 \<Rightarrow> string) \<Rightarrow> ListElemHandler" where
  "uint_line H hf_var text_of_value tree d =
     (case Get_u64 d 0 of (err, value) \<Rightarrow>
        if GetType d = kTLVType_UnsignedInteger \<and> err = MATTER_NO_ERROR
        then text_item H hf_var tree (text_of_value value) d else unknown H tree d)"

section \<open>Status\<close>

definition status_ib_member :: "im_host \<Rightarrow> ListElemHandler" where
  "status_ib_member H statusIBTree = context_or_unknown H statusIBTree
     (tag_switch
       [(StatusIB_kTag_Status, typed (im_registry H) ''CommandStatus_Status'' statusIBTree),
        (StatusIB_kTag_ClusterStatus, typed (im_registry H) ''CommandStatus_ClusterStatus'' statusIBTree)]
       (unknown H statusIBTree))"

definition AddStatusIB :: "im_host \<Rightarrow> ListElemHandler" where
  "AddStatusIB H tree = of_types [kTLVType_Structure] (im_subtree H ''StatusIB'' ''StatusIB'' (status_ib_member H) tree)"

section \<open>Filters\<close>

definition event_filter_member :: "im_host \<Rightarrow> ListElemHandler" where
  "event_filter_member H itemTree d =
     (if IsContextTag (GetTag d) \<and> GetType d = kTLVType_UnsignedInteger then
        (case Get_u64 d 0 of (err, value) \<Rightarrow>
           if err \<noteq> MATTER_NO_ERROR then Some (err, d)
           else tag_switch
             [(0, text_item H ''ImCommon_Unknown'' itemTree (''Node=0x'' @ hex_upper 1 (unat value))),
              (1, text_item H ''ImCommon_Unknown'' itemTree (''EventMin=0x'' @ hex_upper 1 (unat value)))]
             (unknown H itemTree) d)
      else unknown H itemTree d)"

definition AddEventFilterIBItem :: "im_host \<Rightarrow> ListElemHandler" where
  "AddEventFilterIBItem H tree = of_types [kTLVType_Structure]
     (im_subtree H ''ImCommon_Unknown'' ''DataElem'' (event_filter_member H) tree)"

definition data_version_filter_member :: "im_host \<Rightarrow> ListElemHandler" where
  "data_version_filter_member H itemTree = context_or_unknown H itemTree
     (tag_switch
       [(0, \<lambda>d. or_else (AddClusterPathItem H itemTree d) (unknown H itemTree)),
        (1, uint_line H ''ImCommon_Unknown'' (\<lambda>value. ''DataVersion='' @ dec (unat value)) itemTree)]
       (unknown H itemTree))"

definition AddDataVersionFilterIBItem :: "im_host \<Rightarrow> ListElemHandler" where
  "AddDataVersionFilterIBItem H tree = of_types [kTLVType_Structure]
     (im_subtree H ''ImCommon_Unknown'' ''DataElem'' (data_version_filter_member H) tree)"

section \<open>Commands\<close>

text \<open>The body of the loop, with the path as the variable that it assigns.\<close>

definition command_data_member ::
  "im_host \<Rightarrow> bool \<Rightarrow> bool \<Rightarrow> proto_tree \<Rightarrow> (u32 \<times> u32) option \<times> dissector \<Rightarrow> ((u32 \<times> u32) option \<times> dissector) result" where
  "command_data_member H decodeNamedPayload isRequestPayload dataElemTree s =
     (case s of (path, d) \<Rightarrow>
        let tag = TagNumFromTag (GetTag d); type = GetType d in
        if \<not> IsContextTag (GetTag d) then Some (MATTER_ERROR_UNEXPECTED_TLV_ELEMENT, path, d)
        else if tag = CommandDataIB_kTag_Path then
          VerifyOrExit (type = kTLVType_Path \<or> type = kTLVType_Structure) MATTER_ERROR_UNEXPECTED_TLV_ELEMENT (path, d)
            (AddCommandPathItemAndExtractIds H dataElemTree (path, d))
        else if tag = CommandDataIB_kTag_Data then
          with_locals path
            (case path of
               Some (cluster, commandId) \<Rightarrow>
                 if decodeNamedPayload \<and> type = kTLVType_Structure
                 then AddNamedCommandPayload H cluster commandId isRequestPayload dataElemTree d
                 else generic (im_registry H) ''DataElem_PropertyData'' True dataElemTree d
             | None \<Rightarrow> generic (im_registry H) ''DataElem_PropertyData'' True dataElemTree d)
        else with_locals path (unknown H dataElemTree d))"

definition path_then_members ::
  "im_host \<Rightarrow> string \<Rightarrow> string \<Rightarrow>
   (proto_tree \<Rightarrow> (u32 \<times> u32) option \<times> dissector \<Rightarrow> ((u32 \<times> u32) option \<times> dissector) result) \<Rightarrow> ListElemHandler" where
  "path_then_members H hf_var ett_var member tree d =
     (case AddSubTreeItem tree (im_hf H hf_var) (im_ett H ett_var) None d of (err, itemTree, d) \<Rightarrow>
        if err \<noteq> MATTER_NO_ERROR then Some (err, d)
        else map_option (\<lambda>(err, _, d). (err, d)) (in_container (im_env H) (member itemTree) (None, d)))"

definition AddCommandDataIB :: "im_host \<Rightarrow> bool \<Rightarrow> bool \<Rightarrow> ListElemHandler" where
  "AddCommandDataIB H decodeNamedPayload isRequestPayload =
     path_then_members H ''CommandDataIB'' ''CommandElem'' (command_data_member H decodeNamedPayload isRequestPayload)"

definition AddCommandDataIBForRequest :: "im_host \<Rightarrow> ListElemHandler" where
  "AddCommandDataIBForRequest H = AddCommandDataIB H True True"

definition AddCommandDataIBForResponse :: "im_host \<Rightarrow> ListElemHandler" where
  "AddCommandDataIBForResponse H = AddCommandDataIB H True False"

definition command_status_member :: "im_host \<Rightarrow> ListElemHandler" where
  "command_status_member H statusTree = context_switch
     [(CommandStatusIB_kTag_Path, AddNamedPathItem H Command statusTree),
      (CommandStatusIB_kTag_Status, AddStatusIB H statusTree),
      (CommandStatusIB_kTag_Ref, typed (im_registry H) ''CommandStatus_Ref'' statusTree)]
     (unknown H statusTree)"

definition AddCommandStatusIB :: "im_host \<Rightarrow> ListElemHandler" where
  "AddCommandStatusIB H tree = of_types [kTLVType_Structure]
     (im_subtree H ''CommandStatusIB'' ''CommandElem'' (command_status_member H) tree)"

text \<open>\<open>AddInvokeResponseIB\<close> adds no subtree of its own.\<close>

definition invoke_response_member :: "im_host \<Rightarrow> ListElemHandler" where
  "invoke_response_member H tree = context_switch
     [(InvokeResponseIB_kTag_Command, of_types [kTLVType_Structure] (AddCommandDataIBForResponse H tree)),
      (InvokeResponseIB_kTag_Status, of_types [kTLVType_Structure] (AddCommandStatusIB H tree))]
     (unknown H tree)"

definition AddInvokeResponseIB :: "im_host \<Rightarrow> ListElemHandler" where
  "AddInvokeResponseIB H tree = members (im_registry H) (invoke_response_member H tree)"

section \<open>Attributes\<close>

definition attribute_value :: "im_host \<Rightarrow> (u32 \<times> u32) option \<Rightarrow> ListElemHandler" where
  "attribute_value H path itemTree d =
     (case path of
        Some (cluster, attributeId) \<Rightarrow>
          if GetType d = kTLVType_Structure then AddNamedAttributeStructValue H cluster attributeId itemTree d
          else if GetType d = kTLVType_UnsignedInteger then
            (case Get_u64 d 0 of (err, value) \<Rightarrow>
               if err \<noteq> MATTER_NO_ERROR then Some (err, d)
               else field_line H itemTree
                 (labelled_value ''Value'' (dec (unat value)) (GetAttributeEnumValueName H cluster attributeId value)) d)
          else if GetType d = kTLVType_SignedInteger then
            (case Get_i64 d of (err, value) \<Rightarrow>
               if err \<noteq> MATTER_NO_ERROR then Some (err, d)
               else field_line H itemTree
                 (labelled_value ''Value'' (sdec (sint value))
                   (if sint value \<ge> 0 then GetAttributeEnumValueName H cluster attributeId value else None)) d)
          else AddNamedCommandValue H ''Value'' itemTree d
      | None \<Rightarrow> AddNamedCommandValue H ''Value'' itemTree d)"

text \<open>\<open>again\<close> is the function itself, for a structure without a context tag.\<close>

definition attribute_data_member ::
  "im_host \<Rightarrow> ListElemHandler \<Rightarrow> proto_tree \<Rightarrow> (u32 \<times> u32) option \<times> dissector \<Rightarrow> ((u32 \<times> u32) option \<times> dissector) result" where
  "attribute_data_member H again itemTree s =
     (case s of (path, d) \<Rightarrow>
        let tag = TagNumFromTag (GetTag d) in
        if \<not> IsContextTag (GetTag d) then
          with_locals path
            (if GetType d = kTLVType_Structure then or_else (again itemTree d) (unknown H itemTree) else unknown H itemTree d)
        else if tag = 0 then
          with_locals path (uint_line H ''ImCommon_Field'' (\<lambda>value. ''DataVersion='' @ dec (unat value)) itemTree d)
        else if tag = 1 then
          (case AddAttributePathItemAndExtractIds H itemTree (path, d) of None \<Rightarrow> None
           | Some (pathErr, path, d) \<Rightarrow>
               if pathErr \<noteq> MATTER_NO_ERROR then with_locals path (unknown H itemTree d)
               else Some (MATTER_NO_ERROR, path, d))
        else if tag = 2 then with_locals path (attribute_value H path itemTree d)
        else with_locals path (unknown H itemTree d))"

lemma or_else_mono [partial_function_mono]:
  "mono_option m \<Longrightarrow> mono_option (\<lambda>f. or_else (m f) h)"
  by (rule mono_optionI) (auto simp: or_else_def split: option.splits dest: mono_optionD)

lemma attribute_data_member_mono [partial_function_mono]:
  assumes "\<And>tree d. mono_option (\<lambda>f. again f tree d)"
  shows "mono_option (\<lambda>f. attribute_data_member H (again f) itemTree s)"
  by (cases s) (auto simp: attribute_data_member_def Let_def intro!: partial_function_mono assms)

lemma path_then_members_mono [partial_function_mono]:
  assumes "\<And>tree s. mono_option (\<lambda>f. member f tree s)"
  shows "mono_option (\<lambda>f. path_then_members H hf_var ett_var (member f) tree d)"
  by (cases "AddSubTreeItem tree (im_hf H hf_var) (im_ett H ett_var) None d")
    (auto simp: path_then_members_def intro!: map_option_mono in_container_mono partial_function_mono assms)

partial_function (option) AddAttributeDataIBItem :: "im_host \<Rightarrow> proto_tree \<Rightarrow> dissector \<Rightarrow> dissector result" where
  [code]: "AddAttributeDataIBItem H tree d =
     VerifyOrExit (GetType d = kTLVType_Structure) MATTER_ERROR_UNEXPECTED_TLV_ELEMENT d
       (path_then_members H ''DataElem_PropertyData'' ''DataElem''
         (attribute_data_member H (\<lambda>tree d. AddAttributeDataIBItem H tree d)) tree d)"

section \<open>Status of attributes\<close>

definition attribute_status_member :: "im_host \<Rightarrow> ListElemHandler \<Rightarrow> ListElemHandler" where
  "attribute_status_member H again itemTree d =
     (let tag = TagNumFromTag (GetTag d) in
      if \<not> IsContextTag (GetTag d) then
        (if GetType d = kTLVType_Structure then or_else (again itemTree d) (unknown H itemTree) else unknown H itemTree d)
      else if tag = 0 then or_else (AddNamedPathItem H Attribute itemTree d) (unknown H itemTree)
      else if tag = 1 \<and> GetType d = kTLVType_Structure then AddStatusIB H itemTree d
      else unknown H itemTree d)"

lemma attribute_status_member_mono [partial_function_mono]:
  assumes "\<And>tree d. mono_option (\<lambda>f. again f tree d)"
  shows "mono_option (\<lambda>f. attribute_status_member H (again f) itemTree d)"
  by (auto simp: attribute_status_member_def Let_def intro!: partial_function_mono assms)

lemma subtree_members_mono [partial_function_mono]:
  assumes "\<And>tree d. mono_option (\<lambda>f. h f tree d)"
  shows "mono_option (\<lambda>f. subtree_members R hfi etti (h f) tree d)"
  by (cases "AddSubTreeItem tree hfi etti None d")
    (auto simp: subtree_members_def intro!: members_mono partial_function_mono assms)

partial_function (option) AddAttributeStatusIBItem :: "im_host \<Rightarrow> proto_tree \<Rightarrow> dissector \<Rightarrow> dissector result" where
  [code]: "AddAttributeStatusIBItem H tree d =
     VerifyOrExit (GetType d = kTLVType_Structure) MATTER_ERROR_UNEXPECTED_TLV_ELEMENT d
       (im_subtree H ''CommandStatusIB'' ''CommandElem''
         (attribute_status_member H (\<lambda>tree d. AddAttributeStatusIBItem H tree d)) tree d)"

section \<open>Reports of attributes\<close>

datatype AttributeIBKind = UnknownIB | DataIB | StatusIB

record ib_shape =
  hasTag2 :: bool
  hasTag0Unsigned :: bool
  hasTag0PathLike :: bool
  hasTag1PathLike :: bool
  hasTag1Struct :: bool

definition no_shape :: ib_shape where
  "no_shape = \<lparr>hasTag2 = False, hasTag0Unsigned = False, hasTag0PathLike = False, hasTag1PathLike = False,
     hasTag1Struct = False\<rparr>"

definition see_member :: "u32 \<Rightarrow> TLVType \<Rightarrow> ib_shape \<Rightarrow> ib_shape" where
  "see_member tagNum type f =
     (if tagNum = 2 then f\<lparr>hasTag2 := True\<rparr>
      else if tagNum = 0 then
        f\<lparr>hasTag0Unsigned := hasTag0Unsigned f \<or> type = kTLVType_UnsignedInteger,
          hasTag0PathLike := hasTag0PathLike f \<or> type = kTLVType_Path \<or> type = kTLVType_Structure\<rparr>
      else if tagNum = 1 then
        f\<lparr>hasTag1PathLike := hasTag1PathLike f \<or> type = kTLVType_Path \<or> type = kTLVType_Structure,
          hasTag1Struct := hasTag1Struct f \<or> type = kTLVType_Structure\<rparr>
      else f)"

definition kind_of_shape :: "ib_shape \<Rightarrow> AttributeIBKind" where
  "kind_of_shape f =
     (if hasTag2 f \<or> hasTag0Unsigned f \<and> hasTag1PathLike f then DataIB
      else if hasTag0PathLike f \<and> hasTag1Struct f then StatusIB
      else UnknownIB)"

definition shape_elem :: "ib_shape \<times> dissector \<Rightarrow> (ib_shape \<times> dissector) result" where
  "shape_elem s =
     (case s of (f, d) \<Rightarrow>
        Some (MATTER_NO_ERROR,
          if \<not> IsContextTag (GetTag d) then f else see_member (TagNumFromTag (GetTag d)) (GetType d) f, d))"

text \<open>It goes through the structure and leaves it; the dissector is behind the structure afterwards.\<close>

definition DetectAttributeIBKind :: "im_host \<Rightarrow> dissector \<Rightarrow> (AttributeIBKind \<times> dissector) option" where
  "DetectAttributeIBKind H d =
     (if GetType d \<noteq> kTLVType_Structure then Some (UnknownIB, d)
      else
        (case Dissector_EnterContainer (im_env H) d of None \<Rightarrow> None
         | Some (err, d) \<Rightarrow>
             if err \<noteq> MATTER_NO_ERROR then Some (UnknownIB, d)
             else
               (case each_elem shape_elem (no_shape, d) of None \<Rightarrow> None
                | Some (_, f, d) \<Rightarrow> map_option (\<lambda>(_, d). (kind_of_shape f, d)) (Dissector_ExitContainer d))))"

definition attribute_report_member :: "im_host \<Rightarrow> ListElemHandler \<Rightarrow> ListElemHandler" where
  "attribute_report_member H again itemTree d =
     (let tag = TagNumFromTag (GetTag d) in
      if \<not> IsContextTag (GetTag d) then
        (if GetType d = kTLVType_Structure then
           (case DetectAttributeIBKind H d of None \<Rightarrow> None
            | Some (kind, d) \<Rightarrow>
                or_else
                  (case kind of DataIB \<Rightarrow> AddAttributeDataIBItem H itemTree d
                   | StatusIB \<Rightarrow> AddAttributeStatusIBItem H itemTree d
                   | UnknownIB \<Rightarrow> again itemTree d)
                  (unknown H itemTree))
         else unknown H itemTree d)
      else if tag = 0 \<and> GetType d = kTLVType_Structure then AddAttributeStatusIBItem H itemTree d
      else if tag = 1 \<and> GetType d = kTLVType_Structure then AddAttributeDataIBItem H itemTree d
      else unknown H itemTree d)"

lemma attribute_report_member_mono [partial_function_mono]:
  assumes "\<And>tree d. mono_option (\<lambda>f. again f tree d)"
  shows "mono_option (\<lambda>f. attribute_report_member H (again f) itemTree d)"
proof -
  have kinds: "mono_option (\<lambda>f. case kind of DataIB \<Rightarrow> AddAttributeDataIBItem H itemTree d
     | StatusIB \<Rightarrow> AddAttributeStatusIBItem H itemTree d | UnknownIB \<Rightarrow> again f itemTree d)" for kind d
    by (cases kind) (auto intro!: partial_function_mono assms)
  show ?thesis
    by (cases "DetectAttributeIBKind H d")
      (auto simp: attribute_report_member_def Let_def intro!: or_else_mono partial_function_mono kinds)
qed

partial_function (option) AddAttributeReportIBItem :: "im_host \<Rightarrow> proto_tree \<Rightarrow> dissector \<Rightarrow> dissector result" where
  [code]: "AddAttributeReportIBItem H tree d =
     VerifyOrExit (GetType d = kTLVType_Structure) MATTER_ERROR_UNEXPECTED_TLV_ELEMENT d
       (im_subtree H ''DataElem_PropertyData'' ''DataElem''
         (attribute_report_member H (\<lambda>tree d. AddAttributeReportIBItem H tree d)) tree d)"

section \<open>Reports of events\<close>

text \<open>The cluster and the event of a path, scanned ahead of its printing.\<close>

definition event_ids_elem :: "(u32 \<times> u32 option) \<times> dissector \<Rightarrow> ((u32 \<times> u32 option) \<times> dissector) result" where
  "event_ids_elem s =
     (case s of ((localCluster, localEvent), d) \<Rightarrow>
        if \<not> IsContextTag (GetTag d) \<or> GetType d \<noteq> kTLVType_UnsignedInteger
        then Some (MATTER_NO_ERROR, (localCluster, localEvent), d)
        else
          (case Get_u64 d 0 of (extractErr, v) \<Rightarrow>
             if extractErr \<noteq> MATTER_NO_ERROR then Some (extractErr, (localCluster, localEvent), d)
             else if TagNumFromTag (GetTag d) = 2 then Some (MATTER_NO_ERROR, (ucast v, localEvent), d)
             else if TagNumFromTag (GetTag d) = 3 then Some (MATTER_NO_ERROR, (localCluster, Some (ucast v)), d)
             else Some (MATTER_NO_ERROR, (localCluster, localEvent), d)))"

definition scan_event_ids ::
  "im_host \<Rightarrow> (u32 \<times> u32) option \<times> dissector \<Rightarrow> ((u32 \<times> u32) option \<times> dissector) option" where
  "scan_event_ids H s =
     (case s of (path, d) \<Rightarrow>
      case Dissector_EnterContainer (im_env H) d of None \<Rightarrow> None
      | Some (extractErr, d) \<Rightarrow>
          if extractErr \<noteq> MATTER_NO_ERROR then Some (path, d)
          else
            (case each_elem event_ids_elem ((0, None), d) of None \<Rightarrow> None
             | Some (extractErr, (localCluster, localEvent), d) \<Rightarrow>
                 map_option (\<lambda>d. (case localEvent of None \<Rightarrow> path | Some e \<Rightarrow> Some (localCluster, e), d))
                   (if extractErr = MATTER_NO_ERROR then map_option snd (Dissector_ExitContainer d) else Some d)))"

definition event_data_or_generic ::
  "im_host \<Rightarrow> PathKind \<Rightarrow> u64 \<Rightarrow> TLVType \<Rightarrow> (u32 \<times> u32) option \<Rightarrow> ListElemHandler" where
  "event_data_or_generic H kind tag type path itemTree =
     (case path of
        Some (cluster, eventId) \<Rightarrow>
          if kind = Event \<and> IsContextTag tag \<and> TagNumFromTag tag = Event_kTag_Data \<and> type = kTLVType_Structure
          then im_subtree H ''DataElem_PropertyData'' ''DataElem''
            (field_or_unknown H (GetEventFieldNameByTag H cluster eventId)) itemTree
          else generic (im_registry H) ''DataElem_PropertyData'' False itemTree
      | None \<Rightarrow> generic (im_registry H) ''DataElem_PropertyData'' False itemTree)"

definition named_struct_member ::
  "im_host \<Rightarrow> PathKind \<Rightarrow> proto_tree \<Rightarrow> (u32 \<times> u32) option \<times> dissector \<Rightarrow> ((u32 \<times> u32) option \<times> dissector) result" where
  "named_struct_member H kind itemTree s =
     (case s of (path, d) \<Rightarrow>
        let tag = GetTag d; type = GetType d in
        if type = kTLVType_Path \<or> type = kTLVType_Structure then
          (case (if kind = Event then scan_event_ids H (path, d) else Some (path, d)) of None \<Rightarrow> None
           | Some (path, d) \<Rightarrow>
               with_locals path
                 (or_else (AddNamedPathItem H kind itemTree d) (event_data_or_generic H kind tag type path itemTree)))
        else with_locals path (event_data_or_generic H kind tag type path itemTree d))"

definition AddNamedStructItem :: "im_host \<Rightarrow> PathKind \<Rightarrow> ListElemHandler" where
  "AddNamedStructItem H kind tree = of_types [kTLVType_Structure]
     (path_then_members H ''DataElem_PropertyData'' ''DataElem'' (named_struct_member H kind) tree)"

definition AddEventReportIBItem :: "im_host \<Rightarrow> ListElemHandler" where
  "AddEventReportIBItem H = AddNamedStructItem H Event"

end
