(* ===== verification/Protocol_IM.thy ===== *)
theory Protocol_IM
  imports IM_Elements
begin

text \<open>
  The interaction model, last part: the messages and their dispatch. A message is one anonymous structure; its
  dissector always reports the whole payload as dissected.
\<close>

section \<open>Members\<close>

text \<open>
  A member sets \<open>hf_entry\<close> to the field it is shown under in the generic form, or shows itself and sets it to -1.
\<close>

definition entry :: "im_host \<Rightarrow> string \<Rightarrow> ListElemHandler" where
  "entry H hf_var tree d =
     (if im_hf H hf_var \<noteq> - 1 then generic (im_registry H) hf_var False tree d else Some (MATTER_NO_ERROR, d))"

text \<open>A list is shown by its handler, anything else under the tag of a list in the generic form.\<close>

definition list_entry :: "im_host \<Rightarrow> string \<Rightarrow> string \<Rightarrow> ListElemHandler \<Rightarrow> ListElemHandler" where
  "list_entry H hf_var ett_var elemHandler tree d =
     (if GetType d = kTLVType_Array \<or> GetType d = kTLVType_Path
      then AddListItem (im_env H) tree (im_hf H hf_var) (im_ett H ett_var) elemHandler d
      else entry H hf_var tree d)"

text \<open>
  In the messages that write attributes the test \<open>hf_entry != -1\<close> is missing: after a list, the generic printer is
  called once more with the field -1.
\<close>

definition unguarded_entry :: "im_host \<Rightarrow> string \<Rightarrow> ListElemHandler" where
  "unguarded_entry H hf_var = generic (im_registry H) hf_var False"

definition unguarded_list_entry :: "im_host \<Rightarrow> string \<Rightarrow> string \<Rightarrow> ListElemHandler \<Rightarrow> ListElemHandler" where
  "unguarded_list_entry H hf_var ett_var elemHandler tree d =
     (if GetType d = kTLVType_Array \<or> GetType d = kTLVType_Path
      then SuccessOrExit (AddListItem (im_env H) tree (im_hf H hf_var) (im_ett H ett_var) elemHandler d)
        (AddGenericTLVItem (im_env H) tree (- 1) False)
      else unguarded_entry H hf_var tree d)"

definition status_response_member :: "im_host \<Rightarrow> ListElemHandler" where
  "status_response_member H tree = context_switch
     [(StatusResponse_kTag_Status, entry H ''StatusResponse_Status'' tree),
      (CommonActionInfo_kTag_InteractionModelRevision, entry H ''ImCommon_Version'' tree)]
     (entry H ''ImCommon_Unknown'' tree)"

definition read_request_member :: "im_host \<Rightarrow> ListElemHandler" where
  "read_request_member H tree = context_switch
     [(ReadRequest_kTag_AttributeRequests,
        list_entry H ''ReadRequest_AttributeRequests'' ''SubscribeRequest_PathList'' (AddAttributePathItem H) tree),
      (ReadRequest_kTag_EventRequests,
        list_entry H ''ReadRequest_EventRequests'' ''SubscribeRequest_PathList'' (AddEventPathItem H) tree),
      (ReadRequest_kTag_EventFilters,
        list_entry H ''ReadRequest_EventFilters'' ''DataElem'' (AddEventFilterIBItem H) tree),
      (ReadRequest_kTag_IsFabricFiltered, entry H ''ReadRequest_IsFabricFiltered'' tree),
      (ReadRequest_kTag_DataVersionFilters,
        list_entry H ''ReadRequest_DataVersionFilters'' ''DataElem'' (AddDataVersionFilterIBItem H) tree),
      (CommonActionInfo_kTag_InteractionModelRevision, entry H ''ImCommon_Version'' tree)]
     (entry H ''ImCommon_Unknown'' tree)"

definition report_data_member :: "im_host \<Rightarrow> ListElemHandler" where
  "report_data_member H tree = context_switch
     [(ReportData_kTag_SubscriptionID, entry H ''ReportData_SubscriptionID'' tree),
      (ReportData_kTag_AttributeReports,
        list_entry H ''ReportData_AttributeReports'' ''DataElem'' (AddAttributeReportIBItem H) tree),
      (ReportData_kTag_EventReports,
        list_entry H ''ReportData_EventReports'' ''DataElem'' (AddEventReportIBItem H) tree),
      (ReportData_kTag_MoreChunkedMessages, entry H ''ReportData_MoreChunkedMessages'' tree),
      (ReportData_kTag_SuppressResponse, entry H ''ReportData_SuppressResponse'' tree),
      (CommonActionInfo_kTag_InteractionModelRevision, entry H ''ImCommon_Version'' tree)]
     (entry H ''ImCommon_Unknown'' tree)"

definition subscribe_request_member :: "im_host \<Rightarrow> ListElemHandler" where
  "subscribe_request_member H tree = context_switch
     [(SubscribeRequest_kTag_KeepSubscriptions, entry H ''SubscribeRequest_KeepSubscriptions'' tree),
      (SubscribeRequest_kTag_MinIntervalFloor, entry H ''SubscribeRequest_MinIntervalFloor'' tree),
      (SubscribeRequest_kTag_MaxIntervalCeiling, entry H ''SubscribeRequest_MaxIntervalCeiling'' tree),
      (SubscribeRequest_kTag_AttributeRequests,
        list_entry H ''SubscribeRequest_AttributeRequests'' ''SubscribeRequest_PathList'' (AddAttributePathItem H) tree),
      (SubscribeRequest_kTag_EventRequests,
        list_entry H ''SubscribeRequest_EventRequests'' ''SubscribeRequest_PathList'' (AddEventPathItem H) tree),
      (SubscribeRequest_kTag_EventFilters,
        list_entry H ''SubscribeRequest_EventFilters'' ''DataElem'' (AddEventFilterIBItem H) tree),
      (SubscribeRequest_kTag_IsFabricFiltered, entry H ''SubscribeRequest_IsFabricFiltered'' tree),
      (SubscribeRequest_kTag_DataVersionFilters,
        list_entry H ''SubscribeRequest_DataVersionFilters'' ''DataElem'' (AddDataVersionFilterIBItem H) tree),
      (CommonActionInfo_kTag_InteractionModelRevision, entry H ''ImCommon_Version'' tree)]
     (entry H ''ImCommon_Unknown'' tree)"

definition subscribe_response_member :: "im_host \<Rightarrow> ListElemHandler" where
  "subscribe_response_member H tree = context_switch
     [(SubscribeResponse_kTag_SubscriptionID, entry H ''SubscribeResponse_SubscriptionID'' tree),
      (SubscribeResponse_kTag_MaxInterval, entry H ''SubscribeResponse_MaxInterval'' tree),
      (CommonActionInfo_kTag_InteractionModelRevision, entry H ''ImCommon_Version'' tree)]
     (entry H ''ImCommon_Unknown'' tree)"

definition write_request_member :: "im_host \<Rightarrow> ListElemHandler" where
  "write_request_member H tree = context_switch
     [(WriteRequest_kTag_SuppressResponse, unguarded_entry H ''WriteRequest_SuppressResponse'' tree),
      (WriteRequest_kTag_TimedRequest, unguarded_entry H ''WriteRequest_TimedRequest'' tree),
      (WriteRequest_kTag_WriteRequests,
        unguarded_list_entry H ''WriteRequest_WriteRequests'' ''DataElem'' (AddAttributeDataIBItem H) tree),
      (WriteRequest_kTag_MoreChunkedMessages, unguarded_entry H ''WriteRequest_MoreChunkedMessages'' tree),
      (CommonActionInfo_kTag_InteractionModelRevision, unguarded_entry H ''ImCommon_Version'' tree)]
     (unguarded_entry H ''ImCommon_Unknown'' tree)"

definition write_response_member :: "im_host \<Rightarrow> ListElemHandler" where
  "write_response_member H tree = context_switch
     [(WriteResponse_kTag_WriteResponses,
        unguarded_list_entry H ''WriteResponse_WriteResponses'' ''DataElem'' (AddAttributeStatusIBItem H) tree),
      (CommonActionInfo_kTag_InteractionModelRevision, unguarded_entry H ''ImCommon_Version'' tree)]
     (unguarded_entry H ''ImCommon_Unknown'' tree)"

definition command_request_member :: "im_host \<Rightarrow> ListElemHandler" where
  "command_request_member H tree = context_switch
     [(InvokeCommandRequest_kTag_SuppressResponse,
        of_types [kTLVType_Boolean] (typed (im_registry H) ''CommandRequest_SuppressResponse'' tree)),
      (InvokeCommandRequest_kTag_TimedRequest,
        of_types [kTLVType_Boolean] (typed (im_registry H) ''CommandRequest_TimedRequest'' tree)),
      (InvokeCommandRequest_kTag_CommandList,
        of_types [kTLVType_Array]
          (AddListItem (im_env H) tree (im_hf H ''CommandRequest_CommandList'') (im_ett H ''CommandRequest_CommandList'')
            (AddCommandDataIBForRequest H))),
      (CommonActionInfo_kTag_InteractionModelRevision, generic (im_registry H) ''ImCommon_Version'' False tree)]
     (generic (im_registry H) ''ImCommon_Unknown'' False tree)"

definition command_response_member :: "im_host \<Rightarrow> ListElemHandler" where
  "command_response_member H tree = context_switch
     [(InvokeCommandResponse_kTag_SuppressResponse, entry H ''CommandResponse_SuppressResponse'' tree),
      (InvokeCommandResponse_kTag_InvokeResponses,
        of_types [kTLVType_Array]
          (AddListItem (im_env H) tree (im_hf H ''CommandResponse_InvokeResponsesDetail'')
            (im_ett H ''CommandResponse_InvokeResponseList'') (AddInvokeResponseIB H))),
      (CommonActionInfo_kTag_InteractionModelRevision, entry H ''ImCommon_Version'' tree)]
     (entry H ''ImCommon_Unknown'' tree)"

definition timed_request_member :: "im_host \<Rightarrow> ListElemHandler" where
  "timed_request_member H tree = context_switch
     [(TimedRequest_kTag_TimeoutMs, typed (im_registry H) ''TimedRequest_TimeoutMs'' tree),
      (CommonActionInfo_kTag_InteractionModelRevision, generic (im_registry H) ''ImCommon_Version'' False tree)]
     (generic (im_registry H) ''ImCommon_Unknown'' False tree)"

section \<open>Messages\<close>

text \<open>What the ten dissectors do, with the title and the handler of the members.\<close>

definition im_message ::
  "im_host \<Rightarrow> tvbuff \<Rightarrow> msg_info \<Rightarrow> string \<Rightarrow> ListElemHandler \<Rightarrow> proto_tree \<Rightarrow> view \<Rightarrow> (int \<times> view) option" where
  "im_message H tvb mi title member tree v =
     map_option (\<lambda>(err, v). (int (unat (mi_payloadLen mi)), v))
       (run_tlv (im_registry H) kProfileIdNotSpecified tvb 0 (unat (mi_payloadLen mi))
         (\<lambda>d. SuccessOrExit (Dissector_Next_expect kTLVType_Structure AnonymousTag d)
           (members (im_registry H) (member tree)))
         (append_text tree title v))"

definition DissectIMStatusResponse :: "im_host \<Rightarrow> tvbuff \<Rightarrow> msg_info \<Rightarrow> proto_tree \<Rightarrow> view \<Rightarrow> (int \<times> view) option" where
  "DissectIMStatusResponse H tvb mi = im_message H tvb mi '': Status Report'' (status_response_member H)"

definition DissectIMReadRequest :: "im_host \<Rightarrow> tvbuff \<Rightarrow> msg_info \<Rightarrow> proto_tree \<Rightarrow> view \<Rightarrow> (int \<times> view) option" where
  "DissectIMReadRequest H tvb mi = im_message H tvb mi '': Read Request'' (read_request_member H)"

definition DissectIMReportData :: "im_host \<Rightarrow> tvbuff \<Rightarrow> msg_info \<Rightarrow> proto_tree \<Rightarrow> view \<Rightarrow> (int \<times> view) option" where
  "DissectIMReportData H tvb mi = im_message H tvb mi '': Report Data'' (report_data_member H)"

definition DissectIMSubscribeRequest :: "im_host \<Rightarrow> tvbuff \<Rightarrow> msg_info \<Rightarrow> proto_tree \<Rightarrow> view \<Rightarrow> (int \<times> view) option" where
  "DissectIMSubscribeRequest H tvb mi = im_message H tvb mi '': Subscribe Request'' (subscribe_request_member H)"

definition DissectIMSubscribeResponse :: "im_host \<Rightarrow> tvbuff \<Rightarrow> msg_info \<Rightarrow> proto_tree \<Rightarrow> view \<Rightarrow> (int \<times> view) option" where
  "DissectIMSubscribeResponse H tvb mi = im_message H tvb mi '': Subscribe Response'' (subscribe_response_member H)"

definition DissectIMWriteRequest :: "im_host \<Rightarrow> tvbuff \<Rightarrow> msg_info \<Rightarrow> proto_tree \<Rightarrow> view \<Rightarrow> (int \<times> view) option" where
  "DissectIMWriteRequest H tvb mi = im_message H tvb mi '': Write Request'' (write_request_member H)"

definition DissectIMWriteResponse :: "im_host \<Rightarrow> tvbuff \<Rightarrow> msg_info \<Rightarrow> proto_tree \<Rightarrow> view \<Rightarrow> (int \<times> view) option" where
  "DissectIMWriteResponse H tvb mi = im_message H tvb mi '': Write Response'' (write_response_member H)"

definition DissectIMCommandRequest :: "im_host \<Rightarrow> tvbuff \<Rightarrow> msg_info \<Rightarrow> proto_tree \<Rightarrow> view \<Rightarrow> (int \<times> view) option" where
  "DissectIMCommandRequest H tvb mi = im_message H tvb mi '': Invoke Command Request'' (command_request_member H)"

definition DissectIMCommandResponse :: "im_host \<Rightarrow> tvbuff \<Rightarrow> msg_info \<Rightarrow> proto_tree \<Rightarrow> view \<Rightarrow> (int \<times> view) option" where
  "DissectIMCommandResponse H tvb mi = im_message H tvb mi '': Invoke Command Response'' (command_response_member H)"

definition DissectIMTimedRequest :: "im_host \<Rightarrow> tvbuff \<Rightarrow> msg_info \<Rightarrow> proto_tree \<Rightarrow> view \<Rightarrow> (int \<times> view) option" where
  "DissectIMTimedRequest H tvb mi = im_message H tvb mi '': Timed Request'' (timed_request_member H)"

definition im_messages ::
  "im_host \<Rightarrow> tvbuff \<Rightarrow> msg_info \<Rightarrow> proto_tree \<Rightarrow> (byte \<times> (view \<Rightarrow> (int \<times> view) option)) list" where
  "im_messages H tvb mi tree =
     [(InteractionModel_kMsgType_StatusResponse, DissectIMStatusResponse H tvb mi tree),
      (InteractionModel_kMsgType_ReadRequest, DissectIMReadRequest H tvb mi tree),
      (InteractionModel_kMsgType_ReportData, DissectIMReportData H tvb mi tree),
      (InteractionModel_kMsgType_SubscribeRequest, DissectIMSubscribeRequest H tvb mi tree),
      (InteractionModel_kMsgType_SubscribeResponse, DissectIMSubscribeResponse H tvb mi tree),
      (InteractionModel_kMsgType_WriteRequest, DissectIMWriteRequest H tvb mi tree),
      (InteractionModel_kMsgType_WriteResponse, DissectIMWriteResponse H tvb mi tree),
      (InteractionModel_kMsgType_InvokeRequest, DissectIMCommandRequest H tvb mi tree),
      (InteractionModel_kMsgType_InvokeResponse, DissectIMCommandResponse H tvb mi tree),
      (InteractionModel_kMsgType_TimedRequest, DissectIMTimedRequest H tvb mi tree)]"

definition DissectIM :: "im_host \<Rightarrow> tvbuff \<Rightarrow> msg_info \<Rightarrow> view \<Rightarrow> (int \<times> view) option" where
  "DissectIM H tvb mi v =
     do {
       v \<leftarrow> AddMessageTypeToInfoColumn mi v;
       (case protocol_tree (im_registry H) ''im'' ''im'' v of (im_tree, v) \<Rightarrow>
          (case map_of (im_messages H tvb mi im_tree) (mi_msgType mi) of
             Some dissect \<Rightarrow> dissect v
           | None \<Rightarrow> Some (0, v)))
     }"

end
