(* ===== verification/Item_Types_IM.thy ===== *)
theory Item_Types_IM
  imports Item_Types Protocol_IM
begin

text \<open>
  Types of the items of the interaction model. \<open>fits_at\<close> is the judgement on a result that a dissector leads to, with or
  without variables of a loop beside the dissector; its rules follow the control flow, so that a definition is taken
  apart by \<open>intro\<close>.
\<close>

section \<open>Results\<close>

definition fits_at :: "registry \<Rightarrow> int set \<Rightarrow> dissector \<Rightarrow> dissector result \<Rightarrow> bool" where
  "fits_at R U d m \<longleftrightarrow> (\<forall>err d'. m = Some (err, d') \<longrightarrow> more_fit R U d d')"

definition fits_with :: "registry \<Rightarrow> int set \<Rightarrow> dissector \<Rightarrow> ('l \<times> dissector) result \<Rightarrow> bool" where
  "fits_with R U d m \<longleftrightarrow> (\<forall>err l d'. m = Some (err, l, d') \<longrightarrow> more_fit R U d d')"

lemma adds_fitting_at: "adds_fitting R U h \<longleftrightarrow> (\<forall>d. fits_at R U d (h d))"
  by (auto simp: adds_fitting_def fits_at_def)

lemma adds_fittingI: "(\<And>d. fits_at R U d (h d)) \<Longrightarrow> adds_fitting R U h"
  by (simp add: adds_fitting_at)

lemma fits_at_handler: "adds_fitting R U h \<Longrightarrow> fits_at R U d (h d)"
  by (simp add: adds_fitting_at)

named_theorems fits_rules \<open>control flow\<close>

lemma fits_at_rules [fits_rules]:
  "fits_at R U d None"
  "fits_at R U d (Some (err, d))"
  "(b \<Longrightarrow> fits_at R U d m) \<Longrightarrow> (\<not> b \<Longrightarrow> fits_at R U d n) \<Longrightarrow> fits_at R U d (if b then m else n)"
  "(\<And>x y. p = (x, y) \<Longrightarrow> fits_at R U d (f x y)) \<Longrightarrow> fits_at R U d (case p of (x, y) \<Rightarrow> f x y)"
  "(o1 = None \<Longrightarrow> fits_at R U d n) \<Longrightarrow> (\<And>x. o1 = Some x \<Longrightarrow> fits_at R U d (g x)) \<Longrightarrow>
     fits_at R U d (case o1 of None \<Rightarrow> n | Some x \<Rightarrow> g x)"
  by (auto simp: fits_at_def more_fit_refl split: option.splits prod.splits)

lemma fits_with_rules [fits_rules]:
  "fits_with R U d (None :: ('l \<times> dissector) result)"
  "fits_with R U d (Some (err, l, d))"
  "(b \<Longrightarrow> fits_with R U d m) \<Longrightarrow> (\<not> b \<Longrightarrow> fits_with R U d n) \<Longrightarrow> fits_with R U d (if b then m else n)"
  "(\<And>x y. p = (x, y) \<Longrightarrow> fits_with R U d (f x y)) \<Longrightarrow> fits_with R U d (case p of (x, y) \<Rightarrow> f x y)"
  "(o1 = None \<Longrightarrow> fits_with R U d n) \<Longrightarrow> (\<And>x. o1 = Some x \<Longrightarrow> fits_with R U d (g x)) \<Longrightarrow>
     fits_with R U d (case o1 of None \<Rightarrow> n | Some x \<Rightarrow> g x)"
  "fits_at R U d r \<Longrightarrow> fits_with R U d (with_locals l r)"
  by (auto simp: fits_at_def fits_with_def with_locals_def more_fit_refl split: option.splits prod.splits)

text \<open>A dissector that has read since then.\<close>

lemma fits_read:
  "trace d1 = trace d \<Longrightarrow> fits_at R U d1 m \<Longrightarrow> fits_at R U d m"
  "trace d1 = trace d \<Longrightarrow> fits_with R U d1 n \<Longrightarrow> fits_with R U d n"
  by (auto simp: fits_at_def fits_with_def more_fit_def)

lemma fits_after:
  "more_fit R U d d1 \<Longrightarrow> fits_at R U d1 m \<Longrightarrow> fits_at R U d m"
  "more_fit R U d d1 \<Longrightarrow> fits_with R U d1 n \<Longrightarrow> fits_with R U d n"
  unfolding fits_at_def fits_with_def by (blast intro: more_fit_trans)+

lemma fits_done:
  "more_fit R U d d1 \<Longrightarrow> fits_at R U d (Some (err, d1))"
  "more_fit R U d d1 \<Longrightarrow> fits_with R U d (Some (err, l, d1))"
  by (simp_all add: fits_at_def fits_with_def)

lemma fits_SuccessOrExit [fits_rules]:
  assumes "fits_at R U d m" and "\<And>d'. m = Some (0, d') \<Longrightarrow> fits_at R U d' (k d')"
  shows "fits_at R U d (SuccessOrExit m k)"
  unfolding fits_at_def
proof (intro allI impI)
  fix err d' assume "SuccessOrExit m k = Some (err, d')"
  then show "more_fit R U d d'"
    using assms by (elim SuccessOrExit_cases) (auto simp: fits_at_def intro: more_fit_trans)
qed

lemma fits_with_SuccessOrExit [fits_rules]:
  assumes "fits_with R U d m" and "\<And>l d'. m = Some (0, l, d') \<Longrightarrow> fits_with R U d' (k (l, d'))"
  shows "fits_with R U d (SuccessOrExit m k)"
  unfolding fits_with_def
proof (intro allI impI)
  fix err l d' assume "SuccessOrExit m k = Some (err, l, d')"
  then show "more_fit R U d d'"
  proof (rule SuccessOrExit_cases)
    fix s assume s: "m = Some (0, s)" "k s = Some (err, l, d')"
    then show ?thesis using assms(1) assms(2) [of "fst s" "snd s"]
      by (cases s) (auto simp: fits_with_def intro: more_fit_trans)
  qed (use assms(1) in \<open>auto simp: fits_with_def\<close>)
qed

lemma fits_VerifyOrExit [fits_rules]:
  "(c \<Longrightarrow> fits_at R U d k) \<Longrightarrow> fits_at R U d (VerifyOrExit c err d k)"
  "(c \<Longrightarrow> fits_with R U d k') \<Longrightarrow> fits_with R U d (VerifyOrExit c err (l, d) k')"
  by (auto simp: fits_at_def fits_with_def VerifyOrExit_def more_fit_refl split: if_splits)

lemma fits_ignoring [fits_rules]:
  "fits_at R U d m \<Longrightarrow> fits_at R U d (ignoring m)" "fits_with R U d n \<Longrightarrow> fits_with R U d (ignoring n)"
  by (auto simp: fits_at_def fits_with_def ignoring_def)

lemma fits_or_else [fits_rules]:
  assumes "fits_at R U d m" and "adds_fitting R U h"
  shows "fits_at R U d (or_else m h)"
  using assms more_fit_trans [OF _ adds_fittingD [OF assms(2)]]
  by (auto simp: fits_at_def or_else_def split: option.splits if_splits)

lemma fits_in_container:
  assumes "\<And>l d. fits_with R U d (b (l, d))"
  shows "fits_with R U d (in_container E b (l, d))"
  unfolding fits_with_def
proof (intro allI impI)
  fix err l' d' assume c: "in_container E b (l, d) = Some (err, l', d')"
  show "more_fit R U d d'"
    by (rule in_container_fits [OF c]) (use assms in \<open>auto simp: fits_with_def\<close>)
qed

lemma fits_with_handler: "adds_fitting R U h \<Longrightarrow> fits_with R U d (with_locals l (h d))"
  by (auto simp: adds_fitting_def fits_with_def with_locals_def)

section \<open>Lines and paths\<close>

text \<open>The fields that only ever get text.\<close>

definition im_text_types :: "im_host \<Rightarrow> bool" where
  "im_text_types H \<longleftrightarrow> (\<forall>v \<in> {''ImCommon_Unknown'', ''ImCommon_Field'', ''DataElem_PropertyPath''}.
     proto_registrar_get_ftype (im_env H) (im_hf H v) = FT_STRING)"

lemma text_item_fits:
  assumes "im_text_types H" and "hf_var \<in> {''ImCommon_Unknown'', ''ImCommon_Field'', ''DataElem_PropertyPath''}"
  shows "adds_fitting (im_registry H) U (text_item H hf_var tree msg)"
  using assms by (auto simp: adds_fitting_def text_item_def AddStringItemF_def im_text_types_def intro!: more_fit_item)

lemma unknown_fits: "im_text_types H \<Longrightarrow> adds_fitting (im_registry H) U (unknown H tree)"
  unfolding unknown_def by (rule generic_fits) (simp add: im_text_types_def)

lemma tag_switch_fits:
  assumes "\<forall>(n, h) \<in> set cases. adds_fitting R U h" and "adds_fitting R U dflt"
  shows "adds_fitting R U (tag_switch cases dflt)"
  using assms
  by (auto simp: adds_fitting_def tag_switch_def split: option.splits dest!: map_of_SomeD)

lemma context_or_unknown_fits:
  "im_text_types H \<Longrightarrow> adds_fitting (im_registry H) U h \<Longrightarrow> adds_fitting (im_registry H) U (context_or_unknown H tree h)"
  by (rule adds_fittingI, unfold context_or_unknown_def, intro fits_rules fits_at_handler unknown_fits)

lemma context_or_profile_fits:
  "im_text_types H \<Longrightarrow> adds_fitting (im_registry H) U h \<Longrightarrow> adds_fitting (im_registry H) U (context_or_profile H tree h)"
  by (rule adds_fittingI, unfold context_or_profile_def, intro fits_rules fits_at_handler unknown_fits)

lemma AddSubTreeItemF_fits: "AddSubTreeItemF tree hf ett sub msg d = (err, sub', d') \<Longrightarrow> more_fit R U d d'"
proof -
  assume a: "AddSubTreeItemF tree hf ett sub msg d = (err, sub', d')"
  obtain err1 sub1 d1 where s: "AddSubTreeItem tree hf ett sub d = (err1, sub1, d1)" by (metis prod_cases3)
  have "more_fit R U d1 (emit (ProtoSetText (mLastItem d1) msg) d1)" by (rule more_fit_emit) (simp add: call_fits_def)
  then show ?thesis
    using a s AddSubTreeItem_fits [OF s, of R U] by (auto simp: AddSubTreeItemF_def split: if_splits intro: more_fit_trans)
qed

lemma titled_members_fits:
  assumes "\<And>sub. adds_fitting (im_registry H) U (h sub)"
  shows "adds_fitting (im_registry H) U (titled_members H hf_var title h tree)"
proof (rule adds_fittingI)
  fix d
  obtain err sub d1 where a: "AddSubTreeItemF tree (im_hf H hf_var) (im_ett H ''DataElem'') None title d = (err, sub, d1)"
    by (metis prod_cases3)
  note f = AddSubTreeItemF_fits [OF a]
  show "fits_at (im_registry H) U d (titled_members H hf_var title h tree d)"
    unfolding titled_members_def a prod.case
    by (intro fits_rules fits_done f fits_after(1) [OF f fits_at_handler [OF members_fits [OF assms]]])
qed

lemma path_members_fits: "fits_with (im_registry H) U d (path_members H take_id d)"
  unfolding path_members_def path_elem_def by (intro fits_rules fits_in_container; simp; intro fits_rules)

lemma show_path_fits: "im_text_types H \<Longrightarrow> adds_fitting (im_registry H) U (show_path H itemLabel itemName tree ids)"
  by (rule adds_fittingI, unfold show_path_def, intro fits_rules fits_at_handler text_item_fits; simp)

lemma fits_with_case:
  assumes "fits_with R U d m" and "\<And>err l d'. m = Some (err, l, d') \<Longrightarrow> fits_at R U d' (g err l d')"
  shows "fits_at R U d (case m of None \<Rightarrow> None | Some (err, l, d') \<Rightarrow> g err l d')"
  using assms by (auto simp: fits_at_def fits_with_def split: option.splits prod.splits intro: more_fit_trans)

lemma fits_with_case_with:
  assumes "fits_with R U d m" and "\<And>err l d'. m = Some (err, l, d') \<Longrightarrow> fits_with R U d' (g err l d')"
  shows "fits_with R U d (case m of None \<Rightarrow> None | Some (err, l, d') \<Rightarrow> g err l d')"
  using assms by (auto simp: fits_with_def split: option.splits prod.splits intro: more_fit_trans)

lemma AddNamedPathItem_fits: "im_text_types H \<Longrightarrow> adds_fitting (im_registry H) U (AddNamedPathItem H kind tree)"
  by (rule adds_fittingI, unfold AddNamedPathItem_def, rule fits_with_case [OF path_members_fits],
      intro fits_rules fits_at_handler show_path_fits)

lemma path_extract_fits:
  assumes "im_text_types H"
  shows "fits_with (im_registry H) U d (AddAttributePathItemAndExtractIds H tree (found, d))"
    "fits_with (im_registry H) U d (AddCommandPathItemAndExtractIds H tree (found, d))"
  unfolding AddAttributePathItemAndExtractIds_def AddCommandPathItemAndExtractIds_def prod.case
  by (rule fits_with_case_with [OF path_members_fits], intro fits_rules fits_with_handler show_path_fits assms; simp; intro fits_rules)+

section \<open>Values\<close>

text \<open>A printer of named values, whatever it is, is a handler that fits; so are the printers that are made with it.\<close>

definition named_fits :: "im_host \<Rightarrow> int set \<Rightarrow> value_printer \<Rightarrow> bool" where
  "named_fits H U named \<longleftrightarrow> (\<forall>n tree. adds_fitting (im_registry H) U (named n tree))"

lemma named_fitsD: "named_fits H U named \<Longrightarrow> adds_fitting (im_registry H) U (named n tree)"
  by (simp add: named_fits_def)

lemmas im_handlers = fits_at_handler [OF unknown_fits] fits_at_handler [OF text_item_fits] fits_at_handler [OF named_fitsD]

lemma certificate_enum_fits:
  assumes "im_text_types H" "named_fits H U named"
  shows "adds_fitting (im_registry H) U (AddMatterCertEnumOrRaw H named fieldName lookupName tree)"
    "adds_fitting (im_registry H) U (AddMatterCertKeyUsage H named tree)"
    "adds_fitting (im_registry H) U (extended_key_usage_member H tree)"
  unfolding adds_fitting_at AddMatterCertEnumOrRaw_def AddMatterCertKeyUsage_def extended_key_usage_member_def key_usage_line_def
  by (intro allI fits_rules im_handlers assms; simp)+

lemma certificate_dn_fits:
  assumes "im_text_types H" "named_fits H U named"
  shows "adds_fitting (im_registry H) U (AddDecodedMatterCertificateDN H named label tree)"
proof -
  have "adds_fitting (im_registry H) U (\<lambda>d. or_else (named (name_of d) sub d) (unknown H sub))" for name_of sub
    by (rule adds_fittingI, rule fits_or_else) (intro im_handlers unknown_fits assms)+
  then show ?thesis
    unfolding AddDecodedMatterCertificateDN_def certificate_dn_member_def
    by (intro of_types_fits_any titled_members_fits context_or_unknown_fits assms)
qed

lemma ecdsa_signature_fits:
  assumes "im_text_types H" "named_fits H U named"
  shows "adds_fitting (im_registry H) U (AddDecodedMatterECDSASignature H named tree)"
proof -
  have "adds_fitting (im_registry H) U (\<lambda>d. or_else (named n sub d) (unknown H sub))" for n sub
    by (rule adds_fittingI, rule fits_or_else) (intro im_handlers unknown_fits assms)+
  then show ?thesis
    unfolding AddDecodedMatterECDSASignature_def ecdsa_signature_member_def
    by (intro of_types_fits_any titled_members_fits context_or_unknown_fits tag_switch_fits unknown_fits assms) simp
qed

lemma certificate_extension_fits:
  assumes "im_text_types H" "named_fits H U named"
  shows "adds_fitting (im_registry H) U (AddDecodedMatterCertificateExtensions H named tree)"
proof -
  note named = named_fitsD [OF assms(2)] and unknown = unknown_fits [OF assms(1)]
  have basic: "adds_fitting (im_registry H) U (basic_constraints_member H named sub)" for sub
    unfolding basic_constraints_member_def
    by (intro context_or_profile_fits tag_switch_fits unknown assms(1)) (simp add: named)
  have "adds_fitting (im_registry H) U (\<lambda>d. if GetType d = kTLVType_Structure
      then titled_members H hf title (basic_constraints_member H named) sub d else named n sub d)"
    "adds_fitting (im_registry H) U (\<lambda>d. if GetType d = kTLVType_Array \<or> GetType d = kTLVType_Path
      then titled_members H hf title (extended_key_usage_member H) sub d else named n sub d)" for hf title n sub
    by (rule adds_fittingI, intro fits_rules fits_at_handler [OF titled_members_fits] basic certificate_enum_fits(3) [OF assms]
        fits_at_handler [OF named])+
  then show ?thesis
    unfolding AddDecodedMatterCertificateExtensions_def certificate_extension_def
    by (intro of_types_fits_any titled_members_fits context_or_profile_fits tag_switch_fits unknown assms(1))
      (simp add: named certificate_enum_fits [OF assms])
qed

lemma certificate_member_fits:
  assumes "im_text_types H" "named_fits H U named"
  shows "adds_fitting (im_registry H) U (certificate_member H named tree)"
proof -
  note named = named_fitsD [OF assms(2)] and unknown = unknown_fits [OF assms(1)]
  have "adds_fitting (im_registry H) U (\<lambda>d. if GetType d = kTLVType_Structure
      then AddDecodedMatterECDSASignature H named sub d else named n sub d)" for n sub
    by (rule adds_fittingI, intro fits_rules fits_at_handler [OF ecdsa_signature_fits [OF assms]] fits_at_handler [OF named])
  then show ?thesis
    unfolding certificate_member_def
    by (intro context_or_profile_fits tag_switch_fits unknown assms(1))
      (simp add: named certificate_enum_fits [OF assms] certificate_dn_fits [OF assms] certificate_extension_fits [OF assms])
qed

text \<open>Lines, and the objects inside byte strings: the calls go to and fro with the trace.\<close>

lemma lines_fits: "im_text_types H \<Longrightarrow> more_fit (im_registry H) U d (lines H tree msgs d)"
proof (induction msgs arbitrary: d)
  case (Cons m ms)
  have "more_fit (im_registry H) U d (AddStringItemF tree (im_hf H ''ImCommon_Field'') m d)"
    using Cons.prems by (auto simp: AddStringItemF_def im_text_types_def intro!: more_fit_item)
  from more_fit_trans [OF this Cons.IH [OF Cons.prems]] show ?case by (simp add: lines_def)
qed (simp add: lines_def more_fit_refl)

lemma titled_lines_fits:
  assumes "im_text_types H"
  shows "adds_fitting (im_registry H) U (titled_lines H title msgs tree)"
proof (rule adds_fittingI)
  fix d
  obtain err sub d1 where a: "AddSubTreeItemF tree (im_hf H ''DataElem_PropertyData'') (im_ett H ''DataElem'') None title d = (err, sub, d1)"
    by (metis prod_cases3)
  note f = AddSubTreeItemF_fits [OF a]
  show "fits_at (im_registry H) U d (titled_lines H title msgs tree d)"
    unfolding titled_lines_def a prod.case by (intro fits_rules fits_done f more_fit_trans [OF f lines_fits [OF assms]])
qed

lemma trace_back_to [simp]: "trace (back_to d inner) = trace inner"
  by (simp add: back_to_def)

lemma trace_nested [simp]: "trace (nested H value n off d) = trace d"
  by (simp add: nested_def)

lemma trace_Dissector_Init [simp]: "trace (Dissector_Init value n off d) = trace d"
  by (simp add: Dissector_Init_def Init_buf_def ClearElementState_def SetContainerOpen_def)

lemma Dissector_Next_expect_trace [same_trace]:
  "Dissector_Next_expect t g d = Some (err, d') \<Longrightarrow> trace d' = trace d"
  by (auto simp: Dissector_Next_expect_def Next_expect_def VerifyOrExit_def Let_def elim!: SuccessOrExit_cases split: if_splits option.splits
      dest!: same_trace)

lemma through_fits:
  assumes "adds_fitting R U h"
  shows "fits_with R U inner (through h (parent, inner))"
proof -
  have "more_fit R U inner d" if "h (back_to parent inner) = Some (err, d)" for err d
    using more_fit_same [OF _ adds_fittingD [OF assms that]] by simp
  then show ?thesis by (auto simp: fits_with_def through_def more_fit_def)
qed

lemma inner_only_fits: "adds_fitting R U h \<Longrightarrow> fits_with R U inner (inner_only h (parent, inner))"
  by (simp add: inner_only_def fits_with_handler)

section \<open>Structures inside byte strings\<close>

lemma fits_with_back:
  "fits_with R U d m \<Longrightarrow> fits_at R U d (map_option (\<lambda>(err, p, inner). (err, back_to p inner)) m)"
  by (auto simp: fits_at_def fits_with_def more_fit_def)

lemma decoded_structure_fits:
  assumes "\<And>sub parent inner. fits_with (im_registry H) U inner (member sub (parent, inner))"
  shows "adds_fitting (im_registry H) U (decoded_structure H title member value valueLen valueOffset tree)"
proof (rule adds_fittingI)
  fix d
  let ?m = "Dissector_Next_expect kTLVType_Structure AnonymousTag (nested H value valueLen valueOffset d)"
  show "fits_at (im_registry H) U d (decoded_structure H title member value valueLen valueOffset tree d)"
  proof (cases ?m)
    case None
    then show ?thesis by (simp add: decoded_structure_def fits_rules)
  next
    case (Some y)
    obtain err inner where y: "y = (err, inner)" by (cases y)
    have t: "trace inner = trace d" using Dissector_Next_expect_trace [of _ _ "nested H value valueLen valueOffset d" err inner] Some y by simp
    obtain err2 sub d2 where a: "AddSubTreeItemF tree (im_hf H ''DataElem_PropertyData'') (im_ett H ''DataElem'') None title (back_to d inner) =
        (err2, sub, d2)" by (metis prod_cases3)
    have f: "more_fit (im_registry H) U d d2" using AddSubTreeItemF_fits [OF a] t by (simp add: more_fit_def)
    have c: "fits_with (im_registry H) U (back_to inner d2) (in_container (im_env H) (member sub) (d2, back_to inner d2))"
      by (rule fits_in_container) (rule assms)
    have "fits_at (im_registry H) U d (map_option (\<lambda>(err, d, inner). (err, back_to d inner))
        (in_container (im_env H) (member sub) (d2, back_to inner d2)))"
      by (rule fits_after(1) [OF _ fits_with_back [OF c]]) (use f in \<open>simp add: more_fit_def\<close>)
    moreover have "fits_at (im_registry H) U d (Some (e, back_to d inner))" for e
      by (rule fits_done) (simp add: more_fit_refl t)
    ultimately show ?thesis
      using f unfolding decoded_structure_def Some y option.case prod.case a by (auto intro: fits_done)
  qed
qed

lemma attestation_fits:
  assumes "im_text_types H" "named_fits H U named"
  shows "adds_fitting (im_registry H) U (AddDecodedAttestationElements H named value valueLen valueOffset tree)"
  unfolding AddDecodedAttestationElements_def attestation_element_def
  by (rule decoded_structure_fits, rule inner_only_fits, rule adds_fittingI,
      intro fits_at_rules(1,2,3) im_handlers(1,2) assms(1) fits_at_handler [OF tag_switch_fits] unknown_fits)
    (simp_all add: named_fitsD [OF assms(2)])

lemma fits_GetDataPtr:
  assumes "\<And>err p d1. GetDataPtr d = (err, p, d1) \<Longrightarrow> fits_with R U d1 (g err p d1)"
  shows "fits_with R U d (case GetDataPtr d of (err, p, d1) \<Rightarrow> g err p d1)"
proof -
  obtain err p d1 where g: "GetDataPtr d = (err, p, d1)" by (metis prod_cases3)
  show ?thesis using fits_read(2) [OF GetDataPtr_trace [OF g] assms [OF g]] g by simp
qed

lemma nocsr_fits:
  assumes "im_text_types H" "named_fits H U named"
  shows "adds_fitting (im_registry H) U (AddDecodedNOCSRElements H named value valueLen valueOffset tree)"
proof -
  have csr: "fits_with (im_registry H) U inner (nocsr_csr H named sub (parent, inner))" for sub parent inner
    unfolding nocsr_csr_def AddDecodedX509CSR_def prod.case
    by (rule fits_with_SuccessOrExit [OF inner_only_fits [OF named_fitsD [OF assms(2)]]], unfold prod.case,
        intro fits_with_rules(1,2,3,5) fits_GetDataPtr fits_ignoring through_fits titled_lines_fits assms)
  show ?thesis
    unfolding AddDecodedNOCSRElements_def nocsr_element_def
    by (rule decoded_structure_fits, unfold snd_conv, intro fits_with_rules(1,2,3,5) csr inner_only_fits tag_switch_fits unknown_fits assms)
      (simp add: named_fitsD [OF assms(2)])
qed

lemma array_loop_fits:
  assumes "\<And>l d. fits_with R U d (body (l, d))"
  shows "fits_with R U d (array_loop H body (l, d))"
proof -
  have loop: "more_fit R U d1 d2" if "each_elem body (l1, d1) = Some (err, l2, d2)" for l1 d1 err l2 d2
    using each_elem_fits [OF that, of R U] assms by (auto simp: fits_with_def)
  show ?thesis
    unfolding fits_with_def
  proof (intro allI impI)
    fix err l' d' assume a: "array_loop H body (l, d) = Some (err, l', d')"
    then obtain e1 d1 where e: "Dissector_EnterContainer (im_env H) d = Some (e1, d1)"
      by (auto simp: array_loop_def split: option.splits)
    note t = Dissector_EnterContainer_trace [OF e]
    show "more_fit R U d d'"
    proof (cases "e1 = 0")
      case True
      then obtain e2 l2 d2 e3 where l: "each_elem body (l, d1) = Some (e2, l2, d2)" and x: "Dissector_ExitContainer d2 = Some (e3, d')"
        using a e by (auto simp: array_loop_def split: option.splits)
      from more_fit_trans [OF more_fit_same [OF t loop [OF l]] more_fit_refl [OF Dissector_ExitContainer_trace [OF x]]] show ?thesis .
    next
      case False
      then show ?thesis using a e t by (simp add: array_loop_def more_fit_refl)
    qed
  qed
qed

section \<open>The certification declaration\<close>

lemma product_id_fits: "fits_with R U d (product_id (products, d))"
  unfolding product_id_def prod.case by (intro fits_with_rules)

lemma cd_product_ids_fits:
  assumes "im_text_types H"
  shows "fits_with (im_registry H) U reader (cd_product_ids H cdTree (parent, reader))"
  unfolding cd_product_ids_def prod.case
  by (rule fits_with_case_with [OF array_loop_fits [OF product_id_fits]], rule through_fits, rule text_item_fits [OF assms], simp)

lemma cd_certification_type_fits:
  assumes "im_text_types H" "named_fits H U named"
  shows "fits_with (im_registry H) U reader (cd_certification_type H named cdTree (parent, reader))"
  unfolding cd_certification_type_def snd_conv Let_def
  by (intro fits_with_rules(3,4) through_fits inner_only_fits text_item_fits named_fitsD [OF assms(2)] assms(1); simp)

lemma fits_with_locals_map:
  "fits_with R U d m \<Longrightarrow> fits_with R U d (map_option (\<lambda>(err, parent, reader). (err, (i, parent), reader)) m)"
  by (auto simp: fits_with_def)

lemma cd_authority_fits:
  assumes "im_text_types H"
  shows "fits_with (im_registry H) U reader (cd_authority H paaTree (l, reader))"
  unfolding cd_authority_def prod.case
  by (intro fits_with_rules(1,2,3,5) fits_GetDataPtr fits_with_locals_map through_fits text_item_fits assms fits_with_rules(4)) simp

lemma cd_authorities_fits:
  assumes "im_text_types H"
  shows "fits_with (im_registry H) U reader (cd_authorities H cdTree (parent, reader))"
proof -
  obtain err sub d1 where a: "AddSubTreeItemF cdTree (im_hf H ''DataElem_PropertyData'') (im_ett H ''DataElem'') None ''AuthorizedPAAList''
      (back_to parent reader) = (err, sub, d1)" by (metis prod_cases3)
  have f: "more_fit (im_registry H) U reader (back_to reader d1)"
    using AddSubTreeItemF_fits [OF a, of "im_registry H" U] by (simp add: more_fit_def)
  have lp: "fits_with (im_registry H) U (back_to reader d1)
      (case array_loop H (cd_authority H sub) ((0, d1), back_to reader d1) of None \<Rightarrow> None
       | Some (arrErr, l, reader) \<Rightarrow>
           (case l of (_, parent) \<Rightarrow>
           if arrErr \<noteq> MATTER_NO_ERROR then through (field_line H sub ''AuthorizedPAAList decode failed'') (parent, reader)
           else Some (MATTER_NO_ERROR, parent, reader)))"
    by (rule fits_with_case_with [OF array_loop_fits [OF cd_authority_fits [OF assms]]])
      (intro fits_with_rules through_fits text_item_fits assms; simp)
  show ?thesis
    unfolding cd_authorities_def prod.case a
    by (intro fits_with_rules(3) fits_done f) (rule fits_after(2) [OF f], use lp in \<open>simp add: case_prod_beta'\<close>)
qed

lemma declaration_fits:
  assumes "im_text_types H" "named_fits H U named"
  shows "adds_fitting (im_registry H) U (AddDecodedCertificationDeclarationTLV H named content tree)"
  unfolding AddDecodedCertificationDeclarationTLV_def cd_element_def Let_def
  by (rule decoded_structure_fits, unfold snd_conv,
      intro fits_with_rules(2,3,5) cd_product_ids_fits cd_certification_type_fits cd_authorities_fits through_fits inner_only_fits
        text_item_fits named_fitsD [OF assms(2)] assms) simp

lemma signed_declaration_fits:
  assumes "im_text_types H" "named_fits H U named"
  shows "adds_fitting (im_registry H) U (AddDecodedCertificationDeclarationCMS H named value tree)"
proof (rule adds_fittingI)
  fix d
  obtain err sub d1 where a: "AddSubTreeItemF tree (im_hf H ''DataElem_PropertyData'') (im_ett H ''DataElem'') None
      ''CertificationDeclaration Decoded (CMS)'' d = (err, sub, d1)" by (metis prod_cases3)
  note f = AddSubTreeItemF_fits [OF a]
  have l: "more_fit (im_registry H) U d (lines H t ms d1)" for t ms by (rule more_fit_trans [OF f lines_fits [OF assms(1)]])
  have l2: "more_fit (im_registry H) U d (lines H t ms (lines H t' ms' d1))" for t ms t' ms'
    by (rule more_fit_trans [OF l lines_fits [OF assms(1)]])
  show "fits_at (im_registry H) U d (AddDecodedCertificationDeclarationCMS H named value tree d)"
    unfolding AddDecodedCertificationDeclarationCMS_def a prod.case Let_def
    by (intro fits_at_rules(1,2,3,5) fits_done f l fits_ignoring fits_after(1) [OF l2 fits_at_handler [OF declaration_fits [OF assms]]])
qed

section \<open>Named values\<close>

lemma matter_certificate_fits:
  assumes "im_text_types H" "named_fits H U named"
  shows "adds_fitting (im_registry H) U (AddDecodedMatterCertificate H named fieldName value valueLen valueOffset tree)"
proof (rule adds_fittingI)
  fix d
  let ?h = "titled_members H ''DataElem_PropertyData'' (fieldName @ '' Decoded'') (certificate_member H named) tree"
  have h: "adds_fitting (im_registry H) U ?h" by (rule titled_members_fits) (rule certificate_member_fits [OF assms])
  have e: "fits_at R U d (Dissector_Next_expect t g d')" if "trace d' = trace d" for R U d t g d'
    using that by (auto simp: fits_at_def intro!: more_fit_refl dest: Dissector_Next_expect_trace)
  have b: "fits_at R U d (map_option (\<lambda>(err, cert). (err, back_to d cert)) m)" if "fits_at R U d m" for R U d and m :: "dissector result"
    using that by (auto simp: fits_at_def more_fit_def)
  let ?n = "Dissector_Next_expect kTLVType_Structure (ProfileTag kMatterProfile_Security Security_kTag_MatterCertificate)
      (nested H value valueLen valueOffset d\<lparr>ImplicitProfileId := kMatterProfile_Security\<rparr>)"
  let ?again = "\<lambda>err cert. if err \<noteq> MATTER_NO_ERROR then Dissector_Next_expect kTLVType_Structure AnonymousTag
            (Dissector_Init value valueLen valueOffset cert\<lparr>ImplicitProfileId := kMatterProfile_Security\<rparr>)
         else Some (MATTER_NO_ERROR, cert)"
  show "fits_at (im_registry H) U d (AddDecodedMatterCertificate H named fieldName value valueLen valueOffset tree d)"
  proof (cases ?n)
    case None
    show ?thesis unfolding AddDecodedMatterCertificate_def Let_def None by (simp add: fits_at_rules)
  next
    case (Some y)
    obtain err cert where y: "y = (err, cert)" by (cases y)
    from Dissector_Next_expect_trace [OF Some [unfolded y]] have t: "trace cert = trace d" by simp
    have "fits_at (im_registry H) U d (?again err cert)"
      by (rule fits_at_rules(3)) (rule e, simp add: t, rule fits_done, simp add: t more_fit_refl)
    then have "fits_at (im_registry H) U d (SuccessOrExit (?again err cert) ?h)"
      by (rule fits_SuccessOrExit) (rule fits_at_handler [OF h])
    then show ?thesis unfolding AddDecodedMatterCertificate_def Let_def Some option.case y prod.case by (rule b)
  qed
qed

lemma decode_bytes_fits:
  assumes "im_text_types H" "named_fits H U named"
  shows "adds_fitting (im_registry H) U (decode_bytes H named fieldName value valueLen tree)"
proof (rule adds_fittingI)
  fix d
  let ?x = "AddDecodedX509Certificate H fieldName value tree d"
    and ?c = "\<lambda>off. AddDecodedMatterCertificate H named fieldName value valueLen off tree"
  have x: "fits_at (im_registry H) U d ?x"
    unfolding AddDecodedX509Certificate_def by (rule fits_at_handler [OF titled_lines_fits [OF assms(1)]])
  have c: "fits_at (im_registry H) U d1 (ignoring (?c off d1))" for off d1
    by (intro fits_ignoring fits_at_handler matter_certificate_fits assms)
  have xc: "fits_at (im_registry H) U d
      (case ?x of None \<Rightarrow> None | Some (err, d) \<Rightarrow> if err = MATTER_NO_ERROR then Some (MATTER_NO_ERROR, d) else ignoring (?c off d))" for off
    using x more_fit_trans [OF _ c [unfolded fits_at_def, rule_format]]
    by (auto simp: fits_at_def split: option.splits if_splits)
  show "fits_at (im_registry H) U d (decode_bytes H named fieldName value valueLen tree d)"
    unfolding decode_bytes_def Let_def
    by (intro fits_at_rules(2,3) xc fits_ignoring fits_at_handler [OF signed_declaration_fits [OF assms]]
        fits_at_handler [OF attestation_fits [OF assms]] fits_at_handler [OF nocsr_fits [OF assms]])
qed

lemma fits_at_GetDataPtr:
  assumes "\<And>err p d1. GetDataPtr d = (err, p, d1) \<Longrightarrow> fits_at R U d1 (g err p d1)"
  shows "fits_at R U d (case GetDataPtr d of (err, p, d1) \<Rightarrow> g err p d1)"
proof -
  obtain err p d1 where g: "GetDataPtr d = (err, p, d1)" by (metis prod_cases3)
  show ?thesis using fits_read(1) [OF GetDataPtr_trace [OF g] assms [OF g]] g by simp
qed

lemma fits_at_DupString:
  assumes "\<And>err p d1. DupString ok d = Some (err, p, d1) \<Longrightarrow> fits_at R U d1 (g err p d1)"
  shows "fits_at R U d (case DupString ok d of None \<Rightarrow> None | Some (err, p, d1) \<Rightarrow> g err p d1)"
proof (cases "DupString ok d")
  case (Some y)
  obtain err p d1 where y: "y = (err, p, d1)" by (metis prod_cases3)
  have "DupString ok d = Some (err, p, d1)" using Some y by simp
  from fits_read(1) [OF DupString_trace [OF this] assms [OF this]] show ?thesis using Some y by simp
qed (simp add: fits_at_rules)

lemma named_value_step_fits:
  assumes T: "im_text_types H" and N: "named_fits H U named"
  shows "named_fits H U (named_value_step H named)"
  unfolding named_fits_def
proof (intro allI adds_fittingI)
  fix n tree d
  note line = fits_at_handler [OF text_item_fits [OF T], of "''ImCommon_Field''", simplified]
  note bytes = fits_at_handler [OF decode_bytes_fits [OF T N]]
  have gen: "adds_fitting (im_registry H) U (generic (im_registry H) ''ImCommon_Unknown'' True tree)"
    using T by (intro generic_fits) (simp add: im_text_types_def)
  have str: "fits_at (im_registry H) U d (case DupString (malloc_ok (im_env H)) d of None \<Rightarrow> None
      | Some (err, value, d) \<Rightarrow> if err \<noteq> MATTER_NO_ERROR then Some (err, d)
          else (case value of None \<Rightarrow> None | Some value \<Rightarrow> field_line H tree (n @ ''='' @ ''\"'' @ text_of value @ ''\"'') d))"
    by (rule fits_at_DupString) (intro fits_at_rules(1,2,3,5) line)
  have ptr: "fits_at (im_registry H) U d (case GetDataPtr d of (err, value, d) \<Rightarrow> if err \<noteq> MATTER_NO_ERROR then Some (err, d)
      else SuccessOrExit (field_line H tree (n @ ''='' @ msg) d) (\<lambda>d.
        if skip then Some (MATTER_NO_ERROR, d)
        else (case value_bytes d value len of None \<Rightarrow> None | Some bs \<Rightarrow> decode_bytes H named n bs len tree d)))" for skip msg len
    by (rule fits_at_GetDataPtr) (intro fits_at_rules(1,2,3,5) fits_SuccessOrExit line bytes)
  show "fits_at (im_registry H) U d (named_value_step H named n tree d)"
    unfolding named_value_step_def Let_def
    by (intro fits_at_rules(2,3,4) str ptr line fits_SuccessOrExit fits_at_handler [OF gen])
qed

lemma named_value_fits: "im_text_types H \<Longrightarrow> named_fits H U (named_value n H)"
proof (induction n)
  case 0
  show ?case by (simp add: named_fits_def adds_fitting_at fits_at_rules)
next
  case (Suc n)
  then show ?case by (simp add: named_value_step_fits)
qed

lemma AddNamedCommandValue_fits: "im_text_types H \<Longrightarrow> adds_fitting (im_registry H) U (AddNamedCommandValue H name tree)"
  unfolding AddNamedCommandValue_def by (rule named_fitsD [OF named_value_fits])

section \<open>Information blocks\<close>

text \<open>The fields of the interaction model whose items are not checked against the element.\<close>

definition unchecked_im_fields :: "string list" where
  "unchecked_im_fields = [''CommandStatus_Status'', ''CommandStatus_ClusterStatus'', ''CommandStatus_Ref'', ''TimedRequest_TimeoutMs'',
     ''DataElem_PropertyData'', ''ReadRequest_AttributeRequests'', ''ReadRequest_EventRequests'', ''ReadRequest_EventFilters'',
     ''ReadRequest_DataVersionFilters'', ''ReportData_AttributeReports'', ''ReportData_EventReports'',
     ''SubscribeRequest_AttributeRequests'', ''SubscribeRequest_EventRequests'', ''SubscribeRequest_EventFilters'',
     ''SubscribeRequest_DataVersionFilters'', ''WriteRequest_WriteRequests'', ''WriteResponse_WriteResponses'']"

abbreviation unchecked_im :: "im_host \<Rightarrow> int set" where
  "unchecked_im H \<equiv> insert (- 1) (im_hf H ` set unchecked_im_fields)"

lemma generic_unchecked_fits:
  assumes "reg_hf R hf_var \<in> U"
  shows "adds_fitting R U (generic R hf_var suppress tree)"
  unfolding adds_fitting_def generic_def AddGenericTLVItem_def
  using AddGenericTLV_fits [OF _ disjI1 [OF assms], where R = R] by fastforce

lemma generic_data_fits:
  "adds_fitting (im_registry H) (unchecked_im H) (generic (im_registry H) ''DataElem_PropertyData'' suppress tree)"
proof -
  have "im_hf H ''DataElem_PropertyData'' \<in> unchecked_im H" by (simp add: unchecked_im_fields_def)
  then show ?thesis by (rule generic_unchecked_fits)
qed

lemma field_or_unknown_fits:
  assumes "im_text_types H"
  shows "adds_fitting (im_registry H) U (field_or_unknown H name_of tree)"
  unfolding field_or_unknown_def
  by (rule context_or_unknown_fits [OF assms], rule adds_fittingI)
    (intro fits_at_rules(5) fits_at_handler [OF AddNamedCommandValue_fits [OF assms]] fits_at_handler [OF unknown_fits [OF assms]])

lemma named_payload_fits:
  assumes "im_text_types H"
  shows "adds_fitting (im_registry H) U (AddNamedCommandPayload H cluster commandId isRequest tree)"
    "adds_fitting (im_registry H) U (AddNamedAttributeStructValue H cluster attributeId tree)"
  unfolding AddNamedCommandPayload_def AddNamedAttributeStructValue_def
  by (intro of_types_fits_any titled_members_fits field_or_unknown_fits assms)+

lemma uint_line_fits:
  assumes "im_text_types H" and "hf_var \<in> {''ImCommon_Unknown'', ''ImCommon_Field'', ''DataElem_PropertyPath''}"
  shows "adds_fitting (im_registry H) U (uint_line H hf_var f tree)"
  by (rule adds_fittingI, unfold uint_line_def, rule fits_at_rules(4), rule fits_at_rules(3))
    (rule fits_at_handler, intro text_item_fits unknown_fits assms)+

lemma AddStatusIB_fits:
  assumes "im_text_types H"
  shows "adds_fitting (im_registry H) (unchecked_im H) (AddStatusIB H tree)"
  unfolding AddStatusIB_def status_ib_member_def
  by (intro of_types_fits_any subtree_members_fits context_or_unknown_fits tag_switch_fits unknown_fits assms)
    (simp add: typed_fits unchecked_im_fields_def)

lemma filters_fit:
  assumes "im_text_types H"
  shows "adds_fitting (im_registry H) U (AddEventFilterIBItem H tree)" "adds_fitting (im_registry H) U (AddDataVersionFilterIBItem H tree)"
proof -
  note unknown = unknown_fits [OF assms] and at_unknown = fits_at_handler [OF unknown_fits [OF assms]]
  have "adds_fitting (im_registry H) U (event_filter_member H sub)" for sub
    by (rule adds_fittingI, unfold event_filter_member_def,
        intro fits_at_rules(2,3,4) at_unknown fits_at_handler [OF tag_switch_fits] unknown) (simp add: text_item_fits assms)
  then show "adds_fitting (im_registry H) U (AddEventFilterIBItem H tree)"
    unfolding AddEventFilterIBItem_def by (intro of_types_fits_any subtree_members_fits)
  have path: "adds_fitting (im_registry H) U (\<lambda>d. or_else (AddClusterPathItem H sub d) (unknown H sub))" for sub
    unfolding AddClusterPathItem_def
    by (rule adds_fittingI, rule fits_or_else [OF fits_at_handler [OF AddNamedPathItem_fits [OF assms]] unknown])
  have "adds_fitting (im_registry H) U (data_version_filter_member H sub)" for sub
    unfolding data_version_filter_member_def
    by (intro context_or_unknown_fits tag_switch_fits unknown assms) (simp add: path uint_line_fits assms)
  then show "adds_fitting (im_registry H) U (AddDataVersionFilterIBItem H tree)"
    unfolding AddDataVersionFilterIBItem_def by (intro of_types_fits_any subtree_members_fits)
qed

lemma path_then_members_fits:
  assumes "\<And>sub l d. fits_with (im_registry H) U d (member sub (l, d))"
  shows "adds_fitting (im_registry H) U (path_then_members H hf_var ett_var member tree)"
proof (rule adds_fittingI)
  fix d
  obtain err sub d1 where a: "AddSubTreeItem tree (im_hf H hf_var) (im_ett H ett_var) None d = (err, sub, d1)" by (metis prod_cases3)
  note f = AddSubTreeItem_fits [OF a]
  have "fits_with (im_registry H) U d1 (in_container (im_env H) (member sub) (None, d1))" by (rule fits_in_container) (rule assms)
  then have "fits_at (im_registry H) U d1 (map_option (\<lambda>(err, _, d). (err, d)) (in_container (im_env H) (member sub) (None, d1)))"
    by (auto simp: fits_at_def fits_with_def)
  then show "fits_at (im_registry H) U d (path_then_members H hf_var ett_var member tree d)"
    unfolding path_then_members_def a prod.case by (intro fits_at_rules(3) fits_done f fits_after(1) [OF f])
qed

text \<open>Commands.\<close>

lemma AddCommandDataIB_fits:
  assumes "im_text_types H"
  shows "adds_fitting (im_registry H) (unchecked_im H) (AddCommandDataIB H decode isRequest tree)"
  unfolding AddCommandDataIB_def command_data_member_def Let_def
  by (rule path_then_members_fits, unfold prod.case,
      intro fits_with_rules(2,3,6) fits_at_rules(3,4,5) fits_VerifyOrExit(2) path_extract_fits(2) assms
        fits_at_handler [OF named_payload_fits(1)] fits_at_handler [OF generic_data_fits] fits_at_handler [OF unknown_fits])

lemma command_responses_fit:
  assumes "im_text_types H"
  shows "adds_fitting (im_registry H) (unchecked_im H) (AddInvokeResponseIB H tree)"
proof -
  note unknown = unknown_fits [OF assms]
  have ref: "adds_fitting (im_registry H) (unchecked_im H) (typed (im_registry H) ''CommandStatus_Ref'' sub)" for sub
    by (rule typed_fits) (simp add: unchecked_im_fields_def)
  have status: "adds_fitting (im_registry H) (unchecked_im H) (AddCommandStatusIB H sub)" for sub
    unfolding AddCommandStatusIB_def command_status_member_def
    by (intro of_types_fits_any subtree_members_fits context_switch_fits unknown)
      (simp add: AddNamedPathItem_fits AddStatusIB_fits assms ref)
  show ?thesis
    unfolding AddInvokeResponseIB_def invoke_response_member_def AddCommandDataIBForResponse_def
    by (intro members_fits context_switch_fits unknown) (simp add: of_types_fits_any status AddCommandDataIB_fits assms)
qed

text \<open>Attributes.\<close>

lemma attribute_value_fits:
  assumes "im_text_types H"
  shows "adds_fitting (im_registry H) U (attribute_value H path tree)"
proof (rule adds_fittingI)
  fix d
  note line = fits_at_handler [OF text_item_fits [OF assms], of "''ImCommon_Field''", simplified]
  show "fits_at (im_registry H) U d (attribute_value H path tree d)"
    unfolding attribute_value_def
    by (intro fits_at_rules(2,3,4,5) line fits_at_handler [OF named_payload_fits(2) [OF assms]]
        fits_at_handler [OF AddNamedCommandValue_fits [OF assms]])
qed

lemma attribute_data_member_fits:
  assumes "im_text_types H" and "\<And>tree. adds_fitting (im_registry H) U (again tree)"
  shows "fits_with (im_registry H) U d (attribute_data_member H again tree (path, d))"
proof -
  note unknown = unknown_fits [OF assms(1)]
  have path: "fits_with (im_registry H) U d
      (case AddAttributePathItemAndExtractIds H tree (path, d) of None \<Rightarrow> None
       | Some (pathErr, path, d) \<Rightarrow>
           if pathErr \<noteq> MATTER_NO_ERROR then with_locals path (unknown H tree d) else Some (MATTER_NO_ERROR, path, d))"
    by (rule fits_with_case_with [OF path_extract_fits(1) [OF assms(1)]]) (intro fits_with_rules(2,3) fits_with_handler unknown)
  show ?thesis
    unfolding attribute_data_member_def prod.case Let_def
    by (intro fits_with_rules(3,6) fits_at_rules(3) path fits_or_else unknown fits_at_handler [OF unknown] fits_at_handler [OF assms(2)]
        fits_at_handler [OF attribute_value_fits [OF assms(1)]] fits_at_handler [OF uint_line_fits [OF assms(1)]]) simp
qed

lemma AddAttributeDataIBItem_fits:
  assumes "im_text_types H"
  shows "adds_fitting (im_registry H) U (AddAttributeDataIBItem H tree)"
proof -
  have "more_fit (im_registry H) U d (snd y)" if "AddAttributeDataIBItem H tree d = Some y" "im_text_types H" for H tree d y
    using that
  proof (induction rule: AddAttributeDataIBItem.raw_induct [rotated, consumes 1, case_names step])
    case (step again H tree d y)
    have again: "adds_fitting (im_registry H) U (\<lambda>d. again H tree d)" for tree
      using step(1,3) by (force simp: adds_fitting_def)
    have "fits_at (im_registry H) U d (VerifyOrExit (GetType d = kTLVType_Structure) MATTER_ERROR_UNEXPECTED_TLV_ELEMENT d
       (path_then_members H ''DataElem_PropertyData'' ''DataElem'' (attribute_data_member H (\<lambda>tree d. again H tree d)) tree d))"
      by (rule fits_VerifyOrExit(1), rule fits_at_handler, rule path_then_members_fits, rule attribute_data_member_fits [OF step(3) again])
    then show ?case using step(2) by (cases y) (simp add: fits_at_def)
  qed
  then show ?thesis using assms by (force simp: adds_fitting_def)
qed

lemma AddAttributeStatusIBItem_fits:
  assumes "im_text_types H"
  shows "adds_fitting (im_registry H) (unchecked_im H) (AddAttributeStatusIBItem H tree)"
proof -
  have "more_fit (im_registry H) (unchecked_im H) d (snd y)"
    if "AddAttributeStatusIBItem H tree d = Some y" "im_text_types H" for H tree d y
    using that
  proof (induction rule: AddAttributeStatusIBItem.raw_induct [rotated, consumes 1, case_names step])
    case (step again H tree d y)
    note unknown = unknown_fits [OF step(3)]
    have again: "adds_fitting (im_registry H) (unchecked_im H) (\<lambda>d. again H tree d)" for tree
      using step(1,3) by (force simp: adds_fitting_def)
    have "adds_fitting (im_registry H) (unchecked_im H) (attribute_status_member H (\<lambda>tree d. again H tree d) sub)" for sub
      unfolding adds_fitting_at attribute_status_member_def Let_def
      by (intro allI fits_at_rules(3) fits_or_else unknown fits_at_handler [OF unknown] fits_at_handler [OF again]
          fits_at_handler [OF AddNamedPathItem_fits [OF step(3)]] fits_at_handler [OF AddStatusIB_fits [OF step(3)]])
    then have "fits_at (im_registry H) (unchecked_im H) d (VerifyOrExit (GetType d = kTLVType_Structure) MATTER_ERROR_UNEXPECTED_TLV_ELEMENT d
       (im_subtree H ''CommandStatusIB'' ''CommandElem'' (attribute_status_member H (\<lambda>tree d. again H tree d)) tree d))"
      by (intro fits_VerifyOrExit(1) fits_at_handler [OF subtree_members_fits])
    then show ?case using step(2) by (cases y) (simp add: fits_at_def)
  qed
  then show ?thesis using assms by (force simp: adds_fitting_def)
qed

text \<open>Reading ahead adds no items.\<close>

lemma shape_elem_fits: "shape_elem (f, d) = Some (err, f', d') \<Longrightarrow> more_fit R U d d'"
  by (simp add: shape_elem_def more_fit_refl)

lemma event_ids_elem_fits: "event_ids_elem (l, d) = Some (err, l', d') \<Longrightarrow> more_fit R U d d'"
  by (cases l) (auto simp: event_ids_elem_def more_fit_refl split: if_splits prod.splits)

lemma DetectAttributeIBKind_fits:
  assumes "DetectAttributeIBKind H d = Some (kind, d')"
  shows "more_fit R U d d'"
proof (cases "GetType d = kTLVType_Structure")
  case True
  obtain err d1 where e: "Dissector_EnterContainer (im_env H) d = Some (err, d1)"
    using assms True by (auto simp: DetectAttributeIBKind_def split: option.splits)
  note t = Dissector_EnterContainer_trace [OF e]
  show ?thesis
  proof (cases "err = 0")
    case True
    then obtain e2 f d2 e3 where l: "each_elem shape_elem (no_shape, d1) = Some (e2, f, d2)" and x: "Dissector_ExitContainer d2 = Some (e3, d')"
      using assms \<open>GetType d = _\<close> e by (auto simp: DetectAttributeIBKind_def split: option.splits)
    have "more_fit R U d1 d2" using each_elem_fits [OF l shape_elem_fits] by simp
    from more_fit_trans [OF more_fit_same [OF t this] more_fit_refl [OF Dissector_ExitContainer_trace [OF x]]] show ?thesis .
  qed (use assms e t True in \<open>simp add: DetectAttributeIBKind_def more_fit_refl\<close>)
qed (use assms in \<open>simp add: DetectAttributeIBKind_def more_fit_refl\<close>)

lemma scan_event_ids_fits:
  assumes "scan_event_ids H (path, d) = Some (path', d')"
  shows "more_fit R U d d'"
proof -
  obtain err d1 where e: "Dissector_EnterContainer (im_env H) d = Some (err, d1)"
    using assms by (auto simp: scan_event_ids_def split: option.splits)
  note t = Dissector_EnterContainer_trace [OF e]
  show ?thesis
  proof (cases "err = 0")
    case True
    then obtain e2 l d2 where l: "each_elem event_ids_elem ((0, None), d1) = Some (e2, l, d2)"
      and x: "(if e2 = 0 then map_option snd (Dissector_ExitContainer d2) else Some d2) = Some d'"
      using assms e by (auto simp: scan_event_ids_def split: option.splits)
    have "more_fit R U d1 d2" using each_elem_fits [OF l event_ids_elem_fits] by simp
    moreover have "trace d' = trace d2" using x by (auto split: if_splits dest: Dissector_ExitContainer_trace)
    ultimately show ?thesis using more_fit_trans [OF more_fit_same [OF t]] more_fit_refl by blast
  qed (use assms e t in \<open>simp add: scan_event_ids_def more_fit_refl\<close>)
qed

lemma AddAttributeReportIBItem_fits:
  assumes "im_text_types H"
  shows "adds_fitting (im_registry H) (unchecked_im H) (AddAttributeReportIBItem H tree)"
proof -
  have "more_fit (im_registry H) (unchecked_im H) d (snd y)"
    if "AddAttributeReportIBItem H tree d = Some y" "im_text_types H" for H tree d y
    using that
  proof (induction rule: AddAttributeReportIBItem.raw_induct [rotated, consumes 1, case_names step])
    case (step again H tree d y)
    note unknown = unknown_fits [OF step(3)]
      and blocks = fits_at_handler [OF AddAttributeDataIBItem_fits [OF step(3)]] fits_at_handler [OF AddAttributeStatusIBItem_fits [OF step(3)]]
    have again: "adds_fitting (im_registry H) (unchecked_im H) (\<lambda>d. again H tree d)" for tree
      using step(1,3) by (force simp: adds_fitting_def)
    have one: "fits_at (im_registry H) (unchecked_im H) d (or_else (case kind of DataIB \<Rightarrow> AddAttributeDataIBItem H sub d
        | StatusIB \<Rightarrow> AddAttributeStatusIBItem H sub d | UnknownIB \<Rightarrow> again H sub d) (unknown H sub))" for kind sub d
      by (rule fits_or_else [OF _ unknown]) (cases kind; simp add: blocks fits_at_handler [OF again])
    have kinds: "fits_at (im_registry H) (unchecked_im H) d (case DetectAttributeIBKind H d of None \<Rightarrow> None
        | Some (kind, d) \<Rightarrow> or_else (case kind of DataIB \<Rightarrow> AddAttributeDataIBItem H sub d
            | StatusIB \<Rightarrow> AddAttributeStatusIBItem H sub d | UnknownIB \<Rightarrow> again H sub d) (unknown H sub))" for sub d
    proof (cases "DetectAttributeIBKind H d")
      case (Some y)
      obtain kind d1 where y: "y = (kind, d1)" by (cases y)
      show ?thesis
        unfolding Some y option.case prod.case by (rule fits_after(1) [OF DetectAttributeIBKind_fits [OF Some [unfolded y]] one])
    qed (simp add: fits_at_rules)
    have "adds_fitting (im_registry H) (unchecked_im H) (attribute_report_member H (\<lambda>tree d. again H tree d) sub)" for sub
      unfolding adds_fitting_at attribute_report_member_def Let_def
      by (intro allI fits_at_rules(3) kinds blocks fits_at_handler [OF unknown])
    then have "fits_at (im_registry H) (unchecked_im H) d (VerifyOrExit (GetType d = kTLVType_Structure) MATTER_ERROR_UNEXPECTED_TLV_ELEMENT d
       (im_subtree H ''DataElem_PropertyData'' ''DataElem'' (attribute_report_member H (\<lambda>tree d. again H tree d)) tree d))"
      by (intro fits_VerifyOrExit(1) fits_at_handler [OF subtree_members_fits])
    then show ?case using step(2) by (cases y) (simp add: fits_at_def)
  qed
  then show ?thesis using assms by (force simp: adds_fitting_def)
qed

text \<open>Events.\<close>

lemma AddNamedStructItem_fits:
  assumes "im_text_types H"
  shows "adds_fitting (im_registry H) (unchecked_im H) (AddNamedStructItem H kind tree)"
proof -
  have data: "adds_fitting (im_registry H) (unchecked_im H) (event_data_or_generic H kind tag type path sub)" for tag type path sub
    using generic_data_fits [of H False sub] subtree_members_fits [OF field_or_unknown_fits [OF assms]]
    unfolding event_data_or_generic_def by (auto split: option.split)
  have item: "fits_with (im_registry H) (unchecked_im H) d (with_locals path
      (or_else (AddNamedPathItem H kind sub d) (event_data_or_generic H kind tag type path sub)))" for d path sub tag type
    by (intro fits_with_rules(6) fits_or_else data fits_at_handler [OF AddNamedPathItem_fits [OF assms]])
  have scan: "fits_with (im_registry H) (unchecked_im H) d
      (case (if kind = Event then scan_event_ids H (path, d) else Some (path, d)) of None \<Rightarrow> None
       | Some (path, d) \<Rightarrow> with_locals path (or_else (AddNamedPathItem H kind sub d) (event_data_or_generic H kind tag type path sub)))"
    for d path sub tag type
  proof (cases "if kind = Event then scan_event_ids H (path, d) else Some (path, d)")
    case (Some y)
    then have "more_fit (im_registry H) (unchecked_im H) d (snd y)"
      using scan_event_ids_fits [of H path d "fst y" "snd y"] by (auto split: if_splits intro: more_fit_refl)
    then show ?thesis unfolding Some option.case by (cases y) (simp add: fits_after(2) [OF _ item])
  qed (simp add: fits_with_rules)
  show ?thesis
    unfolding AddNamedStructItem_def named_struct_member_def Let_def
    by (rule of_types_fits_any, rule path_then_members_fits, unfold prod.case, rule fits_with_rules(3), rule scan,
        rule fits_with_rules(6), rule fits_at_handler, rule data)
qed

end
