(* ===== verification/Protocol_Echo.thy ===== *)
theory Protocol_Echo
  imports Sub_Dissector
begin

text \<open>The dissector of the echo protocol (\<open>packet-matter-echo.cpp\<close>).\<close>

definition show_echo :: "registry \<Rightarrow> tvbuff \<Rightarrow> msg_info \<Rightarrow> proto_tree \<Rightarrow> string \<Rightarrow> view \<Rightarrow> (int \<times> view) option" where
  "show_echo R tvb mi tree title v =
     do {
       let payloadLen = int (unat (mi_payloadLen mi));
       v \<leftarrow> add_tvb_item tree (reg_hf R ''echo_payload'') tvb 0 payloadLen AddItem (append_text tree title v);
       Some (payloadLen, v)
     }"

definition DissectMatterEcho :: "registry \<Rightarrow> tvbuff \<Rightarrow> msg_info \<Rightarrow> view \<Rightarrow> (int \<times> view) option" where
  "DissectMatterEcho R tvb mi v =
     do {
       v \<leftarrow> AddMessageTypeToInfoColumn mi v;
       (case protocol_tree R ''matter_echo'' ''matter_echo'' v of (echo_tree, v) \<Rightarrow>
          if mi_msgType mi = kEchoMessageType_EchoRequest then show_echo R tvb mi echo_tree '': Echo Request'' v
          else if mi_msgType mi = kEchoMessageType_EchoResponse then show_echo R tvb mi echo_tree '': Echo Response'' v
          else Some (0, v))
     }"

end
