(* ===== verification/Protocol_Table.thy ===== *)
theory Protocol_Table
  imports Protocol_Common_Inv Protocol_Echo Protocol_IM Security_Messages Matter_Message_Spec
begin

text \<open>
  The table of dissectors that the host calls a payload's dissector through (\<open>matter.profile_id\<close>): each
  \<open>proto_reg_handoff_\<close> function enters one protocol. With it the message dissector and the dissectors of the
  protocols are one program, of which \<open>session_message_dissected\<close> follows a packet from its first byte to
  the items of its payload.
\<close>

text \<open>Dissectors that only add to the view, and that read the tracker too.\<close>

definition on_view :: "(view \<Rightarrow> (int \<times> view) option) \<Rightarrow> message_dissector" where
  "on_view f vs = map_option (\<lambda>(res, v). (res, v, snd vs)) (f (fst vs))"

definition on_tracker :: "(view \<times> tracker \<Rightarrow> (int \<times> view \<times> tracker) option) \<Rightarrow> message_dissector" where
  "on_tracker f vs =
     map_option (\<lambda>(res, v, t). (res, v, (snd vs)\<lparr>ms_tracker := t\<rparr>)) (f (fst vs, ms_tracker (snd vs)))"

definition matter_subdissector_table ::
  "case_crypto \<Rightarrow> im_host \<Rightarrow> tvbuff \<Rightarrow> msg_info \<Rightarrow> (u32 \<times> message_dissector) list" where
  "matter_subdissector_table C H tvb mi =
     [(kMatterProfile_Common, on_tracker (DissectMatterCommon (im_registry H) tvb mi)),
      (kMatterProfile_InteractionModel, on_view (DissectIM H tvb mi)),
      (kMatterProfile_UDC, on_view (DissectUDC (im_registry H) tvb mi)),
      (kMatterProfile_Echo, on_view (DissectMatterEcho (im_registry H) tvb mi)),
      (kMatterProfile_Security, DissectMatterSecurity C (im_registry H) tvb mi)]"

text \<open>The host's lookup: 0 when no dissector is registered for the number.\<close>

definition dissector_try_uint ::
  "case_crypto \<Rightarrow> im_host \<Rightarrow> u16 \<Rightarrow> tvbuff \<Rightarrow> msg_info \<Rightarrow> message_dissector" where
  "dissector_try_uint C H protocolId tvb mi vs =
     (case map_of (matter_subdissector_table C H tvb mi) (ucast protocolId) of
        Some dissect \<Rightarrow> dissect vs
      | None \<Rightarrow> Some (0, vs))"

lemma table_common:
  "dissector_try_uint C H 0 tvb mi = on_tracker (DissectMatterCommon (im_registry H) tvb mi)"
  by (simp add: fun_eq_iff dissector_try_uint_def matter_subdissector_table_def kMatterProfile_Common_def)

lemma dispatch_common: "dispatch_protocol 0 = (0, Some ''SecureChannel'')"
  by code_simp
lemma handed_session_message:
  assumes r: "hands_on host pinfo x payload mi s r" and table: "subdissect host = dissector_try_uint C H"
    and x: "ex_protocol x = 0" "ex_type x \<in> session_types" and len: "length payload < 65536"
  obtains v s' M X where "r = Some (v, s')" "tracked (ms_tracker s') M X" "s' = s\<lparr>ms_tracker := ms_tracker s'\<rparr>"
proof -
  obtain mi' v t' M' X' where t': "tracked t' M' X'"
    and mi': "message_facts mi' = message_facts (exchange_info x (of_nat (length payload)) mi)"
    and eq: "r = finish (dissector_try_uint C H (fst (dispatch_protocol (ex_protocol x))) payload mi' (v, s\<lparr>ms_tracker := t'\<rparr>)) mi'"
    using r unfolding hands_on_def table by blast
  have f: "mi_msgType mi' = ex_type x" "mi_payloadLen mi' = of_nat (length payload)"
    using arg_cong [OF mi', of mi_msgType] arg_cong [OF mi', of mi_payloadLen]
    by (simp_all add: message_facts_def exchange_info_def)
  have u: "unat (mi_payloadLen mi') = length payload" unfolding f by (rule unat_of_nat_16 [OF len])
  obtain res v' where d: "DissectMatterCommon (im_registry H) payload mi' (v, t') = Some (res, v', t')"
    using DissectMatterCommon_session [of mi' payload "im_registry H" v t'] u f(1) x(2) by auto
  obtain v2 where "AddMessageTypeToInfoColumn mi' v' = Some v2" using AddMessageType_total [OF mi'] by blast
  then have "\<exists>v3. r = Some (v3, s\<lparr>ms_tracker := t'\<rparr>)"
    unfolding eq x(1) dispatch_common fst_conv table_common by (simp add: on_tracker_def d finish_def)
  then show thesis using t' by (auto intro: that)
qed

theorem session_message_dissected:
  assumes "tracked (ms_tracker s) M X" and "header_ok h" and "hd_group h = None" and "exchange_ok x"
    and "hd_sessionId h = 0" and "hd_secFlags h AND 3 = 0" and "ptype pinfo \<noteq> PT_TCP"
    and len: "length (encode_header h @ encode_exchange x @ payload) < 65536"
    and "subdissect host = dissector_try_uint C H" and "ex_protocol x = 0" "ex_type x \<in> session_types"
  shows "\<exists>v s' M' X'. DissectMatter host pinfo (encode_header h @ encode_exchange x @ payload)
      (length (encode_header h @ encode_exchange x @ payload)) s =
    Some (length (encode_header h @ encode_exchange x @ payload), v, s') \<and> tracked (ms_tracker s') M' X' \<and>
    s' = s\<lparr>ms_tracker := ms_tracker s'\<rparr>"
proof -
  have l: "length payload < 65536" using len by simp
  obtain r where r: "hands_on host pinfo x payload
      (header_info h (of_nat (length (encode_header h @ encode_exchange x @ payload))) (of_nat (length (encode_header h)))) s r"
    and d: "DissectMatter host pinfo (encode_header h @ encode_exchange x @ payload)
      (length (encode_header h @ encode_exchange x @ payload)) s =
    map_option (\<lambda>(v, s'). (length (encode_header h @ encode_exchange x @ payload), v, s')) r"
    using DissectMatter_clear [OF assms(1-8)] by blast
  obtain v s' M' X' where "r = Some (v, s')" "tracked (ms_tracker s') M' X'" "s' = s\<lparr>ms_tracker := ms_tracker s'\<rparr>"
    by (rule handed_session_message [OF r assms(9-11) l])
  then show ?thesis using d by (auto intro!: exI)
qed

end
