(* ===== verification/Item_Types_All.thy ===== *)
theory Item_Types_All
  imports Item_Types_IM Protocol_Table
begin

text \<open>
  Types of the items of all payload dissectors: the messages of the interaction model, what the dissectors add that
  does not come from an element, and the table of the dissectors. \<open>view_adds\<close> is the judgement on a step that leads to a
  view, which \<open>sel\<close> selects from its result.
\<close>

section \<open>Messages of the interaction model\<close>

lemma AddListItem_fits:
  assumes "\<And>sub. adds_fitting R U (h sub)"
  shows "adds_fitting R U (AddListItem E tree hf ett h)"
proof (rule adds_fittingI)
  fix d
  obtain err list d1 where a: "AddSubTreeItem tree hf ett None d = (err, list, d1)" by (metis prod_cases3)
  note f = AddSubTreeItem_fits [OF a]
  have body: "fits_with R U d (AddListItem_body h sub (n, d))" for sub n d
    unfolding AddListItem_body_def fst_conv snd_conv
    by (rule fits_with_SuccessOrExit [OF fits_with_handler [OF assms]], unfold prod.case, rule fits_with_rules(2))
  have count: "more_fit R U d (if item \<noteq> None then emit (ProtoAppendText item s) d else d)" for item s d
    by (cases item) (simp_all add: more_fit_refl more_fit_emit call_fits_def)
  have "fits_at R U d1 (case in_container E (AddListItem_body h list) (0, d1) of None \<Rightarrow> None
      | Some (err, elemCount, d) \<Rightarrow> if err \<noteq> MATTER_NO_ERROR then Some (err, d) else Some (MATTER_NO_ERROR,
          if LastItem d1 \<noteq> None then emit (ProtoAppendText (LastItem d1) ('' (len = '' @ dec (unat elemCount) @ '')'')) d else d))"
    by (rule fits_with_case [OF fits_in_container [OF body]]) (intro fits_at_rules(2,3) fits_done(1) count)
  then show "fits_at R U d (AddListItem E tree hf ett h d)"
    unfolding AddListItem_def a prod.case Let_def by (intro fits_VerifyOrExit(1) fits_at_rules(3) fits_done(1) f fits_after(1) [OF f])
qed

lemma entry_fits:
  assumes "proto_registrar_get_ftype (im_env H) (im_hf H hf_var) = FT_STRING \<or> im_hf H hf_var \<in> U"
  shows "adds_fitting (im_registry H) U (entry H hf_var tree)" "adds_fitting (im_registry H) U (unguarded_entry H hf_var tree)"
proof -
  have g: "adds_fitting (im_registry H) U (generic (im_registry H) hf_var False tree)"
    using assms generic_fits generic_unchecked_fits by blast
  then show "adds_fitting (im_registry H) U (unguarded_entry H hf_var tree)" by (simp add: unguarded_entry_def)
  show "adds_fitting (im_registry H) U (entry H hf_var tree)"
    unfolding adds_fitting_at entry_def by (intro allI fits_at_rules(2,3) fits_at_handler [OF g])
qed

lemma list_entry_fits:
  assumes "im_hf H hf_var \<in> U" and "\<And>sub. adds_fitting (im_registry H) U (h sub)"
  shows "adds_fitting (im_registry H) U (list_entry H hf_var ett_var h tree)"
  unfolding adds_fitting_at list_entry_def
  by (intro allI fits_at_rules(3) fits_at_handler [OF AddListItem_fits] fits_at_handler [OF entry_fits(1)] assms disjI2)

lemma unguarded_list_entry_fits:
  assumes "im_hf H hf_var \<in> U" "- 1 \<in> U" and "\<And>sub. adds_fitting (im_registry H) U (h sub)"
  shows "adds_fitting (im_registry H) U (unguarded_list_entry H hf_var ett_var h tree)"
proof -
  have g: "fits_at (im_registry H) U d (AddGenericTLVItem (im_env H) tree (- 1) False d)" for d
    using AddGenericTLV_fits [where R = "im_registry H", OF _ disjI1 [OF assms(2)]]
    by (fastforce simp: fits_at_def AddGenericTLVItem_def)
  show ?thesis
    unfolding adds_fitting_at unguarded_list_entry_def
    by (intro allI fits_at_rules(3) fits_SuccessOrExit g fits_at_handler [OF AddListItem_fits] fits_at_handler [OF entry_fits(2)]
        assms disjI2)
qed

abbreviation im_fields :: "field list" where
  "im_fields \<equiv> im_fields_1 @ im_fields_2"

lemma im_field_types:
  assumes "knows_fields (im_registry H) im_fields"
  shows "im_text_types H"
    "v \<in> {''ImCommon_Version'', ''ImCommon_Unknown'', ''StatusResponse_Status'', ''ReadRequest_IsFabricFiltered'',
       ''ReportData_SubscriptionID'', ''ReportData_MoreChunkedMessages'', ''ReportData_SuppressResponse'',
       ''WriteRequest_SuppressResponse'', ''WriteRequest_TimedRequest'', ''WriteRequest_MoreChunkedMessages'',
       ''SubscribeRequest_KeepSubscriptions'', ''SubscribeRequest_MinIntervalFloor'', ''SubscribeRequest_MaxIntervalCeiling'',
       ''SubscribeRequest_IsFabricFiltered'', ''SubscribeResponse_SubscriptionID'', ''SubscribeResponse_MaxInterval'',
       ''CommandResponse_SuppressResponse''} \<Longrightarrow>
     proto_registrar_get_ftype (im_env H) (im_hf H v) = FT_STRING"
    "v \<in> {''CommandRequest_SuppressResponse'', ''CommandRequest_TimedRequest''} \<Longrightarrow>
     proto_registrar_get_ftype (im_env H) (im_hf H v) = FT_BOOLEAN"
proof -
  note known = known_type [OF assms]
  show "im_text_types H" unfolding im_text_types_def by (auto intro: known simp: im_fields_1_def im_fields_2_def)
qed (elim insertE emptyE; hypsubst; rule known_type [OF assms]; simp add: im_fields_1_def im_fields_2_def)+

lemma im_members_fit:
  assumes K: "knows_fields (im_registry H) im_fields"
  shows "adds_fitting (im_registry H) (unchecked_im H) (status_response_member H tree)"
    "adds_fitting (im_registry H) (unchecked_im H) (read_request_member H tree)"
    "adds_fitting (im_registry H) (unchecked_im H) (report_data_member H tree)"
    "adds_fitting (im_registry H) (unchecked_im H) (subscribe_request_member H tree)"
    "adds_fitting (im_registry H) (unchecked_im H) (subscribe_response_member H tree)"
    "adds_fitting (im_registry H) (unchecked_im H) (write_request_member H tree)"
    "adds_fitting (im_registry H) (unchecked_im H) (write_response_member H tree)"
    "adds_fitting (im_registry H) (unchecked_im H) (command_request_member H tree)"
    "adds_fitting (im_registry H) (unchecked_im H) (command_response_member H tree)"
    "adds_fitting (im_registry H) (unchecked_im H) (timed_request_member H tree)"
proof -
  note T = im_field_types(1) [OF K] and str = im_field_types(2) [OF K] and bool = im_field_types(3) [OF K]
  have exempt: "im_hf H v \<in> unchecked_im H" if "v \<in> set unchecked_im_fields" for v using that by blast
  have plain: "adds_fitting (im_registry H) (unchecked_im H) (entry H v tree)"
      "adds_fitting (im_registry H) (unchecked_im H) (unguarded_entry H v tree)"
      "adds_fitting (im_registry H) (unchecked_im H) (generic (im_registry H) v False tree)"
    if "proto_registrar_get_ftype (im_env H) (im_hf H v) = FT_STRING" for v tree
    using that by (simp_all add: entry_fits generic_fits)
  have unknown: "adds_fitting (im_registry H) (unchecked_im H) (entry H ''ImCommon_Unknown'' tree)"
      "adds_fitting (im_registry H) (unchecked_im H) (unguarded_entry H ''ImCommon_Unknown'' tree)"
      "adds_fitting (im_registry H) (unchecked_im H) (generic (im_registry H) ''ImCommon_Unknown'' False tree)" for tree
    by (rule plain, rule str, simp)+
  have list: "adds_fitting (im_registry H) (unchecked_im H) (list_entry H v ett h tree)"
      "adds_fitting (im_registry H) (unchecked_im H) (unguarded_list_entry H v ett h tree)"
    if "v \<in> set unchecked_im_fields" "\<And>sub. adds_fitting (im_registry H) (unchecked_im H) (h sub)" for v ett h tree
    using list_entry_fits [OF exempt [OF that(1)] that(2)] unguarded_list_entry_fits [OF exempt [OF that(1)] _ that(2)] by simp_all
  have flags: "adds_fitting (im_registry H) (unchecked_im H) (of_types [kTLVType_Boolean] (typed (im_registry H) v tree))"
    if "v \<in> {''CommandRequest_SuppressResponse'', ''CommandRequest_TimedRequest''}" for v tree
    by (rule typed_field_fits) (simp only: bool [OF that] list.set type_of_field.simps ball_simps simp_thms)
  have timeout: "adds_fitting (im_registry H) (unchecked_im H) (typed (im_registry H) ''TimedRequest_TimeoutMs'' tree)"
    by (rule typed_fits, rule exempt) (simp add: unchecked_im_fields_def)
  have commands: "adds_fitting (im_registry H) (unchecked_im H) (of_types tys (AddListItem (im_env H) tree hf ett (AddCommandDataIBForRequest H)))"
      "adds_fitting (im_registry H) (unchecked_im H) (of_types tys (AddListItem (im_env H) tree hf ett (AddInvokeResponseIB H)))" for tys tree hf ett
    unfolding AddCommandDataIBForRequest_def
    by (intro of_types_fits_any AddListItem_fits AddCommandDataIB_fits command_responses_fit T)+
  note blocks = AddNamedPathItem_fits [OF T] filters_fit [OF T] AddAttributeReportIBItem_fits [OF T]
    AddNamedStructItem_fits [OF T] AddAttributeDataIBItem_fits [OF T] AddAttributeStatusIBItem_fits [OF T]
  note U = unchecked_im_fields_def and paths = AddAttributePathItem_def AddEventPathItem_def AddEventReportIBItem_def
  show "adds_fitting (im_registry H) (unchecked_im H) (status_response_member H tree)"
    unfolding status_response_member_def by (rule context_switch_fits [OF _ unknown(1)]) (simp add: plain str)
  show "adds_fitting (im_registry H) (unchecked_im H) (read_request_member H tree)"
    unfolding read_request_member_def paths by (rule context_switch_fits [OF _ unknown(1)]) (simp add: plain str, intro conjI list; (rule blocks | simp add: U))
  show "adds_fitting (im_registry H) (unchecked_im H) (report_data_member H tree)"
    unfolding report_data_member_def paths by (rule context_switch_fits [OF _ unknown(1)]) (simp add: plain str, intro conjI list; (rule blocks | simp add: U))
  show "adds_fitting (im_registry H) (unchecked_im H) (subscribe_request_member H tree)"
    unfolding subscribe_request_member_def paths by (rule context_switch_fits [OF _ unknown(1)]) (simp add: plain str, intro conjI list; (rule blocks | simp add: U))
  show "adds_fitting (im_registry H) (unchecked_im H) (subscribe_response_member H tree)"
    unfolding subscribe_response_member_def by (rule context_switch_fits [OF _ unknown(1)]) (simp add: plain str)
  show "adds_fitting (im_registry H) (unchecked_im H) (write_request_member H tree)"
    unfolding write_request_member_def by (rule context_switch_fits [OF _ unknown(2)]) (simp add: plain str, intro list; (rule blocks | simp add: U))
  show "adds_fitting (im_registry H) (unchecked_im H) (write_response_member H tree)"
    unfolding write_response_member_def by (rule context_switch_fits [OF _ unknown(2)]) (simp add: plain str, intro list; (rule blocks | simp add: U))
  show "adds_fitting (im_registry H) (unchecked_im H) (command_request_member H tree)"
    unfolding command_request_member_def by (rule context_switch_fits [OF _ unknown(3)]) (simp add: plain str flags [simplified] commands)
  show "adds_fitting (im_registry H) (unchecked_im H) (command_response_member H tree)"
    unfolding command_response_member_def by (rule context_switch_fits [OF _ unknown(1)]) (simp add: plain str commands)
  show "adds_fitting (im_registry H) (unchecked_im H) (timed_request_member H tree)"
    unfolding timed_request_member_def by (rule context_switch_fits [OF _ unknown(3)]) (simp add: plain str timeout)
qed

section \<open>Views\<close>

definition more_calls :: "registry \<Rightarrow> int set \<Rightarrow> view \<Rightarrow> view \<Rightarrow> bool" where
  "more_calls R U v v' \<longleftrightarrow> (\<exists>cs. view_calls v' = view_calls v @ cs \<and> items_fit R U cs)"

definition view_adds :: "registry \<Rightarrow> int set \<Rightarrow> view \<Rightarrow> ('a \<Rightarrow> view) \<Rightarrow> 'a option \<Rightarrow> bool" where
  "view_adds R U v sel m \<longleftrightarrow> (\<forall>x. m = Some x \<longrightarrow> more_calls R U v (sel x))"

lemma more_calls_refl: "view_calls v' = view_calls v \<Longrightarrow> more_calls R U v v'"
  by (simp add: more_calls_def)

lemma more_calls_trans [trans]: "more_calls R U v v1 \<Longrightarrow> more_calls R U v1 v2 \<Longrightarrow> more_calls R U v v2"
  by (auto simp: more_calls_def)

lemma more_calls_steps:
  "call_fits R U c \<Longrightarrow> more_calls R U v (add_call c v)" "more_calls R U v (append_text tree s v)"
  "more_calls R U v (col_append s v)" "more_calls R U v (col_prepend s v)"
  by (simp_all add: more_calls_def add_call_def append_text_def call_fits_def col_append_def col_prepend_def)

lemma adds_rules:
  "view_adds R U v sel None"
  "more_calls R U v (sel x) \<Longrightarrow> view_adds R U v sel (Some x)"
  "(b \<Longrightarrow> view_adds R U v sel m) \<Longrightarrow> (\<not> b \<Longrightarrow> view_adds R U v sel n) \<Longrightarrow> view_adds R U v sel (if b then m else n)"
  "(\<And>x y. p = (x, y) \<Longrightarrow> view_adds R U v sel (f x y)) \<Longrightarrow> view_adds R U v sel (case p of (x, y) \<Rightarrow> f x y)"
  "(o1 = None \<Longrightarrow> view_adds R U v sel n) \<Longrightarrow> (\<And>x. o1 = Some x \<Longrightarrow> view_adds R U v sel (g x)) \<Longrightarrow>
     view_adds R U v sel (case o1 of None \<Rightarrow> n | Some x \<Rightarrow> g x)"
  by (auto simp: view_adds_def split: option.splits prod.splits)

lemma adds_after: "more_calls R U v v1 \<Longrightarrow> view_adds R U v1 sel m \<Longrightarrow> view_adds R U v sel m"
  by (auto simp: view_adds_def intro: more_calls_trans)

lemma adds_text:
  "view_adds R U (append_text tree s v) sel m \<Longrightarrow> view_adds R U v sel m" "view_adds R U (col_append t v) sel m \<Longrightarrow> view_adds R U v sel m"
  "view_adds R U (col_prepend t v) sel m \<Longrightarrow> view_adds R U v sel m"
  by (rule adds_after [OF more_calls_steps(2)] adds_after [OF more_calls_steps(3)] adds_after [OF more_calls_steps(4)]; assumption)+

text \<open>A step that gives a view, a step that gives a view with something, a step that only reads.\<close>

lemma adds_bind:
  assumes "view_adds R U v id m" and "\<And>v1. view_adds R U v1 sel (k v1)"
  shows "view_adds R U v sel (m \<bind> k)"
  using assms by (auto simp: view_adds_def bind_eq_Some_conv intro: more_calls_trans)

lemma adds_bind_pair:
  assumes "view_adds R U v snd m" and "\<And>r v1. view_adds R U v1 sel (k (r, v1))"
  shows "view_adds R U v sel (m \<bind> k)"
  using assms by (auto simp: view_adds_def bind_eq_Some_conv intro: more_calls_trans)

lemma adds_read: "(\<And>x. view_adds R U v sel (k x)) \<Longrightarrow> view_adds R U v sel (m \<bind> k)"
  by (auto simp: view_adds_def bind_eq_Some_conv)

lemma adds_map: "view_adds R U v (sel \<circ> f) m \<Longrightarrow> view_adds R U v sel (map_option f m)"
  by (auto simp: view_adds_def)

lemma adds_cong: "view_adds R U v sel' m \<Longrightarrow> sel' = sel \<Longrightarrow> view_adds R U v sel m"
  by simp

lemma adds_item:
  assumes "val = AddItem \<or> hf \<in> U \<or> fits (proto_registrar_get_ftype (reg_env R) hf) val"
  shows "view_adds R U v id (add_tvb_item tree hf tvb off len val v)"
  using assms by (auto simp: view_adds_def add_tvb_item_def more_calls_def add_call_def call_fits_def)

lemma adds_run_tlv:
  assumes "\<And>d r d'. body d = Some (r, d') \<Longrightarrow> more_fit R U d d'"
  shows "view_adds R U v snd (run_tlv R profile tvb off len body v)"
  unfolding view_adds_def
proof (intro allI impI)
  fix x assume "run_tlv R profile tvb off len body v = Some x"
  then obtain msgData r d where b: "body (start_dissector R profile msgData (of_nat (len - off)) (of_nat off) v) = Some (r, d)"
    and x: "x = (r, v\<lparr>view_calls := trace d\<rparr>)" by (auto simp: run_tlv_def bind_eq_Some_conv)
  have "trace (start_dissector R profile msgData (of_nat (len - off)) (of_nat off) v) = view_calls v"
    by (simp add: start_dissector_def)
  then show "more_calls R U v (snd x)" using assms [OF b] x by (auto simp: more_fit_def more_calls_def)
qed

lemma adds_protocol_tree:
  assumes "\<And>tree v1. view_adds R U v1 sel (f tree v1)"
  shows "view_adds R U v sel (case protocol_tree R p e v of (tree, v1) \<Rightarrow> f tree v1)"
proof -
  obtain tree v1 where p: "protocol_tree R p e v = (tree, v1)" by fastforce
  have "more_calls R U v v1" using p by (auto simp: protocol_tree_def Let_def add_call_def more_calls_def call_fits_def)
  then show ?thesis unfolding p prod.case by (rule adds_after) (rule assms)
qed

lemma adds_info_column: "view_adds R U v id (AddMessageTypeToInfoColumn mi v)"
  by (auto simp: view_adds_def AddMessageTypeToInfoColumn_def more_calls_steps split: option.splits)

lemma next_members_fit:
  assumes "adds_fitting R U h"
  shows "SuccessOrExit (Dissector_Next_expect t g d) h = Some (r, d') \<Longrightarrow> more_fit R U d d'"
    "SuccessOrExit (Dissector_Next d) h = Some (r, d') \<Longrightarrow> more_fit R U d d'"
  by (elim SuccessOrExit_cases; auto dest!: Dissector_Next_expect_trace Dissector_Next_trace
      intro: more_fit_refl more_fit_same adds_fittingD [OF assms])+

section \<open>The dissectors\<close>

lemma DissectIM_adds:
  assumes "knows_fields (im_registry H) im_fields"
  shows "view_adds (im_registry H) (unchecked_im H) v snd (DissectIM H tvb mi v)"
proof -
  have msg: "view_adds (im_registry H) (unchecked_im H) v snd (im_message H tvb mi title member tree v)"
    if "\<And>tree. adds_fitting (im_registry H) (unchecked_im H) (member tree)" for v title member tree
    unfolding im_message_def
    by (rule adds_text(1), rule adds_map, rule adds_cong, rule adds_run_tlv, erule next_members_fit(1) [OF members_fits [OF that]])
      (simp add: fun_eq_iff)
  have table: "view_adds (im_registry H) (unchecked_im H) v snd
      (case map_of (im_messages H tvb mi tree) ty of Some dissect \<Rightarrow> dissect v | None \<Rightarrow> Some (0, v))" for tree v ty
  proof (cases "map_of (im_messages H tvb mi tree) ty")
    case (Some dissect)
    then have "(ty, dissect) \<in> set (im_messages H tvb mi tree)" by (rule map_of_SomeD)
    then have "\<exists>title member. dissect = im_message H tvb mi title member tree \<and>
        (\<forall>tree. adds_fitting (im_registry H) (unchecked_im H) (member tree))"
      using im_members_fit [OF assms]
      unfolding im_messages_def DissectIMStatusResponse_def DissectIMReadRequest_def DissectIMReportData_def DissectIMSubscribeRequest_def
        DissectIMSubscribeResponse_def DissectIMWriteRequest_def DissectIMWriteResponse_def DissectIMCommandRequest_def
        DissectIMCommandResponse_def DissectIMTimedRequest_def list.set insert_iff empty_iff prod.inject by metis
    then obtain title member where d: "dissect = im_message H tvb mi title member tree"
      and m: "\<And>tree. adds_fitting (im_registry H) (unchecked_im H) (member tree)" by blast
    show ?thesis using msg [OF m] Some d by simp
  qed (simp add: adds_rules more_calls_refl)
  show ?thesis
    unfolding DissectIM_def by (rule adds_bind [OF adds_info_column], rule adds_protocol_tree, rule table)
qed

text \<open>The fields of the other protocols whose items are not checked against the element, and all of them.\<close>

definition unchecked_udc_fields :: "string list" where
  "unchecked_udc_fields = [''UDC_AppVendorId'', ''UDC_AppProductId'', ''UDC_VendorId'', ''UDC_ProductId'', ''UDC_DeviceName'',
     ''UDC_DeviceType'', ''UDC_PairingInst'', ''UDC_PairingHint'', ''UDC_RotatingId'', ''UDC_CdPort'', ''UDC_NoPasscode'',
     ''UDC_CdUponPasscodeDialog'', ''UDC_CommissionerPasscode'', ''UDC_CommissionerPasscodeReady'', ''UDC_CancelPasscode'',
     ''UDC_PasscodeLength'']"

definition unchecked_security_fields :: "string list" where
  "unchecked_security_fields = [''Cert_SerialNumber'', ''Cert_NotBefore'', ''Cert_NotAfter'', ''Cert_PublicKeyAlgorithm'',
     ''Cert_EllipticCurveIdentifier'', ''Cert_EllipticCurvePublicKey'']"

definition unchecked_items :: "registry \<Rightarrow> int set" where
  "unchecked_items R = insert (- 1) (reg_hf R ` set
     (unchecked_fields @ unchecked_im_fields @ unchecked_udc_fields @ unchecked_security_fields))"

lemma adds_mono: "view_adds R U v sel m \<Longrightarrow> U \<subseteq> V \<Longrightarrow> view_adds R V v sel m"
  unfolding view_adds_def more_calls_def items_fit_def call_fits_def by (fastforce split: proto_call.splits)

lemma exempt_fields:
  "reg_hf R ` set unchecked_fields \<subseteq> unchecked_items R" "insert (- 1) (reg_hf R ` set unchecked_im_fields) \<subseteq> unchecked_items R"
  "v \<in> set unchecked_udc_fields \<Longrightarrow> reg_hf R v \<in> unchecked_items R"
  "v \<in> set unchecked_security_fields \<Longrightarrow> reg_hf R v \<in> unchecked_items R"
  by (auto simp: unchecked_items_def)

lemma DissectMatterEcho_adds: "view_adds R U v snd (DissectMatterEcho R tvb mi v)"
proof -
  have "view_adds R U v snd (show_echo R tvb mi tree title v)" for tree title v
    unfolding show_echo_def Let_def
    by (rule adds_text(1), rule adds_bind, rule adds_item, simp, rule adds_rules(2)) (simp add: more_calls_refl)
  then show ?thesis
    unfolding DissectMatterEcho_def
    by (intro adds_bind [OF adds_info_column] adds_protocol_tree adds_rules(2,3)) (simp_all add: more_calls_refl)
qed

text \<open>User directed commissioning.\<close>

lemma udc_member_fits:
  assumes K: "knows_fields R udc_fields"
  shows "adds_fitting R (unchecked_items R) (udc_member R tree)"
proof -
  have unknown: "adds_fitting R (unchecked_items R) (generic R ''UDC_UnknownTag'' False t)" for t
    by (rule generic_fits, rule known_type [OF K]) (simp add: udc_fields_def)
  have field: "adds_fitting R (unchecked_items R) (typed R v t)" if "v \<in> set unchecked_udc_fields" for v t
    by (rule typed_fits, rule exempt_fields(3) [OF that])
  have app: "adds_fitting R (unchecked_items R) (AddUDCTargetApp R t)" for t
    unfolding AddUDCTargetApp_def target_app_member_def
    by (intro struct_item_fits context_switch_fits unknown) (simp add: field unchecked_udc_fields_def)
  have apps: "adds_fitting R (unchecked_items R) (udc_target_app_list R t)" for t
    unfolding adds_fitting_at udc_target_app_list_def
    by (intro allI fits_at_rules(3) fits_at_handler [OF AddListItem_fits [OF app]] fits_at_handler [OF unknown])
  show ?thesis
    unfolding udc_member_def
    by (rule context_switch_fits [OF _ unknown]) (simp add: field apps unchecked_udc_fields_def)
qed

lemma udc_declaration_fits:
  assumes K: "knows_fields R udc_fields" and "udc_declaration R tree d = Some (r, d')"
  shows "more_fit R (unchecked_items R) d d'"
proof -
  let ?b = "\<lambda>(_ :: unit, d). with_locals () (udc_member R tree d)"
  have body: "more_fit R (unchecked_items R) d d'" if "?b (l, d) = Some (err, l', d')" for l d err l' d'
    using that adds_fittingD [OF udc_member_fits [OF K]] by (auto simp: with_locals_def)
  obtain e1 d1 where n: "Dissector_Next_expect kTLVType_Structure AnonymousTag d = Some (e1, d1)"
    using assms(2) unfolding udc_declaration_def by (auto split: option.splits)
  note t1 = Dissector_Next_expect_trace [OF n]
  show ?thesis
  proof (cases "e1 = 0")
    case True
    then obtain e2 d2 where e: "Dissector_EnterContainer (reg_env R) d1 = Some (e2, d2)"
      using assms(2) unfolding udc_declaration_def n by (auto split: option.splits)
    have t2: "trace d2 = trace d" using Dissector_EnterContainer_trace [OF e] t1 by simp
    show ?thesis
    proof (cases "e2 = 0")
      case True
      then obtain e3 l3 d3 where l: "each_elem ?b ((), d2) = Some (e3, l3, d3)"
        using assms(2) \<open>e1 = 0\<close> n e by (auto simp: udc_declaration_def split: option.splits)
      have "more_fit R (unchecked_items R) d2 d3" using each_elem_fits [OF l body] by simp
      then have f: "more_fit R (unchecked_items R) d d3" by (rule more_fit_same [OF t2])
      have "trace d' = trace d3"
        using assms(2) \<open>e1 = 0\<close> \<open>e2 = 0\<close> n e l
        by (auto simp: udc_declaration_def split: if_splits dest: Dissector_ExitContainer_trace)
      then show ?thesis using more_fit_trans [OF f more_fit_refl] by blast
    qed (use assms(2) \<open>e1 = 0\<close> n e t2 in \<open>simp add: udc_declaration_def more_fit_refl\<close>)
  qed (use assms(2) n t1 in \<open>simp add: udc_declaration_def more_fit_refl\<close>)
qed

lemma DissectUDC_adds:
  assumes K: "knows_fields R udc_fields"
  shows "view_adds R (unchecked_items R) v snd (DissectUDC R tvb mi v)"
proof -
  have name: "proto_registrar_get_ftype (reg_env R) (reg_hf R ''UDC_InstanceName'') = FT_STRING"
    by (rule known_type [OF K]) (simp add: udc_fields_def)
  have end_of: "view_adds R (unchecked_items R) v snd (Some (n, if b then v else col_prepend s v))" for v n b s
    by (rule adds_rules(2)) (simp add: more_calls_refl more_calls_steps)
  have tlv: "view_adds R (unchecked_items R) v snd (run_tlv R p tvb off len (udc_declaration R tree) v)" for v p off len tree
    by (rule adds_run_tlv) (rule udc_declaration_fits [OF K])
  have item: "view_adds R (unchecked_items R) v id (add_tvb_item tree hf tvb off len AddItem v)" for tree hf off len v
    by (rule adds_item) simp
  have tagged: "view_adds R (unchecked_items R) v snd (map_option (Pair x) (add_tvb_item tree hf tvb off len AddItem v))" for x :: 'x and tree hf off len v
    by (rule adds_map) (use item [of v tree hf off len] in \<open>simp add: view_adds_def\<close>)
  have decl: "view_adds R (unchecked_items R) v snd (DissectUDCIdentificationDeclaration R tvb mi tree v)" for tree v
    unfolding DissectUDCIdentificationDeclaration_def Let_def
    apply (rule adds_text(1) [where tree = tree and s = "'': IdentificationDeclaration''"])
    apply (rule adds_rules(3))
     apply (rule adds_rules(2), simp add: more_calls_refl)
    apply (rule adds_bind_pair)
     apply (rule adds_rules(5))
      apply (rule tagged)
     apply (rule adds_bind)
      apply (rule adds_rules(3), rule item, rule adds_item, simp add: name)
     apply (rule adds_bind_pair)
      apply (rule adds_rules(3), rule tagged, rule adds_rules(2), simp add: more_calls_refl)
     apply (unfold prod.case)
     apply (rule adds_rules(3))
      apply (rule adds_bind [OF item tlv])
     apply (rule adds_rules(2), simp add: more_calls_refl)
    apply (rule end_of)
    done
  show ?thesis
    unfolding DissectUDC_def Let_def
    by (rule adds_bind [OF adds_info_column], rule adds_protocol_tree, intro adds_rules(3) decl tagged, rule adds_rules(2))
      (simp add: more_calls_refl)
qed

text \<open>The security protocol.\<close>

abbreviation result_view :: "int \<times> view \<times> 's \<Rightarrow> view" where
  "result_view x \<equiv> fst (snd x)"

abbreviation security_fields :: "field list" where
  "security_fields \<equiv> security_fields_1 @ security_fields_2"

lemma security_parts_fit:
  assumes K: "knows_fields R security_fields"
  shows "adds_fitting R (unchecked_items R) (cert_info_member R tree)" "adds_fitting R (unchecked_items R) (ecdsa_member R tree)"
proof -
  have type: "proto_registrar_get_ftype (reg_env R) (reg_hf R ''Cert_Unknown'') = FT_STRING"
    "proto_registrar_get_ftype (reg_env R) (reg_hf R ''Cert_Signature'') = FT_STRING"
    "proto_registrar_get_ftype (reg_env R) (reg_hf R ''Cert_IssuerAttribute'') = FT_STRING"
    "proto_registrar_get_ftype (reg_env R) (reg_hf R ''Cert_SubjectAttribute'') = FT_STRING"
    "proto_registrar_get_ftype (reg_env R) (reg_hf R ''CertRef_PublicSessionId'') = FT_BYTES"
    "proto_registrar_get_ftype (reg_env R) (reg_hf R ''ECDSASig_r'') = FT_BYTES"
    "proto_registrar_get_ftype (reg_env R) (reg_hf R ''ECDSASig_s'') = FT_BYTES"
    by (rule known_type [OF K]; simp add: security_fields_1_def security_fields_2_def)+
  note generic = generic_fits [OF type(1)] generic_fits [OF type(2)]
  have field: "adds_fitting R (unchecked_items R) (typed R v t)" if "v \<in> set unchecked_security_fields" for v t
    by (rule typed_fits, rule exempt_fields(4) [OF that])
  have attr: "adds_fitting R (unchecked_items R) (cert_dn_attribute R v t)"
    if "proto_registrar_get_ftype (reg_env R) (reg_hf R v) = FT_STRING" for v t
  proof (rule adds_fittingI)
    fix d
    have line: "fits_at R (unchecked_items R) d (Some (e, AddStringItemF t (reg_hf R v) s d))" for e s d
      by (rule fits_done(1)) (simp add: AddStringItemF_def more_fit_item that)
    show "fits_at R (unchecked_items R) d (cert_dn_attribute R v t d)"
      unfolding cert_dn_attribute_def Let_def
      by (intro fits_at_rules(3,4) fits_at_DupString fits_at_rules(2) line fits_at_handler [OF generic(1)])
  qed
  have dn: "adds_fitting R (unchecked_items R) (AddCertDN R c v t)"
    if "proto_registrar_get_ftype (reg_env R) (reg_hf R v) = FT_STRING" for c v t
    unfolding AddCertDN_def by (intro of_types_fits_any subtree_members_fits attr that)
  have bytes: "adds_fitting R (unchecked_items R) (of_types [kTLVType_ByteString] (typed R v t))"
    if "proto_registrar_get_ftype (reg_env R) (reg_hf R v) = FT_BYTES" for v t
    by (rule typed_field_fits) (simp add: that)
  have cert: "adds_fitting R (unchecked_items R) (AddCert_as R hf t)" for hf t
    unfolding AddCert_as_def cert_member_def
    by (intro struct_item_fits context_switch_fits generic(1))
      (simp add: field unchecked_security_fields_def dn type of_types_fits_any generic)
  have ref: "adds_fitting R (unchecked_items R) (AddCertRef_as R hf t)" for hf t
    unfolding AddCertRef_as_def cert_ref_member_def
    by (intro struct_item_fits context_switch_fits generic(1)) (simp add: of_types_fits_any dn type bytes [simplified])
  show "adds_fitting R (unchecked_items R) (cert_info_member R tree)"
    unfolding cert_info_member_def
    by (intro context_switch_fits unexpected_fits) (simp add: of_types_fits_any AddListItem_fits cert ref AddCert_def AddCertRef_def)
  show "adds_fitting R (unchecked_items R) (ecdsa_member R tree)"
    unfolding ecdsa_member_def
    by (intro context_switch_fits unexpected_fits) (simp add: bytes [simplified] type)
qed

lemma security_structures_add:
  assumes K: "knows_fields R security_fields"
  shows "view_adds R (unchecked_items R) v snd (optional_cert_info R tree tvb off len hf v)"
    "view_adds R (unchecked_items R) v snd (optional_signature R tree tvb off len hf v)"
proof -
  have s: "view_adds R (unchecked_items R) v snd (security_structure R tag member tree tvb off len hf ett v)"
    if "\<And>t. adds_fitting R (unchecked_items R) (member t)" for tag member hf ett v
    unfolding security_structure_def
    by (rule adds_run_tlv, erule next_members_fit(1) [OF subtree_members_fits [OF that]])
  show "view_adds R (unchecked_items R) v snd (optional_cert_info R tree tvb off len hf v)"
    "view_adds R (unchecked_items R) v snd (optional_signature R tree tvb off len hf v)"
    unfolding optional_cert_info_def optional_signature_def AddCertInfo_def AddECDSASig_def
    by (rule adds_rules(3), rule s, rule security_parts_fit [OF K], rule adds_rules(2), simp add: more_calls_refl)+
qed

lemma add_words_adds: "view_adds R U v id (add_words R tree hf tvb off n v)"
proof (induction n arbitrary: off v)
  case (Suc n)
  show ?case unfolding add_words.simps by (rule adds_bind, rule adds_item, simp, rule Suc.IH)
qed (simp add: view_adds_def more_calls_refl)

lemma plain_items_add:
  "view_adds R U v id (add_tvb_item tree hf tvb a b AddItem v)" "view_adds R U v id (optional_item R tree hf_var tvb off len v)"
  "view_adds R U v id (add_word_list R tree hl el he tvb off len n v)"
proof -
  show i: "view_adds R U v id (add_tvb_item tree hf tvb a b AddItem v)" for tree hf a b v by (rule adds_item) simp
  show "view_adds R U v id (optional_item R tree hf_var tvb off len v)"
    unfolding optional_item_def by (rule adds_rules(3), rule i, rule adds_rules(2)) (simp add: more_calls_refl)
  have call: "call_fits R U (ProtoSubtree t e)" for t e by (simp add: call_fits_def)
  show "view_adds R U v id (add_word_list R tree hl el he tvb off len n v)"
    unfolding add_word_list_def Let_def
    by (rule adds_bind, rule i, rule adds_bind, rule adds_after [OF more_calls_steps(1)], rule call, rule add_words_adds,
        rule adds_rules(2)) (simp add: more_calls_steps)
qed

lemma adds_done: "view_adds R U v result_view (done_with mi v s)" "view_adds R U v result_view (Some (res, v, s))"
  by (simp_all add: view_adds_def done_with_def more_calls_refl)

lemma DissectMatterSecurity_adds:
  assumes K: "knows_fields R security_fields"
  shows "view_adds R (unchecked_items R) v result_view (DissectMatterSecurity C R tvb mi (v, s))"
proof -
  have code: "proto_registrar_get_ftype (reg_env R) (reg_hf R ''CASEBeginSessionResponse_KeyConfirmHashLength'') = FT_UINT8"
    "proto_registrar_get_ftype (reg_env R) (reg_hf R ''KeyError_StatusCode'') = FT_UINT16"
    by (rule known_type [OF K]; simp add: security_fields_1_def security_fields_2_def)+
  have num: "view_adds R (unchecked_items R) v id (add_tvb_item tree (reg_hf R ''CASEBeginSessionResponse_KeyConfirmHashLength'') tvb a b (AddUintFormatValue n t) v)"
    "view_adds R (unchecked_items R) v id (add_tvb_item tree (reg_hf R ''KeyError_StatusCode'') tvb a b (AddUintFormatValue n t) v)" for tree a b n t v
    by (rule adds_item, simp add: code)+
  note structures = security_structures_add [OF K]
  note one = plain_items_add num
  have msgs: "view_adds R (unchecked_items R) v result_view (DissectCASEBeginSessionRequest C R tvb mi tree (v, s))"
    "view_adds R (unchecked_items R) v result_view (DissectCASEBeginSessionResponse C R tvb mi tree (v, s))"
    "view_adds R (unchecked_items R) v result_view (DissectCASEInitiatorKeyConfirm R tvb mi tree (v, s))"
    "view_adds R (unchecked_items R) v result_view (DissectCASEReconfigure R tvb mi tree (v, s))"
    "view_adds R (unchecked_items R) v result_view (DissectMessageCounterSyncResp R tvb mi tree (v, s))"
    "view_adds R (unchecked_items R) v result_view (DissectKeyError R tvb mi tree (v, s))" for tree v s
    unfolding DissectCASEBeginSessionRequest_def DissectCASEBeginSessionResponse_def DissectCASEInitiatorKeyConfirm_def
      DissectCASEReconfigure_def DissectMessageCounterSyncResp_def DissectKeyError_def prod.case Let_def
    by ((rule adds_text(1), rule adds_rules(3), rule adds_done,
        (rule adds_done | rule adds_rules(3) | rule adds_rules(5) | (rule adds_bind, rule one) |
         (rule adds_bind_pair, rule structures, unfold prod.case) | rule adds_read)+)[1])+
  have table: "view_adds R (unchecked_items R) v result_view
      (case map_of (security_messages C R tvb mi tree) ty of Some dissect \<Rightarrow> dissect (v, s) | None \<Rightarrow> Some (0, v, s))" for tree v ty
    using msgs [of v tree s] adds_done(2) [of R "unchecked_items R" v 0 s] by (auto simp: security_messages_def)
  show ?thesis
    unfolding DissectMatterSecurity_def prod.case by (rule adds_bind [OF adds_info_column], rule adds_protocol_tree, rule table)
qed

text \<open>The secure channel protocol. The subscription of the exchange is a field of the interaction model.\<close>

lemma AssociateWithIMSubscription_adds:
  assumes "proto_registrar_get_ftype (reg_env R) (reg_hf R ''IM_SubscriptionId'') = FT_UINT64"
  shows "view_adds R U v fst (AssociateWithIMSubscription R tree i (v, t))"
proof -
  have "more_calls R U v (add_call (ProtoSetHidden item) (add_call (ProtoAdd tree (reg_hf R ''IM_SubscriptionId'') 0 0 (AddUint64 s)) v))" for item s
    by (rule more_calls_trans; rule more_calls_steps) (simp_all add: call_fits_def assms)
  then show ?thesis
    unfolding AssociateWithIMSubscription_def prod.case Let_def
    by (intro adds_rules(1,3,5) adds_read adds_rules(2)) simp
qed

lemma adds_bind_fst:
  assumes "view_adds R U v fst m" and "\<And>v1 t. view_adds R U v1 sel (k (v1, t))"
  shows "view_adds R U v sel (m \<bind> k)"
  using assms by (fastforce simp: view_adds_def bind_eq_Some_conv intro: more_calls_trans)

lemma untracked_adds: "view_adds R U v snd (f v) \<Longrightarrow> view_adds R U v result_view (without_tracker f (v, t))"
  by (auto simp: view_adds_def without_tracker_def)

lemma session_message_adds:
  assumes "\<And>tree. adds_fitting R U (member tree)"
  shows "view_adds R U v snd (session_message R tvb mi title member tree v)"
  using session_message_fits [OF assms] by (force simp: view_adds_def more_calls_def)

lemma fitting_mono: "adds_fitting R U h \<Longrightarrow> U \<subseteq> V \<Longrightarrow> adds_fitting R V h"
  unfolding adds_fitting_def more_fit_def items_fit_def call_fits_def by (fastforce split: proto_call.splits)

lemma common_messages_add:
  assumes K: "knows_fields R common_fields" and S: "proto_registrar_get_ftype (reg_env R) (reg_hf R ''IM_SubscriptionId'') = FT_UINT64"
  shows "view_adds R (unchecked_items R) v result_view (DissectStatusReport R tvb mi tree (v, t))"
    "view_adds R (unchecked_items R) v result_view (DissectStandaloneAck R mi tree (v, t))"
    "view_adds R (unchecked_items R) v snd (DissectICDCheckIn R tvb mi tree v)"
    "view_adds R (unchecked_items R) v snd (DissectPasePakeError R tvb mi tree v)"
proof -
  have type: "proto_registrar_get_ftype (reg_env R) (reg_hf R ''StatusReport_StatusCode'') = FT_UINT16"
    "proto_registrar_get_ftype (reg_env R) (reg_hf R ''StatusReport_ProfileId'') = FT_UINT32"
    "proto_registrar_get_ftype (reg_env R) (reg_hf R ''StatusReport_IsError'') = FT_BOOLEAN"
    "proto_registrar_get_ftype (reg_env R) (reg_hf R ''StatusReport_TLV'') = FT_STRING"
    "proto_registrar_get_ftype (reg_env R) (reg_hf R ''PakeError_Code'') = FT_UINT8"
    by (rule known_type [OF K]; simp add: common_fields_1_def common_fields_2_def)+
  note subscription = AssociateWithIMSubscription_adds [OF S]
  have number: "view_adds R (unchecked_items R) v id (add_tvb_item tree (reg_hf R hf) tvb a b (AddUintFormatValue n s) v)"
    if "hf \<in> {''StatusReport_StatusCode'', ''StatusReport_ProfileId'', ''PakeError_Code''}" for hf a b n s v
    by (rule adds_item) (use that type in auto)
  have data: "view_adds R (unchecked_items R) v snd
      (if b then run_tlv R p tvb 8 len (\<lambda>d. SuccessOrExit (Dissector_Next d) (generic R ''StatusReport_TLV'' False tree)) v
       else Some (MATTER_NO_ERROR, v))" for b p len v
    by (intro adds_rules(3) adds_run_tlv adds_rules(2)) (erule next_members_fit [OF generic_fits [OF type(4)]], simp add: more_calls_refl)
  have stay: "view_adds R U v id (Some v)" and finished: "view_adds R U v snd (Some (n, v))" for U v and n :: int
    by (simp_all add: view_adds_def more_calls_refl)
  show "view_adds R (unchecked_items R) v result_view (DissectStandaloneAck R mi tree (v, t))"
    unfolding DissectStandaloneAck_def prod.case Let_def
    by (rule adds_text(1), rule adds_text(3), rule adds_bind_fst [OF subscription], unfold prod.case, rule adds_rules(2))
      (simp add: more_calls_refl)
  show "view_adds R (unchecked_items R) v snd (DissectICDCheckIn R tvb mi tree v)"
    unfolding DissectICDCheckIn_def Let_def
    by (rule adds_text(1) [of R _ tree _ v], rule adds_text(3), rule adds_bind [OF adds_rules(3) [OF plain_items_add(1) stay]], rule finished)
  show "view_adds R (unchecked_items R) v snd (DissectPasePakeError R tvb mi tree v)"
    unfolding DissectPasePakeError_def Let_def
    apply (rule adds_text(3) [of R _ _ v])
    apply (rule adds_text(1))
    apply (rule adds_bind [OF _ finished])
    apply (rule adds_rules(3) [OF _ stay])
    apply (rule adds_read, rule adds_bind, rule number, simp)
    apply (rule adds_text(2))
    apply (rule adds_rules(3) [OF plain_items_add(1) stay])
    done
  have hidden: "view_adds R (unchecked_items R) v result_view (do {
        (v, t) \<leftarrow> AssociateWithIMSubscription R tree i (add_call (ProtoSetHidden item) v, t);
        Some (n, v, t) })" for v i item n
  proof -
    have call: "call_fits R (unchecked_items R) (ProtoSetHidden item)" by (simp add: call_fits_def)
    show ?thesis
      by (rule adds_after [OF more_calls_steps(1) [OF call]], rule adds_bind_fst [OF subscription], unfold prod.case, rule adds_rules(2))
        (simp add: more_calls_refl)
  qed
  show "view_adds R (unchecked_items R) v result_view (DissectStatusReport R tvb mi tree (v, t))"
    unfolding DissectStatusReport_def prod.case Let_def
    apply (rule adds_text(1) [where s = "'': Status Report''" and tree = tree])
    apply (rule adds_read, rule adds_bind, rule number, simp)
    apply (rule adds_read, rule adds_bind, rule number, simp)
    apply (rule adds_read, rule adds_bind, rule number, simp)
    apply (rule adds_text(3), rule adds_bind_pair, rule data)
    apply (unfold prod.case, rule adds_rules(3), rule adds_rules(2), simp add: more_calls_refl)
    apply (rule adds_bind, rule adds_item, simp add: type, rule hidden)
    done
qed

lemma DissectMatterCommon_adds:
  assumes K: "knows_fields R common_fields" and S: "proto_registrar_get_ftype (reg_env R) (reg_hf R ''IM_SubscriptionId'') = FT_UINT64"
  shows "view_adds R (unchecked_items R) v result_view (DissectMatterCommon R tvb mi (v, t))"
proof -
  note session = fitting_mono [OF _ exempt_fields(1)]
  have msgs: "view_adds R (unchecked_items R) v result_view (without_tracker f (v, t))"
    if "f \<in> {DissectICDCheckIn R tvb mi tree, DissectPasePakeError R tvb mi tree, DissectPBKDFParamRequest R tvb mi tree,
      DissectPBKDFParamResponse R tvb mi tree, DissectPasePake1 R tvb mi tree, DissectPasePake2 R tvb mi tree,
      DissectPasePake3 R tvb mi tree, DissectCaseSigma1 R tvb mi tree, DissectCaseSigma2 R tvb mi tree,
      DissectCaseSigma3 R tvb mi tree, DissectCaseSigma2Resume R tvb mi tree}" for f tree v
    using that unfolding DissectPBKDFParamRequest_def DissectPBKDFParamResponse_def DissectPasePake1_def DissectPasePake2_def
      DissectPasePake3_def DissectCaseSigma1_def DissectCaseSigma2_def DissectCaseSigma3_def DissectCaseSigma2Resume_def
    by (elim insertE emptyE; hypsubst;
        intro untracked_adds common_messages_add(3,4) [OF K S] session_message_adds session session_members_fit [OF K])
  have table: "view_adds R (unchecked_items R) v result_view
      (case map_of (common_messages R tvb mi tree) ty of Some dissect \<Rightarrow> dissect (v, t) | None \<Rightarrow> Some (0, v, t))" for tree v ty
  proof (cases "map_of (common_messages R tvb mi tree) ty")
    case (Some dissect)
    then have "dissect \<in> snd ` set (common_messages R tvb mi tree)" by (force dest: map_of_SomeD)
    then have "view_adds R (unchecked_items R) v result_view (dissect (v, t))"
      unfolding common_messages_def list.set image_insert image_empty snd_conv
      by (elim insertE emptyE; hypsubst; intro common_messages_add(1,2) [OF K S] msgs [of _ tree]; simp)
    then show ?thesis by (simp add: Some)
  qed (simp add: view_adds_def more_calls_refl)
  show ?thesis unfolding DissectMatterCommon_def prod.case by (rule adds_protocol_tree, rule table)
qed

section \<open>The table of the dissectors\<close>

lemma knows_subset:
  assumes "knows_fields R fs" "set gs \<subseteq> set fs"
  shows "knows_fields R gs"
  using assms by (auto simp: knows_fields_def intro: inj_on_subset)

lemma known_sub_fields:
  assumes "knows_fields R sub_fields"
  shows "knows_fields R common_fields" "knows_fields R im_fields" "knows_fields R security_fields" "knows_fields R udc_fields"
    "proto_registrar_get_ftype (reg_env R) (reg_hf R ''IM_SubscriptionId'') = FT_UINT64"
proof -
  show "knows_fields R common_fields" "knows_fields R security_fields" "knows_fields R udc_fields" and i: "knows_fields R im_fields"
    by (rule knows_subset [OF assms]; auto simp: sub_fields_def)+
  show "proto_registrar_get_ftype (reg_env R) (reg_hf R ''IM_SubscriptionId'') = FT_UINT64"
    by (rule known_type [OF i]) (simp add: im_fields_1_def im_fields_2_def)
qed

lemma dissector_try_uint_adds:
  assumes K: "knows_fields (im_registry H) sub_fields"
  shows "view_adds (im_registry H) (unchecked_items (im_registry H)) v result_view (dissector_try_uint C H p tvb mi (v, s))"
proof -
  let ?R = "im_registry H"
  note types = known_sub_fields [OF K]
  have tracker: "view_adds ?R U v result_view (on_tracker f (v, s))" if "view_adds ?R U v result_view (f (v, ms_tracker s))" for U v s f
    using that by (auto simp: view_adds_def on_tracker_def)
  have view: "view_adds ?R U v result_view (on_view f (v, s))" if "view_adds ?R U v snd (f v)" for U v s f
    using that by (auto simp: view_adds_def on_view_def)
  have im: "view_adds ?R (unchecked_items ?R) v snd (DissectIM H tvb mi v)"
    by (rule adds_mono [OF DissectIM_adds [OF types(2)] exempt_fields(2)])
  have all: "view_adds ?R (unchecked_items ?R) v result_view (dissect (v, s))"
    if "dissect \<in> snd ` set (matter_subdissector_table C H tvb mi)" for dissect
    using that unfolding matter_subdissector_table_def list.set image_insert image_empty snd_conv
    by (elim insertE emptyE; hypsubst; intro tracker view im DissectMatterCommon_adds [OF types(1,5)] DissectUDC_adds [OF types(4)]
        DissectMatterEcho_adds DissectMatterSecurity_adds [OF types(3)])
  show ?thesis
    unfolding dissector_try_uint_def
    by (rule adds_rules(5)) (force simp: view_adds_def more_calls_refl, rule all, force dest: map_of_SomeD)
qed

end
