(* ===== verification/Plugin_Setup.thy ===== *)
theory Plugin_Setup
  imports Protocol_Table Protocol_Registration
begin

text \<open>
  The start of the plugin: what \<open>plugin_register\<close>, the \<open>proto_register_\<close> functions and the \<open>proto_reg_handoff_\<close>
  functions tell the host, the directory of the plugin and the disclaimer. The host keeps tables (\<open>host_tables\<close>); it
  refuses a protocol or a table that is there already and a dissector for a table that is not there, which is
  \<open>None\<close>. The operating system is a record of its calls over a state of any type.
\<close>

section \<open>The host\<close>

datatype dissector_fn = Fn_DissectMatter | Fn_DissectMatterTCP | Fn_DissectMatterCommon | Fn_DissectMatterEcho
  | Fn_DissectMatterSecurity | Fn_DissectIM | Fn_DissectUDC

datatype filter_fns = Fn_MatterExchangeFilter | Fn_IMSubscriptionFilter

text \<open>A preference: its name, title and description; a user table also has its title, file and fields.\<close>

datatype preference = BoolPref string string string | StringPref string string string
  | UatPref string string string string string "(string \<times> string \<times> string) list"

text \<open>Protocols have the variable that holds their number, a name, a short name and a filter name.\<close>

record host_tables =
  protocols :: "(string \<times> string \<times> string \<times> string) list"
  field_arrays :: "(string \<times> field list) list"
  subtrees :: "string list"
  dissector_tables :: "string \<Rightarrow> (u32 \<Rightarrow> (dissector_fn \<times> string) option) option"
  conversation_filters :: "(string \<times> string \<times> filter_fns) list"
  preferences :: "(string \<times> preference) list"
  init_routines :: nat
  secrets_types :: "u32 list"

definition proto_register_protocol :: "string \<Rightarrow> string \<Rightarrow> string \<Rightarrow> string \<Rightarrow> host_tables \<Rightarrow> host_tables option" where
  "proto_register_protocol var name short filter_name h =
     (if \<exists>(v, n, s, f) \<in> set (protocols h). n = name \<or> s = short \<or> f = filter_name then None
      else Some (h\<lparr>protocols := protocols h @ [(var, name, short, filter_name)]\<rparr>))"

definition proto_register_arrays :: "string \<Rightarrow> field list \<Rightarrow> string list \<Rightarrow> host_tables \<Rightarrow> host_tables" where
  "proto_register_arrays var hf ett h =
     h\<lparr>field_arrays := field_arrays h @ [(var, hf)], subtrees := subtrees h @ ett\<rparr>"

definition register_dissector_table :: "string \<Rightarrow> host_tables \<Rightarrow> host_tables option" where
  "register_dissector_table name h =
     (if dissector_tables h name \<noteq> None then None
      else Some (h\<lparr>dissector_tables := (dissector_tables h)(name \<mapsto> Map.empty)\<rparr>))"

definition register_conversation_filter :: "string \<Rightarrow> string \<Rightarrow> filter_fns \<Rightarrow> host_tables \<Rightarrow> host_tables" where
  "register_conversation_filter proto title fns h =
     h\<lparr>conversation_filters := conversation_filters h @ [(proto, title, fns)]\<rparr>"

definition prefs_register :: "string \<Rightarrow> preference \<Rightarrow> host_tables \<Rightarrow> host_tables" where
  "prefs_register module p h = h\<lparr>preferences := preferences h @ [(module, p)]\<rparr>"

definition dissector_add_uint :: "string \<Rightarrow> u32 \<Rightarrow> dissector_fn \<Rightarrow> string \<Rightarrow> host_tables \<Rightarrow> host_tables option" where
  "dissector_add_uint name n f var h =
     map_option (\<lambda>table. h\<lparr>dissector_tables := (dissector_tables h)(name \<mapsto> table(n \<mapsto> (f, var)))\<rparr>) (dissector_tables h name)"

text \<open>The dissector that the host finds for a number in a table.\<close>

definition find_dissector_fn :: "host_tables \<Rightarrow> string \<Rightarrow> u32 \<Rightarrow> dissector_fn option" where
  "find_dissector_fn h name n = (case dissector_tables h name of None \<Rightarrow> None | Some table \<Rightarrow> map_option fst (table n))"

section \<open>The operating system\<close>

datatype file_kind = Regular | Directory | Other_kind

record file_stat =
  st_kind :: file_kind
  st_size :: int
  st_atime :: int
  st_mtime :: int

datatype stat_result = Stat file_stat | ENOENT | Stat_fails

text \<open>\<open>os_create\<close> stands for the \<open>open\<close> that creates and truncates a file, and its \<open>close\<close>.\<close>

record 'w os_calls =
  os_stat :: "string \<Rightarrow> 'w \<Rightarrow> stat_result"
  os_unlink :: "string \<Rightarrow> 'w \<Rightarrow> 'w"
  os_mkdir :: "string \<Rightarrow> 'w \<Rightarrow> 'w"
  os_create :: "string \<Rightarrow> 'w \<Rightarrow> 'w"
  os_utime :: "string \<Rightarrow> int \<Rightarrow> int \<Rightarrow> 'w \<Rightarrow> 'w"
  os_time :: "'w \<Rightarrow> int"
  os_home :: "'w \<Rightarrow> string option"
  get_persconffile_path :: "string \<Rightarrow> string"
  uat_load_keys :: "'w \<Rightarrow> enc_key list"
  uat_load_nodes :: "'w \<Rightarrow> node_id list"

text \<open>The statics of the plugin, the tables of the host and the messages that were reported.\<close>

record 'w plugin =
  os_state :: 'w
  host_state :: host_tables
  pluginDirName :: "string option"
  alertShown :: bool
  secretsRegistered :: bool
  failures :: "string list"
  sKeyList :: "enc_key list"
  sNodeIdList :: "node_id list"
  plugin_keys :: key_table

section \<open>The disclaimer and the directory of the plugin\<close>

definition kDisplayInterval :: int where
  "kDisplayInterval = 86400"

definition disclaimer :: string where
  "disclaimer = ''DISCLAIMER: The Matter Protocol Wireshark dissector is an experimental tool.'' @ [CHR 0x0A]"

text \<open>What the function does once the time stamp is old or absent.\<close>

definition show_alert :: "'w plugin \<Rightarrow> 'w plugin" where
  "show_alert s = (if alertShown s then s else s\<lparr>failures := failures s @ [disclaimer], alertShown := True\<rparr>)"

definition DisplayInternalUseAlert :: "'w os_calls \<Rightarrow> 'w plugin \<Rightarrow> 'w plugin" where
  "DisplayInternalUseAlert os s =
     (let timestampFileName = get_persconffile_path os ''matter_internal_use_alert'' in
      case os_stat os timestampFileName (os_state s) of
        Stat fs \<Rightarrow>
          (let curTime = os_time os (os_state s) in
           if st_mtime fs + kDisplayInterval > curTime then s
           else show_alert (s\<lparr>os_state := os_utime os timestampFileName (st_atime fs) curTime (os_state s)\<rparr>))
      | _ \<Rightarrow> show_alert (s\<lparr>os_state := os_create os timestampFileName (os_state s)\<rparr>))"

definition plugin_directory :: "'w os_calls \<Rightarrow> 'w plugin \<Rightarrow> string option" where
  "plugin_directory os s =
     (if pluginDirName s = None
      then map_option (\<lambda>homeDir. homeDir @ ''/.matter_wireshark_plugin'') (os_home os (os_state s))
      else pluginDirName s)"

text \<open>An empty file in its place is removed, then a directory is made if nothing is there.\<close>

definition make_directory :: "'w os_calls \<Rightarrow> string \<Rightarrow> 'w \<Rightarrow> 'w" where
  "make_directory os dir w =
     (let w = (case os_stat os dir w of
                 Stat fs \<Rightarrow> if st_kind fs = Regular \<and> st_size fs = 0 then os_unlink os dir w else w
               | _ \<Rightarrow> w)
      in if os_stat os dir w = ENOENT then os_mkdir os dir w else w)"

definition is_directory :: "'w os_calls \<Rightarrow> string \<Rightarrow> 'w \<Rightarrow> bool" where
  "is_directory os dir w = (case os_stat os dir w of Stat fs \<Rightarrow> st_kind fs = Directory | _ \<Rightarrow> False)"

definition InitMatterDissector :: "'w os_calls \<Rightarrow> 'w plugin \<Rightarrow> 'w plugin" where
  "InitMatterDissector os s =
     DisplayInternalUseAlert os
       (case plugin_directory os s of
          None \<Rightarrow> s
        | Some dir \<Rightarrow>
            (let w = make_directory os dir (os_state s) in
             s\<lparr>os_state := w, pluginDirName := (if is_directory os dir w then Some dir else None)\<rparr>))"

section \<open>Registration\<close>

definition MATTER_PORT :: u32 where
  "MATTER_PORT = 5540"

definition kSecretsTypeMatterProxyHints :: u32 where
  "kSecretsTypeMatterProxyHints = 0x4D50524B"

text \<open>A change of the tables of the host, as a change of the state of the plugin.\<close>

definition on_host :: "(host_tables \<Rightarrow> host_tables option) \<Rightarrow> 'w plugin \<Rightarrow> 'w plugin option" where
  "on_host f s = map_option (\<lambda>h. s\<lparr>host_state := h\<rparr>) (f (host_state s))"

definition UserEncryptionKeyPrefs_Init :: "'w os_calls \<Rightarrow> string \<Rightarrow> 'w plugin \<Rightarrow> 'w plugin" where
  "UserEncryptionKeyPrefs_Init os prefs s =
     s\<lparr>host_state := prefs_register prefs
         (UatPref ''message_enc_keys'' ''Message Encryption Keys'' ''A table of keys for decrypting Matter messages''
            ''Message Encryption Keys'' ''matter_message_enc_keys''
            [(''encKey'', ''Data Encryption Key'', ''Matter message data encryption key'')]) (host_state s),
       sKeyList := UserKeys_Init (uat_load_keys os (os_state s))\<rparr>"

definition UserNodeIdPrefs_Init :: "'w os_calls \<Rightarrow> string \<Rightarrow> 'w plugin \<Rightarrow> 'w plugin" where
  "UserNodeIdPrefs_Init os prefs s =
     s\<lparr>host_state := prefs_register prefs
         (UatPref ''message_node_ids'' ''Message Node Ids'' ''A table of node ids for Matter messages''
            ''Message Node Ids'' ''matter_message_node_ids'' [(''nodeId'', ''Node Id'', ''Matter message node id'')]) (host_state s),
       sNodeIdList := uat_load_nodes os (os_state s)\<rparr>"

definition proto_register_matter :: "'w os_calls \<Rightarrow> 'w plugin \<Rightarrow> 'w plugin option" where
  "proto_register_matter os s =
     do {
       s \<leftarrow> on_host (proto_register_protocol ''proto_matter'' ''Matter Message Format'' ''Matter-CHIP'' proto_matter_filter_name) s;
       s \<leftarrow> on_host (Some \<circ> proto_register_arrays ''proto_matter'' matter_fields matter_subtrees) s;
       s \<leftarrow> on_host (register_dissector_table ''matter.profile_id'') s;
       s \<leftarrow> on_host (Some \<circ> register_conversation_filter ''matter'' ''Matter Exchange'' Fn_MatterExchangeFilter) s;
       s \<leftarrow> on_host (Some \<circ> prefs_register ''proto_matter'' (BoolPref ''show_node_ids'' ''Show node ids''
              ''Show source and destination node ids in the packet information column'')) s;
       s \<leftarrow> on_host (Some \<circ> prefs_register ''proto_matter'' (StringPref ''matterproxy_key_hints_file'' ''MatterProxy Key Hint File''
              ''Optional text file with one key per line. Format: key=<32-hex> [session=<id>] [src=<node-id>].'')) s;
       s \<leftarrow> on_host (\<lambda>h. Some (h\<lparr>init_routines := Suc (init_routines h)\<rparr>)) s;
       let s = UserNodeIdPrefs_Init os ''proto_matter'' (UserEncryptionKeyPrefs_Init os ''proto_matter'' s);
       Some (s\<lparr>plugin_keys := KeyTable_Init\<rparr>)
     }"

definition proto_reg_handoff_matter :: "'w os_calls \<Rightarrow> 'w plugin \<Rightarrow> 'w plugin option" where
  "proto_reg_handoff_matter os s =
     do {
       s \<leftarrow> on_host (dissector_add_uint ''udp.port'' MATTER_PORT Fn_DissectMatter ''proto_matter'') s;
       s \<leftarrow> on_host (dissector_add_uint ''tcp.port'' MATTER_PORT Fn_DissectMatterTCP ''proto_matter'') s;
       let s = (if \<not> secretsRegistered s
                then s\<lparr>host_state := (host_state s)\<lparr>secrets_types := secrets_types (host_state s) @ [kSecretsTypeMatterProxyHints]\<rparr>,
                       secretsRegistered := True\<rparr>
                else s);
       Some (InitMatterDissector os s)
     }"

definition proto_register_matter_common :: "'w plugin \<Rightarrow> 'w plugin option" where
  "proto_register_matter_common = on_host (\<lambda>h.
     map_option (proto_register_arrays ''proto_MatterCommon'' (common_fields_1 @ common_fields_2) common_subtrees)
       (proto_register_protocol ''proto_MatterCommon'' ''Matter Secure Channel Protocol'' ''Matter-Common'' ''matter-common'' h))"

definition proto_reg_handoff_matter_common :: "'w plugin \<Rightarrow> 'w plugin option" where
  "proto_reg_handoff_matter_common =
     on_host (dissector_add_uint ''matter.profile_id'' kMatterProfile_Common Fn_DissectMatterCommon ''proto_MatterCommon'')"

definition proto_register_matter_echo :: "'w plugin \<Rightarrow> 'w plugin option" where
  "proto_register_matter_echo = on_host (\<lambda>h.
     map_option (proto_register_arrays ''proto_matter_echo'' echo_fields echo_subtrees)
       (proto_register_protocol ''proto_matter_echo'' ''Matter Echo Protocol'' ''Matter-Echo'' ''matter-echo'' h))"

definition proto_reg_handoff_matter_echo :: "'w plugin \<Rightarrow> 'w plugin option" where
  "proto_reg_handoff_matter_echo =
     on_host (dissector_add_uint ''matter.profile_id'' kMatterProfile_Echo Fn_DissectMatterEcho ''proto_matter_echo'')"

definition proto_register_matter_security :: "'w plugin \<Rightarrow> 'w plugin option" where
  "proto_register_matter_security = on_host (\<lambda>h.
     map_option (proto_register_arrays ''proto_matter_security'' (security_fields_1 @ security_fields_2) security_subtrees)
       (proto_register_protocol ''proto_matter_security'' ''Matter Security'' ''Matter-Security'' ''matter-security'' h))"

definition proto_reg_handoff_matter_security :: "'w plugin \<Rightarrow> 'w plugin option" where
  "proto_reg_handoff_matter_security =
     on_host (dissector_add_uint ''matter.profile_id'' kMatterProfile_Security Fn_DissectMatterSecurity ''proto_matter_security'')"

definition proto_register_matter_im :: "'w plugin \<Rightarrow> 'w plugin option" where
  "proto_register_matter_im = on_host (\<lambda>h.
     map_option (register_conversation_filter ''im'' ''Matter IM Subscription'' Fn_IMSubscriptionFilter \<circ>
         proto_register_arrays ''proto_im'' (im_fields_1 @ im_fields_2) im_subtrees)
       (proto_register_protocol ''proto_im'' ''Matter Interaction Model Protocol'' ''IM'' ''im'' h))"

definition proto_reg_handoff_matter_im :: "'w plugin \<Rightarrow> 'w plugin option" where
  "proto_reg_handoff_matter_im =
     on_host (dissector_add_uint ''matter.profile_id'' kMatterProfile_InteractionModel Fn_DissectIM ''proto_im'')"

definition proto_register_matter_udc :: "'w plugin \<Rightarrow> 'w plugin option" where
  "proto_register_matter_udc = on_host (\<lambda>h.
     map_option (proto_register_arrays ''proto_udc'' udc_fields udc_subtrees)
       (proto_register_protocol ''proto_udc'' ''Matter User Directed Commissioning Protocol'' ''UDC'' ''matter-udc'' h))"

definition proto_reg_handoff_matter_udc :: "'w plugin \<Rightarrow> 'w plugin option" where
  "proto_reg_handoff_matter_udc =
     on_host (dissector_add_uint ''matter.profile_id'' kMatterProfile_UDC Fn_DissectUDC ''proto_udc'')"

text \<open>The pairs that \<open>plugin_register\<close> gives to the host, which calls all first members and then all second ones.\<close>

definition plugin_register ::
  "'w os_calls \<Rightarrow> (('w plugin \<Rightarrow> 'w plugin option) \<times> ('w plugin \<Rightarrow> 'w plugin option)) list" where
  "plugin_register os =
     [(proto_register_matter os, proto_reg_handoff_matter os),
      (proto_register_matter_common, proto_reg_handoff_matter_common),
      (proto_register_matter_echo, proto_reg_handoff_matter_echo),
      (proto_register_matter_security, proto_reg_handoff_matter_security),
      (proto_register_matter_im, proto_reg_handoff_matter_im),
      (proto_register_matter_udc, proto_reg_handoff_matter_udc)]"

fun in_turn :: "('s \<Rightarrow> 's option) list \<Rightarrow> 's \<Rightarrow> 's option" where
  "in_turn [] s = Some s"
| "in_turn (f # fs) s = f s \<bind> in_turn fs"

definition start_plugins ::
  "(('s \<Rightarrow> 's option) \<times> ('s \<Rightarrow> 's option)) list \<Rightarrow> 's \<Rightarrow> 's option" where
  "start_plugins ps s = in_turn (map fst ps) s \<bind> in_turn (map snd ps)"

text \<open>
  The dissector of a TCP segment hands the segment to the host, which cuts it into messages with the length
  function; \<open>tcp_dissect_pdus\<close> gives the views of the messages.
\<close>

type_synonym message_cutter =
  "bool \<Rightarrow> nat \<Rightarrow> (tvbuff \<Rightarrow> nat \<Rightarrow> nat option) \<Rightarrow>
   (tvbuff \<Rightarrow> nat \<Rightarrow> matter_state \<Rightarrow> (nat \<times> view \<times> matter_state) option) \<Rightarrow>
   tvbuff \<Rightarrow> matter_state \<Rightarrow> (view list \<times> matter_state) option"

definition DissectMatterTCP ::
  "message_cutter \<Rightarrow> matter_host \<Rightarrow> packet_info \<Rightarrow> tvbuff \<Rightarrow> matter_state \<Rightarrow> (nat \<times> view list \<times> matter_state) option" where
  "DissectMatterTCP tcp_dissect_pdus host pinfo tvb s =
     map_option (\<lambda>(vs, s). (length tvb, vs, s))
       (tcp_dissect_pdus True kMatterTCPMessageLengthFieldSize GetMatterTCPMessageLength (DissectMatter host pinfo) tvb s)"

section \<open>The disclaimer is reported once\<close>

text \<open>What the start of a capture leaves alone, and how it reports.\<close>

lemma InitMatterDissector_keeps:
  "host_state (InitMatterDissector os s) = host_state s" "secretsRegistered (InitMatterDissector os s) = secretsRegistered s"
  "sKeyList (InitMatterDissector os s) = sKeyList s" "sNodeIdList (InitMatterDissector os s) = sNodeIdList s"
  "plugin_keys (InitMatterDissector os s) = plugin_keys s"
  by (simp_all add: InitMatterDissector_def DisplayInternalUseAlert_def show_alert_def Let_def split: option.splits stat_result.splits)

lemma InitMatterDissector_reports:
  "failures (InitMatterDissector os s) = failures s \<and> alertShown (InitMatterDissector os s) = alertShown s \<or>
   \<not> alertShown s \<and> alertShown (InitMatterDissector os s) \<and> failures (InitMatterDissector os s) = failures s @ [disclaimer]"
  by (simp add: InitMatterDissector_def DisplayInternalUseAlert_def show_alert_def Let_def split: option.splits stat_result.splits)

lemma captures_report:
  "(alertShown s \<longrightarrow> alertShown ((InitMatterDissector os ^^ n) s) \<and> failures ((InitMatterDissector os ^^ n) s) = failures s) \<and>
   (\<not> alertShown s \<longrightarrow> failures ((InitMatterDissector os ^^ n) s) =
     failures s @ (if alertShown ((InitMatterDissector os ^^ n) s) then [disclaimer] else []))"
proof (induction n)
  case (Suc n)
  show ?case
    using Suc InitMatterDissector_reports [of os "(InitMatterDissector os ^^ n) s"]
    by (auto split: if_splits)
qed auto

section \<open>What the host knows after the start\<close>

text \<open>A host that has the ports and does not know the plugin.\<close>

definition plugin_protocols :: "(string \<times> string \<times> string \<times> string) list" where
  "plugin_protocols =
     [(''proto_matter'', ''Matter Message Format'', ''Matter-CHIP'', ''matter-chip''),
      (''proto_MatterCommon'', ''Matter Secure Channel Protocol'', ''Matter-Common'', ''matter-common''),
      (''proto_matter_echo'', ''Matter Echo Protocol'', ''Matter-Echo'', ''matter-echo''),
      (''proto_matter_security'', ''Matter Security'', ''Matter-Security'', ''matter-security''),
      (''proto_im'', ''Matter Interaction Model Protocol'', ''IM'', ''im''),
      (''proto_udc'', ''Matter User Directed Commissioning Protocol'', ''UDC'', ''matter-udc'')]"

fun clash :: "string \<times> string \<times> string \<times> string \<Rightarrow> string \<times> string \<times> string \<times> string \<Rightarrow> bool" where
  "clash (v, n, s, f) (v', n', s', f') \<longleftrightarrow> n = n' \<or> s = s' \<or> f = f'"

definition host_ready :: "host_tables \<Rightarrow> bool" where
  "host_ready h \<longleftrightarrow> dissector_tables h ''udp.port'' \<noteq> None \<and> dissector_tables h ''tcp.port'' \<noteq> None \<and>
     dissector_tables h ''matter.profile_id'' = None \<and>
     (\<forall>p \<in> set plugin_protocols. \<forall>q \<in> set (protocols h). \<not> clash q p)"

text \<open>The payload dissector behind a function.\<close>

fun payload_dissector :: "case_crypto \<Rightarrow> im_host \<Rightarrow> tvbuff \<Rightarrow> msg_info \<Rightarrow> dissector_fn \<Rightarrow> message_dissector" where
  "payload_dissector C H tvb mi Fn_DissectMatterCommon = on_tracker (DissectMatterCommon (im_registry H) tvb mi)"
| "payload_dissector C H tvb mi Fn_DissectIM = on_view (DissectIM H tvb mi)"
| "payload_dissector C H tvb mi Fn_DissectUDC = on_view (DissectUDC (im_registry H) tvb mi)"
| "payload_dissector C H tvb mi Fn_DissectMatterEcho = on_view (DissectMatterEcho (im_registry H) tvb mi)"
| "payload_dissector C H tvb mi Fn_DissectMatterSecurity = DissectMatterSecurity C (im_registry H) tvb mi"
| "payload_dissector C H tvb mi _ = (\<lambda>vs. Some (0, vs))"

definition payload_entries :: "u32 \<Rightarrow> (dissector_fn \<times> string) option" where
  "payload_entries = map_of
     [(kMatterProfile_Common, Fn_DissectMatterCommon, ''proto_MatterCommon''),
      (kMatterProfile_Echo, Fn_DissectMatterEcho, ''proto_matter_echo''),
      (kMatterProfile_Security, Fn_DissectMatterSecurity, ''proto_matter_security''),
      (kMatterProfile_InteractionModel, Fn_DissectIM, ''proto_im''),
      (kMatterProfile_UDC, Fn_DissectUDC, ''proto_udc'')]"

lemma payload_entries_dissect:
  "dissector_try_uint C H p tvb mi vs =
    (case map_option fst (payload_entries (ucast p)) of Some f \<Rightarrow> payload_dissector C H tvb mi f vs | None \<Rightarrow> Some (0, vs))"
  unfolding dissector_try_uint_def matter_subdissector_table_def payload_entries_def
    kMatterProfile_Common_def kMatterProfile_Echo_def kMatterProfile_Security_def kMatterProfile_InteractionModel_def kMatterProfile_UDC_def
  by simp

text \<open>What one module registers: a protocol that clashes with no other, and its fields.\<close>

definition unclaimed :: "string \<times> string \<times> string \<times> string \<Rightarrow> 'w plugin \<Rightarrow> bool" where
  "unclaimed p s \<longleftrightarrow> (\<forall>q \<in> set (protocols (host_state s)). \<not> clash q p)"

definition module_added :: "string \<times> string \<times> string \<times> string \<Rightarrow> field list \<Rightarrow> 'w plugin \<Rightarrow> 'w plugin \<Rightarrow> bool" where
  "module_added p hf s s' \<longleftrightarrow> protocols (host_state s') = protocols (host_state s) @ [p] \<and>
     map snd (field_arrays (host_state s')) = map snd (field_arrays (host_state s)) @ [hf] \<and>
     secrets_types (host_state s') = secrets_types (host_state s) \<and> secretsRegistered s' = secretsRegistered s \<and>
     failures s' = failures s \<and> alertShown s' = alertShown s"

definition same_tables :: "'w plugin \<Rightarrow> 'w plugin \<Rightarrow> bool" where
  "same_tables s s' \<longleftrightarrow> dissector_tables (host_state s') = dissector_tables (host_state s) \<and> plugin_keys s' = plugin_keys s"

lemma register_unclaimed:
  "unclaimed (v, n, sh, f) s \<Longrightarrow>
     proto_register_protocol v n sh f (host_state s) = Some ((host_state s)\<lparr>protocols := protocols (host_state s) @ [(v, n, sh, f)]\<rparr>)"
  by (fastforce simp: unclaimed_def proto_register_protocol_def)

lemma unclaimed_later: "module_added p hf s s' \<Longrightarrow> unclaimed q s \<Longrightarrow> \<not> clash p q \<Longrightarrow> unclaimed q s'"
  by (auto simp: module_added_def unclaimed_def)

lemma modules_added:
  "unclaimed (''proto_MatterCommon'', ''Matter Secure Channel Protocol'', ''Matter-Common'', ''matter-common'') s \<Longrightarrow>
     \<exists>s'. proto_register_matter_common s = Some s' \<and> same_tables s s' \<and>
       module_added (''proto_MatterCommon'', ''Matter Secure Channel Protocol'', ''Matter-Common'', ''matter-common'') (common_fields_1 @ common_fields_2) s s'"
  "unclaimed (''proto_matter_echo'', ''Matter Echo Protocol'', ''Matter-Echo'', ''matter-echo'') s \<Longrightarrow>
     \<exists>s'. proto_register_matter_echo s = Some s' \<and> same_tables s s' \<and>
       module_added (''proto_matter_echo'', ''Matter Echo Protocol'', ''Matter-Echo'', ''matter-echo'') echo_fields s s'"
  "unclaimed (''proto_matter_security'', ''Matter Security'', ''Matter-Security'', ''matter-security'') s \<Longrightarrow>
     \<exists>s'. proto_register_matter_security s = Some s' \<and> same_tables s s' \<and>
       module_added (''proto_matter_security'', ''Matter Security'', ''Matter-Security'', ''matter-security'') (security_fields_1 @ security_fields_2) s s'"
  "unclaimed (''proto_im'', ''Matter Interaction Model Protocol'', ''IM'', ''im'') s \<Longrightarrow>
     \<exists>s'. proto_register_matter_im s = Some s' \<and> same_tables s s' \<and>
       module_added (''proto_im'', ''Matter Interaction Model Protocol'', ''IM'', ''im'') (im_fields_1 @ im_fields_2) s s'"
  "unclaimed (''proto_udc'', ''Matter User Directed Commissioning Protocol'', ''UDC'', ''matter-udc'') s \<Longrightarrow>
     \<exists>s'. proto_register_matter_udc s = Some s' \<and> same_tables s s' \<and>
       module_added (''proto_udc'', ''Matter User Directed Commissioning Protocol'', ''UDC'', ''matter-udc'') udc_fields s s'"
  by (simp_all add: proto_register_matter_common_def proto_register_matter_echo_def proto_register_matter_security_def
      proto_register_matter_im_def proto_register_matter_udc_def on_host_def register_unclaimed module_added_def same_tables_def
      proto_register_arrays_def register_conversation_filter_def)

lemma matter_added:
  assumes "unclaimed (''proto_matter'', ''Matter Message Format'', ''Matter-CHIP'', ''matter-chip'') s"
    and "dissector_tables (host_state s) ''matter.profile_id'' = None"
  shows "\<exists>s'. proto_register_matter os s = Some s' \<and> plugin_keys s' = KeyTable_Init \<and>
    dissector_tables (host_state s') = (dissector_tables (host_state s))(''matter.profile_id'' \<mapsto> Map.empty) \<and>
    module_added (''proto_matter'', ''Matter Message Format'', ''Matter-CHIP'', ''matter-chip'') matter_fields s s'"
  unfolding proto_register_matter_def on_host_def proto_matter_filter_name_def register_unclaimed [OF assms(1)]
  using assms(2)
  by (simp add: proto_register_arrays_def register_dissector_table_def register_conversation_filter_def prefs_register_def
      UserEncryptionKeyPrefs_Init_def UserNodeIdPrefs_Init_def Let_def module_added_def)

definition plugin_arrays :: "field list list" where
  "plugin_arrays = [matter_fields, common_fields_1 @ common_fields_2, echo_fields, security_fields_1 @ security_fields_2,
     im_fields_1 @ im_fields_2, udc_fields]"

lemma registered:
  assumes "host_ready (host_state s)"
  shows "\<exists>s'. in_turn (map fst (plugin_register os)) s = Some s' \<and>
    protocols (host_state s') = protocols (host_state s) @ plugin_protocols \<and>
    map snd (field_arrays (host_state s')) = map snd (field_arrays (host_state s)) @ plugin_arrays \<and>
    dissector_tables (host_state s') = (dissector_tables (host_state s))(''matter.profile_id'' \<mapsto> Map.empty) \<and>
    secrets_types (host_state s') = secrets_types (host_state s) \<and> secretsRegistered s' = secretsRegistered s \<and>
    failures s' = failures s \<and> alertShown s' = alertShown s \<and> plugin_keys s' = KeyTable_Init"
proof -
  have "\<forall>p \<in> set plugin_protocols. unclaimed p s" and t: "dissector_tables (host_state s) ''matter.profile_id'' = None"
    using assms by (simp_all add: host_ready_def unclaimed_def)
  then have u: "unclaimed (''proto_matter'', ''Matter Message Format'', ''Matter-CHIP'', ''matter-chip'') s"
    "unclaimed (''proto_MatterCommon'', ''Matter Secure Channel Protocol'', ''Matter-Common'', ''matter-common'') s"
    "unclaimed (''proto_matter_echo'', ''Matter Echo Protocol'', ''Matter-Echo'', ''matter-echo'') s"
    "unclaimed (''proto_matter_security'', ''Matter Security'', ''Matter-Security'', ''matter-security'') s"
    "unclaimed (''proto_im'', ''Matter Interaction Model Protocol'', ''IM'', ''im'') s"
    "unclaimed (''proto_udc'', ''Matter User Directed Commissioning Protocol'', ''UDC'', ''matter-udc'') s"
    unfolding plugin_protocols_def by simp_all
  obtain s1 where s1: "proto_register_matter os s = Some s1" "plugin_keys s1 = KeyTable_Init"
    "dissector_tables (host_state s1) = (dissector_tables (host_state s))(''matter.profile_id'' \<mapsto> Map.empty)"
    and a1: "module_added (''proto_matter'', ''Matter Message Format'', ''Matter-CHIP'', ''matter-chip'') matter_fields s s1"
    using matter_added [OF u(1) t] by blast
  note u1 = u(2-6) [THEN unclaimed_later [OF a1], simplified]
  obtain s2 where s2: "proto_register_matter_common s1 = Some s2" "same_tables s1 s2"
    and a2: "module_added (''proto_MatterCommon'', ''Matter Secure Channel Protocol'', ''Matter-Common'', ''matter-common'') (common_fields_1 @ common_fields_2) s1 s2"
    using modules_added(1) [OF u1(1)] by blast
  note u2 = u1(2-5) [THEN unclaimed_later [OF a2], simplified]
  obtain s3 where s3: "proto_register_matter_echo s2 = Some s3" "same_tables s2 s3"
    and a3: "module_added (''proto_matter_echo'', ''Matter Echo Protocol'', ''Matter-Echo'', ''matter-echo'') echo_fields s2 s3"
    using modules_added(2) [OF u2(1)] by blast
  note u3 = u2(2-4) [THEN unclaimed_later [OF a3], simplified]
  obtain s4 where s4: "proto_register_matter_security s3 = Some s4" "same_tables s3 s4"
    and a4: "module_added (''proto_matter_security'', ''Matter Security'', ''Matter-Security'', ''matter-security'') (security_fields_1 @ security_fields_2) s3 s4"
    using modules_added(3) [OF u3(1)] by blast
  note u4 = u3(2-3) [THEN unclaimed_later [OF a4], simplified]
  obtain s5 where s5: "proto_register_matter_im s4 = Some s5" "same_tables s4 s5"
    and a5: "module_added (''proto_im'', ''Matter Interaction Model Protocol'', ''IM'', ''im'') (im_fields_1 @ im_fields_2) s4 s5"
    using modules_added(4) [OF u4(1)] by blast
  note u5 = u4(2) [THEN unclaimed_later [OF a5], simplified]
  obtain s6 where s6: "proto_register_matter_udc s5 = Some s6" "same_tables s5 s6"
    and a6: "module_added (''proto_udc'', ''Matter User Directed Commissioning Protocol'', ''UDC'', ''matter-udc'') udc_fields s5 s6"
    using modules_added(5) [OF u5] by blast
  have "in_turn (map fst (plugin_register os)) s = Some s6" by (simp add: plugin_register_def s1 s2 s3 s4 s5 s6)
  then show ?thesis
    using s1 s2 s3 s4 s5 s6 a1 a2 a3 a4 a5 a6
    by (simp add: module_added_def same_tables_def plugin_protocols_def plugin_arrays_def)
qed

text \<open>What a hand-off leaves: the tables as given, and one disclaimer at most.\<close>

definition handed_over :: "(string \<Rightarrow> (u32 \<Rightarrow> (dissector_fn \<times> string) option) option) \<Rightarrow> 'w plugin \<Rightarrow> 'w plugin \<Rightarrow> bool" where
  "handed_over tabs s s' \<longleftrightarrow>
     protocols (host_state s') = protocols (host_state s) \<and> field_arrays (host_state s') = field_arrays (host_state s) \<and>
     dissector_tables (host_state s') = tabs \<and>
     secrets_types (host_state s') = secrets_types (host_state s) @ (if secretsRegistered s then [] else [kSecretsTypeMatterProxyHints]) \<and>
     secretsRegistered s' \<and> plugin_keys s' = plugin_keys s \<and>
     (failures s' = failures s \<and> alertShown s' = alertShown s \<or>
      \<not> alertShown s \<and> alertShown s' \<and> failures s' = failures s @ [disclaimer])"

lemma handed_off_matter:
  assumes "dissector_tables (host_state s) ''udp.port'' = Some U" "dissector_tables (host_state s) ''tcp.port'' = Some T"
  shows "\<exists>s'. proto_reg_handoff_matter os s = Some s' \<and>
    handed_over ((dissector_tables (host_state s))(''udp.port'' \<mapsto> U(MATTER_PORT \<mapsto> (Fn_DissectMatter, ''proto_matter'')),
      ''tcp.port'' \<mapsto> T(MATTER_PORT \<mapsto> (Fn_DissectMatterTCP, ''proto_matter'')))) s s'"
proof -
  obtain s0 where s0: "proto_reg_handoff_matter os s = Some (InitMatterDissector os s0)"
    "protocols (host_state s0) = protocols (host_state s)" "field_arrays (host_state s0) = field_arrays (host_state s)"
    "dissector_tables (host_state s0) = (dissector_tables (host_state s))(''udp.port'' \<mapsto> U(MATTER_PORT \<mapsto> (Fn_DissectMatter, ''proto_matter'')),
      ''tcp.port'' \<mapsto> T(MATTER_PORT \<mapsto> (Fn_DissectMatterTCP, ''proto_matter'')))"
    "secrets_types (host_state s0) = secrets_types (host_state s) @ (if secretsRegistered s then [] else [kSecretsTypeMatterProxyHints])"
    "secretsRegistered s0" "plugin_keys s0 = plugin_keys s" "failures s0 = failures s" "alertShown s0 = alertShown s"
    using assms by (simp add: proto_reg_handoff_matter_def on_host_def dissector_add_uint_def)
  then show ?thesis using InitMatterDissector_reports [of os s0] by (simp add: handed_over_def InitMatterDissector_keeps)
qed

lemma handed_off:
  assumes "dissector_tables (host_state s) ''udp.port'' = Some U" "dissector_tables (host_state s) ''tcp.port'' = Some T"
    and "dissector_tables (host_state s) ''matter.profile_id'' = Some Map.empty"
  shows "\<exists>s'. in_turn (map snd (plugin_register os)) s = Some s' \<and>
    handed_over ((dissector_tables (host_state s))(''udp.port'' \<mapsto> U(MATTER_PORT \<mapsto> (Fn_DissectMatter, ''proto_matter'')),
      ''tcp.port'' \<mapsto> T(MATTER_PORT \<mapsto> (Fn_DissectMatterTCP, ''proto_matter'')), ''matter.profile_id'' \<mapsto> payload_entries)) s s'"
proof -
  obtain s1 where s1: "proto_reg_handoff_matter os s = Some s1"
    "handed_over ((dissector_tables (host_state s))(''udp.port'' \<mapsto> U(MATTER_PORT \<mapsto> (Fn_DissectMatter, ''proto_matter'')),
      ''tcp.port'' \<mapsto> T(MATTER_PORT \<mapsto> (Fn_DissectMatterTCP, ''proto_matter'')))) s s1"
    using handed_off_matter [OF assms(1,2)] by blast
  have entries: "[kMatterProfile_Common \<mapsto> (Fn_DissectMatterCommon, ''proto_MatterCommon''),
      kMatterProfile_Echo \<mapsto> (Fn_DissectMatterEcho, ''proto_matter_echo''),
      kMatterProfile_Security \<mapsto> (Fn_DissectMatterSecurity, ''proto_matter_security''),
      kMatterProfile_InteractionModel \<mapsto> (Fn_DissectIM, ''proto_im''), kMatterProfile_UDC \<mapsto> (Fn_DissectUDC, ''proto_udc'')] = payload_entries"
    unfolding payload_entries_def kMatterProfile_Common_def kMatterProfile_Echo_def kMatterProfile_Security_def
      kMatterProfile_InteractionModel_def kMatterProfile_UDC_def by (auto simp: fun_eq_iff)
  show ?thesis
    using s1 assms(3) entries
    by (simp add: handed_over_def plugin_register_def proto_reg_handoff_matter_common_def proto_reg_handoff_matter_echo_def
        proto_reg_handoff_matter_security_def proto_reg_handoff_matter_im_def proto_reg_handoff_matter_udc_def on_host_def dissector_add_uint_def)
qed

text \<open>Handing over before anything is registered fails: the table of payload dissectors is not there.\<close>

lemma handed_off_early:
  assumes "dissector_tables (host_state s) ''matter.profile_id'' = None"
  shows "in_turn (map snd (plugin_register os)) s = None"
  using assms
  by (auto simp: plugin_register_def proto_reg_handoff_matter_def proto_reg_handoff_matter_common_def on_host_def
      dissector_add_uint_def InitMatterDissector_keeps bind_eq_None_conv split: if_splits)

lemma all_arrays: "set (concat plugin_arrays) = set all_fields"
  by (auto simp: plugin_arrays_def all_fields_def sub_fields_def)

theorem started:
  assumes "host_ready (host_state s)"
  shows "\<exists>s' U T. start_plugins (plugin_register os) s = Some s' \<and>
    dissector_tables (host_state s) ''udp.port'' = Some U \<and> dissector_tables (host_state s) ''tcp.port'' = Some T \<and>
    dissector_tables (host_state s') = (dissector_tables (host_state s))(''udp.port'' \<mapsto> U(MATTER_PORT \<mapsto> (Fn_DissectMatter, ''proto_matter'')),
      ''tcp.port'' \<mapsto> T(MATTER_PORT \<mapsto> (Fn_DissectMatterTCP, ''proto_matter'')), ''matter.profile_id'' \<mapsto> payload_entries) \<and>
    map snd (field_arrays (host_state s')) = map snd (field_arrays (host_state s)) @ plugin_arrays \<and>
    protocols (host_state s') = protocols (host_state s) @ plugin_protocols \<and> plugin_keys s' = KeyTable_Init \<and>
    (failures s' = failures s \<and> alertShown s' = alertShown s \<or>
     \<not> alertShown s \<and> alertShown s' \<and> failures s' = failures s @ [disclaimer])"
proof -
  obtain U T where ports: "dissector_tables (host_state s) ''udp.port'' = Some U" "dissector_tables (host_state s) ''tcp.port'' = Some T"
    using assms by (auto simp: host_ready_def)
  obtain s1 where s1: "in_turn (map fst (plugin_register os)) s = Some s1"
    "protocols (host_state s1) = protocols (host_state s) @ plugin_protocols"
    "map snd (field_arrays (host_state s1)) = map snd (field_arrays (host_state s)) @ plugin_arrays"
    "dissector_tables (host_state s1) = (dissector_tables (host_state s))(''matter.profile_id'' \<mapsto> Map.empty)"
    "failures s1 = failures s" "alertShown s1 = alertShown s" "plugin_keys s1 = KeyTable_Init"
    using registered [OF assms] by blast
  have "\<exists>s'. in_turn (map snd (plugin_register os)) s1 = Some s' \<and> handed_over ((dissector_tables (host_state s1))(''udp.port'' \<mapsto> U(MATTER_PORT \<mapsto> (Fn_DissectMatter, ''proto_matter'')),
      ''tcp.port'' \<mapsto> T(MATTER_PORT \<mapsto> (Fn_DissectMatterTCP, ''proto_matter'')), ''matter.profile_id'' \<mapsto> payload_entries)) s1 s'"
    by (rule handed_off) (simp_all add: s1 ports)
  then show ?thesis using s1 ports unfolding start_plugins_def handed_over_def by (fastforce simp: fun_eq_iff)
qed

end
