(* ===== verification/IM_Layout.thy ===== *)
theory IM_Layout
  imports Protocol_IM Sub_Layout
begin

text \<open>
  What a read or a subscribe request looks like: the lines of an encoded request, path by path, with the identifiers
  and their names; and why a write request is not shown behind its list.
\<close>

section \<open>Paths\<close>

definition context_leaf :: "tlv \<Rightarrow> bool" where
  "context_leaf e \<longleftrightarrow> (case e of Leaf (TContext n) ty v bs \<Rightarrow> True | _ \<Rightarrow> False)"

text \<open>An unsigned integer with a context tag.\<close>

definition uint_leaf :: "tlv \<Rightarrow> (byte \<times> u64) option" where
  "uint_leaf e =
     (case e of Leaf (TContext n) ty v bs \<Rightarrow> if 4 \<le> uint ty \<and> uint ty \<le> 7 then Some (n, v) else None | _ \<Rightarrow> None)"

definition path_step :: "(u32 \<Rightarrow> u32 \<Rightarrow> path_ids \<Rightarrow> path_ids) \<Rightarrow> tlv \<Rightarrow> path_ids \<Rightarrow> path_ids" where
  "path_step take_id e ids = (case uint_leaf e of Some (n, v) \<Rightarrow> take_id (ucast n) (ucast v) ids | None \<Rightarrow> ids)"

definition path_ids_of :: "(u32 \<Rightarrow> u32 \<Rightarrow> path_ids \<Rightarrow> path_ids) \<Rightarrow> tlv \<Rightarrow> path_ids" where
  "path_ids_of take_id e =
     (case e of Node t ty es \<Rightarrow> fold (path_step take_id) es no_ids | Leaf t ty v bs \<Rightarrow> no_ids)"

text \<open>A path or a structure of values, with an identifier among them.\<close>

definition path_node :: "PathKind \<Rightarrow> tlv \<Rightarrow> bool" where
  "path_node kind e \<longleftrightarrow>
     (case e of Node t ty es \<Rightarrow> (ty = 0x15 \<or> ty = 0x17) \<and> (\<forall>x \<in> set es. context_leaf x) | Leaf t ty v bs \<Rightarrow> False) \<and>
     path_ids_of (take_first_id kind) e \<noteq> no_ids"

definition path_shown :: "im_host \<Rightarrow> PathKind \<Rightarrow> proto_tree \<Rightarrow> tlv \<Rightarrow> shown" where
  "path_shown H kind tree e s =
     [item_at tree (im_hf H ''DataElem_PropertyPath'')
       (AddStringFormatValue (path_text H (path_label kind) (path_item_name H kind) (path_ids_of (take_first_id kind) e))) e s]"

lemma kind_of_uint: "kind_of ty = kTLVType_UnsignedInteger \<longleftrightarrow> 4 \<le> uint ty \<and> uint ty \<le> 7"
  by (auto simp: kind_of_def Let_def)

lemma on_elem_uint:
  assumes on: "on_elem d (Leaf t ty v bs) p" and "4 \<le> uint ty" "uint ty \<le> 7"
  shows "Get_u64 d x = (MATTER_NO_ERROR, v)"
proof -
  have "ElementType d = uint ty" "mElemLenOrVal d = v" using on by (simp_all add: on_elem_def)
  moreover have "uint ty \<in> {4, 5, 6, 7}" using assms(2,3) by auto
  ultimately show ?thesis by (auto simp: Get_u64_def Let_def)
qed

text \<open>One element of a path, and the path.\<close>

lemma path_elem_prints:
  assumes "context_leaf e"
  shows "prints_with (path_elem take_id) e ids (path_step take_id e ids) (\<lambda>_. [])"
  unfolding prints_with_def
proof (intro allI impI, elim conjE)
  fix d p assume on: "on_elem d e p"
  obtain n ty v bs where e: "e = Leaf (TContext n) ty v bs"
    using assms by (auto simp: context_leaf_def split: tlv.splits tlv_tag.splits)
  have inv: "dissector_inv d" using on by (simp add: on_elem_def)
  have tag: "GetTag d = ContextTag n" using on_elem_tag [OF on] e by simp
  have ty: "GetType d = kTLVType_UnsignedInteger \<longleftrightarrow> 4 \<le> uint ty \<and> uint ty \<le> 7"
    using on_elem_type [OF on] kind_of_uint [of ty] e by simp
  have "path_elem take_id (ids, d) = Some (MATTER_NO_ERROR, path_step take_id e ids, d)"
  proof (cases "4 \<le> uint ty \<and> uint ty \<le> 7")
    case True
    then have "Get_u64 d 0 = (MATTER_NO_ERROR, v)" using on_elem_uint on e by blast
    then show ?thesis using True tag ty e by (simp add: path_elem_def path_step_def uint_leaf_def)
  next
    case False
    then show ?thesis using tag ty e by (auto simp: path_elem_def path_step_def uint_leaf_def)
  qed
  then show "\<exists>d'. path_elem take_id (ids, d) = Some (MATTER_NO_ERROR, path_step take_id e ids, d') \<and> keeps d d' \<and>
      behind d' p \<and> same_config d d' \<and> trace d' = trace d @ []"
    using keeps_refl [OF inv] on_elem_leaf_behind on e by auto
qed

lemma all_shown_nothing: "all_shown step (\<lambda>_ _ _. []) es l s = []"
  by (induction es arbitrary: l s) simp_all

lemma prints_path:
  assumes E: "memory_ok (im_env H)" and e: "path_node kind e"
  shows "prints (AddNamedPathItem H kind tree) e (path_shown H kind tree e)"
  unfolding prints_def
proof (intro allI impI, elim conjE)
  fix d p assume on: "on_elem d e p"
  obtain t ty es where n: "e = Node t ty es" "ty = 0x15 \<or> ty = 0x17" "\<forall>x \<in> set es. context_leaf x"
    and ids: "path_ids_of (take_first_id kind) e \<noteq> no_ids"
    using e by (auto simp: path_node_def split: tlv.splits)
  let ?ids = "path_ids_of (take_first_id kind) e"
  obtain d' where d': "in_container (im_env H) (path_elem (take_first_id kind)) (no_ids, d) = Some (MATTER_NO_ERROR, ?ids, d')"
    "keeps d d'" "behind d' p" "same_config d d'" "mElemStart d' = mElemStart d" "mElemLen d' = mElemLen d" "trace d' = trace d"
    using in_container_prints [of d t ty es p "im_env H" "path_elem (take_first_id kind)" "path_step (take_first_id kind)"
        "\<lambda>_ _ _. []" no_ids] on E n(1,3) path_elem_prints
    by (auto simp: path_ids_of_def all_shown_nothing)
  have T: "GetType d = kTLVType_Path \<or> GetType d = kTLVType_Structure"
    using on_elem_type [OF on] n(1,2) by (auto simp: kind_of_def)
  let ?line = "AddStringFormatValue (path_text H (path_label kind) (path_item_name H kind) ?ids)"
  let ?d = "add_item tree (im_hf H ''DataElem_PropertyPath'') ?line d'"
  have "AddNamedPathItem H kind tree d = Some (MATTER_NO_ERROR, ?d)"
    using T d'(1) ids
    by (simp add: AddNamedPathItem_def path_members_def show_path_def text_item_def AddStringItemF_def VerifyOrExit_def)
  moreover have "trace ?d = trace d @ path_shown H kind tree e (place_of d e p)"
    using add_item_line [of d' "unat (mMaxLen d) - length (encode e @ p)" "length (encode e)" tree "im_hf H ''DataElem_PropertyPath''" ?line]
      on d'(4-7) by (simp add: on_elem_def path_shown_def item_at_def same_config_def)
  ultimately show "prints_on (AddNamedPathItem H kind tree) e p (path_shown H kind tree e) d"
    using d'(2-4) by (simp add: prints_on_def)
qed

section \<open>Filters\<close>

text \<open>A line of text for a leaf, and the generic form of anything else.\<close>

definition text_shown :: "im_host \<Rightarrow> string \<Rightarrow> proto_tree \<Rightarrow> string \<Rightarrow> tlv \<Rightarrow> shown" where
  "text_shown H hf_var tree msg e s = [item_at tree (im_hf H hf_var) (AddStringFormatValue msg) e s]"

definition generic_shown :: "im_host \<Rightarrow> string \<Rightarrow> proto_tree \<Rightarrow> tlv \<Rightarrow> shown" where
  "generic_shown H hf_var tree e s =
     layout (im_env H) tree (im_hf H hf_var) (pl_base s) (pl_imp s) False False 0 (pl_start s) e"

lemma prints_generic_shown:
  assumes "memory_ok (im_env H)" and "elem_tag e = TContext n"
  shows "prints (generic (im_registry H) hf_var False tree) e (generic_shown H hf_var tree e)"
  using prints_generic [OF assms, of hf_var tree] by (simp add: generic_shown_def [abs_def])

lemma prints_unknown:
  assumes "memory_ok (im_env H)" and "elem_tag e = TContext n"
  shows "prints (unknown H tree) e (generic_shown H ''ImCommon_Unknown'' tree e)"
  unfolding unknown_def by (rule prints_generic_shown [OF assms])

lemma prints_cong:
  assumes "prints h e f" and "\<And>d p. on_elem d e p \<Longrightarrow> h' d = h d"
  shows "prints h' e f"
  using assms by (auto simp: prints_def prints_on_def)

lemma prints_text:
  "prints (text_item H hf_var tree msg) (Leaf t ty v bs) (text_shown H hf_var tree msg (Leaf t ty v bs))"
  using prints_line [of t ty v bs "text_item H hf_var tree msg" tree "im_hf H hf_var" "AddStringFormatValue msg"]
  by (simp add: text_shown_def [abs_def] text_item_def AddStringItemF_def)

definition event_filter_shown :: "im_host \<Rightarrow> proto_tree \<Rightarrow> tlv \<Rightarrow> shown" where
  "event_filter_shown H tree e =
     (case uint_leaf e of
        Some (n, v) \<Rightarrow>
          if n = 0 then text_shown H ''ImCommon_Unknown'' tree (''Node=0x'' @ hex_upper 1 (unat v)) e
          else if n = 1 then text_shown H ''ImCommon_Unknown'' tree (''EventMin=0x'' @ hex_upper 1 (unat v)) e
          else generic_shown H ''ImCommon_Unknown'' tree e
      | None \<Rightarrow> generic_shown H ''ImCommon_Unknown'' tree e)"

lemma uint_leaf_Some:
  "uint_leaf e = Some (n, v) \<longleftrightarrow> (\<exists>ty bs. e = Leaf (TContext n) ty v bs \<and> 4 \<le> uint ty \<and> uint ty \<le> 7)"
  by (auto simp: uint_leaf_def split: tlv.splits tlv_tag.splits)

lemma uint_leaf_on:
  assumes "on_elem d e p" and "elem_tag e = TContext n"
  shows "GetType d = kTLVType_UnsignedInteger \<longleftrightarrow> uint_leaf e \<noteq> None"
proof (cases e)
  case (Leaf t ty v bs)
  then show ?thesis using on_elem_type [OF assms(1)] assms(2) kind_of_uint [of ty] by (simp add: uint_leaf_def)
next
  case (Node t ty es)
  have "TLVTypeIsContainer ty" using assms(1) Node by (simp add: on_elem_def)
  then show ?thesis using on_elem_type [OF assms(1)] Node by (auto simp: kind_of_container uint_leaf_def TLVTypeIsContainer_def)
qed

lemma tag_number:
  fixes n :: byte
  shows "(ucast n :: u32) = 0 \<longleftrightarrow> n = 0" "(ucast n :: u32) = 1 \<longleftrightarrow> n = 1"
proof -
  have "unat n < 2 ^ 32" using unsigned_less [of n, where ?'a = nat] by simp
  then have "unat (ucast n :: u32) = unat n" by (simp add: unsigned_ucast_eq take_bit_nat_eq_self)
  then show "(ucast n :: u32) = 0 \<longleftrightarrow> n = 0" "(ucast n :: u32) = 1 \<longleftrightarrow> n = 1" by (simp_all add: word_unat_eq_iff)
qed

lemma prints_event_filter_member:
  assumes E: "memory_ok (im_env H)" and t: "elem_tag e = TContext n"
  shows "prints (event_filter_member H tree) e (event_filter_shown H tree e)"
proof (cases "uint_leaf e")
  case None
  show ?thesis
    by (rule prints_cong [of "unknown H tree"])
      (use prints_unknown [OF assms] None uint_leaf_on [OF _ t] in \<open>auto simp: event_filter_shown_def event_filter_member_def\<close>)
next
  case (Some nv)
  obtain m v where nv: "nv = (m, v)" by fastforce
  obtain ty bs where e: "e = Leaf (TContext m) ty v bs" "4 \<le> uint ty" "uint ty \<le> 7"
    using Some nv by (auto simp: uint_leaf_Some)
  have m: "m = n" using e t by simp
  let ?h = "if n = 0 then text_item H ''ImCommon_Unknown'' tree (''Node=0x'' @ hex_upper 1 (unat v))
      else if n = 1 then text_item H ''ImCommon_Unknown'' tree (''EventMin=0x'' @ hex_upper 1 (unat v)) else unknown H tree"
  have "prints ?h e (event_filter_shown H tree e)"
    using Some nv m prints_unknown [OF assms, of tree] e(1) by (auto simp: event_filter_shown_def intro: prints_text)
  then show ?thesis
  proof (rule prints_cong)
    fix d p assume on: "on_elem d e p"
    have "GetTag d = ContextTag n" using on_elem_tag [OF on] t by simp
    moreover have "GetType d = kTLVType_UnsignedInteger" using uint_leaf_on [OF on t] Some by simp
    moreover have "Get_u64 d 0 = (MATTER_NO_ERROR, v)" using on_elem_uint on e by blast
    ultimately show "event_filter_member H tree d = ?h d"
      by (simp add: event_filter_member_def tag_switch_def tag_number)
  qed
qed

text \<open>A filter: a structure whose members have context tags.\<close>

definition context_node :: "tlv \<Rightarrow> bool" where
  "context_node e \<longleftrightarrow> (case e of Node t ty es \<Rightarrow> ty = 0x15 \<and> (\<forall>x \<in> set es. \<exists>n. elem_tag x = TContext n) | Leaf t ty v bs \<Rightarrow> False)"

definition filter_shown :: "im_host \<Rightarrow> (proto_tree \<Rightarrow> tlv \<Rightarrow> shown) \<Rightarrow> proto_tree \<Rightarrow> tlv \<Rightarrow> shown" where
  "filter_shown H member tree e = subtree_shown tree (im_hf H ''ImCommon_Unknown'') (im_ett H ''DataElem'') member e"

lemma prints_filter:
  assumes E: "memory_ok (im_env H)" and e: "e = Node t 0x15 es"
    and m: "\<And>sub x. x \<in> set es \<Longrightarrow> prints (h sub) x (f sub x)"
  shows "prints (of_types [kTLVType_Structure] (im_subtree H ''ImCommon_Unknown'' ''DataElem'' h tree)) e (filter_shown H f tree e)"
  unfolding filter_shown_def e
  by (rule prints_of_types [OF prints_subtree_members [OF E m]]) (simp_all add: kind_of_def)

lemma prints_event_filter:
  assumes E: "memory_ok (im_env H)" and e: "context_node e"
  shows "prints (AddEventFilterIBItem H tree) e (filter_shown H (event_filter_shown H) tree e)"
proof -
  obtain t es where n: "e = Node t 0x15 es" "\<forall>x \<in> set es. \<exists>n. elem_tag x = TContext n"
    using e by (auto simp: context_node_def split: tlv.splits)
  show ?thesis unfolding AddEventFilterIBItem_def
    by (rule prints_filter [OF E n(1)]) (use n(2) prints_event_filter_member [OF E] in blast)
qed

text \<open>The cluster path of a version filter has to be one; its version is an unsigned integer or shown as it is.\<close>

definition version_filter_shown :: "im_host \<Rightarrow> proto_tree \<Rightarrow> tlv \<Rightarrow> shown" where
  "version_filter_shown H tree e =
     (if elem_tag e = TContext 0 then path_shown H Cluster tree e
      else case uint_leaf e of
        Some (n, v) \<Rightarrow>
          if n = 1 then text_shown H ''ImCommon_Unknown'' tree (''DataVersion='' @ dec (unat v)) e
          else generic_shown H ''ImCommon_Unknown'' tree e
      | None \<Rightarrow> generic_shown H ''ImCommon_Unknown'' tree e)"

lemma prints_or_else: "prints m e f \<Longrightarrow> prints (\<lambda>d. or_else (m d) h) e f"
  by (fastforce simp: prints_def prints_on_def or_else_def)

lemma prints_version_filter_member:
  assumes E: "memory_ok (im_env H)" and t: "elem_tag e = TContext n" and path: "n = 0 \<Longrightarrow> path_node Cluster e"
  shows "prints (data_version_filter_member H tree) e (version_filter_shown H tree e)"
proof -
  let ?uint = "uint_line H ''ImCommon_Unknown'' (\<lambda>v. ''DataVersion='' @ dec (unat v)) tree"
  have tag: "GetTag d = ContextTag n" if "on_elem d e p" for d p using on_elem_tag [OF that] t by simp
  consider "n = 0" | "n = 1" | "n \<noteq> 0" "n \<noteq> 1" by blast
  then show ?thesis
  proof cases
    case 1
    have "prints (\<lambda>d. or_else (AddNamedPathItem H Cluster tree d) (unknown H tree)) e (version_filter_shown H tree e)"
      using prints_or_else [OF prints_path [OF E path [OF 1]]] t 1 by (simp add: version_filter_shown_def)
    then show ?thesis
      by (rule prints_cong)
        (use tag 1 in \<open>simp add: data_version_filter_member_def context_or_unknown_def tag_switch_def AddClusterPathItem_def\<close>)
  next
    case 2
    have "prints ?uint e (version_filter_shown H tree e)"
    proof (cases "uint_leaf e")
      case None
      have "prints (unknown H tree) e (version_filter_shown H tree e)"
        using prints_unknown [OF E t, of tree] None t 2 by (simp add: version_filter_shown_def)
      then show ?thesis
        by (rule prints_cong) (use uint_leaf_on [OF _ t] None in \<open>auto simp: uint_line_def split: prod.splits\<close>)
    next
      case (Some nv)
      obtain m v where nv: "nv = (m, v)" by fastforce
      obtain ty bs where e: "e = Leaf (TContext m) ty v bs" "4 \<le> uint ty" "uint ty \<le> 7" using Some nv by (auto simp: uint_leaf_Some)
      have "m = 1" using e(1) t 2 by simp
      then have "prints (text_item H ''ImCommon_Unknown'' tree (''DataVersion='' @ dec (unat v))) e (version_filter_shown H tree e)"
        using Some nv e(1) t 2 by (auto simp: version_filter_shown_def intro: prints_text)
      then show ?thesis
      proof (rule prints_cong)
        fix d p assume on: "on_elem d e p"
        have "GetType d = kTLVType_UnsignedInteger" using uint_leaf_on [OF on t] Some by simp
        moreover have "Get_u64 d 0 = (MATTER_NO_ERROR, v)" using on_elem_uint on e by blast
        ultimately show "?uint d = text_item H ''ImCommon_Unknown'' tree (''DataVersion='' @ dec (unat v)) d"
          by (simp add: uint_line_def)
      qed
    qed
    then show ?thesis
      by (rule prints_cong) (use tag 2 in \<open>simp add: data_version_filter_member_def context_or_unknown_def tag_switch_def\<close>)
  next
    case 3
    have "prints (unknown H tree) e (version_filter_shown H tree e)"
      using prints_unknown [OF E t, of tree] t 3 by (auto simp: version_filter_shown_def uint_leaf_Some split: option.split)
    then show ?thesis
      by (rule prints_cong) (use tag 3 tag_number [of n] in \<open>simp add: data_version_filter_member_def context_or_unknown_def tag_switch_def\<close>)
  qed
qed

definition version_filter :: "tlv \<Rightarrow> bool" where
  "version_filter e \<longleftrightarrow> context_node e \<and>
     (case e of Node t ty es \<Rightarrow> \<forall>x \<in> set es. elem_tag x = TContext 0 \<longrightarrow> path_node Cluster x | Leaf t ty v bs \<Rightarrow> False)"

lemma prints_version_filter:
  assumes E: "memory_ok (im_env H)" and e: "version_filter e"
  shows "prints (AddDataVersionFilterIBItem H tree) e (filter_shown H (version_filter_shown H) tree e)"
proof -
  obtain t es where n: "e = Node t 0x15 es" "\<forall>x \<in> set es. \<exists>n. elem_tag x = TContext n"
    and path: "\<And>x. x \<in> set es \<Longrightarrow> elem_tag x = TContext 0 \<Longrightarrow> path_node Cluster x"
    using e by (auto simp: version_filter_def context_node_def split: tlv.splits)
  show ?thesis unfolding AddDataVersionFilterIBItem_def
    by (rule prints_filter [OF E n(1)]) (use n(2) path prints_version_filter_member [OF E] in blast)
qed

section \<open>Requests\<close>

text \<open>
  A request is specified by two tables: the members that are lists, with the field and subtree they are shown under,
  the lines of an element and what an element has to be; and the fields of all members.
\<close>

datatype list_member = ListMember (lm_hf: string) (lm_ett: string) (lm_shown: "proto_tree \<Rightarrow> tlv \<Rightarrow> shown") (lm_ok: "tlv \<Rightarrow> bool")

definition read_lists :: "im_host \<Rightarrow> (u32 \<times> list_member) list" where
  "read_lists H =
     [(0, ListMember ''ReadRequest_AttributeRequests'' ''SubscribeRequest_PathList'' (path_shown H Attribute) (path_node Attribute)),
      (1, ListMember ''ReadRequest_EventRequests'' ''SubscribeRequest_PathList'' (path_shown H Event) (path_node Event)),
      (2, ListMember ''ReadRequest_EventFilters'' ''DataElem'' (filter_shown H (event_filter_shown H)) context_node),
      (4, ListMember ''ReadRequest_DataVersionFilters'' ''DataElem'' (filter_shown H (version_filter_shown H)) version_filter)]"

definition read_fields :: "(u32 \<times> string) list" where
  "read_fields =
     [(0, ''ReadRequest_AttributeRequests''), (1, ''ReadRequest_EventRequests''), (2, ''ReadRequest_EventFilters''),
      (3, ''ReadRequest_IsFabricFiltered''), (4, ''ReadRequest_DataVersionFilters''), (0xFF, ''ImCommon_Version'')]"

definition subscribe_lists :: "im_host \<Rightarrow> (u32 \<times> list_member) list" where
  "subscribe_lists H =
     [(3, ListMember ''SubscribeRequest_AttributeRequests'' ''SubscribeRequest_PathList'' (path_shown H Attribute) (path_node Attribute)),
      (4, ListMember ''SubscribeRequest_EventRequests'' ''SubscribeRequest_PathList'' (path_shown H Event) (path_node Event)),
      (5, ListMember ''SubscribeRequest_EventFilters'' ''DataElem'' (filter_shown H (event_filter_shown H)) context_node),
      (8, ListMember ''SubscribeRequest_DataVersionFilters'' ''DataElem'' (filter_shown H (version_filter_shown H)) version_filter)]"

definition subscribe_fields :: "(u32 \<times> string) list" where
  "subscribe_fields =
     [(0, ''SubscribeRequest_KeepSubscriptions''), (1, ''SubscribeRequest_MinIntervalFloor''),
      (2, ''SubscribeRequest_MaxIntervalCeiling''), (3, ''SubscribeRequest_AttributeRequests''),
      (4, ''SubscribeRequest_EventRequests''), (5, ''SubscribeRequest_EventFilters''),
      (7, ''SubscribeRequest_IsFabricFiltered''), (8, ''SubscribeRequest_DataVersionFilters''), (0xFF, ''ImCommon_Version'')]"

definition list_elements :: "tlv \<Rightarrow> tlv list option" where
  "list_elements e =
     (case e of Node t ty es \<Rightarrow> if ty = 0x16 \<or> ty = 0x17 then Some es else None | Leaf t ty v bs \<Rightarrow> None)"

definition tag_number_of :: "tlv \<Rightarrow> u32" where
  "tag_number_of e = (case elem_tag e of TContext n \<Rightarrow> ucast n | _ \<Rightarrow> 0)"

text \<open>The list member that an element is.\<close>

definition as_list :: "(u32 \<times> list_member) list \<Rightarrow> tlv \<Rightarrow> list_member option" where
  "as_list ls e = (if list_elements e = None then None else map_of ls (tag_number_of e))"

definition member_ok :: "(u32 \<times> list_member) list \<Rightarrow> tlv \<Rightarrow> bool" where
  "member_ok ls e \<longleftrightarrow> (\<exists>n. elem_tag e = TContext n) \<and>
     (\<forall>m. as_list ls e = Some m \<longrightarrow> (\<forall>x \<in> set (the (list_elements e)). lm_ok m x))"

definition member_shown :: "im_host \<Rightarrow> (u32 \<times> list_member) list \<Rightarrow> (u32 \<times> string) list \<Rightarrow> proto_tree \<Rightarrow> tlv \<Rightarrow> shown" where
  "member_shown H ls fs tree e =
     (case as_list ls e of
        Some m \<Rightarrow> list_shown tree (im_hf H (lm_hf m)) (im_ett H (lm_ett m)) (lm_shown m) e
      | None \<Rightarrow> generic_shown H (case map_of fs (tag_number_of e) of Some hf \<Rightarrow> hf | None \<Rightarrow> ''ImCommon_Unknown'') tree e)"

lemma prints_entry:
  assumes "memory_ok (im_env H)" and "elem_tag e = TContext n" and "im_hf H hf \<noteq> - 1"
  shows "prints (entry H hf tree) e (generic_shown H hf tree e)"
  by (rule prints_cong [OF prints_generic_shown [OF assms(1,2)]]) (use assms(3) in \<open>simp add: entry_def\<close>)

lemma list_elements_on: "on_elem d e p \<Longrightarrow> GetType d = kTLVType_Array \<or> GetType d = kTLVType_Path \<longleftrightarrow> list_elements e \<noteq> None"
proof -
  assume on: "on_elem d e p"
  have wf: "wf_tlv (ImplicitProfileId d) (mContainerType d) e" using on by (simp add: on_elem_def)
  show ?thesis
  proof (cases e)
    case (Leaf t ty v bs)
    then have "uint ty \<le> 20" using elem_type_cases [OF wf] wf by simp
    then show ?thesis using on_elem_type [OF on] Leaf by (auto simp: list_elements_def kind_of_def Let_def)
  next
    case (Node t ty es)
    have "TLVTypeIsContainer ty" using wf Node by simp
    then show ?thesis using on_elem_type [OF on] Node
      by (auto simp: kind_of_container list_elements_def word_uint_eq_iff)
  qed
qed

lemma prints_list_entry:
  assumes E: "memory_ok (im_env H)" and t: "elem_tag e = TContext n" and hf: "im_hf H hf \<noteq> - 1"
    and h: "\<And>sub es x. list_elements e = Some es \<Longrightarrow> x \<in> set es \<Longrightarrow> prints (h sub) x (f sub x)"
  shows "prints (list_entry H hf ett h tree) e
    (if list_elements e = None then generic_shown H hf tree e else list_shown tree (im_hf H hf) (im_ett H ett) f e)"
proof (cases "list_elements e")
  case None
  have "prints (list_entry H hf ett h tree) e (generic_shown H hf tree e)"
    by (rule prints_cong [OF prints_entry [OF E t hf]]) (use list_elements_on None in \<open>simp add: list_entry_def\<close>)
  then show ?thesis using None by simp
next
  case (Some es)
  then obtain t ty where e: "e = Node t ty es" "ty = 0x16 \<or> ty = 0x17"
    by (auto simp: list_elements_def split: tlv.splits if_splits)
  have "prints (list_entry H hf ett h tree) e (list_shown tree (im_hf H hf) (im_ett H ett) f e)"
    unfolding e(1)
  proof (rule prints_cong [OF prints_AddListItem [OF E e(2) h [OF Some]]])
    fix d p assume "on_elem d (Node t ty es) p"
    from list_elements_on [OF this] Some e(1)
    show "list_entry H hf ett h tree d = AddListItem (im_env H) tree (im_hf H hf) (im_ett H ett) h d"
      by (simp add: list_entry_def)
  qed
  then show ?thesis using Some by simp
qed

text \<open>A member that can be a list, and one that cannot.\<close>

lemma prints_list_member:
  assumes E: "memory_ok (im_env H)" and hf: "\<And>v. im_hf H v \<noteq> - 1" and ok: "member_ok ls e"
    and m: "map_of ls (tag_number_of e) = Some (ListMember v ett f P)" "map_of fs (tag_number_of e) = Some v"
    and h: "\<And>sub x. P x \<Longrightarrow> prints (h sub) x (f sub x)"
  shows "prints (list_entry H v ett h tree) e (member_shown H ls fs tree e)"
proof -
  obtain n where t: "elem_tag e = TContext n" using ok by (auto simp: member_ok_def)
  have "prints (h sub) x (f sub x)" if "list_elements e = Some es" "x \<in> set es" for sub es x
    using ok h that m(1) by (auto simp: member_ok_def as_list_def)
  from prints_list_entry [OF E t hf this] show ?thesis
    using m by (cases "list_elements e") (simp_all add: member_shown_def as_list_def)
qed

lemma prints_plain_member:
  assumes E: "memory_ok (im_env H)" and hf: "\<And>v. im_hf H v \<noteq> - 1" and ok: "member_ok ls e"
    and m: "map_of ls (tag_number_of e) = None"
      "(case map_of fs (tag_number_of e) of Some v \<Rightarrow> v | None \<Rightarrow> ''ImCommon_Unknown'') = v"
  shows "prints (entry H v tree) e (member_shown H ls fs tree e)"
proof -
  obtain n where t: "elem_tag e = TContext n" using ok by (auto simp: member_ok_def)
  show ?thesis using prints_entry [OF E t hf, of v tree] m by (simp add: member_shown_def as_list_def)
qed

lemma prints_member_switch:
  assumes ok: "member_ok ls e"
    and "prints (case map_of cases (tag_number_of e) of Some h \<Rightarrow> h | None \<Rightarrow> dflt) e f"
  shows "prints (context_switch cases dflt) e f"
proof -
  obtain n where t: "elem_tag e = TContext n" using ok by (auto simp: member_ok_def)
  show ?thesis by (rule prints_context_switch [OF t]) (use assms(2) t in \<open>simp add: tag_number_of_def\<close>)
qed

lemma prints_read_member:
  assumes E: "memory_ok (im_env H)" and hf: "\<And>v. im_hf H v \<noteq> - 1" and ok: "member_ok (read_lists H) e"
  shows "prints (read_request_member H tree) e (member_shown H (read_lists H) read_fields tree e)"
proof -
  note list = prints_list_member [OF E hf ok] and plain = prints_plain_member [OF E hf ok]
  note paths = list [where h = "AddNamedPathItem H kind" and f = "path_shown H kind" and P = "path_node kind" for kind,
      OF _ _ prints_path [OF E]]
  note events = list [OF _ _ prints_event_filter [OF E]] and versions = list [OF _ _ prints_version_filter [OF E]]
  consider "tag_number_of e = 0" | "tag_number_of e = 1" | "tag_number_of e = 2" | "tag_number_of e = 3" | "tag_number_of e = 4"
    | "tag_number_of e = 0xFF" | "tag_number_of e \<notin> {0, 1, 2, 3, 4, 0xFF}" by blast
  then show ?thesis
    unfolding read_request_member_def
    unfolding AddAttributePathItem_def AddEventPathItem_def
    by (intro prints_member_switch [OF ok], cases)
      (simp add: tag_numbers, rule paths events versions plain; simp add: read_lists_def read_fields_def)+
qed

lemma prints_subscribe_member:
  assumes E: "memory_ok (im_env H)" and hf: "\<And>v. im_hf H v \<noteq> - 1" and ok: "member_ok (subscribe_lists H) e"
  shows "prints (subscribe_request_member H tree) e (member_shown H (subscribe_lists H) subscribe_fields tree e)"
proof -
  note list = prints_list_member [OF E hf ok] and plain = prints_plain_member [OF E hf ok]
  note paths = list [where h = "AddNamedPathItem H kind" and f = "path_shown H kind" and P = "path_node kind" for kind,
      OF _ _ prints_path [OF E]]
  note events = list [OF _ _ prints_event_filter [OF E]] and versions = list [OF _ _ prints_version_filter [OF E]]
  consider "tag_number_of e = 0" | "tag_number_of e = 1" | "tag_number_of e = 2" | "tag_number_of e = 3" | "tag_number_of e = 4"
    | "tag_number_of e = 5" | "tag_number_of e = 7" | "tag_number_of e = 8"
    | "tag_number_of e = 0xFF" | "tag_number_of e \<notin> {0, 1, 2, 3, 4, 5, 7, 8, 0xFF}" by blast
  then show ?thesis
    unfolding subscribe_request_member_def
    unfolding AddAttributePathItem_def AddEventPathItem_def
    by (intro prints_member_switch [OF ok], cases)
      (simp add: tag_numbers, rule paths events versions plain; simp add: subscribe_lists_def subscribe_fields_def)+
qed

text \<open>A message whose members are shown.\<close>

lemma im_message_lines:
  assumes E: "memory_ok (im_env H)" and wf: "wf_tlv kProfileIdNotSpecified kTLVType_NotSpecified (Node TAnonymous 0x15 es)"
    and len: "unat (mi_payloadLen mi) = length (encode (Node TAnonymous 0x15 es))"
    and m: "\<And>e. e \<in> set es \<Longrightarrow> prints (member tree) e (f e)"
  shows "im_message H (encode (Node TAnonymous 0x15 es)) mi title member tree v =
    Some (int (unat (mi_payloadLen mi)), v\<lparr>view_calls := view_calls v @ ProtoAppendText tree title #
      members_shown f (Node TAnonymous 0x15 es) (first_place 0 kProfileIdNotSpecified (append_text tree title v))\<rparr>)"
proof -
  let ?e = "Node TAnonymous 0x15 es" and ?v = "append_text tree title v"
  have l: "length ([] @ encode ?e) < 65536" using len unsigned_less [of "mi_payloadLen mi", where ?'a = nat] by simp
  have h: "prints_on (members (im_registry H) (member tree)) ?e [] (members_shown f ?e) d" if "on_elem d ?e []" for d
    using members_prints_on [OF that E m] by (simp add: members_shown_def [abs_def])
  have "run_tlv (im_registry H) kProfileIdNotSpecified ([] @ encode ?e @ []) (length []) (length [] + length (encode ?e))
      (\<lambda>d. SuccessOrExit (Dissector_Next_expect kTLVType_Structure AnonymousTag d) (members (im_registry H) (member tree))) ?v =
    Some (MATTER_NO_ERROR, ?v\<lparr>view_calls := view_calls ?v @ members_shown f ?e (first_place (of_nat (length [])) kProfileIdNotSpecified ?v)\<rparr>)"
    using run_tlv_prints [OF wf l, where nxt = "Dissector_Next_expect kTLVType_Structure AnonymousTag"
          and h = "members (im_registry H) (member tree)" and f = "members_shown f ?e" and R = "im_registry H" and post = "[]" and v = ?v] h
    by (simp add: kind_of_def)
  then show ?thesis by (simp add: im_message_def len append_text_def add_call_def)
qed

theorem read_request_lines:
  assumes "memory_ok (im_env H)" and "\<And>v. im_hf H v \<noteq> - 1"
    and "wf_tlv kProfileIdNotSpecified kTLVType_NotSpecified (Node TAnonymous 0x15 es)"
    and "\<And>e. e \<in> set es \<Longrightarrow> member_ok (read_lists H) e"
    and "unat (mi_payloadLen mi) = length (encode (Node TAnonymous 0x15 es))"
  shows "DissectIMReadRequest H (encode (Node TAnonymous 0x15 es)) mi tree v =
    Some (int (unat (mi_payloadLen mi)), v\<lparr>view_calls := view_calls v @ ProtoAppendText tree '': Read Request'' #
      members_shown (member_shown H (read_lists H) read_fields tree) (Node TAnonymous 0x15 es)
        (first_place 0 kProfileIdNotSpecified (append_text tree '': Read Request'' v))\<rparr>)"
  unfolding DissectIMReadRequest_def
  by (rule im_message_lines [OF assms(1,3,5) prints_read_member [OF assms(1,2,4)]])

theorem subscribe_request_lines:
  assumes "memory_ok (im_env H)" and "\<And>v. im_hf H v \<noteq> - 1"
    and "wf_tlv kProfileIdNotSpecified kTLVType_NotSpecified (Node TAnonymous 0x15 es)"
    and "\<And>e. e \<in> set es \<Longrightarrow> member_ok (subscribe_lists H) e"
    and "unat (mi_payloadLen mi) = length (encode (Node TAnonymous 0x15 es))"
  shows "DissectIMSubscribeRequest H (encode (Node TAnonymous 0x15 es)) mi tree v =
    Some (int (unat (mi_payloadLen mi)), v\<lparr>view_calls := view_calls v @ ProtoAppendText tree '': Subscribe Request'' #
      members_shown (member_shown H (subscribe_lists H) subscribe_fields tree) (Node TAnonymous 0x15 es)
        (first_place 0 kProfileIdNotSpecified (append_text tree '': Subscribe Request'' v))\<rparr>)"
  unfolding DissectIMSubscribeRequest_def
  by (rule im_message_lines [OF assms(1,3,5) prints_subscribe_member [OF assms(1,2,4)]])

section \<open>Write requests and responses\<close>

text \<open>
  Behind a list the generic printer is called on no element, which is an error, so nothing is shown of the members that follow.
\<close>

lemma cleared_type [simp]: "GetType (ClearElementState d) = kTLVType_NotSpecified"
  by (simp add: GetType_def ClearElementState_def ElementType_def)

lemma Dissector_ExitContainer_clears:
  "Dissector_ExitContainer d = Some (MATTER_NO_ERROR, d') \<Longrightarrow> GetType d' = kTLVType_NotSpecified"
  by (auto simp: Dissector_ExitContainer_def ExitContainer_def SuccessOrExit_eq_Some split: option.splits)

lemma GetType_emit [simp]: "GetType (d\<lparr>trace := t\<rparr>) = GetType (d :: dissector)"
  by (simp add: GetType_def ElementType_def)

lemma AddListItem_clears:
  assumes "AddListItem E tree hf ett h d = Some (MATTER_NO_ERROR, d')"
  shows "GetType d' = kTLVType_NotSpecified"
proof -
  have in_c: "GetType d2 = kTLVType_NotSpecified" if "in_container E b s = Some (MATTER_NO_ERROR, l, d2)"
    for b :: "u32 \<times> dissector \<Rightarrow> (u32 \<times> dissector) result" and s l d2
    using that by (auto simp: in_container_def with_locals_def SuccessOrExit_eq_Some dest: Dissector_ExitContainer_clears [simplified])
  show ?thesis
    using assms
    by (auto simp: AddListItem_def VerifyOrExit_def Let_def emit_def dest!: in_c [simplified] split: if_splits option.splits prod.splits)
qed

lemma generic_without_element:
  assumes "GetType d = kTLVType_NotSpecified" and "AddGenericTLVItem E tree hf st d = Some (err, d')"
  shows "err \<noteq> MATTER_NO_ERROR"
  using assms
  by (auto simp: AddGenericTLVItem_def AddGenericTLV_run.simps [of E tree hf "GItem st False 0" d] GenericValue_def Let_def
      split: option.splits)

lemma unguarded_list_fails:
  assumes "GetType d = kTLVType_Array \<or> GetType d = kTLVType_Path"
    and "unguarded_list_entry H hf ett h tree d = Some (err, d')"
  shows "err \<noteq> MATTER_NO_ERROR"
  using assms
  by (auto simp: unguarded_list_entry_def SuccessOrExit_eq_Some dest!: AddListItem_clears [simplified]
      dest: generic_without_element [simplified])

theorem write_list_fails:
  assumes "IsContextTag (GetTag d)" and "GetType d = kTLVType_Array \<or> GetType d = kTLVType_Path"
  shows "TagNumFromTag (GetTag d) = WriteRequest_kTag_WriteRequests \<Longrightarrow>
      write_request_member H tree d = Some (err, d') \<Longrightarrow> err \<noteq> MATTER_NO_ERROR"
    and "TagNumFromTag (GetTag d) = WriteResponse_kTag_WriteResponses \<Longrightarrow>
      write_response_member H tree d = Some (err, d') \<Longrightarrow> err \<noteq> MATTER_NO_ERROR"
  using assms unguarded_list_fails [OF assms(2)]
  by (auto simp: write_request_member_def write_response_member_def context_switch_def tag_switch_def tag_numbers)

end
