(* ===== verification/IM_Values_Inv.thy ===== *)
theory IM_Values_Inv
  imports IM_Values
begin

text \<open>
  \<open>AddNamedCommandValue\<close> calls itself through the decoders of certificates and declarations. It is defined by levels; here it
  is shown to satisfy the equation of the code, because the names that lead to other names end after four levels.
\<close>

text \<open>Names that no decoder is behind.\<close>

definition plain_name :: "string \<Rightarrow> bool" where
  "plain_name n \<longleftrightarrow> n \<noteq> ''CertificationDeclaration'' \<and> \<not> IsMatterCertificateLikeFieldName n \<and>
     n \<noteq> ''AttestationElements'' \<and> n \<noteq> ''NOCSRElements''"

lemma starts_with_set: "starts_with p s \<Longrightarrow> set p \<subseteq> set s"
  by (induction p s rule: starts_with.induct) auto

lemma contains_set: "contains p s \<Longrightarrow> set p \<subseteq> set s"
  by (induction s) (use starts_with_set in fastforce)+

lemma digit_lower_in: "d < 10 \<Longrightarrow> digit_lower d \<in> set ''0123456789abcdef''"
  unfolding digit_lower_def by (rule nth_mem) simp

lemma set_dec: "(\<And>d. d < 10 \<Longrightarrow> digit_lower d \<in> S) \<Longrightarrow> set (dec n) \<subseteq> S"
  using digits_bound [of 10 _ n] by (auto simp: dec_def)

lemma digits_no_letter: "CHR ''C'' \<notin> set (dec n)"
  by (rule contra_subsetD [OF set_dec [OF digit_lower_in]], assumption) simp

lemma plain_without_C:
  assumes "CHR ''C'' \<notin> set n" and "n \<noteq> ''AttestationElements''"
  shows "plain_name n"
proof -
  have no: "CHR ''C'' \<in> set m \<Longrightarrow> n \<noteq> m" for m using assms(1) by blast
  have "CHR ''C'' \<in> set ''Certificate''" by simp
  then have "\<not> contains ''Certificate'' n" using assms(1) contains_set subsetD by blast
  moreover have "n \<noteq> ''CertificationDeclaration''" "n \<noteq> ''NOCSRElements''" "n \<noteq> ''NOCValue''"
    "n \<noteq> ''ICACValue''" "n \<noteq> ''RCACValue''"
    by (rule no, simp)+
  ultimately show ?thesis using assms(2) unfolding plain_name_def IsMatterCertificateLikeFieldName_def by simp
qed

lemma plain_names [simp]:
  "plain_name ''SerialNumber''" "plain_name ''SignatureAlgorithm''" "plain_name ''NotBefore''" "plain_name ''NotAfter''"
  "plain_name ''PublicKeyAlgorithm''" "plain_name ''EllipticCurveIdentifier''" "plain_name ''PublicKey''"
  "plain_name ''Signature''" "plain_name ''r''" "plain_name ''s''" "plain_name ''IsCA''" "plain_name ''PathLenConstraint''"
  "plain_name ''BasicConstraints''" "plain_name ''KeyUsage''" "plain_name ''ExtendedKeyUsage''"
  "plain_name ''AuthorityKeyIdentifier''" "plain_name ''SubjectKeyIdentifier''"
  "plain_name ''AttestationNonce''" "plain_name ''Timestamp''" "plain_name ''FirmwareInfo''"
  "plain_name ''CSR''" "plain_name ''CSRNonce''" "plain_name ''VendorReserved1''" "plain_name ''VendorReserved2''"
  "plain_name ''VendorReserved3''" "plain_name ''FormatVersion''" "plain_name ''VendorId''" "plain_name ''ProductIds''"
  "plain_name ''DeviceTypeId''" "plain_name ''SecurityLevel''" "plain_name ''SecurityInformation''"
  "plain_name ''VersionNumber''" "plain_name ''CertificationType''" "plain_name ''DACOriginVendorId''"
  "plain_name ''DACOriginProductId''" "plain_name ''AuthorizedPAAList''"
  by code_simp+

lemma dn_names_plain: "list_all (\<lambda>e. plain_name (snd e)) dn_attr_names"
  by code_simp

lemma plain_dn_name [simp]: "plain_name (dn_attr_name t)"
proof (cases "GetCertDNAttrNameForIM t")
  case None
  have "CHR ''C'' \<notin> set (snprintf 32 (''DNAttr_'' @ dec (unat t)))"
    using digits_no_letter [of "unat t"] by (auto simp: snprintf_def dest!: in_set_takeD)
  moreover have "snprintf 32 (''DNAttr_'' @ dec (unat t)) \<noteq> ''AttestationElements''" by (simp add: snprintf_def)
  ultimately show ?thesis using None by (simp add: dn_attr_name_def plain_without_C)
next
  case (Some n)
  have "\<forall>(t, n) \<in> set dn_attr_names. plain_name n" using dn_names_plain by (simp add: list_all_iff case_prod_beta)
  then have "plain_name n" using map_of_SomeD [OF Some [unfolded GetCertDNAttrNameForIM_def]] by blast
  then show ?thesis using Some by (simp add: dn_attr_name_def)
qed

section \<open>Levels of names\<close>

text \<open>The next call of a printer is looked at only under the names that the decoder passes on.\<close>

lemma named_value_step_plain: "plain_name n \<Longrightarrow> named_value_step H F n = named_value_step H G n"
  by (intro ext) (simp add: named_value_step_def plain_name_def Let_def cong del: SuccessOrExit_weak_cong cong: if_cong)

lemma certificate_member_cong:
  assumes "\<And>n. plain_name n \<Longrightarrow> F n = G n"
  shows "certificate_member H F = certificate_member H G"
proof -
  have "certificate_dn_member H F = certificate_dn_member H G"
    by (intro ext) (simp add: certificate_dn_member_def assms)
  moreover have "ecdsa_signature_member H F = ecdsa_signature_member H G"
    by (intro ext) (simp add: ecdsa_signature_member_def assms)
  moreover have "basic_constraints_member H F = basic_constraints_member H G"
    by (intro ext) (simp add: basic_constraints_member_def assms)
  then have "certificate_extension H F = certificate_extension H G"
  proof -
    have "AddMatterCertKeyUsage H F = AddMatterCertKeyUsage H G"
      by (intro ext) (simp add: AddMatterCertKeyUsage_def assms)
    then show ?thesis using \<open>basic_constraints_member H F = basic_constraints_member H G\<close>
      by (intro ext) (simp add: certificate_extension_def assms cong: if_cong)
  qed
  moreover have "AddMatterCertEnumOrRaw H F n = AddMatterCertEnumOrRaw H G n" if "plain_name n" for n
    by (intro ext) (simp add: AddMatterCertEnumOrRaw_def assms [OF that])
  ultimately show ?thesis
    by (intro ext) (simp add: certificate_member_def AddDecodedMatterCertificateDN_def
      AddDecodedMatterECDSASignature_def AddDecodedMatterCertificateExtensions_def assms cong: if_cong)
qed

lemma decode_bytes_certificate:
  assumes "\<And>n. plain_name n \<Longrightarrow> F n = G n" and "IsMatterCertificateLikeFieldName n \<or> n = ''NOCSRElements''"
  shows "decode_bytes H F n = decode_bytes H G n"
proof -
  have "nocsr_element H F = nocsr_element H G"
    by (intro ext) (simp add: nocsr_element_def nocsr_csr_def assms(1))
  moreover have "\<not> IsMatterCertificateLikeFieldName ''NOCSRElements''" by code_simp
  moreover have "n \<noteq> ''CertificationDeclaration'' \<and> n \<noteq> ''AttestationElements''"
    using assms(2) by (auto simp: IsMatterCertificateLikeFieldName_def)
  moreover have "AddDecodedMatterCertificate H F = AddDecodedMatterCertificate H G"
    by (intro ext) (simp only: AddDecodedMatterCertificate_def certificate_member_cong [of F G H, OF assms(1)])
  moreover from calculation have "AddDecodedNOCSRElements H F = AddDecodedNOCSRElements H G"
    by (intro ext) (simp only: AddDecodedNOCSRElements_def)
  ultimately show ?thesis
    by (intro ext) (simp only: decode_bytes_def if_False simp_thms)
qed

lemma decode_bytes_declaration:
  assumes "\<And>n. plain_name n \<Longrightarrow> F n = G n" and "F ''CertificateId'' = G ''CertificateId''"
  shows "decode_bytes H F ''CertificationDeclaration'' = decode_bytes H G ''CertificationDeclaration''"
proof -
  have "\<forall>(t, n) \<in> set cd_names. F n = G n"
    by (simp add: cd_names_def assms)
  then have names: "map_of cd_names t = Some n \<Longrightarrow> F n = G n" for t n by (auto dest: map_of_SomeD)
  have "cd_certification_type H F = cd_certification_type H G"
    by (intro ext) (simp only: cd_certification_type_def assms(1) [of "''CertificationType''", simplified])
  then have "cd_element H F = cd_element H G"
    by (intro ext) (simp add: cd_element_def Let_def names split: option.split)
  then have "AddDecodedCertificationDeclarationTLV H F = AddDecodedCertificationDeclarationTLV H G"
    by (intro ext) (simp only: AddDecodedCertificationDeclarationTLV_def)
  then have "AddDecodedCertificationDeclarationCMS H F = AddDecodedCertificationDeclarationCMS H G"
    by (intro ext) (simp only: AddDecodedCertificationDeclarationCMS_def)
  then show ?thesis by (intro ext) (simp add: decode_bytes_def Let_def)
qed

lemma decode_bytes_attestation:
  assumes "\<And>n. plain_name n \<Longrightarrow> F n = G n" and "F ''CertificationDeclaration'' = G ''CertificationDeclaration''"
  shows "decode_bytes H F ''AttestationElements'' = decode_bytes H G ''AttestationElements''"
proof -
  have "attestation_element H F = attestation_element H G"
    by (intro ext) (simp add: attestation_element_def assms cong: if_cong)
  moreover have "\<not> IsMatterCertificateLikeFieldName ''AttestationElements''" by code_simp
  ultimately show ?thesis
    by (intro ext) (simp add: decode_bytes_def AddDecodedAttestationElements_def Let_def)
qed

lemma named_value_step_cong:
  "decode_bytes H F n = decode_bytes H G n \<Longrightarrow> named_value_step H F n = named_value_step H G n"
  by (intro ext) (simp only: named_value_step_def)

text \<open>How many levels a name needs.\<close>

lemma named_value_levels:
  "plain_name n \<Longrightarrow> named_value (Suc j) H n = named_value (Suc k) H n"
  "IsMatterCertificateLikeFieldName n \<or> n = ''NOCSRElements'' \<Longrightarrow>
     named_value (Suc (Suc j)) H n = named_value (Suc (Suc k)) H n"
  "named_value (Suc (Suc (Suc j))) H ''CertificationDeclaration'' = named_value (Suc (Suc (Suc k))) H ''CertificationDeclaration''"
  "named_value (Suc (Suc (Suc (Suc j)))) H ''AttestationElements'' =
     named_value (Suc (Suc (Suc (Suc k)))) H ''AttestationElements''"
proof -
  have 1: "named_value (Suc j) H n = named_value (Suc k) H n" if "plain_name n" for n j k
    using named_value_step_plain [OF that] by simp
  have 2: "named_value (Suc (Suc j)) H n = named_value (Suc (Suc k)) H n"
    if "IsMatterCertificateLikeFieldName n \<or> n = ''NOCSRElements''" for n j k
    unfolding named_value.simps(2) [of "Suc _"]
    by (rule named_value_step_cong, rule decode_bytes_certificate [OF _ that], erule 1)
  have c: "IsMatterCertificateLikeFieldName ''CertificateId''" by code_simp
  have 3: "named_value (Suc (Suc (Suc j))) H ''CertificationDeclaration'' =
      named_value (Suc (Suc (Suc k))) H ''CertificationDeclaration''" for j k
    unfolding named_value.simps(2) [of "Suc (Suc _)"]
    by (rule named_value_step_cong, rule decode_bytes_declaration, erule 1, rule 2) (simp add: c)
  have 4: "named_value (Suc (Suc (Suc (Suc j)))) H ''AttestationElements'' =
      named_value (Suc (Suc (Suc (Suc k)))) H ''AttestationElements''"
    unfolding named_value.simps(2) [of "Suc (Suc (Suc _))"]
    by (rule named_value_step_cong, rule decode_bytes_attestation, erule 1, rule 3)
  show "plain_name n \<Longrightarrow> named_value (Suc j) H n = named_value (Suc k) H n"
    "IsMatterCertificateLikeFieldName n \<or> n = ''NOCSRElements'' \<Longrightarrow>
     named_value (Suc (Suc j)) H n = named_value (Suc (Suc k)) H n"
    "named_value (Suc (Suc (Suc j))) H ''CertificationDeclaration'' = named_value (Suc (Suc (Suc k))) H ''CertificationDeclaration''"
    "named_value (Suc (Suc (Suc (Suc j)))) H ''AttestationElements'' =
     named_value (Suc (Suc (Suc (Suc k)))) H ''AttestationElements''"
    by (rule 1 2 3 4, assumption?)+
qed

lemma named_value_enough: "named_value (Suc (Suc (Suc (Suc k)))) H = AddNamedCommandValue H"
proof (rule ext)
  fix n
  have "plain_name n \<or> (IsMatterCertificateLikeFieldName n \<or> n = ''NOCSRElements'') \<or>
      n = ''CertificationDeclaration'' \<or> n = ''AttestationElements''"
    by (auto simp: plain_name_def)
  then have "named_value (Suc (Suc (Suc (Suc k)))) H n = named_value (Suc (Suc (Suc (Suc 0)))) H n"
    using named_value_levels(1) [of n "Suc (Suc (Suc k))" H "Suc (Suc (Suc 0))"]
      named_value_levels(2) [of n "Suc (Suc k)" H "Suc (Suc 0)"]
      named_value_levels(3) [of "Suc k" H "Suc 0"] named_value_levels(4) [of k H 0]
    by metis
  then show "named_value (Suc (Suc (Suc (Suc k)))) H n = AddNamedCommandValue H n"
    by (simp add: AddNamedCommandValue_def eval_nat_numeral)
qed

theorem AddNamedCommandValue_unfold: "AddNamedCommandValue H = named_value_step H (AddNamedCommandValue H)"
  using named_value_enough [of 1 H] named_value_enough [of 0 H]
  by (simp add: AddNamedCommandValue_def eval_nat_numeral)

end
