(* ===== verification/Capture_Inv.thy ===== *)
theory Capture_Inv
  imports Protocol_Table Security_Exchange
begin

text \<open>
  What holds of the program's state at every point of a capture: the lists of the tracker, the key table, the hints and
  the objects of CASE exchanges are sound, whatever the packets are. The events of a capture are a step relation; the
  dissectors of the protocols are the ones of the table.
\<close>

section \<open>Records\<close>

text \<open>
  The notes that the dissectors of the protocols make on a record: the object of its CASE exchange, which is there, and
  the subscription, which no dissector ever sets to another number than 0.
\<close>

definition notes_ok :: "nat \<Rightarrow> msg_record \<Rightarrow> bool" where
  "notes_ok n r \<longleftrightarrow> imSubscription r = 0 \<and> (\<forall>c. caseExchangeRec r = Some c \<longrightarrow> c < n)"

definition records_ok :: "nat \<Rightarrow> tracker \<Rightarrow> bool" where
  "records_ok n t \<longleftrightarrow> (\<forall>r \<in> set (records t). notes_ok n r)"

lemma notes_ok_fields [simp]:
  "notes_ok n (r\<lparr>nextByMsgCntr := x\<rparr>) = notes_ok n r" "notes_ok n (r\<lparr>prevByMsgCntr := x\<rparr>) = notes_ok n r"
  "notes_ok n (r\<lparr>nextByExchange := x\<rparr>) = notes_ok n r" "notes_ok n (r\<lparr>prevByExchange := x\<rparr>) = notes_ok n r"
  "notes_ok n (r\<lparr>ackedByMsgRec := x\<rparr>) = notes_ok n r" "notes_ok n (r\<lparr>frameNum := f\<rparr>) = notes_ok n r"
  "notes_ok n (r\<lparr>isInitiator := b\<rparr>) = notes_ok n r" "notes_ok n (r\<lparr>fingerprint := f\<rparr>) = notes_ok n r"
  "notes_ok n zero_record"
  by (simp_all add: notes_ok_def zero_record_def)

lemma notes_ok_mono: "notes_ok n r \<Longrightarrow> n \<le> m \<Longrightarrow> notes_ok m r"
  by (auto simp: notes_ok_def)

lemma records_ok_nth: "records_ok n t \<Longrightarrow> i < length (records t) \<Longrightarrow> notes_ok n (records t ! i)"
  by (simp add: records_ok_def)

lemma records_ok_update:
  assumes "records_ok n t" and "\<And>r. notes_ok n r \<Longrightarrow> notes_ok n (f r)"
  shows "records_ok n (update_record i f t)"
proof (cases "i < length (records t)")
  case True
  then show ?thesis
    using assms set_update_subset_insert [of "records t" i "f (records t ! i)"]
    by (auto simp: records_ok_def update_record_def)
next
  case False
  then show ?thesis using assms(1) by (simp add: update_record_def list_update_beyond)
qed

lemma records_ok_tables [simp]:
  "records_ok n (tree_insert tb k i t) = records_ok n t" "records_ok n (InitTables t) = records_ok n t"
  "records_ok n (t\<lparr>proto_data := p\<rparr>) = records_ok n t"
  by (simp_all add: records_ok_def tree_insert_def)

lemma FindOrCreate_records_ok:
  assumes "FindOrCreateMessageRecord crc32 crc32_seed tvb pinfo mi t = Some (i, t')" and "records_ok n t"
  shows "records_ok n t'"
proof -
  have link: "records_ok n t2"
    if "AddMessageToMessageIdTable a b c d e f g t1 = Some t2" "records_ok n t1" for a b c d e f g t1 t2
    using that by (auto simp: AddMessageToMessageIdTable_def Let_def intro!: records_ok_update split: option.splits prod.splits)
  have link': "records_ok n t2" if "AddMessageToExchangeTable a b c g t1 = Some t2" "records_ok n t1" for a b c g t1 t2
    using that by (auto simp: AddMessageToExchangeTable_def Let_def intro!: records_ok_update split: option.splits)
  have new: "records_ok n (t'\<lparr>records := records t @ [r]\<rparr>)" if "records_ok n t" "notes_ok n r" for t t' r
    using that by (auto simp: records_ok_def)
  show ?thesis
    using assms
    by (auto simp: FindOrCreateMessageRecord_def Let_def dest!: link link' intro!: new split: option.splits)
qed

lemma same_but_acks_records_ok:
  assumes "same_but_acks (records t) recs" and "records_ok n t"
  shows "records_ok n (t\<lparr>records := recs\<rparr>)"
proof -
  have "notes_ok n (recs ! x)" if "x < length recs" for x
  proof -
    obtain a where "recs ! x = (records t ! x)\<lparr>ackedByMsgRec := a\<rparr>" using assms(1) unfolding same_but_acks_def by blast
    moreover have "notes_ok n (records t ! x)" using assms that by (simp add: same_but_acks_def records_ok_nth)
    ultimately show ?thesis by simp
  qed
  then show ?thesis by (auto simp: records_ok_def in_set_conv_nth)
qed

text \<open>A note changes no link.\<close>

lemma tracked_note:
  assumes "tracked t M X" and "\<And>r. nextByMsgCntr (f r) = nextByMsgCntr r \<and> prevByMsgCntr (f r) = prevByMsgCntr r \<and>
      nextByExchange (f r) = nextByExchange r \<and> prevByExchange (f r) = prevByExchange r"
  shows "tracked (update_record i f t) M X"
proof -
  have same: "g ((records t)[i := f (records t ! i)] ! x) = g (records t ! x)"
    if "\<And>r. g (f r) = g r" for g :: "msg_record \<Rightarrow> rec_id option" and x
    using that by (cases "i < length (records t)"; cases "x = i") (simp_all add: list_update_beyond)
  let ?recs = "(records t)[i := f (records t ! i)]"
  have "by_cntr.lists_ok (records t) (message_table t) M" "by_exchange.lists_ok (records t) (exchange_table t) X"
    using assms(1) by (simp_all add: tracked_def tracker_inv_def)
  then have "by_cntr.lists_ok ?recs (message_table t) M" "by_exchange.lists_ok ?recs (exchange_table t) X"
    using assms(2) by (simp_all add: by_cntr.lists_cong by_exchange.lists_cong same)
  then have "tracker_inv (update_record i f t) M X"
    using assms(1) by (simp add: tracker_inv_def tracked_def update_record_def)
  then show ?thesis using assms(1) by (simp add: tracked_def update_record_def)
qed

section \<open>Keys\<close>

lemma search_user_key:
  "search_user attempt m nodes keys buf = Some (Some k, buf') \<Longrightarrow> \<forall>k \<in> set keys. key_ok k \<Longrightarrow> key_ok k"
proof (induction keys arbitrary: buf)
  case (Cons k0 keys)
  then show ?case
    by (auto simp: Let_def key_ok_def split: option.splits prod.splits if_splits)
qed simp

lemma search_hints_key:
  "search_hints attempt m hints buf = Some (Some k, buf') \<Longrightarrow>
    \<forall>h \<in> set hints. length (hint_key_bytes h) = 16 \<Longrightarrow> key_ok k"
proof (induction hints arbitrary: buf)
  case (Cons h hints)
  then show ?case
    by (auto simp: Let_def intro: hint_enc_key_ok split: option.splits prod.splits if_splits)
qed simp

lemma AddKey_inv: "AddKey k T = Some (keys, T') \<Longrightarrow> key_table_inv T \<Longrightarrow> key_ok k \<Longrightarrow> key_table_inv T'"
  by (rule AddKey_finds [of T k]) auto

text \<open>Whatever is found, keys and hints stay sound.\<close>

lemma TryDecryptMessage_keeps:
  assumes "TryDecryptMessage env tvb off mi (h, T) = Some (plain, h', T')"
    and "env_ok env" and "hints_ok h" and "key_table_inv T"
  shows "hints_ok h' \<and> key_table_inv T'"
proof (cases "MessageIsEncrypted mi")
  case False
  then show ?thesis using assms by (simp add: TryDecryptMessage_def)
next
  case True
  obtain h1 T1 where r: "RefreshMatterProxyHintKeys (env_fs env) (pref_MatterProxyKeyHintFile env) (h, T) = Some (h1, T1)"
    and ok: "hints_ok h1" "key_table_inv T1"
    using RefreshMatterProxyHintKeys_spec [OF assms(4), of h "env_fs env" "pref_MatterProxyKeyHintFile env"] assms(3)
    unfolding hints_ok_def set_append by (metis Un_iff)
  have user: "\<forall>k \<in> set (user_keys env). key_ok k" using assms(2) by (simp add: env_ok_def)
  have k2: "key_ok k"
    if "search_hints attempt mi (HintKeysFromFile g @ HintKeysFromDSB g) buf = Some (Some k, buf')" "hints_ok g" for attempt g buf k buf'
    by (rule search_hints_key [OF that(1)]) (use that(2) in \<open>simp add: hints_ok_def\<close>)
  have under: "key_ok (k\<lparr>keyId := i\<rparr>) = key_ok k" for k i by (simp add: key_ok_def)
  have k1: "key_ok (k\<lparr>keyId := mi_sessionId mi\<rparr>)"
    if "search_user attempt mi nodes (user_keys env) buf = Some (Some k, buf')" for attempt nodes buf k buf'
    unfolding under by (rule search_user_key [OF that user])
  show ?thesis
    using assms(1) True ok
    by (auto simp: TryDecryptMessage_def r Let_def split: option.splits prod.splits bool.splits
        dest!: k1 dest: k2 AddKey_inv)
qed

section \<open>The state\<close>

definition state_ok :: "matter_state \<Rightarrow> bool" where
  "state_ok s \<longleftrightarrow> (\<exists>M X. tracked (ms_tracker s) M X) \<and> records_ok (length (ms_cases s)) (ms_tracker s) \<and>
     (\<forall>c \<in> set (ms_cases s). case_inv c) \<and> key_table_inv (ms_keys s) \<and> hints_ok (ms_hints s)"

lemma attach_case_ok: "state_ok s \<Longrightarrow> c < length (ms_cases s) \<Longrightarrow> state_ok (attach_case i c s)"
  by (auto simp: state_ok_def attach_case_def notes_ok_def intro!: records_ok_update tracked_note exI)

lemma update_case_ok: "state_ok s \<Longrightarrow> case_inv (f (ms_cases s ! c)) \<Longrightarrow> state_ok (update_case c f s)"
  using set_update_subset_insert [of "ms_cases s" c "f (ms_cases s ! c)"]
  by (auto simp: state_ok_def update_case_def)

lemma state_ok_case: "state_ok s \<Longrightarrow> c < length (ms_cases s) \<Longrightarrow> case_inv (ms_cases s ! c)"
  by (simp add: state_ok_def)

lemma FindCASEExchangeRecord_index:
  assumes "FindCASEExchangeRecord recs p = Some found"
  shows "\<forall>r \<in> set recs. notes_ok n r \<Longrightarrow> found = Some c \<Longrightarrow> c < n"
proof (induction rule: FindCASEExchangeRecord.raw_induct [OF _ assms])
  case (1 rec recs p found)
  then show ?case
    by (auto simp: notes_ok_def split: option.splits if_splits)
qed

lemma FindCASE_ok:
  assumes "state_ok s" and "FindCASEExchangeRecord (records (ms_tracker s)) p = Some (Some c)"
  shows "c < length (ms_cases s)"
  by (rule FindCASEExchangeRecord_index [OF assms(2) _ refl]) (use assms(1) in \<open>simp add: state_ok_def records_ok_def\<close>)

section \<open>CASE exchanges\<close>

lemma ComputeCASEMessageHash_length:
  assumes "ComputeCASEMessageHash C tvb n config buf = Some h"
  shows "length h = length buf"
  using assms by (auto simp: ComputeCASEMessageHash_def Let_def bind_eq_Some_conv split: if_splits)

lemma tvb_memdup_length: "tvb_memdup tvb off (int n) = Some bs \<Longrightarrow> length bs = n"
  by (auto simp: tvb_memdup_def load_bytes_def split: if_splits)

lemma record_request_ok:
  assumes "record_request C tvb i ty config curve sid off len n s = Some s'" and "state_ok s"
  shows "state_ok s'"
proof -
  have new: "state_ok (attach_case i (length (ms_cases s)) (s\<lparr>ms_cases := ms_cases s @ [c]\<rparr>))" if "case_inv c" for c
    by (rule attach_case_ok) (use assms(2) that in \<open>auto simp: state_ok_def records_ok_def intro: notes_ok_mono\<close>)
  show ?thesis
    using assms
    by (auto simp: record_request_def Let_def bind_eq_Some_conv case_inv_def zero_case_def
        dest!: ComputeCASEMessageHash_length tvb_memdup_length intro!: new split: if_splits)
qed

lemma record_response_ok:
  assumes C: "case_crypto_works C" and r: "record_response C tvb i off len n s = Some s'" and s: "state_ok s"
  shows "state_ok s'"
proof -
  have "state_ok ((update_case c (\<lambda>_. r2) (attach_case i c s))\<lparr>ms_keys := T\<rparr>)"
    if c: "FindCASEExchangeRecord (records (ms_tracker s)) (Some i) = Some (Some c)"
      and k: "tvb_memdup tvb off (int len) = Some key"
      and h: "ComputeCASEMessageHash C tvb n config (respMsgHash (ms_cases s ! c)) = Some hash"
      and r: "RecoverCASESessionKey C
        ((ms_cases s ! c)\<lparr>beginRespMsg := Some i, respECDHPublicKey := key, respECDHPublicKeyLen := len, respMsgHash := hash\<rparr>,
         ms_keys s) = Some (r2, T)" for c key config hash r2 T
  proof -
    have lt: "c < length (ms_cases s)" by (rule FindCASE_ok [OF s c])
    have "case_inv ((ms_cases s ! c)\<lparr>beginRespMsg := Some i, respECDHPublicKey := key, respECDHPublicKeyLen := len, respMsgHash := hash\<rparr>)"
      using state_ok_case [OF s lt] ComputeCASEMessageHash_length [OF h] tvb_memdup_length [OF k] by (simp add: case_inv_def)
    from RecoverCASESessionKey_returns [OF C this] s r obtain keys
      where r2: "r2 = (ms_cases s ! c)\<lparr>beginRespMsg := Some i, respECDHPublicKey := key, respECDHPublicKeyLen := len,
          respMsgHash := hash, recoveredSessionKey := keys\<rparr>" and T: "key_table_inv T"
      by (fastforce simp: state_ok_def)
    have "case_inv r2"
      using state_ok_case [OF s lt] ComputeCASEMessageHash_length [OF h] tvb_memdup_length [OF k] by (simp add: case_inv_def r2)
    then have "state_ok (update_case c (\<lambda>_. r2) (attach_case i c s))"
      by (intro update_case_ok attach_case_ok s lt)
    then show ?thesis using T by (simp add: state_ok_def)
  qed
  then show ?thesis
    using r s by (auto simp: record_response_def Let_def bind_eq_Some_conv split: if_splits option.splits)
qed

lemma record_key_confirm_ok:
  assumes "record_key_confirm i s = Some s'" and "state_ok s"
  shows "state_ok s'"
proof -
  have "state_ok (update_case c (\<lambda>r. r\<lparr>keyConfirmMsg := Some i\<rparr>) (attach_case i c s))"
    if c: "FindCASEExchangeRecord (records (ms_tracker s)) (Some i) = Some (Some c)" for c
  proof -
    have lt: "c < length (ms_cases s)" by (rule FindCASE_ok [OF assms(2) c])
    have "ms_cases (attach_case i c s) = ms_cases s" by (simp add: attach_case_def)
    then show ?thesis
      using state_ok_case [OF assms(2) lt] by (intro update_case_ok attach_case_ok assms(2) lt) (simp add: case_inv_def)
  qed
  then show ?thesis using assms by (auto simp: record_key_confirm_def split: if_splits option.splits)
qed

section \<open>The dissectors of the protocols\<close>

text \<open>What a dissector leaves, if it returns.\<close>

definition leaves_ok :: "(int \<times> view \<times> matter_state) option \<Rightarrow> bool" where
  "leaves_ok r \<longleftrightarrow> (\<forall>res v s. r = Some (res, v, s) \<longrightarrow> state_ok s)"

named_theorems leaves_intros \<open>dissectors that leave a sound state\<close>

lemma leaves_ok_rules [leaves_intros]:
  "state_ok s \<Longrightarrow> leaves_ok (done_with mi v s)"
  "state_ok s \<Longrightarrow> leaves_ok (Some (res, v, s))"
  "(\<And>x. m = Some x \<Longrightarrow> leaves_ok (g x)) \<Longrightarrow> leaves_ok (m \<bind> g)"
  "(b \<Longrightarrow> leaves_ok x) \<Longrightarrow> (\<not> b \<Longrightarrow> leaves_ok y) \<Longrightarrow> leaves_ok (if b then x else y)"
  "leaves_ok n \<Longrightarrow> (\<And>x. leaves_ok (f x)) \<Longrightarrow> leaves_ok (case p of None \<Rightarrow> n | Some x \<Rightarrow> f x)"
  "(\<And>x y. leaves_ok (h x y)) \<Longrightarrow> leaves_ok (case q of (x, y) \<Rightarrow> h x y)"
  by (auto simp: leaves_ok_def done_with_def bind_eq_Some_conv split: option.splits prod.splits)

lemma with_record_ok:
  assumes "with_record mi s f = Some s'" and "\<And>i s'. f i = Some s' \<Longrightarrow> state_ok s'"
  shows "state_ok s'"
  using assms by (auto simp: with_record_def split: option.splits if_splits)

lemma security_messages_leave:
  assumes C: "case_crypto_works C" and s: "state_ok s"
  shows "leaves_ok (DissectCASEBeginSessionRequest C R tvb mi tree (v, s))"
    "leaves_ok (DissectCASEBeginSessionResponse C R tvb mi tree (v, s))"
    "leaves_ok (DissectCASEInitiatorKeyConfirm R tvb mi tree (v, s))"
    "leaves_ok (DissectCASEReconfigure R tvb mi tree (v, s))"
    "leaves_ok (DissectMessageCounterSyncResp R tvb mi tree (v, s))"
    "leaves_ok (DissectKeyError R tvb mi tree (v, s))"
  unfolding DissectCASEBeginSessionRequest_def DissectCASEBeginSessionResponse_def DissectCASEInitiatorKeyConfirm_def
    DissectCASEReconfigure_def DissectMessageCounterSyncResp_def DissectKeyError_def prod.case Let_def
  by (intro leaves_intros s; erule with_record_ok; erule record_request_ok [OF _ s] record_response_ok [OF C _ s] record_key_confirm_ok [OF _ s])+

lemma DissectMatterSecurity_leaves:
  assumes "case_crypto_works C" and "state_ok s"
  shows "leaves_ok (DissectMatterSecurity C R tvb mi (v, s))"
proof -
  have "leaves_ok (case map_of (security_messages C R tvb mi tree) ty of Some dissect \<Rightarrow> dissect (v, s) | None \<Rightarrow> Some (0, v, s))" for tree v ty
    using security_messages_leave [OF assms, of R tvb mi tree v] assms(2)
    by (auto simp: security_messages_def leaves_ok_def)
  then show ?thesis unfolding DissectMatterSecurity_def prod.case by (intro leaves_ok_rules(3,6))
qed

text \<open>No record has a subscription, so none is adopted.\<close>

lemma subscription_along_none:
  assumes "subscription_along nxt recs p = Some x"
  shows "\<forall>r \<in> set recs. notes_ok n r \<Longrightarrow> x = 0"
proof (induction rule: subscription_along.raw_induct [OF _ assms])
  case (1 rec nxt recs p x)
  then show ?case by (auto simp: notes_ok_def split: option.splits if_splits)
qed

lemma adopt_subscription_none: "records_ok n t \<Longrightarrow> adopt_subscription i nxt p t = Some t' \<Longrightarrow> t' = t"
  by (auto simp: adopt_subscription_def records_ok_def dest: subscription_along_none split: if_splits)

lemma AssociateWithIMSubscription_none:
  assumes "records_ok n t" and "AssociateWithIMSubscription R tree r (v, t) = Some (v', t')"
  shows "t' = t"
  using assms(2)
  by (auto simp: AssociateWithIMSubscription_def bind_eq_Some_conv Let_def split: option.splits if_splits
      dest: adopt_subscription_none [OF assms(1)])

lemma DissectMatterCommon_tracker:
  assumes t: "records_ok n t" and d: "DissectMatterCommon R tvb mi (v, t) = Some (res, v', t')"
  shows "t' = t"
proof -
  have status: "t' = t" if "DissectStatusReport R tvb mi tree (v, t) = Some (res, v', t')" for tree v
    using that
    by (auto simp: DissectStatusReport_def bind_eq_Some_conv Let_def dest!: AssociateWithIMSubscription_none [OF t]
        split: if_splits)
  have ack: "t' = t" if "DissectStandaloneAck R mi tree (v, t) = Some (res, v', t')" for tree v
    using that
    by (auto simp: DissectStandaloneAck_def bind_eq_Some_conv Let_def dest!: AssociateWithIMSubscription_none [OF t])
  obtain tree v1 where p: "protocol_tree R ''MatterCommon'' ''MatterCommon'' v = (tree, v1)" by fastforce
  show ?thesis
    using d status [of tree v1] ack [of tree v1]
    by (auto simp: DissectMatterCommon_def p common_messages_def without_tracker_def split: if_splits)
qed

lemma dissector_try_uint_leaves:
  assumes C: "case_crypto_works C" and s: "state_ok s"
  shows "leaves_ok (dissector_try_uint C H protocolId tvb mi (v, s))"
proof -
  have r: "records_ok (length (ms_cases s)) (ms_tracker s)" using s by (simp add: state_ok_def)
  have "leaves_ok (on_tracker (DissectMatterCommon R tvb mi) (v, s))" for R
    using s by (auto simp: leaves_ok_def on_tracker_def dest: DissectMatterCommon_tracker [OF r])
  moreover have "leaves_ok (on_view f (v, s))" for f
    using s by (auto simp: leaves_ok_def on_view_def)
  moreover have "leaves_ok (Some (0, v, s))" using s by (simp add: leaves_ok_def)
  ultimately show ?thesis
    using DissectMatterSecurity_leaves [OF C s]
    by (auto simp: dissector_try_uint_def matter_subdissector_table_def)
qed

section \<open>Packets\<close>

lemma DissectMatter_header_info:
  assumes "DissectMatter_header show_ids pinfo tvb n = Some (mi, tvb', off, v)"
  shows "mi_ackedMsg mi = None"
  using assms by (auto simp: DissectMatter_header_def bind_eq_Some_conv Let_def MatterMessageInfo_def split: if_splits)

lemma DissectMatter_exchange_info:
  assumes "DissectMatter_exchange mi plain v = Some (mi', p, off, v')"
  shows "mi_ackedMsg mi' = mi_ackedMsg mi"
  using assms by (auto simp: DissectMatter_exchange_def bind_eq_Some_conv Let_def case_prod_beta split: if_splits)

lemma DissectMatter_track_keeps:
  assumes d: "DissectMatter_track host pinfo tvb mi v (ms_tracker s) = Some (mi', v', t')"
    and s: "state_ok s" and new: "mi_ackedMsg mi = None"
  shows "state_ok (s\<lparr>ms_tracker := t'\<rparr>)"
proof -
  obtain i t1 where f: "FindOrCreateMessageRecord (host_crc32 host) (host_crc32_seed host) tvb pinfo mi (ms_tracker s) = Some (i, t1)"
    using d by (auto simp: DissectMatter_track_def bind_eq_Some_conv)
  obtain M X where t: "tracked (ms_tracker s) M X" using s by (auto simp: state_ok_def)
  obtain recs M' X' where a: "t' = t1\<lparr>records := recs\<rparr>" "same_but_acks (records t1) recs" "tracked (t1\<lparr>records := recs\<rparr>) M' X'"
    using DissectMatter_track_after [OF t f new, of v] d by auto
  have "records_ok (length (ms_cases s)) t1" by (rule FindOrCreate_records_ok [OF f]) (use s in \<open>simp add: state_ok_def\<close>)
  then show ?thesis using s a same_but_acks_records_ok [OF a(2)] by (auto simp: state_ok_def)
qed

lemma DissectMatter_payload_keeps:
  assumes d: "DissectMatter_payload host pinfo tvb plain mi v s = Some (v', s')"
    and s: "state_ok s" and new: "mi_ackedMsg mi = None"
    and C: "case_crypto_works C" "subdissect host = dissector_try_uint C H"
  shows "state_ok s'"
proof -
  have "state_ok s2"
    if e: "DissectMatter_exchange mi plain v = Some (mi1, p, off, v1)"
      and t: "DissectMatter_track host pinfo tvb mi1 v2 (ms_tracker s) = Some (mi2, v3, t')"
      and sub: "dissector_try_uint C H p payload mi2 (v3, s\<lparr>ms_tracker := t'\<rparr>) = Some (res, v4, s2)"
    for mi1 p off v1 v2 mi2 v3 t' payload res v4 s2
  proof -
    have "state_ok (s\<lparr>ms_tracker := t'\<rparr>)"
      by (rule DissectMatter_track_keeps [OF t s]) (use DissectMatter_exchange_info [OF e] new in simp)
    from dissector_try_uint_leaves [OF C(1) this] sub show ?thesis by (auto simp: leaves_ok_def)
  qed
  then show ?thesis
    using d unfolding DissectMatter_payload_def C(2) by (auto simp: bind_eq_Some_conv)
qed

theorem DissectMatter_keeps:
  assumes d: "DissectMatter host pinfo tvb n s = Some (len, v, s')" and s: "state_ok s"
    and C: "case_crypto_works C" "subdissect host = dissector_try_uint C H" and E: "env_ok (decrypt_env host)"
  shows "state_ok s'"
proof -
  have dec: "state_ok (s\<lparr>ms_hints := h, ms_keys := T\<rparr>)"
    if "TryDecryptMessage (decrypt_env host) tvb1 off mi (ms_hints s, ms_keys s) = Some (plain, h, T)" for tvb1 off mi plain h T
    using TryDecryptMessage_keeps [OF that E] s by (auto simp: state_ok_def)
  obtain mi tvb1 off v1 where h: "DissectMatter_header (pref_ShowNodeIds host) pinfo tvb n = Some (mi, tvb1, off, v1)"
    using d by (auto simp: DissectMatter_def bind_eq_Some_conv)
  note new = DissectMatter_header_info [OF h] and keeps = DissectMatter_payload_keeps [OF _ _ _ C]
  show ?thesis
  proof (cases "MessageIsEncrypted mi")
    case False
    have "s\<lparr>ms_hints := ms_hints s, ms_keys := ms_keys s\<rparr> = s" by simp
    then show ?thesis using d h False keeps [OF _ s new] by (auto simp: DissectMatter_def bind_eq_Some_conv)
  next
    case True
    obtain plain h1 T where t: "TryDecryptMessage (decrypt_env host) tvb1 off mi (ms_hints s, ms_keys s) = Some (plain, h1, T)"
      using d h True by (auto simp: DissectMatter_def bind_eq_Some_conv)
    show ?thesis
      using d h True t dec [OF t] keeps [OF _ dec [OF t]] new
      by (cases plain) (auto simp: DissectMatter_def bind_eq_Some_conv Let_def)
  qed
qed

section \<open>Captures\<close>

text \<open>
  The events: a packet that is dissected to its end, and a secrets block with hints. The user may change keys and
  preferences between two events, so each packet has a host of its own. A packet that makes the host raise an exception
  is not an event.
\<close>

definition initial_state :: matter_state where
  "initial_state = \<lparr>ms_tracker = no_tracker, ms_hints = no_hints, ms_keys = KeyTable_Init, ms_cases = []\<rparr>"

definition plugin_host :: "case_crypto \<Rightarrow> im_host \<Rightarrow> matter_host \<Rightarrow> bool" where
  "plugin_host C H host \<longleftrightarrow> subdissect host = dissector_try_uint C H \<and> env_ok (decrypt_env host)"

inductive capture_step :: "case_crypto \<Rightarrow> im_host \<Rightarrow> matter_state \<Rightarrow> matter_state \<Rightarrow> bool" for C H where
  packet: "plugin_host C H host \<Longrightarrow> DissectMatter host pinfo tvb n s = Some (len, v, s') \<Longrightarrow> capture_step C H s s'"
| secrets: "MatterProxyHintSecretsBlockCallback blob (ms_hints s, ms_keys s) = Some (h, T) \<Longrightarrow>
    capture_step C H s (s\<lparr>ms_hints := h, ms_keys := T\<rparr>)"

inductive_cases capture_stepE: "capture_step C H s s'"

inductive reachable :: "case_crypto \<Rightarrow> im_host \<Rightarrow> matter_state \<Rightarrow> bool" for C H where
  start: "reachable C H initial_state"
| step: "reachable C H s \<Longrightarrow> capture_step C H s s' \<Longrightarrow> reachable C H s'"

lemma initial_state_ok: "state_ok initial_state"
  using no_tracker_tracked
  by (auto simp: state_ok_def initial_state_def KeyTable_Init_inv hints_ok_def no_hints_def records_ok_def no_tracker_def)

lemma secrets_keep:
  assumes "MatterProxyHintSecretsBlockCallback blob (h, T) = Some (h', T')" and "hints_ok h" "key_table_inv T"
  shows "hints_ok h' \<and> key_table_inv T'"
proof -
  have ls: "\<forall>g \<in> set (ParseMatterProxyHintBlob blob). length (hint_key_bytes g) = 16"
    using parse_lines_length by (auto simp: ParseMatterProxyHintBlob_def split: option.splits)
  from preload_all_spec [OF assms(3) this] assms ls show ?thesis
    by (auto simp: MatterProxyHintSecretsBlockCallback_def Let_def hints_ok_def)
qed

lemma capture_step_keeps:
  assumes "case_crypto_works C" and "capture_step C H s s'" and "state_ok s"
  shows "state_ok s'"
  using assms(2)
proof cases
  case (packet host pinfo tvb n len v)
  then show ?thesis using DissectMatter_keeps [OF packet(2) assms(3,1)] by (simp add: plugin_host_def)
next
  case (secrets blob h T)
  then show ?thesis using secrets_keep assms(3) by (auto simp: state_ok_def)
qed

theorem reachable_state_ok:
  assumes "case_crypto_works C" and "reachable C H s"
  shows "state_ok s"
  using assms(2) by induction (auto simp: initial_state_ok intro: capture_step_keeps [OF assms(1)])

section \<open>The conversation filters\<close>

lemma tracked_record:
  assumes "tracked t M X" and "FindMessageRecord pinfo t = Some i"
  shows "i < length (records t)" "\<exists>k. i \<in> set (X k)"
  using assms by (auto simp: tracked_def tracker_inv_def FindMessageRecord_def)

lemma no_subscription_filter: "state_ok s \<Longrightarrow> \<not> IMSubscriptionFilter_IsValid pinfo (ms_tracker s)"
proof -
  assume s: "state_ok s"
  then obtain M X where t: "tracked (ms_tracker s) M X" by (auto simp: state_ok_def)
  show ?thesis
    using s tracked_record(1) [OF t]
    by (auto simp: IMSubscriptionFilter_IsValid_def state_ok_def records_ok_def notes_ok_def split: option.splits)
qed

lemma exchange_filter_builds:
  assumes s: "state_ok s" and v: "MatterExchangeFilter_IsValid layers pinfo (ms_tracker s)"
  shows "\<exists>text. MatterExchangeFilter_BuildFilterString pinfo (ms_tracker s) = Some text"
proof -
  obtain M X where t: "tracked (ms_tracker s) M X" using s by (auto simp: state_ok_def)
  obtain i where i: "FindMessageRecord pinfo (ms_tracker s) = Some i" using v by (auto simp: MatterExchangeFilter_IsValid_def)
  obtain k where "i \<in> set (X k)" using tracked_record(2) [OF t i] by blast
  then obtain xs ys where "X k = xs @ i # ys" by (meson split_list)
  then obtain r where "FindStartOfExchange (Some i) (ms_tracker s) = Some (Some r)"
    using FindStartOfExchange_spec [of "ms_tracker s" M X k xs i ys] t unfolding tracked_def by metis
  then show ?thesis by (simp add: MatterExchangeFilter_BuildFilterString_def i)
qed

end
