(* ===== verification/Case_Session.thy ===== *)
theory Case_Session
  imports Capture_Inv
begin

text \<open>
  The whole use of a CASE exchange: the key that its two messages give away is the one under which the next encrypted
  message of the session is opened.
\<close>

text \<open>A key that was learned under an identifier that had no key is the only one there.\<close>

lemma learned_key_first:
  assumes "key_learned k T T'" and "FindKeysById (keyId k) T = []"
  obtains rest where "FindKeysById (keyId k) T' = k # rest"
proof -
  obtain new where new: "FindKeysById (keyId k) T' = new @ FindKeysById (keyId k) T" "set new \<subseteq> {k}"
    using assms(1) unfolding key_learned_def by blast
  moreover have "FindKeysById (keyId k) T' \<noteq> []" using assms(1) by (auto simp: key_learned_def)
  ultimately show thesis using assms(2) by (cases new) (auto intro: that)
qed

lemma no_hint_file:
  "pref_MatterProxyKeyHintFile env = None \<Longrightarrow>
    RefreshMatterProxyHintKeys (env_fs env) (pref_MatterProxyKeyHintFile env) (h, T) =
      Some (h\<lparr>HintKeysFromFile := [], HintPath := [], HintMTime := 0\<rparr>, T)"
  by (simp add: RefreshMatterProxyHintKeys_def TrimStr_def)

lemma session_key_fields:
  "keyId (case_session_key C (case_complete C i q j r) secret) = rq_session q"
  "key_srcNodeId (case_session_key C c secret) = 0"
  by (simp_all add: case_session_key_def Let_def zero_key_def case_complete_def case_answered_def case_of_request_def)

text \<open>The messages of an exchange leave a sound state.\<close>

lemma case_messages_keep:
  assumes "case_crypto_works C" and "state_ok s"
    and "DissectCASEBeginSessionRequest C R tvb mi tree (v, s) = Some (res, v1, s1)"
    and "DissectCASEBeginSessionResponse C R tvb' mj tree' (v1, s1) = Some (res', v2, s2)"
  shows "state_ok s2"
  using security_messages_leave(1) [OF assms(1,2)] security_messages_leave(2) [OF assms(1)] assms(3,4)
  unfolding leaves_ok_def by metis

theorem case_session_opened:
  fixes C q r secret
  defines "k \<equiv> \<lambda>i j. case_session_key C (case_complete C i q j r) secret"
  assumes C: "case_crypto_works C" and ok: "request_ok R q" "response_ok R r" and s: "state_ok s"
    and chain: "is_chain nextByExchange prevByExchange (records (ms_tracker s)) None p (xs @ i # ys @ j # zs)"
    and new: "\<forall>x \<in> set (i # ys @ [j]). caseExchangeRec (records (ms_tracker s) ! x) = None" "i \<notin> set (ys @ [j])"
    and mi: "mi_msgRec mi = Some i" "unat (mi_payloadLen mi) = length (encode_request q)"
    and mj: "mi_msgRec mj = Some j" "unat (mi_payloadLen mj) = length (encode_response r)"
    and secret: "case_secret (case_complete C i q j r) = Some secret"
    and cipher: "rq_control q AND 0x0F = kMatterEncryptionType_AES128CCM"
    and fresh: "FindKeysById (rq_session q) (ms_keys s) = []"
    and host: "env_ok (decrypt_env host)" "pref_MatterProxyKeyHintFile (decrypt_env host) = None"
    and h: "header_ok h" "hd_group h = None" "hd_sessionId h = rq_session q" "rq_session q \<noteq> 0"
    and x: "exchange_ok x" and udp: "ptype pinfo \<noteq> PT_TCP"
    and len: "16 < length enc" "length (encode_header h @ enc) < 65536"
    and info: "minfo = header_info h (of_nat (length (encode_header h @ enc))) (of_nat (length (encode_header h)))"
    and opens: "key_opens (env_evp (decrypt_env host)) enc (encode_header h) minfo (k i j) = Some (encode_exchange x @ payload)"
  shows "\<exists>v1 s1 v2 s2 h' out.
    DissectCASEBeginSessionRequest C R (encode_request q) mi tree (v, s) = Some (int (length (encode_request q)), v1, s1) \<and>
    DissectCASEBeginSessionResponse C R (encode_response r) mj tree' (v1, s1) = Some (int (length (encode_response r)), v2, s2) \<and>
    hands_on host pinfo x payload (minfo\<lparr>mi_trailerLen := 16\<rparr>) (s2\<lparr>ms_hints := h'\<rparr>) out \<and>
    DissectMatter host pinfo (encode_header h @ enc) (length (encode_header h @ enc)) s2 =
      map_option (\<lambda>(v, s'). (length (encode_header h @ enc), v, s')) out"
proof -
  have T: "key_table_inv (ms_keys s)" using s by (simp add: state_ok_def)
  obtain v1 s1 v2 s2 where d: "DissectCASEBeginSessionRequest C R (encode_request q) mi tree (v, s) = Some (int (length (encode_request q)), v1, s1)"
      "DissectCASEBeginSessionResponse C R (encode_response r) mj tree' (v1, s1) = Some (int (length (encode_response r)), v2, s2)"
    and learned: "key_learned (k i j) (ms_keys s) (ms_keys s2)"
    using case_exchange_keys [OF C ok T chain new mi mj secret cipher] unfolding k_def by blast
  have s2: "state_ok s2" by (rule case_messages_keep [OF C s d])
  then obtain M X where t: "tracked (ms_tracker s2) M X" by (auto simp: state_ok_def)
  let ?h = "(ms_hints s2)\<lparr>HintKeysFromFile := [], HintPath := [], HintMTime := 0\<rparr>"
  have ok2: "key_table_inv (ms_keys s2)" "hints_ok ?h" using s2 by (auto simp: state_ok_def hints_ok_def)
  obtain rest where keys: "FindKeysById (rq_session q) (ms_keys s2) = k i j # rest"
    using learned_key_first [OF learned] fresh unfolding k_def session_key_fields by blast
  have sid: "mi_sessionId minfo = rq_session q" using h(3) by (simp add: info header_info_def)
  have src: "key_srcNodeId (k i j) = 0" unfolding k_def by (rule session_key_fields)
  have found: "first_open (key_opens (env_evp (decrypt_env host)) enc (encode_header h))
      (all_candidates (decrypt_env host) minfo ?h (ms_keys s2)) = Some (encode_exchange x @ payload, None)"
    using opens by (simp add: all_candidates_def table_candidates_def sid keys src)
  have enc: "MessageIsEncrypted minfo" using h(4) sid by (simp add: MessageIsEncrypted_def kMatterSessionId_Unsecured_def)
  have same: "s2\<lparr>ms_hints := ?h, ms_keys := store_key None (ms_keys s2)\<rparr> = s2\<lparr>ms_hints := ?h\<rparr>"
    by (simp add: store_key_def)
  have "\<exists>out. hands_on host pinfo x payload (minfo\<lparr>mi_trailerLen := 16\<rparr>) (s2\<lparr>ms_hints := ?h\<rparr>) out \<and>
      DissectMatter host pinfo (encode_header h @ enc) (length (encode_header h @ enc)) s2 =
        map_option (\<lambda>(v, s'). (length (encode_header h @ enc), v, s')) out"
    by (rule DissectMatter_encrypted(1) [OF t h(1,2) x udp len host(1) ok2 no_hint_file [OF host(2)], folded info, OF enc found,
        unfolded same])
  then show ?thesis using d by blast
qed

end
