(* ===== verification/Error_Text.thy ===== *)
theory Error_Text
  imports Status_Text
begin

text \<open>
  The codes of MatterError.h that no dissector returns, and the text of an error (\<open>ErrorStr.cpp\<close>): what a known
  code says, else its number. The text is written into a static buffer of 1000 bytes. \<open>MATTER_CONFIG_SHORT_ERROR_STR\<close>
  and the system layers with errors of their own are not configured.
\<close>

named_theorems more_err_codes \<open>the codes of MatterError.h that only have a text\<close>

section \<open>Codes\<close>

definition MATTER_ERROR_MAX :: MATTER_ERROR where [more_err_codes]: "MATTER_ERROR_MAX = 4999"
definition MATTER_ERROR_TOO_MANY_CONNECTIONS :: MATTER_ERROR where [more_err_codes]: "MATTER_ERROR_TOO_MANY_CONNECTIONS = MATTER_ERROR_of 0"
definition MATTER_ERROR_SENDING_BLOCKED :: MATTER_ERROR where [more_err_codes]: "MATTER_ERROR_SENDING_BLOCKED = MATTER_ERROR_of 1"
definition MATTER_ERROR_CONNECTION_ABORTED :: MATTER_ERROR where [more_err_codes]: "MATTER_ERROR_CONNECTION_ABORTED = MATTER_ERROR_of 2"
definition MATTER_ERROR_MESSAGE_TOO_LONG :: MATTER_ERROR where [more_err_codes]: "MATTER_ERROR_MESSAGE_TOO_LONG = MATTER_ERROR_of 4"
definition MATTER_ERROR_UNSUPPORTED_EXCHANGE_VERSION :: MATTER_ERROR where [more_err_codes]: "MATTER_ERROR_UNSUPPORTED_EXCHANGE_VERSION = MATTER_ERROR_of 5"
definition MATTER_ERROR_TOO_MANY_UNSOLICITED_MESSAGE_HANDLERS :: MATTER_ERROR where [more_err_codes]: "MATTER_ERROR_TOO_MANY_UNSOLICITED_MESSAGE_HANDLERS = MATTER_ERROR_of 6"
definition MATTER_ERROR_NO_UNSOLICITED_MESSAGE_HANDLER :: MATTER_ERROR where [more_err_codes]: "MATTER_ERROR_NO_UNSOLICITED_MESSAGE_HANDLER = MATTER_ERROR_of 7"
definition MATTER_ERROR_NO_CONNECTION_HANDLER :: MATTER_ERROR where [more_err_codes]: "MATTER_ERROR_NO_CONNECTION_HANDLER = MATTER_ERROR_of 8"
definition MATTER_ERROR_TOO_MANY_PEER_NODES :: MATTER_ERROR where [more_err_codes]: "MATTER_ERROR_TOO_MANY_PEER_NODES = MATTER_ERROR_of 9"
definition MATTER_ERROR_NO_MESSAGE_HANDLER :: MATTER_ERROR where [more_err_codes]: "MATTER_ERROR_NO_MESSAGE_HANDLER = MATTER_ERROR_of 12"
definition MATTER_ERROR_MESSAGE_INCOMPLETE :: MATTER_ERROR where [more_err_codes]: "MATTER_ERROR_MESSAGE_INCOMPLETE = MATTER_ERROR_of 13"
definition MATTER_ERROR_DATA_NOT_ALIGNED :: MATTER_ERROR where [more_err_codes]: "MATTER_ERROR_DATA_NOT_ALIGNED = MATTER_ERROR_of 14"
definition MATTER_ERROR_UNKNOWN_KEY_TYPE :: MATTER_ERROR where [more_err_codes]: "MATTER_ERROR_UNKNOWN_KEY_TYPE = MATTER_ERROR_of 15"
definition MATTER_ERROR_KEY_NOT_FOUND :: MATTER_ERROR where [more_err_codes]: "MATTER_ERROR_KEY_NOT_FOUND = MATTER_ERROR_of 16"
definition MATTER_ERROR_WRONG_ENCRYPTION_TYPE :: MATTER_ERROR where [more_err_codes]: "MATTER_ERROR_WRONG_ENCRYPTION_TYPE = MATTER_ERROR_of 17"
definition MATTER_ERROR_TOO_MANY_KEYS :: MATTER_ERROR where [more_err_codes]: "MATTER_ERROR_TOO_MANY_KEYS = MATTER_ERROR_of 18"
definition MATTER_ERROR_INTEGRITY_CHECK_FAILED :: MATTER_ERROR where [more_err_codes]: "MATTER_ERROR_INTEGRITY_CHECK_FAILED = MATTER_ERROR_of 19"
definition MATTER_ERROR_INVALID_SIGNATURE :: MATTER_ERROR where [more_err_codes]: "MATTER_ERROR_INVALID_SIGNATURE = MATTER_ERROR_of 20"
definition MATTER_ERROR_UNSUPPORTED_MESSAGE_VERSION :: MATTER_ERROR where [more_err_codes]: "MATTER_ERROR_UNSUPPORTED_MESSAGE_VERSION = MATTER_ERROR_of 21"
definition MATTER_ERROR_UNSUPPORTED_ENCRYPTION_TYPE :: MATTER_ERROR where [more_err_codes]: "MATTER_ERROR_UNSUPPORTED_ENCRYPTION_TYPE = MATTER_ERROR_of 22"
definition MATTER_ERROR_UNSUPPORTED_SIGNATURE_TYPE :: MATTER_ERROR where [more_err_codes]: "MATTER_ERROR_UNSUPPORTED_SIGNATURE_TYPE = MATTER_ERROR_of 23"
definition MATTER_ERROR_INVALID_MESSAGE_LENGTH :: MATTER_ERROR where [more_err_codes]: "MATTER_ERROR_INVALID_MESSAGE_LENGTH = MATTER_ERROR_of 24"
definition MATTER_ERROR_DUPLICATE_KEY_ID :: MATTER_ERROR where [more_err_codes]: "MATTER_ERROR_DUPLICATE_KEY_ID = MATTER_ERROR_of 26"
definition MATTER_ERROR_WRONG_KEY_TYPE :: MATTER_ERROR where [more_err_codes]: "MATTER_ERROR_WRONG_KEY_TYPE = MATTER_ERROR_of 27"
definition MATTER_ERROR_WELL_UNINITIALIZED :: MATTER_ERROR where [more_err_codes]: "MATTER_ERROR_WELL_UNINITIALIZED = MATTER_ERROR_of 28"
definition MATTER_ERROR_WELL_EMPTY :: MATTER_ERROR where [more_err_codes]: "MATTER_ERROR_WELL_EMPTY = MATTER_ERROR_of 29"
definition MATTER_ERROR_INVALID_STRING_LENGTH :: MATTER_ERROR where [more_err_codes]: "MATTER_ERROR_INVALID_STRING_LENGTH = MATTER_ERROR_of 30"
definition MATTER_ERROR_INVALID_LIST_LENGTH :: MATTER_ERROR where [more_err_codes]: "MATTER_ERROR_INVALID_LIST_LENGTH = MATTER_ERROR_of 31"
definition MATTER_ERROR_INVALID_INTEGRITY_TYPE :: MATTER_ERROR where [more_err_codes]: "MATTER_ERROR_INVALID_INTEGRITY_TYPE = MATTER_ERROR_of 32"
definition MATTER_ERROR_TLV_CONTAINER_OPEN :: MATTER_ERROR where [more_err_codes]: "MATTER_ERROR_TLV_CONTAINER_OPEN = MATTER_ERROR_of 39"
definition MATTER_ERROR_INVALID_TRANSFER_MODE :: MATTER_ERROR where [more_err_codes]: "MATTER_ERROR_INVALID_TRANSFER_MODE = MATTER_ERROR_of 40"
definition MATTER_ERROR_INVALID_PROFILE_ID :: MATTER_ERROR where [more_err_codes]: "MATTER_ERROR_INVALID_PROFILE_ID = MATTER_ERROR_of 41"
definition MATTER_ERROR_INVALID_MESSAGE_TYPE :: MATTER_ERROR where [more_err_codes]: "MATTER_ERROR_INVALID_MESSAGE_TYPE = MATTER_ERROR_of 42"
definition MATTER_ERROR_STATUS_REPORT_RECEIVED :: MATTER_ERROR where [more_err_codes]: "MATTER_ERROR_STATUS_REPORT_RECEIVED = MATTER_ERROR_of 44"
definition MATTER_ERROR_NOT_IMPLEMENTED :: MATTER_ERROR where [more_err_codes]: "MATTER_ERROR_NOT_IMPLEMENTED = MATTER_ERROR_of 45"
definition MATTER_ERROR_INVALID_ADDRESS :: MATTER_ERROR where [more_err_codes]: "MATTER_ERROR_INVALID_ADDRESS = MATTER_ERROR_of 46"
definition MATTER_ERROR_INVALID_PATH_LIST :: MATTER_ERROR where [more_err_codes]: "MATTER_ERROR_INVALID_PATH_LIST = MATTER_ERROR_of 48"
definition MATTER_ERROR_INVALID_DATA_LIST :: MATTER_ERROR where [more_err_codes]: "MATTER_ERROR_INVALID_DATA_LIST = MATTER_ERROR_of 49"
definition MATTER_ERROR_TIMEOUT :: MATTER_ERROR where [more_err_codes]: "MATTER_ERROR_TIMEOUT = MATTER_ERROR_of 50"
definition MATTER_ERROR_INVALID_DEVICE_DESCRIPTOR :: MATTER_ERROR where [more_err_codes]: "MATTER_ERROR_INVALID_DEVICE_DESCRIPTOR = MATTER_ERROR_of 51"
definition MATTER_ERROR_UNSUPPORTED_DEVICE_DESCRIPTOR_VERSION :: MATTER_ERROR where [more_err_codes]: "MATTER_ERROR_UNSUPPORTED_DEVICE_DESCRIPTOR_VERSION = MATTER_ERROR_of 52"
definition MATTER_END_OF_INPUT :: MATTER_ERROR where [more_err_codes]: "MATTER_END_OF_INPUT = MATTER_ERROR_of 53"
definition MATTER_ERROR_RATE_LIMIT_EXCEEDED :: MATTER_ERROR where [more_err_codes]: "MATTER_ERROR_RATE_LIMIT_EXCEEDED = MATTER_ERROR_of 54"
definition MATTER_ERROR_SECURITY_MANAGER_BUSY :: MATTER_ERROR where [more_err_codes]: "MATTER_ERROR_SECURITY_MANAGER_BUSY = MATTER_ERROR_of 55"
definition MATTER_ERROR_INVALID_PASE_PARAMETER :: MATTER_ERROR where [more_err_codes]: "MATTER_ERROR_INVALID_PASE_PARAMETER = MATTER_ERROR_of 56"
definition MATTER_ERROR_PASE_SUPPORTS_ONLY_CONFIG1 :: MATTER_ERROR where [more_err_codes]: "MATTER_ERROR_PASE_SUPPORTS_ONLY_CONFIG1 = MATTER_ERROR_of 57"
definition MATTER_ERROR_KEY_CONFIRMATION_FAILED :: MATTER_ERROR where [more_err_codes]: "MATTER_ERROR_KEY_CONFIRMATION_FAILED = MATTER_ERROR_of 58"
definition MATTER_ERROR_INVALID_USE_OF_SESSION_KEY :: MATTER_ERROR where [more_err_codes]: "MATTER_ERROR_INVALID_USE_OF_SESSION_KEY = MATTER_ERROR_of 59"
definition MATTER_ERROR_CONNECTION_CLOSED_UNEXPECTEDLY :: MATTER_ERROR where [more_err_codes]: "MATTER_ERROR_CONNECTION_CLOSED_UNEXPECTEDLY = MATTER_ERROR_of 60"
definition MATTER_ERROR_MISSING_TLV_ELEMENT :: MATTER_ERROR where [more_err_codes]: "MATTER_ERROR_MISSING_TLV_ELEMENT = MATTER_ERROR_of 61"
definition MATTER_ERROR_RANDOM_DATA_UNAVAILABLE :: MATTER_ERROR where [more_err_codes]: "MATTER_ERROR_RANDOM_DATA_UNAVAILABLE = MATTER_ERROR_of 62"
definition MATTER_ERROR_UNSUPPORTED_HOST_PORT_ELEMENT :: MATTER_ERROR where [more_err_codes]: "MATTER_ERROR_UNSUPPORTED_HOST_PORT_ELEMENT = MATTER_ERROR_of 63"
definition MATTER_ERROR_INVALID_HOST_SUFFIX_INDEX :: MATTER_ERROR where [more_err_codes]: "MATTER_ERROR_INVALID_HOST_SUFFIX_INDEX = MATTER_ERROR_of 64"
definition MATTER_ERROR_HOST_PORT_LIST_EMPTY :: MATTER_ERROR where [more_err_codes]: "MATTER_ERROR_HOST_PORT_LIST_EMPTY = MATTER_ERROR_of 65"
definition MATTER_ERROR_UNSUPPORTED_AUTH_MODE :: MATTER_ERROR where [more_err_codes]: "MATTER_ERROR_UNSUPPORTED_AUTH_MODE = MATTER_ERROR_of 66"
definition MATTER_ERROR_INVALID_SERVICE_EP :: MATTER_ERROR where [more_err_codes]: "MATTER_ERROR_INVALID_SERVICE_EP = MATTER_ERROR_of 67"
definition MATTER_ERROR_INVALID_DIRECTORY_ENTRY_TYPE :: MATTER_ERROR where [more_err_codes]: "MATTER_ERROR_INVALID_DIRECTORY_ENTRY_TYPE = MATTER_ERROR_of 68"
definition MATTER_ERROR_FORCED_RESET :: MATTER_ERROR where [more_err_codes]: "MATTER_ERROR_FORCED_RESET = MATTER_ERROR_of 69"
definition MATTER_ERROR_NO_ENDPOINT :: MATTER_ERROR where [more_err_codes]: "MATTER_ERROR_NO_ENDPOINT = MATTER_ERROR_of 70"
definition MATTER_ERROR_INVALID_DESTINATION_NODE_ID :: MATTER_ERROR where [more_err_codes]: "MATTER_ERROR_INVALID_DESTINATION_NODE_ID = MATTER_ERROR_of 71"
definition MATTER_ERROR_NOT_CONNECTED :: MATTER_ERROR where [more_err_codes]: "MATTER_ERROR_NOT_CONNECTED = MATTER_ERROR_of 72"
definition MATTER_ERROR_NO_SW_UPDATE_AVAILABLE :: MATTER_ERROR where [more_err_codes]: "MATTER_ERROR_NO_SW_UPDATE_AVAILABLE = MATTER_ERROR_of 73"
definition MATTER_ERROR_CA_CERT_NOT_FOUND :: MATTER_ERROR where [more_err_codes]: "MATTER_ERROR_CA_CERT_NOT_FOUND = MATTER_ERROR_of 74"
definition MATTER_ERROR_CERT_PATH_LEN_CONSTRAINT_EXCEEDED :: MATTER_ERROR where [more_err_codes]: "MATTER_ERROR_CERT_PATH_LEN_CONSTRAINT_EXCEEDED = MATTER_ERROR_of 75"
definition MATTER_ERROR_CERT_PATH_TOO_LONG :: MATTER_ERROR where [more_err_codes]: "MATTER_ERROR_CERT_PATH_TOO_LONG = MATTER_ERROR_of 76"
definition MATTER_ERROR_CERT_USAGE_NOT_ALLOWED :: MATTER_ERROR where [more_err_codes]: "MATTER_ERROR_CERT_USAGE_NOT_ALLOWED = MATTER_ERROR_of 77"
definition MATTER_ERROR_CERT_EXPIRED :: MATTER_ERROR where [more_err_codes]: "MATTER_ERROR_CERT_EXPIRED = MATTER_ERROR_of 78"
definition MATTER_ERROR_CERT_NOT_VALID_YET :: MATTER_ERROR where [more_err_codes]: "MATTER_ERROR_CERT_NOT_VALID_YET = MATTER_ERROR_of 79"
definition MATTER_ERROR_UNSUPPORTED_CERT_FORMAT :: MATTER_ERROR where [more_err_codes]: "MATTER_ERROR_UNSUPPORTED_CERT_FORMAT = MATTER_ERROR_of 80"
definition MATTER_ERROR_UNSUPPORTED_ELLIPTIC_CURVE :: MATTER_ERROR where [more_err_codes]: "MATTER_ERROR_UNSUPPORTED_ELLIPTIC_CURVE = MATTER_ERROR_of 81"
definition MATTER_CERT_NOT_USED :: MATTER_ERROR where [more_err_codes]: "MATTER_CERT_NOT_USED = MATTER_ERROR_of 82"
definition MATTER_ERROR_CERT_NOT_FOUND :: MATTER_ERROR where [more_err_codes]: "MATTER_ERROR_CERT_NOT_FOUND = MATTER_ERROR_of 83"
definition MATTER_ERROR_INVALID_CASE_PARAMETER :: MATTER_ERROR where [more_err_codes]: "MATTER_ERROR_INVALID_CASE_PARAMETER = MATTER_ERROR_of 84"
definition MATTER_ERROR_UNSUPPORTED_CASE_CONFIGURATION :: MATTER_ERROR where [more_err_codes]: "MATTER_ERROR_UNSUPPORTED_CASE_CONFIGURATION = MATTER_ERROR_of 85"
definition MATTER_ERROR_CERT_LOAD_FAIL :: MATTER_ERROR where [more_err_codes]: "MATTER_ERROR_CERT_LOAD_FAIL = MATTER_ERROR_of 86"
definition MATTER_ERROR_CERT_NOT_TRUSTED :: MATTER_ERROR where [more_err_codes]: "MATTER_ERROR_CERT_NOT_TRUSTED = MATTER_ERROR_of 87"
definition MATTER_ERROR_INVALID_ACCESS_TOKEN :: MATTER_ERROR where [more_err_codes]: "MATTER_ERROR_INVALID_ACCESS_TOKEN = MATTER_ERROR_of 88"
definition MATTER_ERROR_WRONG_CERT_SUBJECT :: MATTER_ERROR where [more_err_codes]: "MATTER_ERROR_WRONG_CERT_SUBJECT = MATTER_ERROR_of 89"
definition MATTER_ERROR_INVALID_PROVISIONING_BUNDLE :: MATTER_ERROR where [more_err_codes]: "MATTER_ERROR_INVALID_PROVISIONING_BUNDLE = MATTER_ERROR_of 90"
definition MATTER_ERROR_PROVISIONING_BUNDLE_DECRYPTION_ERROR :: MATTER_ERROR where [more_err_codes]: "MATTER_ERROR_PROVISIONING_BUNDLE_DECRYPTION_ERROR = MATTER_ERROR_of 91"
definition MATTER_ERROR_WRONG_NODE_ID :: MATTER_ERROR where [more_err_codes]: "MATTER_ERROR_WRONG_NODE_ID = MATTER_ERROR_of 92"
definition MATTER_ERROR_CONN_ACCEPTED_ON_WRONG_PORT :: MATTER_ERROR where [more_err_codes]: "MATTER_ERROR_CONN_ACCEPTED_ON_WRONG_PORT = MATTER_ERROR_of 93"
definition MATTER_ERROR_CALLBACK_REPLACED :: MATTER_ERROR where [more_err_codes]: "MATTER_ERROR_CALLBACK_REPLACED = MATTER_ERROR_of 94"
definition MATTER_ERROR_NO_CASE_AUTH_DELEGATE :: MATTER_ERROR where [more_err_codes]: "MATTER_ERROR_NO_CASE_AUTH_DELEGATE = MATTER_ERROR_of 95"
definition MATTER_ERROR_DEVICE_LOCATE_TIMEOUT :: MATTER_ERROR where [more_err_codes]: "MATTER_ERROR_DEVICE_LOCATE_TIMEOUT = MATTER_ERROR_of 96"
definition MATTER_ERROR_DEVICE_CONNECT_TIMEOUT :: MATTER_ERROR where [more_err_codes]: "MATTER_ERROR_DEVICE_CONNECT_TIMEOUT = MATTER_ERROR_of 97"
definition MATTER_ERROR_DEVICE_AUTH_TIMEOUT :: MATTER_ERROR where [more_err_codes]: "MATTER_ERROR_DEVICE_AUTH_TIMEOUT = MATTER_ERROR_of 98"
definition MATTER_ERROR_MESSAGE_NOT_ACKNOWLEDGED :: MATTER_ERROR where [more_err_codes]: "MATTER_ERROR_MESSAGE_NOT_ACKNOWLEDGED = MATTER_ERROR_of 99"
definition MATTER_ERROR_RETRANS_TABLE_FULL :: MATTER_ERROR where [more_err_codes]: "MATTER_ERROR_RETRANS_TABLE_FULL = MATTER_ERROR_of 100"
definition MATTER_ERROR_INVALID_ACK_ID :: MATTER_ERROR where [more_err_codes]: "MATTER_ERROR_INVALID_ACK_ID = MATTER_ERROR_of 101"
definition MATTER_ERROR_SEND_THROTTLED :: MATTER_ERROR where [more_err_codes]: "MATTER_ERROR_SEND_THROTTLED = MATTER_ERROR_of 102"
definition MATTER_ERROR_WRONG_MSG_VERSION_FOR_EXCHANGE :: MATTER_ERROR where [more_err_codes]: "MATTER_ERROR_WRONG_MSG_VERSION_FOR_EXCHANGE = MATTER_ERROR_of 103"
definition MATTER_ERROR_TRANSACTION_CANCELED :: MATTER_ERROR where [more_err_codes]: "MATTER_ERROR_TRANSACTION_CANCELED = MATTER_ERROR_of 104"
definition MATTER_ERROR_LISTENER_ALREADY_STARTED :: MATTER_ERROR where [more_err_codes]: "MATTER_ERROR_LISTENER_ALREADY_STARTED = MATTER_ERROR_of 105"
definition MATTER_ERROR_LISTENER_ALREADY_STOPPED :: MATTER_ERROR where [more_err_codes]: "MATTER_ERROR_LISTENER_ALREADY_STOPPED = MATTER_ERROR_of 106"
definition MATTER_ERROR_UNKNOWN_TOPIC :: MATTER_ERROR where [more_err_codes]: "MATTER_ERROR_UNKNOWN_TOPIC = MATTER_ERROR_of 107"
definition MATTER_ERROR_UNSUPPORTED_MATTER_FEATURE :: MATTER_ERROR where [more_err_codes]: "MATTER_ERROR_UNSUPPORTED_MATTER_FEATURE = MATTER_ERROR_of 108"
definition MATTER_ERROR_PASE_RECONFIGURE_REQUIRED :: MATTER_ERROR where [more_err_codes]: "MATTER_ERROR_PASE_RECONFIGURE_REQUIRED = MATTER_ERROR_of 109"
definition MATTER_ERROR_INVALID_PASE_CONFIGURATION :: MATTER_ERROR where [more_err_codes]: "MATTER_ERROR_INVALID_PASE_CONFIGURATION = MATTER_ERROR_of 110"
definition MATTER_ERROR_NO_COMMON_PASE_CONFIGURATIONS :: MATTER_ERROR where [more_err_codes]: "MATTER_ERROR_NO_COMMON_PASE_CONFIGURATIONS = MATTER_ERROR_of 111"
definition MATTER_ERROR_UNSOLICITED_MSG_NO_ORIGINATOR :: MATTER_ERROR where [more_err_codes]: "MATTER_ERROR_UNSOLICITED_MSG_NO_ORIGINATOR = MATTER_ERROR_of 112"
definition MATTER_ERROR_INVALID_FABRIC_ID :: MATTER_ERROR where [more_err_codes]: "MATTER_ERROR_INVALID_FABRIC_ID = MATTER_ERROR_of 113"
definition MATTER_ERROR_UNSUPPORTED_TUNNEL_VERSION :: MATTER_ERROR where [more_err_codes]: "MATTER_ERROR_UNSUPPORTED_TUNNEL_VERSION = MATTER_ERROR_of 114"
definition MATTER_ERROR_TUNNEL_NEXTHOP_TABLE_FULL :: MATTER_ERROR where [more_err_codes]: "MATTER_ERROR_TUNNEL_NEXTHOP_TABLE_FULL = MATTER_ERROR_of 115"
definition MATTER_ERROR_TUNNEL_SERVICE_QUEUE_FULL :: MATTER_ERROR where [more_err_codes]: "MATTER_ERROR_TUNNEL_SERVICE_QUEUE_FULL = MATTER_ERROR_of 116"
definition MATTER_ERROR_DRBG_ENTROPY_SOURCE_FAILED :: MATTER_ERROR where [more_err_codes]: "MATTER_ERROR_DRBG_ENTROPY_SOURCE_FAILED = MATTER_ERROR_of 117"
definition MATTER_ERROR_TLV_TAG_NOT_FOUND :: MATTER_ERROR where [more_err_codes]: "MATTER_ERROR_TLV_TAG_NOT_FOUND = MATTER_ERROR_of 118"
definition MATTER_ERROR_INVALID_TOKENPAIRINGBUNDLE :: MATTER_ERROR where [more_err_codes]: "MATTER_ERROR_INVALID_TOKENPAIRINGBUNDLE = MATTER_ERROR_of 119"
definition MATTER_ERROR_UNSUPPORTED_TOKENPAIRINGBUNDLE_VERSION :: MATTER_ERROR where [more_err_codes]: "MATTER_ERROR_UNSUPPORTED_TOKENPAIRINGBUNDLE_VERSION = MATTER_ERROR_of 120"
definition MATTER_ERROR_NO_TAKE_AUTH_DELEGATE :: MATTER_ERROR where [more_err_codes]: "MATTER_ERROR_NO_TAKE_AUTH_DELEGATE = MATTER_ERROR_of 121"
definition MATTER_ERROR_TAKE_RECONFIGURE_REQUIRED :: MATTER_ERROR where [more_err_codes]: "MATTER_ERROR_TAKE_RECONFIGURE_REQUIRED = MATTER_ERROR_of 122"
definition MATTER_ERROR_TAKE_REAUTH_POSSIBLE :: MATTER_ERROR where [more_err_codes]: "MATTER_ERROR_TAKE_REAUTH_POSSIBLE = MATTER_ERROR_of 123"
definition MATTER_ERROR_INVALID_TAKE_PARAMETER :: MATTER_ERROR where [more_err_codes]: "MATTER_ERROR_INVALID_TAKE_PARAMETER = MATTER_ERROR_of 124"
definition MATTER_ERROR_UNSUPPORTED_TAKE_CONFIGURATION :: MATTER_ERROR where [more_err_codes]: "MATTER_ERROR_UNSUPPORTED_TAKE_CONFIGURATION = MATTER_ERROR_of 125"
definition MATTER_ERROR_TAKE_TOKEN_IDENTIFICATION_FAILED :: MATTER_ERROR where [more_err_codes]: "MATTER_ERROR_TAKE_TOKEN_IDENTIFICATION_FAILED = MATTER_ERROR_of 126"
definition MATTER_ERROR_KEY_NOT_FOUND_FROM_PEER :: MATTER_ERROR where [more_err_codes]: "MATTER_ERROR_KEY_NOT_FOUND_FROM_PEER = MATTER_ERROR_of 127"
definition MATTER_ERROR_WRONG_ENCRYPTION_TYPE_FROM_PEER :: MATTER_ERROR where [more_err_codes]: "MATTER_ERROR_WRONG_ENCRYPTION_TYPE_FROM_PEER = MATTER_ERROR_of 128"
definition MATTER_ERROR_UNKNOWN_KEY_TYPE_FROM_PEER :: MATTER_ERROR where [more_err_codes]: "MATTER_ERROR_UNKNOWN_KEY_TYPE_FROM_PEER = MATTER_ERROR_of 129"
definition MATTER_ERROR_INVALID_USE_OF_SESSION_KEY_FROM_PEER :: MATTER_ERROR where [more_err_codes]: "MATTER_ERROR_INVALID_USE_OF_SESSION_KEY_FROM_PEER = MATTER_ERROR_of 130"
definition MATTER_ERROR_UNSUPPORTED_ENCRYPTION_TYPE_FROM_PEER :: MATTER_ERROR where [more_err_codes]: "MATTER_ERROR_UNSUPPORTED_ENCRYPTION_TYPE_FROM_PEER = MATTER_ERROR_of 131"
definition MATTER_ERROR_INTERNAL_KEY_ERROR_FROM_PEER :: MATTER_ERROR where [more_err_codes]: "MATTER_ERROR_INTERNAL_KEY_ERROR_FROM_PEER = MATTER_ERROR_of 132"
definition MATTER_ERROR_INVALID_KEY_ID :: MATTER_ERROR where [more_err_codes]: "MATTER_ERROR_INVALID_KEY_ID = MATTER_ERROR_of 133"
definition MATTER_ERROR_INVALID_TIME :: MATTER_ERROR where [more_err_codes]: "MATTER_ERROR_INVALID_TIME = MATTER_ERROR_of 134"
definition MATTER_ERROR_TUNNEL_PEER_ENTRY_NOT_FOUND :: MATTER_ERROR where [more_err_codes]: "MATTER_ERROR_TUNNEL_PEER_ENTRY_NOT_FOUND = MATTER_ERROR_of 135"
definition MATTER_ERROR_LOCKING_FAILURE :: MATTER_ERROR where [more_err_codes]: "MATTER_ERROR_LOCKING_FAILURE = MATTER_ERROR_of 136"
definition MATTER_ERROR_UNSUPPORTED_PASSCODE_CONFIG :: MATTER_ERROR where [more_err_codes]: "MATTER_ERROR_UNSUPPORTED_PASSCODE_CONFIG = MATTER_ERROR_of 137"
definition MATTER_ERROR_PASSCODE_AUTHENTICATION_FAILED :: MATTER_ERROR where [more_err_codes]: "MATTER_ERROR_PASSCODE_AUTHENTICATION_FAILED = MATTER_ERROR_of 138"
definition MATTER_ERROR_PASSCODE_FINGERPRINT_FAILED :: MATTER_ERROR where [more_err_codes]: "MATTER_ERROR_PASSCODE_FINGERPRINT_FAILED = MATTER_ERROR_of 139"
definition MATTER_ERROR_TUNNEL_FORCE_ABORT :: MATTER_ERROR where [more_err_codes]: "MATTER_ERROR_TUNNEL_FORCE_ABORT = MATTER_ERROR_of 140"
definition MATTER_ERROR_SERIALIZATION_ELEMENT_NULL :: MATTER_ERROR where [more_err_codes]: "MATTER_ERROR_SERIALIZATION_ELEMENT_NULL = MATTER_ERROR_of 141"
definition MATTER_ERROR_WRONG_CERT_SIGNATURE_ALGORITHM :: MATTER_ERROR where [more_err_codes]: "MATTER_ERROR_WRONG_CERT_SIGNATURE_ALGORITHM = MATTER_ERROR_of 142"
definition MATTER_ERROR_WRONG_MATTER_SIGNATURE_ALGORITHM :: MATTER_ERROR where [more_err_codes]: "MATTER_ERROR_WRONG_MATTER_SIGNATURE_ALGORITHM = MATTER_ERROR_of 143"
definition MATTER_ERROR_IM_SCHEMA_MISMATCH :: MATTER_ERROR where [more_err_codes]: "MATTER_ERROR_IM_SCHEMA_MISMATCH = MATTER_ERROR_of 144"
definition MATTER_ERROR_INVALID_INTEGER_VALUE :: MATTER_ERROR where [more_err_codes]: "MATTER_ERROR_INVALID_INTEGER_VALUE = MATTER_ERROR_of 145"
definition MATTER_ERROR_CASE_RECONFIG_REQUIRED :: MATTER_ERROR where [more_err_codes]: "MATTER_ERROR_CASE_RECONFIG_REQUIRED = MATTER_ERROR_of 146"
definition MATTER_ERROR_TOO_MANY_CASE_RECONFIGURATIONS :: MATTER_ERROR where [more_err_codes]: "MATTER_ERROR_TOO_MANY_CASE_RECONFIGURATIONS = MATTER_ERROR_of 147"
definition MATTER_ERROR_BAD_REQUEST :: MATTER_ERROR where [more_err_codes]: "MATTER_ERROR_BAD_REQUEST = MATTER_ERROR_of 148"
definition MATTER_ERROR_INVALID_MESSAGE_FLAG :: MATTER_ERROR where [more_err_codes]: "MATTER_ERROR_INVALID_MESSAGE_FLAG = MATTER_ERROR_of 149"
definition MATTER_ERROR_KEY_EXPORT_RECONFIGURE_REQUIRED :: MATTER_ERROR where [more_err_codes]: "MATTER_ERROR_KEY_EXPORT_RECONFIGURE_REQUIRED = MATTER_ERROR_of 150"
definition MATTER_ERROR_INVALID_KEY_EXPORT_CONFIGURATION :: MATTER_ERROR where [more_err_codes]: "MATTER_ERROR_INVALID_KEY_EXPORT_CONFIGURATION = MATTER_ERROR_of 151"
definition MATTER_ERROR_NO_COMMON_KEY_EXPORT_CONFIGURATIONS :: MATTER_ERROR where [more_err_codes]: "MATTER_ERROR_NO_COMMON_KEY_EXPORT_CONFIGURATIONS = MATTER_ERROR_of 152"
definition MATTER_ERROR_NO_KEY_EXPORT_DELEGATE :: MATTER_ERROR where [more_err_codes]: "MATTER_ERROR_NO_KEY_EXPORT_DELEGATE = MATTER_ERROR_of 153"
definition MATTER_ERROR_UNAUTHORIZED_KEY_EXPORT_REQUEST :: MATTER_ERROR where [more_err_codes]: "MATTER_ERROR_UNAUTHORIZED_KEY_EXPORT_REQUEST = MATTER_ERROR_of 154"
definition MATTER_ERROR_UNAUTHORIZED_KEY_EXPORT_RESPONSE :: MATTER_ERROR where [more_err_codes]: "MATTER_ERROR_UNAUTHORIZED_KEY_EXPORT_RESPONSE = MATTER_ERROR_of 155"
definition MATTER_ERROR_EXPORTED_KEY_AUTHENTICATION_FAILED :: MATTER_ERROR where [more_err_codes]: "MATTER_ERROR_EXPORTED_KEY_AUTHENTICATION_FAILED = MATTER_ERROR_of 156"
definition MATTER_ERROR_TOO_MANY_SHARED_SESSION_END_NODES :: MATTER_ERROR where [more_err_codes]: "MATTER_ERROR_TOO_MANY_SHARED_SESSION_END_NODES = MATTER_ERROR_of 157"
definition MATTER_ERROR_IM_MALFORMED_DATA_ELEMENT :: MATTER_ERROR where [more_err_codes]: "MATTER_ERROR_IM_MALFORMED_DATA_ELEMENT = MATTER_ERROR_of 158"
definition MATTER_ERROR_WRONG_CERT_TYPE :: MATTER_ERROR where [more_err_codes]: "MATTER_ERROR_WRONG_CERT_TYPE = MATTER_ERROR_of 159"

section \<open>Texts\<close>

text \<open>The cases of the \<open>switch\<close>, up to and from the errors of certificates.\<close>

definition first_error_texts :: "(MATTER_ERROR \<times> string) list" where
  "first_error_texts =
     [(MATTER_ERROR_TOO_MANY_CONNECTIONS, ''Too many connections''),
      (MATTER_ERROR_SENDING_BLOCKED, ''Sending blocked''),
      (MATTER_ERROR_CONNECTION_ABORTED, ''Connection aborted''),
      (MATTER_ERROR_INCORRECT_STATE, ''Incorrect state''),
      (MATTER_ERROR_MESSAGE_TOO_LONG, ''Message too long''),
      (MATTER_ERROR_UNSUPPORTED_EXCHANGE_VERSION, ''Unsupported exchange version''),
      (MATTER_ERROR_TOO_MANY_UNSOLICITED_MESSAGE_HANDLERS, ''Too many unsolicited message handlers''),
      (MATTER_ERROR_NO_UNSOLICITED_MESSAGE_HANDLER, ''No unsolicited message handler''),
      (MATTER_ERROR_NO_CONNECTION_HANDLER, ''No connection handler''),
      (MATTER_ERROR_TOO_MANY_PEER_NODES, ''Too many peer nodes''),
      (MATTER_ERROR_NO_MEMORY, ''No memory''),
      (MATTER_ERROR_NO_MESSAGE_HANDLER, ''No message handler''),
      (MATTER_ERROR_MESSAGE_INCOMPLETE, ''Message incomplete''),
      (MATTER_ERROR_DATA_NOT_ALIGNED, ''Data not aligned''),
      (MATTER_ERROR_UNKNOWN_KEY_TYPE, ''Unknown key type''),
      (MATTER_ERROR_KEY_NOT_FOUND, ''Key not found''),
      (MATTER_ERROR_WRONG_ENCRYPTION_TYPE, ''Wrong encryption type''),
      (MATTER_ERROR_TOO_MANY_KEYS, ''Too many keys''),
      (MATTER_ERROR_INTEGRITY_CHECK_FAILED, ''Integrity check failed''),
      (MATTER_ERROR_INVALID_SIGNATURE, ''Invalid signature''),
      (MATTER_ERROR_UNSUPPORTED_MESSAGE_VERSION, ''Unsupported message version''),
      (MATTER_ERROR_UNSUPPORTED_ENCRYPTION_TYPE, ''Unsupported encryption type''),
      (MATTER_ERROR_UNSUPPORTED_SIGNATURE_TYPE, ''Unsupported signature type''),
      (MATTER_ERROR_INVALID_MESSAGE_LENGTH, ''Invalid message length''),
      (MATTER_ERROR_BUFFER_TOO_SMALL, ''Buffer too small''),
      (MATTER_ERROR_DUPLICATE_KEY_ID, ''Duplicate key id''),
      (MATTER_ERROR_WRONG_KEY_TYPE, ''Wrong key type''),
      (MATTER_ERROR_WELL_UNINITIALIZED, ''Well uninitialized''),
      (MATTER_ERROR_WELL_EMPTY, ''Well empty''),
      (MATTER_ERROR_INVALID_STRING_LENGTH, ''Invalid string length''),
      (MATTER_ERROR_INVALID_LIST_LENGTH, ''invalid list length''),
      (MATTER_ERROR_INVALID_INTEGRITY_TYPE, ''Invalid integrity type''),
      (MATTER_END_OF_TLV, ''End of TLV''),
      (MATTER_ERROR_TLV_UNDERRUN, ''TLV underrun''),
      (MATTER_ERROR_INVALID_TLV_ELEMENT, ''Invalid TLV element''),
      (MATTER_ERROR_INVALID_TLV_TAG, ''Invalid TLV tag''),
      (MATTER_ERROR_UNKNOWN_IMPLICIT_TLV_TAG, ''Unknown implicit TLV tag''),
      (MATTER_ERROR_WRONG_TLV_TYPE, ''Wrong TLV type''),
      (MATTER_ERROR_TLV_CONTAINER_OPEN, ''TLV container open''),
      (MATTER_ERROR_INVALID_TRANSFER_MODE, ''Invalid transfer mode''),
      (MATTER_ERROR_INVALID_PROFILE_ID, ''Invalid profile id''),
      (MATTER_ERROR_INVALID_MESSAGE_TYPE, ''Invalid message type''),
      (MATTER_ERROR_UNEXPECTED_TLV_ELEMENT, ''Unexpected TLV element''),
      (MATTER_ERROR_STATUS_REPORT_RECEIVED, ''Status Report received from peer''),
      (MATTER_ERROR_NOT_IMPLEMENTED, ''Not Implemented''),
      (MATTER_ERROR_INVALID_ADDRESS, ''Invalid address''),
      (MATTER_ERROR_INVALID_ARGUMENT, ''Invalid argument''),
      (MATTER_ERROR_TLV_TAG_NOT_FOUND, ''TLV tag not found''),
      (MATTER_ERROR_INVALID_PATH_LIST, ''Invalid TLV path list''),
      (MATTER_ERROR_INVALID_DATA_LIST, ''Invalid TLV data list''),
      (MATTER_ERROR_TRANSACTION_CANCELED, ''Transaction canceled''),
      (MATTER_ERROR_LISTENER_ALREADY_STARTED, ''Listener already started''),
      (MATTER_ERROR_LISTENER_ALREADY_STOPPED, ''Listener already stopped''),
      (MATTER_ERROR_UNKNOWN_TOPIC, ''Unknown Topic''),
      (MATTER_ERROR_TIMEOUT, ''Timeout''),
      (MATTER_ERROR_INVALID_DEVICE_DESCRIPTOR, ''Invalid device descriptor''),
      (MATTER_ERROR_UNSUPPORTED_DEVICE_DESCRIPTOR_VERSION, ''Unsupported device descriptor version''),
      (MATTER_END_OF_INPUT, ''End of input''),
      (MATTER_ERROR_RATE_LIMIT_EXCEEDED, ''Rate limit exceeded''),
      (MATTER_ERROR_SECURITY_MANAGER_BUSY, ''Security manager busy''),
      (MATTER_ERROR_INVALID_PASE_PARAMETER, ''Invalid PASE parameter''),
      (MATTER_ERROR_PASE_SUPPORTS_ONLY_CONFIG1, ''PASE supports only Config1''),
      (MATTER_ERROR_NO_COMMON_PASE_CONFIGURATIONS, ''No supported PASE configurations in common''),
      (MATTER_ERROR_INVALID_PASE_CONFIGURATION, ''Invalid PASE configuration''),
      (MATTER_ERROR_KEY_CONFIRMATION_FAILED, ''Key confirmation failed''),
      (MATTER_ERROR_INVALID_USE_OF_SESSION_KEY, ''Invalid use of session key''),
      (MATTER_ERROR_CONNECTION_CLOSED_UNEXPECTEDLY, ''Connection closed unexpectedly''),
      (MATTER_ERROR_MISSING_TLV_ELEMENT, ''Missing TLV element''),
      (MATTER_ERROR_RANDOM_DATA_UNAVAILABLE, ''Random data unavailable''),
      (MATTER_ERROR_UNSUPPORTED_HOST_PORT_ELEMENT, ''Unsupported type in host/port list''),
      (MATTER_ERROR_INVALID_HOST_SUFFIX_INDEX, ''Invalid suffix index in host/port list''),
      (MATTER_ERROR_HOST_PORT_LIST_EMPTY, ''Host/port empty''),
      (MATTER_ERROR_UNSUPPORTED_AUTH_MODE, ''Unsupported authentication mode''),
      (MATTER_ERROR_INVALID_SERVICE_EP, ''Invalid service endpoint''),
      (MATTER_ERROR_INVALID_DIRECTORY_ENTRY_TYPE, ''Invalid directory entry type''),
      (MATTER_ERROR_FORCED_RESET, ''Service manager forced reset''),
      (MATTER_ERROR_NO_ENDPOINT, ''No endpoint was available to send the message''),
      (MATTER_ERROR_INVALID_DESTINATION_NODE_ID, ''Invalid destination node id''),
      (MATTER_ERROR_NOT_CONNECTED, ''Not connected''),
      (MATTER_ERROR_NO_SW_UPDATE_AVAILABLE, ''No SW update available'')]"

definition last_error_texts :: "(MATTER_ERROR \<times> string) list" where
  "last_error_texts =
     [(MATTER_ERROR_CA_CERT_NOT_FOUND, ''CA certificate not found''),
      (MATTER_ERROR_CERT_PATH_LEN_CONSTRAINT_EXCEEDED, ''Certificate path length constraint exceeded''),
      (MATTER_ERROR_CERT_PATH_TOO_LONG, ''Certificate path too long''),
      (MATTER_ERROR_CERT_USAGE_NOT_ALLOWED, ''Requested certificate usage is not allowed''),
      (MATTER_ERROR_CERT_EXPIRED, ''Certificate expired''),
      (MATTER_ERROR_CERT_NOT_VALID_YET, ''Certificate not yet valid''),
      (MATTER_ERROR_UNSUPPORTED_CERT_FORMAT, ''Unsupported certificate format''),
      (MATTER_ERROR_UNSUPPORTED_ELLIPTIC_CURVE, ''Unsupported elliptic curve''),
      (MATTER_CERT_NOT_USED, ''Certificate was not used in chain validation''),
      (MATTER_ERROR_CERT_NOT_FOUND, ''Certificate not found''),
      (MATTER_ERROR_INVALID_CASE_PARAMETER, ''Invalid CASE parameter''),
      (MATTER_ERROR_UNSUPPORTED_CASE_CONFIGURATION, ''Unsupported CASE configuration''),
      (MATTER_ERROR_CERT_LOAD_FAIL, ''Unable to load certificate''),
      (MATTER_ERROR_CERT_NOT_TRUSTED, ''Certificate not trusted''),
      (MATTER_ERROR_INVALID_ACCESS_TOKEN, ''Invalid access token''),
      (MATTER_ERROR_WRONG_CERT_SUBJECT, ''Wrong certificate subject''),
      (MATTER_ERROR_WRONG_NODE_ID, ''Wrong node ID''),
      (MATTER_ERROR_CONN_ACCEPTED_ON_WRONG_PORT, ''Connection accepted on wrong port''),
      (MATTER_ERROR_CALLBACK_REPLACED, ''Application callback replaced''),
      (MATTER_ERROR_NO_CASE_AUTH_DELEGATE, ''No CASE auth delegate set''),
      (MATTER_ERROR_DEVICE_LOCATE_TIMEOUT, ''Timeout attempting to locate device''),
      (MATTER_ERROR_DEVICE_CONNECT_TIMEOUT, ''Timeout connecting to device''),
      (MATTER_ERROR_DEVICE_AUTH_TIMEOUT, ''Timeout authenticating device''),
      (MATTER_ERROR_MESSAGE_NOT_ACKNOWLEDGED, ''Message not acknowledged after max retries''),
      (MATTER_ERROR_RETRANS_TABLE_FULL, ''Retransmit Table is already full''),
      (MATTER_ERROR_INVALID_ACK_ID, ''Invalid Acknowledgment Id''),
      (MATTER_ERROR_SEND_THROTTLED, ''Sending to peer is throttled on this Exchange''),
      (MATTER_ERROR_WRONG_MSG_VERSION_FOR_EXCHANGE, ''Message version not supported by current exchange context''),
      (MATTER_ERROR_UNSUPPORTED_MATTER_FEATURE, ''Required feature not supported by this configuration''),
      (MATTER_ERROR_UNSOLICITED_MSG_NO_ORIGINATOR, ''Unsolicited msg with originator bit clear''),
      (MATTER_ERROR_UNSUPPORTED_TUNNEL_VERSION, ''Unsupported Tunnel version''),
      (MATTER_ERROR_INVALID_FABRIC_ID, ''Invalid Fabric Id''),
      (MATTER_ERROR_TUNNEL_NEXTHOP_TABLE_FULL, ''Local tunnel nexthop table full''),
      (MATTER_ERROR_TUNNEL_SERVICE_QUEUE_FULL, ''Service queue full''),
      (MATTER_ERROR_TUNNEL_PEER_ENTRY_NOT_FOUND, ''Shortcut Tunnel peer entry not found''),
      (MATTER_ERROR_TUNNEL_FORCE_ABORT, ''Forced Tunnel Abort.''),
      (MATTER_ERROR_DRBG_ENTROPY_SOURCE_FAILED, ''DRBG entropy source failed to generate entropy data''),
      (MATTER_ERROR_NO_TAKE_AUTH_DELEGATE, ''No TAKE auth delegate set''),
      (MATTER_ERROR_TAKE_RECONFIGURE_REQUIRED, ''TAKE requires a reconfigure''),
      (MATTER_ERROR_TAKE_REAUTH_POSSIBLE, ''TAKE can do a reauthentication''),
      (MATTER_ERROR_INVALID_TAKE_PARAMETER, ''TAKE received an invalid parameter''),
      (MATTER_ERROR_UNSUPPORTED_TAKE_CONFIGURATION, ''TAKE Unsupported configuration''),
      (MATTER_ERROR_TAKE_TOKEN_IDENTIFICATION_FAILED, ''TAKE token identification failed''),
      (MATTER_ERROR_INVALID_TOKENPAIRINGBUNDLE, ''Invalid Token Pairing Bundle''),
      (MATTER_ERROR_UNSUPPORTED_TOKENPAIRINGBUNDLE_VERSION, ''Unsupported Token Pairing Bundle version''),
      (MATTER_ERROR_KEY_NOT_FOUND_FROM_PEER, ''Key not found error code received from peer''),
      (MATTER_ERROR_WRONG_ENCRYPTION_TYPE_FROM_PEER, ''Wrong encryption type error code received from peer''),
      (MATTER_ERROR_UNKNOWN_KEY_TYPE_FROM_PEER, ''Unknown key type error code received from peer''),
      (MATTER_ERROR_INVALID_USE_OF_SESSION_KEY_FROM_PEER, ''Invalid use of session key error code received from peer''),
      (MATTER_ERROR_UNSUPPORTED_ENCRYPTION_TYPE_FROM_PEER, ''Unsupported encryption type error code received from peer''),
      (MATTER_ERROR_INTERNAL_KEY_ERROR_FROM_PEER, ''Internal key error code received from peer''),
      (MATTER_ERROR_INVALID_KEY_ID, ''Invalid key identifier''),
      (MATTER_ERROR_INVALID_TIME, ''Valid time value is not available''),
      (MATTER_ERROR_LOCKING_FAILURE, ''Failure to lock/unlock OS-provided lock''),
      (MATTER_ERROR_UNSUPPORTED_PASSCODE_CONFIG, ''Unsupported passcode encryption configuration.''),
      (MATTER_ERROR_PASSCODE_AUTHENTICATION_FAILED, ''Passcode authentication failed.''),
      (MATTER_ERROR_PASSCODE_FINGERPRINT_FAILED, ''Passcode fingerprint failed.''),
      (MATTER_ERROR_SERIALIZATION_ELEMENT_NULL, ''Element requested is null.''),
      (MATTER_ERROR_WRONG_CERT_SIGNATURE_ALGORITHM, ''Certificate not signed with required signature algorithm''),
      (MATTER_ERROR_WRONG_MATTER_SIGNATURE_ALGORITHM, ''Matter signature not signed with required signature algorithm''),
      (MATTER_ERROR_IM_SCHEMA_MISMATCH, ''Schema mismatch in IM.''),
      (MATTER_ERROR_INVALID_INTEGER_VALUE, ''Invalid integer value.''),
      (MATTER_ERROR_TOO_MANY_CASE_RECONFIGURATIONS, ''Too many CASE reconfigurations were received.''),
      (MATTER_ERROR_INVALID_MESSAGE_FLAG, ''Invalid message flag.''),
      (MATTER_ERROR_NO_COMMON_KEY_EXPORT_CONFIGURATIONS, ''No supported key export protocol configurations in common''),
      (MATTER_ERROR_INVALID_KEY_EXPORT_CONFIGURATION, ''Invalid key export protocol configuration''),
      (MATTER_ERROR_NO_KEY_EXPORT_DELEGATE, ''No key export protocol delegate set''),
      (MATTER_ERROR_UNAUTHORIZED_KEY_EXPORT_REQUEST, ''Unauthorized key export request''),
      (MATTER_ERROR_UNAUTHORIZED_KEY_EXPORT_RESPONSE, ''Unauthorized key export response''),
      (MATTER_ERROR_EXPORTED_KEY_AUTHENTICATION_FAILED, ''Exported key authentication failed''),
      (MATTER_ERROR_TOO_MANY_SHARED_SESSION_END_NODES, ''Too many shared session end nodes''),
      (MATTER_ERROR_IM_MALFORMED_DATA_ELEMENT, ''Malformed IM DataElement''),
      (MATTER_ERROR_WRONG_CERT_TYPE, ''Wrong certificate type'')]"

definition error_texts :: "(MATTER_ERROR \<times> string) list" where
  "error_texts = first_error_texts @ last_error_texts"

definition ERROR_STR_SIZE :: nat where "ERROR_STR_SIZE = 1000"

definition FormatError :: "int \<Rightarrow> string" where
  "FormatError err = take (ERROR_STR_SIZE - 1) (''Error '' @ sdec err)"

definition SubsystemFormatError :: "string \<Rightarrow> int \<Rightarrow> string" where
  "SubsystemFormatError subsystem err = take (ERROR_STR_SIZE - 1) (subsystem @ '' Error '' @ sdec err)"

definition SubsystemFormatError_described :: "string \<Rightarrow> int \<Rightarrow> string \<Rightarrow> string" where
  "SubsystemFormatError_described subsystem err description =
     take (ERROR_STR_SIZE - 1) (subsystem @ '' Error '' @ sdec err @ '': '' @ description)"

definition MatterFormatError :: "int \<Rightarrow> string \<Rightarrow> string" where
  "MatterFormatError err description = SubsystemFormatError_described ''Matter'' err description"

text \<open>The argument is an \<open>int32_t\<close>.\<close>

definition ErrorStr :: "u32 \<Rightarrow> string" where
  "ErrorStr e =
     (let err = sint e in
      if err = 0 then ''No Error''
      else case map_of error_texts err of
        Some description \<Rightarrow> MatterFormatError err description
      | None \<Rightarrow>
          if MATTER_ERROR_MIN \<le> err \<and> err \<le> MATTER_ERROR_MAX then SubsystemFormatError ''Matter'' err
          else FormatError err)"

section \<open>The text names the code\<close>

text \<open>The cases of the \<open>switch\<close> are distinct, each has the text of its row.\<close>

lemma error_codes_distinct: "distinct (map fst error_texts)"
  by code_simp

lemma error_texts_short: "(e, d) \<in> set error_texts \<Longrightarrow> length d < 100"
proof -
  have "list_all (\<lambda>(e, d). length d < 100) error_texts" by code_simp
  then show "(e, d) \<in> set error_texts \<Longrightarrow> length d < 100" by (auto simp: list_all_iff)
qed

lemma length_sdec_32: "length (sdec (sint (e :: u32))) < 12"
proof -
  have b: "- 2147483648 \<le> sint e \<and> sint e < 2147483648"
    using sint_ge [of e] sint_lt [of e] by simp
  have d: "n \<le> 2147483648 \<Longrightarrow> length (dec n) < 11" for n
    using length_digits [of 10 n 10] by (simp add: dec_def)
  have "nat (sint e) \<le> 2147483648" "nat (- sint e) \<le> 2147483648" using b by auto
  from d [OF this(1)] d [OF this(2)] show ?thesis by (auto simp: sdec_def)
qed

lemma ErrorStr_described:
  assumes "(sint e, d) \<in> set error_texts" and "sint e \<noteq> 0"
  shows "ErrorStr e = ''Matter Error '' @ sdec (sint e) @ '': '' @ d"
  using assms error_texts_short [OF assms(1)] length_sdec_32 [of e] error_codes_distinct
  by (simp add: ErrorStr_def Let_def MatterFormatError_def SubsystemFormatError_described_def ERROR_STR_SIZE_def)

lemma ErrorStr_cases:
  obtains (none) "ErrorStr e = ''No Error''" "sint e = 0"
    | (described) d where "ErrorStr e = ''Matter Error '' @ sdec (sint e) @ '': '' @ d" "sint e \<noteq> 0"
    | (matter) "ErrorStr e = ''Matter Error '' @ sdec (sint e)" "sint e \<noteq> 0"
    | (other) "ErrorStr e = ''Error '' @ sdec (sint e)" "sint e \<noteq> 0"
proof (cases "sint e = 0")
  case True
  then show ?thesis using none by (simp add: ErrorStr_def)
next
  case False
  note nz = this
  show ?thesis
  proof (cases "map_of error_texts (sint e)")
    case None
    then have "ErrorStr e = (if MATTER_ERROR_MIN \<le> sint e \<and> sint e \<le> MATTER_ERROR_MAX
        then ''Matter Error '' @ sdec (sint e) else ''Error '' @ sdec (sint e))"
      using nz length_sdec_32 [of e]
      by (simp add: ErrorStr_def Let_def SubsystemFormatError_def FormatError_def ERROR_STR_SIZE_def)
    then show ?thesis using matter other nz by presburger
  next
    case (Some d)
    then show ?thesis using described [of d] ErrorStr_described [OF map_of_SomeD [OF Some] nz] nz by blast
  qed
qed

lemma sdec_inj: "sdec i = sdec j \<Longrightarrow> i = j"
proof -
  have m: "CHR ''-'' \<notin> set (dec n)" for n using dec_chars [of "CHR ''-''" n] by auto
  then have ne: "dec n \<noteq> CHR ''-'' # xs" for n xs by (metis list.set_intros(1))
  assume e: "sdec i = sdec j"
  show "i = j"
  proof (cases "i < 0"; cases "j < 0")
    assume "i < 0" "j < 0"
    then show ?thesis using e dec_inj [of "nat (- i)" "nat (- j)"] by (simp add: sdec_def)
  next
    assume "\<not> i < 0" "\<not> j < 0"
    then show ?thesis using e dec_inj [of "nat i" "nat j"] by (simp add: sdec_def)
  qed (use e ne ne [symmetric] in \<open>auto simp: sdec_def\<close>)
qed

text \<open>What is in front of the first colon tells the number.\<close>

lemma ErrorStr_head:
  "takeWhile (\<lambda>c. c \<noteq> CHR '':'') (ErrorStr e) =
     (if sint e = 0 then ''No Error''
      else if hd (ErrorStr e) = CHR ''M'' then ''Matter Error '' @ sdec (sint e) else ''Error '' @ sdec (sint e))"
proof -
  have "CHR '':'' \<notin> set (sdec i)" for i using dec_chars [of "CHR '':''"] by (auto simp: sdec_def)
  then have n: "takeWhile (\<lambda>c. c \<noteq> CHR '':'') (sdec i @ zs) = sdec i @ takeWhile (\<lambda>c. c \<noteq> CHR '':'') zs"
    "takeWhile (\<lambda>c. c \<noteq> CHR '':'') (sdec i) = sdec i" for i zs
    by (auto simp: takeWhile_append takeWhile_eq_all_conv)
  show ?thesis
    by (rule ErrorStr_cases [of e]) (simp_all add: n)
qed

theorem ErrorStr_inj: "ErrorStr e = ErrorStr f \<longleftrightarrow> e = f"
proof
  assume eq: "ErrorStr e = ErrorStr f"
  have "sint e = sint f"
    using ErrorStr_head [of e] ErrorStr_head [of f] eq sdec_inj [of "sint e" "sint f"] by (simp split: if_splits)
  then show "e = f" by (rule signed_word_eqI)
qed simp

end
