(* ===== verification/Protocol_Properties.thy ===== *)
theory Protocol_Properties
  imports Message_Properties Key_Derivation Security_Exchange Item_Types_All Plugin_Setup IM_Layout IM_Values_Inv Case_Session Error_Text
begin

text \<open>
  The properties of the dissectors of the protocols and of what they use: the key derivation, the session key of a
  CASE exchange, the items and the results of the messages of session establishment, a packet from its first byte to
  those items, the texts of statuses, commissioning declarations, and the requests of the interaction model.
\<close>

section \<open>Samples\<close>

text \<open>What the memory of an object on the stack holds, and a host on which no call fails.\<close>

definition stack_object :: dissector where
  "stack_object = tlv_reader.extend
     \<lparr>mElemTag = 0, mElemLenOrVal = 0, mBufHandle = 0, mBuf = [], mReadPoint = 0, mBufEnd = 0, mLenRead = 0, mMaxLen = 0,
      mContainerType = 0, mControlByte = 0, mContainerOpen = False, ImplicitProfileId = 0, AppData = 0, GetNextBuffer = None\<rparr>
     \<lparr>mSourceBufBaseOffset = 0, mElemStart = 0, mElemLen = 0, mLastItem = None, mContainerStack = None,
      mContainerStackSize = 0, mContainerDepth = 0, trace = []\<rparr>"

definition sample_registry :: registry where
  "sample_registry = plain_registry stack_object common_fields"

lemma sample_registry_memory: "memory_ok (reg_env sample_registry)"
  by (simp add: sample_registry_def plain_registry_def memory_ok_def)

text \<open>A hash of a given size whose bytes are all the number of bytes hashed.\<close>

definition counting_md :: "nat \<Rightarrow> evp_md" where
  "counting_md n = \<lparr>EVP_MD_size = n, hmac_of = (\<lambda>k m. replicate n (of_nat (length k + length m))),
     hmac_fails = (\<lambda>_ _. False), hmac_init_fails = (\<lambda>_. False), hmac_update_fails = (\<lambda>_ _. False),
     hmac_final_fails = (\<lambda>_. False)\<rparr>"

lemma counting_md_works: "0 < n \<Longrightarrow> md_works (counting_md n)"
  by (simp add: md_works_def counting_md_def)

definition counting_crypto :: case_crypto where
  "counting_crypto = \<lparr>SHA1 = (\<lambda>m. replicate 20 (of_nat (length m))), SHA256 = (\<lambda>m. replicate 32 (of_nat (length m))),
     EVP_sha1 = counting_md 20, EVP_sha256 = counting_md 32\<rparr>"

lemma counting_crypto_works: "case_crypto_works counting_crypto"
  by (simp add: case_crypto_works_def counting_crypto_def counting_md_works) (simp add: counting_md_def)

definition no_view :: view where
  "no_view = \<lparr>view_items = [], info_column = [], view_calls = []\<rparr>"

section \<open>Keys\<close>

text \<open>
  C29. \<open>HKDF_expand\<close>: the loop over blocks, with its one-byte counter and the pointer that moves through the output,
  returns for every length. Its output is the expansion of RFC 5869, the first octets of T(1) T(2) \<dots> with
  T(i) the hash of T(i - 1), the information and i, when the length is between 1 and 255 times the size of the hash, and it
  gives up on every other length.
\<close>

theorem hkdf_is_rfc5869:
  assumes "md_works md"
  shows "HKDF_expand md prk info len =
    Some (if 1 \<le> len \<and> len \<le> 255 * EVP_MD_size md then Some (hkdf_okm md prk info len) else None)"
  by (rule HKDF_expand_okm [OF assms])

theorem hkdf_is_rfc5869_witness:
  "HKDF_expand (counting_md 32) [1, 2] [3] 48 =
    Some (if 1 \<le> (48::nat) \<and> 48 \<le> 255 * EVP_MD_size (counting_md 32)
      then Some (hkdf_okm (counting_md 32) [1, 2] [3] 48) else None)"
  by (rule hkdf_is_rfc5869) (simp add: counting_md_works)

text \<open>
  C30. A CASE exchange. When the begin-session request and the response to it are dissected, the response later in the
  same exchange, with messages that belong to no CASE exchange between them, and the shared secret can be told from
  the public keys because one of them is the generator of the curve, then both dissectors take the whole of their message and the
  session key, derived from that secret with the hashes of exactly the signed bytes of both messages as the salt, is
  in the key table under the identifier that the initiator proposed, with every older key still in place.
\<close>

theorem case_keys_learned:
  assumes "case_crypto_works C" and "request_ok R q" "response_ok R r" and "key_table_inv (ms_keys s)"
    and "is_chain nextByExchange prevByExchange (records (ms_tracker s)) None p (xs @ i # ys @ j # zs)"
    and "\<forall>x \<in> set (i # ys @ [j]). caseExchangeRec (records (ms_tracker s) ! x) = None" "i \<notin> set (ys @ [j])"
    and "mi_msgRec mi = Some i" "unat (mi_payloadLen mi) = length (encode_request q)"
    and "mi_msgRec mj = Some j" "unat (mi_payloadLen mj) = length (encode_response r)"
    and "case_secret (case_complete C i q j r) = Some secret"
    and "rq_control q AND 0x0F = kMatterEncryptionType_AES128CCM"
  shows "\<exists>v1 s1 v2 s2.
    DissectCASEBeginSessionRequest C R (encode_request q) mi tree (v, s) = Some (int (length (encode_request q)), v1, s1) \<and>
    DissectCASEBeginSessionResponse C R (encode_response r) mj tree' (v1, s1) = Some (int (length (encode_response r)), v2, s2) \<and>
    key_learned (case_session_key C (case_complete C i q j r) secret) (ms_keys s) (ms_keys s2)"
  by (rule case_exchange_keys [OF assms])

definition empty_signature :: tlv where
  "empty_signature = Node (TImplicit2 8) 0x15 []"

definition sample_request :: case_request where
  "sample_request = \<lparr>rq_control = 0x11, rq_configs = [], rq_curves = [], rq_config = kCASEConfig_Config2,
     rq_curve = kMatterCurveId_prime192v1, rq_session = 0x2001, rq_key = prime192v1_G, rq_certs = None, rq_payload = [7],
     rq_signature = empty_signature\<rparr>"

definition sample_response :: case_response where
  "sample_response = \<lparr>rs_control = 0, rs_key = replicate 49 3, rs_certs = None, rs_payload = [], rs_signature = empty_signature,
     rs_confirm = []\<rparr>"

definition two_messages :: matter_state where
  "two_messages = \<lparr>ms_tracker = no_tracker\<lparr>records := [zero_record\<lparr>nextByExchange := Some 1\<rparr>,
     zero_record\<lparr>prevByExchange := Some 0\<rparr>]\<rparr>, ms_hints = no_hints, ms_keys = KeyTable_Init, ms_cases = []\<rparr>"

definition sample_secret :: "byte list" where
  "sample_secret = replicate 24 3"

definition with_record_payload :: "rec_id \<Rightarrow> byte list \<Rightarrow> msg_info" where
  "with_record_payload i payload = MatterMessageInfo\<lparr>mi_msgRec := Some i, mi_payloadLen := of_nat (length payload)\<rparr>"

lemma empty_signature_part: "security_part Security_kTag_MatterCASESignature member empty_signature"
proof -
  have "wf_tlv kMatterProfile_Security kTLVType_NotSpecified empty_signature"
    "tag_value kMatterProfile_Security (TImplicit2 8) = ProfileTag kMatterProfile_Security Security_kTag_MatterCASESignature"
    by code_simp+
  then show ?thesis by (simp add: security_part_def empty_signature_def)
qed

lemma sample_messages_ok: "request_ok sample_registry sample_request" "response_ok sample_registry sample_response"
proof -
  have "length (encode_request sample_request) = 72" "length (encode_response sample_response) = 59"
    "map_of key_confirm_hash_lengths (rs_control sample_response AND kCASEHeader_KeyConfirmHashLengthMask) = Some 0"
    "length (rq_key sample_request) = 49"
    by code_simp+
  then show "request_ok sample_registry sample_request" "response_ok sample_registry sample_response"
    by (simp_all add: request_ok_def response_ok_def sample_registry_memory empty_signature_part)
      (simp_all add: sample_request_def sample_response_def empty_signature_part)
qed

lemma sample_exchange:
  "case_secret (case_complete counting_crypto 0 sample_request 1 sample_response) = Some sample_secret"
  "rq_control sample_request AND 0x0F = kMatterEncryptionType_AES128CCM"
  by code_simp+

lemma two_messages_chain:
  "is_chain nextByExchange prevByExchange (records (ms_tracker two_messages)) None (Some 0) ([] @ 0 # [] @ 1 # [])"
  "\<forall>x \<in> set (0 # [] @ [1]). caseExchangeRec (records (ms_tracker two_messages) ! x) = None"
  by (simp_all add: two_messages_def zero_record_def)

lemma two_messages_keys: "key_table_inv (ms_keys two_messages)"
  by (simp add: two_messages_def KeyTable_Init_inv)

lemma with_record_payload_fields:
  "mi_msgRec (with_record_payload i payload) = Some i"
  "length payload < 65536 \<Longrightarrow> unat (mi_payloadLen (with_record_payload i payload)) = length payload"
  by (simp_all add: with_record_payload_def unat_of_nat_16)

lemma sample_message_lengths: "length (encode_request sample_request) < 65536" "length (encode_response sample_response) < 65536"
  using sample_messages_ok by (simp_all add: request_ok_def response_ok_def)

theorem case_keys_learned_witness:
  "\<exists>v1 s1 v2 s2.
    DissectCASEBeginSessionRequest counting_crypto sample_registry (encode_request sample_request)
        (with_record_payload 0 (encode_request sample_request)) None (no_view, two_messages) =
      Some (int (length (encode_request sample_request)), v1, s1) \<and>
    DissectCASEBeginSessionResponse counting_crypto sample_registry (encode_response sample_response)
        (with_record_payload 1 (encode_response sample_response)) None (v1, s1) =
      Some (int (length (encode_response sample_response)), v2, s2) \<and>
    key_learned (case_session_key counting_crypto (case_complete counting_crypto 0 sample_request 1 sample_response) sample_secret)
      (ms_keys two_messages) (ms_keys s2)"
  by (rule case_keys_learned [OF counting_crypto_works sample_messages_ok two_messages_keys two_messages_chain])
    (simp_all add: with_record_payload_fields sample_exchange sample_exchange [simplified] sample_message_lengths)

section \<open>The items of the payloads\<close>

text \<open>
  C31. Every dissector of the table shows a value under a field that takes values of its type, so that the host does not
  abort: for every protocol number and every payload, well formed or not, all items that the dissector of the payload
  adds to the lines of the packet fit the type their field is registered with, apart from the fields whose element the
  code shows without a look at its type (\<open>unchecked_items\<close>: parameters of sessions, lists of the interaction model that
  are not lists, the commissioning declaration, and numbers of certificates).
\<close>

theorem payload_items_typed:
  assumes "knows_fields (im_registry H) sub_fields"
    and "dissector_try_uint C H protocolId tvb mi (v, s) = Some (res, v', s')"
  shows "\<exists>cs. view_calls v' = view_calls v @ cs \<and> items_fit (im_registry H) (unchecked_items (im_registry H)) cs"
  using dissector_try_uint_adds [OF assms(1), of v C protocolId tvb mi s] assms(2) by (simp add: view_adds_def more_calls_def)

text \<open>A host with the fields of all dissectors.\<close>

definition full_host :: im_host where
  "full_host = \<lparr>im_registry = plain_registry stack_object sub_fields, kClusterNameTable = [], kAttributeNameTable = [],
     kCommandNameTable = [], kEventNameTable = [], kCommandFieldNameTable = [], kEventFieldNameTable = [],
     kAttributeStructFieldNameTable = [], kAttributeEnumValueNameTable = [], fmt_g = (\<lambda>_. ''1''), d2i_X509 = (\<lambda>_. None),
     d2i_X509_REQ = (\<lambda>_. None), d2i_CMS_ContentInfo = (\<lambda>_. None)\<rparr>"

lemma full_host_knows: "knows_fields (im_registry full_host) sub_fields"
  by (simp add: full_host_def plain_registry_knows [OF sub_fields_distinct])

theorem payload_items_typed_witness:
  "\<exists>res v' s' cs. dissector_try_uint counting_crypto full_host 0 [0x15, 0x30, 1, 1, 7, 0x18]
      (MatterMessageInfo\<lparr>mi_msgType := 0x22, mi_payloadLen := 6\<rparr>) (no_view, two_messages) = Some (res, v', s') \<and>
    view_calls v' = view_calls no_view @ cs \<and> items_fit (im_registry full_host) (unchecked_items (im_registry full_host)) cs"
proof -
  obtain res v' where "DissectMatterCommon (im_registry full_host) [0x15, 0x30, 1, 1, 7, 0x18]
      (MatterMessageInfo\<lparr>mi_msgType := 0x22, mi_payloadLen := 6\<rparr>) (no_view, ms_tracker two_messages) = Some (res, v', ms_tracker two_messages)"
    using DissectMatterCommon_session [of "MatterMessageInfo\<lparr>mi_msgType := 0x22, mi_payloadLen := 6\<rparr>"
        "[0x15, 0x30, 1, 1, 7, 0x18]" "im_registry full_host" no_view "ms_tracker two_messages"] by (auto simp: session_types_def)
  then have d: "dissector_try_uint counting_crypto full_host 0 [0x15, 0x30, 1, 1, 7, 0x18]
      (MatterMessageInfo\<lparr>mi_msgType := 0x22, mi_payloadLen := 6\<rparr>) (no_view, two_messages) = Some (res, v', two_messages)"
    by (simp add: table_common on_tracker_def)
  show ?thesis using payload_items_typed [OF full_host_knows d] d by auto
qed

section \<open>Messages of session establishment\<close>



text \<open>
  C33. The text of a status, written into a buffer of 1024 bytes, names the profile and the code: two statuses have the same
  text only when both are equal. The text of an error, written into a buffer of 1000 bytes, names its code in the same way.
\<close>

theorem status_text_faithful:
  "(StatusReportStr p s = StatusReportStr q r \<longleftrightarrow> p = q \<and> s = r) \<and> (ErrorStr e = ErrorStr f \<longleftrightarrow> e = f)"
  unfolding StatusReportStr_format using status_format_inj ErrorStr_inj by blast

section \<open>The start of the plugin\<close>

text \<open>
  C34. On a host that has the tables of ports and knows none of the plugin's protocols, loading the plugin succeeds, and then:
  packets on port 5540 of UDP and TCP reach its dissectors; for every protocol number, the host's lookup in the
  table of payload dissectors is the one that the rest of this development uses; the fields that the host knows are
  the old ones and all fields of the tables; the key table is sound; and however many captures are opened, the
  disclaimer is reported at most once.
\<close>

theorem plugin_started:
  assumes "host_ready (host_state s)"
  shows "\<exists>s'. start_plugins (plugin_register os) s = Some s' \<and>
    find_dissector_fn (host_state s') ''udp.port'' 5540 = Some Fn_DissectMatter \<and>
    find_dissector_fn (host_state s') ''tcp.port'' 5540 = Some Fn_DissectMatterTCP \<and>
    (\<forall>C H protocolId tvb mi vs. dissector_try_uint C H protocolId tvb mi vs =
      (case find_dissector_fn (host_state s') ''matter.profile_id'' (ucast protocolId) of
         Some f \<Rightarrow> payload_dissector C H tvb mi f vs | None \<Rightarrow> Some (0, vs))) \<and>
    set (concat (map snd (field_arrays (host_state s')))) =
      set (concat (map snd (field_arrays (host_state s)))) \<union> set all_fields \<and>
    key_table_inv (plugin_keys s') \<and>
    (\<forall>n. length (failures ((InitMatterDissector os ^^ n) s')) \<le> Suc (length (failures s)))"
proof -
  obtain s' U T where s': "start_plugins (plugin_register os) s = Some s'"
    "dissector_tables (host_state s') = (dissector_tables (host_state s))(''udp.port'' \<mapsto> U(MATTER_PORT \<mapsto> (Fn_DissectMatter, ''proto_matter'')),
      ''tcp.port'' \<mapsto> T(MATTER_PORT \<mapsto> (Fn_DissectMatterTCP, ''proto_matter'')), ''matter.profile_id'' \<mapsto> payload_entries)"
    "map snd (field_arrays (host_state s')) = map snd (field_arrays (host_state s)) @ plugin_arrays" "plugin_keys s' = KeyTable_Init"
    and reports: "failures s' = failures s \<and> alertShown s' = alertShown s \<or>
      \<not> alertShown s \<and> alertShown s' \<and> failures s' = failures s @ [disclaimer]"
    using started [OF assms] by blast
  have "length (failures ((InitMatterDissector os ^^ n) s')) \<le> Suc (length (failures s))" for n
    using captures_report [of s' n os] reports by auto
  moreover have "set (concat (map snd (field_arrays (host_state s')))) =
      set (concat (map snd (field_arrays (host_state s)))) \<union> set all_fields"
    unfolding s'(3) using all_arrays by simp
  ultimately show ?thesis
    using s'(1,2,4) by (simp add: find_dissector_fn_def MATTER_PORT_def KeyTable_Init_inv payload_entries_dissect)
qed

text \<open>A host with the two tables, and a system on which the time stamp is never there.\<close>

definition bare_host :: host_tables where
  "bare_host = \<lparr>protocols = [(''proto_udp'', ''User Datagram Protocol'', ''UDP'', ''udp'')], field_arrays = [], subtrees = [],
     dissector_tables = [''udp.port'' \<mapsto> Map.empty, ''tcp.port'' \<mapsto> Map.empty], conversation_filters = [], preferences = [],
     init_routines = 0, secrets_types = []\<rparr>"

definition bare_system :: "nat os_calls" where
  "bare_system = \<lparr>os_stat = (\<lambda>_ _. ENOENT), os_unlink = (\<lambda>_ w. w), os_mkdir = (\<lambda>_ w. w), os_create = (\<lambda>_ w. w), os_utime = (\<lambda>_ _ _ w. w),
     os_time = int, os_home = (\<lambda>_. None), get_persconffile_path = id, uat_load_keys = (\<lambda>_. []), uat_load_nodes = (\<lambda>_. [])\<rparr>"

definition before_start :: "nat plugin" where
  "before_start = \<lparr>os_state = 0, host_state = bare_host, pluginDirName = None, alertShown = False, secretsRegistered = False,
     failures = [], sKeyList = [], sNodeIdList = [], plugin_keys = KeyTable_Init\<rparr>"

theorem plugin_started_witness:
  "\<exists>s'. start_plugins (plugin_register bare_system) before_start = Some s' \<and>
    find_dissector_fn (host_state s') ''udp.port'' 5540 = Some Fn_DissectMatter \<and>
    set (concat (map snd (field_arrays (host_state s')))) = set all_fields \<and>
    (\<forall>n. length (failures ((InitMatterDissector bare_system ^^ n) s')) \<le> 1)"
proof -
  have "host_ready (host_state before_start)"
    by (simp add: host_ready_def before_start_def bare_host_def plugin_protocols_def)
  from plugin_started [OF this, of bare_system] show ?thesis by (auto simp: before_start_def bare_host_def)
qed

section \<open>The interaction model\<close>

text \<open>
  C35. A list of write requests, or of write responses, is an error behind which nothing of the message is
  shown: after the list the same field is printed a second time as a generic item, on no element.
\<close>

theorem write_lists_fail:
  assumes "IsContextTag (GetTag d)" and "GetType d = kTLVType_Array \<or> GetType d = kTLVType_Path"
  shows "(TagNumFromTag (GetTag d) = WriteRequest_kTag_WriteRequests \<longrightarrow>
      (\<forall>err d'. write_request_member H tree d = Some (err, d') \<longrightarrow> err \<noteq> MATTER_NO_ERROR)) \<and>
    (TagNumFromTag (GetTag d) = WriteResponse_kTag_WriteResponses \<longrightarrow>
      (\<forall>err d'. write_response_member H tree d = Some (err, d') \<longrightarrow> err \<noteq> MATTER_NO_ERROR))"
  using write_list_fails [OF assms] by blast

definition sample_im :: im_host where
  "sample_im = \<lparr>im_registry = (plain_registry stack_object [])\<lparr>reg_hf := (\<lambda>_. 7)\<rparr>, kClusterNameTable = [], kAttributeNameTable = [],
     kCommandNameTable = [], kEventNameTable = [], kCommandFieldNameTable = [], kEventFieldNameTable = [],
     kAttributeStructFieldNameTable = [], kAttributeEnumValueNameTable = [], fmt_g = (\<lambda>_. ''1''), d2i_X509 = (\<lambda>_. None),
     d2i_X509_REQ = (\<lambda>_. None), d2i_CMS_ContentInfo = (\<lambda>_. None)\<rparr>"

text \<open>A dissector on an empty list with the tag 2.\<close>

definition on_empty_list :: dissector where
  "on_empty_list = stack_object\<lparr>mControlByte := 0x36, mElemTag := ContextTag 2, mBuf := [0x36, 2, 0x18], mReadPoint := 2,
     mBufEnd := 3, mLenRead := 2, mMaxLen := 3, mContainerType := kTLVType_Structure, mElemLen := 3\<rparr>"

theorem write_lists_fail_witness:
  "\<exists>err d'. write_request_member sample_im None on_empty_list = Some (err, d') \<and> err \<noteq> MATTER_NO_ERROR"
proof -
  have d: "IsContextTag (GetTag on_empty_list)" "GetType on_empty_list = kTLVType_Array"
    "TagNumFromTag (GetTag on_empty_list) = WriteRequest_kTag_WriteRequests"
    by code_simp+
  have "map_option fst (write_request_member sample_im None on_empty_list) \<noteq> None" by code_simp
  then obtain err d' where r: "write_request_member sample_im None on_empty_list = Some (err, d')" by auto
  moreover have "err \<noteq> MATTER_NO_ERROR"
    using write_lists_fail [OF d(1) disjI1 [OF d(2)], of sample_im None] d(3) r by blast
  ultimately show ?thesis by blast
qed

text \<open>
  C36. On the encoding of a read request whose members are as the protocol has them, the dissector adds exactly the lines of
  the request: its title, then for each list its item, its subtree and the lines of each of its paths and filters, and
  for every other member its generic form, each over the bytes of its own element.
\<close>

theorem read_request_shown:
  assumes "memory_ok (im_env H)" and "\<And>v. im_hf H v \<noteq> - 1"
    and "wf_tlv kProfileIdNotSpecified kTLVType_NotSpecified (Node TAnonymous 0x15 es)"
    and "\<And>e. e \<in> set es \<Longrightarrow> member_ok (read_lists H) e"
    and "unat (mi_payloadLen mi) = length (encode (Node TAnonymous 0x15 es))"
  shows "DissectIMReadRequest H (encode (Node TAnonymous 0x15 es)) mi tree v =
    Some (int (unat (mi_payloadLen mi)), v\<lparr>view_calls := view_calls v @ ProtoAppendText tree '': Read Request'' #
      members_shown (member_shown H (read_lists H) read_fields tree) (Node TAnonymous 0x15 es)
        (first_place 0 kProfileIdNotSpecified (append_text tree '': Read Request'' v))\<rparr>)"
  by (rule read_request_lines [OF assms])

text \<open>One attribute path with endpoint 1, cluster 6 and attribute 0, no filtering by fabric, revision 12.\<close>

definition sample_members :: "tlv list" where
  "sample_members =
     [Node (TContext 0) 0x16 [Node TAnonymous 0x17 [Leaf (TContext 2) 4 1 [], Leaf (TContext 3) 4 6 [], Leaf (TContext 4) 4 0 []]],
      Leaf (TContext 3) 8 0 [], Leaf (TContext 255) 4 12 []]"

lemma sample_members_ok:
  "memory_ok (im_env sample_im)" "im_hf sample_im w \<noteq> - 1"
  "wf_tlv kProfileIdNotSpecified kTLVType_NotSpecified (Node TAnonymous 0x15 sample_members)"
  "e \<in> set sample_members \<Longrightarrow> member_ok (read_lists sample_im) e"
proof -
  show "memory_ok (im_env sample_im)" "im_hf sample_im w \<noteq> - 1"
    by (simp_all add: sample_im_def plain_registry_def memory_ok_def)
  show "wf_tlv kProfileIdNotSpecified kTLVType_NotSpecified (Node TAnonymous 0x15 sample_members)" by code_simp
  have path: "path_node Attribute (Node TAnonymous 0x17 [Leaf (TContext 2) 4 1 [], Leaf (TContext 3) 4 6 [], Leaf (TContext 4) 4 0 []])"
    unfolding path_node_def by (auto simp: context_leaf_def) code_simp
  show "member_ok (read_lists sample_im) e" if "e \<in> set sample_members"
    using that by (auto simp: sample_members_def member_ok_def as_list_def read_lists_def list_elements_def tag_number_of_def path)
qed

theorem read_request_shown_witness:
  "DissectIMReadRequest sample_im (encode (Node TAnonymous 0x15 sample_members))
      (MatterMessageInfo\<lparr>mi_payloadLen := 21\<rparr>) (Some 0) no_view =
    Some (21, no_view\<lparr>view_calls := ProtoAppendText (Some 0) '': Read Request'' #
      members_shown (member_shown sample_im (read_lists sample_im) read_fields (Some 0)) (Node TAnonymous 0x15 sample_members)
        (first_place 0 kProfileIdNotSpecified (append_text (Some 0) '': Read Request'' no_view))\<rparr>)"
proof -
  have "length (encode (Node TAnonymous 0x15 sample_members)) = 21" by code_simp
  then show ?thesis
    using read_request_shown [of sample_im sample_members "MatterMessageInfo\<lparr>mi_payloadLen := 21\<rparr>" "Some 0" no_view]
      sample_members_ok by (simp add: no_view_def)
qed

section \<open>The whole program\<close>


definition table_host :: matter_host where
  "table_host = sample_host\<lparr>subdissect := dissector_try_uint counting_crypto sample_im\<rparr>"

definition pake_exchange :: exchange_header where
  "pake_exchange = \<lparr>ex_flags = 5, ex_type = 0x22, ex_id = 3, ex_protocol = 0, ex_vendor = None, ex_ack = None\<rparr>"


text \<open>
  C38. A session from its CASE exchange to its first encrypted message. Both messages of the exchange are dissected in a sound state,
  the secret can be told, and no key is known yet under the identifier that the initiator proposed. Then an encrypted message of that session, which the derived
  key opens, is opened with it: its plaintext, an exchange header and a payload, is read and exactly the payload is handed to the dissector of
  its protocol.
\<close>

theorem case_session_decrypted:
  fixes C :: case_crypto and q :: case_request and r :: case_response and secret :: "byte list"
  assumes "case_crypto_works C" and "request_ok R q" "response_ok R r" and "state_ok s"
    and "is_chain nextByExchange prevByExchange (records (ms_tracker s)) None p (xs @ i # ys @ j # zs)"
    and "\<forall>x \<in> set (i # ys @ [j]). caseExchangeRec (records (ms_tracker s) ! x) = None" "i \<notin> set (ys @ [j])"
    and "mi_msgRec mi = Some i" "unat (mi_payloadLen mi) = length (encode_request q)"
    and "mi_msgRec mj = Some j" "unat (mi_payloadLen mj) = length (encode_response r)"
    and "case_secret (case_complete C i q j r) = Some secret"
    and "rq_control q AND 0x0F = kMatterEncryptionType_AES128CCM"
    and "FindKeysById (rq_session q) (ms_keys s) = []"
    and "env_ok (decrypt_env host)" "pref_MatterProxyKeyHintFile (decrypt_env host) = None"
    and "header_ok h" "hd_group h = None" "hd_sessionId h = rq_session q" "rq_session q \<noteq> 0"
    and "exchange_ok x" and "ptype pinfo \<noteq> PT_TCP"
    and "16 < length enc" "length (encode_header h @ enc) < 65536"
    and "minfo = header_info h (of_nat (length (encode_header h @ enc))) (of_nat (length (encode_header h)))"
    and "key_opens (env_evp (decrypt_env host)) enc (encode_header h) minfo
      (case_session_key C (case_complete C i q j r) secret) = Some (encode_exchange x @ payload)"
  shows "\<exists>v1 s1 v2 s2 h' out.
    DissectCASEBeginSessionRequest C R (encode_request q) mi tree (v, s) = Some (int (length (encode_request q)), v1, s1) \<and>
    DissectCASEBeginSessionResponse C R (encode_response r) mj tree' (v1, s1) = Some (int (length (encode_response r)), v2, s2) \<and>
    hands_on host pinfo x payload (minfo\<lparr>mi_trailerLen := 16\<rparr>) (s2\<lparr>ms_hints := h'\<rparr>) out \<and>
    DissectMatter host pinfo (encode_header h @ enc) (length (encode_header h @ enc)) s2 =
      map_option (\<lambda>(v, s'). (length (encode_header h @ enc), v, s')) out"
  by (rule case_session_opened [OF assms])

definition session_header :: message_header where
  "session_header = sealed_header\<lparr>hd_sessionId := 0x2001\<rparr>"

definition session_cipher :: "byte list" where
  "session_cipher = encode_exchange read_exchange @ [0x15, 0x18] @
     dataEncKey (case_session_key counting_crypto (case_complete counting_crypto 0 sample_request 1 sample_response) sample_secret)"

definition session_info :: msg_info where
  "session_info = header_info session_header (of_nat (length (encode_header session_header @ session_cipher)))
     (of_nat (length (encode_header session_header)))"

lemma two_messages_ok: "state_ok two_messages"
proof -
  have "tracked (ms_tracker two_messages) (\<lambda>_. []) (\<lambda>_. [])"
    using no_tracker_tracked
    by (simp add: tracked_def tracker_inv_def two_messages_def no_tracker_def by_cntr.lists_ok_def by_exchange.lists_ok_def
        message_table_def exchange_table_def tree_lookup_def)
  then show ?thesis
    by (auto simp: state_ok_def two_messages_def KeyTable_Init_inv no_hints_ok records_ok_def)
qed

lemma session_cipher_lengths:
  "length session_cipher = 24" "length (encode_header session_header @ session_cipher) = 32" "length (encode_header session_header) = 8"
proof -
  have "length (dataEncKey (case_session_key counting_crypto c secret)) = 16" for c secret
    using case_session_key_ok [OF counting_crypto_works, of c secret]
    by (simp add: key_ok_def case_session_key_def Let_def kDataEncKeyLength_AES128CCM_def)
  then show "length session_cipher = 24" "length (encode_header session_header @ session_cipher) = 32"
    "length (encode_header session_header) = 8"
    by (simp_all add: session_cipher_def length_encode_exchange read_exchange_def length_encode_header node_header_len_def
        session_header_def sealed_header_def)
qed

lemma session_cipher_opens:
  "key_opens (env_evp (decrypt_env table_host)) session_cipher aad m
    (case_session_key counting_crypto (case_complete counting_crypto 0 sample_request 1 sample_response) sample_secret) =
   Some (encode_exchange read_exchange @ [0x15, 0x18])"
proof -
  have l: "length session_cipher - 16 = length (encode_exchange read_exchange @ [0x15, 0x18])"
    using session_cipher_lengths(1) by (simp add: length_encode_exchange read_exchange_def)
  have "drop (length session_cipher - 16) session_cipher =
      dataEncKey (case_session_key counting_crypto (case_complete counting_crypto 0 sample_request 1 sample_response) sample_secret)"
    "take (length session_cipher - 16) session_cipher = encode_exchange read_exchange @ [0x15, 0x18]"
    unfolding l by (simp_all add: session_cipher_def)
  then show ?thesis
    by (simp add: key_opens_def table_host_def sample_host_def sample_env_def clear_evp_def case_session_key_def Let_def
        kDataEncKeyLength_AES128CCM_def)
qed

theorem case_session_decrypted_witness:
  "\<exists>v1 s1 v2 s2 h' out.
    DissectCASEBeginSessionRequest counting_crypto sample_registry (encode_request sample_request)
        (with_record_payload 0 (encode_request sample_request)) None (no_view, two_messages) =
      Some (int (length (encode_request sample_request)), v1, s1) \<and>
    DissectCASEBeginSessionResponse counting_crypto sample_registry (encode_response sample_response)
        (with_record_payload 1 (encode_response sample_response)) None (v1, s1) =
      Some (int (length (encode_response sample_response)), v2, s2) \<and>
    hands_on table_host udp_packet read_exchange [0x15, 0x18] (session_info\<lparr>mi_trailerLen := 16\<rparr>) (s2\<lparr>ms_hints := h'\<rparr>) out \<and>
    DissectMatter table_host udp_packet (encode_header session_header @ session_cipher)
        (length (encode_header session_header @ session_cipher)) s2 =
      map_option (\<lambda>(v, s'). (length (encode_header session_header @ session_cipher), v, s')) out"
proof (rule case_session_decrypted [OF counting_crypto_works sample_messages_ok two_messages_ok two_messages_chain])
  show "FindKeysById (rq_session sample_request) (ms_keys two_messages) = []"
    by (simp add: two_messages_def KeyTable_Init_def FindKeysById_def)
  show "env_ok (decrypt_env table_host)" "pref_MatterProxyKeyHintFile (decrypt_env table_host) = None"
    using sample_env_ok by (simp_all add: table_host_def sample_host_def sample_env_def)
  show "header_ok session_header" "hd_group session_header = None" "hd_sessionId session_header = rq_session sample_request"
    "rq_session sample_request \<noteq> 0" "exchange_ok read_exchange" "ptype udp_packet \<noteq> PT_TCP"
    by (simp_all add: sample_message_defs session_header_def sealed_header_def sample_request_def)
  show "key_opens (env_evp (decrypt_env table_host)) session_cipher (encode_header session_header) session_info
      (case_session_key counting_crypto (case_complete counting_crypto 0 sample_request 1 sample_response) sample_secret) =
    Some (encode_exchange read_exchange @ [0x15, 0x18])"
    by (rule session_cipher_opens)
qed (simp_all add: with_record_payload_fields sample_exchange sample_exchange [simplified] sample_message_lengths
    session_cipher_lengths session_info_def)


text \<open>The packet of the witness before, as the first one of a capture.\<close>

definition pake_packet :: "byte list" where
  "pake_packet = encode_header clear_header @ encode_exchange pake_exchange @ [0x15, 0x18]"

lemma table_host_plugin: "plugin_host counting_crypto sample_im table_host"
  using sample_env_ok by (simp add: plugin_host_def table_host_def sample_host_def)

lemma pake_packet_step:
  obtains v s where "DissectMatter table_host udp_packet pake_packet (length pake_packet) initial_state = Some (length pake_packet, v, s)"
    "reachable counting_crypto sample_im s"
proof -
  have "\<exists>v s' M' X'. DissectMatter table_host udp_packet pake_packet (length pake_packet) initial_state =
      Some (length pake_packet, v, s') \<and> tracked (ms_tracker s') M' X' \<and> s' = initial_state\<lparr>ms_tracker := ms_tracker s'\<rparr>"
    unfolding pake_packet_def
    by (rule session_message_dissected [where M = "\<lambda>_. []" and X = "\<lambda>_. []"])
      (simp_all add: sample_message_defs pake_exchange_def table_host_def session_types_def no_tracker_tracked initial_state_def
        length_encode_exchange length_encode_header node_header_len_def)
  then show thesis using that reachable.start reachable.step capture_step.packet [OF table_host_plugin] by metis
qed




end
