(* ===== verification/Spec2Isabelle.thy ===== *)
theory Spec2Isabelle
  imports TLV_Layout Empty_Bytes Protocol_Properties
begin

text \<open>
  A model of the Wireshark dissector for the Matter protocol, and the theorems that make it correct.

  \<^bold>\<open>The program.\<close> Wireshark hands the plugin a captured packet. \<open>DissectMatter\<close> (packet-matter.cpp) reads
  the message header, decrypts the rest of the message when its session number says that it is encrypted,
  reads the exchange header, files the message in the message tracker (MatterMessageTracker.cpp), shows
  what the tracker knows of it (retransmissions, reused counters, acknowledged messages, the start of the
  exchange) and hands the payload to the dissector of its protocol. Decryption
  (packet-matter-decrypt.cpp) tries the keys of a session table (MessageEncryptionKey.cpp), keys and
  source nodes that the user entered (UserEncryptionKeyPrefs.cpp, UserNodeIdPrefs.cpp) and hints that came
  with the capture (packet-matter.cpp), and stores a key that opened a message. Payloads are in the TLV
  encoding; \<open>TLVReader\<close> (MatterTLVReader.cpp) reads it element by element, and \<open>TLVDissector\<close>
  (TLVDissector.cpp) extends the reader with positions in the packet, a stack of the containers it is in
  and the printers that put elements into the tree that Wireshark shows.
  The payload dissectors are those of the secure channel (packet-matter-common.cpp), the interaction model
  (packet-matter-im.cpp), user directed commissioning (packet-matter-udc.cpp), echo
  (packet-matter-echo.cpp) and the older security protocol (packet-matter-security.cpp). The last one also follows a CASE
  exchange: it keeps what the begin-session request and its response hold in an object that both messages'
  records point to, derives the session key (HKDF.c) when the shared secret can be told, and puts it into
  the session table, where decryption finds it.

  \<^bold>\<open>The theories\<close>, in the order in which they import each other.
  \<^item> \<open>Matter_Prelude\<close>: words, lists, strings and byte lists; error codes of MatterError.h and the macros
    of CodeUtils.h as a composition of operations on a state. The result of an operation is
    \<open>(MATTER_ERROR \<times> 's) option\<close>: the code's error code with the state it leaves, and \<open>None\<close> for undefined
    behaviour (an access outside an object, a null pointer) or a loop that does not end.
  \<^item> \<open>Matter_Encoding\<close>: MatterEncoding.h. \<open>TLV_Types\<close>: MatterTLVTypes.h and MatterTLVTags.h.
  \<^item> \<open>TLV_Reader\<close>: the class \<open>TLVReader\<close>, as the record \<open>tlv_reader\<close> of its members. The buffer is the list of
    its bytes, a pointer into it an index; \<open>GetNextBuffer\<close> is a function of the record.
    \<open>TLV_Reader_Inv\<close>: the invariant \<open>reader_inv\<close> and that every operation returns and keeps it.
    \<open>TLV_Spec\<close>: abstract elements \<open>tlv\<close>, their encoding \<open>encode\<close>, and that the reader reads encodings back.
  \<^item> \<open>Text_Format\<close>: the \<open>printf\<close> conversions the code uses. \<open>TLV_Dissector\<close>, \<open>TLV_Text\<close>: the class \<open>TLVDissector\<close>
    as a record that extends the reader; the tree of Wireshark is the list of the items that
    were added. \<open>TLV_Dissector_Inv\<close>, \<open>TLV_Text_Inv\<close>: the invariant \<open>dissector_inv\<close> (the reader's
    invariant, a container stack whose entries are there and never outgrows the input) and the contracts of the operations.
    \<open>TLV_Layout\<close>: the lines that a generic element is shown as, and that the printer adds exactly those.
  \<^item> \<open>Message_Info\<close>: the struct of packet-matter.h and the session identifiers.
    \<open>Message_Tracker\<close>: the records and four tables of the tracker, the links of the lists as indices into the list
    of all records. \<open>Message_Tracker_Inv\<close>: every list is a chain of its records in order of
    arrival, and the searches of the tracker in terms of that list.
  \<^item> \<open>Message_Keys\<close>: keys, the key table and the tables of the user. \<open>Hint_Keys\<close>: parsing and loading of hints;
    \<open>Hint_Keys_Spec\<close>: their round trip, and what loading them makes findable.
  \<^item> \<open>Message_Decrypt\<close>: the nonce, one attempt, and the search for a key. \<open>Message_Decrypt_Spec\<close>: the search is the
    first opening candidate of one list of candidates.
  \<^item> \<open>Matter_Names\<close>: the tables of MatterNames.cpp. \<open>Matter_Message\<close>: \<open>DissectMatter\<close> and what belongs to it.
    \<open>Matter_Message_Spec\<close>: encoders of the headers, and the dissection of what they encode.
  \<^item> \<open>Sub_Dissector\<close>: what the payload dissectors share: the registered fields they refer to, the calls of
    the tree that they make (\<open>view\<close>), the loop over the members of a structure and the switch on a context
    tag. \<open>Sub_Dissector_Inv\<close>: that loop keeps the dissector's invariant and returns. \<open>Sub_Layout\<close>: the calls that a
    structure, a list and a typed item add on the encoding of an element.
  \<^item> \<open>Status_Text\<close>: StatusReportStr.cpp. \<open>Error_Text\<close>: ErrorStr.cpp and the rest of MatterError.h. \<open>Protocol_Tags\<close>: the tags and message types of the protocol headers.
    \<open>Protocol_Registration\<close>: the tables of registered fields, each with its type.
  \<^item> \<open>Protocol_Common\<close>: packet-matter-common.cpp, message by message. \<open>Protocol_Common_Inv\<close>: it returns on every payload.
    \<open>Item_Types\<close>: rules for handlers whose items have the types their fields were registered with, and these messages.
    \<open>Protocol_Echo\<close>, \<open>Protocol_UDC\<close>: the two small protocols.
    \<open>Empty_Bytes\<close>: how a status report reaches the crash of the generic printer.
  \<^item> \<open>IM_Names\<close>, \<open>IM_Certificates\<close>, \<open>IM_Values\<close>, \<open>IM_Elements\<close>, \<open>Protocol_IM\<close>, \<open>IM_Subscription\<close>: packet-matter-im.cpp, its
    paths and names, certificates, values, information blocks, messages and filter. \<open>IM_Values_Inv\<close>: named
    values satisfy the recursive equation of the code. \<open>IM_Layout\<close>: the lines of read and subscribe requests.
  \<^item> \<open>CASE_Records\<close>, \<open>Key_Derivation\<close> (HKDF.c), \<open>Protocol_Security\<close>, \<open>Security_Messages\<close>: packet-matter-security.cpp.
    \<open>Security_Spec\<close>: which key is derived, and how the response finds the request. \<open>Security_Exchange\<close>: encoders
    of the two messages of a CASE exchange, their dissection, and the key that it leaves in the table.
  \<^item> \<open>Protocol_Table\<close>: the table of payload dissectors by protocol number, and a packet followed through it.
    \<open>Capture_Inv\<close>: a capture as steps (a packet, a secrets block) over the state of the plugin, and the invariant
    that every reachable state has. \<open>Case_Session\<close>: from a CASE exchange to a packet that its key opens.
  \<^item> \<open>Item_Types_IM\<close>, \<open>Item_Types_All\<close>: the types of the items of the information blocks, and of every entry of the table of
    payload dissectors; \<open>unchecked_items\<close> lists the fields whose element the code does not check.
  \<^item> \<open>Plugin_Setup\<close>: the start of the plugin, from \<open>plugin_register\<close> over the registration and hand-off functions of all
    files to the tables that the host then has, the user tables, the directory of the plugin and the disclaimer.
  \<^item> \<open>Message_Properties\<close>, \<open>Protocol_Properties\<close> and this theory: the properties. Each is preceded by its number
    and a sentence.

  \<^bold>\<open>Interfaces.\<close> Locales state the contracts between components: \<open>codec\<close> (\<open>Matter_Encoding\<close>) is a reader and a
  writer of a fixed width, interpreted on the helpers of each width and byte order; \<open>links\<close>
  (\<open>Message_Tracker_Inv\<close>) is a doubly linked list threaded through the records, interpreted on the list by
  counter and the list by exchange; \<open>element_handler\<close> (\<open>TLV_Dissector_Inv\<close>) is what \<open>AddListItem\<close> and
  the sub-dissectors need of the handler of an element, interpreted on the handlers of the code.

  \<^bold>\<open>Bounds and fuel.\<close> Loops of the code are \<open>partial_function (option)\<close>, so that \<open>None\<close> also stands for a loop
  that does not end, and theorems say that \<open>Some\<close> is returned. Only client loops of the
  specification (\<open>siblings\<close>) count steps; \<open>Suc (length es)\<close> steps read \<open>es\<close> and see the end of the input.
  Machine integers are words of the width in the code, so sums wrap where they wrap in the code.

  \<^bold>\<open>Parameters.\<close> What the code calls and the repository does not contain is an argument: OpenSSL's AES-CCM
  (record \<open>evp\<close>), its hashes and HMAC (records \<open>evp_md\<close>, \<open>case_crypto\<close>) and its X.509 and CMS parsers, which give the texts and
  numbers that the code prints of what they parsed (record \<open>im_host\<close>, with the generated tables of cluster, attribute, command and
  event names); the numbers and types of registered fields, \<open>malloc\<close> and the printing of doubles (records
  \<open>env\<close>, \<open>registry\<close>), the checksum of Wireshark, the preferences and the payload dissectors (record \<open>matter_host\<close>; \<open>Protocol_Table\<close>
  instantiates them), the file system (records \<open>file_system\<close>, \<open>os_calls\<close>). What a theorem relies on is a
  named hypothesis (\<open>evp_accepts\<close>, \<open>key_opens\<close>, \<open>md_works\<close>, \<open>case_crypto_works\<close>) and its witness instantiates it.

  \<^bold>\<open>A capture.\<close> The state of the plugin is the record \<open>matter_state\<close>: tracker, hints, session keys, objects of CASE
  exchanges. A step of a capture is a packet that \<open>DissectMatter\<close> returns on, or a block of secrets. A read outside a
  packet raises an exception of Wireshark, which the model shows as \<open>None\<close>; a packet that raises one is no step.

  \<^bold>\<open>Not modelled.\<close> What the host does with the registered fields beyond their numbers and types; the freeing of memory; the
  data of im_name_tables.inc; the profile headers' enumerations that no modelled code uses; functions that are
  declared and not defined in the repository; code under \<open>#if 0\<close>; unit tests and build files.
\<close>

section \<open>The TLV reader\<close>

text \<open>
  C1. Total on every input: from any state that \<open>Init\<close> or another operation left, \<open>Next\<close> returns, without
  reading outside the input, and when it finds an element it has consumed at least one byte, stays in
  the container and the element passed \<open>VerifyElement\<close>.
\<close>

theorem reader_next_total:
  assumes "reader_inv r"
  shows "\<exists>err r'. Next r = Some (err, r') \<and> reader_inv r' \<and>
    (err = MATTER_NO_ERROR \<longrightarrow> remaining r' < remaining r \<and> mContainerType r' = mContainerType r \<and>
       VerifyElement r' = MATTER_NO_ERROR \<and> ElementType r' \<noteq> kTLVElementType_EndOfContainer)"
  using Next_total [OF assms] by (auto simp: returns_def stays_inv)

definition blank_reader :: tlv_reader where
  "blank_reader = \<lparr>mElemTag = 0, mElemLenOrVal = 0, mBufHandle = 0, mBuf = [], mReadPoint = 0, mBufEnd = 0,
     mLenRead = 0, mMaxLen = 0, mContainerType = 0, mControlByte = 0, mContainerOpen = False,
     ImplicitProfileId = 0, AppData = 0, GetNextBuffer = None\<rparr>"

theorem reader_next_total_witness:
  "\<exists>err r'. Next (Init_buf [0x04, 0x2A] 2 blank_reader) = Some (err, r') \<and> reader_inv r' \<and>
    (err = MATTER_NO_ERROR \<longrightarrow> remaining r' < remaining (Init_buf [0x04, 0x2A] 2 blank_reader) \<and>
       mContainerType r' = mContainerType (Init_buf [0x04, 0x2A] 2 blank_reader) \<and>
       VerifyElement r' = MATTER_NO_ERROR \<and> ElementType r' \<noteq> kTLVElementType_EndOfContainer)"
  by (rule reader_next_total) (simp add: Init_buf_inv)

text \<open>
  C2. Enumeration: the client loop that calls \<open>Next\<close> until it fails sees, on the encoding of a sequence of
  well-formed top-level elements, the type, tag and value field of exactly those elements, in order, and
  then the end of the input. Containers are skipped with all they hold.
\<close>

theorem reader_enumerates:
  assumes "\<forall>e \<in> set es. wf_tlv kProfileIdNotSpecified kTLVType_NotSpecified e"
    and "unat dataLen = length (encodes es)"
  shows "siblings (Suc (length es)) (Init_buf (encodes es @ rest) dataLen r) =
    Some (heads kProfileIdNotSpecified es, MATTER_END_OF_TLV)"
proof -
  note I = Init_buf_ahead [OF assms(2), of rest r]
  let ?r = "Init_buf (encodes es @ rest) dataLen r"
  have "Skip ?r = Some (MATTER_NO_ERROR, ClearElementState ?r)" by (rule Skip_clear [OF I(2)])
  moreover have "ahead (ClearElementState ?r) (encodes es @ [])" using I(1) by simp
  ultimately have "siblings (Suc (length es)) ?r =
      Some (heads (ImplicitProfileId (ClearElementState ?r)) es, MATTER_END_OF_TLV)"
    by (rule siblings_encodes) (use assms(1) I in \<open>simp_all add: ClearElementState_def\<close>)
  then show ?thesis using I(3) by (simp add: ClearElementState_def)
qed

definition sample :: "tlv list" where
  "sample = [Node TAnonymous 0x15 [Leaf (TContext 1) 0x04 42 [], Leaf (TContext 2) 0x0C 2 [104, 105]],
     Leaf (TCommon2 7) 0x09 0 []]"

lemma wf_sample:
  "\<forall>e \<in> set sample. wf_tlv kProfileIdNotSpecified kTLVType_NotSpecified e"
  "unat (13 :: u32) = length (encodes sample)"
  by code_simp+

theorem reader_enumerates_witness:
  "siblings (Suc (length sample)) (Init_buf (encodes sample @ [0, 0]) 13 blank_reader) =
    Some (heads kProfileIdNotSpecified sample, MATTER_END_OF_TLV)"
  by (rule reader_enumerates [OF wf_sample])

text \<open>
  C3. String round trip: after \<open>Next\<close> has found a well-formed string element, \<open>GetBytes\<close> with a large enough
  buffer copies exactly its bytes, and the element behind it is the next one found.
\<close>

theorem reader_string_roundtrip:
  assumes "wf_tlv kProfileIdNotSpecified kTLVType_NotSpecified (Leaf t ty v bs)" and "TLVTypeIsString ty"
    and "unat dataLen = length (encode (Leaf t ty v bs))" and "length bs \<le> unat bufSize"
  shows "\<exists>r1 r2. Next (Init_buf (encode (Leaf t ty v bs)) dataLen r) = Some (MATTER_NO_ERROR, r1) \<and>
    ElementType r1 = uint ty \<and> GetBytes bufSize r1 = Some (MATTER_NO_ERROR, bs, r2) \<and>
    mLenRead r2 = mMaxLen r2"
proof -
  let ?e = "Leaf t ty v bs" and ?r = "Init_buf (encode (Leaf t ty v bs)) dataLen r"
  let ?c = "ClearElementState ?r"
  have I: "ahead ?r (encode ?e)" "ElementType ?r = kTLVElementType_NotSpecified"
    "ImplicitProfileId ?c = kProfileIdNotSpecified" "mContainerType ?c = kTLVType_NotSpecified"
    using Init_buf_ahead [OF assms(3), of "[]" r] by (simp_all add: ClearElementState_def)
  have a: "ahead ?c (encode ?e @ [])" using I(1) by simp
  have wf: "wf_tlv (ImplicitProfileId ?c) (mContainerType ?c) ?e" using assms(1) I by simp
  have "Next ?r = Some (MATTER_NO_ERROR, loaded ?e ?c)" by (rule Next_loaded [OF Skip_clear [OF I(2)] a wf])
  moreover have "ElementType (loaded ?e ?c) = uint ty" using loaded_type(1) [OF wf] by simp
  moreover note GetBytes_encode [OF a wf assms(2,4)]
  moreover have "mLenRead (advance (length bs) (loaded ?e ?c)) = mMaxLen (advance (length bs) (loaded ?e ?c))"
  proof -
    have "ahead (passed ?e ?c) []" by (rule ahead_passed [OF a])
    then have "remaining (passed ?e ?c) = 0" "mLenRead (passed ?e ?c) \<le> mMaxLen (passed ?e ?c)"
      by (simp_all add: ahead_def reader_inv_def)
    then have "mLenRead (passed ?e ?c) = mMaxLen (passed ?e ?c)"
      by (simp add: remaining_def word_le_nat_alt word_unat_eq_iff)
    moreover have "mLenRead (advance (length bs) (loaded ?e ?c)) = mLenRead (passed ?e ?c)"
      "mMaxLen (advance (length bs) (loaded ?e ?c)) = mMaxLen (passed ?e ?c)"
      by (simp_all add: passed_def loaded_def after_head_def ClearElementState_def advance_def add_ac)
    ultimately show ?thesis by simp
  qed
  ultimately show ?thesis by (intro exI conjI) (assumption | simp)+
qed

theorem reader_string_roundtrip_witness:
  "\<exists>r1 r2. Next (Init_buf (encode (Leaf TAnonymous 0x10 3 [7, 8, 9])) 5 blank_reader) = Some (MATTER_NO_ERROR, r1) \<and>
    ElementType r1 = uint (0x10 :: byte) \<and> GetBytes 16 r1 = Some (MATTER_NO_ERROR, [7, 8, 9], r2) \<and>
    mLenRead r2 = mMaxLen r2"
  by (rule reader_string_roundtrip) code_simp+

text \<open>
  C4. Memory safety of the value accessors: \<open>GetDataPtr\<close> succeeds only when the whole value lies in the
  current input buffer, and otherwise leaves the element as it was.
\<close>

theorem reader_data_pointer_safe:
  assumes "reader_inv r" and "GetDataPtr r = (err, ptr, r')"
  shows "reader_inv r' \<and> (err = MATTER_NO_ERROR \<longrightarrow> ptr = Some (mReadPoint r') \<and>
    mReadPoint r' + unat (GetLength r') \<le> mBufEnd r' \<and> mBufEnd r' \<le> length (mBuf r'))"
  using GetDataPtr_spec [OF assms(2,1)] by (simp add: stays_inv)

definition string_reader :: tlv_reader where
  "string_reader = blank_reader\<lparr>mControlByte := 0x10, mElemLenOrVal := 1, mBuf := [0x10, 1, 5],
     mReadPoint := 2, mBufEnd := 3, mLenRead := 2, mMaxLen := 3\<rparr>"

theorem reader_data_pointer_safe_witness:
  "reader_inv string_reader \<and> Some 2 = Some (mReadPoint string_reader) \<and>
    mReadPoint string_reader + unat (GetLength string_reader) \<le> mBufEnd string_reader \<and>
    mBufEnd string_reader \<le> length (mBuf string_reader)"
proof -
  have "reader_inv string_reader" "GetDataPtr string_reader = (MATTER_NO_ERROR, Some 2, string_reader)"
    by code_simp+
  from reader_data_pointer_safe [OF this] show ?thesis by simp
qed



text \<open>
  C6. The fixed-width codecs of \<open>MatterEncoding.h\<close> are inverse to each other, in both byte orders: what was
  written is read back, and the pointer advances by the width.
\<close>

theorem encoding_roundtrip:
  "LE_Read16 (LE_Write16 a @ p) = Some (a, p) \<and> LE_Read32 (LE_Write32 b @ p) = Some (b, p) \<and>
   LE_Read64 (LE_Write64 c @ p) = Some (c, p) \<and> BE_Read16 (BE_Write16 a @ p) = Some (a, p) \<and>
   BE_Read32 (BE_Write32 b @ p) = Some (b, p) \<and> BE_Read64 (BE_Write64 c @ p) = Some (c, p)"
  by (simp add: le16.read_write le32.read_write le64.read_write be16.read_write be32.read_write be64.read_write)

section \<open>The dissector\<close>

text \<open>
  C7. Balance of the container stack: entering a container and leaving it again, whatever was read in
  between, returns to the same enclosing containers, the same container type and the same last item
  and byte range. The stack grows as needed and is never read outside its entries.
\<close>

theorem dissector_container_balance:
  assumes "dissector_inv d" and "Dissector_EnterContainer E d = Some (MATTER_NO_ERROR, d1)"
    and "loop_post d1 d2"
  shows "\<exists>err d3. Dissector_ExitContainer d2 = Some (err, d3) \<and> frames d3 = frames d \<and>
    (err = MATTER_NO_ERROR \<longrightarrow> dissector_inv d3 \<and> mContainerType d3 = mContainerType d \<and>
       mLastItem d3 = mLastItem d \<and> mElemStart d3 = mElemStart d \<and> mElemLen d3 = mElemLen d)"
proof -
  let ?c = "\<lparr>ContainerType = mContainerType d, ContainerItem = mLastItem d,
      CtxElemStart = mElemStart d, CtxElemLen = mElemLen d\<rparr>"
  have "frames d1 = frames d @ [Some ?c]"
    using Dissector_EnterContainer_spec [OF assms(1), of E] assms(2) by simp
  then have "between_inv d2" "frames d2 = frames d @ [Some ?c]" using assms(3) by (simp_all add: loop_post_def)
  from Dissector_ExitContainer_spec [OF this] show ?thesis by (auto simp: returns_def)
qed

lemmas sample_defs = blank_reader_def tlv_reader.defs tlv_dissector.defs dissector_inv_def between_inv_def
  stack_inv_def depth_room_def frames_def entries_def reader_inv_def remaining_def elem8_def ElementType_def

definition blank_dissector :: dissector where
  "blank_dissector = tlv_reader.extend blank_reader \<lparr>mSourceBufBaseOffset = 0, mElemStart = 0, mElemLen = 0,
     mLastItem = None, mContainerStack = None, mContainerStackSize = 0, mContainerDepth = 0, trace = []\<rparr>"

definition host :: env where
  "host = \<lparr>proto_registrar_get_ftype = (\<lambda>_. FT_UINT32), malloc_ok = (\<lambda>_. True), realloc_ok = (\<lambda>_. True),
     ws_escape_string = text_of, fmt_17g = (\<lambda>_. ''1'')\<rparr>"

definition struct_dissector :: dissector where
  "struct_dissector = blank_dissector\<lparr>mControlByte := 0x15, mBuf := [0x15, 0x18], mReadPoint := 1, mBufEnd := 2,
     mLenRead := 1, mMaxLen := 2, mContainerType := kTLVType_NotSpecified, mElemTag := AnonymousTag,
     mElemLen := 2\<rparr>"

lemma struct_dissector_inv: "dissector_inv struct_dissector"
  by (simp add: struct_dissector_def blank_dissector_def sample_defs TLVTypeIsContainer_def TLVTypeHasLength_def)

definition struct_entered :: dissector where
  "struct_entered = (case Dissector_EnterContainer host struct_dissector of Some (_, d) \<Rightarrow> d)"

lemma struct_entered:
  "Dissector_EnterContainer host struct_dissector = Some (MATTER_NO_ERROR, struct_entered)"
  by (simp add: struct_entered_def host_def struct_dissector_def blank_dissector_def sample_defs
      Dissector_EnterContainer_def EnterContainer_def PushContainer_def TLVTypeIsContainer_def
      resize_def ClearElementState_def SetContainerOpen_def)

lemma struct_entered_inv: "dissector_inv struct_entered"
  using Dissector_EnterContainer_spec [OF struct_dissector_inv, of host] struct_entered by simp

theorem dissector_container_balance_witness:
  "\<exists>err d3. Dissector_ExitContainer struct_entered = Some (err, d3) \<and> frames d3 = frames struct_dissector \<and>
    (err = MATTER_NO_ERROR \<longrightarrow> dissector_inv d3 \<and> mContainerType d3 = mContainerType struct_dissector \<and>
       mLastItem d3 = mLastItem struct_dissector \<and> mElemStart d3 = mElemStart struct_dissector \<and>
       mElemLen d3 = mElemLen struct_dissector)"
  by (rule dissector_container_balance [OF struct_dissector_inv struct_entered])
    (simp add: loop_post_def dissector_invD(1) [OF struct_entered_inv])

text \<open>
  C8. Lists: \<open>AddListItem\<close> with the handler \<open>AddTypedItem\<close> returns on every input and, when it succeeds,
  leaves the dissector on the same element with the same enclosing containers; items are only added.
\<close>

theorem dissector_typed_list:
  assumes "dissector_inv d"
  shows "\<exists>err d'. AddListItem E tree hf ett (\<lambda>t. AddTypedItem E t hf') d = Some (err, d') \<and>
    (err = MATTER_NO_ERROR \<longrightarrow> dissector_inv d' \<and> frames d' = frames d \<and>
       mContainerType d' = mContainerType d \<and> (\<exists>calls. trace d' = trace d @ calls))"
  using typed_item.AddListItem_keeps [OF assms, of E tree hf ett E hf'] by (auto simp: returns_def keeps_def)

definition list_dissector :: dissector where
  "list_dissector = struct_dissector\<lparr>mControlByte := 0x16, mBuf := [0x16, 0x04, 1, 0x18], mBufEnd := 4,
     mMaxLen := 4, mElemLen := 4\<rparr>"

lemma list_dissector_inv: "dissector_inv list_dissector"
  by (simp add: list_dissector_def struct_dissector_def blank_dissector_def sample_defs TLVTypeIsContainer_def
      TLVTypeHasLength_def)

theorem dissector_typed_list_witness:
  "\<exists>err d'. AddListItem host None 1 2 (\<lambda>t. AddTypedItem host t 3) list_dissector = Some (err, d') \<and>
    (err = MATTER_NO_ERROR \<longrightarrow> dissector_inv d' \<and> frames d' = frames list_dissector \<and>
       mContainerType d' = mContainerType list_dissector \<and> (\<exists>calls. trace d' = trace list_dissector @ calls))"
  by (rule dissector_typed_list [OF list_dissector_inv])



text \<open>
  C10. The printer implements the layout: started on the encoding of a well-formed element, \<open>Next\<close> and
  \<open>AddGenericTLVItem\<close> succeed and add exactly the lines of the element's layout, one per leaf and two per
  container, in order, indented by depth, each with the byte range its element has in the input.
\<close>

theorem generic_item_layout:
  assumes "wf_tlv kProfileIdNotSpecified kTLVType_NotSpecified e" and "memory_ok E"
    and "body_ok suppressTag False 0 kProfileIdNotSpecified rest e"
    and "unat dataLen = length (encode e @ rest)" and "unat dataLen < 2147483648"
    and "mContainerStack d = None" and "mContainerStackSize d = 0"
  shows "\<exists>d1 d2. Dissector_Next (Dissector_Init (encode e @ rest) dataLen base d) = Some (MATTER_NO_ERROR, d1) \<and>
    AddGenericTLVItem E tree hf suppressTag d1 = Some (MATTER_NO_ERROR, d2) \<and>
    trace d2 = trace d @ layout E tree hf base kProfileIdNotSpecified suppressTag False 0 0 e"
proof -
  let ?d = "Dissector_Init (encode e @ rest) dataLen base d"
  note I = Init_buf_ahead [OF assms(4), of "[]" d]
  have f: "ElementType ?d = kTLVElementType_NotSpecified" "ImplicitProfileId ?d = kProfileIdNotSpecified"
    "mContainerType ?d = kTLVType_NotSpecified" "mMaxLen ?d = dataLen" "mSourceBufBaseOffset ?d = base"
    "trace ?d = trace d"
    using I by (simp_all add: Dissector_Init_def)
      (simp_all add: Init_buf_def Let_def ClearElementState_def SetContainerOpen_def ElementType_def)
  have "ahead ?d (encode e @ rest)" using I(1) by (simp add: Dissector_Init_def ahead_def remaining_def)
  then have b: "behind ?d (encode e @ rest)" by (rule behind_clear [OF _ f(1)])
  have inv: "between_inv ?d"
    by (rule dissector_invD(1) [OF Dissector_Init_inv]) (use assms(4-7) in simp_all)
  obtain d1 where d1: "Dissector_Next ?d = Some (MATTER_NO_ERROR, d1)" "on_elem d1 e rest" "same_config ?d d1"
    "trace d1 = trace ?d"
    using Dissector_Next_on_elem [OF b inv] assms(1) f(2,3) by auto
  have cfg: "ImplicitProfileId d1 = kProfileIdNotSpecified" "mMaxLen d1 = dataLen" "mSourceBufBaseOffset d1 = base"
    using d1(3) f by (simp_all add: same_config_def)
  have "item_shows E tree hf suppressTag False 0 e rest d1"
    by (rule AddGenericTLV_layout [OF d1(2) assms(2)]) (use assms(3) cfg in simp)
  then show ?thesis using d1(1,4) f(6) cfg assms(4) by (auto simp: item_shows_def AddGenericTLVItem_def)
qed

definition sample_struct :: tlv where
  "sample_struct = Node TAnonymous 0x15 [Leaf (TContext 1) 0x04 42 [], Leaf (TContext 2) 0x10 2 [104, 105],
     Node (TContext 3) 0x16 [Leaf TAnonymous 0x09 0 []]]"

theorem generic_item_layout_witness:
  "\<exists>d1 d2. Dissector_Next (Dissector_Init (encode sample_struct @ []) 14 4 blank_dissector) = Some (MATTER_NO_ERROR, d1) \<and>
    AddGenericTLVItem host None 3 True d1 = Some (MATTER_NO_ERROR, d2) \<and>
    trace d2 = trace blank_dissector @ layout host None 3 4 kProfileIdNotSpecified True False 0 0 sample_struct"
proof (rule generic_item_layout)
  show "wf_tlv kProfileIdNotSpecified kTLVType_NotSpecified sample_struct" by code_simp
  show "unat (14 :: u32) = length (encode sample_struct @ [])" by code_simp
qed (simp_all add: memory_ok_def host_def body_ok_def sample_struct_def blank_dissector_def tlv_reader.defs)

text \<open>
  C11. The case that C9 leaves out is a null pointer write: an empty byte string whose tag is not shown
  leaves the string buffer unallocated, and \<open>AddGenericTLVItem\<close> then stores a terminator through it. A packet reaches
  it: a status report, which needs no session, whose data begin with an empty byte string without a tag.
\<close>

theorem generic_item_empty_bytes:
  "(on_elem d (Leaf g 0x10 0 []) (b # rest) \<and> (suppressTag \<or> tag_text (mElemTag d) = None) \<longrightarrow>
      AddGenericTLVItem E tree hf suppressTag d = None) \<and>
   (length codes = 8 \<and> length rest < 60000 \<and> mi_payloadLen mi = of_nat (11 + length rest) \<longrightarrow>
      DissectStatusReport R (codes @ [0x10, 0] @ b # rest) mi tree (v, t) = None)"
  by (intro conjI impI; elim conjE) (rule generic_empty_bytes status_report_crash; assumption)+

definition empty_bytes_dissector :: dissector where
  "empty_bytes_dissector = struct_dissector\<lparr>mControlByte := 0x10, mBuf := [0x10, 0, 0x14], mReadPoint := 2,
     mBufEnd := 3, mLenRead := 2, mMaxLen := 3, ImplicitProfileId := kProfileIdNotSpecified, mElemLen := 2\<rparr>"

text \<open>The report of a failure without data is shown; with the three bytes behind it, it is the crash.\<close>

theorem generic_item_empty_bytes_witness:
  "AddGenericTLVItem host None 3 True empty_bytes_dissector = None \<and>
   DissectStatusReport sample_registry [1, 0, 0, 0, 0, 0, 2, 0, 0x10, 0, 0x14]
     (MatterMessageInfo\<lparr>mi_payloadLen := 11, mi_msgRec := Some 0\<rparr>) None (no_view, ms_tracker two_messages) = None \<and>
   DissectStatusReport sample_registry [1, 0, 0, 0, 0, 0, 2, 0]
     (MatterMessageInfo\<lparr>mi_payloadLen := 8, mi_msgRec := Some 0\<rparr>) None (no_view, ms_tracker two_messages) \<noteq> None"
proof (intro conjI)
  have "wf_tlv kProfileIdNotSpecified kTLVType_NotSpecified (Leaf TAnonymous 0x10 0 [])" by code_simp
  moreover have "encode (Leaf TAnonymous 0x10 0 []) = [0x10, 0]" by code_simp
  ultimately have "on_elem empty_bytes_dissector (Leaf TAnonymous 0x10 0 []) (0x14 # [])"
    by (simp add: on_elem_def empty_bytes_dissector_def struct_dissector_def blank_dissector_def sample_defs
        elem_body_def ahead_def TLVTypeIsContainer_def TLVTypeHasLength_def)
  then show "AddGenericTLVItem host None 3 True empty_bytes_dissector = None"
    using generic_item_empty_bytes [of empty_bytes_dissector TAnonymous "0x14" "[]" True] by blast
  show "DissectStatusReport sample_registry [1, 0, 0, 0, 0, 0, 2, 0, 0x10, 0, 0x14]
     (MatterMessageInfo\<lparr>mi_payloadLen := 11, mi_msgRec := Some 0\<rparr>) None (no_view, ms_tracker two_messages) = None"
    using generic_item_empty_bytes [of _ _ "0x14" "[]" _ _ _ _ "[1, 0, 0, 0, 0, 0, 2, 0]"
        "MatterMessageInfo\<lparr>mi_payloadLen := 11, mi_msgRec := Some 0\<rparr>" sample_registry no_view "ms_tracker two_messages"] by simp
  have "map_option fst (DissectStatusReport sample_registry [1, 0, 0, 0, 0, 0, 2, 0]
     (MatterMessageInfo\<lparr>mi_payloadLen := 8, mi_msgRec := Some 0\<rparr>) None (no_view, ms_tracker two_messages)) = Some 8"
    by code_simp
  then show "DissectStatusReport sample_registry [1, 0, 0, 0, 0, 0, 2, 0]
     (MatterMessageInfo\<lparr>mi_payloadLen := 8, mi_msgRec := Some 0\<rparr>) None (no_view, ms_tracker two_messages) \<noteq> None"
    by auto
qed



section \<open>The message tracker\<close>

text \<open>
  C13. The tracker refines tables of lists: for a packet without a record, \<open>FindOrCreateMessageRecord\<close> (when
  the fingerprint can be computed) returns a new record, which stands last in the list of its message key
  and in the list of its exchange key; all other lists, and the facts of all older records, are kept.
\<close>

theorem tracker_adds_record:
  assumes "tracker_inv t M X" and "proto_data t (fd_num pinfo) = None"
    and "ComputeMessageFingerprint crc32 crc32_seed tvb mi = Some fp"
  shows "\<exists>t'. FindOrCreateMessageRecord crc32 crc32_seed tvb pinfo mi t = Some (length (records t), t') \<and>
    tracker_inv t' (M(message_key pinfo mi := M (message_key pinfo mi) @ [length (records t)]))
      (X(message_exchange mi := X (message_exchange mi) @ [length (records t)])) \<and>
    FindMessageRecord pinfo t' = Some (length (records t)) \<and>
    frameNum (records t' ! length (records t)) = fd_num pinfo \<and>
    fingerprint (records t' ! length (records t)) = fp \<and>
    (\<forall>i < length (records t). same_facts (records t ! i) (records t' ! i))"
proof -
  obtain t' where "FindOrCreateMessageRecord crc32 crc32_seed tvb pinfo mi t = Some (length (records t), t')"
    "tracker_inv t' (M(message_key pinfo mi := M (message_key pinfo mi) @ [length (records t)]))
      (X(message_exchange mi := X (message_exchange mi) @ [length (records t)]))"
    "proto_data t' = (proto_data t)(fd_num pinfo := Some (length (records t)))"
    "frameNum (records t' ! length (records t)) = fd_num pinfo"
    "fingerprint (records t' ! length (records t)) = fp"
    "\<And>i. i < length (records t) \<Longrightarrow> same_facts (records t ! i) (records t' ! i)"
    by (rule FindOrCreateMessageRecord_new [OF assms]) (rule that, assumption+)
  then show ?thesis by (simp add: FindMessageRecord_def)
qed

definition crc :: "byte list \<Rightarrow> u32" where
  "crc bs = foldl (\<lambda>a b. a * 31 + ucast b) 7 bs"

definition crc_from :: "byte list \<Rightarrow> u32 \<Rightarrow> u32" where
  "crc_from bs s = foldl (\<lambda>a b. a * 31 + ucast b) s bs"

theorem tracker_adds_record_witness:
  "\<exists>t'. FindOrCreateMessageRecord crc crc_from [] udp_packet MatterMessageInfo no_tracker = Some (length (records no_tracker), t') \<and>
    tracker_inv t' ((\<lambda>_. [])(message_key udp_packet MatterMessageInfo := [] @ [length (records no_tracker)]))
      ((\<lambda>_. [])(message_exchange MatterMessageInfo := [] @ [length (records no_tracker)])) \<and>
    FindMessageRecord udp_packet t' = Some (length (records no_tracker)) \<and>
    frameNum (records t' ! length (records no_tracker)) = fd_num udp_packet \<and>
    fingerprint (records t' ! length (records no_tracker)) = crc_from [] (NOT (crc (pseudo_header MatterMessageInfo))) \<and>
    (\<forall>i < length (records no_tracker). same_facts (records no_tracker ! i) (records t' ! i))"
  by (rule tracker_adds_record [OF no_tracker_inv])
    (simp_all add: no_tracker_def ComputeMessageFingerprint_def MatterMessageInfo_def tvb_range_def load_bytes_def Let_def)

text \<open>
  C14. Retransmissions: for a record \<open>m\<close> with the messages \<open>xs\<close> before it and \<open>ys\<close> behind it under its key,
  \<open>FindRetransmissions\<close> returns the number of copies before it and in all, and as the original the copy of
  the lowest frame number among those before it, if there is one.
\<close>

theorem tracker_retransmissions:
  assumes "tracker_inv t M X" and "M k = xs @ m # ys"
  shows "\<exists>first. FindRetransmissions m mi t = Some (mi\<lparr>mi_retransOfMsg := first,
      mi_retransNum := of_nat (length (copies (records t) (fingerprint (records t ! m)) xs)),
      mi_totalRetrans := of_nat (length (copies (records t) (fingerprint (records t ! m)) (xs @ ys)))\<rparr>) \<and>
    is_earliest (records t) (set (copies (records t) (fingerprint (records t ! m)) xs)) first"
  by (rule FindRetransmissions_spec [OF assms]) blast

definition tracker2 :: tracker where
  "tracker2 = \<lparr>records = [zero_record\<lparr>frameNum := 1, fingerprint := 9, nextByMsgCntr := Some 1, nextByExchange := Some 1\<rparr>,
       zero_record\<lparr>frameNum := 2, fingerprint := 9, isInitiator := True, prevByMsgCntr := Some 0, prevByExchange := Some 0\<rparr>],
     tables = Some (\<lambda>tb k. if tb = UnencryptedUDP \<and> k = [0, 0, 0] \<or> tb = ExchangeTable \<and> k = [0, 0, 0, 0, 0]
       then Some 0 else None), proto_data = (\<lambda>_. None)\<rparr>"

definition messages2 :: "table_id \<times> tree_key \<Rightarrow> rec_id list" where
  "messages2 k = (if k = (UnencryptedUDP, [0, 0, 0]) then [0, 1] else [])"

definition exchanges2 :: "tree_key \<Rightarrow> rec_id list" where
  "exchanges2 k = (if k = [0, 0, 0, 0, 0] then [0, 1] else [])"

lemma tracker2_inv: "tracker_inv tracker2 messages2 exchanges2"
  by (auto simp: tracker_inv_def by_cntr.lists_ok_def by_exchange.lists_ok_def messages2_def exchanges2_def
      tracker2_def message_table_def exchange_table_def tree_lookup_def zero_record_def)

theorem tracker_retransmissions_witness:
  "\<exists>first. FindRetransmissions 1 MatterMessageInfo tracker2 = Some (MatterMessageInfo\<lparr>mi_retransOfMsg := first,
      mi_retransNum := of_nat (length (copies (records tracker2) (fingerprint (records tracker2 ! 1)) [0])),
      mi_totalRetrans := of_nat (length (copies (records tracker2) (fingerprint (records tracker2 ! 1)) ([0] @ [])))\<rparr>) \<and>
    is_earliest (records tracker2) (set (copies (records tracker2) (fingerprint (records tracker2 ! 1)) [0])) first"
  by (rule tracker_retransmissions [OF tracker2_inv, of "(UnencryptedUDP, [0, 0, 0])"]) (simp add: messages2_def)

text \<open>
  C15. Reused message counters: \<open>FindReusedMessageIds\<close> names the message of the lowest frame number among the
  earlier messages with the same key and another fingerprint, if there is one.
\<close>

theorem tracker_reused_counters:
  assumes "tracker_inv t M X" and "M k = xs @ m # ys"
  shows "\<exists>first. FindReusedMessageIds m mi t = Some (mi\<lparr>mi_reusesMsgCntrFrom := first\<rparr>) \<and>
    is_earliest (records t) {p \<in> set xs. fingerprint (records t ! p) \<noteq> fingerprint (records t ! m)} first"
  by (rule FindReusedMessageIds_spec [OF assms]) blast

theorem tracker_reused_counters_witness:
  "\<exists>first. FindReusedMessageIds 1 MatterMessageInfo tracker2 = Some (MatterMessageInfo\<lparr>mi_reusesMsgCntrFrom := first\<rparr>) \<and>
    is_earliest (records tracker2)
      {p \<in> set [0]. fingerprint (records tracker2 ! p) \<noteq> fingerprint (records tracker2 ! 1)} first"
  by (rule tracker_reused_counters [OF tracker2_inv, of "(UnencryptedUDP, [0, 0, 0])"]) (simp add: messages2_def)

text \<open>
  C16. The start of an exchange: \<open>FindStartOfExchange\<close> returns a record of the exchange up to \<open>m\<close>, namely the
  first of the run of copies of the initiator's last message before which the run breaks off, or the first
  message of all when the initiator has sent none.
\<close>

theorem tracker_exchange_start:
  assumes "tracker_inv t M X" and "X k = xs @ m # ys"
  shows "\<exists>as bs cs r. xs @ [m] = as @ bs @ cs \<and> FindStartOfExchange (Some m) t = Some (Some r) \<and>
    run_start (records t) as bs cs r"
  by (rule FindStartOfExchange_spec [OF assms]) blast

theorem tracker_exchange_start_witness:
  "\<exists>as bs cs r. [0] @ [1] = as @ bs @ cs \<and> FindStartOfExchange (Some 1) tracker2 = Some (Some r) \<and>
    run_start (records tracker2) as bs cs r"
  by (rule tracker_exchange_start [OF tracker2_inv, of "[0, 0, 0, 0, 0]"]) (simp add: exchanges2_def)

text \<open>
  C17. Acknowledgements: \<open>FindAckedMessages\<close> keeps the tables, changes nothing of a record but the message that
  acknowledged it, and names the latest earlier message with the acknowledged counter. It looks for one only
  when the message version is above 1.
\<close>

theorem tracker_acked_messages:
  assumes "tracker_inv t M X" and "mi_ackedMsg mi = None"
  shows "\<exists>a recs. FindAckedMessages pinfo m mi t = Some (mi\<lparr>mi_ackedMsg := a\<rparr>, t\<lparr>records := recs\<rparr>) \<and>
    tracker_inv (t\<lparr>records := recs\<rparr>) M X \<and> same_but_acks (records t) recs \<and>
    is_latest (records t)
      (if ptype pinfo = PT_UDP \<and> mi_msgVersion mi > 1 \<and> mi_exchHeader mi AND kMatterExchangeFlag_AckId \<noteq> 0
       then {p \<in> set (M (acked_key mi)). frameNum (records t ! p) < frameNum (records t ! m)} else {}) a"
  by (rule FindAckedMessages_spec [OF assms]) blast

theorem tracker_acked_messages_witness:
  "\<exists>a recs. FindAckedMessages udp_packet 1 (MatterMessageInfo\<lparr>mi_msgVersion := 2, mi_exchHeader := 2\<rparr>) tracker2 =
      Some (MatterMessageInfo\<lparr>mi_msgVersion := 2, mi_exchHeader := 2\<rparr>\<lparr>mi_ackedMsg := a\<rparr>, tracker2\<lparr>records := recs\<rparr>) \<and>
    tracker_inv (tracker2\<lparr>records := recs\<rparr>) messages2 exchanges2 \<and> same_but_acks (records tracker2) recs \<and>
    is_latest (records tracker2)
      (if ptype udp_packet = PT_UDP \<and> mi_msgVersion (MatterMessageInfo\<lparr>mi_msgVersion := 2, mi_exchHeader := 2\<rparr>) > 1 \<and>
          mi_exchHeader (MatterMessageInfo\<lparr>mi_msgVersion := 2, mi_exchHeader := 2\<rparr>) AND kMatterExchangeFlag_AckId \<noteq> 0
       then {p \<in> set (messages2 (acked_key (MatterMessageInfo\<lparr>mi_msgVersion := 2, mi_exchHeader := 2\<rparr>))).
          frameNum (records tracker2 ! p) < frameNum (records tracker2 ! 1)} else {}) a"
  by (rule tracker_acked_messages [OF tracker2_inv]) (simp add: MatterMessageInfo_def)


end
